(* ===== verification/Prelude.thy ===== *)
theory Prelude
  imports Complex_Main "HOL-Library.AList" "HOL-Library.Char_ord" "HOL-Library.List_Lexorder"
    "HOL-Library.Product_Lexorder" "HOL-Library.Sublist"
begin

text \<open>
  Shared vocabulary of the development.

  \<^item> Python values: exceptions as the datatype \<open>exn\<close> (class and message), results of code that
    may raise as \<open>exn + 'a\<close> with \<open>bindR\<close>, JSON-like values as the datatype \<open>json\<close> (a dict is an
    association list in insertion order), Python's \<open>==\<close> on them as \<open>py_eq\<close>.
  \<^item> Scalars: a \<open>datetime\<close> is the \<open>int\<close> number of microseconds since the epoch (UTC); a \<open>UUID\<close> is
    its canonical text, whose lexicographic order is the order of the 128-bit value; a \<open>str\<close> is a
    \<open>string\<close> over ASCII, compared code point by code point as Python does.
  \<^item> The regular expressions of the sources become character-class predicates and a substring
    search that scans for the same alternatives.
  \<^item> Generic lemmas on lists, association lists and on the row update of a table.
\<close>

named_theorems row_simps "field access after the updates of a row"
named_theorems class_simps "character classes"

type_synonym uuid = string
type_synonym time = int

subsection \<open>Exceptions and results\<close>

datatype exn =
    ValueError string
  | TargetConfigError string
  | TargetRepositoryError string
  | CursorContractError string
  | ContinuationContractError string
  | ProjectionContractError string
  | DownstreamPersistenceError string
  | CredentialResolutionError string
  | LookupError string
  | KeyError string
  | TypeError string
  | IndexError string
  | OverflowError string
  | RuntimeError string
  | AssertionError
  | TargetLockLost string
  | SQLAlchemyError string
  | HandoffConflict string
  | RichEvidenceError string

text \<open>The subclass relation the handlers of the sources rely on: the contract errors, the handoff conflict and the packet error derive
  from \<open>ValueError\<close>, repository, persistence, credential and lock errors from \<open>RuntimeError\<close>, and
  \<open>KeyError\<close> and \<open>IndexError\<close> from \<open>LookupError\<close>.\<close>

fun is_ValueError :: "exn \<Rightarrow> bool" where
  "is_ValueError (ValueError _) = True"
| "is_ValueError (TargetConfigError _) = True"
| "is_ValueError (CursorContractError _) = True"
| "is_ValueError (ContinuationContractError _) = True"
| "is_ValueError (ProjectionContractError _) = True"
| "is_ValueError (HandoffConflict _) = True"
| "is_ValueError (RichEvidenceError _) = True"
| "is_ValueError _ = False"

fun is_RuntimeError :: "exn \<Rightarrow> bool" where
  "is_RuntimeError (RuntimeError _) = True"
| "is_RuntimeError (TargetRepositoryError _) = True"
| "is_RuntimeError (DownstreamPersistenceError _) = True"
| "is_RuntimeError (CredentialResolutionError _) = True"
| "is_RuntimeError (TargetLockLost _) = True"
| "is_RuntimeError _ = False"

type_synonym 'a res = "exn + 'a"

definition bindR :: "'a res \<Rightarrow> ('a \<Rightarrow> 'b res) \<Rightarrow> 'b res" where
  "bindR m f = (case m of Inl e \<Rightarrow> Inl e | Inr x \<Rightarrow> f x)"

lemma bindR_simps [simp]:
  "bindR (Inl e) f = Inl e"
  "bindR (Inr x) f = f x"
  by (simp_all add: bindR_def)

lemma bindR_Inr_iff: "bindR m f = Inr y \<longleftrightarrow> (\<exists>x. m = Inr x \<and> f x = Inr y)"
  by (cases m) simp_all

lemma bindR_Inl_iff: "bindR m f = Inl e \<longleftrightarrow> m = Inl e \<or> (\<exists>x. m = Inr x \<and> f x = Inl e)"
  by (cases m) simp_all

lemma bindR_cong [fundef_cong]:
  "m = m' \<Longrightarrow> (\<And>x. m' = Inr x \<Longrightarrow> f x = g x) \<Longrightarrow> bindR m f = bindR m' g"
  by (cases m') simp_all

text \<open>A loop whose body may raise: the comprehension stops at the first exception.\<close>

fun mapR :: "('a \<Rightarrow> 'b res) \<Rightarrow> 'a list \<Rightarrow> 'b list res" where
  "mapR f [] = Inr []"
| "mapR f (x # xs) = bindR (f x) (\<lambda>y. bindR (mapR f xs) (\<lambda>ys. Inr (y # ys)))"

lemma mapR_Inr_length: "mapR f xs = Inr ys \<Longrightarrow> length ys = length xs"
  by (induction xs arbitrary: ys) (auto simp: bindR_Inr_iff)

lemma mapR_Inr_nth:
  "mapR f xs = Inr ys \<Longrightarrow> i < length xs \<Longrightarrow> f (xs ! i) = Inr (ys ! i)"
proof (induction xs arbitrary: ys i)
  case (Cons x xs)
  then show ?case by (cases i) (auto simp: bindR_Inr_iff)
qed simp

lemma mapR_Inr_all2: "mapR f xs = Inr ys \<longleftrightarrow> list_all2 (\<lambda>x y. f x = Inr y) xs ys"
  by (induction xs arbitrary: ys) (auto simp: bindR_Inr_iff list_all2_Cons1)

lemma mapR_fixpoint: "(\<And>x. x \<in> set xs \<Longrightarrow> f x = Inr x) \<Longrightarrow> mapR f xs = Inr xs"
  by (induction xs) simp_all

lemma mapR_range:
  assumes "mapR f xs = Inr ys" and "y \<in> set ys"
  obtains x where "x \<in> set xs" and "f x = Inr y"
proof -
  from assms(2) obtain i where i: "i < length ys" "y = ys ! i"
    by (auto simp: in_set_conv_nth)
  with assms(1) have "i < length xs" by (simp add: mapR_Inr_length)
  with assms(1) i have "xs ! i \<in> set xs" "f (xs ! i) = Inr y"
    by (auto dest: mapR_Inr_nth)
  then show ?thesis by (rule that)
qed

subsection \<open>JSON values\<close>

datatype pyfloat = FNan | FInf bool | FFin rat

datatype json =
    JNull
  | JBool bool
  | JInt int
  | JFloat pyfloat
  | JStr string
  | JList "json list"
  | JObj "(string \<times> json) list"

type_synonym dict = "(string \<times> json) list"

text \<open>The number a value stands for under Python's \<open>==\<close> (\<open>True == 1 == 1.0\<close>).\<close>

fun num_of :: "json \<Rightarrow> rat option" where
  "num_of (JBool b) = Some (if b then 1 else 0)"
| "num_of (JInt n) = Some (of_int n)"
| "num_of (JFloat (FFin r)) = Some r"
| "num_of _ = None"

fun py_eq :: "json \<Rightarrow> json \<Rightarrow> bool"
  and py_eq_list :: "json list \<Rightarrow> json list \<Rightarrow> bool"
  and py_eq_sub :: "dict \<Rightarrow> dict \<Rightarrow> bool" where
  "py_eq JNull w = (w = JNull)"
| "py_eq (JBool b) w = (num_of w = Some (if b then 1 else 0))"
| "py_eq (JInt n) w = (num_of w = Some (of_int n))"
| "py_eq (JFloat FNan) w = False"
| "py_eq (JFloat (FInf s)) w = (w = JFloat (FInf s))"
| "py_eq (JFloat (FFin r)) w = (num_of w = Some r)"
| "py_eq (JStr s) w = (w = JStr s)"
| "py_eq (JList xs) w = (case w of JList ys \<Rightarrow> py_eq_list xs ys | _ \<Rightarrow> False)"
| "py_eq (JObj a) w =
     (case w of JObj b \<Rightarrow> length a = length b \<and> py_eq_sub a b | _ \<Rightarrow> False)"
| "py_eq_list [] ys = (ys = [])"
| "py_eq_list (x # xs) ys =
     (case ys of [] \<Rightarrow> False | y # ys' \<Rightarrow> py_eq x y \<and> py_eq_list xs ys')"
| "py_eq_sub [] b = True"
| "py_eq_sub ((k, v) # a) b =
     ((case map_of b k of None \<Rightarrow> False | Some w \<Rightarrow> py_eq v w) \<and> py_eq_sub a b)"

text \<open>\<open>d.get(k)\<close> (\<open>None\<close> is \<open>JNull\<close>), \<open>d.get(k, default)\<close>, \<open>d[k]\<close> and \<open>set(d) == keys\<close>.\<close>

definition dget :: "dict \<Rightarrow> string \<Rightarrow> json" where
  "dget d k = (case map_of d k of None \<Rightarrow> JNull | Some v \<Rightarrow> v)"

definition dget_default :: "dict \<Rightarrow> string \<Rightarrow> json \<Rightarrow> json" where
  "dget_default d k v0 = (case map_of d k of None \<Rightarrow> v0 | Some v \<Rightarrow> v)"

definition dindex :: "dict \<Rightarrow> string \<Rightarrow> json res" where
  "dindex d k = (case map_of d k of None \<Rightarrow> Inl (KeyError k) | Some v \<Rightarrow> Inr v)"

definition keys_of :: "dict \<Rightarrow> string set" where
  "keys_of d = set (map fst d)"

definition has_key :: "dict \<Rightarrow> string \<Rightarrow> bool" where
  "has_key d k = (map_of d k \<noteq> None)"

text \<open>\<open>d[k] = v\<close> keeps the position of an existing key.\<close>

abbreviation dput :: "string \<Rightarrow> json \<Rightarrow> dict \<Rightarrow> dict" where
  "dput \<equiv> AList.update"

lemma keys_of_dput [simp]: "keys_of (dput k v d) = insert k (keys_of d)"
  by (simp add: keys_of_def dom_update)

lemma map_of_dput [simp]: "map_of (dput k v d) k' = (if k' = k then Some v else map_of d k')"
  by (simp add: update_conv')

lemma dput_same: "map_of d k = Some v \<Longrightarrow> dput k v d = d"
  by (induction d) (auto split: if_splits)

lemma dget_dput [simp]: "dget (dput k v d) k' = (if k' = k then v else dget d k')"
  by (simp add: dget_def)

lemma dput_dget: "k \<in> keys_of d \<Longrightarrow> dget d k = v \<Longrightarrow> dput k v d = d"
  by (rule dput_same) (auto simp: dget_def keys_of_def map_of_eq_None_iff split: option.splits)

fun truthy :: "json \<Rightarrow> bool" where
  "truthy JNull = False"
| "truthy (JBool b) = b"
| "truthy (JInt n) = (n \<noteq> 0)"
| "truthy (JFloat (FFin r)) = (r \<noteq> 0)"
| "truthy (JFloat _) = True"
| "truthy (JStr s) = (s \<noteq> [])"
| "truthy (JList xs) = (xs \<noteq> [])"
| "truthy (JObj d) = (d \<noteq> [])"

subsection \<open>Library functions the sources call\<close>

text \<open>
  Parsers, printers and digests of the runtime are a parameter of the definitions that use them;
  a theorem names what it needs of them.  \<open>json_loads\<close> and \<open>fromisoformat\<close> return \<open>None\<close> where Python
  raises \<open>ValueError\<close>; \<open>fromisoformat\<close> also tells whether the result carries a time zone.
  \<open>canonical_dumps\<close> is \<open>json.dumps\<close> with sorted keys, compact separators and \<open>allow_nan=False\<close>
  (\<open>None\<close> where it raises), \<open>plain_dumps\<close> is \<open>json.dumps(.., sort_keys=True)\<close>,
  \<open>stable_dumps\<close> the same with compact separators, \<open>float_timestamp\<close> is \<open>datetime.fromtimestamp\<close> of a float in UTC (\<open>None\<close> where it raises), \<open>iso_normal\<close> reads an ISO text, takes UTC for a missing
  time zone and prints it again, \<open>float_text\<close> is \<open>float(_)\<close> and \<open>date_ordinal\<close> the ordinal of \<open>date.fromisoformat(_)\<close> (\<open>None\<close> where they raise), \<open>parse_qsl\<close> keeps blank values,
  \<open>sha256_hex\<close> the hex digest of the UTF-8 text, \<open>uuid5_url\<close> is
  \<open>uuid5(NAMESPACE_URL, _)\<close>, \<open>parse_uuid\<close> is \<open>UUID(_)\<close>, \<open>urlsplit\<close> returns \<open>None\<close> where the parser raises
  (its \<open>port\<close> is a property that may raise by itself), \<open>py_str\<close> is \<open>str(_)\<close>, \<open>isoformat_utc\<close> prints an instant in UTC.
\<close>

record urlparts =
  url_scheme :: string
  url_netloc :: string
  url_hostname :: "string option"
  url_username :: "string option"
  url_password :: "string option"
  url_port :: "int option res"
  url_path :: string
  url_query :: string

record pylib =
  json_loads :: "string \<Rightarrow> json option"
  fromisoformat :: "string \<Rightarrow> (time \<times> bool) option"
  isoformat_utc :: "time \<Rightarrow> string"
  py_str :: "json \<Rightarrow> string"
  canonical_dumps :: "json \<Rightarrow> string option"
  plain_dumps :: "json \<Rightarrow> string"
  stable_dumps :: "json \<Rightarrow> string"
  float_timestamp :: "pyfloat \<Rightarrow> time option"
  iso_normal :: "string \<Rightarrow> string option"
  float_text :: "string \<Rightarrow> pyfloat option"
  date_ordinal :: "string \<Rightarrow> int option"
  sha256_hex :: "string \<Rightarrow> string"
  uuid5_url :: "string \<Rightarrow> uuid"
  parse_uuid :: "string \<Rightarrow> uuid option"
  urlsplit :: "string \<Rightarrow> urlparts option"
  parse_qsl :: "string \<Rightarrow> (string \<times> string) list"
  urlencode :: "(string \<times> string) list \<Rightarrow> string"

subsection \<open>Characters, substrings, decimal printing\<close>

definition is_digit :: "char \<Rightarrow> bool" where
  "is_digit c = (CHR ''0'' \<le> c \<and> c \<le> CHR ''9'')"
definition is_upper :: "char \<Rightarrow> bool" where
  "is_upper c = (CHR ''A'' \<le> c \<and> c \<le> CHR ''Z'')"
definition is_lower :: "char \<Rightarrow> bool" where
  "is_lower c = (CHR ''a'' \<le> c \<and> c \<le> CHR ''z'')"
definition is_hex :: "char \<Rightarrow> bool" where
  "is_hex c = (is_digit c \<or> (CHR ''a'' \<le> c \<and> c \<le> CHR ''f''))"

definition lower_char :: "char \<Rightarrow> char" where
  "lower_char c = (if is_upper c then char_of (of_char c + 32 :: nat) else c)"
definition upper_char :: "char \<Rightarrow> char" where
  "upper_char c = (if is_lower c then char_of (of_char c - 32 :: nat) else c)"

definition lower :: "string \<Rightarrow> string" where "lower s = map lower_char s"
definition upper :: "string \<Rightarrow> string" where "upper s = map upper_char s"

text \<open>The characters \<open>str.split()\<close> and \<open>str.strip()\<close> treat as white space, within ASCII.\<close>

definition is_space :: "char \<Rightarrow> bool" where
  "is_space c = (c = CHR '' '' \<or> (9 \<le> (of_char c :: nat) \<and> (of_char c :: nat) \<le> 13)
                 \<or> (28 \<le> (of_char c :: nat) \<and> (of_char c :: nat) \<le> 31))"

fun has_prefix :: "string \<Rightarrow> string \<Rightarrow> bool" where
  "has_prefix [] s = True"
| "has_prefix (p # ps) [] = False"
| "has_prefix (p # ps) (c # cs) = (p = c \<and> has_prefix ps cs)"

fun contains :: "string \<Rightarrow> string \<Rightarrow> bool" where
  "contains p [] = (p = [])"
| "contains p (c # cs) = (has_prefix p (c # cs) \<or> contains p cs)"

lemma has_prefix_iff: "has_prefix p s \<longleftrightarrow> prefix p s"
  by (induction p s rule: has_prefix.induct) (auto simp: prefix_Cons)

lemma contains_iff: "contains p s \<longleftrightarrow> sublist p s"
  by (induction s) (auto simp: has_prefix_iff sublist_Cons_right)

lemma contains_sublist: "contains p s \<Longrightarrow> sublist s t \<Longrightarrow> contains p t"
  using sublist_order.order_trans by (auto simp: contains_iff)

lemma length_lower [simp]: "length (lower s) = length s" by (simp add: lower_def)
lemma length_upper [simp]: "length (upper s) = length s" by (simp add: upper_def)

text \<open>\<open>re.fullmatch\<close> of a fixed-length pattern, of \<open>[p][q]{0,n}\<close> and of \<open>[p]{lo,hi}\<close>.\<close>

definition match_pat :: "(char \<Rightarrow> bool) list \<Rightarrow> string \<Rightarrow> bool" where
  "match_pat ps s = list_all2 (\<lambda>p c. p c) ps s"

abbreviation digits :: "nat \<Rightarrow> (char \<Rightarrow> bool) list" where "digits n \<equiv> replicate n is_digit"
abbreviation lit :: "string \<Rightarrow> (char \<Rightarrow> bool) list" where "lit s \<equiv> map (\<lambda>c x. x = c) s"

definition first_rest :: "(char \<Rightarrow> bool) \<Rightarrow> (char \<Rightarrow> bool) \<Rightarrow> nat \<Rightarrow> string \<Rightarrow> bool" where
  "first_rest p q n s =
     (case s of [] \<Rightarrow> False | c # cs \<Rightarrow> p c \<and> length cs \<le> n \<and> list_all q cs)"

definition class_range :: "(char \<Rightarrow> bool) \<Rightarrow> nat \<Rightarrow> nat \<Rightarrow> string \<Rightarrow> bool" where
  "class_range p lo hi s = (lo \<le> length s \<and> length s \<le> hi \<and> list_all p s)"

definition is_alnum :: "char \<Rightarrow> bool" where
  "is_alnum c = (is_upper c \<or> is_lower c \<or> is_digit c)"

text \<open>\<open>[A-Z][A-Z0-9.-]{0,19}\<close>, the symbol pattern of several modules.\<close>

definition symbol_pattern :: "string \<Rightarrow> bool" where
  "symbol_pattern = first_rest is_upper (\<lambda>c. is_upper c \<or> is_digit c \<or> c \<in> set ''.-'') 19"

definition hex64 :: "string \<Rightarrow> bool" where
  "hex64 = class_range is_hex 64 64"

text \<open>\<open>re.search\<close> of the case-insensitive secret pattern
  \<open>api[_-]?key|api[_-]?token|authorization|token|secret|password\<close> (the alternatives with
  \<open>x-finnhub-token\<close> add nothing, since \<open>token\<close> already matches inside it).\<close>

definition secret_search :: "string \<Rightarrow> bool" where
  "secret_search s = list_ex (\<lambda>m. contains m (lower s))
     [''apikey'', ''api_key'', ''api-key'', ''apitoken'', ''api_token'', ''api-token'',
      ''authorization'', ''token'', ''secret'', ''password'']"

text \<open>\<open>s.strip()\<close> and \<open>" ".join(s.split())\<close>.\<close>

definition strip :: "string \<Rightarrow> string" where
  "strip s = rev (dropWhile is_space (rev (dropWhile is_space s)))"

text \<open>The maximal runs of characters that are not separators, and runs of white space.\<close>

fun runs :: "(char \<Rightarrow> bool) \<Rightarrow> string \<Rightarrow> string \<Rightarrow> string list" where
  "runs sep w [] = (if w = [] then [] else [rev w])"
| "runs sep w (c # cs) =
     (if sep c then (if w = [] then runs sep [] cs else rev w # runs sep [] cs)
      else runs sep (c # w) cs)"

fun join_with :: "string \<Rightarrow> string list \<Rightarrow> string" where
  "join_with sep [] = []"
| "join_with sep [w] = w"
| "join_with sep (w # v # ws) = w @ sep @ join_with sep (v # ws)"

definition collapse_ws :: "string \<Rightarrow> string" where
  "collapse_ws s = join_with '' '' (runs is_space [] s)"

lemma runs_acc: "\<forall>c\<in>set w. \<not> sep c \<Longrightarrow> runs sep w s = runs sep [] (rev w @ s)"
proof (induction w arbitrary: s)
  case (Cons c w)
  then show ?case using Cons.IH [of "c # s"] by simp
qed simp

lemma runs_words:
  "\<forall>c\<in>set acc. \<not> sep c \<Longrightarrow> \<forall>w\<in>set (runs sep acc s). w \<noteq> [] \<and> (\<forall>c\<in>set w. \<not> sep c)"
proof (induction s arbitrary: acc)
  case (Cons c s)
  show ?case
  proof (cases "sep c")
    case True
    have "\<forall>w\<in>set (runs sep [] s). w \<noteq> [] \<and> (\<forall>c\<in>set w. \<not> sep c)" by (rule Cons.IH) simp
    with True Cons.prems show ?thesis by simp
  next
    case False
    have "\<forall>w\<in>set (runs sep (c # acc) s). w \<noteq> [] \<and> (\<forall>c\<in>set w. \<not> sep c)"
      by (rule Cons.IH) (use False Cons.prems in simp)
    with False show ?thesis by simp
  qed
qed simp

lemma runs_word: "w \<noteq> [] \<Longrightarrow> \<forall>c\<in>set w. \<not> sep c \<Longrightarrow> runs sep [] w = [w]"
  using runs_acc [of "rev w" sep "[]"] by simp

lemma runs_word_sep:
  "w \<noteq> [] \<Longrightarrow> \<forall>c\<in>set w. \<not> sep c \<Longrightarrow> sep c \<Longrightarrow> runs sep [] (w @ c # s) = w # runs sep [] s"
  using runs_acc [of "rev w" sep "c # s"] by simp

text \<open>Splitting a joined list of words gives the words back, so splitting and joining is a
  normal form.\<close>

lemma runs_join:
  assumes "sep c" and "\<forall>w\<in>set ws. w \<noteq> [] \<and> (\<forall>x\<in>set w. \<not> sep x)"
  shows "runs sep [] (join_with [c] ws) = ws"
  using assms(2)
proof (induction "[c]" ws rule: join_with.induct)
  case (3 w v ws)
  then show ?case using assms(1) by (simp add: runs_word_sep)
qed (simp_all add: runs_word)

lemma join_runs_idem:
  "sep c \<Longrightarrow> join_with [c] (runs sep [] (join_with [c] (runs sep [] s))) = join_with [c] (runs sep [] s)"
  using runs_words [of "[]" sep s] by (subst runs_join) simp_all

lemma collapse_ws_idem [simp]: "collapse_ws (collapse_ws s) = collapse_ws s"
  unfolding collapse_ws_def by (rule join_runs_idem) (simp add: is_space_def)

lemma collapse_ws_word: "s \<noteq> [] \<Longrightarrow> \<forall>c\<in>set s. \<not> is_space c \<Longrightarrow> collapse_ws s = s"
  by (simp add: collapse_ws_def runs_word)

lemma length_join_runs: "length (join_with [c] (runs sep w s)) \<le> length w + length s"
proof (induction sep w s rule: runs.induct)
  case (2 sep w d cs)
  then show ?case
  proof (cases "sep d \<and> w \<noteq> []")
    case True
    then have "length (join_with [c] (rev w # runs sep [] cs)) \<le> length w + Suc (length (join_with [c] (runs sep [] cs)))"
      by (cases "runs sep [] cs") simp_all
    with True "2.IH" show ?thesis by simp
  qed (use "2.IH" in \<open>auto split: if_splits\<close>)
qed simp

text \<open>\<open>s.replace("Z", "+00:00")\<close>.\<close>

definition replace_Z :: "string \<Rightarrow> string" where
  "replace_Z s = concat (map (\<lambda>c. if c = CHR ''Z'' then ''+00:00'' else [c]) s)"

lemma replace_Z_id: "CHR ''Z'' \<notin> set s \<Longrightarrow> replace_Z s = s"
  unfolding replace_Z_def by (induction s) auto

text \<open>\<open>str(n)\<close> for integers.\<close>

definition digit_char :: "nat \<Rightarrow> char" where
  "digit_char d = char_of (48 + d)"

fun str_nat :: "nat \<Rightarrow> string" where
  "str_nat n = (if n < 10 then [digit_char n] else str_nat (n div 10) @ [digit_char (n mod 10)])"

declare str_nat.simps [simp del]

definition str_int :: "int \<Rightarrow> string" where
  "str_int n = (if n < 0 then CHR ''-'' # str_nat (nat (- n)) else str_nat (nat n))"

fun read_digits :: "nat \<Rightarrow> string \<Rightarrow> nat" where
  "read_digits acc [] = acc"
| "read_digits acc (c # cs) = read_digits (10 * acc + (of_char c - 48)) cs"

lemma read_digits_snoc:
  "read_digits acc (cs @ [c]) = 10 * read_digits acc cs + (of_char c - 48)"
  by (induction acc cs rule: read_digits.induct) simp_all

lemma of_digit_char [simp]: "d < 10 \<Longrightarrow> (of_char (digit_char d) :: nat) = 48 + d"
  by (simp add: digit_char_def of_char_of take_bit_nat_def)

lemma read_str_nat [simp]: "read_digits 0 (str_nat n) = n"
proof (induction n rule: str_nat.induct)
  case (1 n)
  then show ?case
    by (cases "n < 10") (simp_all add: str_nat.simps [of n] read_digits_snoc)
qed

lemma str_nat_inject [simp]: "str_nat m = str_nat n \<longleftrightarrow> m = n"
  by (metis read_str_nat)

lemma is_digit_digit_char [simp]: "d < 10 \<Longrightarrow> is_digit (digit_char d)"
  by (simp add: is_digit_def less_eq_char_def)

lemma str_nat_digits: "c \<in> set (str_nat n) \<Longrightarrow> is_digit c"
proof (induction n rule: str_nat.induct)
  case (1 n)
  then show ?case
    by (cases "n < 10") (auto simp: str_nat.simps [of n])
qed

lemma str_nat_nonempty [simp]: "str_nat n \<noteq> []"
  by (subst str_nat.simps) simp

lemma str_int_chars: "c \<in> set (str_int n) \<Longrightarrow> is_digit c \<or> c = CHR ''-''"
  by (auto simp: str_int_def split: if_splits dest: str_nat_digits)

lemma str_int_inject [simp]: "str_int m = str_int n \<longleftrightarrow> m = n"
proof
  assume eq: "str_int m = str_int n"
  have dash: "\<not> is_digit (CHR ''-'')" by (simp add: is_digit_def less_eq_char_def)
  have hd_digit: "is_digit (hd (str_nat k))" for k
    by (rule str_nat_digits [of _ k]) simp
  have no_dash: "CHR ''-'' # x \<noteq> str_nat k" for x k
    using dash hd_digit [of k] by (metis list.sel(1))
  show "m = n"
    using eq no_dash no_dash [symmetric] by (auto simp: str_int_def split: if_splits)
qed simp

subsection \<open>Letter case\<close>

lemma is_upper_nat: "is_upper c \<longleftrightarrow> 65 \<le> (of_char c :: nat) \<and> (of_char c :: nat) \<le> 90"
  and is_lower_nat: "is_lower c \<longleftrightarrow> 97 \<le> (of_char c :: nat) \<and> (of_char c :: nat) \<le> 122"
  and is_digit_nat: "is_digit c \<longleftrightarrow> 48 \<le> (of_char c :: nat) \<and> (of_char c :: nat) \<le> 57"
  by (simp_all add: is_upper_def is_lower_def is_digit_def less_eq_char_def)

lemmas class_nat = is_upper_nat is_lower_nat is_digit_nat

lemma of_lower_char: "(of_char (lower_char c) :: nat) = (if is_upper c then of_char c + 32 else of_char c)"
  by (simp add: lower_char_def is_upper_nat of_char_of take_bit_nat_def)

lemma of_upper_char: "(of_char (upper_char c) :: nat) = (if is_lower c then of_char c - 32 else of_char c)"
proof (cases "is_lower c")
  case True
  then have "(of_char c - 32 :: nat) < 256" unfolding is_lower_nat by linarith
  then have "(of_char c - 32 :: nat) mod 256 = of_char c - 32" by (rule mod_less)
  with True show ?thesis by (simp add: upper_char_def of_char_of take_bit_nat_def)
qed (simp add: upper_char_def)

lemma char_eq_nat: "c = d \<longleftrightarrow> (of_char c :: nat) = of_char d"
  by (metis char_of_char)

lemma lower_char_idem [simp]: "lower_char (lower_char c) = lower_char c"
  by (simp add: char_eq_nat of_lower_char class_nat)

lemma lower_upper_char [simp]: "lower_char (upper_char c) = lower_char c"
  unfolding char_eq_nat of_lower_char of_upper_char class_nat by auto

lemma upper_char_id: "is_upper c \<or> is_digit c \<or> c \<in> set ''.-'' \<Longrightarrow> upper_char c = c"
  by (auto simp: upper_char_def class_nat)

lemma lower_idem [simp]: "lower (lower s) = lower s"
  by (simp add: lower_def)

lemma lower_upper [simp]: "lower (upper s) = lower s"
  by (simp add: lower_def upper_def)

lemma secret_lower [simp]: "secret_search (lower s) = secret_search s"
  and secret_upper [simp]: "secret_search (upper s) = secret_search s"
  by (simp_all add: secret_search_def)

lemma secret_sublist: "secret_search s \<Longrightarrow> sublist s t \<Longrightarrow> secret_search t"
proof -
  assume s: "secret_search s" and sub: "sublist s t"
  have "sublist (lower s) (lower t)" using sub unfolding lower_def by (rule map_mono_sublist)
  with s show ?thesis by (auto simp: secret_search_def intro: contains_sublist)
qed

lemma strip_sublist: "sublist (strip s) s"
proof -
  have "suffix (dropWhile is_space s) s" by (simp add: suffix_dropWhile)
  moreover have "prefix (strip s) (dropWhile is_space s)"
    unfolding strip_def by (metis rev_rev_ident suffix_dropWhile suffix_to_prefix)
  ultimately show ?thesis
    by (meson prefix_imp_sublist sublist_order.order_trans suffix_imp_sublist)
qed

subsection \<open>Separated fields\<close>

text \<open>A field that does not contain the separator is read off unambiguously.\<close>

lemma separator_unique:
  assumes "a @ c # x = b @ c # y" and "c \<notin> set a" and "c \<notin> set b"
  shows "a = b \<and> x = y"
  using assms
proof (induction a arbitrary: b)
  case Nil
  then show ?case by (cases b) auto
next
  case (Cons h t)
  then show ?case by (cases b) auto
qed

subsection \<open>Rows of a table\<close>

text \<open>\<open>update_where p f rows\<close> is an \<open>UPDATE\<close> (or the mutation of every loaded ORM row that
  satisfies \<open>p\<close>); the order of the table is kept.\<close>

definition update_where :: "('a \<Rightarrow> bool) \<Rightarrow> ('a \<Rightarrow> 'a) \<Rightarrow> 'a list \<Rightarrow> 'a list" where
  "update_where p f rows = map (\<lambda>r. if p r then f r else r) rows"

lemma length_update_where [simp]: "length (update_where p f rows) = length rows"
  by (simp add: update_where_def)

lemma map_update_where: "(\<And>r. g (f r) = g r) \<Longrightarrow> map g (update_where p f rows) = map g rows"
  by (simp add: update_where_def)

lemma in_update_where:
  "r \<in> set (update_where p f rows) \<longleftrightarrow>
     (\<exists>r0\<in>set rows. r = (if p r0 then f r0 else r0))"
  by (auto simp: update_where_def)

lemma update_where_invariant:
  assumes "\<forall>r\<in>set rows. I r" and "\<And>r. r \<in> set rows \<Longrightarrow> I r \<Longrightarrow> p r \<Longrightarrow> I (f r)"
  shows "\<forall>r\<in>set (update_where p f rows). I r"
  using assms by (auto simp: in_update_where)

lemma find_Some_in: "List.find p xs = Some x \<Longrightarrow> x \<in> set xs \<and> p x"
  by (induction xs) (auto split: if_splits)

lemma find_None_all: "List.find p xs = None \<Longrightarrow> x \<in> set xs \<Longrightarrow> \<not> p x"
  by (induction xs) (auto split: if_splits)

lemma find_update_where:
  assumes "\<And>r. p (f r) = p r"
  shows "List.find p (update_where p f rows) = map_option f (List.find p rows)"
  using assms by (induction rows) (auto simp: update_where_def)

lemma find_append: "List.find p (xs @ ys) = (case List.find p xs of None \<Rightarrow> List.find p ys | Some x \<Rightarrow> Some x)"
  by (induction xs) auto

lemma length_filter_mono:
  "(\<And>x. x \<in> set xs \<Longrightarrow> P x \<Longrightarrow> Q x) \<Longrightarrow> length (filter P xs) \<le> length (filter Q xs)"
  by (induction xs) auto

lemma set_take_le: "x \<in> set (take n xs) \<Longrightarrow> x \<in> set xs"
  by (rule in_set_takeD)

lemma find_update_where_key:
  assumes "\<And>r. p r \<Longrightarrow> k (f r) = k r"
  shows "List.find (\<lambda>r. k r = j) (update_where p f rows) =
           map_option (\<lambda>r. if p r then f r else r) (List.find (\<lambda>r. k r = j) rows)"
  using assms by (induction rows) (auto simp: update_where_def)

text \<open>\<open>ORDER BY .. LIMIT\<close> takes the least rows: a row that is left out is not before any row that is
  taken, and the limit was reached.\<close>

lemma take_sort_key_least:
  assumes "x \<in> set xs" and "x \<notin> set (take k (sort_key f xs))"
  shows "length (take k (sort_key f xs)) = k \<and> (\<forall>y\<in>set (take k (sort_key f xs)). f y \<le> f x)"
proof -
  let ?s = "sort_key f xs"
  have x: "x \<in> set (drop k ?s)"
    using assms by (metis UnE append_take_drop_id set_append set_sort)
  then have "k < length ?s" by (metis drop_all empty_iff linorder_not_less list.set(1))
  moreover have "sorted (map f (take k ?s @ drop k ?s))" by (simp del: append_take_drop_id add: append_take_drop_id)
  then have "\<forall>y\<in>set (take k ?s). \<forall>z\<in>set (drop k ?s). f y \<le> f z"
    unfolding map_append sorted_append by auto
  ultimately show ?thesis using x by simp
qed

text \<open>Keyset pagination: on a strictly sorted list, the rows beyond the last row of a page are the rows
  that an offset would skip to.\<close>

lemma filter_beyond_last:
  assumes "sorted_wrt (\<lambda>x y. f x < f y) xs" and "take n xs \<noteq> []"
  shows "filter (\<lambda>x. f (last (take n xs)) < (f x :: 'b :: linorder)) xs = drop n xs"
proof -
  let ?k = "f (last (take n xs))"
  have sw: "sorted_wrt (\<lambda>x y. f x < f y) (take n xs @ drop n xs)" using assms(1) by simp
  have "\<forall>x\<in>set (drop n xs). ?k < f x" using sw assms(2) unfolding sorted_wrt_append by simp
  moreover have "f x \<le> ?k" if "x \<in> set (take n xs)" for x
  proof -
    from that obtain ys y where ys: "take n xs = ys @ [y]" by (metis append_butlast_last_id assms(2))
    have "sorted_wrt (\<lambda>x y. f x < f y) (take n xs)" using sw unfolding sorted_wrt_append by blast
    with ys that show ?thesis by (auto simp: sorted_wrt_append)
  qed
  ultimately have "filter (\<lambda>x. ?k < f x) (take n xs @ drop n xs) = drop n xs"
    unfolding filter_append by (simp add: filter_id_conv filter_empty_conv leD)
  then show ?thesis by simp
qed

end
