(* ===== verification/Schema.thy ===== *)
theory Schema
  imports Prelude
begin

text \<open>
  The tables of \<open>db/models.py\<close>: every enum, one record per mapped class with all of its columns
  (relationships are lookups by key and are not stored), the check constraints as predicates on a
  row and the partial unique indexes as predicates on a table.  The database is the record \<open>db\<close> of
  its tables; a transaction of the program is a function on it.  Constructor names carry the enum
  they belong to where two enums share a member name.
\<close>

subsection \<open>Enums\<close>

datatype SourceType = Src_NEWS | Src_X | Src_OFFICIAL | Src_RSS | Src_API | Src_WEB

datatype AuthorizationStatus = Auth_PLANNED | Auth_ACCESS_TBD | Auth_AUTHORIZED | Auth_IMPLEMENTED | Auth_DEGRADED | Auth_BLOCKED | Auth_DISABLED

datatype IdentityStatus = Ident_UNVERIFIED | Ident_VERIFIED | Ident_CHANGED | Ident_DISABLED

datatype CollectionRunStatus = Run_RUNNING | Run_SUCCEEDED | Run_PARTIAL | Run_FAILED

datatype ParseStatus = Parse_PENDING | Parse_PARSED | Parse_PARTIAL | Parse_FAILED | Parse_SKIPPED

datatype ContentKind = Kind_ARTICLE | Kind_X_POST | Kind_OFFICIAL_RELEASE | Kind_FEED_ENTRY

datatype BodyAvailability = Body_FULL | Body_PARTIAL | Body_SUMMARY_ONLY | Body_UNAVAILABLE

datatype DeletedStatus = Del_UNKNOWN | Del_PRESENT | Del_DELETED

datatype NotificationPriority = Prio_P0 | Prio_P1 | Prio_P2 | Prio_P3 | Prio_P4

datatype NotificationChannel = Chan_TELEGRAM_PUSH

datatype NotificationStatus = Ntf_PENDING | Ntf_SENDING | Ntf_SENT | Ntf_FAILED | Ntf_SUPPRESSED

datatype CollectionTargetStatus = Tgt_DRAFT | Tgt_ACTIVE | Tgt_PAUSED | Tgt_BLOCKED | Tgt_RETIRED

datatype CollectionTargetHealthStatus = Health_UNKNOWN | Health_HEALTHY | Health_DEGRADED | Health_BLOCKED

datatype CollectionCursorStrategy = STRICT_INCREMENTAL | SNAPSHOT_WATERMARK | PAGE_TOKEN | DATE_WINDOW | COMPOUND | REVISION

datatype CollectionMode = Mode_INCREMENTAL | Mode_SNAPSHOT

datatype CollectionBackfillPolicy = Backfill_DISABLED | Backfill_MANUAL_BOUNDED

datatype CollectionRevisionPolicy = Revision_IGNORE | Revision_SAFE_REPLACE | Revision_RECONCILE

datatype CollectionRunMode = NORMAL | BACKFILL

datatype RawItemObservationKind = FIRST_SEEN | DUPLICATE_SAME_PROJECTION | REVISION_CANDIDATE

datatype SafeProjectionQualityStatus = Quality_COMPLETE | Quality_PARTIAL | Quality_BLOCKED

datatype SafeProjectionProcessingStatus = Proj_PENDING | Proj_VALIDATING | Proj_READY | Proj_RETRY | Proj_BLOCKED

text \<open>The stored values of the enums the program compares or prints by value.\<close>

fun strategy_value :: "CollectionCursorStrategy \<Rightarrow> string" where
  "strategy_value STRICT_INCREMENTAL = ''strict_incremental''"
| "strategy_value SNAPSHOT_WATERMARK = ''snapshot_watermark''"
| "strategy_value PAGE_TOKEN = ''page_token''"
| "strategy_value DATE_WINDOW = ''date_window''"
| "strategy_value COMPOUND = ''compound''"
| "strategy_value REVISION = ''revision''"

fun mode_value :: "CollectionMode \<Rightarrow> string" where
  "mode_value Mode_INCREMENTAL = ''incremental''"
| "mode_value Mode_SNAPSHOT = ''snapshot''"

fun run_mode_value :: "CollectionRunMode \<Rightarrow> string" where
  "run_mode_value NORMAL = ''normal''"
| "run_mode_value BACKFILL = ''backfill''"

fun target_status_value :: "CollectionTargetStatus \<Rightarrow> string" where
  "target_status_value Tgt_DRAFT = ''draft''"
| "target_status_value Tgt_ACTIVE = ''active''"
| "target_status_value Tgt_PAUSED = ''paused''"
| "target_status_value Tgt_BLOCKED = ''blocked''"
| "target_status_value Tgt_RETIRED = ''retired''"

text \<open>The enum constructors applied to a value: \<open>None\<close> where Python raises \<open>ValueError\<close>.\<close>

definition strategy_of :: "string \<Rightarrow> CollectionCursorStrategy option" where
  "strategy_of v = List.find (\<lambda>s. strategy_value s = v)
     [STRICT_INCREMENTAL, SNAPSHOT_WATERMARK, PAGE_TOKEN, DATE_WINDOW, COMPOUND, REVISION]"

definition mode_of :: "string \<Rightarrow> CollectionMode option" where
  "mode_of v = List.find (\<lambda>s. mode_value s = v) [Mode_INCREMENTAL, Mode_SNAPSHOT]"

definition run_mode_of :: "string \<Rightarrow> CollectionRunMode option" where
  "run_mode_of v = List.find (\<lambda>s. run_mode_value s = v) [NORMAL, BACKFILL]"

definition target_status_of :: "string \<Rightarrow> CollectionTargetStatus option" where
  "target_status_of v = List.find (\<lambda>s. target_status_value s = v)
     [Tgt_DRAFT, Tgt_ACTIVE, Tgt_PAUSED, Tgt_BLOCKED, Tgt_RETIRED]"

lemma strategy_of_value [simp]: "strategy_of (strategy_value s) = Some s"
  by (cases s) (simp_all add: strategy_of_def)

lemma mode_of_value [simp]: "mode_of (mode_value s) = Some s"
  by (cases s) (simp_all add: mode_of_def)

lemma run_mode_of_value [simp]: "run_mode_of (run_mode_value s) = Some s"
  by (cases s) (simp_all add: run_mode_of_def)

lemma target_status_of_value [simp]: "target_status_of (target_status_value s) = Some s"
  by (cases s) (simp_all add: target_status_of_def)

lemma run_mode_of_Some: "run_mode_of v = Some m \<Longrightarrow> v = run_mode_value m"
  by (auto simp: run_mode_of_def split: if_splits)

subsection \<open>Rows\<close>

record Source =
  src_id :: uuid
  src_code :: string
  src_name :: string
  src_source_type :: SourceType
  src_access_method :: string
  src_authorization_status :: AuthorizationStatus
  src_retention_class :: string
  src_enabled :: bool
  src_schedule_seconds :: "int option"
  src_last_success_at :: "time option"
  src_consecutive_failures :: int
  src_created_at :: time
  src_updated_at :: time

record SourceAccount =
  acc_id :: uuid
  acc_source_id :: uuid
  acc_external_id :: "string option"
  acc_handle :: "string option"
  acc_display_name :: "string option"
  acc_endpoint :: "string option"
  acc_identity_status :: IdentityStatus
  acc_enabled :: bool
  acc_collection_options :: dict
  acc_last_identity_check_at :: "time option"
  acc_created_at :: time
  acc_updated_at :: time

record CollectionTarget =
  tgt_id :: uuid
  tgt_target_key :: string
  tgt_source_id :: uuid
  tgt_source_account_id :: "uuid option"
  tgt_operation_key :: string
  tgt_legacy_cursor_type :: "string option"
  tgt_operation_config_version :: int
  tgt_provider_contract_version :: int
  tgt_config_revision :: int
  tgt_operation_config :: dict
  tgt_status :: CollectionTargetStatus
  tgt_cadence_seconds :: int
  tgt_batch_limit :: int
  tgt_max_requests_per_run :: int
  tgt_max_pages_per_run :: int
  tgt_max_response_bytes :: int
  tgt_request_timeout_seconds :: int
  tgt_max_runtime_seconds :: int
  tgt_cursor_strategy :: CollectionCursorStrategy
  tgt_cursor_version :: int
  tgt_collection_mode :: CollectionMode
  tgt_backfill_policy :: CollectionBackfillPolicy
  tgt_revision_policy :: CollectionRevisionPolicy
  tgt_rate_limit_group :: string
  tgt_priority :: int
  tgt_next_due_at :: time
  tgt_next_retry_at :: "time option"
  tgt_last_attempt_at :: "time option"
  tgt_last_success_at :: "time option"
  tgt_consecutive_failures :: int
  tgt_health_status :: CollectionTargetHealthStatus
  tgt_last_error_code :: "string option"
  tgt_retired_at :: "time option"
  tgt_created_at :: time
  tgt_updated_at :: time

record CollectionCursor =
  cur_id :: uuid
  cur_source_account_id :: uuid
  cur_target_id :: "uuid option"
  cur_cursor_type :: string
  cur_cursor_version :: int
  cur_run_mode :: CollectionRunMode
  cur_cursor_value :: "string option"
  cur_continuation :: "dict option"
  cur_continuation_run_id :: "uuid option"
  cur_watermark_at :: "time option"
  cur_last_published_at :: "time option"
  cur_updated_at :: time

record CollectionRun =
  run_id :: uuid
  run_source_id :: uuid
  run_source_account_id :: "uuid option"
  run_target_id :: "uuid option"
  run_run_mode :: CollectionRunMode
  run_dispatch_identity :: "string option"
  run_started_at :: time
  run_finished_at :: "time option"
  run_status :: CollectionRunStatus
  run_fetched_count :: int
  run_request_count :: int
  run_page_count :: int
  run_resolved_window :: "dict option"
  run_operation_config_hash :: "string option"
  run_new_count :: int
  run_duplicate_count :: int
  run_error_count :: int
  run_error_code :: "string option"
  run_error_message_redacted :: "string option"
  run_retry_count :: int

record RawItem =
  raw_id :: uuid
  raw_source_id :: uuid
  raw_source_account_id :: "uuid option"
  raw_collection_run_id :: uuid
  raw_external_id :: "string option"
  raw_fetched_at :: time
  raw_http_status :: "int option"
  raw_content_type :: "string option"
  raw_payload_location :: "string option"
  raw_payload_hash :: "string option"
  raw_retention_class :: string
  raw_parse_status :: ParseStatus
  raw_created_at :: time

record RawItemObservation =
  obs_id :: uuid
  obs_collection_run_id :: uuid
  obs_raw_item_id :: uuid
  obs_target_id :: "uuid option"
  obs_source_id :: uuid
  obs_source_account_id :: "uuid option"
  obs_provider :: string
  obs_operation_key :: string
  obs_config_revision :: "int option"
  obs_provider_contract_version :: int
  obs_observed_at :: time
  obs_observation_key :: string
  obs_projection_hash :: string
  obs_observation_kind :: RawItemObservationKind
  obs_created_at :: time

record SafeFactProjection =
  sfp_id :: uuid
  sfp_observation_id :: uuid
  sfp_raw_item_id :: uuid
  sfp_provider :: string
  sfp_operation_key :: string
  sfp_projection_schema_version :: int
  sfp_factual_payload :: dict
  sfp_projection_hash :: string
  sfp_quality_status :: SafeProjectionQualityStatus
  sfp_processing_status :: SafeProjectionProcessingStatus
  sfp_safe_error_code :: "string option"
  sfp_attempt_count :: int
  sfp_next_retry_at :: "time option"
  sfp_processed_at :: "time option"
  sfp_created_at :: time
  sfp_updated_at :: time

record ContentItem =
  cnt_id :: uuid
  cnt_raw_item_id :: uuid
  cnt_source_id :: uuid
  cnt_source_account_id :: "uuid option"
  cnt_content_kind :: ContentKind
  cnt_external_id :: "string option"
  cnt_title :: "string option"
  cnt_source_summary :: "string option"
  cnt_body :: "string option"
  cnt_body_availability :: BodyAvailability
  cnt_author :: "string option"
  cnt_language :: "string option"
  cnt_original_url :: "string option"
  cnt_canonical_url :: "string option"
  cnt_source_published_at :: "time option"
  cnt_source_updated_at :: "time option"
  cnt_first_seen_at :: time
  cnt_content_hash :: "string option"
  cnt_reply_to_external_id :: "string option"
  cnt_quote_external_id :: "string option"
  cnt_repost_external_id :: "string option"
  cnt_deleted_status :: DeletedStatus
  cnt_metadata :: dict
  cnt_created_at :: time
  cnt_updated_at :: time

record Notification =
  ntf_id :: uuid
  ntf_content_item_id :: "uuid option"
  ntf_priority :: NotificationPriority
  ntf_priority_reason :: string
  ntf_policy_rule_id :: string
  ntf_policy_version :: string
  ntf_channel :: NotificationChannel
  ntf_dedup_key :: string
  ntf_payload_version :: int
  ntf_status :: NotificationStatus
  ntf_scheduled_at :: "time option"
  ntf_sent_at :: "time option"
  ntf_failure_code :: "string option"
  ntf_retry_count :: int
  ntf_created_at :: time

record AuditLog =
  aud_id :: uuid
  aud_actor_type :: string
  aud_actor_id :: "string option"
  aud_action :: string
  aud_target_type :: string
  aud_target_id :: "uuid option"
  aud_before :: "dict option"
  aud_after :: "dict option"
  aud_created_at :: time

text \<open>The database; \<open>system_metadata\<close> is the key/value table of \<open>db/base.py\<close>.\<close>

record db =
  sources :: "Source list"
  source_accounts :: "SourceAccount list"
  collection_targets :: "CollectionTarget list"
  collection_cursors :: "CollectionCursor list"
  collection_runs :: "CollectionRun list"
  raw_items :: "RawItem list"
  raw_item_observations :: "RawItemObservation list"
  safe_fact_projections :: "SafeFactProjection list"
  content_items :: "ContentItem list"
  notifications :: "Notification list"
  audit_logs :: "AuditLog list"
  system_metadata :: "string \<rightharpoonup> string"

text \<open>\<open>session.get(Class, id)\<close>.\<close>

definition get_source :: "db \<Rightarrow> uuid \<Rightarrow> Source option" where
  "get_source d i = List.find (\<lambda>r. src_id r = i) (sources d)"
definition get_account :: "db \<Rightarrow> uuid \<Rightarrow> SourceAccount option" where
  "get_account d i = List.find (\<lambda>r. acc_id r = i) (source_accounts d)"
definition get_target :: "db \<Rightarrow> uuid \<Rightarrow> CollectionTarget option" where
  "get_target d i = List.find (\<lambda>r. tgt_id r = i) (collection_targets d)"
definition get_run :: "db \<Rightarrow> uuid \<Rightarrow> CollectionRun option" where
  "get_run d i = List.find (\<lambda>r. run_id r = i) (collection_runs d)"
definition get_projection :: "db \<Rightarrow> uuid \<Rightarrow> SafeFactProjection option" where
  "get_projection d i = List.find (\<lambda>r. sfp_id r = i) (safe_fact_projections d)"
definition get_notification :: "db \<Rightarrow> uuid \<Rightarrow> Notification option" where
  "get_notification d i = List.find (\<lambda>r. ntf_id r = i) (notifications d)"

text \<open>The flush of one mutated ORM row.\<close>

definition put_target :: "CollectionTarget \<Rightarrow> db \<Rightarrow> db" where
  "put_target t d = d\<lparr>collection_targets :=
     update_where (\<lambda>r. tgt_id r = tgt_id t) (\<lambda>_. t) (collection_targets d)\<rparr>"
definition put_run :: "CollectionRun \<Rightarrow> db \<Rightarrow> db" where
  "put_run t d = d\<lparr>collection_runs :=
     update_where (\<lambda>r. run_id r = run_id t) (\<lambda>_. t) (collection_runs d)\<rparr>"
definition put_cursor :: "CollectionCursor \<Rightarrow> db \<Rightarrow> db" where
  "put_cursor t d = d\<lparr>collection_cursors :=
     update_where (\<lambda>r. cur_id r = cur_id t) (\<lambda>_. t) (collection_cursors d)\<rparr>"
definition put_projection :: "SafeFactProjection \<Rightarrow> db \<Rightarrow> db" where
  "put_projection t d = d\<lparr>safe_fact_projections :=
     update_where (\<lambda>r. sfp_id r = sfp_id t) (\<lambda>_. t) (safe_fact_projections d)\<rparr>"
definition put_notification :: "Notification \<Rightarrow> db \<Rightarrow> db" where
  "put_notification t d = d\<lparr>notifications :=
     update_where (\<lambda>r. ntf_id r = ntf_id t) (\<lambda>_. t) (notifications d)\<rparr>"

subsection \<open>Check constraints and unique indexes\<close>

definition key_char :: "char \<Rightarrow> bool" where
  "key_char c = (is_lower c \<or> is_digit c \<or> c \<in> set ''._-'')"

definition ck_collection_targets :: "CollectionTarget \<Rightarrow> bool" where
  "ck_collection_targets t =
     ((case tgt_target_key t of [] \<Rightarrow> False
       | c # cs \<Rightarrow> (is_lower c \<or> is_digit c) \<and> length cs \<le> 159 \<and> list_all key_char cs)
      \<and> tgt_config_revision t > 0
      \<and> tgt_operation_config_version t > 0 \<and> tgt_provider_contract_version t > 0
      \<and> tgt_cursor_version t > 0
      \<and> 1 \<le> tgt_cadence_seconds t \<and> tgt_cadence_seconds t \<le> 86400
      \<and> tgt_batch_limit t > 0
      \<and> 1 \<le> tgt_max_requests_per_run t \<and> tgt_max_requests_per_run t \<le> 20
      \<and> 1 \<le> tgt_max_pages_per_run t \<and> tgt_max_pages_per_run t \<le> 20
      \<and> 1024 \<le> tgt_max_response_bytes t \<and> tgt_max_response_bytes t \<le> 10000000
      \<and> 1 \<le> tgt_request_timeout_seconds t \<and> tgt_request_timeout_seconds t \<le> 60
      \<and> tgt_request_timeout_seconds t \<le> tgt_max_runtime_seconds t
      \<and> tgt_max_runtime_seconds t \<le> 900
      \<and> 0 \<le> tgt_priority t \<and> tgt_priority t \<le> 1000
      \<and> 0 \<le> tgt_consecutive_failures t
      \<and> ((tgt_status t = Tgt_RETIRED) = (tgt_retired_at t \<noteq> None)))"

text \<open>The check \<open>ck_collection_runs_resolved_window\<close>, a pattern on the JSON text of the stored window, is left out: the window codec of
  \<open>Windows\<close> describes the values that are stored.\<close>

definition ck_collection_runs :: "CollectionRun \<Rightarrow> bool" where
  "ck_collection_runs r =
     ((case run_finished_at r of None \<Rightarrow> True | Some f \<Rightarrow> run_started_at r \<le> f)
      \<and> 0 \<le> run_fetched_count r \<and> 0 \<le> run_request_count r \<and> 0 \<le> run_page_count r
      \<and> (case run_operation_config_hash r of None \<Rightarrow> True
         | Some h \<Rightarrow> length h = 64 \<and> list_all is_hex h)
      \<and> ((run_resolved_window r = None) = (run_operation_config_hash r = None))
      \<and> 0 \<le> run_new_count r \<and> 0 \<le> run_duplicate_count r
      \<and> 0 \<le> run_error_count r \<and> 0 \<le> run_retry_count r)"

definition ck_safe_fact_projections :: "SafeFactProjection \<Rightarrow> bool" where
  "ck_safe_fact_projections p =
     (sfp_projection_schema_version p > 0
      \<and> length (sfp_projection_hash p) = 64
      \<and> 0 \<le> sfp_attempt_count p
      \<and> (sfp_processing_status p = Proj_READY \<longrightarrow>
           sfp_safe_error_code p = None \<and> sfp_processed_at p \<noteq> None))"

definition ck_notifications :: "Notification \<Rightarrow> bool" where
  "ck_notifications n = (ntf_payload_version n > 0 \<and> 0 \<le> ntf_retry_count n)"

text \<open>\<open>uq_collection_runs_running_target_mode\<close>: at most one running run per target and mode.\<close>

definition running_slot :: "CollectionRun \<Rightarrow> (uuid \<times> CollectionRunMode) option" where
  "running_slot r =
     (if run_status r = Run_RUNNING
      then map_option (\<lambda>t. (t, run_run_mode r)) (run_target_id r) else None)"

definition uq_running_target_mode :: "CollectionRun list \<Rightarrow> bool" where
  "uq_running_target_mode rs = distinct (List.map_filter running_slot rs)"

text \<open>\<open>uq_collection_cursors_target_type_version_mode\<close> and \<open>uq_collection_cursors_account_type\<close>.\<close>

definition cursor_slot :: "CollectionCursor \<Rightarrow> (uuid \<times> string \<times> int \<times> CollectionRunMode) option" where
  "cursor_slot c =
     map_option (\<lambda>t. (t, cur_cursor_type c, cur_cursor_version c, cur_run_mode c)) (cur_target_id c)"

definition uq_cursor_slots :: "CollectionCursor list \<Rightarrow> bool" where
  "uq_cursor_slots cs = distinct (List.map_filter cursor_slot cs)"

text \<open>The raw item identity indexes, the observation and projection keys and the dedup key.\<close>

definition raw_identity :: "RawItem \<Rightarrow> (uuid \<times> bool \<times> string) option" where
  "raw_identity r =
     (case raw_external_id r of
        Some e \<Rightarrow> Some (raw_source_id r, True, e)
      | None \<Rightarrow> map_option (\<lambda>h. (raw_source_id r, False, h)) (raw_payload_hash r))"

definition uq_raw_items :: "RawItem list \<Rightarrow> bool" where
  "uq_raw_items rs = distinct (List.map_filter raw_identity rs)"

definition observation_key_of :: "RawItemObservation \<Rightarrow> uuid \<times> uuid \<times> string" where
  "observation_key_of r = (obs_collection_run_id r, obs_raw_item_id r, obs_observation_key r)"

definition uq_observations :: "RawItemObservation list \<Rightarrow> bool" where
  "uq_observations rs = distinct (map observation_key_of rs)"

definition projection_key_of :: "SafeFactProjection \<Rightarrow> uuid \<times> int" where
  "projection_key_of r = (sfp_observation_id r, sfp_projection_schema_version r)"

definition uq_projections :: "SafeFactProjection list \<Rightarrow> bool" where
  "uq_projections rs = distinct (map projection_key_of rs)"

definition uq_dedup_key :: "Notification list \<Rightarrow> bool" where
  "uq_dedup_key ns = distinct (map ntf_dedup_key ns)"

subsection \<open>Lookup after update\<close>

lemmas get_defs = get_source_def get_account_def get_target_def get_run_def get_projection_def
  get_notification_def

lemmas put_defs = put_target_def put_run_def put_cursor_def put_projection_def put_notification_def

lemma find_update_const:
  assumes "k t = i"
  shows "List.find (\<lambda>r. k r = j) (update_where (\<lambda>r. k r = i) (\<lambda>_. t) rows) =
           (if j = i then map_option (\<lambda>_. t) (List.find (\<lambda>r. k r = i) rows)
            else List.find (\<lambda>r. k r = j) rows)"
  using assms by (induction rows) (auto simp: update_where_def)

lemma get_put_target [simp]:
  "get_target (put_target t d) j =
     (if j = tgt_id t then map_option (\<lambda>_. t) (get_target d j) else get_target d j)"
  by (auto simp: get_target_def put_target_def find_update_const)

lemma get_put_run [simp]:
  "get_run (put_run t d) j =
     (if j = run_id t then map_option (\<lambda>_. t) (get_run d j) else get_run d j)"
  by (auto simp: get_run_def put_run_def find_update_const)

lemma get_put_projection [simp]:
  "get_projection (put_projection t d) j =
     (if j = sfp_id t then map_option (\<lambda>_. t) (get_projection d j) else get_projection d j)"
  by (auto simp: get_projection_def put_projection_def find_update_const)

lemma get_put_notification [simp]:
  "get_notification (put_notification t d) j =
     (if j = ntf_id t then map_option (\<lambda>_. t) (get_notification d j) else get_notification d j)"
  by (auto simp: get_notification_def put_notification_def find_update_const)

lemma get_frame [simp]:
  "get_target (put_run r d) i = get_target d i"
  "get_target (put_cursor c d) i = get_target d i"
  "get_run (put_target t d) i = get_run d i"
  "get_run (put_cursor c d) i = get_run d i"
  "get_source (put_target t d) i = get_source d i"
  "get_source (put_run r d) i = get_source d i"
  "get_account (put_target t d) i = get_account d i"
  "get_account (put_run r d) i = get_account d i"
  by (simp_all add: get_defs put_defs)

lemma get_id:
  "get_source d i = Some s \<Longrightarrow> src_id s = i \<and> s \<in> set (sources d)"
  "get_account d i = Some a \<Longrightarrow> acc_id a = i \<and> a \<in> set (source_accounts d)"
  "get_target d i = Some t \<Longrightarrow> tgt_id t = i \<and> t \<in> set (collection_targets d)"
  "get_run d i = Some r \<Longrightarrow> run_id r = i \<and> r \<in> set (collection_runs d)"
  "get_projection d i = Some p \<Longrightarrow> sfp_id p = i \<and> p \<in> set (safe_fact_projections d)"
  "get_notification d i = Some n \<Longrightarrow> ntf_id n = i \<and> n \<in> set (notifications d)"
  by (auto simp: get_defs dest: find_Some_in)

text \<open>Replacing a row by one that occupies the same slot of an index keeps the index.\<close>

lemma map_filter_update_where:
  assumes "\<And>r. r \<in> set rows \<Longrightarrow> p r \<Longrightarrow> g (f r) = g r"
  shows "List.map_filter g (update_where p f rows) = List.map_filter g rows"
  using assms
  by (induction rows) (auto simp: List.map_filter_simps update_where_def split: option.splits)

text \<open>A row that leaves its slot (or keeps it) never breaks a unique index.\<close>

lemma distinct_map_filter_release:
  assumes "distinct (List.map_filter g rows)"
    and "\<And>r. r \<in> set rows \<Longrightarrow> p r \<Longrightarrow> g (f r) = None \<or> g (f r) = g r"
  shows "distinct (List.map_filter g (update_where p f rows))"
proof -
  have sub: "set (List.map_filter g (update_where p f rs)) \<subseteq> set (List.map_filter g rs)"
    if "\<And>r. r \<in> set rs \<Longrightarrow> p r \<Longrightarrow> g (f r) = None \<or> g (f r) = g r" for rs
    using that
  proof (induction rs)
    case (Cons r rs)
    then have "set (List.map_filter g (update_where p f rs)) \<subseteq> set (List.map_filter g rs)"
      and "p r \<Longrightarrow> g (f r) = None \<or> g (f r) = g r" by simp_all
    then show ?case
      by (auto simp: List.map_filter_simps update_where_def split: option.splits if_splits)
  qed (simp add: List.map_filter_simps update_where_def)
  show ?thesis
    using assms
  proof (induction rows)
    case (Cons r rows)
    have "set (List.map_filter g (update_where p f rows)) \<subseteq> set (List.map_filter g rows)"
      using Cons.prems(2) by (intro sub) simp
    moreover have "distinct (List.map_filter g (update_where p f rows))"
      using Cons.prems
      by (intro Cons.IH) (auto simp: List.map_filter_simps split: option.splits)
    moreover have "p r \<Longrightarrow> g (f r) = None \<or> g (f r) = g r"
      using Cons.prems(2) by simp
    ultimately show ?case
      using Cons.prems(1)
      by (auto simp: List.map_filter_simps update_where_def split: option.splits)
  qed (simp add: List.map_filter_simps update_where_def)
qed

end
