(* ===== verification/Calendar.thy ===== *)
theory Calendar
  imports Prelude
begin

text \<open>
  The proleptic Gregorian calendar of Python's \<open>datetime\<close> module, as far as the sources use it: valid
  dates, the number of a day, the date of a day number, and the fixed-width texts \<open>%Y-%m-%d\<close> and
  \<open>%Y-%m-%dT%H\<close>.  Days are counted from 0001-01-01 (number 0); an instant is a count of
  microseconds since 1970-01-01T00:00:00Z.
\<close>

subsection \<open>Dates and day numbers\<close>

definition is_leap :: "nat \<Rightarrow> bool" where
  "is_leap y = (y mod 4 = 0 \<and> (y mod 100 \<noteq> 0 \<or> y mod 400 = 0))"

definition days_in_month :: "nat \<Rightarrow> nat \<Rightarrow> nat" where
  "days_in_month y m =
     (if m = 2 then (if is_leap y then 29 else 28)
      else if m \<in> {4, 6, 9, 11} then 30 else 31)"

definition days_in_year :: "nat \<Rightarrow> nat" where
  "days_in_year y = (if is_leap y then 366 else 365)"

definition valid_ymd :: "nat \<times> nat \<times> nat \<Rightarrow> bool" where
  "valid_ymd = (\<lambda>(y, m, d). 1 \<le> y \<and> y \<le> 9999 \<and> 1 \<le> m \<and> m \<le> 12 \<and> 1 \<le> d \<and> d \<le> days_in_month y m)"

definition days_before_year :: "nat \<Rightarrow> nat" where
  "days_before_year y =
     (let p = y - 1 in 365 * p + p div 4 + p div 400 - p div 100)"

fun days_before_month :: "nat \<Rightarrow> nat \<Rightarrow> nat" where
  "days_before_month y 0 = 0"
| "days_before_month y (Suc m) = (if m = 0 then 0 else days_before_month y m + days_in_month y m)"

definition day_number :: "nat \<times> nat \<times> nat \<Rightarrow> nat" where
  "day_number = (\<lambda>(y, m, d). days_before_year y + days_before_month y m + (d - 1))"

text \<open>The date of a day number: the search for the year starts at a lower bound, the search for the
  month at January.\<close>

function year_from :: "nat \<Rightarrow> nat \<Rightarrow> nat \<times> nat" where
  "year_from y n = (if n < days_in_year y then (y, n) else year_from (y + 1) (n - days_in_year y))"
  by pat_completeness auto
termination
  by (relation "measure snd") (auto simp: days_in_year_def)

function month_from :: "nat \<Rightarrow> nat \<Rightarrow> nat \<Rightarrow> nat \<times> nat" where
  "month_from y m n =
     (if n < days_in_month y m \<or> 12 \<le> m then (m, n + 1)
      else month_from y (m + 1) (n - days_in_month y m))"
  by pat_completeness auto
termination
  by (relation "measure (\<lambda>(y, m, n). 12 - m)") auto

declare year_from.simps [simp del] month_from.simps [simp del]

definition ymd_of_day :: "nat \<Rightarrow> nat \<times> nat \<times> nat" where
  "ymd_of_day n =
     (let y0 = n div 366 + 1; (y, r) = year_from y0 (n - days_before_year y0);
          (m, d) = month_from y 1 r
      in (y, m, d))"

lemma leap_div:
  "Suc p div 4 + Suc p div 400 + p div 100 = p div 4 + p div 400 + Suc p div 100 + (if is_leap (Suc p) then 1 else 0)"
proof -
  have m: "Suc p mod 400 = 0 \<Longrightarrow> Suc p mod 100 = 0" "Suc p mod 100 = 0 \<Longrightarrow> Suc p mod 4 = 0"
    unfolding mod_eq_0_iff_dvd by (auto elim: dvd_trans [rotated])
  have step: "Suc p div k = p div k + (if Suc p mod k = 0 then 1 else 0)" for k
    by (simp add: div_Suc)
  have count: "(a + x) + (b + z) + c = a + b + (c + w) + l" if "x + z = w + l" for a b c x z w l :: nat
    using that by linarith
  show ?thesis
    unfolding step by (rule count) (use m in \<open>auto simp: is_leap_def simp del: mod_Suc_eq\<close>)
qed

lemma days_before_year_Suc:
  assumes "1 \<le> y"
  shows "days_before_year (Suc y) = days_before_year y + days_in_year y"
proof -
  from assms obtain p where y: "y = Suc p" by (cases y) auto
  have le: "p div 100 \<le> 365 * p + p div 4 + p div 400" "Suc p div 100 \<le> 365 * Suc p + Suc p div 4 + Suc p div 400"
    by (simp_all add: div_le_mono2 trans_le_add2 trans_le_add1)
  have shift: "365 * Suc p + a' + b' - c' = (365 * p + a + b - c) + (365 + l)"
    if "a' + b' + c = a + b + c' + l" "c \<le> 365 * p + a + b" "c' \<le> 365 * Suc p + a' + b'"
    for a b c a' b' c' l :: nat using that unfolding mult_Suc_right by linarith
  have "days_in_year y = 365 + (if is_leap (Suc p) then 1 else 0)" by (simp add: y days_in_year_def)
  then show ?thesis
    using shift [OF leap_div le] unfolding y days_before_year_def Let_def diff_Suc_1 by (simp only:)
qed

lemma days_before_year_bound: "days_before_year (Suc p) \<le> 366 * p"
  unfolding days_before_year_def Let_def by simp

lemma year_from_spec:
  assumes "1 \<le> y" and "year_from y r = (y', r')"
  shows "y \<le> y' \<and> r' < days_in_year y' \<and> days_before_year y' + r' = days_before_year y + r"
  using assms
proof (induction y r rule: year_from.induct)
  case (1 y r)
  show ?case
  proof (cases "r < days_in_year y")
    case True
    with "1.prems" show ?thesis by (simp add: year_from.simps)
  next
    case False
    with "1.prems" have "year_from (y + 1) (r - days_in_year y) = (y', r')" by (subst (asm) year_from.simps) simp
    from "1.IH" [OF False _ this] False "1.prems" show ?thesis
      by (simp add: days_before_year_Suc)
  qed
qed

lemma days_before_month_year: "days_before_month y 13 = days_in_year y"
  by (simp add: eval_nat_numeral days_in_month_def days_in_year_def)

lemma month_from_spec:
  assumes "1 \<le> m" and "m \<le> 12" and "days_before_month y m + r < days_in_year y"
    and "month_from y m r = (m', d)"
  shows "1 \<le> m' \<and> m' \<le> 12 \<and> 1 \<le> d \<and> d \<le> days_in_month y m'
         \<and> days_before_month y m' + (d - 1) = days_before_month y m + r"
  using assms
proof (induction y m r rule: month_from.induct)
  case (1 y m r)
  have dec: "days_before_month y 13 = days_before_month y 12 + days_in_month y 12"
    by (simp add: numeral_eq_Suc)
  show ?case
  proof (cases "r < days_in_month y m \<or> 12 \<le> m")
    case True
    then have "r < days_in_month y m"
      using "1.prems" dec by (cases "m = 12") (auto simp: days_before_month_year)
    moreover have "m' = m" "d = r + 1" using True "1.prems"(4) by (simp_all add: month_from.simps)
    ultimately show ?thesis using "1.prems" by simp
  next
    case False
    with "1.prems" have eq: "month_from y (m + 1) (r - days_in_month y m) = (m', d)"
      by (subst (asm) month_from.simps) simp
    from False "1.prems" have "days_before_month y (m + 1) = days_before_month y m + days_in_month y m"
      by simp
    with "1.IH" [OF False _ _ _ eq] False "1.prems" show ?thesis by auto
  qed
qed

lemma ymd_of_day_spec:
  assumes "ymd_of_day n = (y, m, d)"
  shows "1 \<le> y \<and> 1 \<le> m \<and> m \<le> 12 \<and> 1 \<le> d \<and> d \<le> days_in_month y m \<and> day_number (y, m, d) = n"
proof -
  let ?y0 = "n div 366 + 1"
  obtain y' r where yr: "year_from ?y0 (n - days_before_year ?y0) = (y', r)" by (rule prod.exhaust)
  obtain m' d' where md: "month_from y' 1 r = (m', d')" by (rule prod.exhaust)
  have eq: "y = y'" "m = m'" "d = d'" using assms yr md by (simp_all add: ymd_of_day_def Let_def)
  have "days_before_year ?y0 \<le> n"
    using days_before_year_bound [of "n div 366"] times_div_less_eq_dividend [of 366 n] by simp
  with year_from_spec [OF _ yr] have y: "1 \<le> y'" "r < days_in_year y'" "days_before_year y' + r = n"
    by auto
  with month_from_spec [OF _ _ _ md] show ?thesis by (auto simp: eq day_number_def)
qed

lemma day_number_ymd [simp]: "day_number (ymd_of_day n) = n"
  using ymd_of_day_spec [of n] by (metis prod_cases3)

text \<open>A day number fixes its date: the year and the month are those whose interval holds it.\<close>

lemma days_before_year_mono: "1 \<le> y \<Longrightarrow> y \<le> z \<Longrightarrow> days_before_year y \<le> days_before_year z"
proof (induction z)
  case (Suc z)
  then show ?case by (cases "y = Suc z") (auto simp: days_before_year_Suc)
qed simp

lemma days_before_month_mono: "1 \<le> m \<Longrightarrow> m \<le> k \<Longrightarrow> days_before_month y m \<le> days_before_month y k"
proof (induction k)
  case (Suc k)
  then show ?case by (cases "m = Suc k") auto
qed simp

lemma day_of_year_less:
  assumes "1 \<le> m" "m \<le> 12" "1 \<le> d" "d \<le> days_in_month y m"
  shows "days_before_month y m + (d - 1) < days_in_year y"
proof -
  have "days_before_month y m + (d - 1) < days_before_month y (Suc m)" using assms by simp
  also have "\<dots> \<le> days_before_month y 13" using assms by (intro days_before_month_mono) simp_all
  finally show ?thesis by (simp add: days_before_month_year)
qed

lemma day_number_less:
  assumes "valid_ymd (y, m, d)" and "valid_ymd (y', m', d')" and "(y, m, d) < (y', m', d')"
  shows "day_number (y, m, d) < day_number (y', m', d')"
proof -
  consider "y < y'" | "y = y'" "m < m'" | "y = y'" "m = m'" "d < d'"
    using assms(3) by (auto simp: less_prod_def less_le split: if_splits)
  then show ?thesis
  proof cases
    case 1
    have "day_number (y, m, d) < days_before_year (Suc y)"
      using day_of_year_less [of m d y] assms(1) by (simp add: day_number_def valid_ymd_def days_before_year_Suc)
    also have "\<dots> \<le> days_before_year y'" using 1 by (intro days_before_year_mono) simp_all
    finally show ?thesis by (simp add: day_number_def)
  next
    case 2
    have "days_before_month y m + (d - 1) < days_before_month y (Suc m)"
      using assms(1) by (auto simp: valid_ymd_def)
    also have "\<dots> \<le> days_before_month y m'" using 2 by (intro days_before_month_mono) simp_all
    finally show ?thesis using 2 by (simp add: day_number_def)
  next
    case 3
    with assms(1) show ?thesis by (auto simp: day_number_def valid_ymd_def)
  qed
qed

lemma day_number_inject:
  "valid_ymd a \<Longrightarrow> valid_ymd b \<Longrightarrow> day_number a = day_number b \<longleftrightarrow> a = b"
proof (cases a b rule: linorder_cases)
  case less
  moreover assume "valid_ymd a" "valid_ymd b"
  ultimately show ?thesis using day_number_less by (cases a, cases b) fastforce
next
  case greater
  moreover assume "valid_ymd a" "valid_ymd b"
  ultimately show ?thesis using day_number_less by (cases a, cases b) fastforce
qed simp

lemma ymd_of_day_number: "valid_ymd a \<Longrightarrow> ymd_of_day (day_number a) = a"
proof -
  assume a: "valid_ymd a"
  obtain y m d where eq: "ymd_of_day (day_number a) = (y, m, d)" by (metis prod_cases3)
  note spec = ymd_of_day_spec [OF eq]
  obtain y' m' d' where a': "a = (y', m', d')" by (metis prod_cases3)
  have "y \<le> 9999"
  proof (rule ccontr)
    assume "\<not> y \<le> 9999"
    with a a' have "days_before_year (Suc y') \<le> days_before_year y"
      by (intro days_before_year_mono) (auto simp: valid_ymd_def)
    moreover have "day_number a < days_before_year (Suc y')"
      using day_of_year_less [of m' d' y'] a
      by (simp add: a' day_number_def valid_ymd_def days_before_year_Suc)
    ultimately show False using spec by (simp add: day_number_def)
  qed
  with spec have "valid_ymd (y, m, d)" by (simp add: valid_ymd_def)
  with spec a show ?thesis unfolding eq by (simp add: day_number_inject)
qed

subsection \<open>Fixed-width decimal fields\<close>

primrec dec :: "nat \<Rightarrow> nat \<Rightarrow> string" where
  "dec 0 n = []"
| "dec (Suc w) n = dec w (n div 10) @ [digit_char (n mod 10)]"

lemma length_dec [simp]: "length (dec w n) = w"
  by (induction w arbitrary: n) simp_all

lemma dec_digits: "list_all is_digit (dec w n)"
  by (induction w arbitrary: n) simp_all

lemma read_dec: "n < 10 ^ w \<Longrightarrow> read_digits 0 (dec w n) = n"
proof (induction w arbitrary: n)
  case (Suc w)
  then have "n div 10 < 10 ^ w" by (simp add: less_mult_imp_div_less mult.commute)
  with Suc.IH show ?case by (simp add: read_digits_snoc)
qed simp

lemma list_all2_digits: "list_all2 (\<lambda>p c. p c) (digits (length s)) s \<longleftrightarrow> list_all is_digit s"
  by (induction s) simp_all

lemma match_pat_append:
  "length ps = length s \<Longrightarrow> match_pat (ps @ qs) (s @ t) \<longleftrightarrow> match_pat ps s \<and> match_pat qs t"
  unfolding match_pat_def by (simp add: list_all2_append)

lemma match_dec [simp]: "match_pat (digits w) (dec w n)"
  unfolding match_pat_def using list_all2_digits [of "dec w n"] dec_digits [of w n] by simp

lemma match_lit [simp]: "match_pat (lit s) t \<longleftrightarrow> t = s"
  unfolding match_pat_def by (induction s arbitrary: t) (auto simp: list_all2_Cons1)

text \<open>The texts of a date and of a date with an hour, and their readers (\<open>fromisoformat\<close> on the two
  shapes that the patterns of the sources admit).\<close>

definition date_text :: "nat \<times> nat \<times> nat \<Rightarrow> string" where
  "date_text = (\<lambda>(y, m, d). dec 4 y @ ''-'' @ dec 2 m @ ''-'' @ dec 2 d)"

definition date_pattern :: "(char \<Rightarrow> bool) list" where
  "date_pattern = digits 4 @ lit ''-'' @ digits 2 @ lit ''-'' @ digits 2"

definition date_fields :: "string \<Rightarrow> nat \<times> nat \<times> nat" where
  "date_fields s = (read_digits 0 (take 4 s), read_digits 0 (take 2 (drop 5 s)),
                    read_digits 0 (take 2 (drop 8 s)))"

definition parse_date :: "string \<Rightarrow> (nat \<times> nat \<times> nat) option" where
  "parse_date s =
     (if match_pat date_pattern s \<and> valid_ymd (date_fields s) then Some (date_fields s) else None)"

lemma match_date_text [simp]: "match_pat date_pattern (date_text (y, m, d))"
  unfolding date_pattern_def date_text_def case_prod_conv
  by (simp only: match_pat_append length_dec length_replicate length_map match_dec match_lit list.size)

lemma valid_ymd_widths: "valid_ymd (y, m, d) \<Longrightarrow> y < 10 ^ 4 \<and> m < 10 ^ 2 \<and> d < 10 ^ 2"
  by (auto simp: valid_ymd_def days_in_month_def split: if_splits)

lemma date_fields_text:
  "y < 10 ^ 4 \<Longrightarrow> m < 10 ^ 2 \<Longrightarrow> d < 10 ^ 2 \<Longrightarrow> date_fields (date_text (y, m, d) @ s) = (y, m, d)"
  unfolding date_fields_def date_text_def by (simp add: read_dec)

lemma parse_date_text: "valid_ymd a \<Longrightarrow> parse_date (date_text a) = Some a"
  using date_fields_text [where s = "[]"] valid_ymd_widths
  by (cases a) (auto simp: parse_date_def)

subsection \<open>Instants\<close>

text \<open>The instants a \<open>datetime\<close> in UTC can hold; \<open>astimezone(UTC)\<close> overflows outside.\<close>

definition in_datetime_range :: "time \<Rightarrow> bool" where
  "in_datetime_range t = (-62135596800000000 \<le> t \<and> t < 253402300800000000)"

text \<open>The documented behaviour of \<open>isoformat\<close> in UTC: \<open>fromisoformat\<close> is its inverse, and the text consists of
  digits and the punctuation of \<open>YYYY-MM-DDTHH:MM:SS.ffffff+00:00\<close>.\<close>

definition iso_char :: "char \<Rightarrow> bool" where
  "iso_char c = (is_digit c \<or> c \<in> set ''T:+.-'')"

definition iso_laws :: "pylib \<Rightarrow> bool" where
  "iso_laws lib =
     (\<forall>t. in_datetime_range t \<longrightarrow>
        fromisoformat lib (isoformat_utc lib t) = Some (t, True)
        \<and> list_all iso_char (isoformat_utc lib t))"

lemma contains_chars: "contains m s \<Longrightarrow> set m \<subseteq> set s"
  by (auto simp: contains_iff dest: set_mono_sublist)

lemma lower_iso_char: "iso_char c \<Longrightarrow> lower_char c \<notin> set ''aeiosz''"
  by (auto simp: iso_char_def char_eq_nat [of "lower_char c"] of_lower_char class_nat)

lemma iso_text_not_secret:
  assumes "list_all iso_char s"
  shows "\<not> secret_search s" and "CHR ''Z'' \<notin> set s"
proof -
  have "\<forall>c\<in>set (lower s). c \<notin> set ''aeiosz''"
    using assms lower_iso_char unfolding lower_def list_all_iff by auto
  then have "\<not> contains m (lower s)" if "c \<in> set m" "c \<in> set ''aeiosz''" for m c
    using that contains_chars [of m "lower s"] by blast
  note no = this [of "CHR ''a''"] this [of "CHR ''o''"] this [of "CHR ''s''"]
  show "\<not> secret_search s"
    unfolding secret_search_def by (simp add: no)
  show "CHR ''Z'' \<notin> set s"
    using assms by (auto simp: list_all_iff iso_char_def is_digit_def less_eq_char_def)
qed

end
