(* ===== verification/Samples.thy ===== *)
theory Samples
  imports Schema Calendar
begin

text \<open>
  Concrete values for the closed instances of the theorems: a small library instance that answers
  like the Python runtime on the few texts used here, and sample rows.
\<close>

definition epoch_text :: string where "epoch_text = ''1970-01-01T00:00:00+00:00''"
definition later_text :: string where "later_text = ''1970-01-01T00:00:01+00:00''"

definition epoch_cursor :: string where
  "epoch_cursor = ''{\"provider_item_id\": \"a\", \"published_at\": \"1970-01-01T00:00:00+00:00\"}''"
definition later_cursor :: string where
  "later_cursor = ''{\"provider_item_id\": \"b\", \"published_at\": \"1970-01-01T00:00:01+00:00\"}''"

fun sample_str :: "json \<Rightarrow> string" where
  "sample_str (JStr s) = s"
| "sample_str (JInt n) = str_int n"
| "sample_str (JBool b) = (if b then ''True'' else ''False'')"
| "sample_str _ = ''None''"

definition sample_hash :: string where "sample_hash = replicate 64 (CHR ''0'')"

definition sample_url :: urlparts where
  "sample_url = \<lparr>url_scheme = ''https'', url_netloc = ''example.com'', url_hostname = Some ''example.com'', url_username = None,
     url_password = None, url_port = Inr None, url_path = ''/a'', url_query = ''''\<rparr>"

text \<open>An instant is printed as the usual text for the two instants the samples use, and as a tagged
  count otherwise; the reader is its inverse on every instant.\<close>

definition sample_isoformat :: "time \<Rightarrow> string" where
  "sample_isoformat t =
     (if t = 0 then epoch_text else if t = 1000000 then later_text else CHR ''T'' # str_int t)"

definition sample_fromisoformat :: "string \<Rightarrow> (time \<times> bool) option" where
  "sample_fromisoformat s =
     (if s = epoch_text then Some (0, True) else if s = later_text then Some (1000000, True)
      else case s of
        c # d # ds \<Rightarrow>
          (if c \<noteq> CHR ''T'' then None
           else if d = CHR ''-'' then Some (- int (read_digits 0 ds), True)
           else Some (int (read_digits 0 (d # ds)), True))
      | _ \<Rightarrow> None)"

definition sample_lib :: pylib where
  "sample_lib =
     \<lparr>json_loads = (\<lambda>s.
        if s = epoch_cursor
        then Some (JObj [(''provider_item_id'', JStr ''a''), (''published_at'', JStr epoch_text)])
        else if s = later_cursor
        then Some (JObj [(''provider_item_id'', JStr ''b''), (''published_at'', JStr later_text)])
        else None),
      fromisoformat = sample_fromisoformat,
      isoformat_utc = sample_isoformat,
      py_str = sample_str,
      canonical_dumps = (\<lambda>_. Some ''{}''),
      plain_dumps = (\<lambda>_. ''{}''),
      stable_dumps = (\<lambda>_. ''{}''),
      float_timestamp = (\<lambda>_. None),
      iso_normal = (\<lambda>s. map_option (sample_isoformat \<circ> fst) (sample_fromisoformat s)),
      float_text = (\<lambda>_. None),
      date_ordinal = (\<lambda>_. None),
      sha256_hex = (\<lambda>_. sample_hash),
      uuid5_url = (\<lambda>s. s),
      parse_uuid = (\<lambda>s. Some s),
      urlsplit = (\<lambda>_. Some sample_url),
      parse_qsl = (\<lambda>_. []),
      urlencode = (\<lambda>_. [])\<rparr>"

definition sample_source :: Source where
  "sample_source =
     \<lparr>src_id = ''s1'', src_code = ''marketaux'', src_name = ''Marketaux'', src_source_type = Src_API,
      src_access_method = ''marketaux'', src_authorization_status = Auth_AUTHORIZED,
      src_retention_class = ''link_only'', src_enabled = True, src_schedule_seconds = None,
      src_last_success_at = None, src_consecutive_failures = 0, src_created_at = 0,
      src_updated_at = 0\<rparr>"

definition sample_account :: SourceAccount where
  "sample_account =
     \<lparr>acc_id = ''a1'', acc_source_id = ''s1'', acc_external_id = None, acc_handle = None,
      acc_display_name = None, acc_endpoint = None, acc_identity_status = Ident_VERIFIED,
      acc_enabled = True, acc_collection_options = [], acc_last_identity_check_at = None,
      acc_created_at = 0, acc_updated_at = 0\<rparr>"

definition sample_content :: ContentItem where
  "sample_content =
     \<lparr>cnt_id = ''c1'', cnt_raw_item_id = ''r1'', cnt_source_id = ''s1'',
      cnt_source_account_id = Some ''a1'', cnt_content_kind = Kind_ARTICLE,
      cnt_external_id = Some ''x1'', cnt_title = Some ''Title'', cnt_source_summary = None,
      cnt_body = None, cnt_body_availability = Body_UNAVAILABLE, cnt_author = None,
      cnt_language = None, cnt_original_url = None, cnt_canonical_url = Some ''https://example.com/a'',
      cnt_source_published_at = Some 5, cnt_source_updated_at = None, cnt_first_seen_at = 6,
      cnt_content_hash = None, cnt_reply_to_external_id = None, cnt_quote_external_id = None,
      cnt_repost_external_id = None, cnt_deleted_status = Del_UNKNOWN, cnt_metadata = [],
      cnt_created_at = 7, cnt_updated_at = 7\<rparr>"

definition empty_db :: db where
  "empty_db =
     \<lparr>sources = [], source_accounts = [], collection_targets = [], collection_cursors = [],
      collection_runs = [], raw_items = [], raw_item_observations = [],
      safe_fact_projections = [], content_items = [], notifications = [], audit_logs = [],
      system_metadata = Map.empty\<rparr>"

definition sample_target :: CollectionTarget where
  "sample_target =
     \<lparr>tgt_id = ''t1'', tgt_target_key = ''news'', tgt_source_id = ''s1'', tgt_source_account_id = Some ''a1'',
      tgt_operation_key = ''news_all'', tgt_legacy_cursor_type = Some ''provider_cursor_v1'',
      tgt_operation_config_version = 1, tgt_provider_contract_version = 1, tgt_config_revision = 1,
      tgt_operation_config = [(''query'', JStr ''energy'')], tgt_status = Tgt_ACTIVE,
      tgt_cadence_seconds = 300, tgt_batch_limit = 3, tgt_max_requests_per_run = 1,
      tgt_max_pages_per_run = 1, tgt_max_response_bytes = 2048, tgt_request_timeout_seconds = 10,
      tgt_max_runtime_seconds = 60, tgt_cursor_strategy = COMPOUND, tgt_cursor_version = 1,
      tgt_collection_mode = Mode_INCREMENTAL, tgt_backfill_policy = Backfill_DISABLED,
      tgt_revision_policy = Revision_IGNORE, tgt_rate_limit_group = ''marketaux'', tgt_priority = 100,
      tgt_next_due_at = 0, tgt_next_retry_at = None, tgt_last_attempt_at = None,
      tgt_last_success_at = None, tgt_consecutive_failures = 0, tgt_health_status = Health_UNKNOWN,
      tgt_last_error_code = None, tgt_retired_at = None, tgt_created_at = 0, tgt_updated_at = 0\<rparr>"

definition sample_cursor :: CollectionCursor where
  "sample_cursor =
     \<lparr>cur_id = ''k1'', cur_source_account_id = ''a1'', cur_target_id = Some ''t1'',
      cur_cursor_type = ''news_all'', cur_cursor_version = 1, cur_run_mode = NORMAL,
      cur_cursor_value = None, cur_continuation = Some [(''page'', JInt 2)],
      cur_continuation_run_id = Some ''run1'', cur_watermark_at = None, cur_last_published_at = None,
      cur_updated_at = 0\<rparr>"

definition sample_run :: CollectionRun where
  "sample_run =
     \<lparr>run_id = ''run1'', run_source_id = ''s1'', run_source_account_id = Some ''a1'',
      run_target_id = Some ''t1'', run_run_mode = NORMAL, run_dispatch_identity = Some ''t1:1:0:normal'',
      run_started_at = 0, run_finished_at = Some 1, run_status = Run_PARTIAL, run_fetched_count = 0,
      run_request_count = 0, run_page_count = 0, run_resolved_window = None,
      run_operation_config_hash = None, run_new_count = 0, run_duplicate_count = 0, run_error_count = 0,
      run_error_code = None, run_error_message_redacted = None, run_retry_count = 0\<rparr>"

definition sample_db :: db where
  "sample_db = empty_db\<lparr>sources := [sample_source], source_accounts := [sample_account],
     collection_targets := [sample_target]\<rparr>"

text \<open>An identifier that occurs in no given list: longer than all of them together.\<close>

definition fresh_string :: "string list \<Rightarrow> string" where
  "fresh_string xs = CHR ''x'' # concat xs"

lemma fresh_string_new: "fresh_string xs \<notin> set xs"
proof
  assume "fresh_string xs \<in> set xs"
  then have "length (fresh_string xs) \<le> sum_list (map length xs)" by (intro member_le_sum_list) auto
  then show False by (simp add: fresh_string_def length_concat)
qed

lemmas sample_defs = sample_lib_def sample_source_def sample_account_def sample_content_def
  empty_db_def sample_url_def epoch_text_def later_text_def epoch_cursor_def later_cursor_def
  sample_hash_def sample_isoformat_def sample_fromisoformat_def

lemma sample_fromiso_T: "sample_fromisoformat (CHR ''T'' # str_int t) = Some (t, True)"
proof (cases "t < 0")
  case True
  then obtain c ds where "str_nat (nat (- t)) = c # ds" by (cases "str_nat (nat (- t))") auto
  then show ?thesis
    using True read_str_nat [of "nat (- t)"]
    by (simp add: sample_fromisoformat_def epoch_text_def later_text_def str_int_def del: read_str_nat)
next
  case False
  then obtain n where t: "t = int n" by (metis nat_eq_iff2 linorder_not_less)
  have "hd (str_nat n) \<noteq> CHR ''-''"
    using str_nat_digits [of "hd (str_nat n)" n] by (auto simp: is_digit_def less_eq_char_def)
  then obtain c ds where "str_nat n = c # ds" "c \<noteq> CHR ''-''" by (cases "str_nat n") auto
  then show ?thesis
    using read_str_nat [of n] t
    by (simp add: sample_fromisoformat_def epoch_text_def later_text_def str_int_def del: read_str_nat)
qed

lemma sample_iso_laws: "iso_laws sample_lib"
proof -
  have chars: "list_all iso_char (sample_isoformat t)" for t
    using str_int_chars [of _ t]
    by (auto simp: sample_isoformat_def epoch_text_def later_text_def iso_char_def list_all_iff
        is_digit_def less_eq_char_def)
  have inverse: "sample_fromisoformat (sample_isoformat t) = Some (t, True)" for t
    using sample_fromiso_T [of t]
    by (auto simp: sample_isoformat_def sample_fromisoformat_def epoch_text_def later_text_def)
  show ?thesis using chars inverse by (simp add: iso_laws_def sample_lib_def)
qed

end
