(* ===== verification/Intent.thy ===== *)
theory Intent
  imports Samples
begin

text \<open>
  Notification intents (\<open>notifications/intent.py\<close>): the cutover watermark and its text form, the
  eligibility of a content item, the idempotent creation of a pending notification, and the
  reconciler that repairs recorded recoveries and scans the backlog past the watermark.

  \<open>gen\<close> is the id the server default draws in a state, \<open>ts\<close> the transaction timestamp, \<open>now\<close> the
  clock the code reads, and \<open>locked\<close> the rows other transactions hold under \<open>SKIP LOCKED\<close>.
\<close>

definition POLICY_ID :: string where "POLICY_ID = ''spec-0038-multi-provider-telegram''"
definition POLICY_VERSION :: string where "POLICY_VERSION = ''1''"
definition SCAN_ACTION :: string where
  "SCAN_ACTION = ''notification_intent_candidate_scanned_v'' @ POLICY_VERSION"
definition WATERMARK_KEY :: string where "WATERMARK_KEY = ''notification.intent.cutover.v1''"
definition PROVIDERS :: "string list" where
  "PROVIDERS = [''marketaux'', ''finnhub'', ''eia'', ''sec_edgar'']"

fun policy_kinds :: "string \<Rightarrow> ContentKind list" where
  "policy_kinds p =
     (if p = ''finnhub'' then [Kind_ARTICLE]
      else if p = ''marketaux'' then [Kind_ARTICLE, Kind_FEED_ENTRY]
      else if p = ''sec_edgar'' then [Kind_OFFICIAL_RELEASE]
      else [])"

record IntentWatermark =
  wm_created_at :: time
  wm_content_item_id :: uuid

definition encode_watermark :: "pylib \<Rightarrow> IntentWatermark \<Rightarrow> string" where
  "encode_watermark L w = isoformat_utc L (wm_created_at w) @ ''|'' @ wm_content_item_id w"

text \<open>\<open>value.split("|", 1)\<close> unpacked into two names: \<open>None\<close> when there is no separator.\<close>

fun split_bar :: "string \<Rightarrow> (string \<times> string) option" where
  "split_bar [] = None"
| "split_bar (c # cs) =
     (if c = CHR ''|'' then Some ([], cs)
      else map_option (\<lambda>(a, b). (c # a, b)) (split_bar cs))"

definition decode_watermark :: "pylib \<Rightarrow> string \<Rightarrow> IntentWatermark res" where
  "decode_watermark L value =
     (case split_bar value of
        None \<Rightarrow> Inl (ValueError ''notification_cutover_watermark_invalid'')
      | Some (timestamp, identity) \<Rightarrow>
          (case (fromisoformat L timestamp, parse_uuid L identity) of
             (Some (t, aware), Some u) \<Rightarrow>
               (if aware then Inr \<lparr>wm_created_at = t, wm_content_item_id = u\<rparr>
                else Inl (ValueError ''notification_cutover_watermark_invalid''))
           | _ \<Rightarrow> Inl (ValueError ''notification_cutover_watermark_invalid'')))"

definition notification_dedup_key :: "string \<Rightarrow> uuid \<Rightarrow> string res" where
  "notification_dedup_key provider content_item_id =
     (if provider \<notin> set PROVIDERS then Inl (ValueError ''notification_provider_invalid'')
      else Inr (provider @ '':telegram:'' @ content_item_id))"

definition persist_cutover_watermark :: "pylib \<Rightarrow> IntentWatermark \<Rightarrow> db \<Rightarrow> bool \<times> db" where
  "persist_cutover_watermark L w d =
     (case system_metadata d WATERMARK_KEY of
        Some _ \<Rightarrow> (False, d)
      | None \<Rightarrow> (True, d\<lparr>system_metadata :=
                   (system_metadata d)(WATERMARK_KEY \<mapsto> encode_watermark L w)\<rparr>))"

definition load_cutover_watermark :: "pylib \<Rightarrow> db \<Rightarrow> IntentWatermark option res" where
  "load_cutover_watermark L d =
     (case system_metadata d WATERMARK_KEY of
        None \<Rightarrow> Inr None
      | Some v \<Rightarrow> bindR (decode_watermark L v) (\<lambda>w. Inr (Some w)))"

definition safe_text :: "string option \<Rightarrow> bool" where
  "safe_text value =
     (case value of None \<Rightarrow> False
      | Some v \<Rightarrow> v \<noteq> [] \<and> strip v \<noteq> [] \<and> \<not> secret_search v)"

definition safe_url :: "pylib \<Rightarrow> string option \<Rightarrow> bool res" where
  "safe_url L value =
     (case value of None \<Rightarrow> Inr True
      | Some v \<Rightarrow>
          (if secret_search v then Inr False
           else case urlsplit L v of
                  None \<Rightarrow> Inl (ValueError ''urlsplit'')
                | Some p \<Rightarrow> Inr (url_scheme p \<in> {''http'', ''https''}
                               \<and> (url_hostname p \<noteq> None \<and> url_hostname p \<noteq> Some [])
                               \<and> url_username p = None)))"

definition authorized :: "Source \<Rightarrow> bool" where
  "authorized s = (src_authorization_status s \<in> {Auth_AUTHORIZED, Auth_IMPLEMENTED})"

definition operation_of :: "ContentItem \<Rightarrow> string option" where
  "operation_of c = (case map_of (cnt_metadata c) ''operation_key'' of
                       Some (JStr s) \<Rightarrow> Some s | _ \<Rightarrow> None)"

definition content_candidate :: "pylib \<Rightarrow> db \<Rightarrow> uuid \<Rightarrow> (ContentItem \<times> string) option res" where
  "content_candidate L d content_item_id =
     (case List.find (\<lambda>c. cnt_id c = content_item_id) (content_items d) of
        None \<Rightarrow> Inr None
      | Some content \<Rightarrow>
          (case get_source d (cnt_source_id content) of
             None \<Rightarrow> Inr None
           | Some source \<Rightarrow>
               bindR (load_cutover_watermark L d) (\<lambda>watermark.
                 case watermark of
                   None \<Rightarrow> Inr None
                 | Some w \<Rightarrow>
                     (if (cnt_created_at content, cnt_id content)
                           \<le> (wm_created_at w, wm_content_item_id w)
                      then Inr None
                      else
                        let provider = src_access_method source in
                        if provider \<notin> set PROVIDERS
                           \<or> \<not> src_enabled source
                           \<or> \<not> authorized source
                           \<or> cnt_content_kind content \<notin> set (policy_kinds provider)
                           \<or> (provider = ''finnhub'' \<and> operation_of content \<noteq> Some ''company_news'')
                           \<or> cnt_source_published_at content = None
                           \<or> \<not> safe_text (cnt_title content)
                        then Inr None
                        else bindR (safe_url L (cnt_canonical_url content)) (\<lambda>ok.
                               Inr (if ok then Some (content, provider) else None))))))"

definition pending_notification ::
  "uuid \<Rightarrow> time \<Rightarrow> time \<Rightarrow> string \<Rightarrow> string \<Rightarrow> uuid \<Rightarrow> Notification" where
  "pending_notification nid ts now provider dedup content_item_id =
     \<lparr>ntf_id = nid, ntf_content_item_id = Some content_item_id, ntf_priority = Prio_P3,
      ntf_priority_reason = ''new_'' @ provider @ ''_display_item'',
      ntf_policy_rule_id = POLICY_ID, ntf_policy_version = POLICY_VERSION,
      ntf_channel = Chan_TELEGRAM_PUSH, ntf_dedup_key = dedup, ntf_payload_version = 1,
      ntf_status = Ntf_PENDING, ntf_scheduled_at = Some now, ntf_sent_at = None,
      ntf_failure_code = None, ntf_retry_count = 0, ntf_created_at = ts\<rparr>"

definition create_pending_intent ::
  "pylib \<Rightarrow> (db \<Rightarrow> uuid) \<Rightarrow> time \<Rightarrow> time \<Rightarrow> uuid \<Rightarrow> db \<Rightarrow> (uuid option \<times> db) res" where
  "create_pending_intent L gen ts now content_item_id d =
     bindR (content_candidate L d content_item_id) (\<lambda>cand.
       case cand of
         None \<Rightarrow> Inr (None, d)
       | Some (_, provider) \<Rightarrow>
           bindR (notification_dedup_key provider content_item_id) (\<lambda>dedup.
             if dedup \<in> ntf_dedup_key ` set (notifications d) then Inr (None, d)
             else Inr (Some (gen d),
                       d\<lparr>notifications := notifications d
                          @ [pending_notification (gen d) ts now provider dedup content_item_id]\<rparr>)))"

definition audit_row ::
  "uuid \<Rightarrow> time \<Rightarrow> string option \<Rightarrow> string \<Rightarrow> uuid option \<Rightarrow> dict \<Rightarrow> AuditLog" where
  "audit_row aid ts actor act target after =
     \<lparr>aud_id = aid, aud_actor_type = ''system'', aud_actor_id = actor, aud_action = act,
      aud_target_type = ''content_item'', aud_target_id = target, aud_before = None,
      aud_after = Some after, aud_created_at = ts\<rparr>"

definition add_audit :: "AuditLog \<Rightarrow> db \<Rightarrow> db" where
  "add_audit a d = d\<lparr>audit_logs := audit_logs d @ [a]\<rparr>"

definition record_intent_recovery :: "(db \<Rightarrow> uuid) \<Rightarrow> time \<Rightarrow> uuid \<Rightarrow> db \<Rightarrow> db" where
  "record_intent_recovery gen ts content_item_id d =
     add_audit (audit_row (gen d) ts None ''notification_intent_recovery'' (Some content_item_id)
       [(''policy_id'', JStr POLICY_ID), (''policy_version'', JStr POLICY_VERSION),
        (''status'', JStr ''pending''),
        (''safe_error'', JStr ''notification_intent_pending_recovery'')]) d"

definition resolve_recovery ::
  "(db \<Rightarrow> uuid) \<Rightarrow> time \<Rightarrow> AuditLog \<Rightarrow> string \<Rightarrow> db \<Rightarrow> db" where
  "resolve_recovery gen ts recovery status d =
     add_audit (audit_row (gen d) ts (Some (aud_id recovery))
       ''notification_intent_recovery_resolved'' (aud_target_id recovery)
       ([(''policy_id'', JStr POLICY_ID), (''policy_version'', JStr POLICY_VERSION),
         (''status'', JStr status)]
        @ (if status = ''blocked''
           then [(''safe_error'', JStr ''notification_candidate_invalid'')] else []))) d"

definition record_scanned_candidate :: "(db \<Rightarrow> uuid) \<Rightarrow> time \<Rightarrow> uuid \<Rightarrow> db \<Rightarrow> db" where
  "record_scanned_candidate gen ts content_item_id d =
     add_audit (audit_row (gen d) ts None SCAN_ACTION (Some content_item_id)
       [(''policy_id'', JStr POLICY_ID), (''policy_version'', JStr POLICY_VERSION),
        (''status'', JStr ''not_applicable''),
        (''safe_error'', JStr ''notification_candidate_invalid'')]) d"

subsection \<open>Reconciliation\<close>

record ReconcileReport =
  rep_scanned :: nat
  rep_created :: nat
  rep_resolved :: nat

definition unresolved :: "db \<Rightarrow> AuditLog \<Rightarrow> bool" where
  "unresolved d a =
     (aud_action a = ''notification_intent_recovery''
      \<and> \<not> list_ex (\<lambda>r. aud_action r = ''notification_intent_recovery_resolved''
                       \<and> aud_actor_id r = Some (aud_id a)) (audit_logs d))"

definition pending_recoveries :: "(uuid \<Rightarrow> bool) \<Rightarrow> nat \<Rightarrow> db \<Rightarrow> AuditLog list" where
  "pending_recoveries locked limit d =
     take limit (sort_key (\<lambda>a. (aud_created_at a, aud_id a))
       (filter (\<lambda>a. unresolved d a \<and> \<not> locked (aud_id a)) (audit_logs d)))"

text \<open>The \<open>WHERE\<close> clause of the backlog scan.\<close>

definition in_backlog :: "IntentWatermark \<Rightarrow> db \<Rightarrow> ContentItem \<Rightarrow> bool" where
  "in_backlog cutover d c =
     ((cnt_created_at c > wm_created_at cutover
       \<or> (cnt_created_at c = wm_created_at cutover \<and> cnt_id c > wm_content_item_id cutover))
      \<and> \<not> list_ex (\<lambda>n. ntf_content_item_id n = Some (cnt_id c) \<and> ntf_policy_rule_id n = POLICY_ID
                      \<and> ntf_channel n = Chan_TELEGRAM_PUSH) (notifications d)
      \<and> \<not> list_ex (\<lambda>a. aud_action a = SCAN_ACTION \<and> aud_target_id a = Some (cnt_id c))
            (audit_logs d)
      \<and> (case get_source d (cnt_source_id c) of
           None \<Rightarrow> False
         | Some s \<Rightarrow>
             src_enabled s \<and> authorized s
             \<and> ((src_access_method s = ''finnhub'' \<and> cnt_content_kind c = Kind_ARTICLE
                 \<and> operation_of c = Some ''company_news'')
                \<or> (src_access_method s = ''marketaux''
                   \<and> cnt_content_kind c \<in> {Kind_ARTICLE, Kind_FEED_ENTRY})
                \<or> (src_access_method s = ''sec_edgar''
                   \<and> cnt_content_kind c = Kind_OFFICIAL_RELEASE))))"

definition backlog :: "IntentWatermark \<Rightarrow> (uuid \<Rightarrow> bool) \<Rightarrow> db \<Rightarrow> ContentItem list" where
  "backlog cutover locked d =
     sort_key (\<lambda>c. (cnt_created_at c, cnt_id c))
       (filter (\<lambda>c. in_backlog cutover d c \<and> \<not> locked (cnt_id c)) (content_items d))"

fun reconcile_recoveries ::
  "pylib \<Rightarrow> (db \<Rightarrow> uuid) \<Rightarrow> time \<Rightarrow> time \<Rightarrow> AuditLog list \<Rightarrow> db \<Rightarrow> db res" where
  "reconcile_recoveries L gen ts now [] d = Inr d"
| "reconcile_recoveries L gen ts now (recovery # rest) d =
     (case aud_target_id recovery of
        None \<Rightarrow> reconcile_recoveries L gen ts now rest (resolve_recovery gen ts recovery ''blocked'' d)
      | Some target \<Rightarrow>
          bindR (content_candidate L d target) (\<lambda>cand.
            case cand of
              None \<Rightarrow> reconcile_recoveries L gen ts now rest
                        (resolve_recovery gen ts recovery ''blocked'' d)
            | Some _ \<Rightarrow>
                bindR (create_pending_intent L gen ts now target d) (\<lambda>(_, d1).
                  reconcile_recoveries L gen ts now rest
                    (resolve_recovery gen ts recovery ''resolved'' d1))))"

fun reconcile_contents ::
  "pylib \<Rightarrow> (db \<Rightarrow> uuid) \<Rightarrow> time \<Rightarrow> time \<Rightarrow> uuid list \<Rightarrow> nat \<Rightarrow> db \<Rightarrow> (nat \<times> db) res" where
  "reconcile_contents L gen ts now [] created d = Inr (created, d)"
| "reconcile_contents L gen ts now (content_id # rest) created d =
     bindR (create_pending_intent L gen ts now content_id d) (\<lambda>(made, d1).
       case made of
         Some _ \<Rightarrow> reconcile_contents L gen ts now rest (Suc created) d1
       | None \<Rightarrow> reconcile_contents L gen ts now rest created
                   (record_scanned_candidate gen ts content_id d1))"

definition reconcile ::
  "pylib \<Rightarrow> (db \<Rightarrow> uuid) \<Rightarrow> (uuid \<Rightarrow> bool) \<Rightarrow> time \<Rightarrow> time \<Rightarrow> int \<Rightarrow> db
     \<Rightarrow> (ReconcileReport \<times> db) res" where
  "reconcile L gen locked ts now limit d =
     (if \<not> (1 \<le> limit \<and> limit \<le> 500)
      then Inl (ValueError ''notification_reconcile_limit_invalid'')
      else bindR (load_cutover_watermark L d) (\<lambda>cutover.
        case cutover of
          None \<Rightarrow> Inr (\<lparr>rep_scanned = 0, rep_created = 0, rep_resolved = 0\<rparr>, d)
        | Some w \<Rightarrow>
            (let recoveries = pending_recoveries locked (nat limit) d in
             bindR (reconcile_recoveries L gen ts now recoveries d) (\<lambda>d1.
               let remaining = nat limit - length recoveries;
                   ids = map cnt_id (take remaining (backlog w locked d1)) in
               bindR (reconcile_contents L gen ts now ids 0 d1) (\<lambda>(created, d2).
                 Inr (\<lparr>rep_scanned = length recoveries + length ids, rep_created = created,
                       rep_resolved = length recoveries\<rparr>, d2))))))"

subsection \<open>Watermark\<close>

lemma split_bar_append: "CHR ''|'' \<notin> set a \<Longrightarrow> split_bar (a @ CHR ''|'' # b) = Some (a, b)"
  by (induction a) auto

text \<open>
  Reading back a stored cutover watermark gives the watermark that was written, for any
  ISO printer and parser that are inverse on instants and never print the separator.
\<close>

theorem watermark_roundtrip:
  assumes "fromisoformat L (isoformat_utc L (wm_created_at w)) = Some (wm_created_at w, True)"
    and "CHR ''|'' \<notin> set (isoformat_utc L (wm_created_at w))"
    and "parse_uuid L (wm_content_item_id w) = Some (wm_content_item_id w)"
  shows "decode_watermark L (encode_watermark L w) = Inr w"
  using assms by (simp add: decode_watermark_def encode_watermark_def split_bar_append)

definition sample_watermark :: IntentWatermark where
  "sample_watermark = \<lparr>wm_created_at = 0, wm_content_item_id = ''c0''\<rparr>"

theorem watermark_roundtrip_witness:
  "decode_watermark sample_lib (encode_watermark sample_lib sample_watermark)
     = Inr sample_watermark"
  by (rule watermark_roundtrip) (simp_all add: sample_lib_def sample_isoformat_def sample_fromisoformat_def sample_watermark_def epoch_text_def)

lemma load_after_persist:
  assumes "decode_watermark L (encode_watermark L w) = Inr w"
    and "persist_cutover_watermark L w d = (True, d')"
  shows "load_cutover_watermark L d' = Inr (Some w)"
  using assms by (auto simp: persist_cutover_watermark_def load_cutover_watermark_def
                       split: option.splits)

lemma persist_first_writer:
  "persist_cutover_watermark L w d = (b, d') \<Longrightarrow>
     persist_cutover_watermark L w' d' = (False, d')"
  by (auto simp: persist_cutover_watermark_def split: option.splits)

subsection \<open>Creation is idempotent\<close>

text \<open>What the eligibility check reads is not written by the intent operations.\<close>

definition intent_frame :: "db \<Rightarrow> db \<Rightarrow> bool" where
  "intent_frame d d' \<longleftrightarrow>
     content_items d' = content_items d \<and> sources d' = sources d
     \<and> system_metadata d' = system_metadata d
     \<and> (\<exists>ns. notifications d' = notifications d @ ns)
     \<and> (\<exists>as. audit_logs d' = audit_logs d @ as)"

lemma intent_frame_refl [simp]: "intent_frame d d"
  by (simp add: intent_frame_def)

lemma intent_frame_trans: "intent_frame a b \<Longrightarrow> intent_frame b c \<Longrightarrow> intent_frame a c"
  by (auto simp: intent_frame_def)

lemma intent_frame_audit [simp]: "intent_frame d (add_audit a d)"
  by (simp add: intent_frame_def add_audit_def)

lemma intent_frame_audits [simp]:
  "intent_frame d (resolve_recovery gen ts r s d)"
  "intent_frame d (record_scanned_candidate gen ts c d)"
  "intent_frame d (record_intent_recovery gen ts c d)"
  by (simp_all add: resolve_recovery_def record_scanned_candidate_def record_intent_recovery_def)

lemma intent_frame_through:
  "intent_frame d d1 \<Longrightarrow> intent_frame (resolve_recovery gen ts r s d1) d' \<Longrightarrow> intent_frame d d'"
  "intent_frame d d1 \<Longrightarrow> intent_frame (record_scanned_candidate gen ts c d1) d' \<Longrightarrow> intent_frame d d'"
  by (meson intent_frame_audits intent_frame_trans)+

lemma load_watermark_frame:
  "intent_frame d d' \<Longrightarrow> load_cutover_watermark L d' = load_cutover_watermark L d"
  by (simp add: intent_frame_def load_cutover_watermark_def)

lemma content_candidate_frame:
  assumes "intent_frame d d'"
  shows "content_candidate L d' i = content_candidate L d i"
proof -
  have items: "content_items d' = content_items d" and source: "get_source d' = get_source d"
    using assms by (auto simp: intent_frame_def get_source_def)
  show ?thesis
    unfolding content_candidate_def load_watermark_frame [OF assms] items source by (rule refl)
qed

lemma create_pending_intent_cases:
  assumes "create_pending_intent L gen ts now i d = Inr (r, d')"
  shows "(r = None \<and> d' = d) \<or>
     (\<exists>c p k. content_candidate L d i = Inr (Some (c, p))
        \<and> notification_dedup_key p i = Inr k \<and> k \<notin> ntf_dedup_key ` set (notifications d)
        \<and> r = Some (gen d)
        \<and> d' = d\<lparr>notifications := notifications d @ [pending_notification (gen d) ts now p k i]\<rparr>)"
  using assms
  by (auto simp: create_pending_intent_def bindR_Inr_iff split: option.splits if_splits)

text \<open>No row is inserted for an ineligible item or for a dedup key that is taken.\<close>

lemma create_pending_intent_noop_iff:
  "create_pending_intent L gen ts now i d = Inr (None, d) \<longleftrightarrow>
     (\<exists>cand. content_candidate L d i = Inr cand
        \<and> (case cand of None \<Rightarrow> True
            | Some (_, p) \<Rightarrow> \<exists>k. notification_dedup_key p i = Inr k
                              \<and> k \<in> ntf_dedup_key ` set (notifications d)))"
proof (cases "content_candidate L d i")
  case (Inr cand)
  show ?thesis
  proof (cases cand)
    case (Some cp)
    obtain c p where "cp = (c, p)" by (cases cp)
    with Inr Some show ?thesis
      by (cases "notification_dedup_key p i") (simp_all add: create_pending_intent_def)
  qed (simp add: Inr create_pending_intent_def)
qed (simp add: create_pending_intent_def)

lemma create_pending_intent_frame:
  "create_pending_intent L gen ts now i d = Inr (r, d') \<Longrightarrow> intent_frame d d'"
  by (drule create_pending_intent_cases) (auto simp: intent_frame_def)

text \<open>
  Property C16. Creating an intent is idempotent and keeps the dedup key unique: after a call that
  returns, a second call for the same content item inserts nothing, the index on the dedup key still
  holds, and a row was added exactly when an id was returned: a PENDING notification with no
  attempts, of the policy, due at once.
\<close>

theorem create_pending_intent_idempotent:
  assumes "create_pending_intent L gen ts now i d = Inr (r, d')"
    and "uq_dedup_key (notifications d)"
  shows "create_pending_intent L gen2 ts2 now2 i d' = Inr (None, d')
         \<and> uq_dedup_key (notifications d')
         \<and> (case r of
              None \<Rightarrow> d' = d
            | Some n \<Rightarrow> \<exists>p k. notifications d' =
                            notifications d @ [pending_notification n ts now p k i])"
proof (intro conjI)
  note c = create_pending_intent_cases [OF assms(1)]
  have cand: "content_candidate L d' i = content_candidate L d i"
    using assms(1) by (intro content_candidate_frame create_pending_intent_frame)
  show "create_pending_intent L gen2 ts2 now2 i d' = Inr (None, d')"
  proof (cases r)
    case None
    with c have "d' = d" by auto
    with None assms(1) show ?thesis by (simp add: create_pending_intent_noop_iff)
  next
    case (Some n)
    with c show ?thesis
      unfolding create_pending_intent_noop_iff cand by (auto simp: pending_notification_def)
  qed
  show "uq_dedup_key (notifications d')"
    using c assms(2) by (auto simp: uq_dedup_key_def pending_notification_def)
  show "case r of None \<Rightarrow> d' = d
          | Some n \<Rightarrow> \<exists>p k. notifications d' = notifications d @ [pending_notification n ts now p k i]"
    using c by (cases r) (simp, force)
qed

definition intent_db :: db where
  "intent_db = empty_db\<lparr>sources := [sample_source], content_items := [sample_content],
     system_metadata := [WATERMARK_KEY \<mapsto> epoch_text @ ''|c0'']\<rparr>"

lemma intent_db_watermark:
  "load_cutover_watermark sample_lib intent_db = Inr (Some sample_watermark)"
  by (simp add: load_cutover_watermark_def intent_db_def decode_watermark_def sample_watermark_def
      epoch_text_def sample_lib_def sample_isoformat_def sample_fromisoformat_def)

lemma sample_text_safe:
  "\<not> secret_search ''Title''" "\<not> secret_search ''https://example.com/a''" "strip ''Title'' \<noteq> []"
  by code_simp+

lemma intent_db_candidate:
  "content_candidate sample_lib intent_db ''c1'' = Inr (Some (sample_content, ''marketaux''))"
  unfolding content_candidate_def intent_db_watermark
  by (simp add: intent_db_def sample_content_def get_source_def sample_source_def PROVIDERS_def
      authorized_def safe_text_def safe_url_def sample_watermark_def sample_text_safe
      sample_lib_def sample_url_def less_eq_prod_def)

lemma intent_db_create:
  "create_pending_intent sample_lib (\<lambda>_. ''n1'') 10 10 ''c1'' intent_db =
     Inr (Some ''n1'', intent_db\<lparr>notifications :=
       [pending_notification ''n1'' 10 10 ''marketaux'' ''marketaux:telegram:c1'' ''c1'']\<rparr>)"
  unfolding create_pending_intent_def intent_db_candidate
  by (simp add: notification_dedup_key_def PROVIDERS_def intent_db_def empty_db_def)

theorem create_pending_intent_idempotent_witness:
  "create_pending_intent sample_lib (\<lambda>_. ''n2'') 11 11 ''c1''
     (intent_db\<lparr>notifications :=
        [pending_notification ''n1'' 10 10 ''marketaux'' ''marketaux:telegram:c1'' ''c1'']\<rparr>) =
   Inr (None, intent_db\<lparr>notifications :=
        [pending_notification ''n1'' 10 10 ''marketaux'' ''marketaux:telegram:c1'' ''c1'']\<rparr>)"
proof -
  have "uq_dedup_key (notifications intent_db)"
    by (simp add: uq_dedup_key_def intent_db_def empty_db_def)
  from create_pending_intent_idempotent [OF intent_db_create this] show ?thesis by blast
qed

subsection \<open>The reconciler\<close>

lemma create_pending_intent_uq:
  "create_pending_intent L gen ts now i d = Inr (r, d') \<Longrightarrow> uq_dedup_key (notifications d) \<Longrightarrow>
     uq_dedup_key (notifications d')"
  by (drule create_pending_intent_cases) (auto simp: uq_dedup_key_def pending_notification_def)

lemma audit_notifications [simp]:
  "notifications (add_audit a d) = notifications d"
  "notifications (resolve_recovery gen ts r s d) = notifications d"
  "notifications (record_scanned_candidate gen ts c d) = notifications d"
  by (simp_all add: add_audit_def resolve_recovery_def record_scanned_candidate_def)

lemma reconcile_recoveries_keeps:
  assumes "reconcile_recoveries L gen ts now rs d = Inr d'"
  shows "intent_frame d d' \<and> (uq_dedup_key (notifications d) \<longrightarrow> uq_dedup_key (notifications d'))"
  using assms
proof (induction L gen ts now rs d rule: reconcile_recoveries.induct)
  case (2 L gen ts now recovery rest d)
  show ?case
  proof (cases "aud_target_id recovery")
    case None
    with "2" show ?thesis
      by (auto intro: intent_frame_trans [OF intent_frame_audits(1)])
  next
    case (Some target)
    with "2.prems" obtain cand where cand: "content_candidate L d target = Inr cand"
      by (auto simp: bindR_Inr_iff)
    show ?thesis
    proof (cases cand)
      case None
      with Some cand "2" show ?thesis
        by (auto intro: intent_frame_trans [OF intent_frame_audits(1)])
    next
      case (Some x)
      with \<open>aud_target_id recovery = Some target\<close> cand "2.prems" obtain r d1
        where mk: "create_pending_intent L gen ts now target d = Inr (r, d1)"
          and rest: "reconcile_recoveries L gen ts now rest
                       (resolve_recovery gen ts recovery ''resolved'' d1) = Inr d'"
        by (auto simp: bindR_Inr_iff)
      from "2.IH"(3) [OF \<open>aud_target_id recovery = Some target\<close> cand Some mk refl rest]
      show ?thesis
        using create_pending_intent_frame [OF mk] create_pending_intent_uq [OF mk]
        by (auto intro: intent_frame_through)
    qed
  qed
qed simp

lemma in_backlog_anti: "intent_frame d d' \<Longrightarrow> in_backlog w d' c \<Longrightarrow> in_backlog w d c"
  by (auto simp: in_backlog_def intent_frame_def get_source_def)

text \<open>A processed id leaves the backlog: it now has a notification or a scan marker.\<close>

lemma create_leaves_backlog:
  assumes "create_pending_intent L gen ts now i d = Inr (Some n, d')" and "cnt_id c = i"
  shows "\<not> in_backlog w d' c"
  using create_pending_intent_cases [OF assms(1)] assms(2)
  by (auto simp: in_backlog_def pending_notification_def)

lemma scanned_leaves_backlog:
  "cnt_id c = i \<Longrightarrow> \<not> in_backlog w (record_scanned_candidate gen ts i d) c"
  by (simp add: in_backlog_def record_scanned_candidate_def add_audit_def audit_row_def)

lemma reconcile_contents_keeps:
  assumes "reconcile_contents L gen ts now ids n d = Inr (m, d')"
  shows "intent_frame d d'
         \<and> (uq_dedup_key (notifications d) \<longrightarrow> uq_dedup_key (notifications d'))
         \<and> m \<le> n + length ids
         \<and> (\<forall>c w. cnt_id c \<in> set ids \<longrightarrow> \<not> in_backlog w d' c)"
  using assms
proof (induction L gen ts now ids n d arbitrary: m rule: reconcile_contents.induct)
  case (2 L gen ts now i rest n d)
  from "2.prems" obtain r d1 where mk: "create_pending_intent L gen ts now i d = Inr (r, d1)"
    by (auto simp: bindR_Inr_iff)
  note frame = create_pending_intent_frame [OF mk] and uq = create_pending_intent_uq [OF mk]
  show ?case
  proof (cases r)
    case None
    let ?d2 = "record_scanned_candidate gen ts i d1"
    from "2.prems" None mk have "reconcile_contents L gen ts now rest n ?d2 = Inr (m, d')" by simp
    note ih = "2.IH"(1) [OF mk refl None this]
    then have "intent_frame ?d2 d'" by simp
    then have "\<not> in_backlog w d' c" if "cnt_id c = i" for c w
      using in_backlog_anti scanned_leaves_backlog [OF that] by blast
    with ih frame uq show ?thesis
      by (auto intro: intent_frame_through)
  next
    case (Some x)
    from "2.prems" Some mk have "reconcile_contents L gen ts now rest (Suc n) d1 = Inr (m, d')" by simp
    note ih = "2.IH"(2) [OF mk refl Some this]
    then have "intent_frame d1 d'" by simp
    then have "\<not> in_backlog w d' c" if "cnt_id c = i" for c w
      using in_backlog_anti create_leaves_backlog [OF mk [unfolded Some] that] by blast
    with ih frame uq show ?thesis
      by (auto intro: intent_frame_trans)
  qed
qed simp

lemma length_filter_removed:
  assumes "distinct ids" and "set ids \<subseteq> k ` set (filter P xs)"
    and "\<And>x. x \<in> set xs \<Longrightarrow> Q x \<Longrightarrow> P x \<and> k x \<notin> set ids"
  shows "length (filter Q xs) + length ids \<le> length (filter P xs)"
proof -
  have "length (filter Q xs) \<le> length (filter (\<lambda>x. P x \<and> k x \<notin> set ids) xs)"
    using assms(3) by (intro length_filter_mono) auto
  moreover have "length ids \<le> length (filter (\<lambda>x. P x \<and> k x \<in> set ids) xs)"
  proof -
    have "set ids \<subseteq> set (map k (filter (\<lambda>x. P x \<and> k x \<in> set ids) xs))"
      using assms(2) by auto
    then have "card (set ids) \<le> length (map k (filter (\<lambda>x. P x \<and> k x \<in> set ids) xs))"
      by (meson card_length card_mono finite_set le_trans)
    then show ?thesis using distinct_card [OF assms(1)] by simp
  qed
  moreover have "length (filter P xs) = length (filter (\<lambda>x. P x \<and> k x \<notin> set ids) xs)
                   + length (filter (\<lambda>x. P x \<and> k x \<in> set ids) xs)"
    by (induction xs) auto
  ultimately show ?thesis by simp
qed

text \<open>
  A reconcile pass stays within its budget and makes progress: it scans at most
  \<open>limit\<close> entries, keeps the dedup index, only appends notifications and audit rows, and every
  content item it scans leaves the backlog for good, so the backlog shrinks by the number of content
  items scanned and a bounded sequence of passes empties it.
\<close>

theorem reconcile_progress:
  assumes "reconcile L gen locked ts now limit d = Inr (rep, d')"
    and "load_cutover_watermark L d = Inr (Some w)"
    and "distinct (map cnt_id (content_items d))" and "uq_dedup_key (notifications d)"
  shows "int (rep_scanned rep) \<le> limit \<and> rep_created rep + rep_resolved rep \<le> rep_scanned rep
         \<and> intent_frame d d' \<and> uq_dedup_key (notifications d')
         \<and> length (backlog w locked d') + (rep_scanned rep - rep_resolved rep)
             \<le> length (backlog w locked d)"
proof (intro conjI)
  from assms(1) have lim: "1 \<le> limit" by (auto simp: reconcile_def split: if_splits)
  let ?rs = "pending_recoveries locked (nat limit) d"
  from assms(1,2) obtain d1 where d1: "reconcile_recoveries L gen ts now ?rs d = Inr d1"
    by (auto simp: reconcile_def Let_def bindR_Inr_iff split: if_splits)
  define ids where "ids = map cnt_id (take (nat limit - length ?rs) (backlog w locked d1))"
  from assms(1,2) d1 obtain m where
    m: "reconcile_contents L gen ts now ids 0 d1 = Inr (m, d')"
    and rep: "rep = \<lparr>rep_scanned = length ?rs + length ids, rep_created = m, rep_resolved = length ?rs\<rparr>"
    by (auto simp: reconcile_def Let_def bindR_Inr_iff ids_def split: if_splits)
  note k1 = reconcile_recoveries_keeps [OF d1] and k2 = reconcile_contents_keeps [OF m]
  have rs: "length ?rs \<le> nat limit" by (simp add: pending_recoveries_def)
  show "int (rep_scanned rep) \<le> limit"
    using rs lim by (simp add: rep ids_def)
  show "rep_created rep + rep_resolved rep \<le> rep_scanned rep" using k2 by (simp add: rep)
  show "intent_frame d d'" using k1 k2 intent_frame_trans by blast
  show "uq_dedup_key (notifications d')" using k1 k2 assms(4) by blast
  have items: "content_items d1 = content_items d" "content_items d' = content_items d"
    using k1 k2 by (auto simp: intent_frame_def)
  let ?P = "\<lambda>d c. in_backlog w d c \<and> \<not> locked (cnt_id c)"
  have len: "length (backlog w locked e) = length (filter (?P e) (content_items e))" for e
    by (simp add: backlog_def)
  have dist: "distinct (map cnt_id (backlog w locked d1))"
  proof -
    have "distinct (map cnt_id (filter (?P d1) (content_items d1)))"
      using assms(3) items by (simp add: distinct_map_filter)
    then have "inj_on cnt_id (set (backlog w locked d1))" "distinct (backlog w locked d1)"
      by (auto simp: backlog_def distinct_map)
    then show ?thesis by (simp add: distinct_map)
  qed
  have "distinct ids" using dist unfolding ids_def take_map [symmetric] by (rule distinct_take)
  moreover have "set ids \<subseteq> cnt_id ` set (filter (?P d1) (content_items d))"
    using items by (auto simp: ids_def backlog_def dest!: in_set_takeD)
  moreover have "?P d1 c \<and> cnt_id c \<notin> set ids" if "?P d' c" for c
    using that k2 in_backlog_anti by blast
  ultimately have "length (filter (?P d') (content_items d)) + length ids
                     \<le> length (filter (?P d1) (content_items d))"
    by (intro length_filter_removed) auto
  moreover have "length (filter (?P d1) (content_items d)) \<le> length (filter (?P d) (content_items d))"
    using k1 in_backlog_anti by (intro length_filter_mono) blast
  ultimately show "length (backlog w locked d') + (rep_scanned rep - rep_resolved rep)
      \<le> length (backlog w locked d)"
    using items by (simp add: len rep)
qed

lemma intent_db_backlog: "backlog sample_watermark (\<lambda>_. False) intent_db = [sample_content]"
  by (simp add: backlog_def in_backlog_def intent_db_def empty_db_def sample_content_def
      get_source_def sample_source_def authorized_def sample_watermark_def)

lemma intent_db_reconcile:
  "reconcile sample_lib (\<lambda>_. ''n1'') (\<lambda>_. False) 10 10 100 intent_db =
     Inr (\<lparr>rep_scanned = 1, rep_created = 1, rep_resolved = 0\<rparr>, intent_db\<lparr>notifications :=
       [pending_notification ''n1'' 10 10 ''marketaux'' ''marketaux:telegram:c1'' ''c1'']\<rparr>)"
proof -
  have rec: "pending_recoveries (\<lambda>_. False) 100 intent_db = []"
    by (simp add: pending_recoveries_def intent_db_def empty_db_def)
  have cid: "cnt_id sample_content = ''c1''" by (simp add: sample_content_def)
  show ?thesis
    unfolding reconcile_def intent_db_watermark
    by (simp add: rec intent_db_backlog intent_db_create cid)
qed

theorem reconcile_progress_witness:
  "let d' = intent_db\<lparr>notifications :=
       [pending_notification ''n1'' 10 10 ''marketaux'' ''marketaux:telegram:c1'' ''c1'']\<rparr>
   in intent_frame intent_db d' \<and> backlog sample_watermark (\<lambda>_. False) d' = []"
proof -
  have "distinct (map cnt_id (content_items intent_db))" "uq_dedup_key (notifications intent_db)"
    by (simp_all add: intent_db_def empty_db_def uq_dedup_key_def)
  from reconcile_progress [OF intent_db_reconcile intent_db_watermark this] show ?thesis
    by (simp add: intent_db_backlog Let_def)
qed

end
