(* ===== verification/Transition_Systems.thy ===== *)
theory Transition_Systems
  imports Main
begin

text \<open>
  The contract that the state machines of the program share.  A component's transactions are the
  steps of a relation; \<open>invariant_system\<close> asks for an invariant that the initial states satisfy and
  that every step keeps, \<open>stable_system\<close> for a property that no step destroys.  The client lemmas
  (the invariant holds in every reachable state, a stable fact survives every run) are proved once
  here and used through the interpretations of the components.
\<close>

inductive reach :: "('s \<Rightarrow> bool) \<Rightarrow> ('s \<Rightarrow> 's \<Rightarrow> bool) \<Rightarrow> 's \<Rightarrow> bool"
  for init :: "'s \<Rightarrow> bool" and step :: "'s \<Rightarrow> 's \<Rightarrow> bool" where
  reach_init: "init s \<Longrightarrow> reach init step s"
| reach_step: "reach init step s \<Longrightarrow> step s t \<Longrightarrow> reach init step t"

locale invariant_system =
  fixes init :: "'s \<Rightarrow> bool" and step :: "'s \<Rightarrow> 's \<Rightarrow> bool" and inv :: "'s \<Rightarrow> bool"
  assumes init_inv: "init s \<Longrightarrow> inv s"
    and step_inv: "inv s \<Longrightarrow> step s t \<Longrightarrow> inv t"
begin

lemma reach_inv: "reach init step s \<Longrightarrow> inv s"
  by (induction rule: reach.induct) (auto intro: init_inv step_inv)

lemma steps_inv: "step\<^sup>*\<^sup>* s t \<Longrightarrow> inv s \<Longrightarrow> inv t"
  by (induction rule: rtranclp_induct) (auto intro: step_inv)

end

locale stable_system =
  fixes step :: "'s \<Rightarrow> 's \<Rightarrow> bool" and inv :: "'s \<Rightarrow> bool" and fact :: "'a \<Rightarrow> 's \<Rightarrow> bool"
  assumes stable_inv: "inv s \<Longrightarrow> step s t \<Longrightarrow> inv t"
    and stable_fact: "inv s \<Longrightarrow> step s t \<Longrightarrow> fact a s \<Longrightarrow> fact a t"
begin

lemma steps_fact: "step\<^sup>*\<^sup>* s t \<Longrightarrow> inv s \<Longrightarrow> fact a s \<Longrightarrow> inv t \<and> fact a t"
  by (induction rule: rtranclp_induct) (auto intro: stable_inv stable_fact)

end

end
