(* ===== verification/Delivery.thy ===== *)
theory Delivery
  imports Intent Transition_Systems
begin

text \<open>
  Telegram delivery (\<open>notifications/delivery.py\<close>): claiming of due rows, the failure and success
  transitions and the delivery loop.  Each of \<open>claim\<close>, \<open>fail_delivery\<close>, \<open>mark_sent\<close> is one
  transaction; \<open>outbox_step\<close> lets the transactions of any number of workers, and the creation of
  intents, interleave in any order.  The feed lookup, the formatter and the transport are arguments
  of the loop: \<open>feed\<close> is the read side of \<open>feed/provider_feed.py\<close>, \<open>fmt\<close> and \<open>send\<close> return \<open>None\<close>
  where they raise.
\<close>

definition MAX_ATTEMPTS :: int where "MAX_ATTEMPTS = 5"

abbreviation seconds :: "int \<Rightarrow> time" where "seconds n \<equiv> n * 1000000"

definition claimable :: "time \<Rightarrow> time \<Rightarrow> Notification \<Rightarrow> bool" where
  "claimable now stale n =
     (ntf_policy_rule_id n = POLICY_ID
      \<and> ntf_channel n = Chan_TELEGRAM_PUSH
      \<and> ntf_retry_count n < MAX_ATTEMPTS
      \<and> (case ntf_scheduled_at n of
           None \<Rightarrow> False
         | Some s \<Rightarrow>
             s \<le> now
             \<and> (ntf_status n = Ntf_PENDING \<or> ntf_status n = Ntf_FAILED
                \<or> (ntf_status n = Ntf_SENDING \<and> s < stale))))"

definition claim_order :: "Notification \<Rightarrow> time \<times> uuid" where
  "claim_order n = ((case ntf_scheduled_at n of None \<Rightarrow> 0 | Some s \<Rightarrow> s), ntf_id n)"

definition claim_rows ::
  "(uuid \<Rightarrow> bool) \<Rightarrow> nat \<Rightarrow> time \<Rightarrow> time \<Rightarrow> db \<Rightarrow> Notification list" where
  "claim_rows locked limit now stale d =
     take limit (sort_key claim_order
       (filter (\<lambda>n. claimable now stale n \<and> \<not> locked (ntf_id n)) (notifications d)))"

text \<open>\<open>now2\<close> is the second reading of the clock, from which the stale bound is computed.\<close>

definition claim ::
  "(uuid \<Rightarrow> bool) \<Rightarrow> nat \<Rightarrow> time \<Rightarrow> time \<Rightarrow> db \<Rightarrow> (uuid \<times> uuid option) list \<times> db" where
  "claim locked limit now now2 d =
     (let rows = claim_rows locked limit now (now2 - seconds 600) d;
          ids = map ntf_id rows
      in (map (\<lambda>n. (ntf_id n, ntf_content_item_id n)) rows,
          d\<lparr>notifications := update_where (\<lambda>n. ntf_id n \<in> set ids)
             (\<lambda>n. n\<lparr>ntf_status := Ntf_SENDING, ntf_scheduled_at := Some now\<rparr>)
             (notifications d)\<rparr>))"

definition backoff :: "int \<Rightarrow> int" where
  "backoff retry_count = min (30 * 2 ^ nat (max (retry_count - 1) 0)) 3600"

definition fail_row :: "string \<Rightarrow> time \<Rightarrow> Notification \<Rightarrow> Notification" where
  "fail_row code now n =
     n\<lparr>ntf_retry_count := ntf_retry_count n + 1, ntf_status := Ntf_FAILED,
       ntf_failure_code := Some code,
       ntf_scheduled_at := Some (now + seconds (backoff (ntf_retry_count n + 1)))\<rparr>"

definition fail_delivery :: "uuid \<Rightarrow> string \<Rightarrow> time \<Rightarrow> db \<Rightarrow> db" where
  "fail_delivery notification_id code now d =
     (case get_notification d notification_id of
        None \<Rightarrow> d
      | Some n \<Rightarrow> (if ntf_status n \<noteq> Ntf_SENDING then d else put_notification (fail_row code now n) d))"

definition sent_row :: "time \<Rightarrow> Notification \<Rightarrow> Notification" where
  "sent_row now n =
     n\<lparr>ntf_status := Ntf_SENT, ntf_failure_code := None, ntf_sent_at := Some now\<rparr>"

definition mark_sent :: "uuid \<Rightarrow> time \<Rightarrow> db \<Rightarrow> db" where
  "mark_sent notification_id now d =
     (case get_notification d notification_id of
        None \<Rightarrow> d
      | Some n \<Rightarrow> (if ntf_status n \<noteq> Ntf_SENDING then d else put_notification (sent_row now n) d))"

record DeliveryReport =
  dr_status :: string
  dr_sent :: nat
  dr_failed :: nat
  dr_safe_errors :: "string list"

text \<open>One claimed row: \<open>None\<close> when it was sent, \<open>Some code\<close> when it failed.\<close>

definition attempt_row ::
  "(uuid list \<Rightarrow> 'item list) \<Rightarrow> ('item list \<Rightarrow> string option) \<Rightarrow> (string \<Rightarrow> int option)
     \<Rightarrow> uuid option \<Rightarrow> string option" where
  "attempt_row feed fmt send content_id =
     (let items = feed (case content_id of None \<Rightarrow> [] | Some c \<Rightarrow> [c]) in
      if length items \<noteq> 1 then Some ''notification_content_missing''
      else case fmt items of
             None \<Rightarrow> Some ''telegram_delivery_failed''
           | Some message \<Rightarrow>
               (case send message of
                  None \<Rightarrow> Some ''telegram_delivery_failed''
                | Some status \<Rightarrow>
                    (if 200 \<le> status \<and> status < 300 then None
                     else Some ''telegram_delivery_failed'')))"

text \<open>The loop body over the claimed rows; \<open>clock i\<close> is the clock read for the \<open>i\<close>-th row.\<close>

fun deliver_rows ::
  "(uuid list \<Rightarrow> 'item list) \<Rightarrow> ('item list \<Rightarrow> string option) \<Rightarrow> (string \<Rightarrow> int option)
     \<Rightarrow> (nat \<Rightarrow> time) \<Rightarrow> nat \<Rightarrow> (uuid \<times> uuid option) list \<Rightarrow> db
     \<Rightarrow> nat \<times> nat \<times> string list \<times> db" where
  "deliver_rows feed fmt send clock i [] d = (0, 0, [], d)"
| "deliver_rows feed fmt send clock i ((nid, cid) # rows) d =
     (case attempt_row feed fmt send cid of
        Some code \<Rightarrow>
          (let (s, f, es, d') = deliver_rows feed fmt send clock (Suc i) rows
                                  (fail_delivery nid code (clock i) d)
           in (s, Suc f, code # es, d'))
      | None \<Rightarrow>
          (let (s, f, es, d') = deliver_rows feed fmt send clock (Suc i) rows
                                  (mark_sent nid (clock i) d)
           in (Suc s, f, es, d')))"

definition deliver ::
  "(uuid list \<Rightarrow> 'item list) \<Rightarrow> ('item list \<Rightarrow> string option) \<Rightarrow> ('cred \<Rightarrow> string \<Rightarrow> int option)
     \<Rightarrow> (nat \<Rightarrow> time) \<Rightarrow> (uuid \<Rightarrow> bool) \<Rightarrow> time \<Rightarrow> time \<Rightarrow> 'cred option \<Rightarrow> int \<Rightarrow> db
     \<Rightarrow> (DeliveryReport \<times> db) res" where
  "deliver feed fmt send clock locked now now2 credential limit d =
     (if \<not> (1 \<le> limit \<and> limit \<le> 500)
      then Inl (ValueError ''notification_delivery_limit_invalid'')
      else case credential of
        None \<Rightarrow> Inr (\<lparr>dr_status = ''BLOCKED'', dr_sent = 0, dr_failed = 0,
                      dr_safe_errors = [''telegram_runtime_credential_missing'']\<rparr>, d)
      | Some cred \<Rightarrow>
          (let (rows, d1) = claim locked (nat limit) now now2 d;
               (sent, failed, errors, d2) = deliver_rows feed fmt (send cred) clock 0 rows d1;
               status = (if rows = [] then ''NO_NEW_ITEMS''
                         else if failed = 0 then ''PASS''
                         else if sent > 0 then ''PARTIAL'' else ''FAILED'')
           in Inr (\<lparr>dr_status = status, dr_sent = sent, dr_failed = failed,
                    dr_safe_errors = sorted_list_of_set (set errors)\<rparr>, d2)))"

subsection \<open>The outbox as a state machine\<close>

text \<open>
  One step is one transaction of some worker, with whatever rows the others have locked and
  whatever the clocks show; nothing relates a worker's \<open>fail\<close> or \<open>sent\<close> to its own claim, since the
  code carries no claim token.
\<close>

inductive outbox_step :: "pylib \<Rightarrow> db \<Rightarrow> db \<Rightarrow> bool" for L :: pylib where
  step_claim: "outbox_step L d (snd (claim locked limit now now2 d))"
| step_fail: "outbox_step L d (fail_delivery i code now d)"
| step_sent: "outbox_step L d (mark_sent i now d)"
| step_create: "create_pending_intent L gen ts now c d = Inr (r, d') \<Longrightarrow>
     gen d \<notin> ntf_id ` set (notifications d) \<Longrightarrow> outbox_step L d d'"

definition row_ok :: "Notification \<Rightarrow> bool" where
  "row_ok n \<longleftrightarrow>
     0 \<le> ntf_retry_count n \<and> ntf_retry_count n \<le> MAX_ATTEMPTS
     \<and> (ntf_status n = Ntf_SENDING \<longrightarrow> ntf_retry_count n < MAX_ATTEMPTS)
     \<and> (ntf_status n = Ntf_FAILED \<longrightarrow> 0 < ntf_retry_count n \<and> ntf_failure_code n \<noteq> None)
     \<and> (ntf_status n = Ntf_SENT \<longrightarrow> ntf_sent_at n \<noteq> None \<and> ntf_failure_code n = None)"

definition outbox_inv :: "db \<Rightarrow> bool" where
  "outbox_inv d \<longleftrightarrow> (\<forall>n\<in>set (notifications d). row_ok n)
     \<and> uq_dedup_key (notifications d) \<and> distinct (map ntf_id (notifications d))"

definition outbox_init :: "db \<Rightarrow> bool" where
  "outbox_init d \<longleftrightarrow> notifications d = []"

lemma claim_rows_subset:
  "n \<in> set (claim_rows locked limit now stale d) \<Longrightarrow>
     n \<in> set (notifications d) \<and> claimable now stale n \<and> \<not> locked (ntf_id n)"
  by (auto simp: claim_rows_def dest!: in_set_takeD)

lemma unique_row:
  assumes "outbox_inv d" and "get_notification d i = Some n" and "m \<in> set (notifications d)"
    and "ntf_id m = i"
  shows "m = n"
  using assms by (metis distinct_map get_id(6) inj_on_eq_iff outbox_inv_def)

lemma put_notification_inv:
  assumes "outbox_inv d" and "get_notification d i = Some n"
    and "row_ok n'" and "ntf_id n' = ntf_id n" and "ntf_dedup_key n' = ntf_dedup_key n"
  shows "outbox_inv (put_notification n' d)"
proof -
  have n: "ntf_id n = i" using assms(2) by (auto dest: get_id)
  have uniq: "m = n" if "m \<in> set (notifications d)" "ntf_id m = i" for m
    using unique_row [OF assms(1,2) that] .
  have "map ntf_dedup_key (update_where (\<lambda>r. ntf_id r = i) (\<lambda>_. n') (notifications d))
          = map ntf_dedup_key (notifications d)"
    and "map ntf_id (update_where (\<lambda>r. ntf_id r = i) (\<lambda>_. n') (notifications d))
          = map ntf_id (notifications d)"
    using uniq assms(4,5) by (auto simp: update_where_def)
  with assms n show ?thesis
    by (auto simp: outbox_inv_def put_notification_def in_update_where uq_dedup_key_def)
qed

lemma fail_row_ok: "row_ok n \<Longrightarrow> ntf_status n = Ntf_SENDING \<Longrightarrow> row_ok (fail_row code now n)"
  by (simp add: row_ok_def fail_row_def)

lemma sent_row_ok: "row_ok n \<Longrightarrow> ntf_status n = Ntf_SENDING \<Longrightarrow> row_ok (sent_row now n)"
  by (simp add: row_ok_def sent_row_def)

lemma row_keys [simp]:
  "ntf_id (fail_row code now n) = ntf_id n"
  "ntf_dedup_key (fail_row code now n) = ntf_dedup_key n"
  "ntf_id (sent_row now n) = ntf_id n"
  "ntf_dedup_key (sent_row now n) = ntf_dedup_key n"
  by (simp_all add: fail_row_def sent_row_def)

lemma looked_up_ok: "outbox_inv d \<Longrightarrow> get_notification d i = Some n \<Longrightarrow> row_ok n"
  by (auto simp: outbox_inv_def dest: get_id)

lemma sending_put_inv:
  assumes "outbox_inv d" and "get_notification d i = Some n" and "ntf_status n = Ntf_SENDING"
  shows "outbox_inv (put_notification (fail_row code now n) d)"
    and "outbox_inv (put_notification (sent_row now n) d)"
  using looked_up_ok [OF assms(1,2)] assms(3)
  by (auto intro: put_notification_inv [OF assms(1,2)] fail_row_ok sent_row_ok)

lemma fail_delivery_inv: "outbox_inv d \<Longrightarrow> outbox_inv (fail_delivery i code now d)"
  by (simp add: fail_delivery_def sending_put_inv split: option.split)

lemma mark_sent_inv: "outbox_inv d \<Longrightarrow> outbox_inv (mark_sent i now d)"
  by (simp add: mark_sent_def sending_put_inv split: option.split)

lemma claim_inv:
  assumes "outbox_inv d"
  shows "outbox_inv (snd (claim locked limit now now2 d))"
proof -
  let ?rows = "claim_rows locked limit now (now2 - seconds 600) d"
  let ?f = "\<lambda>n. n\<lparr>ntf_status := Ntf_SENDING, ntf_scheduled_at := Some now\<rparr>"
  have claimed: "ntf_retry_count n < MAX_ATTEMPTS"
    if "n \<in> set (notifications d)" "ntf_id n \<in> ntf_id ` set ?rows" for n
  proof -
    from that(2) obtain m where m: "m \<in> set ?rows" "ntf_id m = ntf_id n" by auto
    then have "m = n"
      using that(1) assms by (metis claim_rows_subset distinct_map inj_on_eq_iff outbox_inv_def)
    with claim_rows_subset [OF m(1)] show ?thesis by (simp add: claimable_def)
  qed
  have "\<forall>n\<in>set (update_where (\<lambda>n. ntf_id n \<in> ntf_id ` set ?rows) ?f (notifications d)). row_ok n"
    using assms claimed
    by (intro update_where_invariant) (auto simp: outbox_inv_def row_ok_def)
  with assms show ?thesis
    by (simp add: claim_def Let_def outbox_inv_def uq_dedup_key_def map_update_where)
qed

lemma create_inv:
  assumes "outbox_inv d" and "create_pending_intent L gen ts now c d = Inr (r, d')"
    and "gen d \<notin> ntf_id ` set (notifications d)"
  shows "outbox_inv d'"
proof -
  have "row_ok (pending_notification nid ts now p k i)" for nid p k i
    by (simp add: row_ok_def pending_notification_def MAX_ATTEMPTS_def)
  then show ?thesis
    using create_pending_intent_cases [OF assms(2)] assms(1,3)
    by (auto simp: outbox_inv_def uq_dedup_key_def) (auto simp: pending_notification_def)
qed

lemma outbox_step_inv: "outbox_inv d \<Longrightarrow> outbox_step L d d' \<Longrightarrow> outbox_inv d'"
  by (erule outbox_step.cases)
    (auto intro: claim_inv fail_delivery_inv mark_sent_inv create_inv)

interpretation outbox: invariant_system outbox_init "outbox_step L" outbox_inv for L
  by unfold_locales
    (simp add: outbox_init_def outbox_inv_def uq_dedup_key_def, rule outbox_step_inv)

text \<open>A row in a final state (sent, or failed with the attempts used up) is the same row after
  every step.\<close>

definition settled :: "Notification \<Rightarrow> db \<Rightarrow> bool" where
  "settled n d \<longleftrightarrow> n \<in> set (notifications d)
     \<and> (ntf_status n = Ntf_SENT \<or> (ntf_status n = Ntf_FAILED \<and> ntf_retry_count n = MAX_ATTEMPTS))"

lemma settled_put:
  assumes "outbox_inv d" and "get_notification d i = Some m" and "ntf_status m = Ntf_SENDING"
    and "ntf_id m' = ntf_id m" and "settled n d"
  shows "settled n (put_notification m' d)"
proof -
  have "ntf_id n \<noteq> i"
    using unique_row [OF assms(1,2), of n] assms(3,5) by (auto simp: settled_def)
  moreover have "ntf_id m = i" using assms(2) by (auto dest: get_id)
  ultimately show ?thesis
    using assms(4,5) by (auto simp: settled_def put_notification_def in_update_where)
qed

lemma settled_claim:
  assumes "outbox_inv d" and "settled n d"
  shows "settled n (snd (claim locked limit now now2 d))"
proof -
  let ?rows = "claim_rows locked limit now (now2 - seconds 600) d"
  have "ntf_id n \<notin> ntf_id ` set ?rows"
  proof
    assume "ntf_id n \<in> ntf_id ` set ?rows"
    then obtain m where m: "m \<in> set ?rows" "ntf_id m = ntf_id n" by auto
    then have "m = n"
      using assms by (metis claim_rows_subset distinct_map inj_on_eq_iff outbox_inv_def settled_def)
    with claim_rows_subset [OF m(1)] assms(2) show False
      by (auto simp: claimable_def settled_def split: option.splits)
  qed
  with assms(2) show ?thesis
    by (auto simp: settled_def claim_def Let_def in_update_where)
qed

lemma settled_step:
  assumes "outbox_step L d d'" and "outbox_inv d" and "settled n d"
  shows "settled n d'"
  using assms
proof (cases rule: outbox_step.cases)
  case (step_fail i code now)
  with assms(2,3) show ?thesis
    by (auto simp: fail_delivery_def split: option.split intro!: settled_put)
next
  case (step_sent i now)
  with assms(2,3) show ?thesis
    by (auto simp: mark_sent_def split: option.split intro!: settled_put)
next
  case (step_create gen ts now c r)
  with assms(3) show ?thesis
    using create_pending_intent_cases [OF step_create(1)] by (auto simp: settled_def)
qed (use assms(2,3) in \<open>auto intro: settled_claim\<close>)

interpretation outbox_stable: stable_system "outbox_step L" outbox_inv settled for L
  by unfold_locales (auto intro: outbox_step_inv settled_step)

text \<open>
  Property C7. However the workers interleave, in every reachable outbox a notification has between
  0 and 5 attempts, one that is being sent has at least one attempt left, every failure carries a
  code, every sent row has its time and no failure code, and the dedup keys stay unique.
\<close>

theorem outbox_reachable_ok:
  assumes "reach outbox_init (outbox_step L) d" and "n \<in> set (notifications d)"
  shows "row_ok n \<and> uq_dedup_key (notifications d)"
  using outbox.reach_inv [OF assms(1)] assms(2) by (auto simp: outbox_inv_def)

definition outbox_db :: db where
  "outbox_db = intent_db\<lparr>notifications :=
     [pending_notification ''n1'' 10 10 ''marketaux'' ''marketaux:telegram:c1'' ''c1'']\<rparr>"

lemma outbox_db_reachable: "reach outbox_init (outbox_step sample_lib) outbox_db"
proof (rule reach_step)
  show "reach outbox_init (outbox_step sample_lib) intent_db"
    by (rule reach_init) (simp add: outbox_init_def intent_db_def empty_db_def)
  show "outbox_step sample_lib intent_db outbox_db"
    unfolding outbox_db_def
    by (rule step_create [OF intent_db_create]) (simp add: intent_db_def empty_db_def)
qed

theorem outbox_reachable_ok_witness:
  "row_ok (pending_notification ''n1'' 10 10 ''marketaux'' ''marketaux:telegram:c1'' ''c1'')"
proof -
  have "pending_notification ''n1'' 10 10 ''marketaux'' ''marketaux:telegram:c1'' ''c1''
          \<in> set (notifications outbox_db)" by (simp add: outbox_db_def)
  from outbox_reachable_ok [OF outbox_db_reachable this] show ?thesis by simp
qed

text \<open>
  Final states are final: a notification that is SENT, or FAILED with all five attempts
  used, is found unchanged after any further interleaving of claims, failures, confirmations and
  intent creation.
\<close>

theorem outbox_settled_forever:
  assumes "outbox_inv d" and "settled n d" and "(outbox_step L)\<^sup>*\<^sup>* d d'"
  shows "n \<in> set (notifications d')"
  using outbox_stable.steps_fact [OF assms(3,1,2)] by (simp add: settled_def)

definition sent_sample :: Notification where
  "sent_sample = sent_row 20 (pending_notification ''n1'' 10 10 ''marketaux''
     ''marketaux:telegram:c1'' ''c1'')"

definition sent_db :: db where
  "sent_db = intent_db\<lparr>notifications := [sent_sample]\<rparr>"

theorem outbox_settled_forever_witness:
  "sent_sample \<in> set (notifications (fail_delivery ''n1'' ''late'' 30 sent_db))"
proof -
  have inv: "outbox_inv sent_db"
    by (simp add: outbox_inv_def sent_db_def row_ok_def sent_sample_def sent_row_def
        pending_notification_def uq_dedup_key_def MAX_ATTEMPTS_def)
  have "settled sent_sample sent_db"
    by (simp add: settled_def sent_db_def sent_sample_def sent_row_def)
  from outbox_settled_forever [OF inv this r_into_rtranclp, of sample_lib] show ?thesis
    using step_fail by blast
qed

subsection \<open>What one delivery pass does\<close>

lemma backoff_bounds: "30 \<le> backoff k \<and> backoff k \<le> 3600"
proof -
  have "(1::int) \<le> 2 ^ nat (max (k - 1) 0)" by simp
  then show ?thesis by (simp add: backoff_def)
qed

lemma backoff_mono: "j \<le> k \<Longrightarrow> backoff j \<le> backoff k"
proof -
  assume "j \<le> k"
  then have "(2::int) ^ nat (max (j - 1) 0) \<le> 2 ^ nat (max (k - 1) 0)"
    by (intro power_increasing) auto
  then have "30 * (2::int) ^ nat (max (j - 1) 0) \<le> 30 * 2 ^ nat (max (k - 1) 0)" by simp
  then show ?thesis unfolding backoff_def by linarith
qed

lemma get_claim:
  "get_notification (snd (claim locked limit now now2 d)) j =
     map_option (\<lambda>n. if ntf_id n \<in> ntf_id ` set (claim_rows locked limit now (now2 - seconds 600) d)
                     then n\<lparr>ntf_status := Ntf_SENDING, ntf_scheduled_at := Some now\<rparr> else n)
       (get_notification d j)"
  by (simp add: claim_def Let_def get_notification_def find_update_where_key)

lemma get_fail:
  "get_notification (fail_delivery i code now d) j =
     (if j = i then map_option (\<lambda>n. if ntf_status n = Ntf_SENDING then fail_row code now n else n)
                      (get_notification d j)
      else get_notification d j)"
  by (auto simp: fail_delivery_def dest: get_id split: option.split)

lemma get_sent:
  "get_notification (mark_sent i now d) j =
     (if j = i then map_option (\<lambda>n. if ntf_status n = Ntf_SENDING then sent_row now n else n)
                      (get_notification d j)
      else get_notification d j)"
  by (auto simp: mark_sent_def dest: get_id split: option.split)

text \<open>The row a claimed notification turns into, given the outcome of its attempt.\<close>

definition settle :: "string option \<Rightarrow> time \<Rightarrow> Notification \<Rightarrow> Notification" where
  "settle outcome now n =
     (if ntf_status n \<noteq> Ntf_SENDING then n
      else case outcome of None \<Rightarrow> sent_row now n | Some code \<Rightarrow> fail_row code now n)"

lemma deliver_rows_effect:
  assumes "deliver_rows feed fmt send clock i rows d = (s, f, es, d')"
    and "distinct (map fst rows)"
  shows "s + f = length rows
         \<and> (\<forall>j. j \<notin> fst ` set rows \<longrightarrow> get_notification d' j = get_notification d j)
         \<and> (\<forall>(nid, cid)\<in>set rows. \<exists>k. get_notification d' nid =
               map_option (settle (attempt_row feed fmt send cid) (clock k)) (get_notification d nid))"
  using assms
proof (induction feed fmt send clock i rows d arbitrary: s f es rule: deliver_rows.induct)
  case (2 feed fmt send clock i nid cid rows d)
  let ?out = "attempt_row feed fmt send cid"
  define d1 where "d1 = (case ?out of Some code \<Rightarrow> fail_delivery nid code (clock i) d
                                    | None \<Rightarrow> mark_sent nid (clock i) d)"
  have d1: "get_notification d1 j = (if j = nid then map_option (settle ?out (clock i)) (get_notification d j)
                                     else get_notification d j)" for j
    by (cases "get_notification d j")
      (auto simp: d1_def get_fail get_sent settle_def split: option.split)
  obtain s1 f1 es1 where rec: "deliver_rows feed fmt send clock (Suc i) rows d1 = (s1, f1, es1, d')"
    and sf: "s + f = Suc (s1 + f1)"
    using "2.prems"(1) by (cases ?out) (auto simp: d1_def split: prod.splits)
  have "distinct (map fst rows)" "nid \<notin> fst ` set rows" using "2.prems"(2) by auto
  have ih: "s1 + f1 = length rows
         \<and> (\<forall>j. j \<notin> fst ` set rows \<longrightarrow> get_notification d' j = get_notification d1 j)
         \<and> (\<forall>(n, c)\<in>set rows. \<exists>k. get_notification d' n =
               map_option (settle (attempt_row feed fmt send c) (clock k)) (get_notification d1 n))"
  proof (cases ?out)
    case None
    then show ?thesis using "2.IH"(1) [OF None] rec \<open>distinct (map fst rows)\<close> by (simp add: d1_def)
  next
    case (Some code)
    then show ?thesis using "2.IH"(2) [OF Some] rec \<open>distinct (map fst rows)\<close> by (simp add: d1_def)
  qed
  have tail: "\<exists>k. get_notification d' n = map_option (settle (attempt_row feed fmt send c) (clock k))
                   (get_notification d n)" if "(n, c) \<in> set rows" for n c
  proof -
    have "n \<noteq> nid" using that \<open>nid \<notin> fst ` set rows\<close> by force
    then have same: "get_notification d1 n = get_notification d n" by (simp add: d1)
    from ih that show ?thesis unfolding same [symmetric] by fast
  qed
  have "get_notification d' nid = map_option (settle ?out (clock i)) (get_notification d nid)"
    using ih \<open>nid \<notin> fst ` set rows\<close> d1 [of nid] by simp
  with tail ih sf d1 show ?case by auto
qed simp

lemma claim_rows_distinct:
  assumes "outbox_inv d"
  shows "distinct (map ntf_id (claim_rows locked limit now stale d))"
proof -
  let ?xs = "filter (\<lambda>n. claimable now stale n \<and> \<not> locked (ntf_id n)) (notifications d)"
  have "distinct (map ntf_id ?xs)"
    using assms by (simp add: outbox_inv_def distinct_map_filter)
  then have "distinct (map ntf_id (sort_key claim_order ?xs))"
    by (simp add: distinct_map)
  then show ?thesis
    unfolding claim_rows_def take_map [symmetric] by (rule distinct_take)
qed

text \<open>
  Property C15. A delivery pass settles exactly what it claimed: with a credential and a legal limit it
  claims at most \<open>limit\<close> rows, reports as many outcomes as claims, every claimed row ends SENT or, on a
  missing content item, a formatting or transport error or a non-2xx answer, FAILED with one more
  attempt, and every row it did not claim is as before.
\<close>

theorem deliver_settles_claims:
  assumes "outbox_inv d"
    and "deliver feed fmt send clock locked now now2 (Some cred) limit d = Inr (rep, d')"
  shows "let rows = claim_rows locked (nat limit) now (now2 - seconds 600) d in
           dr_sent rep + dr_failed rep = length rows \<and> int (length rows) \<le> limit
           \<and> (\<forall>n\<in>set rows. \<exists>n'. get_notification d' (ntf_id n) = Some n'
                \<and> (if attempt_row feed fmt (send cred) (ntf_content_item_id n) = None
                   then ntf_status n' = Ntf_SENT \<and> ntf_retry_count n' = ntf_retry_count n
                   else ntf_status n' = Ntf_FAILED \<and> ntf_retry_count n' = ntf_retry_count n + 1))
           \<and> (\<forall>j. j \<notin> ntf_id ` set rows \<longrightarrow> get_notification d' j = get_notification d j)"
proof -
  define rows where "rows = claim_rows locked (nat limit) now (now2 - seconds 600) d"
  define pairs where "pairs = map (\<lambda>n. (ntf_id n, ntf_content_item_id n)) rows"
  define d1 where "d1 = snd (claim locked (nat limit) now now2 d)"
  have cl: "claim locked (nat limit) now now2 d = (pairs, d1)"
    by (simp add: d1_def pairs_def rows_def claim_def Let_def)
  from assms(2) have lim: "1 \<le> limit" by (auto simp: deliver_def split: if_splits)
  obtain s f es where run: "deliver_rows feed fmt (send cred) clock 0 pairs d1 = (s, f, es, d')"
    and rep: "dr_sent rep = s" "dr_failed rep = f"
    using assms(2) by (auto simp: deliver_def cl split: if_splits prod.splits)
  have "map fst pairs = map ntf_id rows" by (simp add: pairs_def)
  with claim_rows_distinct [OF assms(1)] have "distinct (map fst pairs)" by (simp add: rows_def)
  note eff = deliver_rows_effect [OF run this]
  have ids: "fst ` set pairs = ntf_id ` set rows" by (force simp: pairs_def)
  have "\<exists>n'. get_notification d' (ntf_id n) = Some n'
          \<and> (if attempt_row feed fmt (send cred) (ntf_content_item_id n) = None
             then ntf_status n' = Ntf_SENT \<and> ntf_retry_count n' = ntf_retry_count n
             else ntf_status n' = Ntf_FAILED \<and> ntf_retry_count n' = ntf_retry_count n + 1)"
    if n: "n \<in> set rows" for n
  proof -
    have "n \<in> set (notifications d)" using n claim_rows_subset rows_def by blast
    moreover have "get_notification d (ntf_id n) \<noteq> None"
      using calculation find_None_all [of "\<lambda>r. ntf_id r = ntf_id n"]
      by (auto simp: get_notification_def)
    ultimately have "get_notification d (ntf_id n) = Some n"
      using unique_row [OF assms(1)] by blast
    then have "get_notification d1 (ntf_id n) =
        Some (n\<lparr>ntf_status := Ntf_SENDING, ntf_scheduled_at := Some now\<rparr>)"
      using n by (simp add: d1_def get_claim rows_def)
    moreover have "(ntf_id n, ntf_content_item_id n) \<in> set pairs" using n by (auto simp: pairs_def)
    ultimately show ?thesis
      using eff by (fastforce simp: settle_def sent_row_def fail_row_def split: option.splits)
  qed
  moreover have "get_notification d' j = get_notification d j" if "j \<notin> ntf_id ` set rows" for j
    using eff ids that
    by (auto simp: d1_def get_claim rows_def map_option_case dest: get_id split: option.split)
  moreover from lim have "int (length rows) \<le> limit"
    by (simp add: rows_def claim_rows_def)
  moreover have "dr_sent rep + dr_failed rep = length rows" using eff rep by (simp add: pairs_def)
  ultimately show ?thesis
    unfolding Let_def rows_def [symmetric] by blast
qed

lemma deliver_returns:
  assumes "1 \<le> limit" and "limit \<le> 500"
  shows "\<exists>rep d'. deliver feed fmt send clock locked now now2 cred limit d = Inr (rep, d')"
proof (cases cred)
  case (Some c)
  obtain rows d1 where cl: "claim locked (nat limit) now now2 d = (rows, d1)" by (meson surj_pair)
  obtain s f es d2 where run: "deliver_rows feed fmt (send c) clock 0 rows d1 = (s, f, es, d2)"
    by (metis prod_cases4)
  show ?thesis using assms Some by (simp add: deliver_def cl run)
qed (use assms in \<open>simp add: deliver_def\<close>)

lemma outbox_db_inv: "outbox_inv outbox_db"
  by (rule outbox.reach_inv [OF outbox_db_reachable])

theorem deliver_settles_claims_witness:
  "\<exists>rep d'. deliver (\<lambda>ids. ids) (\<lambda>_. Some ''text'') (\<lambda>_ _. Some 200) (\<lambda>_. 21) (\<lambda>_. False) 20 20
      (Some ()) 20 outbox_db = Inr (rep, d')
     \<and> (\<exists>n'. get_notification d' ''n1'' = Some n' \<and> ntf_status n' = Ntf_SENT)"
proof -
  obtain rep d' where run: "deliver (\<lambda>ids. ids) (\<lambda>_. Some ''text'') (\<lambda>_ _. Some 200) (\<lambda>_. 21)
      (\<lambda>_. False) 20 20 (Some ()) 20 outbox_db = Inr (rep, d')"
    using deliver_returns [of 20 "\<lambda>ids. ids"] by force
  have rows: "claim_rows (\<lambda>_. False) (nat 20) 20 (20 - seconds 600) outbox_db =
      [pending_notification ''n1'' 10 10 ''marketaux'' ''marketaux:telegram:c1'' ''c1'']"
    by (simp add: claim_rows_def outbox_db_def claimable_def pending_notification_def MAX_ATTEMPTS_def)
  from deliver_settles_claims [OF outbox_db_inv run] have
    "\<exists>n'. get_notification d' ''n1'' = Some n' \<and> ntf_status n' = Ntf_SENT"
    unfolding rows Let_def by (simp add: pending_notification_def attempt_row_def) blast
  with run show ?thesis by blast
qed

text \<open>
  Claiming is fair: a due, unlocked row that a claim leaves out was left out only
  because the limit was used up by rows scheduled no later than it.
\<close>

theorem claim_is_fair:
  assumes "n \<in> set (notifications d)" and "claimable now stale n" and "\<not> locked (ntf_id n)"
    and "n \<notin> set (claim_rows locked limit now stale d)"
  shows "length (claim_rows locked limit now stale d) = limit
         \<and> (\<forall>m\<in>set (claim_rows locked limit now stale d). claim_order m \<le> claim_order n)"
  using assms unfolding claim_rows_def by (intro take_sort_key_least) auto

definition two_rows :: db where
  "two_rows = intent_db\<lparr>notifications :=
     [pending_notification ''n2'' 12 12 ''marketaux'' ''marketaux:telegram:c2'' ''c2'',
      pending_notification ''n1'' 10 10 ''marketaux'' ''marketaux:telegram:c1'' ''c1'']\<rparr>"

theorem claim_is_fair_witness:
  "claim_rows (\<lambda>_. False) 1 20 20 two_rows =
     [pending_notification ''n1'' 10 10 ''marketaux'' ''marketaux:telegram:c1'' ''c1'']
   \<and> claim_order (pending_notification ''n1'' 10 10 ''marketaux'' ''marketaux:telegram:c1'' ''c1'')
       \<le> claim_order (pending_notification ''n2'' 12 12 ''marketaux'' ''marketaux:telegram:c2'' ''c2'')"
proof -
  let ?n = "pending_notification ''n2'' 12 12 ''marketaux'' ''marketaux:telegram:c2'' ''c2''"
  have rows: "claim_rows (\<lambda>_. False) 1 20 20 two_rows =
     [pending_notification ''n1'' 10 10 ''marketaux'' ''marketaux:telegram:c1'' ''c1'']"
    by (simp add: claim_rows_def two_rows_def claimable_def pending_notification_def
        MAX_ATTEMPTS_def claim_order_def sort_key_simps less_eq_prod_def)
  have "?n \<in> set (notifications two_rows)" "claimable 20 20 ?n"
    "?n \<notin> set (claim_rows (\<lambda>_. False) 1 20 20 two_rows)"
    unfolding rows
    by (simp_all add: two_rows_def claimable_def pending_notification_def MAX_ATTEMPTS_def)
  from claim_is_fair [OF this(1,2) _ this(3)] show ?thesis unfolding rows by simp
qed

text \<open>
  A failed attempt backs off: a row being sent becomes FAILED with one more attempt, is
  rescheduled between 30 seconds and one hour ahead, never sooner than after an earlier failure, and
  cannot be claimed before that time.
\<close>

theorem fail_backs_off:
  assumes "get_notification d i = Some n" and "ntf_status n = Ntf_SENDING"
  shows "\<exists>n' t. get_notification (fail_delivery i code now d) i = Some n'
           \<and> ntf_status n' = Ntf_FAILED \<and> ntf_retry_count n' = ntf_retry_count n + 1
           \<and> ntf_scheduled_at n' = Some t
           \<and> now + seconds 30 \<le> t \<and> t \<le> now + seconds 3600
           \<and> (\<forall>k \<le> ntf_retry_count n. now + seconds (backoff k) \<le> t)
           \<and> (\<forall>u st. u < t \<longrightarrow> \<not> claimable u st n')"
  using assms backoff_bounds [of "ntf_retry_count n + 1"]
  by (auto simp: get_fail fail_row_def claimable_def intro!: backoff_mono)

theorem fail_backs_off_witness:
  "\<exists>n'. get_notification (fail_delivery ''n1'' ''telegram_delivery_failed'' 20
           (snd (claim (\<lambda>_. False) 1 20 20 outbox_db))) ''n1'' = Some n'
        \<and> ntf_status n' = Ntf_FAILED \<and> ntf_retry_count n' = 1"
proof -
  let ?n = "(pending_notification ''n1'' 10 10 ''marketaux'' ''marketaux:telegram:c1'' ''c1'')
              \<lparr>ntf_status := Ntf_SENDING, ntf_scheduled_at := Some 20\<rparr>"
  have "get_notification (snd (claim (\<lambda>_. False) 1 20 20 outbox_db)) ''n1'' = Some ?n"
    by (simp add: claim_def Let_def update_where_def claim_rows_def outbox_db_def claimable_def
        pending_notification_def MAX_ATTEMPTS_def get_notification_def)
  from fail_backs_off [OF this, of "''telegram_delivery_failed''" 20] show ?thesis
    by (auto simp: pending_notification_def)
qed

end
