(* ===== verification/Safe_Projection.thy ===== *)
theory Safe_Projection
  imports Samples
begin

text \<open>
  The typed factual payloads of \<open>safe_projection/contracts.py\<close>: the field normalisers, the six
  operation contracts, the validation entry point, the quality classification and the canonical
  hash.  A contract computes every normalised field and then stores it in the copied payload.  The
  main result is that a validated payload is a fixed point of its contract, so that what the
  collection side stores is what the validation worker recomputes.
\<close>

abbreviation contract_error :: "string \<Rightarrow> 'a res" where
  "contract_error m \<equiv> Inl (ProjectionContractError m)"

text \<open>\<open>str(value)\<close>: a string is its own text.\<close>

definition str_of :: "pylib \<Rightarrow> json \<Rightarrow> string" where
  "str_of lib v = (case v of JStr s \<Rightarrow> s | _ \<Rightarrow> py_str lib v)"

subsection \<open>Field normalisers\<close>

definition p_text :: "nat \<Rightarrow> bool \<Rightarrow> json \<Rightarrow> json res" where
  "p_text maximum optional v =
     (if v = JNull \<and> optional then Inr JNull
      else case v of
        JStr s \<Rightarrow>
          (let normalized = collapse_ws s in
           if normalized = [] \<or> length normalized > maximum \<or> secret_search normalized
           then contract_error ''projection_text_invalid'' else Inr (JStr normalized))
      | _ \<Rightarrow> contract_error ''projection_text_invalid'')"

text \<open>\<open>_text\<close> of a mandatory field, as a string.\<close>

definition p_str :: "nat \<Rightarrow> json \<Rightarrow> string res" where
  "p_str maximum v =
     bindR (p_text maximum False v) (\<lambda>w. case w of JStr s \<Rightarrow> Inr s | _ \<Rightarrow> Inl AssertionError)"

text \<open>\<open>float(n)\<close> of an integer overflows from \<open>2 ^ 1024 - 2 ^ 970\<close> on (half a unit in the last place above
  the largest double).\<close>

definition float_overflow :: "int \<Rightarrow> bool" where
  "float_overflow n = (2 ^ 1024 - 2 ^ 970 \<le> \<bar>n\<bar>)"

definition p_number :: "json \<Rightarrow> json res" where
  "p_number v =
     (case v of
        JInt n \<Rightarrow> (if float_overflow n then Inl (OverflowError ''int too large to convert to float'')
                   else Inr v)
      | JFloat (FFin r) \<Rightarrow> Inr v
      | _ \<Rightarrow> contract_error ''projection_number_invalid'')"

definition p_timestamp :: "pylib \<Rightarrow> json \<Rightarrow> string res" where
  "p_timestamp lib v =
     (case v of
        JStr s \<Rightarrow>
          (case fromisoformat lib (replace_Z s) of
             None \<Rightarrow> contract_error ''projection_timestamp_invalid''
           | Some (t, aware) \<Rightarrow>
               (if \<not> aware then contract_error ''projection_timestamp_invalid''
                else if \<not> in_datetime_range t then Inl (OverflowError ''date value out of range'')
                else Inr (isoformat_utc lib t)))
      | _ \<Rightarrow> contract_error ''projection_timestamp_invalid'')"

definition p_symbol :: "json \<Rightarrow> string res" where
  "p_symbol v =
     bindR (p_str 20 v) (\<lambda>s.
       if symbol_pattern (upper s) then Inr (upper s)
       else contract_error ''projection_symbol_invalid'')"

definition has_slash :: "string \<Rightarrow> bool" where
  "has_slash s = (contains ''://'' s \<or> CHR ''/'' \<in> set s \<or> CHR 0x5C \<in> set s)"

definition p_opaque_id :: "nat \<Rightarrow> json \<Rightarrow> string res" where
  "p_opaque_id maximum v =
     bindR (p_str maximum v) (\<lambda>s.
       if has_slash s then contract_error ''projection_provider_identity_invalid'' else Inr s)"

text \<open>\<open>re.sub(r"[^a-z0-9]+", "-", s).strip("-")\<close> joins the runs of \<open>[a-z0-9]\<close> with a dash.\<close>

definition slug :: "string \<Rightarrow> string" where
  "slug s = join_with ''-'' (runs (\<lambda>c. \<not> (is_lower c \<or> is_digit c)) [] (lower s))"

definition p_facet :: "json \<Rightarrow> string res" where
  "p_facet v =
     bindR (p_str 100 v) (\<lambda>s.
       if has_slash s then contract_error ''projection_eia_facet_invalid''
       else if slug s = [] then contract_error ''projection_eia_facet_invalid'' else Inr (slug s))"

definition eia_series_identity :: "json \<Rightarrow> json \<Rightarrow> json \<Rightarrow> string res" where
  "eia_series_identity geography sector metric =
     bindR (p_facet geography) (\<lambda>g. bindR (p_facet sector) (\<lambda>s. bindR (p_facet metric) (\<lambda>m.
       Inr (''electricity/retail-sales/'' @ g @ ''/'' @ s @ ''/'' @ m))))"

definition sec_official_url :: "string \<Rightarrow> string \<Rightarrow> string \<Rightarrow> string" where
  "sec_official_url cik accession primary_document =
     ''https://www.sec.gov/Archives/edgar/data/'' @ str_nat (read_digits 0 cik) @ ''/''
       @ filter (\<lambda>c. c \<noteq> CHR ''-'') accession @ ''/'' @ primary_document"

definition rto_series_identity :: "string \<Rightarrow> string \<Rightarrow> string res" where
  "rto_series_identity region metric =
     (if \<not> class_range (\<lambda>c. is_upper c \<or> is_digit c \<or> c = CHR ''-'') 1 12 region
          \<or> metric \<notin> {''D'', ''NG''}
      then contract_error ''projection_rto_series_invalid''
      else Inr (''electricity/rto/region-data/'' @ region @ ''/'' @ metric))"

text \<open>\<open>_public_url\<close>; \<open>urlsplit\<close> itself may raise \<open>ValueError\<close>, which is not caught.\<close>

definition p_public_url :: "pylib \<Rightarrow> json \<Rightarrow> bool res" where
  "p_public_url lib v =
     (case v of
        JStr s \<Rightarrow>
          (if length s > 4000 \<or> secret_search s then Inr False
           else case urlsplit lib s of
             None \<Rightarrow> Inl (ValueError ''Invalid URL'')
           | Some u \<Rightarrow> Inr (url_scheme u \<in> {''http'', ''https''}
                            \<and> url_hostname u \<noteq> None \<and> url_hostname u \<noteq> Some ''''
                            \<and> url_username u = None \<and> url_password u = None))
      | _ \<Rightarrow> Inr False)"

text \<open>\<open>normalize_marketaux_provider_identity\<close> of \<open>provider_identity.py\<close>.\<close>

definition normalize_marketaux_provider_identity :: "json \<Rightarrow> string res" where
  "normalize_marketaux_provider_identity v =
     (case v of
        JStr s \<Rightarrow>
          (if first_rest is_alnum (\<lambda>c. is_alnum c \<or> c \<in> set ''._:-'') 254 (strip s) then Inr (strip s)
           else Inl (ValueError ''marketaux_provider_identity_invalid''))
      | _ \<Rightarrow> Inl (ValueError ''marketaux_provider_identity_invalid''))"

text \<open>\<open>_reject_unsafe\<close>: a key or a text anywhere in the payload matches the secret pattern.\<close>

fun unsafe :: "json \<Rightarrow> bool"
  and unsafe_list :: "json list \<Rightarrow> bool"
  and unsafe_dict :: "dict \<Rightarrow> bool" where
  "unsafe (JObj d) = unsafe_dict d"
| "unsafe (JList xs) = unsafe_list xs"
| "unsafe (JStr s) = secret_search s"
| "unsafe _ = False"
| "unsafe_list [] = False"
| "unsafe_list (x # xs) = (unsafe x \<or> unsafe_list xs)"
| "unsafe_dict [] = False"
| "unsafe_dict ((k, v) # d) = (secret_search k \<or> unsafe v \<or> unsafe_dict d)"

subsection \<open>The operation contracts\<close>

definition p_exact :: "dict \<Rightarrow> string set \<Rightarrow> unit res" where
  "p_exact payload ks =
     (if keys_of payload \<noteq> ks then contract_error ''projection_payload_fields_invalid'' else Inr ())"

text \<open>A sequence of assignments \<open>result[k] = v\<close>, a handler that re-raises, and a guard.\<close>

definition dputs :: "(string \<times> json) list \<Rightarrow> dict \<Rightarrow> dict" where
  "dputs kvs d = fold (\<lambda>(k, v). dput k v) kvs d"

definition raise_from :: "'a res \<Rightarrow> exn \<Rightarrow> 'a res" where
  "raise_from m e = (case m of Inl _ \<Rightarrow> Inl e | Inr x \<Rightarrow> Inr x)"

definition guardR :: "bool \<Rightarrow> exn \<Rightarrow> unit res" where
  "guardR ok e = (if ok then Inr () else Inl e)"

definition language_pattern :: "string \<Rightarrow> bool" where
  "language_pattern s =
     (let letters = (\<lambda>c. is_upper c \<or> is_lower c);
          (a, rest) = (takeWhile (\<lambda>c. c \<noteq> CHR ''-'') s, dropWhile (\<lambda>c. c \<noteq> CHR ''-'') s)
      in class_range letters 2 3 a \<and> (rest = [] \<or> class_range is_alnum 2 8 (tl rest)))"

definition p_language :: "json \<Rightarrow> json res" where
  "p_language v =
     bindR (p_text 12 True v) (\<lambda>w.
       case w of
         JStr s \<Rightarrow> (if language_pattern s then Inr (JStr (lower s))
                    else contract_error ''projection_language_invalid'')
       | _ \<Rightarrow> Inr w)"

fun is_JStr :: "json \<Rightarrow> bool" where
  "is_JStr (JStr _) = True" | "is_JStr _ = False"

definition p_symbols :: "json \<Rightarrow> json res" where
  "p_symbols v =
     (case v of
        JNull \<Rightarrow> Inr JNull
      | JList xs \<Rightarrow>
          (if length xs > 10 \<or> \<not> list_all is_JStr xs
           then contract_error ''projection_symbols_invalid''
           else bindR (mapR p_symbol xs) (\<lambda>ss. Inr (JList (map JStr ss))))
      | _ \<Rightarrow> contract_error ''projection_symbols_invalid'')"

definition p_url_field :: "pylib \<Rightarrow> json \<Rightarrow> unit res" where
  "p_url_field lib v =
     (if v = JNull then Inr ()
      else bindR (p_public_url lib v) (\<lambda>ok.
        guardR ok (ProjectionContractError ''projection_url_invalid'')))"

definition marketaux_keys :: "string set" where
  "marketaux_keys = {''provider_item_id'', ''published_at'', ''title'', ''canonical_url'',
     ''source_identity'', ''query'', ''language'', ''symbols'', ''description_coverage'',
     ''snippet_coverage''}"

definition p_marketaux :: "pylib \<Rightarrow> dict \<Rightarrow> dict res" where
  "p_marketaux lib payload =
     bindR (p_exact payload marketaux_keys) (\<lambda>_.
     bindR (raise_from (normalize_marketaux_provider_identity (dget payload ''provider_item_id''))
                       (ProjectionContractError ''projection_provider_identity_invalid'')) (\<lambda>ident.
     bindR (p_str 500 (dget payload ''query'')) (\<lambda>query.
     bindR (guardR (\<not> contains ''://'' query) (ProjectionContractError ''projection_query_invalid'')) (\<lambda>_.
     bindR (p_timestamp lib (dget payload ''published_at'')) (\<lambda>published.
     bindR (p_text 2000 True (dget payload ''title'')) (\<lambda>title.
     bindR (p_text 2000 True (dget payload ''source_identity'')) (\<lambda>src.
     bindR (p_language (dget payload ''language'')) (\<lambda>language.
     bindR (p_symbols (dget payload ''symbols'')) (\<lambda>symbols.
     bindR (p_url_field lib (dget payload ''canonical_url'')) (\<lambda>_.
     bindR (guardR (dget payload ''description_coverage'' = JStr ''blocked''
                    \<and> dget payload ''snippet_coverage'' = JStr ''blocked'')
                   (ProjectionContractError ''projection_coverage_invalid'')) (\<lambda>_.
       Inr (dputs [(''provider_item_id'', JStr ident), (''query'', JStr query),
                   (''published_at'', JStr published), (''title'', title),
                   (''source_identity'', src), (''language'', language), (''symbols'', symbols)]
            payload))))))))))))"

definition finnhub_keys :: "string set" where
  "finnhub_keys = {''provider_item_id'', ''published_at'', ''symbol'', ''provider_timestamp'',
     ''c'', ''d'', ''dp'', ''h'', ''l'', ''o'', ''pc'', ''currency'', ''exchange''}"

definition provider_timestamp :: "json \<Rightarrow> int res" where
  "provider_timestamp v =
     (case v of
        JInt n \<Rightarrow> (if n \<le> 0 then contract_error ''projection_provider_timestamp_invalid'' else Inr n)
      | _ \<Rightarrow> contract_error ''projection_provider_timestamp_invalid'')"

definition p_finnhub :: "pylib \<Rightarrow> dict \<Rightarrow> dict res" where
  "p_finnhub lib payload =
     bindR (p_exact payload finnhub_keys) (\<lambda>_.
     bindR (p_timestamp lib (dget payload ''published_at'')) (\<lambda>published.
     bindR (p_symbol (dget payload ''symbol'')) (\<lambda>symbol.
     bindR (p_str 100 (dget payload ''currency'')) (\<lambda>currency.
     bindR (p_str 100 (dget payload ''exchange'')) (\<lambda>exchange.
     bindR (provider_timestamp (dget payload ''provider_timestamp'')) (\<lambda>timestamp.
     bindR (guardR (dget payload ''provider_item_id'' = JStr (symbol @ '':'' @ str_int timestamp))
                   (ProjectionContractError ''projection_provider_identity_invalid'')) (\<lambda>_.
     bindR (guardR (in_datetime_range (timestamp * 1000000))
                   (ProjectionContractError ''projection_provider_timestamp_invalid'')) (\<lambda>_.
     bindR (guardR (published = isoformat_utc lib (timestamp * 1000000))
                   (ProjectionContractError ''projection_provider_identity_invalid'')) (\<lambda>_.
     bindR (mapR (\<lambda>k. p_number (dget payload k)) [''c'', ''d'', ''dp'', ''h'', ''l'', ''o'', ''pc'']) (\<lambda>_.
       Inr (dputs [(''published_at'', JStr published), (''symbol'', JStr symbol),
                   (''currency'', JStr currency), (''exchange'', JStr exchange)] payload)))))))))))"

definition eia_keys :: "string set" where
  "eia_keys = {''provider_item_id'', ''published_at'', ''period'', ''dataset'', ''series_identity'',
     ''geography'', ''sector'', ''metric'', ''value'', ''unit''}"

definition month_pattern :: "json \<Rightarrow> bool" where
  "month_pattern v =
     (case v of
        JStr s \<Rightarrow> match_pat (digits 4 @ lit ''-'' @ digits 2) s
                  \<and> 1 \<le> read_digits 0 (drop 5 s) \<and> read_digits 0 (drop 5 s) \<le> 12
      | _ \<Rightarrow> False)"

definition p_eia :: "pylib \<Rightarrow> dict \<Rightarrow> dict res" where
  "p_eia lib payload =
     bindR (p_exact payload eia_keys) (\<lambda>_.
     bindR (p_opaque_id 255 (dget payload ''provider_item_id'')) (\<lambda>ident.
     bindR (p_timestamp lib (dget payload ''published_at'')) (\<lambda>published.
     bindR (guardR (month_pattern (dget payload ''period''))
                   (ProjectionContractError ''projection_eia_period_invalid'')) (\<lambda>_.
     bindR (p_str 100 (dget payload ''dataset'')) (\<lambda>dataset.
     bindR (guardR (dataset = ''electricity'') (ProjectionContractError ''projection_eia_series_invalid'')) (\<lambda>_.
     bindR (p_facet (dget payload ''geography'')) (\<lambda>geography.
     bindR (p_facet (dget payload ''sector'')) (\<lambda>sector.
     bindR (p_facet (dget payload ''metric'')) (\<lambda>metric.
     bindR (eia_series_identity (JStr geography) (JStr sector) (JStr metric)) (\<lambda>series.
     bindR (guardR (dget payload ''series_identity'' = JStr series)
                   (ProjectionContractError ''projection_eia_series_invalid'')) (\<lambda>_.
     bindR (p_str 100 (dget payload ''unit'')) (\<lambda>unit.
     bindR (p_number (dget payload ''value'')) (\<lambda>_.
       Inr (dputs [(''provider_item_id'', JStr ident), (''published_at'', JStr published),
                   (''dataset'', JStr dataset), (''geography'', JStr geography),
                   (''sector'', JStr sector), (''metric'', JStr metric), (''unit'', JStr unit)]
            payload))))))))))))))"

definition sec_keys :: "string set" where
  "sec_keys = {''provider_item_id'', ''published_at'', ''cik'', ''ticker'', ''accession_number'',
     ''filing_date'', ''form'', ''primary_document'', ''official_url'', ''official_source''}"

text \<open>\<open>date.fromisoformat(str(x))\<close> followed by \<open>str(filing_date) != x\<close>: only the canonical text of a valid
  date passes, and both failures raise the same error.\<close>

definition canonical_date :: "json \<Rightarrow> bool" where
  "canonical_date v = (case v of JStr s \<Rightarrow> parse_date s \<noteq> None | _ \<Rightarrow> False)"

definition cik_pattern :: "string \<Rightarrow> bool" where
  "cik_pattern = match_pat (digits 10)"

definition accession_pattern :: "string \<Rightarrow> bool" where
  "accession_pattern = match_pat (digits 10 @ lit ''-'' @ digits 2 @ lit ''-'' @ digits 6)"

definition document_pattern :: "string \<Rightarrow> bool" where
  "document_pattern = first_rest is_alnum (\<lambda>c. is_alnum c \<or> c \<in> set ''._-'') 254"

definition submissions_pattern :: "string \<Rightarrow> bool" where
  "submissions_pattern s =
     (match_pat (lit ''CIK'' @ digits 10 @ lit ''.json'') s
      \<or> match_pat (lit ''CIK'' @ digits 10 @ lit ''-submissions-'' @ digits 3 @ lit ''.json'') s)"

definition p_reference :: "string \<Rightarrow> json \<Rightarrow> unit res" where
  "p_reference cik reference =
     (case reference of
        JNull \<Rightarrow> Inr ()
      | JStr s \<Rightarrow> guardR (submissions_pattern s \<and> has_prefix (''CIK'' @ cik) s)
                    (ProjectionContractError ''projection_sec_reference_invalid'')
      | _ \<Rightarrow> contract_error ''projection_sec_reference_invalid'')"

definition p_sec :: "pylib \<Rightarrow> dict \<Rightarrow> dict res" where
  "p_sec lib payload0 =
     (let reference = dget payload0 ''submissions_file'';
          payload = AList.delete ''submissions_file'' payload0;
          bad = ProjectionContractError ''projection_sec_reference_invalid''
      in
     bindR (p_exact payload sec_keys) (\<lambda>_.
     bindR (p_timestamp lib (dget payload ''published_at'')) (\<lambda>published.
     bindR (p_str 10 (dget payload ''cik'')) (\<lambda>cik.
     bindR (p_str 20 (dget payload ''accession_number'')) (\<lambda>accession.
     bindR (p_str 255 (dget payload ''primary_document'')) (\<lambda>document.
     bindR (guardR (cik_pattern cik \<and> accession_pattern accession) bad) (\<lambda>_.
     bindR (guardR (canonical_date (dget payload ''filing_date'') \<and> document_pattern document
                    \<and> \<not> contains ''..'' document) bad) (\<lambda>_.
     bindR (guardR (dget payload ''provider_item_id'' = JStr accession)
                   (ProjectionContractError ''projection_provider_identity_invalid'')) (\<lambda>_.
     bindR (p_symbol (dget payload ''ticker'')) (\<lambda>ticker.
     bindR (p_str 50 (dget payload ''form'')) (\<lambda>form.
     bindR (guardR (dget payload ''official_source'' = JBool True
                    \<and> dget payload ''official_url'' = JStr (sec_official_url cik accession document))
                   bad) (\<lambda>_.
     bindR (p_reference cik reference) (\<lambda>_.
       Inr (dputs ([(''published_at'', JStr published), (''ticker'', JStr ticker), (''form'', JStr form),
                    (''cik'', JStr cik), (''accession_number'', JStr accession),
                    (''primary_document'', JStr document)]
                   @ (if reference = JNull then [] else [(''submissions_file'', reference)]))
            payload))))))))))))))"

definition company_news_keys :: "string set" where
  "company_news_keys = {''provider_item_id'', ''published_at'', ''title'', ''canonical_url'',
     ''source_identity'', ''symbol'', ''category'', ''summary_coverage''}"

definition p_company_news :: "pylib \<Rightarrow> dict \<Rightarrow> dict res" where
  "p_company_news lib payload =
     bindR (p_exact payload company_news_keys) (\<lambda>_.
     bindR (p_opaque_id 255 (dget payload ''provider_item_id'')) (\<lambda>ident.
     bindR (guardR (has_prefix ''company-news:'' ident)
                   (ProjectionContractError ''projection_provider_identity_invalid'')) (\<lambda>_.
     bindR (p_timestamp lib (dget payload ''published_at'')) (\<lambda>published.
     bindR (p_symbol (dget payload ''symbol'')) (\<lambda>symbol.
     bindR (p_text 2000 True (dget payload ''title'')) (\<lambda>title.
     bindR (p_text 2000 True (dget payload ''source_identity'')) (\<lambda>src.
     bindR (p_text 2000 True (dget payload ''category'')) (\<lambda>category.
     bindR (p_url_field lib (dget payload ''canonical_url'')) (\<lambda>_.
     bindR (guardR (dget payload ''summary_coverage'' = JStr ''blocked'')
                   (ProjectionContractError ''projection_coverage_invalid'')) (\<lambda>_.
       Inr (dputs [(''provider_item_id'', JStr ident), (''published_at'', JStr published),
                   (''symbol'', JStr symbol), (''title'', title), (''source_identity'', src),
                   (''category'', category)] payload)))))))))))"

definition rto_keys :: "string set" where
  "rto_keys = {''provider_item_id'', ''published_at'', ''period'', ''dataset'', ''series_identity'',
     ''region'', ''metric'', ''value'', ''unit''}"

definition hour_pattern :: "(char \<Rightarrow> bool) list" where
  "hour_pattern = date_pattern @ lit ''T'' @ digits 2"

definition rto_period :: "json \<Rightarrow> string res" where
  "rto_period v =
     (case v of
        JStr s \<Rightarrow> (if match_pat hour_pattern s then Inr s
                   else contract_error ''projection_rto_period_invalid'')
      | _ \<Rightarrow> contract_error ''projection_rto_period_invalid'')"

definition p_rto :: "pylib \<Rightarrow> dict \<Rightarrow> dict res" where
  "p_rto lib payload =
     (let bad = ProjectionContractError ''projection_rto_identity_invalid'' in
     bindR (p_exact payload rto_keys) (\<lambda>_.
     bindR (guardR (dget payload ''dataset'' = JStr ''electricity_rto_region_data'')
                   (ProjectionContractError ''projection_rto_series_invalid'')) (\<lambda>_.
     bindR (rto_period (dget payload ''period'')) (\<lambda>period.
     bindR (p_timestamp lib (JStr (period @ '':00:00+00:00''))) (\<lambda>timestamp.
     bindR (rto_series_identity (str_of lib (dget payload ''region''))
                                (str_of lib (dget payload ''metric''))) (\<lambda>series.
     bindR (guardR (dget payload ''series_identity'' = JStr series
                    \<and> dget payload ''provider_item_id'' =
                        JStr (''rto:'' @ sha256_hex lib (series @ '':'' @ period))) bad) (\<lambda>_.
     bindR (p_timestamp lib (dget payload ''published_at'')) (\<lambda>published.
     bindR (guardR (published = timestamp) bad) (\<lambda>_.
     bindR (p_number (dget payload ''value'')) (\<lambda>_.
     bindR (p_str 100 (dget payload ''unit'')) (\<lambda>unit.
       Inr (dputs [(''published_at'', JStr timestamp), (''unit'', JStr unit)] payload))))))))))))"

subsection \<open>Validation, classification and hash\<close>

definition validate_factual_payload :: "pylib \<Rightarrow> string \<Rightarrow> string \<Rightarrow> int \<Rightarrow> dict \<Rightarrow> dict res" where
  "validate_factual_payload lib provider operation_key schema_version payload =
     (if schema_version \<noteq> 1 then contract_error ''projection_contract_unknown''
      else if unsafe_dict payload then contract_error ''projection_secret_marker_detected''
      else if (provider, operation_key) = (''marketaux'', ''news_all'') then p_marketaux lib payload
      else if (provider, operation_key) = (''finnhub'', ''quote'') then p_finnhub lib payload
      else if (provider, operation_key) = (''finnhub'', ''company_news'') then p_company_news lib payload
      else if (provider, operation_key) = (''eia'', ''electricity_retail_sales'') then p_eia lib payload
      else if (provider, operation_key) = (''eia'', ''electricity_rto_region_data'') then p_rto lib payload
      else if (provider, operation_key) = (''sec_edgar'', ''submissions_recent'') then p_sec lib payload
      else contract_error ''projection_contract_unknown'')"

definition quality_of :: "string \<Rightarrow> string \<Rightarrow> dict \<Rightarrow> SafeProjectionQualityStatus" where
  "quality_of provider operation_key normalized =
     (if (provider, operation_key) \<in> {(''marketaux'', ''news_all''), (''finnhub'', ''company_news'')}
      then (if list_ex (\<lambda>f. dget normalized f = JNull) [''title'', ''canonical_url'', ''source_identity'']
            then Quality_PARTIAL else Quality_COMPLETE)
      else if provider = ''finnhub''
      then (if dget normalized ''currency'' = JStr ''unknown'' \<or> dget normalized ''exchange'' = JStr ''unknown''
            then Quality_PARTIAL else Quality_COMPLETE)
      else if provider = ''eia''
      then (if dget normalized ''unit'' = JStr ''unknown'' then Quality_PARTIAL else Quality_COMPLETE)
      else Quality_COMPLETE)"

definition normalize_and_classify ::
  "pylib \<Rightarrow> string \<Rightarrow> string \<Rightarrow> int \<Rightarrow> dict \<Rightarrow> (dict \<times> SafeProjectionQualityStatus) res" where
  "normalize_and_classify lib provider operation_key schema_version payload =
     bindR (validate_factual_payload lib provider operation_key schema_version payload)
       (\<lambda>normalized. Inr (normalized, quality_of provider operation_key normalized))"

definition canonical_projection_hash :: "pylib \<Rightarrow> dict \<Rightarrow> string res" where
  "canonical_projection_hash lib payload =
     (case canonical_dumps lib (JObj payload) of
        None \<Rightarrow> contract_error ''projection_payload_not_canonical_json''
      | Some encoded \<Rightarrow> Inr (sha256_hex lib encoded))"

subsection \<open>Normalisers are normal forms\<close>

lemma guardR_simps [simp]:
  "guardR True e = Inr ()" "guardR False e = Inl e" "guardR ok e = Inr u \<longleftrightarrow> ok"
  by (auto simp: guardR_def)

lemma raise_from_Inr [simp]: "raise_from m e = Inr x \<longleftrightarrow> m = Inr x"
  by (auto simp: raise_from_def split: sum.splits)

lemma space_nat: "is_space c \<longleftrightarrow> (of_char c :: nat) \<in> {9..13} \<union> {28..32}"
proof -
  have "c = CHR '' '' \<longleftrightarrow> (of_char c :: nat) = 32" by (simp add: char_eq_nat)
  then show ?thesis unfolding is_space_def by auto
qed

lemma class_not_space: "is_alnum c \<or> c \<in> set ''._:-'' \<Longrightarrow> \<not> is_space c"
  unfolding is_alnum_def class_nat space_nat by auto

lemma upper_char_idem [simp]: "upper_char (upper_char c) = upper_char c"
proof -
  have "\<not> is_lower (upper_char c)" unfolding is_lower_nat of_upper_char by auto
  then show ?thesis unfolding upper_char_def [of "upper_char c"] by simp
qed

lemma upper_idem [simp]: "upper (upper s) = upper s"
  by (simp add: upper_def)

lemma p_text_cases:
  "p_text mx opt v = Inr w \<longleftrightarrow>
     (v = JNull \<and> opt \<and> w = JNull)
     \<or> (\<exists>s. v = JStr s \<and> w = JStr (collapse_ws s) \<and> collapse_ws s \<noteq> []
          \<and> length (collapse_ws s) \<le> mx \<and> \<not> secret_search (collapse_ws s))"
  by (cases v) (auto simp: p_text_def Let_def)

lemma p_str_cases:
  "p_str mx v = Inr t \<longleftrightarrow>
     (\<exists>s. v = JStr s \<and> t = collapse_ws s \<and> t \<noteq> [] \<and> length t \<le> mx \<and> \<not> secret_search t)"
  unfolding p_str_def bindR_Inr_iff p_text_cases by auto

lemma p_text_fix: "p_text mx opt v = Inr w \<Longrightarrow> p_text mx opt w = Inr w \<and> \<not> unsafe w"
  by (auto simp: p_text_cases)

lemma p_str_fix: "p_str mx v = Inr t \<Longrightarrow> p_str mx (JStr t) = Inr t \<and> \<not> secret_search t"
  by (auto simp: p_str_cases)

lemma p_str_word:
  "t \<noteq> [] \<Longrightarrow> \<forall>c\<in>set t. \<not> is_space c \<Longrightarrow> length t \<le> mx \<Longrightarrow> \<not> secret_search t \<Longrightarrow> p_str mx (JStr t) = Inr t"
  by (simp add: p_str_cases collapse_ws_word)

lemma symbol_not_space: "symbol_pattern s \<Longrightarrow> s \<noteq> [] \<and> (\<forall>c\<in>set s. \<not> is_space c)"
  by (cases s) (auto simp: symbol_pattern_def first_rest_def list_all_iff is_alnum_def intro!: class_not_space)

lemma p_symbol_fix: "p_symbol v = Inr t \<Longrightarrow> p_symbol (JStr t) = Inr t \<and> \<not> secret_search t"
proof -
  assume "p_symbol v = Inr t"
  then obtain s where s: "p_str 20 v = Inr s" "symbol_pattern t" "t = upper s"
    by (auto simp: p_symbol_def bindR_Inr_iff split: if_splits)
  then have "length t \<le> 20" "\<not> secret_search t" by (auto simp: p_str_cases)
  with s(2) have "p_str 20 (JStr t) = Inr t" by (intro p_str_word) (auto dest: symbol_not_space)
  with s \<open>\<not> secret_search t\<close> show ?thesis by (simp add: p_symbol_def)
qed

lemma p_symbols_fix:
  assumes "p_symbols v = Inr w"
  shows "p_symbols w = Inr w \<and> \<not> unsafe w"
proof (cases v)
  case (JList xs)
  with assms obtain ss where m: "mapR p_symbol xs = Inr ss" "length xs \<le> 10" and w: "w = JList (map JStr ss)"
    by (auto simp: p_symbols_def bindR_Inr_iff split: if_splits)
  have fix_sym: "p_symbol (JStr t) = Inr t \<and> \<not> secret_search t" if "t \<in> set ss" for t
    using mapR_range [OF m(1) that] p_symbol_fix by metis
  have "mapR p_symbol (map JStr ss) = Inr ss \<and> \<not> unsafe_list (map JStr ss) \<and> list_all is_JStr (map JStr ss)"
    using fix_sym by (induction ss) auto
  then show ?thesis using m mapR_Inr_length [OF m(1)] by (auto simp: w p_symbols_def)
qed (use assms in \<open>auto simp: p_symbols_def\<close>)

lemma p_opaque_fix:
  "p_opaque_id mx v = Inr t \<Longrightarrow> p_opaque_id mx (JStr t) = Inr t \<and> \<not> secret_search t"
  by (auto simp: p_opaque_id_def bindR_Inr_iff p_str_cases split: if_splits)

lemma p_timestamp_fix:
  assumes "iso_laws lib" and "p_timestamp lib v = Inr s"
  shows "p_timestamp lib (JStr s) = Inr s \<and> \<not> secret_search s"
proof -
  obtain t where t: "in_datetime_range t" "s = isoformat_utc lib t"
    using assms(2) by (auto simp: p_timestamp_def split: json.splits option.splits if_splits)
  with assms(1) have "fromisoformat lib s = Some (t, True)" "list_all iso_char s"
    by (auto simp: iso_laws_def)
  with t iso_text_not_secret [of s] show ?thesis by (simp add: p_timestamp_def replace_Z_id)
qed

lemma strip_id: "\<forall>c\<in>set s. \<not> is_space c \<Longrightarrow> strip s = s"
proof -
  assume a: "\<forall>c\<in>set s. \<not> is_space c"
  then have "dropWhile is_space s = s" "dropWhile is_space (rev s) = rev s"
    by (simp_all add: dropWhile_eq_self_iff hd_in_set)
       (metis hd_in_set rev_is_Nil_conv set_rev)
  then show ?thesis by (simp add: strip_def)
qed

lemma identity_fix:
  assumes "normalize_marketaux_provider_identity (JStr s) = Inr t"
  shows "normalize_marketaux_provider_identity (JStr t) = Inr t \<and> (\<not> secret_search s \<longrightarrow> \<not> secret_search t)"
proof -
  have t: "t = strip s" and p: "first_rest is_alnum (\<lambda>c. is_alnum c \<or> c \<in> set ''._:-'') 254 t"
    using assms by (auto simp: normalize_marketaux_provider_identity_def split: if_splits)
  have "\<forall>c\<in>set t. \<not> is_space c"
    using p by (cases t) (auto simp: first_rest_def list_all_iff intro!: class_not_space)
  then have "strip t = t" by (rule strip_id)
  with p have "normalize_marketaux_provider_identity (JStr t) = Inr t"
    by (simp add: normalize_marketaux_provider_identity_def)
  with secret_sublist [OF _ strip_sublist] show ?thesis by (auto simp: t)
qed

lemma lower_char_dash: "lower_char c = CHR ''-'' \<longleftrightarrow> c = CHR ''-''"
  unfolding char_eq_nat of_lower_char class_nat by auto

lemma lower_letters:
  "is_upper c \<or> is_lower c \<Longrightarrow> is_upper (lower_char c) \<or> is_lower (lower_char c)"
  "is_alnum c \<Longrightarrow> is_alnum (lower_char c)"
  unfolding is_alnum_def class_nat of_lower_char by auto

lemma class_range_lower:
  "class_range p lo hi s \<Longrightarrow> (\<And>c. p c \<Longrightarrow> p (lower_char c)) \<Longrightarrow> class_range p lo hi (lower s)"
  by (auto simp: class_range_def lower_def list_all_iff)

lemma language_lower: "language_pattern s \<Longrightarrow> language_pattern (lower s)"
proof -
  assume l: "language_pattern s"
  have parts: "takeWhile (\<lambda>c. c \<noteq> CHR ''-'') (lower s) = lower (takeWhile (\<lambda>c. c \<noteq> CHR ''-'') s)"
    "dropWhile (\<lambda>c. c \<noteq> CHR ''-'') (lower s) = lower (dropWhile (\<lambda>c. c \<noteq> CHR ''-'') s)"
    by (simp_all add: lower_def takeWhile_map dropWhile_map comp_def lower_char_dash)
  have tl: "tl (lower x) = lower (tl x)" "lower x = [] \<longleftrightarrow> x = []" for x
    by (simp_all add: lower_def map_tl)
  show ?thesis
    using l class_range_lower [of "\<lambda>c. is_upper c \<or> is_lower c", OF _ lower_letters(1)]
      class_range_lower [of is_alnum, OF _ lower_letters(2)]
    unfolding language_pattern_def Let_def parts tl case_prod_conv by blast
qed

lemma class_rangeD: "class_range p lo hi s \<Longrightarrow> c \<in> set s \<Longrightarrow> p c"
  by (simp add: class_range_def list_all_iff)

lemma language_not_space: "language_pattern s \<Longrightarrow> s \<noteq> [] \<and> (\<forall>c\<in>set s. \<not> is_space c)"
proof -
  assume l: "language_pattern s"
  define a where "a = takeWhile (\<lambda>c. c \<noteq> CHR ''-'') s"
  define b where "b = dropWhile (\<lambda>c. c \<noteq> CHR ''-'') s"
  have s: "s = a @ b" unfolding a_def b_def by simp
  have cl: "class_range (\<lambda>c. is_upper c \<or> is_lower c) 2 3 a" "b = [] \<or> class_range is_alnum 2 8 (tl b)"
    using l unfolding language_pattern_def Let_def case_prod_conv a_def b_def by blast+
  then have "a \<noteq> []" by (auto simp: class_range_def)
  moreover have "\<not> is_space c" if "c \<in> set a" for c
    using class_rangeD [OF cl(1) that] by (intro class_not_space) (auto simp: is_alnum_def)
  moreover have "\<not> is_space c" if "c \<in> set b" for c
  proof -
    from that have "b \<noteq> []" by auto
    then have "hd b = CHR ''-''" using hd_dropWhile [of "\<lambda>c. c \<noteq> CHR ''-''" s] unfolding b_def by blast
    moreover have "c = hd b \<or> c \<in> set (tl b)" using that by (cases b) auto
    ultimately show ?thesis
      using cl(2) \<open>b \<noteq> []\<close> class_rangeD [of is_alnum 2 8 "tl b" c] by (intro class_not_space) auto
  qed
  ultimately show ?thesis unfolding s by auto
qed

lemma p_language_fix:
  assumes "p_language v = Inr w"
  shows "p_language w = Inr w \<and> \<not> unsafe w"
proof -
  have "w = JNull \<or> (\<exists>s. w = JStr (lower s) \<and> language_pattern s \<and> length s \<le> 12 \<and> \<not> secret_search s)"
    using assms by (auto simp: p_language_def bindR_Inr_iff p_text_cases split: if_splits)
  then show ?thesis
    using language_lower language_not_space [OF language_lower]
    by (auto simp: p_language_def bindR_Inr_iff p_text_cases collapse_ws_word)
qed

lemma slug_chars: "c \<in> set (slug s) \<Longrightarrow> is_lower c \<or> is_digit c \<or> c = CHR ''-''"
proof -
  let ?sep = "\<lambda>c. \<not> (is_lower c \<or> is_digit c)"
  have "c \<in> set (join_with ''-'' ws) \<Longrightarrow> c = CHR ''-'' \<or> (\<exists>w\<in>set ws. c \<in> set w)" for ws
    by (induction "''-''" ws rule: join_with.induct) auto
  moreover assume "c \<in> set (slug s)"
  ultimately show ?thesis
    using runs_words [of "[]" ?sep "lower s"] unfolding slug_def by fastforce
qed

lemma lower_slug: "lower (slug s) = slug s"
proof -
  have "lower_char c = c" if "is_lower c \<or> is_digit c \<or> c = CHR ''-''" for c
    using that unfolding char_eq_nat of_lower_char class_nat by auto
  then show ?thesis using slug_chars [of _ s] by (auto simp: lower_def intro!: map_idI)
qed

lemma slug_idem: "slug (slug s) = slug s"
  unfolding slug_def [of "slug s"] lower_slug unfolding slug_def
  by (rule join_runs_idem) (simp add: is_lower_def is_digit_def less_eq_char_def)

text \<open>A facet that passed twice is a normal form (slugging may join words into a secret marker, which
  the second pass rejects).\<close>

lemma p_facet_fix:
  assumes "p_facet v = Inr g" and "p_facet (JStr g) = Inr g'"
  shows "g' = g \<and> \<not> secret_search g"
proof -
  obtain s where g: "g = slug s" "g \<noteq> []"
    using assms(1) by (auto simp: p_facet_def bindR_Inr_iff split: if_splits)
  have "\<forall>c\<in>set g. \<not> is_space c"
    unfolding g by (intro ballI class_not_space) (auto simp: is_alnum_def dest!: slug_chars)
  with g have "collapse_ws g = g" by (simp add: collapse_ws_word)
  with assms(2) g show ?thesis
    by (auto simp: p_facet_def bindR_Inr_iff p_str_cases slug_idem split: if_splits)
qed

subsection \<open>Assignments to the copied payload\<close>

lemma dputs_Nil [simp]: "dputs [] d = d"
  and dputs_Cons: "dputs ((k, v) # kvs) d = dputs kvs (dput k v d)"
  by (simp_all add: dputs_def)

lemma map_of_dputs:
  "distinct (map fst kvs) \<Longrightarrow>
     map_of (dputs kvs d) k = (case map_of kvs k of None \<Rightarrow> map_of d k | Some v \<Rightarrow> Some v)"
proof (induction kvs arbitrary: d)
  case (Cons kv kvs)
  obtain j v where kv: "kv = (j, v)" by (rule prod.exhaust)
  with Cons.prems have "map_of kvs j = None" by (simp add: map_of_eq_None_iff)
  with Cons kv show ?case by (simp add: dputs_Cons split: option.splits)
qed simp

lemma dget_dputs:
  "distinct (map fst kvs) \<Longrightarrow>
     dget (dputs kvs d) k = (case map_of kvs k of None \<Rightarrow> dget d k | Some v \<Rightarrow> v)"
  by (simp add: dget_def map_of_dputs split: option.split)

lemma keys_of_dputs: "keys_of (dputs kvs d) = set (map fst kvs) \<union> keys_of d"
proof (induction kvs arbitrary: d)
  case (Cons kv kvs)
  then show ?case by (cases kv) (simp add: dputs_Cons)
qed simp

lemma dputs_same: "(\<And>k v. (k, v) \<in> set kvs \<Longrightarrow> map_of d k = Some v) \<Longrightarrow> dputs kvs d = d"
  by (induction kvs) (auto simp: dputs_Cons dput_same)

lemma dputs_idem: "distinct (map fst kvs) \<Longrightarrow> dputs kvs (dputs kvs d) = dputs kvs d"
  by (rule dputs_same) (simp add: map_of_dputs)

lemma unsafe_dict_iff: "unsafe_dict d \<longleftrightarrow> (\<exists>(k, v)\<in>set d. secret_search k \<or> unsafe v)"
  by (induction d) auto

lemma unsafe_dput: "\<not> unsafe_dict d \<Longrightarrow> \<not> secret_search k \<Longrightarrow> \<not> unsafe v \<Longrightarrow> \<not> unsafe_dict (dput k v d)"
  by (induction d) auto

lemma unsafe_dputs:
  "\<not> unsafe_dict d \<Longrightarrow> \<not> unsafe_dict kvs \<Longrightarrow> \<not> unsafe_dict (dputs kvs d)"
  by (induction kvs arbitrary: d) (auto simp: dputs_Cons unsafe_dput)

lemma unsafe_dget: "\<not> unsafe_dict d \<Longrightarrow> \<not> unsafe (dget d k)"
  by (auto simp: dget_def unsafe_dict_iff split: option.split dest!: map_of_SomeD)

lemma unsafe_delete: "\<not> unsafe_dict d \<Longrightarrow> \<not> unsafe_dict (AList.delete k d)"
  by (induction d) auto

lemma p_exact_Inr [simp]: "p_exact d ks = Inr u \<longleftrightarrow> keys_of d = ks"
  by (auto simp: p_exact_def)

text \<open>The field names of the contracts are not secret markers themselves.\<close>

lemma field_safe:
  "\<not> secret_search ''provider_item_id''"
  "\<not> secret_search ''query''"
  "\<not> secret_search ''published_at''"
  "\<not> secret_search ''title''"
  "\<not> secret_search ''source_identity''"
  "\<not> secret_search ''language''"
  "\<not> secret_search ''symbols''"
  "\<not> secret_search ''symbol''"
  "\<not> secret_search ''currency''"
  "\<not> secret_search ''exchange''"
  "\<not> secret_search ''dataset''"
  "\<not> secret_search ''geography''"
  "\<not> secret_search ''sector''"
  "\<not> secret_search ''metric''"
  "\<not> secret_search ''unit''"
  "\<not> secret_search ''ticker''"
  "\<not> secret_search ''form''"
  "\<not> secret_search ''cik''"
  "\<not> secret_search ''accession_number''"
  "\<not> secret_search ''primary_document''"
  "\<not> secret_search ''submissions_file''"
  "\<not> secret_search ''category''"
  by code_simp+

subsection \<open>The contract of a contract\<close>

text \<open>What the store and the worker rely on: a payload that passed is safe and passes again,
  unchanged.\<close>

locale projection_contract =
  fixes check :: "pylib \<Rightarrow> dict \<Rightarrow> dict res"
  assumes check_fix:
    "iso_laws lib \<Longrightarrow> \<not> unsafe_dict p \<Longrightarrow> check lib p = Inr q \<Longrightarrow> check lib q = Inr q \<and> \<not> unsafe_dict q"
begin

definition normal :: "pylib \<Rightarrow> dict \<Rightarrow> bool" where
  "normal lib q = (check lib q = Inr q \<and> \<not> unsafe_dict q)"

lemma check_normal: "iso_laws lib \<Longrightarrow> \<not> unsafe_dict p \<Longrightarrow> check lib p = Inr q \<Longrightarrow> normal lib q"
  unfolding normal_def by (rule check_fix)

lemma check_twice:
  "iso_laws lib \<Longrightarrow> \<not> unsafe_dict p \<Longrightarrow> check lib p = Inr q \<Longrightarrow> bindR (check lib p) (check lib) = Inr q"
  by (metis bindR_simps(2) check_fix)

end

lemmas contract_elims = bindR_Inr_iff p_exact_Inr guardR_simps raise_from_Inr sum.inject

interpretation marketaux: projection_contract p_marketaux
proof
  fix lib p q
  assume iso: "iso_laws lib" and safe: "\<not> unsafe_dict p" and "p_marketaux lib p = Inr q"
  then obtain ident query published title src language symbols u where
    keys: "keys_of p = marketaux_keys"
    and ident: "normalize_marketaux_provider_identity (dget p ''provider_item_id'') = Inr ident"
    and query: "p_str 500 (dget p ''query'') = Inr query" "\<not> contains ''://'' query"
    and published: "p_timestamp lib (dget p ''published_at'') = Inr published"
    and title: "p_text 2000 True (dget p ''title'') = Inr title"
    and src: "p_text 2000 True (dget p ''source_identity'') = Inr src"
    and language: "p_language (dget p ''language'') = Inr language"
    and symbols: "p_symbols (dget p ''symbols'') = Inr symbols"
    and rest: "p_url_field lib (dget p ''canonical_url'') = Inr u"
      "dget p ''description_coverage'' = JStr ''blocked''" "dget p ''snippet_coverage'' = JStr ''blocked''"
    and q: "dputs [(''provider_item_id'', JStr ident), (''query'', JStr query),
                   (''published_at'', JStr published), (''title'', title),
                   (''source_identity'', src), (''language'', language), (''symbols'', symbols)] p = q"
      (is "dputs ?kvs p = q")
    unfolding p_marketaux_def contract_elims by (elim exE conjE)
  have d: "dget q ''provider_item_id'' = JStr ident" "dget q ''query'' = JStr query"
    "dget q ''published_at'' = JStr published" "dget q ''title'' = title" "dget q ''source_identity'' = src"
    "dget q ''language'' = language" "dget q ''symbols'' = symbols"
    "dget q ''canonical_url'' = dget p ''canonical_url''"
    "dget q ''description_coverage'' = JStr ''blocked''" "dget q ''snippet_coverage'' = JStr ''blocked''"
    unfolding q [symmetric] by (simp_all add: dget_dputs rest)
  have same: "dputs ?kvs q = q" unfolding q [symmetric] by (rule dputs_idem) simp
  have keys': "keys_of q = marketaux_keys"
    unfolding q [symmetric] keys_of_dputs keys marketaux_keys_def by auto
  obtain s where s: "dget p ''provider_item_id'' = JStr s"
    using ident by (auto simp: normalize_marketaux_provider_identity_def split: json.splits)
  have "\<not> secret_search s" using unsafe_dget [OF safe, of "''provider_item_id''"] s by simp
  then have ident': "normalize_marketaux_provider_identity (JStr ident) = Inr ident" "\<not> secret_search ident"
    using identity_fix [of s ident] ident s by simp_all
  note norms = p_str_fix [OF query(1)] p_timestamp_fix [OF iso published]
      p_text_fix [OF title] p_text_fix [OF src] p_language_fix [OF language] p_symbols_fix [OF symbols]
  have "\<not> unsafe_dict q"
    unfolding q [symmetric] using norms ident' safe by (intro unsafe_dputs) (simp_all add: field_safe)
  moreover have "p_marketaux lib q = Inr q"
    unfolding p_marketaux_def contract_elims d keys'
    using norms ident' query rest same by (simp add: exI [of _ u])
  ultimately show "p_marketaux lib q = Inr q \<and> \<not> unsafe_dict q" by simp
qed

lemma finnhub_numbers_frame:
  "mapR (\<lambda>k. p_number (dget (dputs kvs p) k)) ks = mapR (\<lambda>k. p_number (dget p k)) ks"
  if "distinct (map fst kvs)" and "set (map fst kvs) \<inter> set ks = {}"
proof -
  have "dget (dputs kvs p) k = dget p k" if "k \<in> set ks" for k
    using that \<open>distinct (map fst kvs)\<close> \<open>set (map fst kvs) \<inter> set ks = {}\<close>
    by (auto simp: dget_dputs split: option.split dest!: map_of_SomeD)
  then show ?thesis by (induction ks) simp_all
qed

interpretation finnhub: projection_contract p_finnhub
proof
  fix lib p q
  assume iso: "iso_laws lib" and safe: "\<not> unsafe_dict p" and "p_finnhub lib p = Inr q"
  then obtain published symbol currency exchange timestamp ns where
    keys: "keys_of p = finnhub_keys"
    and published: "p_timestamp lib (dget p ''published_at'') = Inr published"
    and symbol: "p_symbol (dget p ''symbol'') = Inr symbol"
    and currency: "p_str 100 (dget p ''currency'') = Inr currency"
    and exchange: "p_str 100 (dget p ''exchange'') = Inr exchange"
    and timestamp: "provider_timestamp (dget p ''provider_timestamp'') = Inr timestamp"
      "dget p ''provider_item_id'' = JStr (symbol @ '':'' @ str_int timestamp)"
      "in_datetime_range (timestamp * 1000000)" "published = isoformat_utc lib (timestamp * 1000000)"
    and numbers: "mapR (\<lambda>k. p_number (dget p k)) [''c'', ''d'', ''dp'', ''h'', ''l'', ''o'', ''pc''] = Inr ns"
    and q: "dputs [(''published_at'', JStr published), (''symbol'', JStr symbol),
                   (''currency'', JStr currency), (''exchange'', JStr exchange)] p = q"
      (is "dputs ?kvs p = q")
    unfolding p_finnhub_def contract_elims by (elim exE conjE)
  have d: "dget q ''published_at'' = JStr published" "dget q ''symbol'' = JStr symbol"
    "dget q ''currency'' = JStr currency" "dget q ''exchange'' = JStr exchange"
    "dget q ''provider_timestamp'' = dget p ''provider_timestamp''"
    "dget q ''provider_item_id'' = dget p ''provider_item_id''"
    unfolding q [symmetric] by (simp_all add: dget_dputs)
  have same: "dputs ?kvs q = q" unfolding q [symmetric] by (rule dputs_idem) simp
  have keys': "keys_of q = finnhub_keys"
    unfolding q [symmetric] keys_of_dputs keys finnhub_keys_def by auto
  have numbers': "mapR (\<lambda>k. p_number (dget q k)) [''c'', ''d'', ''dp'', ''h'', ''l'', ''o'', ''pc''] = Inr ns"
    using numbers unfolding q [symmetric] by (subst finnhub_numbers_frame) simp_all
  note norms = p_timestamp_fix [OF iso published] p_symbol_fix [OF symbol] p_str_fix [OF currency]
    p_str_fix [OF exchange]
  have "\<not> unsafe_dict q"
    unfolding q [symmetric] using norms safe by (intro unsafe_dputs) (simp_all add: field_safe)
  moreover have "p_finnhub lib q = Inr q"
    unfolding p_finnhub_def contract_elims d keys' numbers'
    using norms timestamp same by simp
  ultimately show "p_finnhub lib q = Inr q \<and> \<not> unsafe_dict q" by simp
qed

interpretation company_news: projection_contract p_company_news
proof
  fix lib p q
  assume iso: "iso_laws lib" and safe: "\<not> unsafe_dict p" and "p_company_news lib p = Inr q"
  then obtain ident published symbol title src category u where
    keys: "keys_of p = company_news_keys"
    and ident: "p_opaque_id 255 (dget p ''provider_item_id'') = Inr ident" "has_prefix ''company-news:'' ident"
    and published: "p_timestamp lib (dget p ''published_at'') = Inr published"
    and symbol: "p_symbol (dget p ''symbol'') = Inr symbol"
    and title: "p_text 2000 True (dget p ''title'') = Inr title"
    and src: "p_text 2000 True (dget p ''source_identity'') = Inr src"
    and category: "p_text 2000 True (dget p ''category'') = Inr category"
    and rest: "p_url_field lib (dget p ''canonical_url'') = Inr u" "dget p ''summary_coverage'' = JStr ''blocked''"
    and q: "dputs [(''provider_item_id'', JStr ident), (''published_at'', JStr published),
                   (''symbol'', JStr symbol), (''title'', title), (''source_identity'', src),
                   (''category'', category)] p = q"
      (is "dputs ?kvs p = q")
    unfolding p_company_news_def contract_elims by (elim exE conjE)
  have d: "dget q ''provider_item_id'' = JStr ident" "dget q ''published_at'' = JStr published"
    "dget q ''symbol'' = JStr symbol" "dget q ''title'' = title" "dget q ''source_identity'' = src"
    "dget q ''category'' = category" "dget q ''canonical_url'' = dget p ''canonical_url''"
    "dget q ''summary_coverage'' = dget p ''summary_coverage''"
    unfolding q [symmetric] by (simp_all add: dget_dputs)
  have same: "dputs ?kvs q = q" unfolding q [symmetric] by (rule dputs_idem) simp
  have keys': "keys_of q = company_news_keys"
    unfolding q [symmetric] keys_of_dputs keys company_news_keys_def by auto
  note norms = p_opaque_fix [OF ident(1)] p_timestamp_fix [OF iso published] p_symbol_fix [OF symbol]
    p_text_fix [OF title] p_text_fix [OF src] p_text_fix [OF category]
  have "\<not> unsafe_dict q"
    unfolding q [symmetric] using norms safe by (intro unsafe_dputs) (simp_all add: field_safe)
  moreover have "p_company_news lib q = Inr q"
    unfolding p_company_news_def contract_elims d keys'
    using norms ident rest same by simp
  ultimately show "p_company_news lib q = Inr q \<and> \<not> unsafe_dict q" by simp
qed

interpretation eia: projection_contract p_eia
proof
  fix lib p q
  assume iso: "iso_laws lib" and safe: "\<not> unsafe_dict p" and "p_eia lib p = Inr q"
  then obtain ident published dataset geography sector metric series unit v where
    keys: "keys_of p = eia_keys"
    and ident: "p_opaque_id 255 (dget p ''provider_item_id'') = Inr ident"
    and published: "p_timestamp lib (dget p ''published_at'') = Inr published"
    and dataset: "month_pattern (dget p ''period'')" "p_str 100 (dget p ''dataset'') = Inr dataset" "dataset = ''electricity''"
    and facets: "p_facet (dget p ''geography'') = Inr geography" "p_facet (dget p ''sector'') = Inr sector"
      "p_facet (dget p ''metric'') = Inr metric"
    and series: "eia_series_identity (JStr geography) (JStr sector) (JStr metric) = Inr series"
      "dget p ''series_identity'' = JStr series"
    and unit: "p_str 100 (dget p ''unit'') = Inr unit" and val: "p_number (dget p ''value'') = Inr v"
    and q: "dputs [(''provider_item_id'', JStr ident), (''published_at'', JStr published),
                   (''dataset'', JStr dataset), (''geography'', JStr geography),
                   (''sector'', JStr sector), (''metric'', JStr metric), (''unit'', JStr unit)] p = q"
      (is "dputs ?kvs p = q")
    unfolding p_eia_def contract_elims by (elim exE conjE)
  have d: "dget q ''provider_item_id'' = JStr ident" "dget q ''published_at'' = JStr published"
    "dget q ''dataset'' = JStr dataset" "dget q ''geography'' = JStr geography" "dget q ''sector'' = JStr sector"
    "dget q ''metric'' = JStr metric" "dget q ''unit'' = JStr unit" "dget q ''period'' = dget p ''period''"
    "dget q ''series_identity'' = dget p ''series_identity''" "dget q ''value'' = dget p ''value''"
    unfolding q [symmetric] by (simp_all add: dget_dputs)
  have same: "dputs ?kvs q = q" unfolding q [symmetric] by (rule dputs_idem) simp
  have keys': "keys_of q = eia_keys"
    unfolding q [symmetric] keys_of_dputs keys eia_keys_def by auto
  obtain g s m where "p_facet (JStr geography) = Inr g" "p_facet (JStr sector) = Inr s" "p_facet (JStr metric) = Inr m"
    using series(1) unfolding eia_series_identity_def bindR_Inr_iff by blast
  note f = this p_facet_fix [OF facets(1) this(1)] p_facet_fix [OF facets(2) this(2)] p_facet_fix [OF facets(3) this(3)]
  have facets': "p_facet (JStr geography) = Inr geography" "p_facet (JStr sector) = Inr sector"
    "p_facet (JStr metric) = Inr metric" "\<not> secret_search geography" "\<not> secret_search sector" "\<not> secret_search metric"
    using f by simp_all
  note norms = p_opaque_fix [OF ident] p_timestamp_fix [OF iso published] p_str_fix [OF dataset(2)] p_str_fix [OF unit]
  have "\<not> unsafe_dict q"
    unfolding q [symmetric] using norms facets' safe by (intro unsafe_dputs) (simp_all add: field_safe)
  moreover have "p_eia lib q = Inr q"
    unfolding p_eia_def contract_elims d keys'
    using norms facets' series dataset val same by simp
  ultimately show "p_eia lib q = Inr q \<and> \<not> unsafe_dict q" by simp
qed

interpretation rto: projection_contract p_rto
proof
  fix lib p q
  assume iso: "iso_laws lib" and safe: "\<not> unsafe_dict p" and "p_rto lib p = Inr q"
  then obtain period timestamp series v unit where
    keys: "keys_of p = rto_keys"
    and dataset: "dget p ''dataset'' = JStr ''electricity_rto_region_data''"
    and period: "rto_period (dget p ''period'') = Inr period" "p_timestamp lib (JStr (period @ '':00:00+00:00'')) = Inr timestamp"
    and series: "rto_series_identity (str_of lib (dget p ''region'')) (str_of lib (dget p ''metric'')) = Inr series"
      "dget p ''series_identity'' = JStr series"
      "dget p ''provider_item_id'' = JStr (''rto:'' @ sha256_hex lib (series @ '':'' @ period))"
    and val: "p_number (dget p ''value'') = Inr v" and unit: "p_str 100 (dget p ''unit'') = Inr unit"
    and q: "dputs [(''published_at'', JStr timestamp), (''unit'', JStr unit)] p = q"
      (is "dputs ?kvs p = q")
    unfolding p_rto_def Let_def contract_elims by (elim exE conjE)
  have d: "dget q ''published_at'' = JStr timestamp" "dget q ''unit'' = JStr unit"
    "dget q ''dataset'' = dget p ''dataset''" "dget q ''period'' = dget p ''period''"
    "dget q ''region'' = dget p ''region''" "dget q ''metric'' = dget p ''metric''"
    "dget q ''series_identity'' = dget p ''series_identity''"
    "dget q ''provider_item_id'' = dget p ''provider_item_id''" "dget q ''value'' = dget p ''value''"
    unfolding q [symmetric] by (simp_all add: dget_dputs)
  have same: "dputs ?kvs q = q" unfolding q [symmetric] by (rule dputs_idem) simp
  have keys': "keys_of q = rto_keys"
    unfolding q [symmetric] keys_of_dputs keys rto_keys_def by auto
  note norms = p_timestamp_fix [OF iso period(2)] p_str_fix [OF unit]
  have "\<not> unsafe_dict q"
    unfolding q [symmetric] using norms safe by (intro unsafe_dputs) (simp_all add: field_safe)
  moreover have "p_rto lib q = Inr q"
    unfolding p_rto_def Let_def contract_elims d keys'
    using norms dataset period series val same by simp
  ultimately show "p_rto lib q = Inr q \<and> \<not> unsafe_dict q" by simp
qed

text \<open>The submissions reference is taken out of the copy and put back at the end.\<close>

lemma dputs_append: "dputs (xs @ ys) d = dputs ys (dputs xs d)"
  by (simp add: dputs_def)

lemma delete_reference:
  assumes "k \<notin> keys_of e" and "q = dputs (if r = JNull then [] else [(k, r)]) e"
  shows "AList.delete k q = e \<and> dget q k = r"
proof -
  have "map_of e k = None" "AList.delete k e = e"
    using assms(1) by (simp_all add: keys_of_def map_of_eq_None_iff)
  then show ?thesis using assms(2) by (simp add: dputs_Cons delete_update_same dget_def)
qed

interpretation sec: projection_contract p_sec
proof
  fix lib p q
  assume iso: "iso_laws lib" and safe: "\<not> unsafe_dict p" and "p_sec lib p = Inr q"
  define p0 where "p0 = AList.delete ''submissions_file'' p"
  define r where "r = dget p ''submissions_file''"
  have safe0: "\<not> unsafe_dict p0" and safe_r: "\<not> unsafe r"
    using safe by (simp_all add: p0_def r_def unsafe_delete unsafe_dget)
  obtain published cik accession document ticker form u where
    keys: "keys_of p0 = sec_keys"
    and published: "p_timestamp lib (dget p0 ''published_at'') = Inr published"
    and texts: "p_str 10 (dget p0 ''cik'') = Inr cik" "p_str 20 (dget p0 ''accession_number'') = Inr accession"
      "p_str 255 (dget p0 ''primary_document'') = Inr document" "p_str 50 (dget p0 ''form'') = Inr form"
    and checks: "cik_pattern cik" "accession_pattern accession" "canonical_date (dget p0 ''filing_date'')"
      "document_pattern document" "\<not> contains ''..'' document" "dget p0 ''provider_item_id'' = JStr accession"
      "dget p0 ''official_source'' = JBool True" "dget p0 ''official_url'' = JStr (sec_official_url cik accession document)"
      "p_reference cik r = Inr u"
    and ticker: "p_symbol (dget p0 ''ticker'') = Inr ticker"
    and q: "dputs ([(''published_at'', JStr published), (''ticker'', JStr ticker), (''form'', JStr form),
                    (''cik'', JStr cik), (''accession_number'', JStr accession),
                    (''primary_document'', JStr document)]
                   @ (if r = JNull then [] else [(''submissions_file'', r)])) p0 = q"
      (is "dputs (?kvs @ ?ref) p0 = q")
    using \<open>p_sec lib p = Inr q\<close>
    unfolding p_sec_def Let_def contract_elims p0_def [symmetric] r_def [symmetric] by (elim exE conjE)
  define e where "e = dputs ?kvs p0"
  have qe: "q = dputs ?ref e" unfolding q [symmetric] e_def by (rule dputs_append)
  have keys': "keys_of e = sec_keys" unfolding e_def keys_of_dputs keys sec_keys_def by auto
  then have "''submissions_file'' \<notin> keys_of e" by (simp add: sec_keys_def)
  note del = delete_reference [OF this qe]
  have d: "dget e ''published_at'' = JStr published" "dget e ''ticker'' = JStr ticker" "dget e ''form'' = JStr form"
    "dget e ''cik'' = JStr cik" "dget e ''accession_number'' = JStr accession" "dget e ''primary_document'' = JStr document"
    "dget e ''filing_date'' = dget p0 ''filing_date''" "dget e ''provider_item_id'' = dget p0 ''provider_item_id''"
    "dget e ''official_source'' = dget p0 ''official_source''" "dget e ''official_url'' = dget p0 ''official_url''"
    by (simp_all add: e_def dget_dputs)
  have same: "dputs (?kvs @ ?ref) e = q"
    unfolding dputs_append qe using dputs_idem [of ?kvs p0] by (simp add: e_def)
  note norms = p_timestamp_fix [OF iso published] p_str_fix [OF texts(1)] p_str_fix [OF texts(2)]
    p_str_fix [OF texts(3)] p_str_fix [OF texts(4)] p_symbol_fix [OF ticker]
  have "\<not> unsafe_dict q"
    unfolding q [symmetric] using norms safe0 safe_r by (intro unsafe_dputs) (simp_all add: field_safe)
  moreover have "p_sec lib q = Inr q"
    unfolding p_sec_def Let_def del [THEN conjunct1] del [THEN conjunct2] contract_elims d keys'
    using norms checks same by simp
  ultimately show "p_sec lib q = Inr q \<and> \<not> unsafe_dict q" by simp
qed

subsection \<open>Properties\<close>

text \<open>The dispatch of the entry point, as a table of contracts.\<close>

definition contract_of :: "string \<Rightarrow> string \<Rightarrow> (pylib \<Rightarrow> dict \<Rightarrow> dict res) option" where
  "contract_of provider operation_key = map_of
     [((''marketaux'', ''news_all''), p_marketaux), ((''finnhub'', ''quote''), p_finnhub),
      ((''finnhub'', ''company_news''), p_company_news), ((''eia'', ''electricity_retail_sales''), p_eia),
      ((''eia'', ''electricity_rto_region_data''), p_rto), ((''sec_edgar'', ''submissions_recent''), p_sec)]
     (provider, operation_key)"

lemma contract_of_ok: "contract_of provider operation_key = Some check \<Longrightarrow> projection_contract check"
  using marketaux.projection_contract_axioms finnhub.projection_contract_axioms
    company_news.projection_contract_axioms eia.projection_contract_axioms rto.projection_contract_axioms
    sec.projection_contract_axioms
  by (auto simp: contract_of_def split: if_splits)

lemma validate_dispatch:
  "validate_factual_payload lib provider operation_key version d =
     (if version \<noteq> 1 then contract_error ''projection_contract_unknown''
      else if unsafe_dict d then contract_error ''projection_secret_marker_detected''
      else case contract_of provider operation_key of
        None \<Rightarrow> contract_error ''projection_contract_unknown'' | Some check \<Rightarrow> check lib d)"
  by (simp add: validate_factual_payload_def contract_of_def)

lemma validated_fix:
  assumes "iso_laws lib"
    and "validate_factual_payload lib provider operation_key version p = Inr q"
  shows "validate_factual_payload lib provider operation_key version q = Inr q \<and> \<not> unsafe_dict q"
proof -
  obtain check where c: "contract_of provider operation_key = Some check" "check lib p = Inr q"
    "\<not> unsafe_dict p" "version = 1"
    using assms(2) by (auto simp: validate_dispatch split: if_splits option.splits)
  have "check lib q = Inr q \<and> \<not> unsafe_dict q"
    using contract_of_ok [OF c(1)] assms(1) c(3,2) by (rule projection_contract.check_fix)
  then show ?thesis using c by (simp add: validate_dispatch)
qed

text \<open>Property C17.  Validation of a factual payload yields a normal form: validating the result
  again, under the same provider, operation and schema version, succeeds, changes nothing, and no
  key or text of the result matches the secret pattern.  This needs of the runtime only that
  \<open>fromisoformat\<close> reads what \<open>isoformat\<close> printed.\<close>

theorem validated_payload_is_normal:
  assumes "iso_laws lib"
    and "validate_factual_payload lib provider operation_key version p = Inr q"
  shows "validate_factual_payload lib provider operation_key version q = Inr q \<and> \<not> unsafe_dict q"
  using assms by (rule validated_fix)

definition sample_quote :: "string \<Rightarrow> string \<Rightarrow> dict" where
  "sample_quote symbol currency =
     [(''provider_item_id'', JStr ''AAPL:1''), (''published_at'', JStr ''1970-01-01T00:00:01Z''),
      (''symbol'', JStr symbol), (''provider_timestamp'', JInt 1), (''c'', JInt 10), (''d'', JInt 1),
      (''dp'', JInt 2), (''h'', JInt 11), (''l'', JInt 9), (''o'', JInt 9), (''pc'', JInt 9),
      (''currency'', JStr currency), (''exchange'', JStr ''unknown'')]"

definition normal_quote :: dict where
  "normal_quote = dputs [(''published_at'', JStr ''1970-01-01T00:00:01+00:00'')] (sample_quote ''AAPL'' ''USD'')"

lemma sample_quote_validates:
  "validate_factual_payload sample_lib ''finnhub'' ''quote'' 1 (sample_quote '' aapl '' ''USD'') = Inr normal_quote"
  by code_simp

theorem validated_payload_is_normal_witness:
  "validate_factual_payload sample_lib ''finnhub'' ''quote'' 1 normal_quote = Inr normal_quote
   \<and> \<not> unsafe_dict normal_quote"
  using validated_payload_is_normal [OF sample_iso_laws sample_quote_validates] .

end
