(* ===== verification/Windows.thy ===== *)
theory Windows
  imports Safe_Projection
begin

text \<open>
  The bounded collection windows of \<open>providers/windows.py\<close>: validation of a window configuration,
  resolution of a rolling window into a fixed one at the start of a run, and the configuration that
  the run is pinned to.  A naive \<open>datetime\<close> of a window bound is a number of hours since
  0001-01-01T00; \<open>strftime\<close> prints the year without padding, as the C library does.
\<close>

definition rolling_keys :: "string list" where
  "rolling_keys = [''lookback_seconds'', ''overlap_seconds'', ''ingestion_lag_seconds'', ''granularity'',
     ''lookback_months'', ''overlap_months'', ''ingestion_lag_months'']"

definition has_any :: "dict \<Rightarrow> string list \<Rightarrow> bool" where
  "has_any config ks = list_ex (has_key config) ks"

abbreviation window_invalid :: "'a res" where
  "window_invalid \<equiv> Inl (ValueError ''breadth_window_invalid'')"

definition monthly :: "string \<Rightarrow> bool" where
  "monthly operation = (operation = ''electricity_retail_sales'')"

definition window_ceiling :: "string \<Rightarrow> int" where
  "window_ceiling operation =
     (if monthly operation then 366 else if operation = ''electricity_rto_region_data'' then 7 else 31) * 86400"

text \<open>\<open>datetime.fromisoformat\<close> on a text of the shape \<open>\d{4}-\d{2}-\d{2}(T\d{2})?\<close>: the date and the hour.\<close>

definition window_time :: "string \<Rightarrow> ((nat \<times> nat \<times> nat) \<times> nat) option" where
  "window_time s =
     (if match_pat date_pattern s then map_option (\<lambda>d. (d, 0)) (parse_date s)
      else if match_pat hour_pattern s \<and> read_digits 0 (drop 11 s) < 24
      then map_option (\<lambda>d. (d, read_digits 0 (drop 11 s))) (parse_date (take 10 s))
      else None)"

definition month_start_pattern :: "string \<Rightarrow> bool" where
  "month_start_pattern s =
     (match_pat (digits 4 @ lit ''-'' @ digits 2 @ lit ''-01'') s
      \<and> 1 \<le> read_digits 0 (take 2 (drop 5 s)) \<and> read_digits 0 (take 2 (drop 5 s)) \<le> 12)"

definition bound_time :: "string \<Rightarrow> json \<Rightarrow> ((nat \<times> nat \<times> nat) \<times> nat) option" where
  "bound_time operation v =
     (case v of
        JStr s \<Rightarrow> (if monthly operation \<and> \<not> month_start_pattern s then None else window_time s)
      | _ \<Rightarrow> None)"

definition month_index :: "(nat \<times> nat \<times> nat) \<times> nat \<Rightarrow> int" where
  "month_index = (\<lambda>((y, m, d), h). int y * 12 + int m)"

definition hour_index :: "(nat \<times> nat \<times> nat) \<times> nat \<Rightarrow> int" where
  "hour_index = (\<lambda>(ymd, h). int (day_number ymd) * 24 + int h)"

definition fixed_window_ok :: "string \<Rightarrow> json \<Rightarrow> json \<Rightarrow> bool" where
  "fixed_window_ok operation start_text end_text =
     (case (bound_time operation start_text, bound_time operation end_text) of
        (Some start, Some e) \<Rightarrow>
          (if monthly operation
           then 0 \<le> month_index e - month_index start \<and> month_index e - month_index start \<le> 11
           else 0 < (hour_index e - hour_index start) * 3600
                \<and> (hour_index e - hour_index start) * 3600 \<le> window_ceiling operation)
      | _ \<Rightarrow> False)"

fun int_value :: "json \<Rightarrow> int option" where
  "int_value (JInt n) = Some n" | "int_value _ = None"

definition granularity_of :: "string \<Rightarrow> string" where
  "granularity_of operation =
     (if operation = ''electricity_retail_sales'' then ''month''
      else if operation = ''electricity_rto_region_data'' then ''hour'' else ''day'')"

definition granularity_minimum :: "string \<Rightarrow> int" where
  "granularity_minimum g = (if g = ''month'' then 31 * 86400 else if g = ''day'' then 86400 else 3600)"

definition rolling_months_ok :: "dict \<Rightarrow> bool" where
  "rolling_months_ok config =
     (case (int_value (dget config ''lookback_months''), int_value (dget config ''overlap_months''),
            int_value (dget config ''ingestion_lag_months'')) of
        (Some lookback, Some overlap, Some lag) \<Rightarrow>
          1 \<le> lookback \<and> lookback \<le> 12 \<and> 0 \<le> overlap \<and> overlap < lookback \<and> 0 \<le> lag \<and> lag \<le> 12
          \<and> dget config ''granularity'' = JStr ''month''
      | _ \<Rightarrow> False)"

definition rolling_seconds_ok :: "string \<Rightarrow> dict \<Rightarrow> bool" where
  "rolling_seconds_ok operation config =
     (case (int_value (dget config ''lookback_seconds''), int_value (dget config ''overlap_seconds''),
            int_value (dget config ''ingestion_lag_seconds'')) of
        (Some lookback, Some overlap, Some lag) \<Rightarrow>
          granularity_minimum (granularity_of operation) \<le> lookback \<and> lookback \<le> window_ceiling operation
          \<and> 0 \<le> overlap \<and> overlap < lookback \<and> 0 \<le> lag \<and> lag \<le> window_ceiling operation
          \<and> dget config ''granularity'' = JStr (granularity_of operation)
      | _ \<Rightarrow> False)"

definition validate_window :: "string \<Rightarrow> dict \<Rightarrow> unit res" where
  "validate_window operation config =
     (if dget config ''window_mode'' = JStr ''fixed_window'' then
        if has_any config rolling_keys then window_invalid
        else if fixed_window_ok operation (dget config ''start'') (dget config ''end'') then Inr ()
        else window_invalid
      else if dget config ''window_mode'' = JStr ''rolling_window'' then
        if has_any config [''start'', ''end''] then window_invalid
        else if monthly operation then
          if has_any config [''lookback_seconds'', ''overlap_seconds'', ''ingestion_lag_seconds'']
          then window_invalid
          else if rolling_months_ok config then Inr () else window_invalid
        else if has_any config [''lookback_months'', ''overlap_months'', ''ingestion_lag_months'']
        then window_invalid
        else if rolling_seconds_ok operation config then Inr () else window_invalid
      else Inl (ValueError ''breadth_window_mode_required''))"

subsection \<open>Resolution\<close>

abbreviation us_hour :: int where "us_hour \<equiv> 3600000000"
abbreviation us_day :: int where "us_day \<equiv> 86400000000"

definition day_of :: "time \<Rightarrow> nat" where
  "day_of t = nat (t div us_day + 719162)"

definition hour_of :: "time \<Rightarrow> nat" where
  "hour_of t = nat (t mod us_day div us_hour)"

definition floor_hour :: "time \<Rightarrow> time" where "floor_hour t = t - t mod us_hour"
definition floor_day :: "time \<Rightarrow> time" where "floor_day t = t - t mod us_day"

text \<open>\<open>{year:04d}\<close> and the month text.\<close>

definition year4 :: "int \<Rightarrow> string" where
  "year4 y = (if 0 \<le> y then (if y < 10000 then dec 4 (nat y) else str_int y)
              else (if - y < 1000 then CHR ''-'' # dec 3 (nat (- y)) else str_int y))"

definition month_text :: "int \<Rightarrow> string" where
  "month_text v = year4 (v div 12) @ ''-'' @ dec 2 (nat (v mod 12 + 1)) @ ''-01''"

definition year_month :: "time \<Rightarrow> int" where
  "year_month t = (case ymd_of_day (day_of t) of (y, m, d) \<Rightarrow> int y * 12 + int m)"

definition month_bounds :: "int \<Rightarrow> int \<Rightarrow> int \<Rightarrow> time \<Rightarrow> time option \<Rightarrow> int \<times> int" where
  "month_bounds lookback overlap lag now watermark =
     (let end_month = year_month now - 2 - lag;
          start_month = end_month - lookback + 1
      in (case watermark of
            None \<Rightarrow> start_month
          | Some w \<Rightarrow> max start_month (min (year_month w - 1 - overlap) end_month), end_month))"

text \<open>Subtraction of a \<open>timedelta\<close> raises when the result is not a \<open>datetime\<close>.\<close>

definition minus_seconds :: "time \<Rightarrow> int \<Rightarrow> time res" where
  "minus_seconds t s =
     (if in_datetime_range (t - s * 1000000) then Inr (t - s * 1000000)
      else Inl (OverflowError ''date value out of range''))"

definition time_bounds ::
  "string \<Rightarrow> int \<Rightarrow> int \<Rightarrow> int \<Rightarrow> time \<Rightarrow> time option \<Rightarrow> (time \<times> time) res" where
  "time_bounds granularity lookback overlap lag now watermark =
     bindR (minus_seconds now lag) (\<lambda>e0.
       let e = (if granularity \<in> {''day'', ''month''} then floor_day e0 else floor_hour e0) in
       bindR (minus_seconds e lookback) (\<lambda>s0.
       bindR (case watermark of
                None \<Rightarrow> Inr s0
              | Some w \<Rightarrow>
                  bindR (minus_seconds w overlap) (\<lambda>w1.
                  bindR (minus_seconds e 3600) (\<lambda>e1. Inr (max s0 (min w1 e1))))) (\<lambda>s1.
       Inr (if granularity = ''day'' then floor_day s1 else floor_hour s1, e))))"

definition strftime_date :: "time \<Rightarrow> string" where
  "strftime_date t =
     (case ymd_of_day (day_of t) of (y, m, d) \<Rightarrow> str_nat y @ ''-'' @ dec 2 m @ ''-'' @ dec 2 d)"

definition window_format :: "string \<Rightarrow> time \<Rightarrow> string" where
  "window_format granularity t =
     (if granularity = ''hour'' then strftime_date t @ ''T'' @ dec 2 (hour_of t) else strftime_date t)"

definition window_of :: "json \<Rightarrow> json \<Rightarrow> dict" where
  "window_of s e = [(''start'', s), (''end'', e)]"

definition cfg_int :: "dict \<Rightarrow> string \<Rightarrow> int" where
  "cfg_int config k = (case int_value (dget config k) of None \<Rightarrow> 0 | Some n \<Rightarrow> n)"

definition cfg_str :: "dict \<Rightarrow> string \<Rightarrow> string" where
  "cfg_str config k = (case dget config k of JStr s \<Rightarrow> s | _ \<Rightarrow> [])"

definition resolve_window :: "string \<Rightarrow> dict \<Rightarrow> time \<Rightarrow> time option \<Rightarrow> dict res" where
  "resolve_window operation config now watermark =
     bindR (validate_window operation config) (\<lambda>_.
       if dget config ''window_mode'' = JStr ''fixed_window''
       then Inr (window_of (dget config ''start'') (dget config ''end''))
       else if operation = ''electricity_retail_sales'' then
         let (s, e) = month_bounds (cfg_int config ''lookback_months'') (cfg_int config ''overlap_months'')
                        (cfg_int config ''ingestion_lag_months'') now watermark
         in Inr (window_of (JStr (month_text s)) (JStr (month_text e)))
       else
         bindR (time_bounds (cfg_str config ''granularity'') (cfg_int config ''lookback_seconds'')
                  (cfg_int config ''overlap_seconds'') (cfg_int config ''ingestion_lag_seconds'') now watermark)
           (\<lambda>(s, e). Inr (window_of (JStr (window_format (cfg_str config ''granularity'') s))
                                    (JStr (window_format (cfg_str config ''granularity'') e)))))"

definition resolved_config :: "dict \<Rightarrow> dict \<Rightarrow> dict" where
  "resolved_config config window =
     dputs ((''window_mode'', JStr ''fixed_window'') # window)
       (filter (\<lambda>(k, v). k \<notin> set rolling_keys) config)"

subsection \<open>Texts of instants\<close>

lemma dec_str_nat: "10 ^ w \<le> n \<Longrightarrow> n < 10 ^ Suc w \<Longrightarrow> dec (Suc w) n = str_nat n"
proof (induction w arbitrary: n)
  case 0
  then show ?case by (simp add: str_nat.simps)
next
  case (Suc w)
  then have "10 ^ w \<le> n div 10" "n div 10 < 10 ^ Suc w"
    using div_le_mono [of "10 ^ Suc w" n 10] by (simp_all add: less_mult_imp_div_less mult.commute)
  moreover have "\<not> n < 10" using Suc.prems by (auto simp: not_less intro: order_trans [rotated])
  ultimately show ?case
    using Suc.IH [of "n div 10"] by (simp add: str_nat.simps [of n] del: dec.simps) (simp only: dec.simps)
qed

lemma day_of_bound: "in_datetime_range t \<Longrightarrow> day_of t < 3652059"
  unfolding in_datetime_range_def day_of_def by linarith

lemma ymd_bounds:
  assumes "in_datetime_range t" and "ymd_of_day (day_of t) = (y, m, d)"
  shows "valid_ymd (y, m, d)"
proof -
  note spec = ymd_of_day_spec [OF assms(2)]
  have "y \<le> 9999"
  proof (rule ccontr)
    assume "\<not> y \<le> 9999"
    then have "days_before_year 10000 \<le> days_before_year y" by (intro days_before_year_mono) simp_all
    moreover have "days_before_year 10000 = 3652059" by (simp add: days_before_year_def)
    ultimately show False using spec day_of_bound [OF assms(1)] by (simp add: day_number_def)
  qed
  with spec show ?thesis by (simp add: valid_ymd_def)
qed

text \<open>Instants from 1000 on have a year of four digits; 364877 is the number of 1000-01-01.\<close>

lemma ymd_year1000:
  assumes "364877 \<le> day_of t" and "ymd_of_day (day_of t) = (y, m, d)"
  shows "1000 \<le> y"
proof (rule ccontr)
  assume "\<not> 1000 \<le> y"
  note spec = ymd_of_day_spec [OF assms(2)]
  have "day_number (y, m, d) < days_before_year (Suc y)"
    using day_of_year_less [of m d y] spec days_before_year_Suc [of y] unfolding day_number_def case_prod_conv
    by linarith
  also have "\<dots> \<le> days_before_year 1000" using \<open>\<not> 1000 \<le> y\<close> by (intro days_before_year_mono) simp_all
  finally show False using assms(1) spec by (simp add: days_before_year_def)
qed

definition modern :: "time \<Rightarrow> bool" where
  "modern t \<longleftrightarrow> in_datetime_range t \<and> 364877 \<le> day_of t"

lemma strftime_modern: "modern t \<Longrightarrow> strftime_date t = date_text (ymd_of_day (day_of t))"
proof -
  assume t: "modern t"
  obtain y m d where eq: "ymd_of_day (day_of t) = (y, m, d)" by (metis prod_cases3)
  have "1000 \<le> y" "y < 10000"
    using ymd_year1000 [OF _ eq] ymd_bounds [OF _ eq] t by (auto simp: modern_def valid_ymd_def)
  moreover have four: "(4 :: nat) = Suc 3" by simp
  ultimately have "dec 4 y = str_nat y" unfolding four by (intro dec_str_nat) simp_all
  then show ?thesis by (simp add: strftime_date_def date_text_def eq)
qed

lemma valid_modern: "modern t \<Longrightarrow> valid_ymd (ymd_of_day (day_of t))"
  using ymd_bounds by (metis modern_def prod_cases3)

lemma match_pat_length: "match_pat ps s \<Longrightarrow> length s = length ps"
  unfolding match_pat_def by (simp add: list_all2_lengthD)

lemma length_date_text [simp]: "length (date_text a) = 10"
  by (cases a) (simp add: date_text_def)

lemma length_date_pattern [simp]: "length date_pattern = 10"
  by (simp add: date_pattern_def)

lemma match_date_text' [simp]: "match_pat date_pattern (date_text a)"
  by (cases a) simp

lemma window_time_date: "valid_ymd a \<Longrightarrow> window_time (date_text a) = Some (a, 0)"
  by (simp add: window_time_def parse_date_text)

lemma window_time_hour:
  assumes "valid_ymd a" and "h < 24"
  shows "window_time (date_text a @ ''T'' @ dec 2 h) = Some (a, h)"
proof -
  have no: "\<not> match_pat date_pattern (date_text a @ ''T'' @ dec 2 h)"
    using match_pat_length [of date_pattern "date_text a @ ''T'' @ dec 2 h"] by auto
  have m: "match_pat hour_pattern (date_text a @ ''T'' @ dec 2 h)"
    unfolding hour_pattern_def by (simp only: match_pat_append length_date_text length_date_pattern length_map list.size match_date_text' match_lit match_dec)
  have "read_digits 0 (dec 2 h) = h" using assms(2) by (intro read_dec) simp
  with no m assms show ?thesis by (simp add: window_time_def parse_date_text)
qed

lemma day_number_of: "in_datetime_range t \<Longrightarrow> int (day_number (ymd_of_day (day_of t))) = t div us_day + 719162"
proof -
  assume "in_datetime_range t"
  then have "0 \<le> t div us_day + 719162" unfolding in_datetime_range_def by linarith
  then show ?thesis by (simp add: day_of_def)
qed

lemma hour_of_less: "hour_of t < 24"
  unfolding hour_of_def using pos_mod_bound [of us_day t] by (simp add: nat_less_iff)

lemma hour_index_hour:
  "in_datetime_range t \<Longrightarrow> hour_index (ymd_of_day (day_of t), hour_of t) = t div us_hour + 17259888"
proof -
  assume t: "in_datetime_range t"
  have "t = us_day * (t div us_day) + t mod us_day" by simp
  then have "t div us_hour = (us_hour * (24 * (t div us_day)) + t mod us_day) div us_hour" by simp
  also have "\<dots> = 24 * (t div us_day) + t mod us_day div us_hour" by (subst div_mult_self4) simp_all
  finally have "t div us_hour = 24 * (t div us_day) + t mod us_day div us_hour" .
  moreover have "0 \<le> t mod us_day div us_hour" by (simp add: pos_imp_zdiv_nonneg_iff)
  ultimately show ?thesis using day_number_of [OF t] by (simp add: hour_index_def hour_of_def)
qed

lemma floor_multiple:
  "floor_hour t mod us_hour = 0" "floor_day t mod us_day = 0" "floor_day t mod us_hour = 0"
  "floor_hour t \<le> t" "floor_day t \<le> t" "t < floor_hour t + us_hour" "t < floor_day t + us_day"
proof -
  have "floor_day t mod us_day = 0" unfolding floor_day_def by (simp add: mod_eq_0_iff_dvd)
  then show "floor_day t mod us_day = 0" "floor_day t mod us_hour = 0"
    by (auto simp: mod_eq_0_iff_dvd intro: dvd_trans [of us_hour us_day])
qed (simp_all add: floor_hour_def floor_day_def mod_eq_0_iff_dvd)

subsection \<open>Bounds of a resolved window\<close>

lemma floor_unit_ge:
  fixes a t u :: int
  assumes "0 < u" and "a mod u = 0" and "a \<le> t"
  shows "a \<le> t - t mod u"
proof -
  have "u * (a div u) \<le> u * (t div u)" using assms by (simp add: zdiv_mono1)
  moreover have "u * (a div u) = a" using assms(2) mult_div_mod_eq [of u a] by simp
  moreover have "u * (t div u) = t - t mod u" by (simp add: minus_mod_eq_mult_div)
  ultimately show ?thesis by simp
qed

lemma minus_seconds_Inr:
  "minus_seconds t s = Inr r \<longleftrightarrow> r = t - s * 1000000 \<and> in_datetime_range r"
  by (auto simp: minus_seconds_def)

lemma modern_intro: "in_datetime_range t \<Longrightarrow> -354285 * us_day \<le> t \<Longrightarrow> modern t"
  unfolding modern_def day_of_def by linarith

text \<open>The raw bounds, before truncation, and what truncation to a unit that divides the ceiling keeps.\<close>

definition unit_of :: "string \<Rightarrow> int" where
  "unit_of g = (if g = ''day'' then us_day else us_hour)"

lemma time_bounds_raw:
  assumes "g \<in> {''day'', ''hour''}" and "time_bounds g lookback overlap lag now wm = Inr (s, e)"
  obtains e0 s1 where "e0 = now - lag * 1000000" and "e = e0 - e0 mod unit_of g" and "s = s1 - s1 mod unit_of g"
    and "e - lookback * 1000000 \<le> s1" and "s1 \<le> max (e - lookback * 1000000) (e - us_hour)"
    and "\<And>w. wm = Some w \<Longrightarrow> s1 \<le> max (e - lookback * 1000000) (w - overlap * 1000000)"
    and "wm = None \<Longrightarrow> s1 = e - lookback * 1000000"
    and "in_datetime_range s1" and "in_datetime_range e0"
proof -
  have fl: "(if g = ''day'' then floor_day t else floor_hour t) = t - t mod unit_of g" for t
    by (simp add: unit_of_def floor_day_def floor_hour_def)
  have g: "g \<in> {''day'', ''month''} \<longleftrightarrow> g = ''day''" using assms(1) by auto
  show ?thesis
  proof (cases wm)
    case None
    with assms(2) show ?thesis
      by (intro that [of "now - lag * 1000000" "e - lookback * 1000000"])
        (auto simp: time_bounds_def fl g Let_def bindR_Inr_iff minus_seconds_Inr simp del: insert_iff)
  next
    case (Some w)
    with assms(2) show ?thesis
      by (intro that [of "now - lag * 1000000" "max (e - lookback * 1000000) (min (w - overlap * 1000000) (e - us_hour))"])
        (auto simp: time_bounds_def fl g Let_def bindR_Inr_iff minus_seconds_Inr max_def min_def simp del: insert_iff)
  qed
qed

lemma time_bounds_ok:
  assumes g: "g \<in> {''day'', ''hour''}" and r: "time_bounds g lookback overlap lag now wm = Inr (s, e)"
    and b: "0 < lookback" "lookback \<le> c * 86400" "0 \<le> lag" "lag \<le> c * 86400" "c \<le> 31" and now: "0 \<le> now"
  shows "s < e \<and> e - s \<le> c * us_day \<and> s mod unit_of g = 0 \<and> e mod unit_of g = 0 \<and> modern s \<and> modern e
    \<and> e \<le> now - lag * 1000000"
proof -
  obtain e0 s1 where e0: "e0 = now - lag * 1000000" and e: "e = e0 - e0 mod unit_of g"
    and s: "s = s1 - s1 mod unit_of g" and lo: "e - lookback * 1000000 \<le> s1"
    and hi: "s1 \<le> max (e - lookback * 1000000) (e - us_hour)"
    and range: "in_datetime_range s1" "in_datetime_range e0"
    using time_bounds_raw [OF g r] by metis
  have u: "0 < unit_of g" "unit_of g \<le> us_day" "us_day mod unit_of g = 0" by (simp_all add: unit_of_def)
  have em: "e mod unit_of g = 0" and sm: "s mod unit_of g = 0" unfolding e s by (simp_all add: mod_eq_0_iff_dvd)
  have fl: "0 \<le> t mod unit_of g" "t mod unit_of g < unit_of g" for t using u(1) by simp_all
  have "c * us_day mod unit_of g = 0" using u(3) by (metis mod_mult_right_eq mult_zero_right mod_0)
  then have "(e - c * us_day) mod unit_of g = 0" using em by (metis mod_diff_eq diff_zero mod_0)
  then have width: "e - c * us_day \<le> s"
    unfolding s using u(1) lo b(2) by (intro floor_unit_ge) simp_all
  have se: "s < e" using hi b(1) fl [of s1] unfolding s by (simp add: max_def split: if_splits)
  have ege: "- 32 * us_day \<le> e" using fl(2) [of e0] u(2) now b(4,5) e0 unfolding e by simp
  have sge: "- 63 * us_day \<le> s" using width ege b(5) by simp
  have ele: "e \<le> e0" using fl(1) [of e0] unfolding e by simp
  have "modern e" "modern s"
    using ege sge ele se range(2) by (auto intro!: modern_intro simp: in_datetime_range_def)
  with se width em sm ele e0 show ?thesis by simp
qed

lemma hour_index_text:
  assumes "g \<in> {''day'', ''hour''}" and "t mod unit_of g = 0" and "modern t"
  shows "\<exists>b. window_time (window_format g t) = Some b \<and> hour_index b = t div us_hour + 17259888"
proof -
  have r: "in_datetime_range t" using assms(3) by (simp add: modern_def)
  note v = valid_modern [OF assms(3)] strftime_modern [OF assms(3)]
  show ?thesis
  proof (cases "g = ''day''")
    case True
    then have "hour_of t = 0" using assms(2) by (simp add: unit_of_def hour_of_def)
    with True v hour_index_hour [OF r] show ?thesis
      by (simp add: window_format_def window_time_date)
  next
    case False
    then have "g = ''hour''" using assms(1) by simp
    with v hour_index_hour [OF r] window_time_hour [OF v(1) hour_of_less] show ?thesis
      by (simp add: window_format_def)
  qed
qed

subsection \<open>Monthly windows\<close>

lemma dec_one: "dec 2 (Suc 0) = ''01''"
  by code_simp

lemma month_text_date:
  assumes "0 \<le> v" and "v div 12 < 10000"
  shows "month_text v = date_text (nat (v div 12), nat (v mod 12 + 1), 1)"
  using assms by (simp add: month_text_def year4_def date_text_def dec_one pos_imp_zdiv_nonneg_iff)

lemma bound_time_month:
  assumes "12 \<le> v" and "v div 12 < 10000"
  shows "\<exists>b. bound_time ''electricity_retail_sales'' (JStr (month_text v)) = Some b \<and> month_index b = v + 1"
proof -
  define y m where "y = nat (v div 12)" and "m = nat (v mod 12 + 1)"
  have m: "1 \<le> m" "m \<le> 12" unfolding m_def using pos_mod_bound [of 12 v] pos_mod_sign [of 12 v] by linarith+
  have y: "1 \<le> y" "y < 10000" using assms unfolding y_def by linarith+
  have shape: "month_text v = dec 4 y @ ''-'' @ dec 2 m @ ''-01''" "month_text v = date_text (y, m, 1)"
    using assms month_text_date [of v] by (simp_all add: y_def m_def date_text_def dec_one)
  have "read_digits 0 (dec 2 m) = m" using m by (intro read_dec) simp
  moreover have "match_pat (digits 4 @ lit ''-'' @ digits 2 @ lit ''-01'') (dec 4 y @ ''-'' @ dec 2 m @ ''-01'')"
    by (simp only: match_pat_append length_dec length_replicate length_map list.size match_dec match_lit)
  ultimately have "month_start_pattern (month_text v)" using m unfolding month_start_pattern_def shape(1) by simp
  moreover have "valid_ymd (y, m, 1)" using m y by (simp add: valid_ymd_def days_in_month_def)
  then have "window_time (month_text v) = Some ((y, m, 1), 0)" unfolding shape(2) by (rule window_time_date)
  moreover have "month_index ((y, m, 1), 0) = v + 1"
    using assms(1) by (simp add: month_index_def y_def m_def pos_imp_zdiv_nonneg_iff)
  ultimately show ?thesis by (simp add: bound_time_def monthly_def)
qed

lemma year_month_bounds:
  assumes "0 \<le> now" and "in_datetime_range now"
  shows "12001 \<le> year_month now \<and> year_month now \<le> 120000"
proof -
  obtain y m d where eq: "ymd_of_day (day_of now) = (y, m, d)" by (metis prod_cases3)
  have "364877 \<le> day_of now" using assms(1) unfolding day_of_def by linarith
  from ymd_year1000 [OF this eq] ymd_bounds [OF assms(2) eq] show ?thesis
    by (auto simp: year_month_def eq valid_ymd_def)
qed

lemma month_bounds_ok:
  assumes "month_bounds lookback overlap lag now wm = (s, e)" and "1 \<le> lookback" "lookback \<le> 12" "0 \<le> lag" "lag \<le> 12"
    and "0 \<le> now" "in_datetime_range now"
  shows "s \<le> e \<and> e - s \<le> 11 \<and> 12 \<le> s \<and> e div 12 < 10000"
proof -
  have e: "e = year_month now - 2 - lag" and s: "e - lookback + 1 \<le> s" "s \<le> e"
    using assms(1,2) by (auto simp: month_bounds_def Let_def split: option.splits)
  with year_month_bounds [OF assms(6,7)] assms(3-5) show ?thesis by linarith
qed

subsection \<open>The pinned configuration\<close>

lemma map_of_filter_keys: "map_of (filter (\<lambda>(k, v). k \<notin> K) c) k = (if k \<in> K then None else map_of c k)"
  by (induction c) auto

lemma resolved_config_map:
  "map_of (resolved_config config (window_of s e)) k =
     (if k = ''window_mode'' then Some (JStr ''fixed_window'') else if k = ''start'' then Some s
      else if k = ''end'' then Some e else if k \<in> set rolling_keys then None else map_of config k)"
  unfolding resolved_config_def window_of_def
  by (subst map_of_dputs) (simp_all add: map_of_filter_keys)

lemma validate_resolved:
  "validate_window operation (resolved_config config (window_of s e)) =
     (if fixed_window_ok operation s e then Inr () else window_invalid)"
proof -
  let ?c = "resolved_config config (window_of s e)"
  have "\<not> has_any ?c rolling_keys"
    by (auto simp: has_any_def list_ex_iff has_key_def resolved_config_map)
       (auto simp: rolling_keys_def)
  then show ?thesis by (simp add: validate_window_def dget_def resolved_config_map)
qed

lemma rolling_seconds_cases:
  assumes "rolling_seconds_ok operation config" and "\<not> monthly operation"
  shows "granularity_of operation \<in> {''day'', ''hour''} \<and> cfg_str config ''granularity'' = granularity_of operation
    \<and> 0 < cfg_int config ''lookback_seconds'' \<and> 0 \<le> cfg_int config ''ingestion_lag_seconds''
    \<and> cfg_int config ''lookback_seconds'' \<le> window_ceiling operation
    \<and> cfg_int config ''ingestion_lag_seconds'' \<le> window_ceiling operation"
  using assms
  by (auto simp: rolling_seconds_ok_def cfg_int_def cfg_str_def granularity_of_def granularity_minimum_def
      monthly_def split: option.splits if_splits)

lemma ceiling_days: "\<not> monthly operation \<Longrightarrow> \<exists>c. window_ceiling operation = c * 86400 \<and> 0 \<le> c \<and> c \<le> 31"
  by (auto simp: window_ceiling_def)

lemma fixed_window_ok_texts:
  assumes "\<not> monthly operation" and "g \<in> {''day'', ''hour''}" and "s < e" and "e - s \<le> c * us_day"
    and "s mod unit_of g = 0" "e mod unit_of g = 0" "modern s" "modern e" and "window_ceiling operation = c * 86400"
  shows "fixed_window_ok operation (JStr (window_format g s)) (JStr (window_format g e))"
proof -
  have u: "us_hour dvd unit_of g" by (simp add: unit_of_def)
  then have "us_hour dvd s" "us_hour dvd e"
    using assms(5,6) by (auto simp: mod_eq_0_iff_dvd intro: dvd_trans)
  then have eq: "us_hour * (s div us_hour) = s" "us_hour * (e div us_hour) = e" by simp_all
  obtain bs be where b: "window_time (window_format g s) = Some bs" "hour_index bs = s div us_hour + 17259888"
    "window_time (window_format g e) = Some be" "hour_index be = e div us_hour + 17259888"
    using hour_index_text [OF assms(2,5,7)] hour_index_text [OF assms(2,6,8)] by blast
  have hours: "0 < (y - x) * 3600 \<and> (y - x) * 3600 \<le> c * 86400" if "us_hour * x = s" "us_hour * y = e" for x y :: int
  proof -
    have "us_hour * x < us_hour * y" using assms(3) that by simp
    then have "x < y" by simp
    have "us_hour * (y - x) \<le> us_hour * (24 * c)" using assms(4) that by (simp add: algebra_simps)
    then have "y - x \<le> 24 * c" by simp
    with \<open>x < y\<close> show ?thesis by simp
  qed
  from hours [OF eq] b assms(1,9) show ?thesis by (simp add: fixed_window_ok_def bound_time_def)
qed

lemma resolve_rolling_cases:
  assumes "resolve_window operation config now wm = Inr window" and "dget config ''window_mode'' \<noteq> JStr ''fixed_window''"
  shows "(monthly operation \<and> rolling_months_ok config \<and>
            (\<exists>s e. month_bounds (cfg_int config ''lookback_months'') (cfg_int config ''overlap_months'')
                     (cfg_int config ''ingestion_lag_months'') now wm = (s, e)
                   \<and> window = window_of (JStr (month_text s)) (JStr (month_text e))))
       \<or> (\<not> monthly operation \<and> rolling_seconds_ok operation config \<and>
            (\<exists>s e. time_bounds (granularity_of operation) (cfg_int config ''lookback_seconds'')
                     (cfg_int config ''overlap_seconds'') (cfg_int config ''ingestion_lag_seconds'') now wm = Inr (s, e)
                   \<and> window = window_of (JStr (window_format (granularity_of operation) s))
                                        (JStr (window_format (granularity_of operation) e))))"
  using assms rolling_seconds_cases [of operation config]
  by (auto simp: resolve_window_def bindR_Inr_iff validate_window_def monthly_def split: if_splits prod.splits)

lemma monthly_resolution_ok:
  assumes m: "monthly operation" "rolling_months_ok config" and now: "0 \<le> now" "in_datetime_range now"
    and b: "month_bounds (cfg_int config ''lookback_months'') (cfg_int config ''overlap_months'')
              (cfg_int config ''ingestion_lag_months'') now wm = (s, e)"
  shows "fixed_window_ok operation (JStr (month_text s)) (JStr (month_text e))"
proof -
  have l: "1 \<le> cfg_int config ''lookback_months''" "cfg_int config ''lookback_months'' \<le> 12"
    "0 \<le> cfg_int config ''ingestion_lag_months''" "cfg_int config ''ingestion_lag_months'' \<le> 12"
    using m(2) by (auto simp: rolling_months_ok_def cfg_int_def split: option.splits)
  note ok = month_bounds_ok [OF b l now]
  then have "12 \<le> s" "s div 12 < 10000" "12 \<le> e" "e div 12 < 10000" by linarith+
  then obtain bs be where
    "bound_time ''electricity_retail_sales'' (JStr (month_text s)) = Some bs" "month_index bs = s + 1"
    "bound_time ''electricity_retail_sales'' (JStr (month_text e)) = Some be" "month_index be = e + 1"
    using bound_time_month by meson
  moreover have "operation = ''electricity_retail_sales''" using m(1) by (simp add: monthly_def)
  ultimately show ?thesis using ok m(1) by (simp add: fixed_window_ok_def)
qed

lemma seconds_bounds_ok:
  assumes m: "\<not> monthly operation" "rolling_seconds_ok operation config" and now: "0 \<le> now"
    and b: "time_bounds (granularity_of operation) (cfg_int config ''lookback_seconds'')
         (cfg_int config ''overlap_seconds'') (cfg_int config ''ingestion_lag_seconds'') now wm = Inr (s, e)"
  shows "\<exists>c. window_ceiling operation = c * 86400 \<and> s < e \<and> e - s \<le> c * us_day
      \<and> s mod unit_of (granularity_of operation) = 0 \<and> e mod unit_of (granularity_of operation) = 0
      \<and> modern s \<and> modern e \<and> e \<le> now - cfg_int config ''ingestion_lag_seconds'' * 1000000"
proof -
  obtain c where c: "window_ceiling operation = c * 86400" "c \<le> 31" using ceiling_days [OF m(1)] by blast
  note r = rolling_seconds_cases [OF m(2,1)]
  have "s < e \<and> e - s \<le> c * us_day \<and> s mod unit_of (granularity_of operation) = 0
      \<and> e mod unit_of (granularity_of operation) = 0 \<and> modern s \<and> modern e
      \<and> e \<le> now - cfg_int config ''ingestion_lag_seconds'' * 1000000"
    using r c now time_bounds_ok [OF _ b, of c] by simp
  with c show ?thesis by (intro exI [of _ c] conjI) simp_all
qed

lemma resolved_fixed_ok:
  assumes "resolve_window operation config now wm = Inr window" and now: "0 \<le> now" "in_datetime_range now"
  shows "\<exists>s e. window = window_of s e \<and> fixed_window_ok operation s e"
proof (cases "dget config ''window_mode'' = JStr ''fixed_window''")
  case True
  with assms(1) show ?thesis
    by (auto simp: resolve_window_def bindR_Inr_iff validate_window_def split: if_splits)
next
  case False
  from resolve_rolling_cases [OF assms(1) False] show ?thesis
  proof (elim disjE conjE exE)
    fix s e
    assume "\<not> monthly operation" "rolling_seconds_ok operation config"
      and "time_bounds (granularity_of operation) (cfg_int config ''lookback_seconds'')
           (cfg_int config ''overlap_seconds'') (cfg_int config ''ingestion_lag_seconds'') now wm = Inr (s, e)"
      and w: "window = window_of (JStr (window_format (granularity_of operation) s))
                                 (JStr (window_format (granularity_of operation) e))"
    with seconds_bounds_ok [OF this(1,2) now(1) this(3)] rolling_seconds_cases [OF this(2,1)]
    have "fixed_window_ok operation (JStr (window_format (granularity_of operation) s))
            (JStr (window_format (granularity_of operation) e))"
      by (elim exE conjE) (rule fixed_window_ok_texts)
    with w show ?thesis by blast
  qed (use monthly_resolution_ok [OF _ _ now] in blast)
qed

subsection \<open>Properties\<close>

text \<open>A window resolved at the start of a run is itself a valid fixed window of the
  same operation: the configuration the run is pinned to passes validation again, so a run that is
  resumed from its stored configuration resolves to the same window.  The clock is a \<open>datetime\<close> from
  1970 on.\<close>

theorem resolved_window_revalidates:
  assumes "resolve_window operation config now watermark = Inr window" and "0 \<le> now" and "in_datetime_range now"
  shows "validate_window operation (resolved_config config window) = Inr ()
    \<and> resolve_window operation (resolved_config config window) now' watermark' = Inr window"
proof -
  obtain s e where w: "window = window_of s e" and ok: "fixed_window_ok operation s e"
    using resolved_fixed_ok [OF assms] by blast
  have v: "validate_window operation (resolved_config config window) = Inr ()" by (simp add: w ok validate_resolved)
  then show ?thesis
    by (simp add: resolve_window_def) (simp add: w dget_def resolved_config_map)
qed

text \<open>Property C20.  A rolling window of seconds leaves no gap and never reads the future: it ends at
  least the ingestion lag before the clock, is not empty, starts at the latest at the watermark less
  the overlap (or where the lookback begins, if that is later), and is no longer than the ceiling of
  the operation.\<close>

theorem rolling_window_has_no_gap:
  assumes "rolling_seconds_ok operation config" and "\<not> monthly operation" and "0 \<le> now"
    and "time_bounds (granularity_of operation) (cfg_int config ''lookback_seconds'')
           (cfg_int config ''overlap_seconds'') (cfg_int config ''ingestion_lag_seconds'') now (Some watermark) = Inr (s, e)"
  shows "e \<le> now - cfg_int config ''ingestion_lag_seconds'' * 1000000 \<and> s < e
    \<and> s \<le> max (e - cfg_int config ''lookback_seconds'' * 1000000)
              (watermark - cfg_int config ''overlap_seconds'' * 1000000)
    \<and> e - s \<le> window_ceiling operation * 1000000"
proof -
  note r = rolling_seconds_cases [OF assms(1,2)]
  obtain c where c: "window_ceiling operation = c * 86400" "s < e" "e - s \<le> c * us_day"
    "e \<le> now - cfg_int config ''ingestion_lag_seconds'' * 1000000"
    using seconds_bounds_ok [OF assms(2,1,3,4)] by blast
  obtain s1 where "s = s1 - s1 mod unit_of (granularity_of operation)"
    "s1 \<le> max (e - cfg_int config ''lookback_seconds'' * 1000000) (watermark - cfg_int config ''overlap_seconds'' * 1000000)"
    using r time_bounds_raw [OF _ assms(4)] by metis
  moreover have "0 \<le> s1 mod unit_of (granularity_of operation)" by (simp add: unit_of_def)
  ultimately have "s \<le> max (e - cfg_int config ''lookback_seconds'' * 1000000)
              (watermark - cfg_int config ''overlap_seconds'' * 1000000)"
    by linarith
  with c show ?thesis by simp
qed

subsection \<open>A concrete window\<close>

text \<open>A daily window of two days with an overlap of one hour, resolved on 1970-01-11 with a watermark at
  the start of 1970-01-10.\<close>

definition sample_window_config :: dict where
  "sample_window_config =
     [(''window_mode'', JStr ''rolling_window''), (''lookback_seconds'', JInt 172800),
      (''overlap_seconds'', JInt 3600), (''ingestion_lag_seconds'', JInt 0), (''granularity'', JStr ''day'')]"

definition sample_window :: dict where
  "sample_window = window_of (JStr ''1970-01-09'') (JStr ''1970-01-11'')"

lemma sample_window_cfg:
  "dget sample_window_config ''window_mode'' = JStr ''rolling_window''"
  "cfg_int sample_window_config ''lookback_seconds'' = 172800" "cfg_int sample_window_config ''overlap_seconds'' = 3600"
  "cfg_int sample_window_config ''ingestion_lag_seconds'' = 0" "cfg_str sample_window_config ''granularity'' = ''day''"
  "rolling_seconds_ok ''company_news'' sample_window_config"
  "validate_window ''company_news'' sample_window_config = Inr ()"
  "granularity_of ''company_news'' = ''day''"
  by (simp_all add: sample_window_config_def dget_def cfg_int_def cfg_str_def rolling_seconds_ok_def
      granularity_of_def granularity_minimum_def window_ceiling_def monthly_def validate_window_def has_any_def
      has_key_def)

lemma sample_time_bounds:
  "time_bounds ''day'' 172800 3600 0 (864000000000 + 5) (Some 777600000000) = Inr (691200000000, 864000000000)"
  by (simp add: time_bounds_def minus_seconds_def in_datetime_range_def floor_day_def)

lemma sample_days: "ymd_of_day 719170 = (1970, 1, 9)" "ymd_of_day 719172 = (1970, 1, 11)"
  by (simp_all add: ymd_of_day_def days_before_year_def days_in_year_def is_leap_def year_from.simps month_from.simps
      days_in_month_def)

lemma sample_digits: "str_nat 1970 = ''1970''" "dec 2 (Suc 0) = ''01''" "dec 2 9 = ''09''" "dec 2 11 = ''11''"
  by code_simp+

lemma sample_dates:
  "strftime_date 691200000000 = ''1970-01-09''" "strftime_date 864000000000 = ''1970-01-11''"
  by (simp_all add: strftime_date_def day_of_def sample_days sample_digits)

lemma sample_resolves:
  "resolve_window ''company_news'' sample_window_config (864000000000 + 5) (Some 777600000000) = Inr sample_window"
  by (simp add: resolve_window_def sample_window_cfg sample_time_bounds [simplified] window_format_def sample_dates sample_window_def)

theorem resolved_window_revalidates_witness:
  "validate_window ''company_news'' (resolved_config sample_window_config sample_window) = Inr ()
   \<and> resolve_window ''company_news'' (resolved_config sample_window_config sample_window) 0 None = Inr sample_window"
  by (rule resolved_window_revalidates [OF sample_resolves]) (simp_all add: in_datetime_range_def)

theorem rolling_window_has_no_gap_witness:
  "(691200000000 :: int) < 864000000000
   \<and> (691200000000 :: int) \<le> max (864000000000 - 172800 * 1000000) (777600000000 - 3600 * 1000000)
   \<and> (864000000000 :: int) - 691200000000 \<le> window_ceiling ''company_news'' * 1000000"
  using rolling_window_has_no_gap [of "''company_news''" sample_window_config "864000000000 + 5" 777600000000 691200000000 864000000000]
    sample_time_bounds
  by (simp add: sample_window_cfg monthly_def)

end
