(* ===== verification/Provider_Contracts.thy ===== *)
theory Provider_Contracts
  imports Samples
begin

text \<open>
  The data that collection components exchange: the raw item envelope of \<open>collection/contracts.py\<close>,
  and the fetch request, transport request and fetch result of \<open>providers/contracts.py\<close> with the
  checks their constructors make.
\<close>

record RawItemEnvelope =
  env_external_id :: "string option"
  env_fetched_at :: time
  env_http_status :: "int option"
  env_content_type :: "string option"
  env_payload_location :: "string option"
  env_payload_hash :: "string option"
  env_retention_class :: string

datatype ProviderAdapterErrorCode =
  CONFIG_INVALID | CONTRACT_INVALID | RATE_LIMITED | TIMEOUT | UPSTREAM_ERROR

record ProviderAdapterError =
  pae_code :: ProviderAdapterErrorCode
  pae_safe_message :: string
  pae_retryable :: bool
  pae_retry_after_seconds :: "rat option"

record ProviderFetchRequest =
  pfr_source_id :: uuid
  pfr_source_account_id :: "uuid option"
  pfr_cursor :: "string option"
  pfr_config :: dict
  pfr_limit :: int
  pfr_deadline_at :: time
  pfr_correlation_id :: string
  pfr_max_response_bytes :: int
  pfr_request_timeout_seconds :: rat
  pfr_continuation :: "dict option"
  pfr_target_id :: "uuid option"
  pfr_config_revision :: "int option"
  pfr_operation_config_version :: "int option"
  pfr_provider_contract_version :: "int option"
  pfr_cursor_version :: "int option"
  pfr_run_mode :: "string option"

definition new_fetch_request :: "ProviderFetchRequest \<Rightarrow> ProviderFetchRequest res" where
  "new_fetch_request r =
     (if \<not> (1024 \<le> pfr_max_response_bytes r \<and> pfr_max_response_bytes r \<le> 10000000)
      then Inl (ValueError ''provider_response_budget_invalid'')
      else if \<not> (1 \<le> pfr_request_timeout_seconds r \<and> pfr_request_timeout_seconds r \<le> 60)
      then Inl (ValueError ''provider_timeout_budget_invalid'')
      else Inr r)"

record ProviderTransportRequest =
  ptr_provider :: string
  ptr_operation :: string
  ptr_params :: "(string \<times> json) list"
  ptr_timeout_seconds :: pyfloat
  ptr_max_response_bytes :: int

text \<open>\<open>_SECRET_FIELD\<close>, and \<open>re.search\<close> of the secret words followed by an equals sign.\<close>

definition secret_field :: "string \<Rightarrow> bool" where
  "secret_field k = (lower k \<in> {''api_key'', ''api_token'', ''token'', ''authorization'',
     ''x-finnhub-token'', ''secret'', ''password''})"

definition secret_value_search :: "string \<Rightarrow> bool" where
  "secret_value_search s = list_ex (\<lambda>m. contains m (lower s))
     [''apikey='', ''api_key='', ''api-key='', ''apitoken='', ''api_token='', ''api-token='',
      ''authorization='', ''token='', ''secret='', ''password='']"

definition new_transport_request :: "pylib \<Rightarrow> ProviderTransportRequest \<Rightarrow> ProviderTransportRequest res" where
  "new_transport_request lib r =
     (if \<not> (1024 \<le> ptr_max_response_bytes r \<and> ptr_max_response_bytes r \<le> 10000000)
      then Inl (ValueError ''provider_response_budget_invalid'')
      else if list_ex (\<lambda>(k, v). secret_field k
                 \<or> secret_value_search (case v of JStr s \<Rightarrow> s | _ \<Rightarrow> py_str lib v)) (ptr_params r)
      then Inl (ValueError ''provider_transport_request_contains_secret'')
      else Inr r)"

record ProviderFetchResult =
  pres_raw_items :: "RawItemEnvelope list"
  pres_sanitized_metadata :: "dict list"
  pres_next_cursor :: "string option"
  pres_has_more :: bool
  pres_safe_errors :: "ProviderAdapterError list"
  pres_provider :: string
  pres_contract_version :: int
  pres_display_projections :: "dict list"
  pres_factual_projections :: "dict list"
  pres_continuation :: "dict option"
  pres_rejected_row_hashes :: "string list"
  pres_coverage_incomplete :: bool

definition new_fetch_result :: "ProviderFetchResult \<Rightarrow> ProviderFetchResult res" where
  "new_fetch_result r =
     (if length (pres_raw_items r) \<noteq> length (pres_sanitized_metadata r)
      then Inl (ValueError ''provider_result_metadata_count_mismatch'')
      else if pres_display_projections r \<noteq> []
              \<and> length (pres_raw_items r) \<noteq> length (pres_display_projections r)
      then Inl (ValueError ''provider_result_display_count_mismatch'')
      else if pres_factual_projections r \<noteq> []
              \<and> length (pres_raw_items r) \<noteq> length (pres_factual_projections r)
      then Inl (ValueError ''provider_result_factual_count_mismatch'')
      else Inr r)"

lemma new_fetch_request_bounds:
  "new_fetch_request r = Inr q \<longleftrightarrow>
     q = r \<and> 1024 \<le> pfr_max_response_bytes r \<and> pfr_max_response_bytes r \<le> 10000000
     \<and> 1 \<le> pfr_request_timeout_seconds r \<and> pfr_request_timeout_seconds r \<le> 60"
  by (auto simp: new_fetch_request_def)

end
