(* ===== verification/Operation_Config.thy ===== *)
theory Operation_Config
  imports Windows Provider_Contracts
begin

text \<open>
  What an operation may be configured with and who serves it: the versioned registry of
  \<open>collection/target_configs.py\<close>, the breadth configuration of \<open>providers/breadth_config.py\<close>, the static
  downstream policy of \<open>providers/operation_policy.py\<close>, the credential lookup of
  \<open>providers/credential_resolver.py\<close> and the adapter table of \<open>collection/adapter_factory.py\<close>.
  Validators are normalisers: a validated configuration validates to itself.
\<close>

abbreviation config_error :: "string \<Rightarrow> 'a res" where
  "config_error m \<equiv> Inl (TargetConfigError m)"

abbreviation value_error :: "string \<Rightarrow> 'a res" where
  "value_error m \<equiv> Inl (ValueError m)"

subsection \<open>Unsafe configuration values\<close>

definition url_search :: "string \<Rightarrow> bool" where
  "url_search s = (contains ''http://'' (lower s) \<or> contains ''https://'' (lower s))"

definition unsafe_config_key :: "string \<Rightarrow> bool" where
  "unsafe_config_key k =
     (secret_search k \<or> lower k \<in> {''url'', ''endpoint'', ''class'', ''module'', ''import''})"

fun unsafe_config :: "json \<Rightarrow> bool"
  and unsafe_config_list :: "json list \<Rightarrow> bool"
  and unsafe_config_dict :: "dict \<Rightarrow> bool" where
  "unsafe_config (JObj d) = unsafe_config_dict d"
| "unsafe_config (JList xs) = unsafe_config_list xs"
| "unsafe_config (JStr s) = (secret_search s \<or> url_search s)"
| "unsafe_config _ = False"
| "unsafe_config_list [] = False"
| "unsafe_config_list (x # xs) = (unsafe_config x \<or> unsafe_config_list xs)"
| "unsafe_config_dict [] = False"
| "unsafe_config_dict ((k, v) # d) = (unsafe_config_key k \<or> unsafe_config v \<or> unsafe_config_dict d)"

definition reject_unsafe_config :: "dict \<Rightarrow> unit res" where
  "reject_unsafe_config d = guardR (\<not> unsafe_config_dict d) (TargetConfigError ''operation_config_unsafe'')"

definition config_keys :: "dict \<Rightarrow> string set \<Rightarrow> unit res" where
  "config_keys config allowed =
     (if \<not> keys_of config \<subseteq> allowed then config_error ''operation_config_invalid''
      else reject_unsafe_config config)"

subsection \<open>The version 1 validators\<close>

definition opt_str :: "json \<Rightarrow> (string \<Rightarrow> bool) \<Rightarrow> bool" where
  "opt_str v p = (case v of JNull \<Rightarrow> True | JStr s \<Rightarrow> p s | _ \<Rightarrow> False)"

definition req_str :: "json \<Rightarrow> (string \<Rightarrow> bool) \<Rightarrow> bool" where
  "req_str v p = (case v of JStr s \<Rightarrow> p s | _ \<Rightarrow> False)"

definition len_between :: "nat \<Rightarrow> nat \<Rightarrow> 'a list \<Rightarrow> bool" where
  "len_between lo hi xs = (lo \<le> length xs \<and> length xs \<le> hi)"

definition language2 :: "string \<Rightarrow> bool" where
  "language2 = class_range is_lower 2 2"

definition cfg_marketaux :: "pylib \<Rightarrow> dict \<Rightarrow> dict res" where
  "cfg_marketaux lib config =
     bindR (config_keys config {''query'', ''language'', ''symbols''}) (\<lambda>_.
     bindR (guardR (req_str (dget config ''query'') (len_between 1 200)
                    \<and> opt_str (dget config ''language'') language2
                    \<and> (case dget config ''symbols'' of
                         JNull \<Rightarrow> True
                       | JList xs \<Rightarrow> len_between 1 10 xs \<and> list_all (\<lambda>v. req_str v (len_between 1 20)) xs
                       | _ \<Rightarrow> False))
                   (TargetConfigError ''operation_config_invalid'')) (\<lambda>_.
       Inr config))"

definition cfg_finnhub :: "pylib \<Rightarrow> dict \<Rightarrow> dict res" where
  "cfg_finnhub lib config =
     bindR (config_keys config {''symbol''}) (\<lambda>_.
     bindR (guardR (req_str (dget config ''symbol'')
                      (class_range (\<lambda>c. is_upper c \<or> is_digit c \<or> c \<in> set ''.:-'') 1 20))
                   (TargetConfigError ''operation_config_invalid'')) (\<lambda>_.
       Inr config))"

definition cfg_eia :: "pylib \<Rightarrow> dict \<Rightarrow> dict res" where
  "cfg_eia lib config =
     bindR (config_keys config {''dataset''}) (\<lambda>_.
     bindR (guardR (dget config ''dataset'' = JStr ''electricity'')
                   (TargetConfigError ''operation_config_invalid'')) (\<lambda>_.
       Inr [(''dataset'', JStr ''electricity'')]))"

text \<open>\<open>cik.zfill(10)\<close> of a text without sign.\<close>

definition zfill10 :: "string \<Rightarrow> string" where
  "zfill10 s = replicate (10 - length s) (CHR ''0'') @ s"

definition cfg_sec :: "pylib \<Rightarrow> dict \<Rightarrow> dict res" where
  "cfg_sec lib config =
     bindR (config_keys config {''ticker'', ''cik''}) (\<lambda>_.
     bindR (guardR (req_str (dget config ''ticker'')
                      (class_range (\<lambda>c. is_upper c \<or> is_digit c \<or> c \<in> set ''.-'') 1 12)
                    \<and> req_str (dget config ''cik'') (class_range is_digit 1 10))
                   (TargetConfigError ''operation_config_invalid'')) (\<lambda>_.
       Inr (dput ''cik'' (JStr (zfill10 (cfg_str config ''cik''))) config)))"

text \<open>A \<open>bool\<close> is an \<open>int\<close> for \<open>isinstance\<close>; an unhashable value in a set test raises.\<close>

fun int_like :: "json \<Rightarrow> int option" where
  "int_like (JInt n) = Some n"
| "int_like (JBool b) = Some (if b then 1 else 0)"
| "int_like _ = None"

fun unhashable :: "json \<Rightarrow> bool" where
  "unhashable (JList _) = True" | "unhashable (JObj _) = True" | "unhashable _ = False"

definition cfg_fake :: "pylib \<Rightarrow> dict \<Rightarrow> dict res" where
  "cfg_fake lib config =
     bindR (config_keys config {''behavior'', ''pages''}) (\<lambda>_.
       let behavior = dget_default config ''behavior'' (JStr ''empty'');
           pages = dget_default config ''pages'' (JInt 1)
       in
       if unhashable behavior then Inl (TypeError ''unhashable type'')
       else if behavior \<notin> set (map JStr [''empty'', ''items'', ''timeout'', ''error''])
       then config_error ''operation_config_invalid''
       else case int_like pages of
         None \<Rightarrow> config_error ''operation_config_invalid''
       | Some n \<Rightarrow> (if 1 \<le> n \<and> n \<le> 20 then Inr [(''behavior'', behavior), (''pages'', pages)]
                    else config_error ''operation_config_invalid''))"

subsection \<open>The breadth configuration\<close>

definition window_keys :: "string set" where
  "window_keys = insert ''window_mode'' (set rolling_keys)"

definition breadth_keys :: "string \<Rightarrow> string \<Rightarrow> string set option" where
  "breadth_keys provider operation = map_of
     [((''marketaux'', ''news_all''), {''query'', ''language'', ''symbols'', ''start'', ''end''}),
      ((''finnhub'', ''company_news''), {''symbol'', ''start'', ''end''}),
      ((''eia'', ''electricity_retail_sales''), {''geographies'', ''sectors'', ''frequency'', ''start'', ''end''}),
      ((''eia'', ''electricity_rto_region_data''), {''regions'', ''types'', ''frequency'', ''start'', ''end''}),
      ((''sec_edgar'', ''submissions_recent''),
        {''ticker'', ''cik'', ''forms'', ''start'', ''end'', ''max_history_files''})]
     (provider, operation)"

definition breadth_symbol :: "string \<Rightarrow> dict \<Rightarrow> unit res" where
  "breadth_symbol provider config =
     (if provider \<in> {''finnhub'', ''sec_edgar''}
      then guardR (req_str (dget config (if provider = ''finnhub'' then ''symbol'' else ''ticker'')) symbol_pattern)
             (ValueError ''breadth_symbol_invalid'')
      else Inr ())"

definition breadth_marketaux :: "pylib \<Rightarrow> string \<Rightarrow> dict \<Rightarrow> unit res" where
  "breadth_marketaux lib provider config =
     (if provider \<noteq> ''marketaux'' then Inr ()
      else if \<not> req_str (dget config ''query'') (len_between 1 200) then value_error ''breadth_query_invalid''
      else if dget config ''language'' \<noteq> JNull \<and> \<not> language2 (str_of lib (dget config ''language''))
      then value_error ''breadth_language_invalid''
      else case dget_default config ''symbols'' (JList []) of
        JList xs \<Rightarrow> guardR (length xs \<le> 10 \<and> list_all (\<lambda>v. req_str v symbol_pattern) xs)
                      (ValueError ''breadth_symbols_invalid'')
      | _ \<Rightarrow> value_error ''breadth_symbols_invalid'')"

definition facet_list :: "json \<Rightarrow> (char \<Rightarrow> bool) \<Rightarrow> bool" where
  "facet_list v p =
     (case v of JList xs \<Rightarrow> len_between 1 10 xs \<and> list_all (\<lambda>x. req_str x (class_range p 1 12)) xs | _ \<Rightarrow> False)"

definition breadth_retail :: "string \<Rightarrow> string \<Rightarrow> dict \<Rightarrow> unit res" where
  "breadth_retail provider operation config =
     (if \<not> (provider = ''eia'' \<and> operation = ''electricity_retail_sales'') then Inr ()
      else if dget config ''frequency'' \<noteq> JStr ''monthly'' then value_error ''breadth_frequency_invalid''
      else guardR (facet_list (dget config ''geographies'') (\<lambda>c. is_alnum c \<or> c = CHR ''-'')
                   \<and> facet_list (dget config ''sectors'') (\<lambda>c. is_alnum c \<or> c = CHR ''-''))
             (ValueError ''breadth_facet_invalid''))"

text \<open>\<open>not isinstance(v, list) or not v or set(v) - allowed\<close>.\<close>

definition allowed_list :: "json \<Rightarrow> string list \<Rightarrow> exn \<Rightarrow> unit res" where
  "allowed_list v allowed e =
     (case v of
        JList xs \<Rightarrow>
          (if xs = [] then Inl e
           else if list_ex unhashable xs then Inl (TypeError ''unhashable type'')
           else guardR (set xs \<subseteq> set (map JStr allowed)) e)
      | _ \<Rightarrow> Inl e)"

definition breadth_rto :: "string \<Rightarrow> string \<Rightarrow> dict \<Rightarrow> unit res" where
  "breadth_rto provider operation config =
     (if \<not> (provider = ''eia'' \<and> operation = ''electricity_rto_region_data'') then Inr ()
      else if dget config ''frequency'' \<noteq> JStr ''hourly''
              \<or> \<not> facet_list (dget config ''regions'') (\<lambda>c. is_upper c \<or> is_digit c \<or> c = CHR ''-'')
      then value_error ''breadth_region_invalid''
      else allowed_list (dget config ''types'') [''D'', ''NG''] (ValueError ''breadth_metric_invalid''))"

definition FORMS :: "string list" where
  "FORMS = [''8-K'', ''10-Q'', ''10-K'', ''6-K'']"

definition breadth_sec :: "string \<Rightarrow> dict \<Rightarrow> dict res" where
  "breadth_sec provider config =
     (if provider \<noteq> ''sec_edgar'' then Inr config
      else if \<not> req_str (dget config ''cik'') (class_range is_digit 1 10) then value_error ''breadth_cik_invalid''
      else bindR (allowed_list (dget config ''forms'') FORMS (ValueError ''breadth_form_invalid'')) (\<lambda>_.
        let files = dget_default config ''max_history_files'' (JInt 2) in
        case int_value files of
          None \<Rightarrow> value_error ''breadth_history_budget_invalid''
        | Some n \<Rightarrow>
            (if 0 \<le> n \<and> n \<le> 5
             then Inr (dputs [(''cik'', JStr (zfill10 (cfg_str config ''cik''))), (''max_history_files'', files)] config)
             else value_error ''breadth_history_budget_invalid'')))"

definition breadth_config :: "string \<Rightarrow> string \<Rightarrow> pylib \<Rightarrow> dict \<Rightarrow> dict res" where
  "breadth_config provider operation lib config =
     (case breadth_keys provider operation of
        None \<Rightarrow> value_error ''breadth_operation_config_invalid''
      | Some ks \<Rightarrow>
          (if \<not> keys_of config \<subseteq> ks \<union> window_keys then value_error ''breadth_operation_config_invalid''
           else bindR (validate_window operation config) (\<lambda>_.
                bindR (breadth_symbol provider config) (\<lambda>_.
                bindR (breadth_marketaux lib provider config) (\<lambda>_.
                bindR (breadth_retail provider operation config) (\<lambda>_.
                bindR (breadth_rto provider operation config) (\<lambda>_.
                  breadth_sec provider config)))))))"

subsection \<open>The registry\<close>

record OperationContract =
  oc_provider :: string
  oc_operation_key :: string
  oc_operation_config_version :: int
  oc_provider_contract_version :: int
  oc_cursor_strategy :: CollectionCursorStrategy
  oc_collection_mode :: CollectionMode
  oc_batch_ceiling :: int
  oc_credential_names :: "string list"
  oc_legacy_cursor_type :: "string option"
  oc_pagination_capability :: string
  oc_validator :: "pylib \<Rightarrow> dict \<Rightarrow> dict res"

definition breadth_contract :: "string \<Rightarrow> string \<Rightarrow> string list \<Rightarrow> OperationContract" where
  "breadth_contract provider operation credentials =
     \<lparr>oc_provider = provider, oc_operation_key = operation, oc_operation_config_version = 2,
      oc_provider_contract_version = 2, oc_cursor_strategy = COMPOUND,
      oc_collection_mode = Mode_INCREMENTAL, oc_batch_ceiling = 100, oc_credential_names = credentials,
      oc_legacy_cursor_type = None, oc_pagination_capability = ''bounded_window_v1'',
      oc_validator = breadth_config provider operation\<rparr>"

definition legacy_contract ::
  "string \<Rightarrow> string \<Rightarrow> CollectionCursorStrategy \<Rightarrow> CollectionMode \<Rightarrow> int \<Rightarrow> string list \<Rightarrow> string
     \<Rightarrow> (pylib \<Rightarrow> dict \<Rightarrow> dict res) \<Rightarrow> OperationContract" where
  "legacy_contract provider operation strategy mode batch credentials cursor_type validator =
     \<lparr>oc_provider = provider, oc_operation_key = operation, oc_operation_config_version = 1,
      oc_provider_contract_version = 1, oc_cursor_strategy = strategy,
      oc_collection_mode = mode, oc_batch_ceiling = batch, oc_credential_names = credentials,
      oc_legacy_cursor_type = Some cursor_type, oc_pagination_capability = ''none'',
      oc_validator = validator\<rparr>"

definition operation_registry :: "OperationContract list" where
  "operation_registry =
     [breadth_contract ''marketaux'' ''news_all'' [''MARKETAUX_API_TOKEN''],
      breadth_contract ''finnhub'' ''company_news'' [''FINNHUB_API_KEY''],
      breadth_contract ''eia'' ''electricity_retail_sales'' [''EIA_API_KEY''],
      breadth_contract ''eia'' ''electricity_rto_region_data'' [''EIA_API_KEY''],
      breadth_contract ''sec_edgar'' ''submissions_recent'' [''SEC_USER_AGENT'', ''SEC_CONTACT_EMAIL''],
      legacy_contract ''fake'' ''fake_sequence'' STRICT_INCREMENTAL Mode_INCREMENTAL 20 []
        ''fake_sequence'' cfg_fake,
      legacy_contract ''marketaux'' ''news_all'' COMPOUND Mode_INCREMENTAL 3 [''MARKETAUX_API_TOKEN'']
        ''provider_cursor_v1'' cfg_marketaux,
      legacy_contract ''finnhub'' ''quote'' COMPOUND Mode_INCREMENTAL 1 [''FINNHUB_API_KEY'']
        ''provider_cursor_v1'' cfg_finnhub,
      legacy_contract ''eia'' ''electricity_retail_sales'' SNAPSHOT_WATERMARK Mode_SNAPSHOT 5 [''EIA_API_KEY'']
        ''provider_cursor_v1'' cfg_eia,
      legacy_contract ''sec_edgar'' ''submissions_recent'' SNAPSHOT_WATERMARK Mode_SNAPSHOT 10
        [''SEC_USER_AGENT'', ''SEC_CONTACT_EMAIL''] ''provider_cursor_v1'' cfg_sec]"

definition contract_key :: "OperationContract \<Rightarrow> string \<times> string \<times> int \<times> int" where
  "contract_key c = (oc_provider c, oc_operation_key c, oc_operation_config_version c, oc_provider_contract_version c)"

definition registry_resolve :: "OperationContract list \<Rightarrow> string \<Rightarrow> string \<Rightarrow> int \<Rightarrow> int \<Rightarrow> OperationContract res" where
  "registry_resolve contracts provider operation config_version contract_version =
     (case map_of (rev (map (\<lambda>c. (contract_key c, c)) contracts)) (provider, operation, config_version, contract_version) of
        None \<Rightarrow> config_error ''operation_contract_unknown''
      | Some c \<Rightarrow> Inr c)"

definition request_ceiling :: "OperationContract \<Rightarrow> int" where
  "request_ceiling c = (if oc_pagination_capability c \<noteq> ''none'' then 20 else 1)"

definition registry_validate ::
  "pylib \<Rightarrow> OperationContract \<Rightarrow> dict \<Rightarrow> int \<Rightarrow> int \<Rightarrow> int \<Rightarrow> dict res" where
  "registry_validate lib contract config batch_limit max_requests max_pages =
     (if batch_limit < 1 \<or> batch_limit > oc_batch_ceiling contract
         \<or> \<not> (1 \<le> max_requests \<and> max_requests \<le> request_ceiling contract)
         \<or> \<not> (1 \<le> max_pages \<and> max_pages \<le> request_ceiling contract)
      then config_error ''operation_budget_invalid''
      else bindR (reject_unsafe_config config) (\<lambda>_. oc_validator contract lib config))"

subsection \<open>Policy, credentials and adapters\<close>

record FactualOperationPolicy =
  fop_item_type :: string
  fop_evidence_kind :: string
  fop_source_type :: string
  fop_access :: string
  fop_content :: "string option"
  fop_retention :: "string set"

definition POLICIES :: "((string \<times> string) \<times> FactualOperationPolicy) list" where
  "POLICIES =
     [((''marketaux'', ''news_all''), \<lparr>fop_item_type = ''marketaux_news'', fop_evidence_kind = ''news'',
        fop_source_type = ''news'', fop_access = ''link_only'', fop_content = Some ''article'',
        fop_retention = {''link_only'', ''metadata_only''}\<rparr>),
      ((''finnhub'', ''quote''), \<lparr>fop_item_type = ''finnhub_quote'', fop_evidence_kind = ''market_data'',
        fop_source_type = ''market_data'', fop_access = ''licensed'', fop_content = None,
        fop_retention = {''metadata_only''}\<rparr>),
      ((''finnhub'', ''company_news''), \<lparr>fop_item_type = ''finnhub_company_news'', fop_evidence_kind = ''news'',
        fop_source_type = ''news'', fop_access = ''licensed'', fop_content = Some ''article'',
        fop_retention = {''metadata_only'', ''link_only''}\<rparr>),
      ((''eia'', ''electricity_retail_sales''), \<lparr>fop_item_type = ''eia_energy_timeseries'',
        fop_evidence_kind = ''energy_official'', fop_source_type = ''official_energy'',
        fop_access = ''public_summary'', fop_content = None, fop_retention = {''metadata_only''}\<rparr>),
      ((''eia'', ''electricity_rto_region_data''), \<lparr>fop_item_type = ''eia_energy_timeseries'',
        fop_evidence_kind = ''energy_official'', fop_source_type = ''official_energy'',
        fop_access = ''public_summary'', fop_content = None, fop_retention = {''metadata_only''}\<rparr>),
      ((''sec_edgar'', ''submissions_recent''), \<lparr>fop_item_type = ''sec_filing'', fop_evidence_kind = ''disclosure'',
        fop_source_type = ''disclosure'', fop_access = ''link_only'', fop_content = Some ''official_release'',
        fop_retention = {''link_only'', ''metadata_only''}\<rparr>)]"

definition policy_versions :: "string \<Rightarrow> int set" where
  "policy_versions operation =
     (if operation \<in> {''company_news'', ''electricity_rto_region_data''} then {2}
      else if operation = ''quote'' then {1} else {1, 2})"

definition factual_operation_policy :: "string \<Rightarrow> string \<Rightarrow> int option \<Rightarrow> FactualOperationPolicy res" where
  "factual_operation_policy provider operation contract_version =
     (if (case contract_version of None \<Rightarrow> False | Some v \<Rightarrow> v \<notin> policy_versions operation)
      then value_error ''factual_operation_version_unsupported''
      else case map_of POLICIES (provider, operation) of
        None \<Rightarrow> value_error ''factual_operation_unsupported'' | Some p \<Rightarrow> Inr p)"

record RuntimeCredential =
  rc_name :: string
  rc_value :: string

definition new_credential :: "string \<Rightarrow> string \<Rightarrow> RuntimeCredential res" where
  "new_credential name val =
     (if name = [] \<or> val = [] then value_error ''runtime_credential_missing''
      else if list_ex (\<lambda>c. c \<in> {CHR 0x0D, CHR 0x0A}) val then value_error ''runtime_credential_invalid''
      else Inr \<lparr>rc_name = name, rc_value = val\<rparr>)"

definition env_get :: "(string \<rightharpoonup> string) \<Rightarrow> string \<Rightarrow> string" where
  "env_get environ k = (case environ k of None \<Rightarrow> [] | Some v \<Rightarrow> v)"

definition credential_name :: "string \<Rightarrow> string option" where
  "credential_name = map_of [(''marketaux'', ''MARKETAUX_API_TOKEN''), (''finnhub'', ''FINNHUB_API_KEY''),
     (''eia'', ''EIA_API_KEY'')]"

definition resolve_runtime_credential :: "string \<Rightarrow> (string \<rightharpoonup> string) \<Rightarrow> RuntimeCredential res" where
  "resolve_runtime_credential provider environ =
     (if provider = ''sec_edgar'' then
        let agent = env_get environ ''SEC_USER_AGENT''; contact = env_get environ ''SEC_CONTACT_EMAIL'' in
        if agent = [] \<or> contact = [] then Inl (CredentialResolutionError ''provider_runtime_credential_missing'')
        else new_credential ''SEC_USER_AGENT'' (agent @ '' '' @ contact)
      else case credential_name provider of
        None \<Rightarrow> Inl (CredentialResolutionError ''provider_credential_contract_unknown'')
      | Some name \<Rightarrow>
          (if env_get environ name = [] then Inl (CredentialResolutionError ''provider_runtime_credential_missing'')
           else new_credential name (env_get environ name)))"

datatype adapter_kind = BreadthAdapter string string | MarketauxRealAdapter | FinnhubAdapter | EiaAdapter | SecEdgarAdapter

definition adapter_build :: "string \<Rightarrow> string \<Rightarrow> int \<Rightarrow> adapter_kind res" where
  "adapter_build provider operation_key contract_version =
     (if contract_version = 2 \<and> (provider, operation_key) \<in>
           {(''marketaux'', ''news_all''), (''finnhub'', ''company_news''), (''eia'', ''electricity_retail_sales''),
            (''eia'', ''electricity_rto_region_data''), (''sec_edgar'', ''submissions_recent'')}
      then Inr (BreadthAdapter provider operation_key)
      else if contract_version \<noteq> 1 then Inl (LookupError ''provider_operation_not_allowlisted'')
      else case map_of
             [((''marketaux'', ''news_all''), MarketauxRealAdapter), ((''finnhub'', ''quote''), FinnhubAdapter),
              ((''eia'', ''electricity_retail_sales''), EiaAdapter),
              ((''sec_edgar'', ''submissions_recent''), SecEdgarAdapter)] (provider, operation_key) of
             None \<Rightarrow> Inl (LookupError ''provider_operation_not_allowlisted'')
           | Some a \<Rightarrow> Inr a)"

subsection \<open>Validators are normalisers\<close>

lemma unsafe_config_dict_iff: "unsafe_config_dict d \<longleftrightarrow> (\<exists>(k, v)\<in>set d. unsafe_config_key k \<or> unsafe_config v)"
  by (induction d) auto

lemma unsafe_config_dput:
  "\<not> unsafe_config_dict d \<Longrightarrow> \<not> unsafe_config_key k \<Longrightarrow> \<not> unsafe_config v \<Longrightarrow> \<not> unsafe_config_dict (dput k v d)"
  by (induction d) auto

lemma unsafe_config_dget: "\<not> unsafe_config_dict d \<Longrightarrow> \<not> unsafe_config (dget d k)"
  by (auto simp: dget_def unsafe_config_dict_iff split: option.split dest!: map_of_SomeD)

lemma reject_unsafe_config_Inr [simp]: "reject_unsafe_config d = Inr u \<longleftrightarrow> \<not> unsafe_config_dict d"
  by (simp add: reject_unsafe_config_def)

lemma config_keys_Inr [simp]: "config_keys d ks = Inr u \<longleftrightarrow> keys_of d \<subseteq> ks \<and> \<not> unsafe_config_dict d"
  by (simp add: config_keys_def)

lemma digits_safe: "list_all is_digit s \<Longrightarrow> \<not> unsafe_config (JStr s)"
proof -
  assume d: "list_all is_digit s"
  then have "list_all iso_char s" by (auto simp: list_all_iff iso_char_def)
  moreover have "CHR '':'' \<notin> set (lower s)"
  proof
    assume "CHR '':'' \<in> set (lower s)"
    then obtain c where "is_digit c" "lower_char c = CHR '':''" using d by (auto simp: lower_def list_all_iff)
    then show False unfolding char_eq_nat of_lower_char class_nat by auto
  qed
  then have "\<not> url_search s"
    unfolding url_search_def by (auto dest!: contains_chars)
  ultimately show ?thesis by (simp add: iso_text_not_secret)
qed

lemma zfill10_props:
  assumes "class_range is_digit 1 10 s"
  shows "length (zfill10 s) = 10" "list_all is_digit (zfill10 s)" "zfill10 (zfill10 s) = zfill10 s"
    "class_range is_digit 1 10 (zfill10 s)"
  using assms
  by (auto simp: zfill10_def class_range_def list_all_iff is_digit_def less_eq_char_def)

locale config_validator =
  fixes check :: "pylib \<Rightarrow> dict \<Rightarrow> dict res"
  assumes check_again: "check lib c = Inr c' \<Longrightarrow> check lib c' = Inr c'"
    and check_safe: "\<not> unsafe_config_dict c \<Longrightarrow> check lib c = Inr c' \<Longrightarrow> \<not> unsafe_config_dict c'"
begin

lemma accepted_is_normal:
  "\<not> unsafe_config_dict c \<Longrightarrow> check lib c = Inr c' \<Longrightarrow> check lib c' = Inr c' \<and> \<not> unsafe_config_dict c'"
  by (intro conjI) (rule check_again, assumption, rule check_safe)

end

interpretation v_marketaux: config_validator cfg_marketaux
  by unfold_locales (auto simp: cfg_marketaux_def bindR_Inr_iff)

interpretation v_finnhub: config_validator cfg_finnhub
  by unfold_locales (auto simp: cfg_finnhub_def bindR_Inr_iff)

lemma safe_keys:
  "\<not> unsafe_config_key ''dataset''" "\<not> unsafe_config_key ''cik''" "\<not> unsafe_config_key ''max_history_files''"
  "\<not> unsafe_config_key ''behavior''" "\<not> unsafe_config_key ''pages''" "\<not> unsafe_config (JStr ''electricity'')"
  by code_simp+

interpretation v_eia: config_validator cfg_eia
  by unfold_locales (auto simp: cfg_eia_def bindR_Inr_iff safe_keys keys_of_def dget_def simp del: unsafe_config.simps)

lemma req_str_cfg: "req_str (dget c k) p \<Longrightarrow> p (cfg_str c k) \<and> dget c k = JStr (cfg_str c k)"
  by (auto simp: req_str_def cfg_str_def split: json.splits)

lemma cfg_str_dput [simp]: "cfg_str (dput k (JStr s) c) k = s"
  by (simp add: cfg_str_def)

lemma cik_normal:
  assumes "req_str (dget c ''cik'') (class_range is_digit 1 10)"
  shows "\<not> unsafe_config (JStr (zfill10 (cfg_str c ''cik'')))" "class_range is_digit 1 10 (zfill10 (cfg_str c ''cik''))"
    "zfill10 (zfill10 (cfg_str c ''cik'')) = zfill10 (cfg_str c ''cik'')"
  using zfill10_props [of "cfg_str c ''cik''"] digits_safe req_str_cfg [OF assms] by blast+

interpretation v_sec: config_validator cfg_sec
proof
  fix lib c c'
  assume "cfg_sec lib c = Inr c'"
  then have k: "keys_of c \<subseteq> {''ticker'', ''cik''}" "\<not> unsafe_config_dict c"
    "req_str (dget c ''ticker'') (class_range (\<lambda>c. is_upper c \<or> is_digit c \<or> c \<in> set ''.-'') 1 12)"
    "req_str (dget c ''cik'') (class_range is_digit 1 10)"
    and c': "c' = dput ''cik'' (JStr (zfill10 (cfg_str c ''cik''))) c"
    by (auto simp: cfg_sec_def bindR_Inr_iff)
  have safe: "\<not> unsafe_config_dict c'"
    unfolding c' using k cik_normal [OF k(4)] by (intro unsafe_config_dput) (simp_all add: safe_keys)
  have "dput ''cik'' (JStr (zfill10 (cfg_str c' ''cik''))) c' = c'"
    unfolding c' using cik_normal [OF k(4)] by (simp add: dput_same)
  then show "cfg_sec lib c' = Inr c'"
    using k cik_normal [OF k(4)] safe
    by (simp add: cfg_sec_def bindR_Inr_iff) (simp add: c' req_str_def subset_iff)
  show "\<not> unsafe_config_dict c'" by (rule safe)
qed

interpretation v_fake: config_validator cfg_fake
proof
  fix lib c c'
  assume a: "cfg_fake lib c = Inr c'"
  define b where "b = dget_default c ''behavior'' (JStr ''empty'')"
  define p where "p = dget_default c ''pages'' (JInt 1)"
  obtain n where n: "int_like p = Some n" "1 \<le> n" "n \<le> 20" and c': "c' = [(''behavior'', b), (''pages'', p)]"
    and b: "\<not> unhashable b" "b \<in> set (map JStr [''empty'', ''items'', ''timeout'', ''error''])"
    using a
    by (auto simp: cfg_fake_def bindR_Inr_iff Let_def b_def [symmetric] p_def [symmetric] split: if_splits option.splits)
  have "\<not> unsafe_config b"
    using b(2) by (auto simp: secret_search_def url_search_def lower_def lower_char_def is_upper_def less_eq_char_def)
  moreover have "\<not> unsafe_config p" using n(1) by (cases p) simp_all
  ultimately show safe: "\<not> unsafe_config_dict c'" by (simp add: c' safe_keys)
  have d: "dget_default c' ''behavior'' (JStr ''empty'') = b" "dget_default c' ''pages'' (JInt 1) = p"
    by (simp_all add: c' dget_default_def)
  show "cfg_fake lib c' = Inr c'"
    using n b safe by (simp add: cfg_fake_def bindR_Inr_iff Let_def d) (simp add: c' keys_of_def)
qed

lemma validate_window_cong:
  assumes "\<And>k. k \<in> window_keys \<union> {''start'', ''end''} \<Longrightarrow> map_of c k = map_of d k"
  shows "validate_window operation c = validate_window operation d"
proof -
  have eq: "dget c k = dget d k" "has_key c k = has_key d k" if "k \<in> window_keys \<union> {''start'', ''end''}" for k
    using assms [OF that] by (simp_all add: dget_def has_key_def)
  have any: "has_any c ks = has_any d ks" if "set ks \<subseteq> window_keys \<union> {''start'', ''end''}" for ks
    unfolding has_any_def using that eq(2) by (induction ks) auto
  have anys: "has_any c rolling_keys = has_any d rolling_keys" "has_any c [''start'', ''end''] = has_any d [''start'', ''end'']"
    "has_any c [''lookback_seconds'', ''overlap_seconds'', ''ingestion_lag_seconds''] =
       has_any d [''lookback_seconds'', ''overlap_seconds'', ''ingestion_lag_seconds'']"
    "has_any c [''lookback_months'', ''overlap_months'', ''ingestion_lag_months''] =
       has_any d [''lookback_months'', ''overlap_months'', ''ingestion_lag_months'']"
    by (rule any, simp add: window_keys_def rolling_keys_def)+
  have gets: "dget c k = dget d k" if "k \<in> set (''window_mode'' # ''start'' # ''end'' # rolling_keys)" for k
    using that by (intro eq(1)) (auto simp: window_keys_def)
  have rolling: "rolling_months_ok c = rolling_months_ok d" "rolling_seconds_ok operation c = rolling_seconds_ok operation d"
    unfolding rolling_months_ok_def rolling_seconds_ok_def by (simp_all only: gets rolling_keys_def list.set insert_iff simp_thms)
  show ?thesis
    unfolding validate_window_def anys rolling by (simp only: gets list.set insert_iff simp_thms)
qed

lemma breadth_sec_frame:
  assumes "breadth_sec provider c = Inr c'" and "k \<notin> {''cik'', ''max_history_files''}"
  shows "map_of c' k = map_of c k"
  using assms
  by (auto simp: breadth_sec_def bindR_Inr_iff Let_def map_of_dputs split: if_splits option.splits)

lemma breadth_sec_again:
  assumes "breadth_sec provider c = Inr c'"
  shows "breadth_sec provider c' = Inr c'"
proof (cases "provider = ''sec_edgar''")
  case True
  define files where "files = dget_default c ''max_history_files'' (JInt 2)"
  have r: "req_str (dget c ''cik'') (class_range is_digit 1 10)"
    "allowed_list (dget c ''forms'') FORMS (ValueError ''breadth_form_invalid'') = Inr ()"
    and c': "c' = dputs [(''cik'', JStr (zfill10 (cfg_str c ''cik''))), (''max_history_files'', files)] c"
    and n: "\<exists>n. int_value files = Some n \<and> 0 \<le> n \<and> n \<le> 5"
    using assms True
    by (auto simp: breadth_sec_def bindR_Inr_iff Let_def files_def [symmetric] split: if_splits option.splits)
  note cik = cik_normal [OF r(1)]
  have d: "dget c' ''cik'' = JStr (zfill10 (cfg_str c ''cik''))" "dget c' ''forms'' = dget c ''forms''"
    "dget_default c' ''max_history_files'' (JInt 2) = files" "cfg_str c' ''cik'' = zfill10 (cfg_str c ''cik'')"
    by (simp_all add: c' dget_dputs cfg_str_def dget_default_def map_of_dputs)
  have same: "dputs [(''cik'', JStr (zfill10 (cfg_str c ''cik''))), (''max_history_files'', files)] c' = c'"
    unfolding c' by (rule dputs_idem) simp
  from n obtain m where "int_value files = Some m" "0 \<le> m" "m \<le> 5" by blast
  with r(2) cik same True show ?thesis
    by (simp add: breadth_sec_def d Let_def req_str_def)
qed (use assms in \<open>simp add: breadth_sec_def\<close>)

lemma breadth_sec_keys:
  "breadth_sec provider c = Inr c' \<Longrightarrow> keys_of c' \<subseteq> keys_of c \<union> (if provider = ''sec_edgar'' then {''cik'', ''max_history_files''} else {})"
  by (auto simp: breadth_sec_def bindR_Inr_iff Let_def keys_of_dputs split: if_splits option.splits)

lemma breadth_sec_safe:
  assumes "breadth_sec provider c = Inr c'" and "\<not> unsafe_config_dict c"
  shows "\<not> unsafe_config_dict c'"
proof (cases "provider = ''sec_edgar''")
  case True
  define files where "files = dget_default c ''max_history_files'' (JInt 2)"
  have r: "req_str (dget c ''cik'') (class_range is_digit 1 10)"
    and c': "c' = dput ''max_history_files'' files (dput ''cik'' (JStr (zfill10 (cfg_str c ''cik''))) c)"
    and n: "\<exists>n. int_value files = Some n"
    using assms True
    by (auto simp: breadth_sec_def bindR_Inr_iff Let_def files_def [symmetric] dputs_Cons split: if_splits option.splits)
  have "\<not> unsafe_config files" using n by (cases files) simp_all
  then show ?thesis
    unfolding c' using assms(2) cik_normal(1) [OF r] by (intro unsafe_config_dput) (simp_all add: safe_keys)
qed (use assms in \<open>simp add: breadth_sec_def\<close>)

interpretation v_breadth: config_validator "breadth_config provider operation" for provider operation
proof
  fix lib c c'
  assume "breadth_config provider operation lib c = Inr c'"
  then obtain ks where ks: "breadth_keys provider operation = Some ks" "keys_of c \<subseteq> ks \<union> window_keys"
    and steps: "validate_window operation c = Inr ()" "breadth_symbol provider c = Inr ()"
      "breadth_marketaux lib provider c = Inr ()" "breadth_retail provider operation c = Inr ()"
      "breadth_rto provider operation c = Inr ()" and sec: "breadth_sec provider c = Inr c'"
    by (auto simp: breadth_config_def bindR_Inr_iff split: option.splits if_splits)
  have frame: "map_of c' k = map_of c k" if "k \<notin> {''cik'', ''max_history_files''}" for k
    using breadth_sec_frame [OF sec that] .
  then have dg: "dget c' k = dget c k" "dget_default c' k v = dget_default c k v"
    if "k \<notin> {''cik'', ''max_history_files''}" for k v
    using that by (simp_all add: dget_def dget_default_def)
  have dgs: "dget c' (if provider = ''finnhub'' then ''symbol'' else ''ticker'') = dget c (if provider = ''finnhub'' then ''symbol'' else ''ticker'')"
    "dget c' ''query'' = dget c ''query''" "dget c' ''language'' = dget c ''language''"
    "dget_default c' ''symbols'' (JList []) = dget_default c ''symbols'' (JList [])"
    "dget c' ''frequency'' = dget c ''frequency''" "dget c' ''geographies'' = dget c ''geographies''"
    "dget c' ''sectors'' = dget c ''sectors''" "dget c' ''regions'' = dget c ''regions''" "dget c' ''types'' = dget c ''types''"
    by (rule dg, simp)+
  have w: "validate_window operation c' = validate_window operation c"
    by (rule validate_window_cong, rule frame) (auto simp: window_keys_def rolling_keys_def)
  have "{''cik'', ''max_history_files''} \<subseteq> ks" if "provider = ''sec_edgar''"
    using ks(1) that by (auto simp: breadth_keys_def split: if_splits)
  then have "keys_of c' \<subseteq> ks \<union> window_keys"
    using breadth_sec_keys [OF sec] ks(2) by (auto split: if_splits)
  moreover have "breadth_symbol provider c' = Inr ()" "breadth_marketaux lib provider c' = Inr ()"
    "breadth_retail provider operation c' = Inr ()" "breadth_rto provider operation c' = Inr ()"
    using steps unfolding breadth_symbol_def breadth_marketaux_def breadth_retail_def breadth_rto_def dgs
    by (blast, blast, blast, blast)
  ultimately show "breadth_config provider operation lib c' = Inr c'"
    using ks(1) steps(1) breadth_sec_again [OF sec] by (simp add: breadth_config_def w)
  assume "\<not> unsafe_config_dict c"
  then show "\<not> unsafe_config_dict c'" by (rule breadth_sec_safe [OF sec])
qed

lemma registry_validators: "c \<in> set operation_registry \<Longrightarrow> config_validator (oc_validator c)"
  using v_marketaux.config_validator_axioms v_finnhub.config_validator_axioms v_eia.config_validator_axioms
    v_sec.config_validator_axioms v_fake.config_validator_axioms v_breadth.config_validator_axioms
  by (auto simp: operation_registry_def breadth_contract_def legacy_contract_def)

lemma registry_keys_distinct: "distinct (map contract_key operation_registry)"
  by (simp add: operation_registry_def contract_key_def breadth_contract_def legacy_contract_def)

lemma registry_resolve_in:
  assumes "registry_resolve contracts p o1 v w = Inr c"
  shows "c \<in> set contracts \<and> contract_key c = (p, o1, v, w)"
  using assms by (auto simp: registry_resolve_def split: option.splits dest!: map_of_SomeD)

lemma registry_resolve_key:
  assumes "distinct (map contract_key contracts)" and "c \<in> set contracts"
  shows "registry_resolve contracts (oc_provider c) (oc_operation_key c) (oc_operation_config_version c)
           (oc_provider_contract_version c) = Inr c"
proof -
  have "map_of (rev (map (\<lambda>c. (contract_key c, c)) contracts)) (contract_key c) = Some c"
    using assms by (intro map_of_is_SomeI) (simp_all add: rev_map [symmetric] comp_def)
  then show ?thesis by (simp add: registry_resolve_def contract_key_def)
qed

lemma registry_validate_bounds:
  assumes "registry_validate lib c cfg b r p = Inr cfg'"
  shows "1 \<le> b \<and> b \<le> oc_batch_ceiling c \<and> 1 \<le> r \<and> r \<le> request_ceiling c \<and> 1 \<le> p \<and> p \<le> request_ceiling c
    \<and> \<not> unsafe_config_dict cfg \<and> oc_validator c lib cfg = Inr cfg'"
  using assms by (auto simp: registry_validate_def bindR_Inr_iff split: if_splits)

subsection \<open>Properties\<close>

text \<open>For every contract of the registry a validated configuration is a normal form:
  it validates again to itself under the same budgets, and it contains no secret, no URL and none of the
  forbidden keys.\<close>

theorem registry_config_is_normal:
  assumes "contract \<in> set operation_registry"
    and "registry_validate lib contract config batch_limit max_requests max_pages = Inr config'"
  shows "registry_validate lib contract config' batch_limit max_requests max_pages = Inr config'
    \<and> \<not> unsafe_config_dict config'"
proof -
  note b = registry_validate_bounds [OF assms(2)]
  have "oc_validator contract lib config' = Inr config' \<and> \<not> unsafe_config_dict config'"
    using config_validator.accepted_is_normal [OF registry_validators [OF assms(1)]] b by blast
  with b show ?thesis by (simp add: registry_validate_def reject_unsafe_config_def)
qed

lemma sample_registry_validates:
  "registry_validate sample_lib
     (legacy_contract ''sec_edgar'' ''submissions_recent'' SNAPSHOT_WATERMARK Mode_SNAPSHOT 10
        [''SEC_USER_AGENT'', ''SEC_CONTACT_EMAIL''] ''provider_cursor_v1'' cfg_sec)
     [(''ticker'', JStr ''AAPL''), (''cik'', JStr ''320193'')] 10 1 1
   = Inr [(''ticker'', JStr ''AAPL''), (''cik'', JStr ''0000320193'')]"
  by code_simp

theorem registry_config_is_normal_witness:
  "registry_validate sample_lib
     (legacy_contract ''sec_edgar'' ''submissions_recent'' SNAPSHOT_WATERMARK Mode_SNAPSHOT 10
        [''SEC_USER_AGENT'', ''SEC_CONTACT_EMAIL''] ''provider_cursor_v1'' cfg_sec)
     [(''ticker'', JStr ''AAPL''), (''cik'', JStr ''0000320193'')] 10 1 1
   = Inr [(''ticker'', JStr ''AAPL''), (''cik'', JStr ''0000320193'')]
   \<and> \<not> unsafe_config_dict [(''ticker'', JStr ''AAPL''), (''cik'', JStr ''0000320193'')]"
  by (rule registry_config_is_normal [OF _ sample_registry_validates]) (simp add: operation_registry_def)

text \<open>The static tables agree: every contract of the registry is found under its own key,
  and, except for the fake operation, it has an adapter of its contract version, a downstream policy, and
  a credential that resolves as soon as the environment variables it declares are set.\<close>

definition served :: "OperationContract \<Rightarrow> bool" where
  "served c =
     (\<not> isl (adapter_build (oc_provider c) (oc_operation_key c) (oc_provider_contract_version c))
      \<and> \<not> isl (factual_operation_policy (oc_provider c) (oc_operation_key c) (Some (oc_provider_contract_version c)))
      \<and> \<not> isl (resolve_runtime_credential (oc_provider c) (map_of (map (\<lambda>n. (n, ''x'')) (oc_credential_names c)))))"

theorem registry_is_served:
  "list_all (\<lambda>c. registry_resolve operation_registry (oc_provider c) (oc_operation_key c)
                   (oc_operation_config_version c) (oc_provider_contract_version c) = Inr c
                 \<and> (oc_provider c = ''fake'' \<or> served c)) operation_registry"
proof -
  have "list_all (\<lambda>c. oc_provider c = ''fake'' \<or> served c) operation_registry"
    by (simp add: operation_registry_def breadth_contract_def legacy_contract_def served_def adapter_build_def
        factual_operation_policy_def policy_versions_def POLICIES_def resolve_runtime_credential_def
        credential_name_def env_get_def new_credential_def Let_def)
  then show ?thesis
    using registry_resolve_key [OF registry_keys_distinct] by (simp add: list_all_iff)
qed

end
