(* ===== verification/Continuation.thy ===== *)
theory Continuation
  imports Operation_Config
begin

text \<open>
  The continuation codec of \<open>providers/continuation.py\<close>: what a paginated run stores to resume, bound to
  the operation, the configuration hash, the resolved window and the lineage of the target.
\<close>

abbreviation continuation_error :: "string \<Rightarrow> 'a res" where
  "continuation_error m \<equiv> Inl (ContinuationContractError m)"

definition continuation_operations :: "((string \<times> string) \<times> string set) list" where
  "continuation_operations =
     [((''marketaux'', ''news_all''), {''page''}),
      ((''finnhub'', ''company_news''), {''last_key''}),
      ((''eia'', ''electricity_retail_sales''), {''offset''}),
      ((''eia'', ''electricity_rto_region_data''), {''offset''}),
      ((''sec_edgar'', ''submissions_recent''), {''file'', ''files'', ''last_key''})]"

definition continuation_base :: "string set" where
  "continuation_base =
     {''version'', ''provider'', ''operation'', ''config_hash'', ''resolved_window'', ''lineage'', ''state''}"

record ContinuationLineage =
  lin_target_id :: uuid
  lin_config_revision :: int
  lin_operation_key :: string
  lin_operation_config_version :: int
  lin_provider_contract_version :: int
  lin_cursor_version :: int
  lin_run_mode :: string

definition lineage_mapping :: "ContinuationLineage \<Rightarrow> dict" where
  "lineage_mapping l =
     [(''target_id'', JStr (lin_target_id l)), (''config_revision'', JInt (lin_config_revision l)),
      (''operation_key'', JStr (lin_operation_key l)),
      (''operation_config_version'', JInt (lin_operation_config_version l)),
      (''provider_contract_version'', JInt (lin_provider_contract_version l)),
      (''cursor_version'', JInt (lin_cursor_version l)), (''run_mode'', JStr (lin_run_mode l))]"

definition lineage_keys :: "string set" where
  "lineage_keys = {''target_id'', ''config_revision'', ''operation_key'', ''operation_config_version'',
     ''provider_contract_version'', ''cursor_version'', ''run_mode''}"

definition positive :: "int option \<Rightarrow> bool" where
  "positive v = (case v of None \<Rightarrow> False | Some n \<Rightarrow> 1 \<le> n)"

definition request_lineage :: "ProviderFetchRequest \<Rightarrow> string \<Rightarrow> ContinuationLineage res" where
  "request_lineage r operation =
     (case (pfr_target_id r, pfr_config_revision r, pfr_operation_config_version r,
            pfr_provider_contract_version r, pfr_cursor_version r, pfr_run_mode r) of
        (Some t, Some a, Some b, Some c, Some d, Some m) \<Rightarrow>
          (if a < 1 \<or> b < 1 \<or> c < 1 \<or> d < 1 \<or> m \<notin> {''normal'', ''backfill''}
           then continuation_error ''continuation_lineage_missing''
           else Inr \<lparr>lin_target_id = t, lin_config_revision = a, lin_operation_key = operation,
                     lin_operation_config_version = b, lin_provider_contract_version = c,
                     lin_cursor_version = d, lin_run_mode = m\<rparr>)
      | _ \<Rightarrow> continuation_error ''continuation_lineage_missing'')"

definition window_binding :: "dict \<Rightarrow> dict" where
  "window_binding config = window_of (dget config ''start'') (dget config ''end'')"

subsection \<open>The operation state\<close>

text \<open>\<open>_key\<close>: a list of two short non-empty texts.\<close>

definition key_ok :: "json \<Rightarrow> bool" where
  "key_ok v =
     (case v of
        JList xs \<Rightarrow> length xs = 2 \<and> list_all (\<lambda>x. req_str x (len_between 1 255)) xs
      | _ \<Rightarrow> False)"

definition file_pattern :: "string \<Rightarrow> bool" where
  "file_pattern = match_pat (lit ''CIK'' @ digits 10 @ lit ''-submissions-'' @ digits 3 @ lit ''.json'')"

definition sec_prefix_ok :: "dict \<Rightarrow> json list \<Rightarrow> bool" where
  "sec_prefix_ok config items =
     (case dget config ''cik'' of
        JStr cik \<Rightarrow> list_all (\<lambda>v. req_str v (has_prefix (''CIK'' @ cik @ ''-submissions-''))) items
      | _ \<Rightarrow> False)"

definition sec_state :: "dict \<Rightarrow> dict \<Rightarrow> unit res" where
  "sec_state config state =
     (let bad = ContinuationContractError ''continuation_sec_invalid'';
          current = dget state ''file'' in
      if keys_of state \<notin> {{''file''}, {''file'', ''files''}, {''file'', ''files'', ''last_key''}} then Inl bad
      else if \<not> opt_str current file_pattern then Inl bad
      else case dget_default state ''files'' (JList []) of
        JList files \<Rightarrow>
          (if \<not> (length files \<le> 5 \<and> list_all (\<lambda>v. req_str v file_pattern) files) then Inl bad
           else if \<not> distinct files \<or> current \<in> set files then Inl bad
           else if \<not> sec_prefix_ok config ((if current = JNull then [] else [current]) @ files) then Inl bad
           else if has_key state ''last_key'' \<and> \<not> key_ok (dget state ''last_key'')
           then continuation_error ''continuation_key_invalid''
           else if current = JNull \<and> keys_of state \<noteq> {''file'', ''files'', ''last_key''} then Inl bad
           else Inr ())
      | _ \<Rightarrow> Inl bad)"

definition bounded_int :: "json \<Rightarrow> int \<Rightarrow> int \<Rightarrow> bool" where
  "bounded_int v lo hi = (case v of JInt n \<Rightarrow> lo \<le> n \<and> n \<le> hi | _ \<Rightarrow> False)"

definition operation_state :: "string \<Rightarrow> dict \<Rightarrow> dict \<Rightarrow> unit res" where
  "operation_state operation config state =
     (if state = [] then Inr ()
      else if operation = ''news_all''
      then guardR (keys_of state = {''page''} \<and> bounded_int (dget state ''page'') 2 1000)
             (ContinuationContractError ''continuation_page_invalid'')
      else if operation \<in> {''electricity_retail_sales'', ''electricity_rto_region_data''}
      then guardR (keys_of state = {''offset''} \<and> bounded_int (dget state ''offset'') 1 10000000)
             (ContinuationContractError ''continuation_offset_invalid'')
      else if operation = ''company_news''
      then guardR (keys_of state = {''last_key''} \<and> key_ok (dget state ''last_key''))
             (ContinuationContractError ''continuation_key_invalid'')
      else sec_state config state)"

subsection \<open>Encoding and decoding\<close>

definition decode_continuation ::
  "pylib \<Rightarrow> dict \<Rightarrow> string \<Rightarrow> string \<Rightarrow> dict \<Rightarrow> ContinuationLineage \<Rightarrow> dict res" where
  "decode_continuation lib val provider operation config lineage =
     (case map_of continuation_operations (provider, operation) of
        None \<Rightarrow> continuation_error ''continuation_shape_invalid''
      | Some allowed \<Rightarrow>
          bindR (guardR (keys_of val = continuation_base)
                   (ContinuationContractError ''continuation_shape_invalid'')) (\<lambda>_.
          bindR (guardR (py_eq (dget val ''version'') (JInt 1) \<and> dget val ''provider'' = JStr provider
                         \<and> dget val ''operation'' = JStr operation)
                   (ContinuationContractError ''continuation_identity_invalid'')) (\<lambda>_.
          bindR (guardR (req_str (dget val ''config_hash'') hex64)
                   (ContinuationContractError ''continuation_config_invalid'')) (\<lambda>_.
          bindR (canonical_projection_hash lib config) (\<lambda>h.
          bindR (guardR (dget val ''config_hash'' = JStr h)
                   (ContinuationContractError ''continuation_config_invalid'')) (\<lambda>_.
          bindR (case dget val ''resolved_window'' of
                   JObj w \<Rightarrow> guardR (keys_of w = {''start'', ''end''} \<and> py_eq (JObj w) (JObj (window_binding config)))
                               (ContinuationContractError ''continuation_window_invalid'')
                 | _ \<Rightarrow> continuation_error ''continuation_window_invalid'') (\<lambda>_.
          bindR (case dget val ''lineage'' of
                   JObj b \<Rightarrow> guardR (keys_of b = lineage_keys \<and> py_eq (JObj b) (JObj (lineage_mapping lineage)))
                               (ContinuationContractError ''continuation_lineage_invalid'')
                 | _ \<Rightarrow> continuation_error ''continuation_lineage_invalid'') (\<lambda>_.
          case dget val ''state'' of
            JObj state \<Rightarrow>
              bindR (guardR (keys_of state \<subseteq> allowed) (ContinuationContractError ''continuation_state_invalid'')) (\<lambda>_.
              bindR (operation_state operation config state) (\<lambda>_. Inr state))
          | _ \<Rightarrow> continuation_error ''continuation_state_invalid''))))))))"

definition continuation_value ::
  "string \<Rightarrow> string \<Rightarrow> string \<Rightarrow> dict \<Rightarrow> ContinuationLineage \<Rightarrow> dict \<Rightarrow> dict" where
  "continuation_value provider operation h config lineage state =
     [(''version'', JInt 1), (''provider'', JStr provider), (''operation'', JStr operation),
      (''config_hash'', JStr h), (''resolved_window'', JObj (window_binding config)),
      (''lineage'', JObj (lineage_mapping lineage)), (''state'', JObj state)]"

definition encode_continuation ::
  "pylib \<Rightarrow> string \<Rightarrow> string \<Rightarrow> dict \<Rightarrow> ContinuationLineage \<Rightarrow> dict \<Rightarrow> dict res" where
  "encode_continuation lib provider operation config lineage state =
     (if (provider, operation) \<notin> fst ` set continuation_operations
      then continuation_error ''continuation_operation_unknown''
      else bindR (canonical_projection_hash lib config) (\<lambda>h.
        let result = continuation_value provider operation h config lineage state in
        bindR (decode_continuation lib result provider operation config lineage) (\<lambda>_. Inr result)))"

subsection \<open>Lemmas\<close>

lemma py_eq_sub_iff: "py_eq_sub a b \<longleftrightarrow> (\<forall>(k, v)\<in>set a. \<exists>w. map_of b k = Some w \<and> py_eq v w)"
  by (induction a) (auto split: option.splits)

lemma py_eq_objD:
  assumes "py_eq (JObj a) (JObj b)" and "k \<in> keys_of a"
  obtains v w where "map_of a k = Some v" and "map_of b k = Some w" and "py_eq v w"
proof -
  obtain v where v: "map_of a k = Some v"
    using assms(2) by (cases "map_of a k") (auto simp: keys_of_def map_of_eq_None_iff)
  then have "(k, v) \<in> set a" by (rule map_of_SomeD)
  with assms(1) obtain w where "map_of b k = Some w" "py_eq v w" by (auto simp: py_eq_sub_iff)
  with v that show ?thesis by blast
qed

lemma num_of_eq_cases:
  "num_of v \<noteq> None \<longleftrightarrow> (\<exists>b. v = JBool b) \<or> (\<exists>n. v = JInt n) \<or> (\<exists>r. v = JFloat (FFin r))"
  by (cases v rule: num_of.cases) auto

lemma py_eq_JStr: "py_eq v (JStr s) \<longleftrightarrow> v = JStr s"
proof (cases v)
  case (JFloat f)
  then show ?thesis by (cases f) auto
qed auto

lemma py_eq_JInt: "py_eq v (JInt n) \<longleftrightarrow> num_of v = Some (of_int n)"
proof (cases v)
  case (JFloat f)
  then show ?thesis by (cases f) auto
qed auto

lemma lineage_mapping_unique:
  assumes "keys_of b = lineage_keys" and "py_eq (JObj b) (JObj (lineage_mapping l))"
    and "py_eq (JObj b) (JObj (lineage_mapping l'))"
  shows "l = l'"
proof -
  have both: "\<exists>v w w'. map_of (lineage_mapping l) k = Some w \<and> map_of (lineage_mapping l') k = Some w' \<and> py_eq v w \<and> py_eq v w'"
    if "k \<in> lineage_keys" for k
  proof -
    have k: "k \<in> keys_of b" using that assms(1) by simp
    obtain v w where v: "map_of b k = Some v" "map_of (lineage_mapping l) k = Some w" "py_eq v w"
      using py_eq_objD [OF assms(2) k] .
    obtain v' w' where v': "map_of b k = Some v'" "map_of (lineage_mapping l') k = Some w'" "py_eq v' w'"
      using py_eq_objD [OF assms(3) k] .
    with v show ?thesis by auto
  qed
  have "lin_target_id l = lin_target_id l'" "lin_operation_key l = lin_operation_key l'" "lin_run_mode l = lin_run_mode l'"
    using both [of "''target_id''"] both [of "''operation_key''"] both [of "''run_mode''"]
    by (auto simp: lineage_keys_def lineage_mapping_def py_eq_JStr)
  moreover have "lin_config_revision l = lin_config_revision l'"
    "lin_operation_config_version l = lin_operation_config_version l'"
    "lin_provider_contract_version l = lin_provider_contract_version l'" "lin_cursor_version l = lin_cursor_version l'"
    using both [of "''config_revision''"] both [of "''operation_config_version''"]
      both [of "''provider_contract_version''"] both [of "''cursor_version''"]
    by (auto simp: lineage_keys_def lineage_mapping_def py_eq_JInt)
  ultimately show ?thesis by simp
qed

lemma decode_Inr:
  assumes "decode_continuation lib val provider operation config lineage = Inr state"
  shows "\<exists>allowed h w b. map_of continuation_operations (provider, operation) = Some allowed
    \<and> keys_of val = continuation_base \<and> dget val ''provider'' = JStr provider \<and> dget val ''operation'' = JStr operation
    \<and> canonical_projection_hash lib config = Inr h \<and> dget val ''config_hash'' = JStr h \<and> hex64 h
    \<and> dget val ''resolved_window'' = JObj w \<and> keys_of w = {''start'', ''end''} \<and> py_eq (JObj w) (JObj (window_binding config))
    \<and> dget val ''lineage'' = JObj b \<and> keys_of b = lineage_keys \<and> py_eq (JObj b) (JObj (lineage_mapping lineage))
    \<and> dget val ''state'' = JObj state \<and> keys_of state \<subseteq> allowed \<and> operation_state operation config state = Inr ()"
  using assms unfolding decode_continuation_def
  by (auto simp: bindR_Inr_iff req_str_def simp del: py_eq.simps split: option.splits json.splits)

text \<open>\<open>==\<close> is reflexive on the values that a continuation stores.\<close>

lemma py_eq_window_refl:
  assumes "py_eq s s" and "py_eq e e"
  shows "py_eq (JObj (window_of s e)) (JObj (window_of s e))"
  using assms by (simp add: window_of_def)

lemma py_eq_lineage_refl: "py_eq (JObj (lineage_mapping l)) (JObj (lineage_mapping l))"
  by (simp add: lineage_mapping_def)

lemma decode_value:
  assumes "map_of continuation_operations (provider, operation) = Some allowed"
    and "canonical_projection_hash lib config = Inr h" and "hex64 h"
    and "py_eq (dget config ''start'') (dget config ''start'')" and "py_eq (dget config ''end'') (dget config ''end'')"
    and "keys_of state \<subseteq> allowed" and "operation_state operation config state = Inr ()"
  shows "decode_continuation lib (continuation_value provider operation h config lineage state)
           provider operation config lineage = Inr state"
proof -
  let ?v = "continuation_value provider operation h config lineage state"
  have d: "dget ?v ''version'' = JInt 1" "dget ?v ''provider'' = JStr provider" "dget ?v ''operation'' = JStr operation"
    "dget ?v ''config_hash'' = JStr h" "dget ?v ''resolved_window'' = JObj (window_binding config)"
    "dget ?v ''lineage'' = JObj (lineage_mapping lineage)" "dget ?v ''state'' = JObj state"
    by (simp_all add: continuation_value_def dget_def)
  have k: "keys_of ?v = continuation_base"
    by (auto simp: continuation_value_def keys_of_def continuation_base_def)
  have w: "keys_of (window_binding config) = {''start'', ''end''}"
    by (auto simp: window_binding_def window_of_def keys_of_def)
  have l: "keys_of (lineage_mapping lineage) = lineage_keys"
    by (auto simp: lineage_mapping_def keys_of_def lineage_keys_def)
  have eq: "py_eq (JObj (window_binding config)) (JObj (window_binding config))"
    unfolding window_binding_def using assms(4,5) by (rule py_eq_window_refl)
  show ?thesis
    using assms eq py_eq_lineage_refl [of lineage]
    unfolding decode_continuation_def by (simp add: d k w l req_str_def del: py_eq.simps(9))
qed

subsection \<open>Properties\<close>

text \<open>Property C21.  Encoding and decoding: the state of every operation that satisfies the limits of its
  contract can be stored, and decoding the stored value for the same operation, configuration and
  lineage gives the state back.  The digest is a SHA-256 hex text and the window bounds are texts, as
  in every resolved configuration.\<close>

theorem continuation_roundtrip:
  assumes "map_of continuation_operations (provider, operation) = Some allowed"
    and "canonical_projection_hash lib config = Inr h" and "hex64 h"
    and "dget config ''start'' = JStr s" and "dget config ''end'' = JStr e"
    and "keys_of state \<subseteq> allowed" and "operation_state operation config state = Inr ()"
  shows "\<exists>v. encode_continuation lib provider operation config lineage state = Inr v
          \<and> decode_continuation lib v provider operation config lineage = Inr state"
proof -
  have "(provider, operation) \<in> fst ` set continuation_operations"
    using assms(1) by (metis domI dom_map_of_conv_image_fst)
  moreover have "decode_continuation lib (continuation_value provider operation h config lineage state)
           provider operation config lineage = Inr state"
    using assms by (intro decode_value) simp_all
  ultimately show ?thesis using assms(2) by (simp add: encode_continuation_def Let_def)
qed

text \<open>A stored continuation is bound to its lineage: whoever decodes it successfully has the
  provider, operation, configuration digest and target lineage (revision, versions and run mode
  included) of the one who stored it, and reads the same state.\<close>

theorem continuation_is_bound:
  assumes "decode_continuation lib val provider operation config lineage = Inr state"
    and "decode_continuation lib val provider' operation' config' lineage' = Inr state'"
  shows "provider' = provider \<and> operation' = operation \<and> lineage' = lineage \<and> state' = state
    \<and> canonical_projection_hash lib config' = canonical_projection_hash lib config"
proof -
  obtain h b where one: "dget val ''provider'' = JStr provider" "dget val ''operation'' = JStr operation"
    "canonical_projection_hash lib config = Inr h" "dget val ''config_hash'' = JStr h"
    "dget val ''lineage'' = JObj b" "keys_of b = lineage_keys" "py_eq (JObj b) (JObj (lineage_mapping lineage))"
    "dget val ''state'' = JObj state"
    using decode_Inr [OF assms(1)] by (elim exE conjE) (rule that; assumption)
  obtain h' b' where two: "dget val ''provider'' = JStr provider'" "dget val ''operation'' = JStr operation'"
    "canonical_projection_hash lib config' = Inr h'" "dget val ''config_hash'' = JStr h'"
    "dget val ''lineage'' = JObj b'" "py_eq (JObj b') (JObj (lineage_mapping lineage'))"
    "dget val ''state'' = JObj state'"
    using decode_Inr [OF assms(2)] by (elim exE conjE) (rule that; assumption)
  have "b' = b" using one two by simp
  then have "lineage' = lineage" using lineage_mapping_unique [of b] one two by blast
  with one two show ?thesis by simp
qed

definition sample_lineage :: ContinuationLineage where
  "sample_lineage = \<lparr>lin_target_id = ''t1'', lin_config_revision = 1, lin_operation_key = ''news_all'',
     lin_operation_config_version = 2, lin_provider_contract_version = 2, lin_cursor_version = 1,
     lin_run_mode = ''normal''\<rparr>"

definition sample_pinned :: dict where
  "sample_pinned = [(''query'', JStr ''energy''), (''window_mode'', JStr ''fixed_window''),
     (''start'', JStr ''1970-01-09''), (''end'', JStr ''1970-01-11'')]"

definition sample_continuation :: dict where
  "sample_continuation = continuation_value ''marketaux'' ''news_all'' sample_hash sample_pinned sample_lineage [(''page'', JInt 2)]"

lemma sample_decodes:
  "decode_continuation sample_lib sample_continuation ''marketaux'' ''news_all'' sample_pinned sample_lineage
     = Inr [(''page'', JInt 2)]"
  unfolding sample_continuation_def
  by (rule decode_value [where allowed = "{''page''}"])
    (simp_all add: continuation_operations_def canonical_projection_hash_def sample_lib_def sample_hash_def hex64_def
      class_range_def list_all_iff is_hex_def is_digit_def less_eq_char_def sample_pinned_def dget_def keys_of_def
      operation_state_def bounded_int_def)

theorem continuation_roundtrip_witness:
  "\<exists>v. encode_continuation sample_lib ''marketaux'' ''news_all'' sample_pinned sample_lineage [(''page'', JInt 2)] = Inr v
     \<and> decode_continuation sample_lib v ''marketaux'' ''news_all'' sample_pinned sample_lineage = Inr [(''page'', JInt 2)]"
  by (rule continuation_roundtrip [where allowed = "{''page''}" and h = sample_hash and s = "''1970-01-09''" and e = "''1970-01-11''"])
    (simp_all add: continuation_operations_def canonical_projection_hash_def sample_lib_def sample_hash_def hex64_def
      class_range_def list_all_iff is_hex_def is_digit_def less_eq_char_def sample_pinned_def dget_def keys_of_def
      operation_state_def bounded_int_def)

theorem continuation_is_bound_witness:
  "decode_continuation sample_lib sample_continuation ''marketaux'' ''news_all'' sample_pinned sample_lineage
     = Inr [(''page'', JInt 2)]
   \<and> (\<nexists>s. decode_continuation sample_lib sample_continuation ''marketaux'' ''news_all'' sample_pinned
            (sample_lineage\<lparr>lin_config_revision := 2\<rparr>) = Inr s)"
  using sample_decodes continuation_is_bound [OF sample_decodes, of _ _ _ "sample_lineage\<lparr>lin_config_revision := 2\<rparr>"]
  by (auto simp: sample_lineage_def)

end
