(* ===== verification/Target_Repository.thy ===== *)
theory Target_Repository
  imports Continuation Transition_Systems
begin

text \<open>
  The target repository of \<open>collection/target_repository.py\<close>: the exact reload before execution, the
  compare-and-swap revision of a target, the pause and abandon operations on pending continuations,
  and the keyset page of due targets.  Every operation is one transaction on the database.  Numeric
  fields of a revision are given as integers and the operation configuration as an object; a value of
  another type is rejected (as \<open>TypeError\<close> here, whatever stage of the program rejects it).
\<close>

abbreviation repo_error :: "string \<Rightarrow> 'a res" where
  "repo_error m \<equiv> Inl (TargetRepositoryError m)"

record LoadedTarget =
  lt_target :: CollectionTarget
  lt_source :: Source
  lt_account :: "SourceAccount option"
  lt_contract :: OperationContract
  lt_config :: dict

record DueTarget =
  due_target_id :: uuid
  due_effective_due_at :: time
  due_priority :: int
  due_retry_due :: bool

record PendingContinuationToken =
  tok_cursor_version :: int
  tok_run_mode :: string
  tok_bound_run_id :: uuid
  tok_continuation_hash :: string

fun transitions :: "CollectionTargetStatus \<Rightarrow> CollectionTargetStatus set" where
  "transitions Tgt_DRAFT = {Tgt_PAUSED, Tgt_BLOCKED}"
| "transitions Tgt_PAUSED = {Tgt_ACTIVE, Tgt_BLOCKED, Tgt_RETIRED}"
| "transitions Tgt_ACTIVE = {Tgt_PAUSED, Tgt_BLOCKED, Tgt_RETIRED}"
| "transitions Tgt_BLOCKED = {Tgt_PAUSED, Tgt_RETIRED}"
| "transitions Tgt_RETIRED = {}"

definition source_usable :: "Source \<Rightarrow> bool" where
  "source_usable s = (src_enabled s \<and> src_authorization_status s \<in> {Auth_AUTHORIZED, Auth_IMPLEMENTED})"

definition account_usable :: "Source \<Rightarrow> SourceAccount \<Rightarrow> bool" where
  "account_usable s a = (acc_enabled a \<and> acc_identity_status a = Ident_VERIFIED \<and> acc_source_id a = src_id s)"

definition eligible :: "Source \<Rightarrow> SourceAccount option \<Rightarrow> CollectionTarget \<Rightarrow> bool" where
  "eligible source account target =
     (source_usable source \<and> tgt_status target = Tgt_ACTIVE
      \<and> (if tgt_source_account_id target = None then account = None
         else case account of None \<Rightarrow> False | Some a \<Rightarrow> account_usable source a))"

definition target_account :: "db \<Rightarrow> CollectionTarget \<Rightarrow> SourceAccount option" where
  "target_account d t = (case tgt_source_account_id t of None \<Rightarrow> None | Some i \<Rightarrow> get_account d i)"

definition source_has_accounts :: "db \<Rightarrow> uuid \<Rightarrow> bool" where
  "source_has_accounts d src = list_ex (\<lambda>a. acc_source_id a = src) (source_accounts d)"

subsection \<open>Loading for execution\<close>

definition load_for_execution ::
  "pylib \<Rightarrow> OperationContract list \<Rightarrow> uuid \<Rightarrow> int \<Rightarrow> db \<Rightarrow> LoadedTarget res" where
  "load_for_execution lib registry target_id revision d =
     (case get_target d target_id of
        None \<Rightarrow> repo_error ''stale_target_revision''
      | Some t \<Rightarrow>
          (if tgt_config_revision t \<noteq> revision then repo_error ''stale_target_revision''
           else if tgt_source_account_id t = None \<and> source_has_accounts d (tgt_source_id t)
           then repo_error ''source_level_target_has_accounts''
           else case get_source d (tgt_source_id t) of
             None \<Rightarrow> repo_error ''target_not_eligible''
           | Some s \<Rightarrow>
               (if \<not> eligible s (target_account d t) t then repo_error ''target_not_eligible''
                else bindR (registry_resolve registry (src_access_method s) (tgt_operation_key t)
                              (tgt_operation_config_version t) (tgt_provider_contract_version t)) (\<lambda>contract.
                  if tgt_legacy_cursor_type t \<noteq> oc_legacy_cursor_type contract
                  then repo_error ''target_legacy_identity_mismatch''
                  else bindR (registry_validate lib contract (tgt_operation_config t) (tgt_batch_limit t)
                                (tgt_max_requests_per_run t) (tgt_max_pages_per_run t)) (\<lambda>config.
                    Inr \<lparr>lt_target = t, lt_source = s, lt_account = target_account d t,
                         lt_contract = contract, lt_config = config\<rparr>)))))"

subsection \<open>Revision\<close>

definition immutable_fields :: "string set" where
  "immutable_fields = {''id'', ''target_key'', ''source_id'', ''source_account_id'', ''operation_key'',
     ''legacy_cursor_type'', ''created_at''}"

definition revisable_fields :: "string set" where
  "revisable_fields = {''operation_config'', ''operation_config_version'', ''provider_contract_version'', ''status'',
     ''cadence_seconds'', ''batch_limit'', ''max_requests_per_run'', ''max_pages_per_run'', ''max_response_bytes'',
     ''request_timeout_seconds'', ''max_runtime_seconds'', ''cursor_strategy'', ''cursor_version'',
     ''collection_mode'', ''backfill_policy'', ''revision_policy'', ''rate_limit_group'', ''priority''}"

definition field_int :: "dict \<Rightarrow> string \<Rightarrow> int \<Rightarrow> int res" where
  "field_int vals k cur =
     (case map_of vals k of None \<Rightarrow> Inr cur | Some (JInt n) \<Rightarrow> Inr n | _ \<Rightarrow> Inl (TypeError k))"

definition field_dict :: "dict \<Rightarrow> string \<Rightarrow> dict \<Rightarrow> dict res" where
  "field_dict vals k cur =
     (case map_of vals k of None \<Rightarrow> Inr cur | Some (JObj c) \<Rightarrow> Inr c | _ \<Rightarrow> Inl (TypeError k))"

text \<open>A text that names an enum member, with the error the program raises for any other value.\<close>

definition field_enum :: "dict \<Rightarrow> string \<Rightarrow> 'a \<Rightarrow> (string \<Rightarrow> 'a option) \<Rightarrow> exn \<Rightarrow> 'a res" where
  "field_enum vals k cur parse e =
     (case map_of vals k of
        None \<Rightarrow> Inr cur
      | Some (JStr s) \<Rightarrow> (case parse s of None \<Rightarrow> Inl e | Some x \<Rightarrow> Inr x)
      | _ \<Rightarrow> Inl e)"

fun backfill_of :: "string \<Rightarrow> CollectionBackfillPolicy option" where
  "backfill_of s = (if s = ''disabled'' then Some Backfill_DISABLED
     else if s = ''manual_bounded'' then Some Backfill_MANUAL_BOUNDED else None)"

fun revision_policy_of :: "string \<Rightarrow> CollectionRevisionPolicy option" where
  "revision_policy_of s = (if s = ''ignore'' then Some Revision_IGNORE
     else if s = ''safe_replace'' then Some Revision_SAFE_REPLACE
     else if s = ''reconcile'' then Some Revision_RECONCILE else None)"

definition rate_limit_group_pattern :: "string \<Rightarrow> bool" where
  "rate_limit_group_pattern =
     first_rest (\<lambda>c. is_lower c \<or> is_digit c) (\<lambda>c. is_lower c \<or> is_digit c \<or> c \<in> set '':._-'') 159"

definition has_running :: "db \<Rightarrow> uuid \<Rightarrow> bool" where
  "has_running d target_id =
     list_ex (\<lambda>r. run_target_id r = Some target_id \<and> run_status r = Run_RUNNING) (collection_runs d)"

text \<open>\<open>cursor.continuation\<close> is true for a non-empty object.\<close>

definition has_pending_continuation :: "db \<Rightarrow> uuid \<Rightarrow> bool" where
  "has_pending_continuation d target_id =
     list_ex (\<lambda>c. cur_target_id c = Some target_id
                  \<and> cur_continuation c \<noteq> None \<and> cur_continuation c \<noteq> Some []) (collection_cursors d)"

definition proposed_status :: "dict \<Rightarrow> CollectionTarget \<Rightarrow> CollectionTargetStatus res" where
  "proposed_status vals t =
     bindR (field_enum vals ''status'' (tgt_status t) target_status_of (TargetRepositoryError ''target_status_invalid''))
       (\<lambda>s. if s \<noteq> tgt_status t \<and> s \<notin> transitions (tgt_status t)
            then repo_error ''target_status_transition_invalid'' else Inr s)"

text \<open>The contract, configuration, cursor semantics, rate-limit group and budgets of the revised target.\<close>

definition revised_fields ::
  "pylib \<Rightarrow> OperationContract list \<Rightarrow> dict \<Rightarrow> Source \<Rightarrow> CollectionTarget \<Rightarrow> CollectionTarget res" where
  "revised_fields lib registry vals s t =
     (let bad_semantics = TargetRepositoryError ''target_operation_semantics_invalid'' in
     bindR (field_int vals ''operation_config_version'' (tgt_operation_config_version t)) (\<lambda>cfg_version.
     bindR (field_int vals ''provider_contract_version'' (tgt_provider_contract_version t)) (\<lambda>contract_version.
     bindR (registry_resolve registry (src_access_method s) (tgt_operation_key t) cfg_version contract_version) (\<lambda>contract.
     bindR (guardR (tgt_legacy_cursor_type t = oc_legacy_cursor_type contract)
              (TargetRepositoryError ''target_legacy_identity_mismatch'')) (\<lambda>_.
     bindR (field_dict vals ''operation_config'' (tgt_operation_config t)) (\<lambda>config.
     bindR (field_int vals ''batch_limit'' (tgt_batch_limit t)) (\<lambda>batch.
     bindR (field_int vals ''max_requests_per_run'' (tgt_max_requests_per_run t)) (\<lambda>requests.
     bindR (field_int vals ''max_pages_per_run'' (tgt_max_pages_per_run t)) (\<lambda>pages.
     bindR (registry_validate lib contract config batch requests pages) (\<lambda>_.
     bindR (field_enum vals ''cursor_strategy'' (tgt_cursor_strategy t) strategy_of bad_semantics) (\<lambda>strategy.
     bindR (field_enum vals ''collection_mode'' (tgt_collection_mode t) mode_of bad_semantics) (\<lambda>mode.
     bindR (guardR (strategy = oc_cursor_strategy contract \<and> mode = oc_collection_mode contract) bad_semantics) (\<lambda>_.
     let group = (case map_of vals ''rate_limit_group'' of None \<Rightarrow> tgt_rate_limit_group t | Some v \<Rightarrow> str_of lib v) in
     bindR (guardR (rate_limit_group_pattern group)
              (TargetRepositoryError ''target_rate_limit_group_invalid'')) (\<lambda>_.
     bindR (field_int vals ''request_timeout_seconds'' (tgt_request_timeout_seconds t)) (\<lambda>request_timeout.
     bindR (field_int vals ''max_runtime_seconds'' (tgt_max_runtime_seconds t)) (\<lambda>runtime.
     bindR (field_int vals ''max_response_bytes'' (tgt_max_response_bytes t)) (\<lambda>response_bytes.
     bindR (field_int vals ''cadence_seconds'' (tgt_cadence_seconds t)) (\<lambda>cadence.
     bindR (guardR (1 \<le> request_timeout \<and> request_timeout \<le> 60 \<and> request_timeout \<le> runtime \<and> runtime \<le> 900
                    \<and> 1024 \<le> response_bytes \<and> response_bytes \<le> 10000000 \<and> 1 \<le> cadence \<and> cadence \<le> 86400)
              (TargetRepositoryError ''target_budget_invalid'')) (\<lambda>_.
     bindR (field_int vals ''cursor_version'' (tgt_cursor_version t)) (\<lambda>cursor_version.
     bindR (field_int vals ''priority'' (tgt_priority t)) (\<lambda>priority.
     bindR (field_enum vals ''backfill_policy'' (tgt_backfill_policy t) backfill_of (SQLAlchemyError ''backfill_policy'')) (\<lambda>backfill.
     bindR (field_enum vals ''revision_policy'' (tgt_revision_policy t) revision_policy_of (SQLAlchemyError ''revision_policy'')) (\<lambda>policy.
       Inr (t\<lparr>tgt_operation_config_version := cfg_version, tgt_provider_contract_version := contract_version,
              tgt_operation_config := config, tgt_batch_limit := batch, tgt_max_requests_per_run := requests,
              tgt_max_pages_per_run := pages, tgt_cursor_strategy := strategy, tgt_collection_mode := mode,
              tgt_rate_limit_group := group, tgt_request_timeout_seconds := request_timeout,
              tgt_max_runtime_seconds := runtime, tgt_max_response_bytes := response_bytes,
              tgt_cadence_seconds := cadence, tgt_cursor_version := cursor_version, tgt_priority := priority,
              tgt_backfill_policy := backfill, tgt_revision_policy := policy\<rparr>))))))))))))))))))))))))"

definition activation_ok :: "db \<Rightarrow> Source \<Rightarrow> CollectionTarget \<Rightarrow> unit res" where
  "activation_ok d s t =
     (if tgt_source_account_id t = None \<and> source_has_accounts d (tgt_source_id t)
      then repo_error ''source_level_target_has_accounts''
      else guardR (source_usable s \<and> (case target_account d t of None \<Rightarrow> True | Some a \<Rightarrow> account_usable s a))
             (TargetRepositoryError ''target_not_eligible''))"

definition audit_row ::
  "uuid \<Rightarrow> time \<Rightarrow> string \<Rightarrow> uuid \<Rightarrow> dict option \<Rightarrow> dict option \<Rightarrow> AuditLog" where
  "audit_row i now action target before after =
     \<lparr>aud_id = i, aud_actor_type = ''system'', aud_actor_id = None, aud_action = action,
      aud_target_type = ''collection_target'', aud_target_id = Some target, aud_before = before,
      aud_after = after, aud_created_at = now\<rparr>"

definition revised_row :: "time \<Rightarrow> int \<Rightarrow> CollectionTargetStatus \<Rightarrow> CollectionTarget \<Rightarrow> CollectionTarget" where
  "revised_row now expected_revision status t =
     t\<lparr>tgt_status := status, tgt_config_revision := expected_revision + 1,
       tgt_health_status := Health_UNKNOWN, tgt_updated_at := now,
       tgt_retired_at := (if status = Tgt_RETIRED then Some now else None),
       tgt_next_retry_at := None, tgt_next_due_at := now\<rparr>"

definition add_audit :: "AuditLog \<Rightarrow> db \<Rightarrow> db" where
  "add_audit a d = d\<lparr>audit_logs := audit_logs d @ [a]\<rparr>"

text \<open>The \<open>UPDATE\<close> re-checks the revision under the row lock and the table's check constraint applies.\<close>

definition revise ::
  "pylib \<Rightarrow> OperationContract list \<Rightarrow> (db \<Rightarrow> uuid) \<Rightarrow> time \<Rightarrow> uuid \<Rightarrow> int \<Rightarrow> dict \<Rightarrow> db \<Rightarrow> (int \<times> db) res" where
  "revise lib registry gen now target_id expected_revision vals d =
     (if keys_of vals \<inter> immutable_fields \<noteq> {} then repo_error ''target_identity_immutable''
      else if \<not> keys_of vals \<subseteq> revisable_fields then repo_error ''target_revision_fields_invalid''
      else case get_target d target_id of
        None \<Rightarrow> repo_error ''target_revision_conflict''
      | Some t \<Rightarrow>
          (if tgt_config_revision t \<noteq> expected_revision then repo_error ''target_revision_conflict''
           else if has_running d target_id then repo_error ''target_revision_in_flight''
           else if has_pending_continuation d target_id then repo_error ''target_revision_pending_continuation''
           else bindR (proposed_status vals t) (\<lambda>status.
             case get_source d (tgt_source_id t) of
               None \<Rightarrow> repo_error ''target_source_not_found''
             | Some s \<Rightarrow>
                 bindR (revised_fields lib registry vals s t) (\<lambda>t1.
                 bindR (if status = Tgt_ACTIVE then activation_ok d s t else Inr ()) (\<lambda>_.
                   let t2 = revised_row now expected_revision status t1 in
                   if \<not> ck_collection_targets t2 then Inl (SQLAlchemyError ''ck_collection_targets'')
                   else Inr (expected_revision + 1,
                     add_audit (audit_row (gen d) now ''collection_target_revised'' target_id
                       (Some [(''config_revision'', JInt expected_revision)])
                       (Some [(''config_revision'', JInt (expected_revision + 1)),
                              (''status'', JStr (target_status_value status))]))
                       (put_target t2 d)))))))"

subsection \<open>Pending continuations\<close>

definition continuation_token :: "pylib \<Rightarrow> CollectionCursor \<Rightarrow> PendingContinuationToken res" where
  "continuation_token lib c =
     (case (cur_continuation c, cur_continuation_run_id c) of
        (Some k, Some r) \<Rightarrow>
          bindR (canonical_projection_hash lib k) (\<lambda>h.
            Inr \<lparr>tok_cursor_version = cur_cursor_version c, tok_run_mode = run_mode_value (cur_run_mode c),
                 tok_bound_run_id = r, tok_continuation_hash = h\<rparr>)
      | _ \<Rightarrow> repo_error ''target_continuation_binding_invalid'')"

text \<open>\<open>ORDER BY cursor_version, run_mode\<close>; the run modes sort in the order of the enum.\<close>

definition mode_rank :: "CollectionRunMode \<Rightarrow> nat" where
  "mode_rank m = (case m of NORMAL \<Rightarrow> 0 | BACKFILL \<Rightarrow> 1)"

definition pending_cursors :: "db \<Rightarrow> uuid \<Rightarrow> CollectionCursor list" where
  "pending_cursors d target_id =
     sort_key (\<lambda>c. (cur_cursor_version c, mode_rank (cur_run_mode c)))
       (filter (\<lambda>c. cur_target_id c = Some target_id \<and> cur_continuation c \<noteq> None) (collection_cursors d))"

definition at_revision :: "db \<Rightarrow> uuid \<Rightarrow> int \<Rightarrow> CollectionTarget res" where
  "at_revision d target_id revision =
     (case get_target d target_id of
        None \<Rightarrow> repo_error ''target_revision_conflict''
      | Some t \<Rightarrow> (if tgt_config_revision t \<noteq> revision then repo_error ''target_revision_conflict'' else Inr t))"

definition pending_continuations ::
  "pylib \<Rightarrow> uuid \<Rightarrow> int \<Rightarrow> db \<Rightarrow> PendingContinuationToken list res" where
  "pending_continuations lib target_id expected_revision d =
     bindR (at_revision d target_id expected_revision) (\<lambda>_.
       mapR (continuation_token lib) (pending_cursors d target_id))"

definition pause_for_continuation_abandon ::
  "(db \<Rightarrow> uuid) \<Rightarrow> time \<Rightarrow> uuid \<Rightarrow> int \<Rightarrow> db \<Rightarrow> db res" where
  "pause_for_continuation_abandon gen now target_id expected_revision d =
     bindR (at_revision d target_id expected_revision) (\<lambda>t.
       if has_running d target_id then repo_error ''target_revision_in_flight''
       else if tgt_status t \<notin> {Tgt_ACTIVE, Tgt_PAUSED} then repo_error ''target_abandon_pause_invalid''
       else if tgt_status t = Tgt_PAUSED then Inr d
       else Inr (add_audit (audit_row (gen d) now ''collection_target_paused_for_continuation_abandon'' target_id
                   (Some [(''config_revision'', JInt expected_revision), (''status'', JStr ''active'')])
                   (Some [(''config_revision'', JInt expected_revision), (''status'', JStr ''paused'')]))
                 (put_target (t\<lparr>tgt_status := Tgt_PAUSED, tgt_next_retry_at := None, tgt_updated_at := now\<rparr>) d)))"

definition opt_json :: "string option \<Rightarrow> json" where
  "opt_json v = (case v of None \<Rightarrow> JNull | Some s \<Rightarrow> JStr s)"

definition abandon_audit ::
  "pylib \<Rightarrow> time \<Rightarrow> uuid \<Rightarrow> int \<Rightarrow> string \<Rightarrow> CollectionCursor \<Rightarrow> PendingContinuationToken \<Rightarrow> CollectionRun \<Rightarrow> uuid
     \<Rightarrow> AuditLog res" where
  "abandon_audit lib now target_id revision reason c tok run i =
     bindR (case run_resolved_window run of
              None \<Rightarrow> Inr None | Some w \<Rightarrow> bindR (canonical_projection_hash lib w) (\<lambda>h. Inr (Some h))) (\<lambda>wh.
       Inr (audit_row i now ''collection_continuation_abandoned'' target_id None
         (Some [(''config_revision'', JInt revision), (''cursor_version'', JInt (cur_cursor_version c)),
                (''run_mode'', JStr (run_mode_value (cur_run_mode c))),
                (''bound_run_id'', JStr (tok_bound_run_id tok)),
                (''continuation_hash'', JStr (tok_continuation_hash tok)),
                (''resolved_window_hash'', opt_json wh),
                (''operation_config_hash'', opt_json (run_operation_config_hash run)),
                (''reason_code'', JStr reason)])))"

definition abandon_reasons :: "string set" where
  "abandon_reasons = {''continuation_unrecoverable'', ''operator_reviewed_reset'', ''provider_continuation_invalid''}"

definition abandoned :: "time \<Rightarrow> CollectionCursor \<Rightarrow> CollectionCursor" where
  "abandoned now c = c\<lparr>cur_continuation := None, cur_continuation_run_id := None, cur_updated_at := now\<rparr>"

fun abandon_rows ::
  "pylib \<Rightarrow> (db \<Rightarrow> uuid) \<Rightarrow> time \<Rightarrow> uuid \<Rightarrow> int \<Rightarrow> string \<Rightarrow> (CollectionCursor \<times> PendingContinuationToken) list \<Rightarrow> db \<Rightarrow> db res" where
  "abandon_rows lib gen now target_id revision reason [] d = Inr d"
| "abandon_rows lib gen now target_id revision reason ((c, tok) # rest) d =
     (case get_run d (tok_bound_run_id tok) of
        None \<Rightarrow> Inl (KeyError (tok_bound_run_id tok))
      | Some run \<Rightarrow>
          bindR (abandon_audit lib now target_id revision reason c tok run (gen d)) (\<lambda>a.
            abandon_rows lib gen now target_id revision reason rest
              (put_cursor (abandoned now c) (add_audit a d))))"

definition abandon_pending_continuations ::
  "pylib \<Rightarrow> (db \<Rightarrow> uuid) \<Rightarrow> time \<Rightarrow> uuid \<Rightarrow> int \<Rightarrow> PendingContinuationToken list \<Rightarrow> string \<Rightarrow> db \<Rightarrow> (nat \<times> db) res" where
  "abandon_pending_continuations lib gen now target_id expected_revision expected reason d =
     (if reason \<notin> abandon_reasons then repo_error ''continuation_abandon_reason_invalid''
      else bindR (at_revision d target_id expected_revision) (\<lambda>t.
        let pending = pending_cursors d target_id in
        if pending = [] then Inr (0, d)
        else bindR (mapR (continuation_token lib) pending) (\<lambda>actual.
          if actual \<noteq> expected then repo_error ''target_continuation_changed''
          else if has_running d target_id then repo_error ''target_revision_in_flight''
          else if \<not> list_all (\<lambda>k. list_ex (\<lambda>r. run_id r = tok_bound_run_id k \<and> run_target_id r = Some target_id)
                                    (collection_runs d)) actual
          then repo_error ''target_continuation_run_missing''
          else if tgt_status t \<noteq> Tgt_PAUSED then repo_error ''target_continuation_abandon_requires_paused''
          else bindR (abandon_rows lib gen now target_id expected_revision reason (zip pending actual) d) (\<lambda>d'.
            Inr (length pending, d')))))"

subsection \<open>Due targets\<close>

definition effective_due :: "CollectionTarget \<Rightarrow> time" where
  "effective_due t = (case tgt_next_retry_at t of None \<Rightarrow> tgt_next_due_at t | Some r \<Rightarrow> r)"

definition due_key :: "CollectionTarget \<Rightarrow> time \<times> int \<times> uuid" where
  "due_key t = (effective_due t, tgt_priority t, tgt_id t)"

text \<open>With the three-valued logic of SQL, a version 2 target whose \<open>window_mode\<close> is absent or null fails
  the negated condition as well.\<close>

definition is_due :: "time \<Rightarrow> CollectionTarget \<Rightarrow> bool" where
  "is_due now t =
     (tgt_status t = Tgt_ACTIVE \<and> effective_due t \<le> now
      \<and> (tgt_provider_contract_version t \<noteq> 2
         \<or> dget (tgt_operation_config t) ''window_mode'' \<notin> {JNull, JStr ''fixed_window''}))"

definition due_target :: "CollectionTarget \<Rightarrow> DueTarget" where
  "due_target t = \<lparr>due_target_id = tgt_id t, due_effective_due_at = effective_due t,
     due_priority = tgt_priority t, due_retry_due = (tgt_next_retry_at t \<noteq> None)\<rparr>"

definition due_after :: "(time \<times> int \<times> uuid) option \<Rightarrow> CollectionTarget \<Rightarrow> bool" where
  "due_after after t =
     (case after of
        None \<Rightarrow> True
      | Some (due, priority, i) \<Rightarrow>
          effective_due t > due \<or> (effective_due t = due \<and> tgt_priority t > priority)
          \<or> (effective_due t = due \<and> tgt_priority t = priority \<and> tgt_id t > i))"

definition due_page :: "time \<Rightarrow> nat \<Rightarrow> (time \<times> int \<times> uuid) option \<Rightarrow> db \<Rightarrow> DueTarget list" where
  "due_page now limit after d =
     map due_target (take limit (sort_key due_key
       (filter (\<lambda>t. is_due now t \<and> due_after after t) (collection_targets d))))"

subsection \<open>What a revision changes\<close>

definition target_identity :: "CollectionTarget \<Rightarrow> uuid \<times> string \<times> uuid \<times> uuid option \<times> string \<times> string option \<times> time" where
  "target_identity t = (tgt_id t, tgt_target_key t, tgt_source_id t, tgt_source_account_id t, tgt_operation_key t,
     tgt_legacy_cursor_type t, tgt_created_at t)"

lemma revised_fields_identity:
  assumes "revised_fields lib registry vals s t = Inr t1"
  shows "target_identity t1 = target_identity t"
  using assms unfolding revised_fields_def Let_def bindR_Inr_iff sum.inject
  by (elim exE conjE) (drule sym, simp add: target_identity_def)

lemma revised_fields_contract:
  assumes "revised_fields lib registry vals s t = Inr t1"
  shows "\<exists>contract config. registry_resolve registry (src_access_method s) (tgt_operation_key t1)
           (tgt_operation_config_version t1) (tgt_provider_contract_version t1) = Inr contract
    \<and> tgt_legacy_cursor_type t1 = oc_legacy_cursor_type contract
    \<and> registry_validate lib contract (tgt_operation_config t1) (tgt_batch_limit t1) (tgt_max_requests_per_run t1)
        (tgt_max_pages_per_run t1) = Inr config
    \<and> tgt_cursor_strategy t1 = oc_cursor_strategy contract \<and> tgt_collection_mode t1 = oc_collection_mode contract"
  using assms unfolding revised_fields_def Let_def bindR_Inr_iff sum.inject guardR_simps
  by (elim exE conjE) (drule sym, simp)

lemma revised_row_identity [simp]: "target_identity (revised_row now e st t) = target_identity t"
  by (simp add: target_identity_def revised_row_def)

lemma identity_id: "target_identity t = target_identity u \<Longrightarrow> tgt_id t = tgt_id u"
  by (simp add: target_identity_def)

lemma proposed_status_ok:
  "proposed_status vals t = Inr s \<Longrightarrow> s = tgt_status t \<or> s \<in> transitions (tgt_status t)"
  by (auto simp: proposed_status_def bindR_Inr_iff split: if_splits)

lemma get_target_audit [simp]: "get_target (add_audit a d) i = get_target d i"
  by (simp add: get_target_def add_audit_def)

lemma put_audit_frames [simp]:
  "collection_runs (put_target t d) = collection_runs d" "collection_cursors (put_target t d) = collection_cursors d"
  "collection_runs (add_audit a d) = collection_runs d" "collection_cursors (add_audit a d) = collection_cursors d"
  "collection_targets (add_audit a d) = collection_targets d" "sources (put_target t d) = sources d"
  "sources (add_audit a d) = sources d"
  by (simp_all add: put_target_def add_audit_def)

lemma revise_Inr:
  assumes "revise lib registry gen now i e vals d = Inr (r, d')"
  shows "\<exists>t s t1 status a. get_target d i = Some t \<and> tgt_config_revision t = e \<and> \<not> has_running d i
    \<and> \<not> has_pending_continuation d i \<and> proposed_status vals t = Inr status
    \<and> get_source d (tgt_source_id t) = Some s \<and> revised_fields lib registry vals s t = Inr t1
    \<and> (if status = Tgt_ACTIVE then activation_ok d s t else Inr ()) = Inr ()
    \<and> ck_collection_targets (revised_row now e status t1) \<and> r = e + 1
    \<and> d' = add_audit a (put_target (revised_row now e status t1) d)"
proof -
  obtain t where t: "get_target d i = Some t"
    using assms by (cases "get_target d i") (auto simp: revise_def split: if_splits)
  obtain status where st: "proposed_status vals t = Inr status"
    using assms t by (cases "proposed_status vals t") (auto simp: revise_def split: if_splits)
  obtain s where s: "get_source d (tgt_source_id t) = Some s"
    using assms t st by (cases "get_source d (tgt_source_id t)") (auto simp: revise_def split: if_splits)
  obtain t1 where t1: "revised_fields lib registry vals s t = Inr t1"
    using assms t st s by (cases "revised_fields lib registry vals s t") (auto simp: revise_def split: if_splits)
  have act: "(if status = Tgt_ACTIVE then activation_ok d s t else Inr ()) = Inr ()"
    using assms t st s t1
    by (cases "if status = Tgt_ACTIVE then activation_ok d s t else Inr ()")
       (simp_all add: revise_def del: if_split_asm split: if_split_asm)
  show ?thesis
    using assms t st s t1 act
    by - (rule exI [of _ t], rule exI [of _ s], rule exI [of _ t1], rule exI [of _ status],
          auto simp: revise_def Let_def split: if_split_asm)
qed

text \<open>The row of a target after a repository operation.\<close>

definition target_moved :: "CollectionTarget \<Rightarrow> CollectionTarget \<Rightarrow> bool" where
  "target_moved t t' \<longleftrightarrow>
     target_identity t' = target_identity t \<and> tgt_config_revision t \<le> tgt_config_revision t'
     \<and> (tgt_status t' = tgt_status t \<or> tgt_status t' \<in> transitions (tgt_status t))"

lemma target_moved_refl [simp]: "target_moved t t"
  by (simp add: target_moved_def)

lemma revise_moves:
  assumes "revise lib registry gen now i e vals d = Inr (r, d')"
  shows "\<exists>t t'. get_target d i = Some t \<and> tgt_config_revision t = e \<and> target_moved t t'
    \<and> ck_collection_targets t' \<and> tgt_config_revision t' = e + 1 \<and> r = e + 1
    \<and> (\<exists>a. d' = add_audit a (put_target t' d))"
proof -
  obtain t s t1 status a where t: "get_target d i = Some t" "tgt_config_revision t = e"
    and st: "proposed_status vals t = Inr status" and f: "revised_fields lib registry vals s t = Inr t1"
    and ck: "ck_collection_targets (revised_row now e status t1)" and r: "r = e + 1"
    and d': "d' = add_audit a (put_target (revised_row now e status t1) d)"
    using revise_Inr [OF assms] by (elim exE conjE) (rule that; assumption)
  have "target_moved t (revised_row now e status t1)"
    using proposed_status_ok [OF st] revised_fields_identity [OF f] t(2)
    by (auto simp: target_moved_def) (auto simp: revised_row_def)
  moreover have "tgt_config_revision (revised_row now e status t1) = e + 1" by (simp add: revised_row_def)
  ultimately show ?thesis using t ck r d' by blast
qed

lemma at_revision_Inr: "at_revision d i e = Inr t \<longleftrightarrow> get_target d i = Some t \<and> tgt_config_revision t = e"
  by (auto simp: at_revision_def split: option.splits)

lemma pause_moves:
  assumes "pause_for_continuation_abandon gen now i e d = Inr d'" and "d' \<noteq> d"
  shows "\<exists>t t' a. get_target d i = Some t \<and> target_moved t t' \<and> tgt_status t = Tgt_ACTIVE \<and> tgt_status t' = Tgt_PAUSED
    \<and> (ck_collection_targets t \<longrightarrow> ck_collection_targets t') \<and> d' = add_audit a (put_target t' d)"
proof -
  obtain t a where t: "get_target d i = Some t" "tgt_status t = Tgt_ACTIVE"
    and d': "d' = add_audit a (put_target (t\<lparr>tgt_status := Tgt_PAUSED, tgt_next_retry_at := None, tgt_updated_at := now\<rparr>) d)"
    using assms by (auto simp: pause_for_continuation_abandon_def bindR_Inr_iff at_revision_Inr split: if_splits)
  let ?t' = "t\<lparr>tgt_status := Tgt_PAUSED, tgt_next_retry_at := None, tgt_updated_at := now\<rparr>"
  have "target_moved t ?t'" using t(2) by (simp add: target_moved_def target_identity_def)
  moreover have "ck_collection_targets t \<longrightarrow> ck_collection_targets ?t'"
    using t(2) by (auto simp: ck_collection_targets_def)
  ultimately show ?thesis using t d' by (intro exI [of _ t] exI [of _ ?t'] exI [of _ a]) simp
qed

lemma abandon_rows_frame:
  "abandon_rows lib gen now i e reason rows d = Inr d' \<Longrightarrow>
     collection_targets d' = collection_targets d \<and> collection_runs d' = collection_runs d \<and> sources d' = sources d"
proof (induction rows arbitrary: d)
  case (Cons row rows)
  obtain c tok where row: "row = (c, tok)" by (rule prod.exhaust)
  show ?case using Cons.prems unfolding row
    by (auto simp: bindR_Inr_iff put_cursor_def add_audit_def split: option.splits dest!: Cons.IH)
qed simp

subsection \<open>The repository as a state machine\<close>

inductive repo_step :: "pylib \<Rightarrow> OperationContract list \<Rightarrow> db \<Rightarrow> db \<Rightarrow> bool"
  for lib :: pylib and registry :: "OperationContract list" where
  step_revise: "revise lib registry gen now i e vals d = Inr (r, d') \<Longrightarrow> repo_step lib registry d d'"
| step_pause: "pause_for_continuation_abandon gen now i e d = Inr d' \<Longrightarrow> repo_step lib registry d d'"
| step_abandon: "abandon_pending_continuations lib gen now i e toks reason d = Inr (n, d') \<Longrightarrow> repo_step lib registry d d'"

definition targets_inv :: "db \<Rightarrow> bool" where
  "targets_inv d \<longleftrightarrow> list_all ck_collection_targets (collection_targets d) \<and> distinct (map tgt_id (collection_targets d))"

text \<open>Every repository step moves at most one target.\<close>

lemma repo_step_cases:
  assumes "repo_step lib registry d d'"
  shows "collection_targets d' = collection_targets d
    \<or> (\<exists>i t t'. get_target d i = Some t \<and> target_moved t t' \<and> (ck_collection_targets t \<longrightarrow> ck_collection_targets t')
          \<and> collection_targets d' = collection_targets (put_target t' d))"
  using assms
proof (cases rule: repo_step.cases)
  case (step_revise gen now i e vals r)
  from revise_moves [OF this] obtain t t' a where "get_target d i = Some t" "target_moved t t'" "ck_collection_targets t'"
    "d' = add_audit a (put_target t' d)" by blast
  then show ?thesis by (intro disjI2 exI [of _ i] exI [of _ t] exI [of _ t']) simp
next
  case (step_pause gen now i e)
  show ?thesis
  proof (cases "d' = d")
    case False
    from pause_moves [OF step_pause False] obtain t t' a where "get_target d i = Some t" "target_moved t t'"
      "ck_collection_targets t \<longrightarrow> ck_collection_targets t'" "d' = add_audit a (put_target t' d)" by blast
    then show ?thesis by (intro disjI2 exI [of _ i] exI [of _ t] exI [of _ t']) simp
  qed simp
next
  case (step_abandon gen now i e toks reason n)
  then show ?thesis
    by (auto simp: abandon_pending_continuations_def bindR_Inr_iff Let_def split: if_splits dest!: abandon_rows_frame)
qed

lemma targets_inv_distinct: "targets_inv d \<Longrightarrow> distinct (map tgt_id (collection_targets d))"
  by (simp add: targets_inv_def)

lemma put_target_moved_ids:
  assumes "distinct (map tgt_id (collection_targets d))" and "get_target d i = Some t" and "tgt_id t' = tgt_id t"
  shows "collection_targets (put_target t' d) = map (\<lambda>u. if u = t then t' else u) (collection_targets d)"
proof -
  have t: "t \<in> set (collection_targets d)" using assms(2) by (auto dest: get_id)
  have "inj_on tgt_id (set (collection_targets d))" using assms(1) by (simp add: distinct_map)
  then have "u = t \<longleftrightarrow> tgt_id u = tgt_id t'" if "u \<in> set (collection_targets d)" for u
    using that t assms(3) by (auto dest: inj_onD)
  then show ?thesis by (simp add: put_target_def update_where_def)
qed

lemmas put_target_moved = put_target_moved_ids [OF targets_inv_distinct]

lemma repo_step_inv:
  assumes "targets_inv d" and "repo_step lib registry d d'"
  shows "targets_inv d'"
  using repo_step_cases [OF assms(2)]
proof (elim disjE exE conjE)
  fix i t t'
  assume t: "get_target d i = Some t" and m: "target_moved t t'" and ck: "ck_collection_targets t \<longrightarrow> ck_collection_targets t'"
    and d': "collection_targets d' = collection_targets (put_target t' d)"
  have i: "tgt_id t' = tgt_id t" using m by (auto simp: target_moved_def dest: identity_id)
  have "t \<in> set (collection_targets d)" using t by (auto dest: get_id)
  with assms(1) have "ck_collection_targets t" by (simp add: targets_inv_def list_all_iff)
  moreover have "map tgt_id (collection_targets d') = map tgt_id (collection_targets d)"
    using i by (simp add: d' put_target_moved [OF assms(1) t i])
  moreover from this(1) ck assms(1) have "list_all ck_collection_targets (collection_targets d')"
    by (auto simp: targets_inv_def d' put_target_moved [OF assms(1) t i] list_all_iff)
  ultimately show ?thesis using assms(1) by (simp add: targets_inv_def)
qed (use assms(1) in \<open>simp add: targets_inv_def\<close>)

text \<open>Facts about a target that no step destroys: it is retired; its revision has reached \<open>n\<close>.\<close>

definition target_fact :: "uuid \<times> int \<times> bool \<Rightarrow> db \<Rightarrow> bool" where
  "target_fact = (\<lambda>(i, n, retired) d.
     case get_target d i of None \<Rightarrow> False
     | Some t \<Rightarrow> n \<le> tgt_config_revision t \<and> (retired \<longrightarrow> tgt_status t = Tgt_RETIRED))"

lemma target_fact_step:
  assumes "repo_step lib registry d d'" and "target_fact f d"
  shows "target_fact f d'"
proof -
  obtain j n retired where f: "f = (j, n, retired)" by (metis prod_cases3)
  show ?thesis
    using repo_step_cases [OF assms(1)]
  proof (elim disjE exE conjE)
    fix i t t'
    assume t: "get_target d i = Some t" and m: "target_moved t t'"
      and d': "collection_targets d' = collection_targets (put_target t' d)"
    have i: "tgt_id t' = i" using m t by (auto simp: target_moved_def dest!: identity_id get_id)
    have g: "get_target d' j = get_target (put_target t' d) j" by (simp add: get_target_def d')
    show ?thesis
      using assms(2) m t i by (auto simp: f target_fact_def g target_moved_def split: option.splits)
  qed (use assms(2) in \<open>simp add: f target_fact_def get_target_def\<close>)
qed

interpretation targets: invariant_system targets_inv "repo_step lib registry" targets_inv for lib registry
  by unfold_locales (auto intro: repo_step_inv)

interpretation targets_stable: stable_system "repo_step lib registry" targets_inv target_fact for lib registry
  by unfold_locales (auto intro: repo_step_inv target_fact_step)

subsection \<open>Keyset pages\<close>

lemma due_after_key: "due_after (Some k) t \<longleftrightarrow> k < due_key t"
  by (cases k) (auto simp: due_after_def due_key_def less_prod_def)

lemma due_after_trans: "due_after a u \<Longrightarrow> due_key u < due_key t \<Longrightarrow> due_after a t"
  by (cases a) (auto simp: due_after_key due_after_def [of None] dest: less_trans)

definition due_rows :: "time \<Rightarrow> (time \<times> int \<times> uuid) option \<Rightarrow> db \<Rightarrow> CollectionTarget list" where
  "due_rows now after d = sort_key due_key (filter (\<lambda>t. is_due now t \<and> due_after after t) (collection_targets d))"

lemma due_rows_strict:
  assumes "targets_inv d"
  shows "sorted_wrt (\<lambda>t u. due_key t < due_key u) (due_rows now after d)"
proof -
  have "inj_on due_key (set (collection_targets d))"
    using assms by (auto simp: targets_inv_def distinct_map due_key_def inj_on_def)
  then have "inj_on due_key (set (due_rows now after d))" by (rule inj_on_subset) (auto simp: due_rows_def)
  moreover have "distinct (due_rows now after d)" using assms by (simp add: targets_inv_def due_rows_def distinct_map)
  ultimately have "distinct (map due_key (due_rows now after d))" by (simp add: distinct_map)
  moreover have "sorted (map due_key (due_rows now after d))" by (simp add: due_rows_def)
  ultimately have "sorted_wrt (<) (map due_key (due_rows now after d))" by (simp add: strict_sorted_iff)
  then show ?thesis by (simp add: sorted_wrt_map)
qed

lemma due_rows_resume:
  assumes "targets_inv d" and "take n (due_rows now after d) \<noteq> []"
  shows "due_rows now (Some (due_key (last (take n (due_rows now after d))))) d = drop n (due_rows now after d)"
proof -
  let ?xs = "due_rows now after d" and ?k = "due_key (last (take n (due_rows now after d)))"
  have k: "last (take n ?xs) \<in> set ?xs" using assms(2) by (meson in_set_takeD last_in_set)
  then have after: "due_after after (last (take n ?xs))" by (simp add: due_rows_def)
  have "due_rows now (Some ?k) d = filter (\<lambda>t. ?k < due_key t) ?xs"
    unfolding due_rows_def due_after_key filter_sort filter_filter
    by (intro arg_cong [of _ _ "sort_key due_key"] filter_cong refl)
       (auto simp: due_after_key intro: due_after_trans [OF after, unfolded due_rows_def])
  also have "\<dots> = drop n ?xs"
    by (rule filter_beyond_last [OF due_rows_strict [OF assms(1)] assms(2)])
  finally show ?thesis .
qed

lemma due_page_rows: "due_page now n after d = map due_target (take n (due_rows now after d))"
  by (simp add: due_page_def due_rows_def)

text \<open>The page after a page, and the key the scheduler reads off its last entry.\<close>

lemma due_page_append:
  assumes "targets_inv d" and "due_page now n after d \<noteq> []"
  shows "due_page now n after d
      @ due_page now m (Some (due_effective_due_at (last (due_page now n after d)), due_priority (last (due_page now n after d)),
          due_target_id (last (due_page now n after d)))) d
    = due_page now (n + m) after d"
proof -
  let ?xs = "due_rows now after d"
  have ne: "take n ?xs \<noteq> []" using assms(2) by (simp add: due_page_rows)
  then have "(due_effective_due_at (last (due_page now n after d)), due_priority (last (due_page now n after d)),
          due_target_id (last (due_page now n after d))) = due_key (last (take n ?xs))"
    by (simp add: due_page_rows last_map due_target_def due_key_def)
  then show ?thesis
    using due_rows_resume [OF assms(1) ne] by (simp only: due_page_rows map_append [symmetric] take_add)
qed

subsection \<open>Abandoning\<close>

lemma abandon_rows_effect:
  assumes "abandon_rows lib gen now i e reason rows d = Inr d'"
    and "distinct (map (\<lambda>(c, _). cur_id c) rows)" and "distinct (map cur_id (collection_cursors d))"
    and "\<forall>(c, _)\<in>set rows. c \<in> set (collection_cursors d)"
  shows "collection_cursors d' =
           update_where (\<lambda>r. cur_id r \<in> (\<lambda>(c, _). cur_id c) ` set rows) (abandoned now) (collection_cursors d)
    \<and> length (audit_logs d') = length (audit_logs d) + length rows"
  using assms
proof (induction rows arbitrary: d)
  case Nil
  then show ?case by (simp add: update_where_def)
next
  case (Cons row rows)
  obtain c tok where row: "row = (c, tok)" by (rule prod.exhaust)
  let ?next = "\<lambda>a. put_cursor (abandoned now c) (add_audit a d)"
  from Cons.prems(1) obtain a where rest: "abandon_rows lib gen now i e reason rows (?next a) = Inr d'"
    unfolding row by (auto simp: bindR_Inr_iff split: option.splits)
  have c: "c \<in> set (collection_cursors d)" using Cons.prems(4) row by simp
  have same: "collection_cursors (?next a) = update_where (\<lambda>r. cur_id r = cur_id c) (abandoned now) (collection_cursors d)"
    using c Cons.prems(3)
    by (auto simp: put_cursor_def add_audit_def update_where_def abandoned_def distinct_map dest: inj_onD)
  have "\<forall>(c', _)\<in>set rows. c' \<in> set (collection_cursors (?next a))"
  proof (clarify)
    fix c' tok' assume in_rows: "(c', tok') \<in> set rows"
    then have "c' \<in> set (collection_cursors d)" using Cons.prems(4) by auto
    moreover have "cur_id c' \<noteq> cur_id c" using Cons.prems(2) in_rows by (force simp: row)
    ultimately show "c' \<in> set (collection_cursors (?next a))" unfolding same in_update_where by auto
  qed
  moreover have "map cur_id (collection_cursors (?next a)) = map cur_id (collection_cursors d)"
    unfolding same by (rule map_update_where) (simp add: abandoned_def)
  ultimately have "collection_cursors d' =
      update_where (\<lambda>r. cur_id r \<in> (\<lambda>(c, _). cur_id c) ` set rows) (abandoned now) (collection_cursors (?next a))
      \<and> length (audit_logs d') = length (audit_logs (?next a)) + length rows"
    using rest Cons.prems(2,3) by (intro Cons.IH) (simp_all add: row)
  then show ?case
    unfolding same row using Cons.prems(2)
    by (auto simp: update_where_def abandoned_def add_audit_def put_cursor_def row)
qed

lemma abandon_Inr:
  assumes "abandon_pending_continuations lib gen now i e toks reason d = Inr (n, d')"
    and "pending_cursors d i \<noteq> []"
  shows "length toks = length (pending_cursors d i) \<and> n = length (pending_cursors d i)
    \<and> abandon_rows lib gen now i e reason (zip (pending_cursors d i) toks) d = Inr d'"
  using assms
  by (auto simp: abandon_pending_continuations_def bindR_Inr_iff Let_def split: if_splits dest: mapR_Inr_length)

lemma pending_cursors_abandoned:
  assumes "collection_cursors d' = update_where (\<lambda>r. cur_id r \<in> cur_id ` set (pending_cursors d i)) (abandoned now) (collection_cursors d)"
  shows "pending_cursors d' i = []"
proof -
  have "cur_target_id r \<noteq> Some i \<or> cur_continuation r = None" if "r \<in> set (collection_cursors d')" for r
  proof -
    from that assms obtain r0 where r0: "r0 \<in> set (collection_cursors d)"
      "r = (if cur_id r0 \<in> cur_id ` set (pending_cursors d i) then abandoned now r0 else r0)"
      by (auto simp: in_update_where)
    then show ?thesis by (auto simp: abandoned_def pending_cursors_def)
  qed
  then have "filter (\<lambda>c. cur_target_id c = Some i \<and> cur_continuation c \<noteq> None) (collection_cursors d') = []"
    unfolding filter_empty_conv by auto
  then show ?thesis by (simp add: pending_cursors_def)
qed

lemma pending_none: "pending_cursors d i = [] \<Longrightarrow> \<not> has_pending_continuation d i"
  unfolding pending_cursors_def has_pending_continuation_def list_ex_iff
  by (drule arg_cong [of _ _ set]) auto

subsection \<open>Properties\<close>

text \<open>Property C11.  A revision is a compare-and-swap: it succeeds only at the expected revision, with no
  running run and no pending continuation, moves the target to the next revision along a permitted status
  transition, keeps its identity and the table's check constraint, records one audit row and leaves every
  other target alone.\<close>

theorem revise_is_cas:
  assumes "revise lib registry gen now i e vals d = Inr (r, d')"
  shows "\<exists>t t'. get_target d i = Some t \<and> tgt_config_revision t = e \<and> \<not> has_running d i \<and> \<not> has_pending_continuation d i
    \<and> r = e + 1 \<and> get_target d' i = Some t' \<and> tgt_config_revision t' = r \<and> target_identity t' = target_identity t
    \<and> (tgt_status t' = tgt_status t \<or> tgt_status t' \<in> transitions (tgt_status t)) \<and> ck_collection_targets t'
    \<and> length (audit_logs d') = length (audit_logs d) + 1 \<and> list_all (\<lambda>j. j = i \<or> get_target d' j = get_target d j) (map tgt_id (collection_targets d))"
proof -
  obtain t t' a where t: "get_target d i = Some t" "tgt_config_revision t = e" "target_moved t t'"
    "ck_collection_targets t'" "tgt_config_revision t' = e + 1" "r = e + 1" "d' = add_audit a (put_target t' d)"
    using revise_moves [OF assms] by blast
  have "tgt_id t' = i" using t by (auto simp: target_moved_def dest!: identity_id get_id)
  moreover have "\<not> has_running d i" "\<not> has_pending_continuation d i" using revise_Inr [OF assms] by blast+
  moreover have "length (audit_logs d') = length (audit_logs d) + 1" by (simp add: t(7) add_audit_def put_target_def)
  ultimately show ?thesis
    using t by - (rule exI [of _ t], rule exI [of _ t'], auto simp: target_moved_def list_all_iff)
qed

text \<open>No lost update and no revival: after a successful revision no later state, whatever
  repository operations ran in between, accepts another revision at the same expected revision, and a target
  that the revision retired stays retired.\<close>

theorem revision_never_reused:
  assumes "targets_inv d" and "revise lib registry gen now i e vals d = Inr (r, d')"
    and "(repo_step lib registry)\<^sup>*\<^sup>* d' d''"
  shows "isl (revise lib registry gen2 now2 i e vals2 d'')
    \<and> (target_fact (i, r, True) d' \<longrightarrow> target_fact (i, r, True) d'')"
proof -
  obtain t t' a where t: "get_target d i = Some t" "target_moved t t'" "tgt_config_revision t' = r" "r = e + 1"
    "d' = add_audit a (put_target t' d)" using revise_moves [OF assms(2)] by blast
  have "tgt_id t' = i" using t by (auto simp: target_moved_def dest!: identity_id get_id)
  then have "target_fact (i, r, False) d'" using t by (simp add: target_fact_def)
  moreover have inv: "targets_inv d'" using repo_step_inv [OF assms(1) step_revise [OF assms(2)]] .
  ultimately have later: "target_fact (i, r, False) d''"
    using targets_stable.steps_fact [OF assms(3)] by blast
  have "isl (revise lib registry gen2 now2 i e vals2 d'')"
  proof (rule ccontr)
    assume "\<not> ?thesis"
    then obtain r2 d2 where "revise lib registry gen2 now2 i e vals2 d'' = Inr (r2, d2)"
      by (cases "revise lib registry gen2 now2 i e vals2 d''") auto
    from revise_moves [OF this] later t(4) show False by (auto simp: target_fact_def)
  qed
  then show ?thesis using targets_stable.steps_fact [OF assms(3) inv] by blast
qed

text \<open>A dispatch that was issued before a revision is dead: in every later state loading the
  target at the old revision is refused with \<open>stale_target_revision\<close>.\<close>

theorem stale_dispatch_is_refused:
  assumes "targets_inv d" and "revise lib registry gen now i e vals d = Inr (r, d')"
    and "(repo_step lib registry)\<^sup>*\<^sup>* d' d''"
  shows "load_for_execution lib registry i e d'' = repo_error ''stale_target_revision''"
proof -
  obtain t t' a where t: "get_target d i = Some t" "target_moved t t'" "tgt_config_revision t' = e + 1"
    "d' = add_audit a (put_target t' d)" using revise_moves [OF assms(2)] by blast
  have "tgt_id t' = i" using t by (auto simp: target_moved_def dest!: identity_id get_id)
  then have "target_fact (i, e + 1, False) d'" using t by (simp add: target_fact_def)
  moreover have "targets_inv d'" using repo_step_inv [OF assms(1) step_revise [OF assms(2)]] .
  ultimately have "target_fact (i, e + 1, False) d''"
    using targets_stable.steps_fact [OF assms(3)] by blast
  then show ?thesis by (auto simp: target_fact_def load_for_execution_def split: option.splits)
qed

text \<open>Keyset pages are the pages of one sorted list: the page after the last key of a page
  continues it exactly, so nothing is skipped or repeated.\<close>

theorem due_pages_are_offsets:
  assumes "targets_inv d" and "due_page now n after d \<noteq> []"
  shows "due_page now n after d
      @ due_page now m (Some (let l = last (due_page now n after d) in (due_effective_due_at l, due_priority l, due_target_id l))) d
    = due_page now (n + m) after d"
  using due_page_append [OF assms] by (simp add: Let_def)

text \<open>Abandoning the reviewed continuations clears every pending continuation of the target,
  writes one audit row for each, and touches no checkpoint, run or target, so a revision is no longer
  blocked by them.\<close>

theorem abandon_clears_pending:
  assumes "distinct (map cur_id (collection_cursors d))"
    and "abandon_pending_continuations lib gen now i e toks reason d = Inr (n, d')"
  shows "n = length (pending_cursors d i) \<and> pending_cursors d' i = [] \<and> \<not> has_pending_continuation d' i
    \<and> map cur_cursor_value (collection_cursors d') = map cur_cursor_value (collection_cursors d)
    \<and> collection_targets d' = collection_targets d \<and> collection_runs d' = collection_runs d
    \<and> length (audit_logs d') = length (audit_logs d) + n"
proof (cases "pending_cursors d i = []")
  case True
  with assms(2) have "n = 0 \<and> d' = d"
    by (auto simp: abandon_pending_continuations_def bindR_Inr_iff split: if_splits)
  with True show ?thesis by (simp add: pending_none)
next
  case False
  let ?rows = "zip (pending_cursors d i) toks"
  have len: "length toks = length (pending_cursors d i)" and n: "n = length (pending_cursors d i)"
    and rows: "abandon_rows lib gen now i e reason ?rows d = Inr d'"
    using abandon_Inr [OF assms(2) False] by blast+
  have ids: "map (\<lambda>(c, _). cur_id c) ?rows = map cur_id (pending_cursors d i)"
    using len by (simp add: zip_map_fst_snd case_prod_unfold flip: map_map [unfolded comp_def])
  have "distinct (map cur_id (filter P (collection_cursors d)))" for P
    using assms(1) by (simp add: distinct_map_filter)
  then have "distinct (map cur_id (pending_cursors d i))"
    unfolding pending_cursors_def distinct_map by (auto simp: distinct_map)
  moreover have "set (pending_cursors d i) \<subseteq> set (collection_cursors d)" by (auto simp: pending_cursors_def)
  ultimately have eff: "collection_cursors d' =
      update_where (\<lambda>r. cur_id r \<in> (\<lambda>(c, _). cur_id c) ` set ?rows) (abandoned now) (collection_cursors d)
      \<and> length (audit_logs d') = length (audit_logs d) + length ?rows"
    using rows assms(1) ids by (intro abandon_rows_effect) (auto dest: set_zip_leftD)
  moreover have "(\<lambda>(c, _). cur_id c) ` set ?rows = cur_id ` set (pending_cursors d i)"
    using arg_cong [OF ids, of set] by simp
  ultimately have cs: "collection_cursors d' =
      update_where (\<lambda>r. cur_id r \<in> cur_id ` set (pending_cursors d i)) (abandoned now) (collection_cursors d)" by simp
  then have "pending_cursors d' i = []" by (rule pending_cursors_abandoned)
  moreover have "map cur_cursor_value (collection_cursors d') = map cur_cursor_value (collection_cursors d)"
    unfolding cs by (rule map_update_where) (simp add: abandoned_def)
  ultimately show ?thesis
    using eff n len abandon_rows_frame [OF rows] by (simp add: pending_none)
qed

subsection \<open>Closed instances\<close>

abbreviation sample_revise :: "(int \<times> db) res" where
  "sample_revise \<equiv> revise sample_lib operation_registry (\<lambda>_. ''x'') 5 ''t1'' 1 [(''status'', JStr ''retired'')] sample_db"

lemma sample_revises: "\<exists>d'. sample_revise = Inr (2, d')"
proof -
  have "map_sum (\<lambda>_. ()) fst sample_revise = Inr 2" by code_simp
  then show ?thesis by (cases sample_revise) auto
qed

lemma sample_targets_inv: "targets_inv sample_db"
  by code_simp

theorem revise_is_cas_witness:
  "\<exists>d' t'. sample_revise = Inr (2, d') \<and> get_target d' ''t1'' = Some t' \<and> tgt_config_revision t' = 2
     \<and> target_identity t' = target_identity sample_target \<and> length (audit_logs d') = 1"
proof -
  obtain d' where d': "sample_revise = Inr (2, d')" using sample_revises by blast
  have "get_target sample_db ''t1'' = Some sample_target" "length (audit_logs sample_db) = 0"
    by (simp_all add: sample_db_def empty_db_def get_target_def sample_target_def)
  with d' revise_is_cas [OF d'] show ?thesis by auto
qed

theorem revision_never_reused_witness:
  "\<exists>d'. sample_revise = Inr (2, d')
     \<and> isl (revise sample_lib operation_registry (\<lambda>_. ''y'') 6 ''t1'' 1 [(''status'', JStr ''active'')] d')"
proof -
  obtain d' where "sample_revise = Inr (2, d')" using sample_revises by blast
  with revision_never_reused [OF sample_targets_inv this rtranclp.rtrancl_refl] show ?thesis by blast
qed

theorem stale_dispatch_is_refused_witness:
  "\<exists>d'. sample_revise = Inr (2, d')
     \<and> load_for_execution sample_lib operation_registry ''t1'' 1 d' = repo_error ''stale_target_revision''"
proof -
  obtain d' where "sample_revise = Inr (2, d')" using sample_revises by blast
  with stale_dispatch_is_refused [OF sample_targets_inv this rtranclp.rtrancl_refl] show ?thesis by blast
qed

definition sample_two :: db where
  "sample_two = sample_db\<lparr>collection_targets := [sample_target\<lparr>tgt_id := ''t2'', tgt_priority := 200\<rparr>, sample_target]\<rparr>"

theorem due_pages_are_offsets_witness:
  "due_page 9 1 None sample_two @ due_page 9 1 (Some (0, 100, ''t1'')) sample_two = due_page 9 2 None sample_two
   \<and> map due_target_id (due_page 9 2 None sample_two) = [''t1'', ''t2'']"
proof -
  have inv: "targets_inv sample_two" by code_simp
  have one: "due_page 9 1 None sample_two =
      [\<lparr>due_target_id = ''t1'', due_effective_due_at = 0, due_priority = 100, due_retry_due = False\<rparr>]" by code_simp
  have two: "map due_target_id (due_page 9 2 None sample_two) = [''t1'', ''t2'']" by code_simp
  show ?thesis
    using due_pages_are_offsets [OF inv, of 9 1 None 1] two unfolding one by (simp add: one [simplified] Let_def numeral_2_eq_2)
qed

definition sample_pending :: db where
  "sample_pending = sample_db\<lparr>collection_targets := [sample_target\<lparr>tgt_status := Tgt_PAUSED\<rparr>],
     collection_cursors := [sample_cursor], collection_runs := [sample_run]\<rparr>"

abbreviation sample_abandon :: "(nat \<times> db) res" where
  "sample_abandon \<equiv> abandon_pending_continuations sample_lib (\<lambda>_. ''x'') 5 ''t1'' 1
     [\<lparr>tok_cursor_version = 1, tok_run_mode = ''normal'', tok_bound_run_id = ''run1'', tok_continuation_hash = sample_hash\<rparr>]
     ''operator_reviewed_reset'' sample_pending"

theorem abandon_clears_pending_witness:
  "\<exists>d'. sample_abandon = Inr (1, d') \<and> length (pending_cursors sample_pending ''t1'') = 1
     \<and> pending_cursors d' ''t1'' = [] \<and> length (audit_logs d') = length (audit_logs sample_pending) + 1"
proof -
  have "map_sum (\<lambda>_. ()) fst sample_abandon = Inr 1" by code_simp
  then obtain d' where d': "sample_abandon = Inr (1, d')" by (cases sample_abandon) auto
  have "distinct (map cur_id (collection_cursors sample_pending))" by code_simp
  from abandon_clears_pending [OF this d'] d' show ?thesis by auto
qed

end
