(* ===== verification/Cursors.thy ===== *)
theory Cursors
  imports Samples
begin

text \<open>
  Versioned cursor validation (\<open>collection/cursors.py\<close>): decoding of the stored JSON cursor, the
  ordered cursor position and the decision whether a proposed cursor may replace the current one.
  The lemmas show that a chain of accepted cursors never moves backward and, under the strict
  strategy, never repeats a position.
\<close>

datatype CursorPosition = CursorPosition (published_at: time) (provider_item_id: string)

text \<open>\<open>@dataclass(order=True)\<close>: positions compare as the tuple of their fields.\<close>

instantiation CursorPosition :: linorder
begin

definition less_eq_CursorPosition :: "CursorPosition \<Rightarrow> CursorPosition \<Rightarrow> bool" where
  "p \<le> q \<longleftrightarrow> (published_at p, provider_item_id p) \<le> (published_at q, provider_item_id q)"

definition less_CursorPosition :: "CursorPosition \<Rightarrow> CursorPosition \<Rightarrow> bool" where
  "p < q \<longleftrightarrow> (published_at p, provider_item_id p) < (published_at q, provider_item_id q)"

instance
  by standard
    (auto simp: less_eq_CursorPosition_def less_CursorPosition_def intro: CursorPosition.expand)

end

datatype CursorDecision = CursorDecision (action: string) (candidate: "CursorPosition option")

definition decode_cursor :: "pylib \<Rightarrow> string option \<Rightarrow> CursorPosition option res" where
  "decode_cursor L value =
     (case value of
        None \<Rightarrow> Inr None
      | Some text \<Rightarrow>
          (case json_loads L text of
             Some (JObj item) \<Rightarrow>
               (case (map_of item ''published_at'', map_of item ''provider_item_id'') of
                  (Some p, Some i) \<Rightarrow>
                    (case fromisoformat L (replace_Z (py_str L p)) of
                       None \<Rightarrow> Inl (CursorContractError ''cursor_invalid'')
                     | Some (published, aware) \<Rightarrow>
                         (if \<not> aware \<or> py_str L i = []
                          then Inl (CursorContractError ''cursor_invalid'')
                          else Inr (Some (CursorPosition published (py_str L i)))))
                | _ \<Rightarrow> Inl (CursorContractError ''cursor_invalid''))
           | _ \<Rightarrow> Inl (CursorContractError ''cursor_invalid'')))"

definition decide_cursor ::
  "pylib \<Rightarrow> string \<Rightarrow> string option \<Rightarrow> string option \<Rightarrow> CursorDecision res" where
  "decide_cursor L strategy current cand =
     (case strategy_of strategy of
        None \<Rightarrow> Inl (CursorContractError ''cursor_strategy_invalid'')
      | Some normalized \<Rightarrow>
          (if normalized \<notin> {STRICT_INCREMENTAL, SNAPSHOT_WATERMARK, COMPOUND}
           then Inl (CursorContractError ''cursor_strategy_invalid'')
           else bindR (decode_cursor L current) (\<lambda>previous.
                bindR (decode_cursor L cand) (\<lambda>proposed.
                  case proposed of
                    None \<Rightarrow> Inr (CursorDecision ''unchanged'' None)
                  | Some q \<Rightarrow>
                      (case previous of
                         None \<Rightarrow> Inr (CursorDecision ''advance'' (Some q))
                       | Some p \<Rightarrow>
                           (if q > p then Inr (CursorDecision ''advance'' (Some q))
                            else if q = p \<and> normalized \<in> {SNAPSHOT_WATERMARK, COMPOUND}
                            then Inr (CursorDecision ''no_new_items'' (Some q))
                            else Inl (CursorContractError ''cursor_not_successor'')))))))"

text \<open>
  A run of checkpoints: each proposed cursor is decided against the stored one and, once accepted,
  becomes the stored one, as the page loop of the control plane does.
\<close>

fun checkpoint_chain ::
  "pylib \<Rightarrow> string \<Rightarrow> string option \<Rightarrow> string list \<Rightarrow> string option res" where
  "checkpoint_chain L strategy current [] = Inr current"
| "checkpoint_chain L strategy current (c # cs) =
     bindR (decide_cursor L strategy current (Some c))
       (\<lambda>_. checkpoint_chain L strategy (Some c) cs)"

definition position_of :: "pylib \<Rightarrow> string \<Rightarrow> CursorPosition option" where
  "position_of L c = (case decode_cursor L (Some c) of Inr (Some p) \<Rightarrow> Some p | _ \<Rightarrow> None)"

lemma decode_cursor_Some_not_None: "decode_cursor L (Some c) \<noteq> Inr None"
  by (auto simp: decode_cursor_def split: option.splits json.splits)

lemma decode_cursor_error: "decode_cursor L v = Inl e \<Longrightarrow> e = CursorContractError ''cursor_invalid''"
  by (auto simp: decode_cursor_def split: option.splits json.splits if_splits)

lemma decide_cursor_error: "decide_cursor L s cur cand = Inl e \<Longrightarrow> \<exists>m. e = CursorContractError m"
  by (auto simp: decide_cursor_def bindR_Inl_iff dest: decode_cursor_error
           split: option.splits if_splits)

lemma decide_cursor_acceptsD:
  assumes "decide_cursor L s cur (Some c) = Inr d"
  shows "\<exists>q. position_of L c = Some q \<and> candidate d = Some q
           \<and> (action d = ''advance'' \<or> action d = ''no_new_items'')
           \<and> (\<forall>b p. cur = Some b \<longrightarrow> position_of L b = Some p \<longrightarrow>
                (action d = ''advance'' \<longrightarrow> p < q) \<and> (action d = ''no_new_items'' \<longrightarrow> p = q))
           \<and> (s = ''strict_incremental'' \<longrightarrow> action d = ''advance'')"
proof -
  from assms obtain n where n: "strategy_of s = Some n"
    by (auto simp: decide_cursor_def split: option.splits)
  from assms n obtain prev where prev: "decode_cursor L cur = Inr prev"
    by (auto simp: decide_cursor_def bindR_Inr_iff split: if_splits)
  have "\<exists>x. decode_cursor L (Some c) = Inr x"
    using assms n prev
    by (cases "decode_cursor L (Some c)") (simp_all add: decide_cursor_def split: if_splits)
  then obtain q where q: "decode_cursor L (Some c) = Inr (Some q)"
    using decode_cursor_Some_not_None [of L c] by (metis not_Some_eq)
  have strict: "n = STRICT_INCREMENTAL" if "s = ''strict_incremental''"
    using n that by (simp add: strategy_of_def)
  show ?thesis
    using assms n prev q strict
    by (intro exI [of _ q])
      (auto simp: decide_cursor_def position_of_def split: if_splits option.splits)
qed

lemma checkpoint_chain_positions:
  assumes "checkpoint_chain L s cur cs = Inr r"
  shows "\<exists>ps. list_all2 (\<lambda>c p. position_of L c = Some p) cs ps
           \<and> sorted_wrt (if s = ''strict_incremental'' then (<) else (\<le>)) ps
           \<and> (\<forall>b p q. cur = Some b \<longrightarrow> position_of L b = Some p \<longrightarrow> q \<in> set ps \<longrightarrow>
                (if s = ''strict_incremental'' then p < q else p \<le> q))"
  using assms
proof (induction cs arbitrary: cur)
  case Nil
  then show ?case by simp
next
  case (Cons c cs)
  let ?ord = "if s = ''strict_incremental'' then (<) else (\<le>) :: CursorPosition \<Rightarrow> _"
  from Cons.prems obtain d where d: "decide_cursor L s cur (Some c) = Inr d"
    and rest: "checkpoint_chain L s (Some c) cs = Inr r"
    by (auto simp: bindR_Inr_iff)
  from decide_cursor_acceptsD [OF d] obtain q where q: "position_of L c = Some q"
    and act: "action d = ''advance'' \<or> action d = ''no_new_items''"
    and pos: "\<forall>b p. cur = Some b \<longrightarrow> position_of L b = Some p \<longrightarrow>
           (action d = ''advance'' \<longrightarrow> p < q) \<and> (action d = ''no_new_items'' \<longrightarrow> p = q)"
    and strict: "s = ''strict_incremental'' \<longrightarrow> action d = ''advance''"
    by auto
  have after: "?ord p q" if "cur = Some b" "position_of L b = Some p" for b p
    using pos that act strict by (cases "s = ''strict_incremental''") auto
  from Cons.IH [OF rest] obtain ps where ps: "list_all2 (\<lambda>c p. position_of L c = Some p) cs ps"
    "sorted_wrt ?ord ps" "\<forall>x\<in>set ps. ?ord q x"
    using q by fastforce
  have "list_all2 (\<lambda>c p. position_of L c = Some p) (c # cs) (q # ps)"
    using ps q by simp
  moreover have "sorted_wrt ?ord (q # ps)"
    using ps by simp
  moreover have "\<forall>b p x. cur = Some b \<longrightarrow> position_of L b = Some p \<longrightarrow> x \<in> set (q # ps) \<longrightarrow>
                   (if s = ''strict_incremental'' then p < x else p \<le> x)"
    using after ps(3) by (cases "s = ''strict_incremental''") force+
  ultimately show ?case by blast
qed

text \<open>
  Property C8. Checkpoints never move backward: along any sequence of cursors that the decision
  accepts, the decoded positions increase (strictly under the strict incremental strategy, so no
  position is ever collected twice there) and all of them are past the position the chain started
  from.
\<close>

theorem checkpoint_chain_monotone:
  assumes "checkpoint_chain L s cur cs = Inr r"
  shows "\<exists>ps. list_all2 (\<lambda>c p. position_of L c = Some p) cs ps
           \<and> (if s = ''strict_incremental'' then sorted_wrt (<) ps else sorted ps)
           \<and> (\<forall>b p q. cur = Some b \<longrightarrow> position_of L b = Some p \<longrightarrow> q \<in> set ps \<longrightarrow> p \<le> q)"
proof -
  from checkpoint_chain_positions [OF assms] obtain ps where
    "list_all2 (\<lambda>c p. position_of L c = Some p) cs ps"
    "sorted_wrt (if s = ''strict_incremental'' then (<) else (\<le>)) ps"
    "\<forall>b p q. cur = Some b \<longrightarrow> position_of L b = Some p \<longrightarrow> q \<in> set ps \<longrightarrow>
       (if s = ''strict_incremental'' then p < q else p \<le> q)" by blast
  then show ?thesis
    by (intro exI [of _ ps]) (auto split: if_splits intro: less_imp_le)
qed

theorem checkpoint_chain_monotone_witness:
  "\<exists>ps. list_all2 (\<lambda>c p. position_of sample_lib c = Some p) [epoch_cursor, later_cursor] ps
     \<and> sorted_wrt (<) ps"
proof -
  have "decode_cursor sample_lib (Some epoch_cursor) = Inr (Some (CursorPosition 0 ''a''))"
    "decode_cursor sample_lib (Some later_cursor) = Inr (Some (CursorPosition 1000000 ''b''))"
    by (simp_all add: decode_cursor_def sample_lib_def epoch_cursor_def later_cursor_def
        epoch_text_def sample_isoformat_def sample_fromisoformat_def later_text_def replace_Z_def)
  then have "checkpoint_chain sample_lib ''strict_incremental'' None [epoch_cursor, later_cursor]
      = Inr (Some later_cursor)"
    by (simp add: decide_cursor_def strategy_of_def less_CursorPosition_def decode_cursor_def [of _ None])
  from checkpoint_chain_monotone [OF this] show ?thesis by simp
qed

end
