(* ===== verification/Projection_Worker.thy ===== *)
theory Projection_Worker
  imports Safe_Projection Transition_Systems
begin

text \<open>
  The validation worker of \<open>safe_projection/worker.py\<close>: recovery of stale claims, claiming,
  validation of one row and the batch loop.  Each of the first three is one transaction, and
  \<open>worker_step\<close> interleaves the transactions of any number of workers with the insertion of new rows.
  \<open>locked\<close> tells which rows another transaction holds (\<open>FOR UPDATE SKIP LOCKED\<close>).  An exception other
  than \<open>ProjectionContractError\<close> leaves the transaction rolled back and ends the batch.
\<close>

record ProjectionValidationReport =
  pvr_claimed :: nat
  pvr_ready :: nat
  pvr_blocked :: nat
  pvr_recovered :: nat

definition recover_row :: "int \<Rightarrow> time \<Rightarrow> SafeFactProjection \<Rightarrow> SafeFactProjection" where
  "recover_row max_attempts now row =
     (if sfp_attempt_count row \<ge> max_attempts
      then row\<lparr>sfp_processing_status := Proj_BLOCKED, sfp_quality_status := Quality_BLOCKED,
               sfp_safe_error_code := Some ''projection_retry_exhausted'',
               sfp_processed_at := Some now, sfp_next_retry_at := None, sfp_updated_at := now\<rparr>
      else row\<lparr>sfp_processing_status := Proj_RETRY,
               sfp_safe_error_code := Some ''projection_validation_stale'',
               sfp_next_retry_at := Some now, sfp_updated_at := now\<rparr>)"

definition stale_rows :: "(uuid \<Rightarrow> bool) \<Rightarrow> time \<Rightarrow> time \<Rightarrow> nat \<Rightarrow> db \<Rightarrow> SafeFactProjection list" where
  "stale_rows locked stale_after now limit d =
     take limit (sort_key (\<lambda>r. (sfp_updated_at r, sfp_id r))
       (filter (\<lambda>r. sfp_processing_status r = Proj_VALIDATING \<and> sfp_updated_at r < now - stale_after
                    \<and> \<not> locked (sfp_id r)) (safe_fact_projections d)))"

text \<open>The mutation of the loaded rows and its flush.\<close>

definition update_projections ::
  "SafeFactProjection list \<Rightarrow> (SafeFactProjection \<Rightarrow> SafeFactProjection) \<Rightarrow> db \<Rightarrow> db" where
  "update_projections rows f d =
     d\<lparr>safe_fact_projections :=
         update_where (\<lambda>r. sfp_id r \<in> sfp_id ` set rows) f (safe_fact_projections d)\<rparr>"

definition worker_recover_stale ::
  "(uuid \<Rightarrow> bool) \<Rightarrow> int \<Rightarrow> time \<Rightarrow> time \<Rightarrow> nat \<Rightarrow> db \<Rightarrow> nat \<times> db" where
  "worker_recover_stale locked max_attempts stale_after now limit d =
     (let rows = stale_rows locked stale_after now limit d
      in (length rows, update_projections rows (recover_row max_attempts now) d))"

definition due_for_validation :: "time \<Rightarrow> SafeFactProjection \<Rightarrow> bool" where
  "due_for_validation now r =
     (sfp_processing_status r \<in> {Proj_PENDING, Proj_RETRY}
      \<and> (case sfp_next_retry_at r of None \<Rightarrow> True | Some t \<Rightarrow> t \<le> now))"

definition worker_claim_rows :: "(uuid \<Rightarrow> bool) \<Rightarrow> nat \<Rightarrow> time \<Rightarrow> db \<Rightarrow> SafeFactProjection list" where
  "worker_claim_rows locked limit now d =
     take limit (sort_key (\<lambda>r. (sfp_created_at r, sfp_id r))
       (filter (\<lambda>r. due_for_validation now r \<and> \<not> locked (sfp_id r)) (safe_fact_projections d)))"

definition claim_projection :: "time \<Rightarrow> SafeFactProjection \<Rightarrow> SafeFactProjection" where
  "claim_projection now row =
     row\<lparr>sfp_processing_status := Proj_VALIDATING, sfp_attempt_count := sfp_attempt_count row + 1,
         sfp_updated_at := now, sfp_safe_error_code := None, sfp_next_retry_at := None\<rparr>"

definition worker_claim :: "(uuid \<Rightarrow> bool) \<Rightarrow> nat \<Rightarrow> time \<Rightarrow> db \<Rightarrow> uuid list \<times> db" where
  "worker_claim locked limit now d =
     (let rows = worker_claim_rows locked limit now d
      in (map sfp_id rows, update_projections rows (claim_projection now) d))"

text \<open>The \<open>try\<close> block of \<open>_validate_one\<close>: normalise, classify and compare the hash.\<close>

definition validate_row ::
  "pylib \<Rightarrow> SafeFactProjection \<Rightarrow> (dict \<times> SafeProjectionQualityStatus) res" where
  "validate_row lib row =
     bindR (normalize_and_classify lib (sfp_provider row) (sfp_operation_key row)
              (sfp_projection_schema_version row) (sfp_factual_payload row)) (\<lambda>(normalized, quality).
     bindR (canonical_projection_hash lib normalized) (\<lambda>h.
       if h \<noteq> sfp_projection_hash row then contract_error ''projection_hash_mismatch''
       else Inr (normalized, quality)))"

definition block_row :: "string \<Rightarrow> time \<Rightarrow> SafeFactProjection \<Rightarrow> SafeFactProjection" where
  "block_row code now row =
     row\<lparr>sfp_processing_status := Proj_BLOCKED, sfp_quality_status := Quality_BLOCKED,
         sfp_safe_error_code := Some code, sfp_processed_at := Some now, sfp_updated_at := now\<rparr>"

definition ready_row ::
  "dict \<Rightarrow> SafeProjectionQualityStatus \<Rightarrow> time \<Rightarrow> SafeFactProjection \<Rightarrow> SafeFactProjection" where
  "ready_row normalized quality now row =
     row\<lparr>sfp_factual_payload := normalized, sfp_quality_status := quality,
         sfp_processing_status := Proj_READY, sfp_safe_error_code := None,
         sfp_processed_at := Some now, sfp_updated_at := now\<rparr>"

definition worker_validate_one :: "pylib \<Rightarrow> uuid \<Rightarrow> time \<Rightarrow> db \<Rightarrow> (bool \<times> db) res" where
  "worker_validate_one lib identity now d =
     (case get_projection d identity of
        None \<Rightarrow> Inr (False, d)
      | Some row \<Rightarrow>
          (if sfp_processing_status row \<noteq> Proj_VALIDATING then Inr (False, d)
           else case validate_row lib row of
             Inr (normalized, quality) \<Rightarrow> Inr (True, put_projection (ready_row normalized quality now row) d)
           | Inl (ProjectionContractError m) \<Rightarrow> Inr (False, put_projection (block_row m now row) d)
           | Inl e \<Rightarrow> Inl e))"

fun worker_validate_all ::
  "pylib \<Rightarrow> time \<Rightarrow> uuid list \<Rightarrow> nat \<Rightarrow> nat \<Rightarrow> db \<Rightarrow> (nat \<times> nat) res \<times> db" where
  "worker_validate_all lib now [] ready blocked d = (Inr (ready, blocked), d)"
| "worker_validate_all lib now (i # ids) ready blocked d =
     (case worker_validate_one lib i now d of
        Inl e \<Rightarrow> (Inl e, d)
      | Inr (True, d') \<Rightarrow> worker_validate_all lib now ids (Suc ready) blocked d'
      | Inr (False, d') \<Rightarrow> worker_validate_all lib now ids ready (Suc blocked) d')"

definition worker_process_batch ::
  "pylib \<Rightarrow> (uuid \<Rightarrow> bool) \<Rightarrow> int \<Rightarrow> time \<Rightarrow> time \<Rightarrow> int \<Rightarrow> db \<Rightarrow> ProjectionValidationReport res \<times> db" where
  "worker_process_batch lib locked max_attempts stale_after now limit d =
     (if \<not> (1 \<le> limit \<and> limit \<le> 500) then (Inl (ValueError ''projection_worker_limit_invalid''), d)
      else let (recovered, d1) = worker_recover_stale locked max_attempts stale_after now (nat limit) d;
               (claimed, d2) = worker_claim locked (nat limit) now d1;
               (r, d3) = worker_validate_all lib now claimed 0 0 d2
           in (bindR r (\<lambda>(ready, blocked).
                 Inr \<lparr>pvr_claimed = length claimed, pvr_ready = ready, pvr_blocked = blocked,
                      pvr_recovered = recovered\<rparr>), d3))"

subsection \<open>The worker as a state machine\<close>

text \<open>A row as the store inserts it.\<close>

definition fresh_projection :: "SafeFactProjection \<Rightarrow> bool" where
  "fresh_projection r =
     (sfp_processing_status r = Proj_PENDING \<and> sfp_attempt_count r = 0)"

inductive worker_step :: "pylib \<Rightarrow> int \<Rightarrow> db \<Rightarrow> db \<Rightarrow> bool" for lib :: pylib and max_attempts :: int where
  step_recover: "worker_step lib max_attempts d (snd (worker_recover_stale locked max_attempts stale now limit d))"
| step_claim: "worker_step lib max_attempts d (snd (worker_claim locked limit now d))"
| step_validate: "worker_validate_one lib i now d = Inr (ok, d') \<Longrightarrow> worker_step lib max_attempts d d'"

inductive projection_step :: "pylib \<Rightarrow> int \<Rightarrow> db \<Rightarrow> db \<Rightarrow> bool" for lib :: pylib and max_attempts :: int where
  step_worker: "worker_step lib max_attempts d d' \<Longrightarrow> projection_step lib max_attempts d d'"
| step_insert: "fresh_projection r \<Longrightarrow> sfp_id r \<notin> sfp_id ` set (safe_fact_projections d) \<Longrightarrow>
     projection_step lib max_attempts d (d\<lparr>safe_fact_projections := safe_fact_projections d @ [r]\<rparr>)"

text \<open>What a row promises: the attempts are bounded by the budget, and a ready row holds a payload
  that is the normal form of its contract and whose canonical hash is the stored one.\<close>

definition row_valid :: "pylib \<Rightarrow> SafeFactProjection \<Rightarrow> bool" where
  "row_valid lib r \<longleftrightarrow>
     normalize_and_classify lib (sfp_provider r) (sfp_operation_key r) (sfp_projection_schema_version r)
       (sfp_factual_payload r) = Inr (sfp_factual_payload r, sfp_quality_status r)
     \<and> canonical_projection_hash lib (sfp_factual_payload r) = Inr (sfp_projection_hash r)"

fun attempts_ok :: "int \<Rightarrow> SafeProjectionProcessingStatus \<Rightarrow> int \<Rightarrow> bool" where
  "attempts_ok m Proj_PENDING n = (n = 0)"
| "attempts_ok m Proj_RETRY n = (1 \<le> n \<and> n < m)"
| "attempts_ok m _ n = (1 \<le> n \<and> n \<le> m)"

definition projection_ok :: "pylib \<Rightarrow> int \<Rightarrow> SafeFactProjection \<Rightarrow> bool" where
  "projection_ok lib m r \<longleftrightarrow>
     attempts_ok m (sfp_processing_status r) (sfp_attempt_count r)
     \<and> (sfp_processing_status r = Proj_READY \<longrightarrow>
          row_valid lib r \<and> sfp_safe_error_code r = None \<and> sfp_processed_at r \<noteq> None)
     \<and> (sfp_processing_status r = Proj_BLOCKED \<longrightarrow>
          sfp_quality_status r = Quality_BLOCKED \<and> sfp_safe_error_code r \<noteq> None)"

definition projections_inv :: "pylib \<Rightarrow> int \<Rightarrow> db \<Rightarrow> bool" where
  "projections_inv lib m d \<longleftrightarrow>
     (\<forall>r\<in>set (safe_fact_projections d). projection_ok lib m r)
     \<and> distinct (map sfp_id (safe_fact_projections d))"

definition projections_init :: "db \<Rightarrow> bool" where
  "projections_init d \<longleftrightarrow> safe_fact_projections d = []"

lemma validate_row_valid:
  assumes "iso_laws lib" and "validate_row lib row = Inr (p, q)"
  shows "row_valid lib (ready_row p q now row)"
proof -
  have v: "validate_factual_payload lib (sfp_provider row) (sfp_operation_key row)
             (sfp_projection_schema_version row) (sfp_factual_payload row) = Inr p"
    and q: "q = quality_of (sfp_provider row) (sfp_operation_key row) p"
    and h: "canonical_projection_hash lib p = Inr (sfp_projection_hash row)"
    using assms(2) by (auto simp: validate_row_def normalize_and_classify_def bindR_Inr_iff split: if_splits)
  from validated_fix [OF assms(1) v] q h show ?thesis
    by (simp add: row_valid_def ready_row_def normalize_and_classify_def)
qed

subsection \<open>Every transaction keeps the invariant\<close>

lemma selected_row:
  assumes "distinct (map sfp_id (safe_fact_projections d))" and "set rows \<subseteq> set (safe_fact_projections d)"
    and "r \<in> set (safe_fact_projections d)" and "sfp_id r \<in> sfp_id ` set rows"
  shows "r \<in> set rows"
proof -
  from assms(4) obtain r' where r': "r' \<in> set rows" "sfp_id r' = sfp_id r" by auto
  have "inj_on sfp_id (set (safe_fact_projections d))" using assms(1) by (simp add: distinct_map)
  then have "r' = r" using r' assms(2,3) by (auto dest: inj_onD)
  with r' show ?thesis by simp
qed

lemma update_projections_inv:
  assumes "projections_inv lib m d" and "set rows \<subseteq> set (safe_fact_projections d)"
    and "\<And>r. r \<in> set rows \<Longrightarrow> projection_ok lib m r \<Longrightarrow> projection_ok lib m (f r)"
    and "\<And>r. sfp_id (f r) = sfp_id r"
  shows "projections_inv lib m (update_projections rows f d)"
proof -
  have "\<forall>r\<in>set (update_where (\<lambda>r. sfp_id r \<in> sfp_id ` set rows) f (safe_fact_projections d)). projection_ok lib m r"
  proof (rule update_where_invariant)
    fix r assume r: "r \<in> set (safe_fact_projections d)" "projection_ok lib m r" "sfp_id r \<in> sfp_id ` set rows"
    then have "r \<in> set rows" using selected_row assms(1,2) by (auto simp: projections_inv_def)
    then show "projection_ok lib m (f r)" using r(2) by (rule assms(3))
  qed (use assms(1) in \<open>simp add: projections_inv_def\<close>)
  then show ?thesis
    using assms(1,4) by (simp add: update_projections_def projections_inv_def map_update_where)
qed

lemma stale_rows_spec:
  "r \<in> set (stale_rows locked stale now limit d) \<Longrightarrow>
     r \<in> set (safe_fact_projections d) \<and> sfp_processing_status r = Proj_VALIDATING"
  by (auto simp: stale_rows_def dest!: in_set_takeD)

lemma worker_claim_rows_spec:
  "r \<in> set (worker_claim_rows locked limit now d) \<Longrightarrow>
     r \<in> set (safe_fact_projections d) \<and> sfp_processing_status r \<in> {Proj_PENDING, Proj_RETRY}"
  by (auto simp: worker_claim_rows_def due_for_validation_def dest!: in_set_takeD)

lemma row_ids [simp]:
  "sfp_id (recover_row m now r) = sfp_id r" "sfp_id (claim_projection now r) = sfp_id r"
  "sfp_id (block_row c now r) = sfp_id r" "sfp_id (ready_row p q now r) = sfp_id r"
  by (simp_all add: recover_row_def claim_projection_def block_row_def ready_row_def)

lemma recover_row_ok:
  "projection_ok lib m r \<Longrightarrow> sfp_processing_status r = Proj_VALIDATING \<Longrightarrow> projection_ok lib m (recover_row m now r)"
  by (auto simp: projection_ok_def recover_row_def)

lemma claim_projection_ok:
  "1 \<le> m \<Longrightarrow> projection_ok lib m r \<Longrightarrow> sfp_processing_status r \<in> {Proj_PENDING, Proj_RETRY} \<Longrightarrow>
     projection_ok lib m (claim_projection now r)"
  by (auto simp: projection_ok_def claim_projection_def)

lemma block_row_ok:
  "projection_ok lib m r \<Longrightarrow> sfp_processing_status r = Proj_VALIDATING \<Longrightarrow> projection_ok lib m (block_row c now r)"
  by (auto simp: projection_ok_def block_row_def)

lemma ready_row_ok:
  "iso_laws lib \<Longrightarrow> validate_row lib r = Inr (p, q) \<Longrightarrow> projection_ok lib m r \<Longrightarrow>
     sfp_processing_status r = Proj_VALIDATING \<Longrightarrow> projection_ok lib m (ready_row p q now r)"
  using validate_row_valid [of lib r p q now] by (simp add: projection_ok_def) (simp add: ready_row_def)

lemma put_projection_update:
  "put_projection r' d = update_projections [r'] (\<lambda>_. r') d"
  by (simp add: put_projection_def update_projections_def)

lemma validate_one_cases:
  assumes "worker_validate_one lib i now d = Inr (ok, d')"
  shows "(d' = d \<and> \<not> ok) \<or> (\<exists>row. get_projection d i = Some row \<and> sfp_processing_status row = Proj_VALIDATING
           \<and> ((\<exists>c. \<not> ok \<and> d' = put_projection (block_row c now row) d)
              \<or> (\<exists>p q. ok \<and> validate_row lib row = Inr (p, q) \<and> d' = put_projection (ready_row p q now row) d)))"
  using assms
  by (auto simp: worker_validate_one_def split: option.splits if_splits sum.splits exn.splits)

lemma put_projection_inv:
  assumes "projections_inv lib m d" and "get_projection d i = Some row"
    and "projection_ok lib m row \<Longrightarrow> projection_ok lib m row'" and "sfp_id row' = sfp_id row"
  shows "projections_inv lib m (put_projection row' d)"
proof -
  have row: "row \<in> set (safe_fact_projections d)" using assms(2) by (auto dest: get_id)
  have uniq: "r = row" if "r \<in> set (safe_fact_projections d)" "sfp_id r = sfp_id row" for r
    using selected_row [of d "[row]" r] assms(1) row that by (auto simp: projections_inv_def)
  have "put_projection row' d = update_projections [row] (\<lambda>r. if r = row then row' else r) d"
    using uniq assms(4) by (auto simp: put_projection_def update_projections_def update_where_def)
  then show ?thesis
    using assms(1,3,4) row by (auto intro: update_projections_inv)
qed

lemma projection_step_inv:
  assumes "iso_laws lib" and "1 \<le> m" and "projections_inv lib m d" and "projection_step lib m d d'"
  shows "projections_inv lib m d'"
  using assms(4)
proof (cases rule: projection_step.cases)
  case step_worker
  then show ?thesis
  proof (cases rule: worker_step.cases)
    case (step_recover locked stale now limit)
    then show ?thesis using assms(3) stale_rows_spec
      by (auto simp: worker_recover_stale_def Let_def intro!: update_projections_inv recover_row_ok)
  next
    case (step_claim locked limit now)
    then show ?thesis using assms(2,3)
      by (auto simp: worker_claim_def Let_def intro!: update_projections_inv claim_projection_ok
          dest: worker_claim_rows_spec)
  next
    case (step_validate i now ok)
    from validate_one_cases [OF this] assms(1,3) show ?thesis
      by (auto intro: put_projection_inv block_row_ok ready_row_ok)
  qed
next
  case (step_insert r)
  have "projection_ok lib m r" using step_insert by (auto simp: fresh_projection_def projection_ok_def)
  with step_insert assms(3) show ?thesis by (auto simp: projections_inv_def)
qed

text \<open>The laws of the runtime and of the configuration under which the worker runs are part of the
  state predicate, so that the interpretation holds for every library and budget.\<close>

interpretation projections: invariant_system
  "\<lambda>d. iso_laws lib \<and> 1 \<le> m \<and> projections_init d" "projection_step lib m"
  "\<lambda>d. iso_laws lib \<and> 1 \<le> m \<and> projections_inv lib m d" for lib m
proof unfold_locales
  fix d :: db assume "iso_laws lib \<and> 1 \<le> m \<and> projections_init d"
  then show "iso_laws lib \<and> 1 \<le> m \<and> projections_inv lib m d"
    by (simp add: projections_init_def projections_inv_def)
qed (auto intro: projection_step_inv)

definition final_projection :: "SafeFactProjection \<Rightarrow> db \<Rightarrow> bool" where
  "final_projection r d \<longleftrightarrow>
     r \<in> set (safe_fact_projections d) \<and> sfp_processing_status r \<in> {Proj_READY, Proj_BLOCKED}"

lemma final_update:
  assumes "projections_inv lib m d" and "set rows \<subseteq> set (safe_fact_projections d)"
    and "\<And>r. r \<in> set rows \<Longrightarrow> sfp_processing_status r \<notin> {Proj_READY, Proj_BLOCKED}"
    and "final_projection r d"
  shows "final_projection r (update_projections rows f d)"
proof -
  have "sfp_id r \<notin> sfp_id ` set rows"
    using selected_row [of d rows r] assms by (auto simp: projections_inv_def final_projection_def)
  then show ?thesis using assms(4)
    by (auto simp: final_projection_def update_projections_def in_update_where)
qed

lemma final_put:
  assumes "projections_inv lib m d" and "get_projection d i = Some row" and "sfp_id row' = sfp_id row"
    and "sfp_processing_status row = Proj_VALIDATING" and "final_projection r d"
  shows "final_projection r (put_projection row' d)"
proof -
  have row: "row \<in> set (safe_fact_projections d)" using assms(2) by (auto dest: get_id)
  have "put_projection row' d = update_projections [row] (\<lambda>_. row') d"
    using assms(3) by (simp add: put_projection_def update_projections_def)
  then show ?thesis using final_update [OF assms(1), of "[row]" r] row assms(4,5) by simp
qed

lemma final_step:
  assumes "projections_inv lib m d" and "projection_step lib m d d'" and "final_projection r d"
  shows "final_projection r d'"
  using assms(2)
proof (cases rule: projection_step.cases)
  case step_worker
  then show ?thesis
  proof (cases rule: worker_step.cases)
    case (step_recover locked stale now limit)
    have "final_projection r (update_projections (stale_rows locked stale now limit d) (recover_row m now) d)"
      using assms(1,3) stale_rows_spec by (intro final_update) auto
    then show ?thesis by (simp add: step_recover worker_recover_stale_def Let_def)
  next
    case (step_claim locked limit now)
    have "final_projection r (update_projections (worker_claim_rows locked limit now d) (claim_projection now) d)"
      using assms(1,3) by (intro final_update) (auto dest: worker_claim_rows_spec)
    then show ?thesis by (simp add: step_claim worker_claim_def Let_def)
  next
    case (step_validate i now ok)
    from validate_one_cases [OF this] assms(1,3) show ?thesis by (auto intro: final_put)
  qed
qed (use assms(3) in \<open>auto simp: final_projection_def\<close>)

interpretation projections_stable: stable_system "projection_step lib m"
  "\<lambda>d. iso_laws lib \<and> 1 \<le> m \<and> projections_inv lib m d" final_projection for lib m
  by unfold_locales (auto intro: projection_step_inv final_step)

subsection \<open>Progress\<close>

text \<open>The number of transactions that can still touch a row.\<close>

fun budget_of :: "int \<Rightarrow> SafeProjectionProcessingStatus \<Rightarrow> int \<Rightarrow> nat" where
  "budget_of m Proj_PENDING n = nat (2 * (m - n))"
| "budget_of m Proj_RETRY n = nat (2 * (m - n))"
| "budget_of m Proj_VALIDATING n = nat (2 * (m - n) + 1)"
| "budget_of m _ n = 0"

definition row_budget :: "int \<Rightarrow> SafeFactProjection \<Rightarrow> nat" where
  "row_budget m r = budget_of m (sfp_processing_status r) (sfp_attempt_count r)"

definition total_budget :: "int \<Rightarrow> db \<Rightarrow> nat" where
  "total_budget m d = sum_list (map (row_budget m) (safe_fact_projections d))"

lemma sum_update_where_less:
  assumes "\<And>r. r \<in> set rows \<Longrightarrow> p r \<Longrightarrow> g (f r) < (g r :: nat)" and "\<exists>r\<in>set rows. p r"
  shows "sum_list (map g (update_where p f rows)) < sum_list (map g rows)"
proof -
  have le: "sum_list (map g (update_where p f rs)) \<le> sum_list (map g rs)"
    if "\<And>r. r \<in> set rs \<Longrightarrow> p r \<Longrightarrow> g (f r) < g r" for rs
    using that by (induction rs) (auto simp: update_where_def intro: add_mono less_imp_le)
  show ?thesis
    using assms
  proof (induction rows)
    case (Cons r rows)
    show ?case
    proof (cases "p r")
      case True
      then have "g (f r) < g r" using Cons.prems(1) by simp
      moreover have "sum_list (map g (update_where p f rows)) \<le> sum_list (map g rows)"
        by (rule le) (use Cons.prems(1) in simp)
      ultimately show ?thesis using True by (simp add: update_where_def)
    next
      case False
      then have "sum_list (map g (update_where p f rows)) < sum_list (map g rows)"
        using Cons.prems by (intro Cons.IH) auto
      with False show ?thesis by (simp add: update_where_def)
    qed
  qed simp
qed

lemma update_projections_budget:
  assumes "projections_inv lib m d" and "set rows \<subseteq> set (safe_fact_projections d)"
    and "\<And>r. r \<in> set rows \<Longrightarrow> projection_ok lib m r \<Longrightarrow> row_budget m (f r) < row_budget m r"
    and "update_projections rows f d \<noteq> d"
  shows "total_budget m (update_projections rows f d) < total_budget m d"
proof -
  let ?p = "\<lambda>r. sfp_id r \<in> sfp_id ` set rows"
  have "row_budget m (f r) < row_budget m r" if "r \<in> set (safe_fact_projections d)" "?p r" for r
    using assms(1-3) that selected_row [of d rows r] by (auto simp: projections_inv_def)
  moreover have "\<exists>r\<in>set (safe_fact_projections d). ?p r"
  proof (rule ccontr)
    assume "\<not> ?thesis"
    then have "update_where ?p f (safe_fact_projections d) = safe_fact_projections d"
      by (auto simp: update_where_def intro!: map_idI)
    with assms(4) show False by (simp add: update_projections_def)
  qed
  ultimately show ?thesis
    unfolding total_budget_def update_projections_def by (simp add: sum_update_where_less)
qed

lemma row_budget_less:
  "projection_ok lib m r \<Longrightarrow> sfp_processing_status r = Proj_VALIDATING \<Longrightarrow> row_budget m (recover_row m now r) < row_budget m r"
  "projection_ok lib m r \<Longrightarrow> sfp_processing_status r = Proj_VALIDATING \<Longrightarrow> row_budget m (block_row c now r) < row_budget m r"
  "projection_ok lib m r \<Longrightarrow> sfp_processing_status r = Proj_VALIDATING \<Longrightarrow> row_budget m (ready_row p q now r) < row_budget m r"
  "1 \<le> m \<Longrightarrow> projection_ok lib m r \<Longrightarrow> sfp_processing_status r \<in> {Proj_PENDING, Proj_RETRY} \<Longrightarrow>
     row_budget m (claim_projection now r) < row_budget m r"
  by (auto simp: projection_ok_def row_budget_def recover_row_def block_row_def ready_row_def claim_projection_def)

lemma put_projection_budget:
  assumes "projections_inv lib m d" and "get_projection d i = Some row" and "sfp_id row' = sfp_id row"
    and "projection_ok lib m row \<Longrightarrow> row_budget m row' < row_budget m row" and "put_projection row' d \<noteq> d"
  shows "total_budget m (put_projection row' d) < total_budget m d"
proof -
  have row: "row \<in> set (safe_fact_projections d)" using assms(2) by (auto dest: get_id)
  have eq: "put_projection row' d = update_projections [row] (\<lambda>_. row') d"
    using assms(3) by (simp add: put_projection_def update_projections_def)
  show ?thesis
    using assms(1,4,5) row unfolding eq by (intro update_projections_budget) auto
qed

lemma worker_step_budget:
  assumes "projections_inv lib m d" and "1 \<le> m" and "worker_step lib m d d'" and "d' \<noteq> d"
  shows "total_budget m d' < total_budget m d"
  using assms(3)
proof (cases rule: worker_step.cases)
  case (step_recover locked stale now limit)
  with assms show ?thesis
    by (auto simp: worker_recover_stale_def Let_def intro!: update_projections_budget row_budget_less
        dest: stale_rows_spec)
next
  case (step_claim locked limit now)
  with assms show ?thesis
    by (auto simp: worker_claim_def Let_def intro!: update_projections_budget row_budget_less
        dest: worker_claim_rows_spec)
next
  case (step_validate i now ok)
  from validate_one_cases [OF this] assms show ?thesis
    by (auto intro!: put_projection_budget row_budget_less)
qed

subsection \<open>The batch\<close>

definition has_status :: "SafeProjectionProcessingStatus set \<Rightarrow> db \<Rightarrow> uuid \<Rightarrow> bool" where
  "has_status S d i = (case get_projection d i of None \<Rightarrow> False | Some r \<Rightarrow> sfp_processing_status r \<in> S)"

abbreviation settled_status :: "SafeProjectionProcessingStatus set" where
  "settled_status \<equiv> {Proj_READY, Proj_BLOCKED}"

lemma validate_one_status:
  assumes "worker_validate_one lib i now d = Inr (ok, d')"
  shows "has_status (insert Proj_VALIDATING settled_status) d i \<Longrightarrow> has_status settled_status d' i"
    and "has_status settled_status d j \<Longrightarrow> has_status settled_status d' j"
    and "has_status (insert Proj_VALIDATING settled_status) d j \<Longrightarrow>
           has_status (insert Proj_VALIDATING settled_status) d' j"
  using assms
  by (auto simp: worker_validate_one_def has_status_def block_row_def ready_row_def dest: get_id
      split: option.splits if_splits sum.splits exn.splits)

lemma validate_all_settles:
  assumes "worker_validate_all lib now ids ready blocked d = (Inr (r, b), d')"
    and "\<forall>i\<in>set ids. has_status (insert Proj_VALIDATING settled_status) d i"
  shows "r + b = ready + blocked + length ids \<and> (\<forall>i\<in>set ids. has_status settled_status d' i)
         \<and> (\<forall>j. has_status settled_status d j \<longrightarrow> has_status settled_status d' j)"
  using assms
proof (induction ids arbitrary: ready blocked d)
  case (Cons i ids)
  obtain ok d1 where one: "worker_validate_one lib i now d = Inr (ok, d1)"
    using Cons.prems(1) by (cases "worker_validate_one lib i now d") auto
  note st = validate_one_status [OF one]
  have all: "worker_validate_all lib now ids (if ok then Suc ready else ready)
               (if ok then blocked else Suc blocked) d1 = (Inr (r, b), d')"
    using Cons.prems(1) one by (cases ok) simp_all
  have "\<forall>j\<in>set ids. has_status (insert Proj_VALIDATING settled_status) d1 j"
    using Cons.prems(2) st(3) by simp
  note IH = Cons.IH [OF all this]
  have "has_status settled_status d1 i" using Cons.prems(2) st(1) by simp
  with IH st(2) show ?case by (cases ok) auto
qed simp

lemma claimed_status:
  assumes "distinct (map sfp_id (safe_fact_projections d))" and "worker_claim locked limit now d = (ids, d')"
    and "i \<in> set ids"
  shows "has_status {Proj_VALIDATING} d' i"
proof -
  let ?rows = "worker_claim_rows locked limit now d"
  have d': "d' = update_projections ?rows (claim_projection now) d" and ids: "ids = map sfp_id ?rows"
    using assms(2) by (simp_all add: worker_claim_def Let_def)
  obtain r where r: "r \<in> set ?rows" "sfp_id r = i" using assms(3) ids by auto
  then have "r \<in> set (safe_fact_projections d)" by (auto dest: worker_claim_rows_spec)
  then obtain r0 where r0: "List.find (\<lambda>r. sfp_id r = i) (safe_fact_projections d) = Some r0"
    using r(2) find_None_all by fastforce
  have "sfp_id r0 = i" using find_Some_in [OF r0] by simp
  then have "get_projection d' i = Some (claim_projection now r0)"
    using r r0 unfolding get_projection_def d' update_projections_def
    by (simp add: find_update_where_key image_iff) metis
  then show ?thesis by (simp add: has_status_def claim_projection_def)
qed

subsection \<open>Properties\<close>

text \<open>Property C9.  However workers and inserts interleave, in every reachable table the attempts
  of a row never exceed the configured maximum, a retried row has attempts left, a blocked row has
  its error code, and a ready row holds a payload that its contract accepts unchanged, classified
  with the stored quality, whose canonical hash is the stored hash.\<close>

theorem projections_reachable_ok:
  assumes "iso_laws lib" and "1 \<le> max_attempts"
    and "reach projections_init (projection_step lib max_attempts) d" and "r \<in> set (safe_fact_projections d)"
  shows "projection_ok lib max_attempts r"
proof -
  have "reach (\<lambda>d. iso_laws lib \<and> 1 \<le> max_attempts \<and> projections_init d) (projection_step lib max_attempts) d"
    using assms(3) assms(1,2) by (induction rule: reach.induct) (auto intro: reach.intros)
  then have "projections_inv lib max_attempts d" using projections.reach_inv by blast
  with assms(4) show ?thesis by (simp add: projections_inv_def)
qed

text \<open>A ready or blocked projection is the same row after any further run of workers
  and inserts.\<close>

theorem final_projection_forever:
  assumes "iso_laws lib" and "1 \<le> max_attempts" and "projections_inv lib max_attempts d"
    and "(projection_step lib max_attempts)\<^sup>*\<^sup>* d d'" and "final_projection r d"
  shows "final_projection r d'"
  using projections_stable.steps_fact [OF assms(4)] assms by blast

text \<open>Property C18.  The workers terminate: a transaction that changes the table uses up part of a
  budget of at most two transactions per attempt and row (plus the final one), so without new rows
  there is no infinite sequence of effective transactions, whatever crashes leave claims stale.\<close>

theorem worker_terminates:
  assumes "1 \<le> max_attempts"
  shows "wfP (\<lambda>d' d. projections_inv lib max_attempts d \<and> worker_step lib max_attempts d d' \<and> d' \<noteq> d)"
proof (rule wfp_subset)
  show "wfP (\<lambda>d' d. total_budget max_attempts d' < total_budget max_attempts d)"
    by (rule wfp_if_convertible_to_nat [where f = "total_budget max_attempts"]) simp
qed (use assms in \<open>auto intro: worker_step_budget\<close>)

text \<open>A batch that returns settles exactly what it claimed: the report counts every
  claimed row as ready or blocked, and each of them is ready or blocked afterwards.  (A batch raises
  only when validation itself raises something other than a contract error.)\<close>

theorem batch_settles_claims:
  assumes "distinct (map sfp_id (safe_fact_projections d))"
    and "worker_process_batch lib locked max_attempts stale_after now limit d = (Inr rep, d')"
  shows "pvr_claimed rep = pvr_ready rep + pvr_blocked rep
    \<and> list_all (has_status {Proj_READY, Proj_BLOCKED} d')
         (fst (worker_claim locked (nat limit) now
           (snd (worker_recover_stale locked max_attempts stale_after now (nat limit) d))))"
proof -
  obtain n d1 where rec: "worker_recover_stale locked max_attempts stale_after now (nat limit) d = (n, d1)"
    by (rule prod.exhaust)
  obtain ids d2 where cl: "worker_claim locked (nat limit) now d1 = (ids, d2)" by (rule prod.exhaust)
  obtain r b where va: "worker_validate_all lib now ids 0 0 d2 = (Inr (r, b), d')"
    and rep: "pvr_claimed rep = length ids" "pvr_ready rep = r" "pvr_blocked rep = b"
    using assms(2) rec cl
    by (auto simp: worker_process_batch_def bindR_Inr_iff split: if_splits prod.splits)
  have "distinct (map sfp_id (safe_fact_projections d1))"
    using assms(1) rec by (auto simp: worker_recover_stale_def Let_def update_projections_def map_update_where)
  then have "\<forall>i\<in>set ids. has_status (insert Proj_VALIDATING settled_status) d2 i"
    using claimed_status [OF _ cl] by (fastforce simp: has_status_def split: option.splits)
  from validate_all_settles [OF va this] rep rec cl show ?thesis by (simp add: list_all_iff)
qed

subsection \<open>A concrete run\<close>

definition sample_projection :: SafeFactProjection where
  "sample_projection =
     \<lparr>sfp_id = ''p1'', sfp_observation_id = ''o1'', sfp_raw_item_id = ''r1'', sfp_provider = ''finnhub'',
      sfp_operation_key = ''quote'', sfp_projection_schema_version = 1,
      sfp_factual_payload = sample_quote '' aapl '' ''USD'', sfp_projection_hash = sample_hash,
      sfp_quality_status = Quality_PARTIAL, sfp_processing_status = Proj_PENDING,
      sfp_safe_error_code = None, sfp_attempt_count = 0, sfp_next_retry_at = None,
      sfp_processed_at = None, sfp_created_at = 0, sfp_updated_at = 0\<rparr>"

definition table_of :: "SafeFactProjection \<Rightarrow> db" where
  "table_of r = empty_db\<lparr>safe_fact_projections := [r]\<rparr>"

definition sample_claimed :: SafeFactProjection where
  "sample_claimed = claim_projection 10 sample_projection"

definition sample_ready :: SafeFactProjection where
  "sample_ready = ready_row normal_quote Quality_PARTIAL 10 sample_claimed"

lemma sample_validates: "validate_row sample_lib sample_claimed = Inr (normal_quote, Quality_PARTIAL)"
  by code_simp

lemma table_of_rows [simp]: "safe_fact_projections (table_of r) = [r]"
  by (simp add: table_of_def)

lemma sample_keys [simp]:
  "sfp_id sample_projection = ''p1''" "sfp_id sample_claimed = ''p1''" "sfp_id sample_ready = ''p1''"
  "sfp_processing_status sample_projection = Proj_PENDING" "sfp_next_retry_at sample_projection = None"
  "sfp_processing_status sample_claimed = Proj_VALIDATING" "sfp_processing_status sample_ready = Proj_READY"
  "sfp_attempt_count sample_projection = 0" "sfp_updated_at sample_projection = 0"
  by (simp_all add: sample_projection_def sample_claimed_def sample_ready_def claim_projection_def ready_row_def)

lemma sample_claim:
  "worker_claim (\<lambda>_. False) 100 10 (table_of sample_projection) = ([''p1''], table_of sample_claimed)"
  by (simp add: worker_claim_def Let_def worker_claim_rows_def due_for_validation_def update_projections_def
      update_where_def sample_claimed_def [symmetric]) (simp add: table_of_def)

lemma sample_recover:
  "worker_recover_stale (\<lambda>_. False) 3 600000000 10 100 (table_of sample_projection) = (0, table_of sample_projection)"
  by (simp add: worker_recover_stale_def Let_def stale_rows_def update_projections_def update_where_def)

lemma sample_validate:
  "worker_validate_one sample_lib ''p1'' 10 (table_of sample_claimed) = Inr (True, table_of sample_ready)"
  by (simp add: worker_validate_one_def get_projection_def sample_validates put_projection_def
      update_where_def sample_ready_def [symmetric]) (simp add: table_of_def)

lemma sample_batch:
  "worker_process_batch sample_lib (\<lambda>_. False) 3 600000000 10 100 (table_of sample_projection)
     = (Inr \<lparr>pvr_claimed = 1, pvr_ready = 1, pvr_blocked = 0, pvr_recovered = 0\<rparr>, table_of sample_ready)"
  by (simp add: worker_process_batch_def sample_recover sample_claim sample_validate)

lemma sample_insert: "projection_step sample_lib 3 empty_db (table_of sample_projection)"
  using step_insert [of sample_projection empty_db sample_lib 3]
  by (simp add: fresh_projection_def table_of_def empty_db_def)

lemma sample_worker_steps:
  "worker_step sample_lib 3 (table_of sample_projection) (table_of sample_claimed)"
  "worker_step sample_lib 3 (table_of sample_claimed) (table_of sample_ready)"
  using step_claim [of sample_lib 3 "table_of sample_projection" "\<lambda>_. False" 100 10]
    step_validate [OF sample_validate] by (simp_all add: sample_claim)

lemma empty_projections: "safe_fact_projections empty_db = []"
  by (simp add: empty_db_def)

lemma sample_invariant: "projections_inv sample_lib 3 (table_of sample_ready)"
proof -
  have "projections_inv sample_lib 3 empty_db" by (simp add: projections_inv_def empty_projections)
  then show ?thesis
    using projection_step_inv [OF sample_iso_laws, of 3] sample_insert sample_worker_steps
    by (meson numeral_One one_le_numeral step_worker)
qed

lemma sample_reach: "reach projections_init (projection_step sample_lib 3) (table_of sample_ready)"
  using sample_insert sample_worker_steps
  by (meson reach.intros step_worker projections_init_def empty_projections)

theorem projections_reachable_ok_witness: "projection_ok sample_lib 3 sample_ready"
  by (rule projections_reachable_ok [OF sample_iso_laws _ sample_reach]) simp_all

theorem final_projection_forever_witness: "final_projection sample_ready (table_of sample_ready)"
proof (rule final_projection_forever [OF sample_iso_laws, of 3])
  show "projections_inv sample_lib 3 (table_of sample_ready)"
    by (rule sample_invariant)
qed (simp_all add: final_projection_def)

theorem worker_terminates_witness:
  "wfP (\<lambda>d' d. projections_inv sample_lib 3 d \<and> worker_step sample_lib 3 d d' \<and> d' \<noteq> d)"
  by (rule worker_terminates) simp

theorem batch_settles_claims_witness:
  "1 = (1 :: nat) + 0 \<and> list_all (has_status {Proj_READY, Proj_BLOCKED} (table_of sample_ready)) [''p1'']"
  using batch_settles_claims [OF _ sample_batch] by (simp add: sample_recover sample_claim)

end
