(* ===== verification/Downstream.thy ===== *)
theory Downstream
  imports Provider_Contracts Projection_Worker
begin

text \<open>
  Persistence of a fetch result (\<open>collection/downstream.py\<close>): the canonical raw item, the observation
  of this run and the pending safe projection, with the idempotency checks of each insert.  The
  function runs inside the caller's transaction, so an exception means that nothing is stored.
  \<open>ids\<close> supplies the primary keys that the database generates and \<open>now\<close> the transaction time.
\<close>

record idgen =
  new_raw_id :: "db \<Rightarrow> uuid"
  new_observation_id :: "db \<Rightarrow> uuid"
  new_projection_id :: "db \<Rightarrow> uuid"

record DownstreamCounts =
  dc_fetched :: nat
  dc_new :: nat
  dc_duplicates :: nat
  dc_observations :: nat
  dc_projections :: nat

text \<open>The keyword arguments that do not change during the loop.\<close>

record persist_args =
  pa_run_id :: uuid
  pa_source_id :: uuid
  pa_source_account_id :: "uuid option"
  pa_provider :: string
  pa_target_id :: "uuid option"
  pa_operation_key :: string
  pa_config_revision :: "int option"
  pa_provider_contract_version :: int
  pa_observation_key :: string

subsection \<open>The raw item\<close>

definition raw_row :: "uuid \<Rightarrow> time \<Rightarrow> persist_args \<Rightarrow> RawItemEnvelope \<Rightarrow> RawItem" where
  "raw_row i now a e =
     \<lparr>raw_id = i, raw_source_id = pa_source_id a, raw_source_account_id = pa_source_account_id a,
      raw_collection_run_id = pa_run_id a, raw_external_id = env_external_id e,
      raw_fetched_at = env_fetched_at e, raw_http_status = env_http_status e,
      raw_content_type = env_content_type e, raw_payload_location = env_payload_location e,
      raw_payload_hash = env_payload_hash e, raw_retention_class = env_retention_class e,
      raw_parse_status = Parse_PENDING, raw_created_at = now\<rparr>"

definition raw_match :: "uuid \<Rightarrow> RawItemEnvelope \<Rightarrow> RawItem \<Rightarrow> bool" where
  "raw_match src e r =
     (raw_source_id r = src
      \<and> (case env_external_id e of
           Some x \<Rightarrow> raw_external_id r = Some x
         | None \<Rightarrow> raw_external_id r = None \<and> raw_payload_hash r = env_payload_hash e))"

text \<open>\<open>INSERT .. ON CONFLICT DO NOTHING RETURNING id\<close> conflicts on the identity index; then the existing
  row is selected.\<close>

definition persist_raw_item ::
  "idgen \<Rightarrow> time \<Rightarrow> persist_args \<Rightarrow> RawItemEnvelope \<Rightarrow> db \<Rightarrow> (uuid \<times> bool \<times> db) res" where
  "persist_raw_item ids now a e d =
     (let row = raw_row (new_raw_id ids d) now a e in
      if raw_identity row = None then Inl (DownstreamPersistenceError ''raw_item_identity_missing'')
      else if raw_identity row \<notin> set (map raw_identity (raw_items d))
      then Inr (raw_id row, True, d\<lparr>raw_items := raw_items d @ [row]\<rparr>)
      else case List.find (raw_match (pa_source_id a) e) (raw_items d) of
             None \<Rightarrow> Inl (DownstreamPersistenceError ''raw_item_idempotency_failed'')
           | Some r \<Rightarrow> Inr (raw_id r, False, d))"

subsection \<open>The observation\<close>

definition previous_hash :: "db \<Rightarrow> uuid \<Rightarrow> string option" where
  "previous_hash d raw =
     (case rev (sort_key (\<lambda>ob. (obs_created_at ob, obs_id ob))
                  (filter (\<lambda>ob. obs_raw_item_id ob = raw) (raw_item_observations d))) of
        [] \<Rightarrow> None | ob # _ \<Rightarrow> Some (obs_projection_hash ob))"

definition observation_kind :: "bool \<Rightarrow> string option \<Rightarrow> string \<Rightarrow> RawItemObservationKind" where
  "observation_kind inserted previous h =
     (if inserted then FIRST_SEEN
      else if previous = Some h then DUPLICATE_SAME_PROJECTION else REVISION_CANDIDATE)"

definition observation_row ::
  "uuid \<Rightarrow> time \<Rightarrow> persist_args \<Rightarrow> uuid \<Rightarrow> time \<Rightarrow> string \<Rightarrow> RawItemObservationKind \<Rightarrow> RawItemObservation" where
  "observation_row i now a raw observed h kind =
     \<lparr>obs_id = i, obs_collection_run_id = pa_run_id a, obs_raw_item_id = raw,
      obs_target_id = pa_target_id a, obs_source_id = pa_source_id a,
      obs_source_account_id = pa_source_account_id a, obs_provider = pa_provider a,
      obs_operation_key = pa_operation_key a, obs_config_revision = pa_config_revision a,
      obs_provider_contract_version = pa_provider_contract_version a, obs_observed_at = observed,
      obs_observation_key = pa_observation_key a, obs_projection_hash = h,
      obs_observation_kind = kind, obs_created_at = now\<rparr>"

definition find_observation :: "persist_args \<Rightarrow> uuid \<Rightarrow> db \<Rightarrow> RawItemObservation option" where
  "find_observation a raw d =
     List.find (\<lambda>ob. observation_key_of ob = (pa_run_id a, raw, pa_observation_key a)) (raw_item_observations d)"

definition persist_observation ::
  "idgen \<Rightarrow> time \<Rightarrow> persist_args \<Rightarrow> uuid \<Rightarrow> time \<Rightarrow> string \<Rightarrow> bool \<Rightarrow> db \<Rightarrow> (uuid \<times> db) res" where
  "persist_observation ids now a raw observed h inserted d =
     (let row = observation_row (new_observation_id ids d) now a raw observed h
                  (observation_kind inserted (previous_hash d raw) h) in
      if observation_key_of row \<notin> set (map observation_key_of (raw_item_observations d))
      then Inr (obs_id row, d\<lparr>raw_item_observations := raw_item_observations d @ [row]\<rparr>)
      else case find_observation a raw d of
             None \<Rightarrow> Inl (DownstreamPersistenceError ''raw_item_observation_idempotency_failed'')
           | Some ob \<Rightarrow>
               (if obs_projection_hash ob \<noteq> h
                then Inl (DownstreamPersistenceError ''raw_item_observation_idempotency_failed'')
                else Inr (obs_id ob, d)))"

subsection \<open>The projection\<close>

definition projection_row ::
  "uuid \<Rightarrow> time \<Rightarrow> persist_args \<Rightarrow> uuid \<Rightarrow> uuid \<Rightarrow> dict \<Rightarrow> string \<Rightarrow> SafeProjectionQualityStatus \<Rightarrow> SafeFactProjection" where
  "projection_row i now a obs raw payload h quality =
     \<lparr>sfp_id = i, sfp_observation_id = obs, sfp_raw_item_id = raw, sfp_provider = pa_provider a,
      sfp_operation_key = pa_operation_key a, sfp_projection_schema_version = 1,
      sfp_factual_payload = payload, sfp_projection_hash = h, sfp_quality_status = quality,
      sfp_processing_status = Proj_PENDING, sfp_safe_error_code = None, sfp_attempt_count = 0,
      sfp_next_retry_at = None, sfp_processed_at = None, sfp_created_at = now, sfp_updated_at = now\<rparr>"

definition find_projection :: "uuid \<Rightarrow> db \<Rightarrow> SafeFactProjection option" where
  "find_projection obs d = List.find (\<lambda>p. projection_key_of p = (obs, 1)) (safe_fact_projections d)"

definition persist_projection ::
  "idgen \<Rightarrow> time \<Rightarrow> persist_args \<Rightarrow> uuid \<Rightarrow> uuid \<Rightarrow> dict \<Rightarrow> string \<Rightarrow> SafeProjectionQualityStatus \<Rightarrow> db
     \<Rightarrow> (nat \<times> db) res" where
  "persist_projection ids now a obs raw payload h quality d =
     (let row = projection_row (new_projection_id ids d) now a obs raw payload h quality in
      if projection_key_of row \<notin> set (map projection_key_of (safe_fact_projections d))
      then Inr (1, d\<lparr>safe_fact_projections := safe_fact_projections d @ [row]\<rparr>)
      else case find_projection obs d of
             None \<Rightarrow> Inl (DownstreamPersistenceError ''safe_fact_projection_idempotency_failed'')
           | Some p \<Rightarrow>
               (if sfp_projection_hash p \<noteq> h
                then Inl (DownstreamPersistenceError ''safe_fact_projection_idempotency_failed'')
                else Inr (0, d)))"

subsection \<open>The fetch result\<close>

text \<open>The fields of the four original operations, in the order the payload lists them.\<close>

definition projection_fields :: "string \<Rightarrow> string \<Rightarrow> string list option" where
  "projection_fields provider operation_key = map_of
     [((''marketaux'', ''news_all''),
       [''provider_item_id'', ''published_at'', ''title'', ''canonical_url'', ''source_identity'',
        ''query'', ''language'', ''symbols'', ''description_coverage'', ''snippet_coverage'']),
      ((''finnhub'', ''quote''),
       [''provider_item_id'', ''published_at'', ''symbol'', ''provider_timestamp'', ''c'', ''d'', ''dp'',
        ''h'', ''l'', ''o'', ''pc'', ''currency'', ''exchange'']),
      ((''eia'', ''electricity_retail_sales''),
       [''provider_item_id'', ''published_at'', ''period'', ''dataset'', ''series_identity'',
        ''geography'', ''sector'', ''metric'', ''value'', ''unit'']),
      ((''sec_edgar'', ''submissions_recent''),
       [''provider_item_id'', ''published_at'', ''cik'', ''ticker'', ''accession_number'',
        ''filing_date'', ''form'', ''primary_document'', ''official_url'', ''official_source''])]
     (provider, operation_key)"

definition factual_payload :: "string \<Rightarrow> string \<Rightarrow> dict \<Rightarrow> dict res" where
  "factual_payload provider operation_key metadata =
     (if (provider, operation_key) \<in> {(''finnhub'', ''company_news''), (''eia'', ''electricity_rto_region_data'')}
      then Inr metadata
      else case projection_fields provider operation_key of
        None \<Rightarrow> Inl (DownstreamPersistenceError ''safe_fact_projection_contract_unknown'')
      | Some names \<Rightarrow>
          (let result = map (\<lambda>f. (f, dget metadata f)) names in
           Inr (if provider = ''sec_edgar'' \<and> has_key metadata ''submissions_file''
                then dput ''submissions_file'' (dget metadata ''submissions_file'') result else result)))"

text \<open>One turn of the loop: what it stores and whether the raw item and the projection are new.\<close>

definition persist_item ::
  "pylib \<Rightarrow> idgen \<Rightarrow> time \<Rightarrow> persist_args \<Rightarrow> RawItemEnvelope \<times> dict \<Rightarrow> db \<Rightarrow> (bool \<times> nat \<times> db) res" where
  "persist_item lib ids now a = (\<lambda>(e, metadata) d.
     bindR (factual_payload (pa_provider a) (pa_operation_key a) metadata) (\<lambda>facts.
     bindR (normalize_and_classify lib (pa_provider a) (pa_operation_key a) 1 facts) (\<lambda>(payload, quality).
     bindR (canonical_projection_hash lib payload) (\<lambda>h.
     bindR (persist_raw_item ids now a e d) (\<lambda>(raw, inserted, d1).
     bindR (persist_observation ids now a raw (env_fetched_at e) h inserted d1) (\<lambda>(obs, d2).
     bindR (persist_projection ids now a obs raw payload h quality d2) (\<lambda>(n, d3).
       Inr (inserted, n, d3))))))))"

fun persist_items ::
  "pylib \<Rightarrow> idgen \<Rightarrow> time \<Rightarrow> persist_args \<Rightarrow> (RawItemEnvelope \<times> dict) list \<Rightarrow> DownstreamCounts \<Rightarrow> db
     \<Rightarrow> (DownstreamCounts \<times> db) res" where
  "persist_items lib ids now a [] c d = Inr (c, d)"
| "persist_items lib ids now a (x # xs) c d =
     bindR (persist_item lib ids now a x d) (\<lambda>(inserted, n, d').
       persist_items lib ids now a xs
         (c\<lparr>dc_new := dc_new c + (if inserted then 1 else 0),
            dc_duplicates := dc_duplicates c + (if inserted then 0 else 1),
            dc_observations := dc_observations c + 1, dc_projections := dc_projections c + n\<rparr>) d')"

definition persist_fetch_result ::
  "pylib \<Rightarrow> idgen \<Rightarrow> time \<Rightarrow> persist_args \<Rightarrow> ProviderFetchResult \<Rightarrow> db \<Rightarrow> (DownstreamCounts \<times> db) res" where
  "persist_fetch_result lib ids now a result d =
     (if length (pres_factual_projections result) \<noteq> length (pres_raw_items result)
      then Inl (DownstreamPersistenceError ''safe_fact_projection_missing'')
      else persist_items lib ids now a (zip (pres_raw_items result) (pres_factual_projections result))
             \<lparr>dc_fetched = length (pres_raw_items result), dc_new = 0, dc_duplicates = 0,
              dc_observations = 0, dc_projections = 0\<rparr> d)"

subsection \<open>Growth of the tables\<close>

definition extends :: "db \<Rightarrow> db \<Rightarrow> bool" where
  "extends d d' \<longleftrightarrow>
     (\<exists>rs os ps. d' = d\<lparr>raw_items := raw_items d @ rs, raw_item_observations := raw_item_observations d @ os,
                       safe_fact_projections := safe_fact_projections d @ ps\<rparr>)"

lemma extends_refl [simp]: "extends d d"
  unfolding extends_def by (intro exI [of _ "[]"]) simp

lemma extends_trans: "extends d e \<Longrightarrow> extends e f \<Longrightarrow> extends d f"
  unfolding extends_def by (elim exE) (simp, metis append_assoc)

lemma extends_append [simp]:
  "extends d (d\<lparr>raw_items := raw_items d @ rs\<rparr>)"
  "extends d (d\<lparr>raw_item_observations := raw_item_observations d @ os\<rparr>)"
  "extends d (d\<lparr>safe_fact_projections := safe_fact_projections d @ ps\<rparr>)"
  unfolding extends_def
  by (rule exI [of _ rs], rule exI [of _ "[]"], rule exI [of _ "[]"], simp)
     (rule exI [of _ "[]"], rule exI [of _ os], rule exI [of _ "[]"], simp,
      rule exI [of _ "[]"], rule exI [of _ "[]"], rule exI [of _ ps], simp)

lemma raw_match_iff:
  "raw_identity (raw_row i now a e) \<noteq> None \<Longrightarrow>
     raw_match (pa_source_id a) e r \<longleftrightarrow> raw_identity r = raw_identity (raw_row i now a e)"
  by (auto simp: raw_match_def raw_identity_def raw_row_def split: option.splits)

lemma find_key: "List.find (\<lambda>r. k r = j) rows \<noteq> None \<longleftrightarrow> j \<in> set (map k rows)"
  by (induction rows) auto

text \<open>What one item leaves in the tables.\<close>

definition raw_stored :: "persist_args \<Rightarrow> RawItemEnvelope \<Rightarrow> uuid \<Rightarrow> db \<Rightarrow> bool" where
  "raw_stored a e raw d \<longleftrightarrow> (\<forall>i now. raw_identity (raw_row i now a e) \<noteq> None) \<and>
     (\<exists>r. List.find (raw_match (pa_source_id a) e) (raw_items d) = Some r \<and> raw_id r = raw)"

definition obs_stored :: "persist_args \<Rightarrow> uuid \<Rightarrow> string \<Rightarrow> uuid \<Rightarrow> db \<Rightarrow> bool" where
  "obs_stored a raw h obs d \<longleftrightarrow>
     (\<exists>ob. find_observation a raw d = Some ob \<and> obs_projection_hash ob = h \<and> obs_id ob = obs)"

definition proj_stored :: "uuid \<Rightarrow> string \<Rightarrow> db \<Rightarrow> bool" where
  "proj_stored obs h d \<longleftrightarrow> (\<exists>p. find_projection obs d = Some p \<and> sfp_projection_hash p = h)"

lemma stored_extends:
  "raw_stored a e raw d \<Longrightarrow> extends d d' \<Longrightarrow> raw_stored a e raw d'"
  "obs_stored a raw h obs d \<Longrightarrow> extends d d' \<Longrightarrow> obs_stored a raw h obs d'"
  "proj_stored obs h d \<Longrightarrow> extends d d' \<Longrightarrow> proj_stored obs h d'"
  by (auto simp: raw_stored_def obs_stored_def proj_stored_def extends_def find_append
      find_observation_def find_projection_def)

lemma raw_identity_row: "raw_identity (raw_row i now a e) = raw_identity (raw_row j t a e)"
  by (simp add: raw_identity_def raw_row_def split: option.split)

lemma persist_raw_item_spec:
  assumes "persist_raw_item ids now a e d = Inr (raw, inserted, d')"
  shows "raw_stored a e raw d' \<and> extends d d'"
proof -
  let ?row = "raw_row (new_raw_id ids d) now a e"
  have id: "raw_identity ?row \<noteq> None" using assms by (auto simp: persist_raw_item_def Let_def split: if_splits)
  have all: "\<forall>i t. raw_identity (raw_row i t a e) \<noteq> None" using id raw_identity_row by metis
  show ?thesis
  proof (cases "raw_identity ?row \<in> set (map raw_identity (raw_items d))")
    case True
    with assms id all show ?thesis
      by (auto simp: persist_raw_item_def Let_def raw_stored_def split: if_splits option.splits)
  next
    case False
    have "List.find (raw_match (pa_source_id a) e) (raw_items d) = None"
      using False by (auto simp: find_None_iff raw_match_iff [OF id]) (metis imageI)
    with False assms id all show ?thesis
      by (auto simp: persist_raw_item_def Let_def raw_stored_def find_append raw_match_iff [OF id])
  qed
qed

lemma row_keys_of [simp]:
  "observation_key_of (observation_row i now a raw t h k) = (pa_run_id a, raw, pa_observation_key a)"
  "obs_id (observation_row i now a raw t h k) = i" "obs_projection_hash (observation_row i now a raw t h k) = h"
  "projection_key_of (projection_row i now a obs raw p h q) = (obs, 1)"
  "sfp_projection_hash (projection_row i now a obs raw p h q) = h"
  "raw_id (raw_row i now a e) = i"
  by (simp_all add: observation_key_of_def observation_row_def projection_key_of_def projection_row_def raw_row_def)

lemma persist_observation_spec:
  assumes "persist_observation ids now a raw t h inserted d = Inr (obs, d')"
  shows "obs_stored a raw h obs d' \<and> extends d d'"
proof (cases "(pa_run_id a, raw, pa_observation_key a) \<in> set (map observation_key_of (raw_item_observations d))")
  case True
  with assms show ?thesis
    by (auto simp: persist_observation_def Let_def obs_stored_def
        split: option.splits if_splits)
next
  case False
  then have "find_observation a raw d = None"
    unfolding find_observation_def using find_key [of observation_key_of] by blast
  with assms False show ?thesis
    by (auto simp: persist_observation_def Let_def obs_stored_def find_observation_def find_append)
qed

lemma persist_projection_spec:
  assumes "persist_projection ids now a obs raw payload h quality d = Inr (n, d')"
  shows "proj_stored obs h d' \<and> extends d d'"
proof (cases "(obs, 1) \<in> set (map projection_key_of (safe_fact_projections d))")
  case True
  with assms show ?thesis
    by (auto simp: persist_projection_def Let_def proj_stored_def
        split: option.splits if_splits)
next
  case False
  then have "find_projection obs d = None"
    unfolding find_projection_def using find_key [of projection_key_of] by blast
  with assms False show ?thesis
    by (auto simp: persist_projection_def Let_def proj_stored_def find_projection_def find_append)
qed

lemma persist_raw_item_again:
  "raw_stored a e raw d \<Longrightarrow> persist_raw_item ids now a e d = Inr (raw, False, d)"
proof -
  assume st: "raw_stored a e raw d"
  let ?row = "raw_row (new_raw_id ids d) now a e"
  obtain r where id: "raw_identity ?row \<noteq> None"
    and r: "List.find (raw_match (pa_source_id a) e) (raw_items d) = Some r" "raw_id r = raw"
    using st by (auto simp: raw_stored_def)
  have "raw_identity ?row = raw_identity r" "r \<in> set (raw_items d)"
    using find_Some_in [OF r(1)] raw_match_iff [OF id, of r] by auto
  then have "raw_identity ?row \<in> set (map raw_identity (raw_items d))" by simp
  with id r show ?thesis by (simp add: persist_raw_item_def Let_def)
qed

lemma persist_observation_again:
  "obs_stored a raw h obs d \<Longrightarrow> persist_observation ids now a raw t h inserted d = Inr (obs, d)"
proof -
  assume "obs_stored a raw h obs d"
  then obtain ob where ob: "find_observation a raw d = Some ob" "obs_projection_hash ob = h" "obs_id ob = obs"
    by (auto simp: obs_stored_def)
  then have "(pa_run_id a, raw, pa_observation_key a) \<in> set (map observation_key_of (raw_item_observations d))"
    unfolding find_observation_def by (simp only: find_key [symmetric] option.distinct simp_thms)
  with ob show ?thesis by (simp add: persist_observation_def Let_def)
qed

lemma persist_projection_again:
  "proj_stored obs h d \<Longrightarrow> persist_projection ids now a obs raw payload h quality d = Inr (0, d)"
proof -
  assume "proj_stored obs h d"
  then obtain p where p: "find_projection obs d = Some p" "sfp_projection_hash p = h"
    by (auto simp: proj_stored_def)
  then have "(obs, 1) \<in> set (map projection_key_of (safe_fact_projections d))"
    unfolding find_projection_def by (simp only: find_key [symmetric] option.distinct simp_thms)
  with p show ?thesis by (simp add: persist_projection_def Let_def)
qed

definition item_stored :: "pylib \<Rightarrow> persist_args \<Rightarrow> RawItemEnvelope \<times> dict \<Rightarrow> db \<Rightarrow> bool" where
  "item_stored lib a x d \<longleftrightarrow>
     (\<exists>facts payload quality h raw obs.
        factual_payload (pa_provider a) (pa_operation_key a) (snd x) = Inr facts
        \<and> normalize_and_classify lib (pa_provider a) (pa_operation_key a) 1 facts = Inr (payload, quality)
        \<and> canonical_projection_hash lib payload = Inr h
        \<and> raw_stored a (fst x) raw d \<and> obs_stored a raw h obs d \<and> proj_stored obs h d)"

lemma item_stored_extends: "item_stored lib a x d \<Longrightarrow> extends d d' \<Longrightarrow> item_stored lib a x d'"
  unfolding item_stored_def by (meson stored_extends)

lemma persist_item_spec:
  assumes "persist_item lib ids now a x d = Inr (inserted, n, d')"
  shows "item_stored lib a x d' \<and> extends d d'"
proof -
  obtain e metadata where x: "x = (e, metadata)" by (rule prod.exhaust)
  obtain facts payload quality h raw d1 obs d2 where
    f: "factual_payload (pa_provider a) (pa_operation_key a) metadata = Inr facts"
      "normalize_and_classify lib (pa_provider a) (pa_operation_key a) 1 facts = Inr (payload, quality)"
      "canonical_projection_hash lib payload = Inr h"
    and r: "persist_raw_item ids now a e d = Inr (raw, inserted, d1)"
    and ob: "persist_observation ids now a raw (env_fetched_at e) h inserted d1 = Inr (obs, d2)"
    and p: "persist_projection ids now a obs raw payload h quality d2 = Inr (n, d')"
    using assms by (auto simp: persist_item_def x bindR_Inr_iff)
  note specs = persist_raw_item_spec [OF r] persist_observation_spec [OF ob] persist_projection_spec [OF p]
  then have ext: "extends d1 d'" "extends d2 d'" "extends d d'" by (meson extends_trans)+
  then show ?thesis
    using specs f unfolding item_stored_def x fst_conv snd_conv by (meson stored_extends)
qed

lemma persist_item_again:
  "item_stored lib a x d \<Longrightarrow> persist_item lib ids now a x d = Inr (False, 0, d)"
  unfolding item_stored_def
  by (cases x) (auto simp: persist_item_def persist_raw_item_again persist_observation_again persist_projection_again)

lemma persist_items_spec:
  assumes "persist_items lib ids now a xs c d = Inr (c', d')"
  shows "extends d d' \<and> (\<forall>x\<in>set xs. item_stored lib a x d')"
  using assms
proof (induction xs arbitrary: c d)
  case (Cons x xs)
  then obtain inserted n d1 where one: "persist_item lib ids now a x d = Inr (inserted, n, d1)"
    and rest: "\<exists>c1. persist_items lib ids now a xs c1 d1 = Inr (c', d')"
    by (auto simp: bindR_Inr_iff)
  from rest Cons.IH have "extends d1 d' \<and> (\<forall>x\<in>set xs. item_stored lib a x d')" by blast
  with persist_item_spec [OF one] show ?case by (auto intro: extends_trans item_stored_extends)
qed simp

lemma persist_items_again:
  assumes "\<forall>x\<in>set xs. item_stored lib a x d"
  shows "persist_items lib ids now a xs c d =
     Inr (c\<lparr>dc_duplicates := dc_duplicates c + length xs, dc_observations := dc_observations c + length xs\<rparr>, d)"
  using assms by (induction xs arbitrary: c) (simp_all add: persist_item_again)

lemma persist_lengths:
  "persist_raw_item ids now a e d = Inr (raw, inserted, d') \<Longrightarrow>
     length (raw_items d') = length (raw_items d) + (if inserted then 1 else 0)
     \<and> safe_fact_projections d' = safe_fact_projections d"
  "persist_observation ids now a raw t h ins d = Inr (obs, d') \<Longrightarrow>
     raw_items d' = raw_items d \<and> safe_fact_projections d' = safe_fact_projections d"
  "persist_projection ids now a obs raw payload h quality d = Inr (n, d') \<Longrightarrow>
     raw_items d' = raw_items d \<and> length (safe_fact_projections d') = length (safe_fact_projections d) + n"
  by (auto simp: persist_raw_item_def persist_observation_def persist_projection_def Let_def
      split: if_splits option.splits)

lemma persist_items_counts:
  assumes "persist_items lib ids now a xs c d = Inr (c', d')"
  shows "dc_fetched c' = dc_fetched c
     \<and> dc_new c' + dc_duplicates c' = dc_new c + dc_duplicates c + length xs
     \<and> dc_observations c' = dc_observations c + length xs
     \<and> length (raw_items d') = length (raw_items d) + (dc_new c' - dc_new c) \<and> dc_new c \<le> dc_new c'
     \<and> length (safe_fact_projections d') = length (safe_fact_projections d) + (dc_projections c' - dc_projections c)
     \<and> dc_projections c \<le> dc_projections c'"
  using assms
proof (induction xs arbitrary: c d)
  case (Cons x xs)
  obtain e metadata where x: "x = (e, metadata)" by (rule prod.exhaust)
  obtain inserted n d1 where one: "persist_item lib ids now a x d = Inr (inserted, n, d1)"
    and rest: "persist_items lib ids now a xs
         (c\<lparr>dc_new := dc_new c + (if inserted then 1 else 0),
            dc_duplicates := dc_duplicates c + (if inserted then 0 else 1),
            dc_observations := dc_observations c + 1, dc_projections := dc_projections c + n\<rparr>) d1 = Inr (c', d')"
    using Cons.prems by (auto simp: bindR_Inr_iff)
  have len: "length (raw_items d1) = length (raw_items d) + (if inserted then 1 else 0)
      \<and> length (safe_fact_projections d1) = length (safe_fact_projections d) + n"
    using one by (auto simp: persist_item_def x bindR_Inr_iff dest!: persist_lengths)
  from Cons.IH [OF rest] len show ?case by (auto split: if_splits)
qed simp

subsection \<open>Unique indexes\<close>

definition downstream_indexes :: "db \<Rightarrow> bool" where
  "downstream_indexes d \<longleftrightarrow>
     uq_raw_items (raw_items d) \<and> uq_observations (raw_item_observations d)
     \<and> uq_projections (safe_fact_projections d)"

lemma distinct_map_filter_snoc:
  "distinct (List.map_filter g (xs @ [x])) \<longleftrightarrow>
     distinct (List.map_filter g xs) \<and> (g x = None \<or> g x \<notin> set (map g xs))"
  by (induction xs) (auto simp: List.map_filter_simps List.map_filter_def split: option.splits)

lemma persist_indexes:
  "persist_raw_item ids now a e d = Inr (raw, inserted, d') \<Longrightarrow> downstream_indexes d \<Longrightarrow> downstream_indexes d'"
  "persist_observation ids now a raw t h ins d = Inr (obs, d') \<Longrightarrow> downstream_indexes d \<Longrightarrow> downstream_indexes d'"
  "persist_projection ids now a obs raw payload h quality d = Inr (n, d') \<Longrightarrow> downstream_indexes d \<Longrightarrow> downstream_indexes d'"
  by (auto simp: persist_raw_item_def persist_observation_def persist_projection_def Let_def
      downstream_indexes_def uq_raw_items_def uq_observations_def uq_projections_def distinct_map_filter_snoc
      split: if_splits option.splits)

text \<open>What the store adds is acceptable to the validation worker.\<close>

definition acceptable :: "pylib \<Rightarrow> SafeFactProjection \<Rightarrow> bool" where
  "acceptable lib r \<longleftrightarrow>
     fresh_projection r \<and> validate_row lib r = Inr (sfp_factual_payload r, sfp_quality_status r)"

lemma projection_row_acceptable:
  assumes "iso_laws lib"
    and "normalize_and_classify lib (pa_provider a) (pa_operation_key a) 1 facts = Inr (payload, quality)"
    and "canonical_projection_hash lib payload = Inr h"
  shows "acceptable lib (projection_row i now a obs raw payload h quality)"
proof -
  have v: "validate_factual_payload lib (pa_provider a) (pa_operation_key a) 1 facts = Inr payload"
    and q: "quality = quality_of (pa_provider a) (pa_operation_key a) payload"
    using assms(2) by (auto simp: normalize_and_classify_def bindR_Inr_iff)
  show ?thesis
    using validated_fix [OF assms(1) v] q assms(3)
    by (simp add: acceptable_def fresh_projection_def projection_row_def validate_row_def normalize_and_classify_def)
qed

lemma persist_item_acceptable:
  assumes "iso_laws lib" and "persist_item lib ids now a x d = Inr (inserted, n, d')"
    and "r \<in> set (safe_fact_projections d')" and "r \<notin> set (safe_fact_projections d)"
  shows "acceptable lib r"
proof -
  obtain e metadata where x: "x = (e, metadata)" by (rule prod.exhaust)
  obtain facts payload quality h raw d1 obs d2 where
    f: "normalize_and_classify lib (pa_provider a) (pa_operation_key a) 1 facts = Inr (payload, quality)"
      "canonical_projection_hash lib payload = Inr h"
    and t: "persist_raw_item ids now a e d = Inr (raw, inserted, d1)"
      "persist_observation ids now a raw (env_fetched_at e) h inserted d1 = Inr (obs, d2)"
    and p: "persist_projection ids now a obs raw payload h quality d2 = Inr (n, d')"
    using assms(2) by (auto simp: persist_item_def x bindR_Inr_iff)
  have "safe_fact_projections d2 = safe_fact_projections d"
    using persist_lengths(1) [OF t(1)] persist_lengths(2) [OF t(2)] by simp
  then have "r = projection_row (new_projection_id ids d2) now a obs raw payload h quality"
    using p assms(3,4) by (auto simp: persist_projection_def Let_def split: if_splits option.splits)
  with projection_row_acceptable [OF assms(1) f] show ?thesis by simp
qed

lemma persist_items_acceptable:
  assumes "iso_laws lib" and "persist_items lib ids now a xs c d = Inr (c', d')"
    and "r \<in> set (safe_fact_projections d')" and "r \<notin> set (safe_fact_projections d)"
  shows "acceptable lib r"
  using assms(2,4)
proof (induction xs arbitrary: c d)
  case (Cons x xs)
  then obtain inserted n d1 c1 where one: "persist_item lib ids now a x d = Inr (inserted, n, d1)"
    and rest: "persist_items lib ids now a xs c1 d1 = Inr (c', d')"
    by (auto simp: bindR_Inr_iff)
  show ?case
  proof (cases "r \<in> set (safe_fact_projections d1)")
    case True
    with persist_item_acceptable [OF assms(1) one] Cons.prems(2) show ?thesis by blast
  next
    case False
    with Cons.IH [OF rest] show ?thesis .
  qed
qed (use assms(3) in simp)

lemma persist_items_indexes:
  assumes "persist_items lib ids now a xs c d = Inr (c', d')" and "downstream_indexes d"
  shows "downstream_indexes d'"
  using assms
proof (induction xs arbitrary: c d)
  case (Cons x xs)
  then obtain inserted n d1 c1 where one: "persist_item lib ids now a x d = Inr (inserted, n, d1)"
    and rest: "persist_items lib ids now a xs c1 d1 = Inr (c', d')"
    by (auto simp: bindR_Inr_iff)
  have "downstream_indexes d1"
    using one Cons.prems(2)
    by (cases x) (auto simp: persist_item_def bindR_Inr_iff dest!: persist_indexes)
  with Cons.IH [OF rest] show ?case .
qed simp

lemma persist_result_items:
  "persist_fetch_result lib ids now a result d = Inr (c, d') \<longleftrightarrow>
     length (pres_factual_projections result) = length (pres_raw_items result)
     \<and> persist_items lib ids now a (zip (pres_raw_items result) (pres_factual_projections result))
         \<lparr>dc_fetched = length (pres_raw_items result), dc_new = 0, dc_duplicates = 0,
          dc_observations = 0, dc_projections = 0\<rparr> d = Inr (c, d')"
  by (auto simp: persist_fetch_result_def)

lemma validate_one_acceptable:
  assumes "acceptable lib r" and "get_projection D (sfp_id r) = Some (claim_projection t r)"
  shows "\<exists>D'. worker_validate_one lib (sfp_id r) now D = Inr (True, D') \<and> has_status {Proj_READY} D' (sfp_id r)"
proof -
  have "validate_row lib (claim_projection t r) = validate_row lib r"
    by (simp add: validate_row_def claim_projection_def)
  then have v: "validate_row lib (claim_projection t r) = Inr (sfp_factual_payload r, sfp_quality_status r)"
    using assms(1) by (simp add: acceptable_def)
  have "sfp_processing_status (claim_projection t r) = Proj_VALIDATING" by (simp add: claim_projection_def)
  with assms(2) v show ?thesis
    by (simp add: worker_validate_one_def has_status_def) (simp add: ready_row_def)
qed

subsection \<open>Properties\<close>

text \<open>Property C10.  Persisting a fetch result is idempotent within a run: when it succeeded, doing
  it again (a redelivered task, with whatever clock and identifiers) changes no table, counts
  every item as a duplicate and creates no projection.\<close>

theorem persist_is_idempotent:
  assumes "persist_fetch_result lib ids now a result d = Inr (c, d')"
  shows "persist_fetch_result lib ids' now' a result d' =
     Inr (\<lparr>dc_fetched = dc_fetched c, dc_new = 0, dc_duplicates = dc_fetched c,
           dc_observations = dc_fetched c, dc_projections = 0\<rparr>, d')"
proof -
  note items = assms [unfolded persist_result_items]
  note spec = persist_items_spec [OF items [THEN conjunct2], THEN conjunct2]
  have "dc_fetched c = length (pres_raw_items result)"
    using persist_items_counts [OF items [THEN conjunct2]] by simp
  with items show ?thesis
    unfolding persist_result_items using persist_items_again [OF spec] by simp
qed

text \<open>A successful call accounts for every item: fetched items are new or
  duplicates, each has its observation, the tables grow by exactly the new items and the new
  projections, and the unique indexes of the three tables are kept.\<close>

theorem persist_accounts_items:
  assumes "persist_fetch_result lib ids now a result d = Inr (c, d')" and "downstream_indexes d"
  shows "dc_fetched c = dc_new c + dc_duplicates c \<and> dc_observations c = dc_fetched c
    \<and> length (raw_items d') = length (raw_items d) + dc_new c
    \<and> length (safe_fact_projections d') = length (safe_fact_projections d) + dc_projections c
    \<and> downstream_indexes d'"
  using persist_items_counts [of lib ids now a _ _ d c d'] persist_items_indexes [of lib ids now a _ _ d c d'] assms
  by (auto simp: persist_result_items)

text \<open>Property C19.  What the collection side stores, the validation worker accepts: every projection
  that a fetch result added becomes ready when a worker has claimed it.\<close>

theorem persisted_projection_becomes_ready:
  assumes "iso_laws lib" and "persist_fetch_result lib ids now a result d = Inr (c, d')"
    and "r \<in> set (safe_fact_projections d')" and "r \<notin> set (safe_fact_projections d)"
    and "get_projection D (sfp_id r) = Some (claim_projection t r)"
  shows "\<exists>D'. worker_validate_one lib (sfp_id r) now' D = Inr (True, D') \<and> has_status {Proj_READY} D' (sfp_id r)"
proof (rule validate_one_acceptable [OF _ assms(5)])
  show "acceptable lib r"
    using assms by (auto simp: persist_result_items intro: persist_items_acceptable)
qed

subsection \<open>A concrete result\<close>

definition sample_ids :: idgen where
  "sample_ids = \<lparr>new_raw_id = (\<lambda>_. ''r1''), new_observation_id = (\<lambda>_. ''o1''), new_projection_id = (\<lambda>_. ''p1'')\<rparr>"

definition sample_args :: persist_args where
  "sample_args = \<lparr>pa_run_id = ''run1'', pa_source_id = ''s1'', pa_source_account_id = None,
     pa_provider = ''finnhub'', pa_target_id = Some ''t1'', pa_operation_key = ''quote'',
     pa_config_revision = Some 1, pa_provider_contract_version = 1, pa_observation_key = ''run''\<rparr>"

definition sample_envelope :: RawItemEnvelope where
  "sample_envelope = \<lparr>env_external_id = Some ''AAPL:1'', env_fetched_at = 5, env_http_status = Some 200,
     env_content_type = None, env_payload_location = None, env_payload_hash = Some sample_hash,
     env_retention_class = ''link_only''\<rparr>"

definition sample_result :: ProviderFetchResult where
  "sample_result = \<lparr>pres_raw_items = [sample_envelope], pres_sanitized_metadata = [[]],
     pres_next_cursor = None, pres_has_more = False, pres_safe_errors = [], pres_provider = ''finnhub'',
     pres_contract_version = 1, pres_display_projections = [],
     pres_factual_projections = [sample_quote '' aapl '' ''USD''], pres_continuation = None,
     pres_rejected_row_hashes = [], pres_coverage_incomplete = False\<rparr>"

definition sample_counts :: DownstreamCounts where
  "sample_counts = \<lparr>dc_fetched = 1, dc_new = 1, dc_duplicates = 0, dc_observations = 1, dc_projections = 1\<rparr>"

definition stored_row :: SafeFactProjection where
  "stored_row = projection_row ''p1'' 7 sample_args ''o1'' ''r1'' normal_quote sample_hash Quality_PARTIAL"

definition sample_stored :: db where
  "sample_stored = empty_db\<lparr>raw_items := [raw_row ''r1'' 7 sample_args sample_envelope],
     raw_item_observations := [observation_row ''o1'' 7 sample_args ''r1'' 5 sample_hash FIRST_SEEN],
     safe_fact_projections := [stored_row]\<rparr>"

lemma sample_facts:
  "factual_payload ''finnhub'' ''quote'' (sample_quote '' aapl '' ''USD'') = Inr (sample_quote '' aapl '' ''USD'')"
  "normalize_and_classify sample_lib ''finnhub'' ''quote'' 1 (sample_quote '' aapl '' ''USD'') = Inr (normal_quote, Quality_PARTIAL)"
  "canonical_projection_hash sample_lib normal_quote = Inr sample_hash"
  by code_simp+

lemma sample_identity: "raw_identity (raw_row i now sample_args sample_envelope) = Some (''s1'', True, ''AAPL:1'')"
  by (simp add: raw_identity_def raw_row_def sample_args_def sample_envelope_def)

lemma sample_persist:
  "persist_fetch_result sample_lib sample_ids 7 sample_args sample_result empty_db = Inr (sample_counts, sample_stored)"
proof -
  have a: "pa_provider sample_args = ''finnhub''" "pa_operation_key sample_args = ''quote''"
    "env_fetched_at sample_envelope = 5" by (simp_all add: sample_args_def sample_envelope_def)
  show ?thesis
    by (simp add: persist_fetch_result_def sample_result_def persist_item_def a sample_facts
        persist_raw_item_def persist_observation_def persist_projection_def sample_identity Let_def
        observation_kind_def sample_ids_def empty_db_def sample_stored_def stored_row_def sample_counts_def)
qed

theorem persist_is_idempotent_witness:
  "persist_fetch_result sample_lib sample_ids 9 sample_args sample_result sample_stored =
     Inr (\<lparr>dc_fetched = 1, dc_new = 0, dc_duplicates = 1, dc_observations = 1, dc_projections = 0\<rparr>, sample_stored)"
  using persist_is_idempotent [OF sample_persist, of sample_ids 9] by (simp add: sample_counts_def)

theorem persist_accounts_items_witness:
  "length (raw_items sample_stored) = 1 \<and> downstream_indexes sample_stored"
proof -
  have "downstream_indexes empty_db"
    by (simp add: downstream_indexes_def empty_db_def uq_raw_items_def uq_observations_def uq_projections_def
        List.map_filter_simps)
  from persist_accounts_items [OF sample_persist this] show ?thesis
    by (simp add: sample_counts_def empty_db_def)
qed

theorem persisted_projection_becomes_ready_witness:
  "\<exists>D'. worker_validate_one sample_lib ''p1'' 10 (table_of (claim_projection 8 stored_row)) = Inr (True, D')
        \<and> has_status {Proj_READY} D' ''p1''"
proof -
  have i: "sfp_id stored_row = ''p1''" by (simp add: stored_row_def projection_row_def)
  have "get_projection (table_of (claim_projection 8 stored_row)) (sfp_id stored_row) = Some (claim_projection 8 stored_row)"
    by (simp add: get_projection_def)
  from persisted_projection_becomes_ready [OF sample_iso_laws sample_persist _ _ this, of 10] show ?thesis
    by (simp add: i sample_stored_def empty_db_def)
qed

end
