(* ===== verification/Collection_Runs.thy ===== *)
theory Collection_Runs
  imports Target_Repository Cursors Downstream
begin

text \<open>
  The transactions of the control plane (\<open>collection/control_plane.py\<close>) on runs, cursors and targets: start
  of a run, pinning of the collection window, the request budget of a page, persistence of a result, the
  three ways a run ends with an error, and the recovery of stale runs.  Each is a function on the database
  that either returns a result and the new database or raises, in which case nothing is written.

  A transaction commits only if the check constraints, the unique indexes and the triggers of the schema
  accept it; otherwise SQLAlchemy raises.  The run triggers of migration 0009 are modelled; the cursor
  trigger, which re-validates a stored continuation in PL/pgSQL, is the argument \<open>guard\<close>.
\<close>

record TargetDispatch =
  disp_target_id :: uuid
  disp_config_revision :: int
  disp_scheduled_slot :: int
  disp_run_mode :: string
  disp_dispatch_id :: string

definition dispatch_payload :: "TargetDispatch \<Rightarrow> dict" where
  "dispatch_payload p =
     [(''target_id'', JStr (disp_target_id p)), (''config_revision'', JInt (disp_config_revision p)),
      (''scheduled_slot'', JInt (disp_scheduled_slot p)), (''run_mode'', JStr (disp_run_mode p)),
      (''dispatch_id'', JStr (disp_dispatch_id p))]"

record TargetRunOutcome =
  out_target_id :: uuid
  out_status :: string
  out_run_id :: "uuid option"
  out_safe_error :: "string option"

definition dispatch_identity :: "uuid \<Rightarrow> int \<Rightarrow> int \<Rightarrow> string \<Rightarrow> string" where
  "dispatch_identity target_id revision slot mode =
     target_id @ '':'' @ str_int revision @ '':'' @ str_int slot @ '':'' @ mode"

definition dispatch_task_id :: "pylib \<Rightarrow> string \<Rightarrow> string" where
  "dispatch_task_id lib identity = ''collection-target-'' @ uuid5_url lib identity"

definition seconds :: "int \<Rightarrow> time" where
  "seconds n = n * 1000000"

subsection \<open>Commit\<close>

text \<open>\<open>m2_run_window_guard\<close>: window and configuration hash are written once, before the first request of a
  running run.  \<open>m2_run_terminal_continuation_guard\<close>: no continuation stays bound to a succeeded run.\<close>

definition m2_run_window_guard :: "CollectionRun \<Rightarrow> CollectionRun \<Rightarrow> bool" where
  "m2_run_window_guard old_row new_row =
     (\<not> (run_resolved_window old_row \<noteq> None \<and> run_resolved_window new_row \<noteq> run_resolved_window old_row)
      \<and> \<not> (run_operation_config_hash old_row \<noteq> None
           \<and> run_operation_config_hash new_row \<noteq> run_operation_config_hash old_row)
      \<and> \<not> ((run_resolved_window old_row = None \<and> run_resolved_window new_row \<noteq> None
            \<or> run_operation_config_hash old_row = None \<and> run_operation_config_hash new_row \<noteq> None)
           \<and> (run_request_count old_row \<noteq> 0 \<or> run_status old_row \<noteq> Run_RUNNING)))"

definition m2_run_terminal_continuation_guard :: "db \<Rightarrow> CollectionRun \<Rightarrow> bool" where
  "m2_run_terminal_continuation_guard d r =
     (\<not> (run_status r = Run_SUCCEEDED
         \<and> list_ex (\<lambda>c. cur_continuation_run_id c = Some (run_id r) \<and> cur_continuation c \<noteq> None) (collection_cursors d)))"

definition run_triggers :: "db \<Rightarrow> db \<Rightarrow> bool" where
  "run_triggers d d' =
     list_all (\<lambda>r'. case get_run d (run_id r') of
                      None \<Rightarrow> m2_run_terminal_continuation_guard d' r'
                    | Some r \<Rightarrow> m2_run_window_guard r r'
                               \<and> (run_status r' \<noteq> run_status r \<longrightarrow> m2_run_terminal_continuation_guard d' r'))
       (collection_runs d')"

definition commit :: "(db \<Rightarrow> db \<Rightarrow> bool) \<Rightarrow> db \<Rightarrow> db \<Rightarrow> db res" where
  "commit guard d d' =
     (if list_all ck_collection_runs (collection_runs d') \<and> list_all ck_collection_targets (collection_targets d')
         \<and> uq_running_target_mode (collection_runs d') \<and> uq_cursor_slots (collection_cursors d')
         \<and> run_triggers d d' \<and> guard d d'
      then Inr d' else Inl (SQLAlchemyError ''integrity_error''))"

subsection \<open>Starting a run\<close>

definition find_cursor :: "db \<Rightarrow> CollectionTarget \<Rightarrow> CollectionRunMode \<Rightarrow> CollectionCursor option" where
  "find_cursor d t mode =
     List.find (\<lambda>c. cur_target_id c = Some (tgt_id t) \<and> cur_cursor_type c = tgt_operation_key t
                    \<and> cur_cursor_version c = tgt_cursor_version t \<and> cur_run_mode c = mode) (collection_cursors d)"

definition find_running :: "db \<Rightarrow> uuid \<Rightarrow> CollectionRunMode \<Rightarrow> CollectionRun option" where
  "find_running d target_id mode =
     List.find (\<lambda>r. run_target_id r = Some target_id \<and> run_run_mode r = mode \<and> run_status r = Run_RUNNING)
       (collection_runs d)"

definition new_run :: "uuid \<Rightarrow> time \<Rightarrow> CollectionTarget \<Rightarrow> TargetDispatch \<Rightarrow> CollectionRunMode \<Rightarrow> CollectionRun" where
  "new_run i now t p mode =
     \<lparr>run_id = i, run_source_id = tgt_source_id t, run_source_account_id = tgt_source_account_id t,
      run_target_id = Some (tgt_id t), run_run_mode = mode, run_dispatch_identity = Some (disp_dispatch_id p),
      run_started_at = now, run_finished_at = None, run_status = Run_RUNNING, run_fetched_count = 0,
      run_request_count = 0, run_page_count = 0, run_resolved_window = None,
      run_operation_config_hash = None, run_new_count = 0, run_duplicate_count = 0, run_error_count = 0,
      run_error_code = None, run_error_message_redacted = None, run_retry_count = 0\<rparr>"

definition add_run :: "CollectionRun \<Rightarrow> db \<Rightarrow> db" where
  "add_run r d = d\<lparr>collection_runs := collection_runs d @ [r]\<rparr>"

definition start_run ::
  "(db \<Rightarrow> db \<Rightarrow> bool) \<Rightarrow> (db \<Rightarrow> uuid) \<Rightarrow> time \<Rightarrow> LoadedTarget \<Rightarrow> TargetDispatch \<Rightarrow> CollectionRunMode \<Rightarrow> db
     \<Rightarrow> ((uuid \<times> CollectionCursor option) \<times> db) res" where
  "start_run guard gen now loaded p mode d =
     (case get_target d (tgt_id (lt_target loaded)) of
        None \<Rightarrow> repo_error ''stale_target_revision''
      | Some t \<Rightarrow>
          (if tgt_config_revision t \<noteq> disp_config_revision p then repo_error ''stale_target_revision''
           else case find_running d (tgt_id t) mode of
             Some r \<Rightarrow> Inr ((run_id r, find_cursor d t mode), d)
           | None \<Rightarrow>
               (let r = new_run (gen d) now t p mode in
                bindR (commit guard d (add_run r d)) (\<lambda>d'. Inr ((run_id r, find_cursor d' t mode), d')))))"

subsection \<open>Pinning the window\<close>

definition lineage :: "LoadedTarget \<Rightarrow> CollectionRunMode \<Rightarrow> ContinuationLineage" where
  "lineage loaded mode =
     (let t = lt_target loaded in
      \<lparr>lin_target_id = tgt_id t, lin_config_revision = tgt_config_revision t,
       lin_operation_key = tgt_operation_key t, lin_operation_config_version = tgt_operation_config_version t,
       lin_provider_contract_version = tgt_provider_contract_version t, lin_cursor_version = tgt_cursor_version t,
       lin_run_mode = run_mode_value mode\<rparr>)"

definition new_cursor :: "uuid \<Rightarrow> time \<Rightarrow> uuid \<Rightarrow> uuid option \<Rightarrow> string \<Rightarrow> int \<Rightarrow> CollectionRunMode \<Rightarrow> CollectionCursor" where
  "new_cursor i now account target typ version mode =
     \<lparr>cur_id = i, cur_source_account_id = account, cur_target_id = target, cur_cursor_type = typ,
      cur_cursor_version = version, cur_run_mode = mode, cur_cursor_value = None, cur_continuation = None,
      cur_continuation_run_id = None, cur_watermark_at = None, cur_last_published_at = None, cur_updated_at = now\<rparr>"

definition target_cursor :: "uuid \<Rightarrow> time \<Rightarrow> uuid \<Rightarrow> CollectionTarget \<Rightarrow> CollectionRunMode \<Rightarrow> CollectionCursor" where
  "target_cursor i now account t mode =
     new_cursor i now account (Some (tgt_id t)) (tgt_operation_key t) (tgt_cursor_version t) mode"

text \<open>The flush of a cursor: an \<open>INSERT\<close> when it is new, an \<open>UPDATE\<close> that touches \<open>updated_at\<close> when a column
  changed.\<close>

definition save_cursor :: "time \<Rightarrow> CollectionCursor option \<Rightarrow> CollectionCursor \<Rightarrow> db \<Rightarrow> db" where
  "save_cursor now loaded_row c d =
     (case loaded_row of
        None \<Rightarrow> d\<lparr>collection_cursors := collection_cursors d @ [c]\<rparr>
      | Some c0 \<Rightarrow> (if c = c0 then d else put_cursor (c\<lparr>cur_updated_at := now\<rparr>) d))"

text \<open>A continuation that Python treats as true.\<close>

definition stored_continuation :: "CollectionCursor \<Rightarrow> dict option" where
  "stored_continuation c = (if cur_continuation c = Some [] then None else cur_continuation c)"

definition saved_window ::
  "pylib \<Rightarrow> LoadedTarget \<Rightarrow> CollectionRunMode \<Rightarrow> CollectionCursor \<Rightarrow> dict option res" where
  "saved_window lib loaded mode persisted =
     (case stored_continuation persisted of
        None \<Rightarrow> Inr None
      | Some k \<Rightarrow>
          (case dget k ''resolved_window'' of
             JObj raw \<Rightarrow>
               bindR (decode_continuation lib k (src_access_method (lt_source loaded)) (tgt_operation_key (lt_target loaded))
                        (resolved_config (lt_config loaded) raw) (lineage loaded mode)) (\<lambda>_.
                 Inr (if raw = [] then None else Some raw))
           | _ \<Rightarrow> Inr None))"

definition pin_window ::
  "pylib \<Rightarrow> LoadedTarget \<Rightarrow> CollectionRunMode \<Rightarrow> CollectionCursor option \<Rightarrow> CollectionCursor \<Rightarrow> CollectionRun \<Rightarrow> dict res" where
  "pin_window lib loaded mode snapshot persisted run =
     (case run_resolved_window run of
        Some w \<Rightarrow> Inr w
      | None \<Rightarrow>
          bindR (saved_window lib loaded mode persisted) (\<lambda>saved.
          bindR (case saved of
                   Some w \<Rightarrow> Inr w
                 | None \<Rightarrow> resolve_window (tgt_operation_key (lt_target loaded)) (lt_config loaded) (run_started_at run)
                             (case snapshot of None \<Rightarrow> None | Some c \<Rightarrow> cur_watermark_at c)) (\<lambda>window.
          bindR (breadth_config (src_access_method (lt_source loaded)) (tgt_operation_key (lt_target loaded)) lib
                   (resolved_config (lt_config loaded) window)) (\<lambda>_.
            Inr window))))"

definition resolved_run_config ::
  "pylib \<Rightarrow> (db \<Rightarrow> db \<Rightarrow> bool) \<Rightarrow> (db \<Rightarrow> uuid) \<Rightarrow> time \<Rightarrow> uuid \<Rightarrow> LoadedTarget \<Rightarrow> CollectionCursor option \<Rightarrow> CollectionRunMode
     \<Rightarrow> db \<Rightarrow> ((dict \<times> dict) \<times> db) res" where
  "resolved_run_config lib guard gen now i loaded snapshot mode d =
     (case get_run d i of
        None \<Rightarrow> Inl AssertionError
      | Some run \<Rightarrow>
          (let t = lt_target loaded; provider = src_access_method (lt_source loaded); found = find_cursor d t mode in
           bindR (case (found, tgt_source_account_id t) of
                    (Some c, _) \<Rightarrow> Inr c
                  | (None, None) \<Rightarrow> repo_error ''target_cursor_requires_account_during_rollback''
                  | (None, Some account) \<Rightarrow> Inr (target_cursor (gen d) now account t mode)) (\<lambda>persisted.
           bindR (pin_window lib loaded mode snapshot persisted run) (\<lambda>window.
           let config = resolved_config (lt_config loaded) window in
           bindR (canonical_projection_hash lib config) (\<lambda>h.
           if run_operation_config_hash run \<notin> {None, Some h} then repo_error ''run_operation_config_hash_mismatch''
           else
             bindR (case stored_continuation persisted of
                      Some k \<Rightarrow> bindR (decode_continuation lib k provider (tgt_operation_key t) config (lineage loaded mode)) (\<lambda>_. Inr k)
                    | None \<Rightarrow> encode_continuation lib provider (tgt_operation_key t) config (lineage loaded mode) []) (\<lambda>k.
             let run' = run\<lparr>run_resolved_window := Some window, run_operation_config_hash := Some h\<rparr>;
                 c' = persisted\<lparr>cur_continuation := Some k, cur_continuation_run_id := Some (run_id run)\<rparr>
             in
             bindR (commit guard d (save_cursor now found c' (put_run run' d))) (\<lambda>d'.
               Inr ((config, k), d'))))))))"

subsection \<open>The request budget of a page\<close>

text \<open>The value is the deadline of the run, or \<open>None\<close> when the budget is used up and the run has ended.\<close>

definition claim_page ::
  "(db \<Rightarrow> db \<Rightarrow> bool) \<Rightarrow> time \<Rightarrow> LoadedTarget \<Rightarrow> TargetDispatch \<Rightarrow> uuid \<Rightarrow> db \<Rightarrow> (time option \<times> db) res" where
  "claim_page guard now loaded p i d =
     (case get_run d i of
        None \<Rightarrow> Inl AssertionError
      | Some run \<Rightarrow>
          (if run_request_count run \<ge> tgt_max_requests_per_run (lt_target loaded)
              \<or> run_page_count run \<ge> tgt_max_pages_per_run (lt_target loaded)
           then case get_target d (disp_target_id p) of
               None \<Rightarrow> Inl AssertionError
             | Some t \<Rightarrow>
                 bindR (commit guard d
                   (put_target (t\<lparr>tgt_next_retry_at := None, tgt_next_due_at := now + seconds (tgt_cadence_seconds t),
                                  tgt_health_status := Health_DEGRADED, tgt_last_error_code := Some ''coverage_incomplete'',
                                  tgt_updated_at := now\<rparr>)
                     (put_run (run\<lparr>run_status := Run_PARTIAL, run_finished_at := Some now,
                                   run_error_code := Some ''coverage_incomplete''\<rparr>) d))) (\<lambda>d'. Inr (None, d'))
           else bindR (commit guard d (put_run (run\<lparr>run_request_count := run_request_count run + 1\<rparr>) d)) (\<lambda>d'.
                  Inr (Some (run_started_at run + seconds (tgt_max_runtime_seconds (lt_target loaded))), d'))))"

subsection \<open>Persisting a result\<close>

definition rejected_audit :: "pylib \<Rightarrow> time \<Rightarrow> uuid \<Rightarrow> string \<Rightarrow> AuditLog" where
  "rejected_audit lib now target_id h =
     audit_row (uuid5_url lib (''m2-rejected:'' @ target_id @ '':'' @ h)) now ''provider_row_rejected'' target_id None
       (Some [(''row_identity_hash'', JStr h), (''safe_error'', JStr ''provider_row_contract_invalid'')])"

fun audit_rejected :: "pylib \<Rightarrow> time \<Rightarrow> uuid \<Rightarrow> string list \<Rightarrow> db \<Rightarrow> db res" where
  "audit_rejected lib now target_id [] d = Inr d"
| "audit_rejected lib now target_id (h # hs) d =
     (if \<not> hex64 h then Inl (ValueError ''rejected_row_identity_invalid'')
      else let a = rejected_audit lib now target_id h in
           audit_rejected lib now target_id hs
             (if aud_id a \<in> set (map aud_id (audit_logs d)) then d else add_audit a d))"

definition incomplete :: "ProviderFetchResult \<Rightarrow> bool" where
  "incomplete r = (pres_has_more r \<or> pres_coverage_incomplete r)"

definition counted_run :: "bool \<Rightarrow> DownstreamCounts \<Rightarrow> CollectionRun \<Rightarrow> CollectionRun" where
  "counted_run page_mode c r =
     r\<lparr>run_fetched_count := (if page_mode then run_fetched_count r else 0) + int (dc_fetched c),
       run_new_count := (if page_mode then run_new_count r else 0) + int (dc_new c),
       run_duplicate_count := (if page_mode then run_duplicate_count r else 0) + int (dc_duplicates c),
       run_page_count := run_page_count r + (if page_mode then 1 else 0)\<rparr>"

definition finished_run :: "time \<Rightarrow> bool \<Rightarrow> bool \<Rightarrow> ProviderFetchResult \<Rightarrow> CollectionRun \<Rightarrow> CollectionRun" where
  "finished_run now page_mode final result r =
     (if \<not> final then r\<lparr>run_finished_at := None, run_status := Run_RUNNING\<rparr>
      else if incomplete result
      then r\<lparr>run_finished_at := Some now, run_status := Run_PARTIAL, run_error_code := Some ''coverage_incomplete'',
             run_error_message_redacted := Some (if page_mode then ''bounded run budget exhausted''
               else ''provider continuation is unsupported for this operation'')\<rparr>
      else r\<lparr>run_finished_at := Some now, run_status := Run_SUCCEEDED\<rparr>)"

definition attempted_target :: "time \<Rightarrow> bool \<Rightarrow> ProviderFetchResult \<Rightarrow> CollectionTarget \<Rightarrow> CollectionTarget" where
  "attempted_target now final result t =
     (let t1 = (if \<not> final then t
                else if incomplete result
                then t\<lparr>tgt_health_status := Health_DEGRADED, tgt_last_error_code := Some ''coverage_incomplete''\<rparr>
                else t\<lparr>tgt_health_status := Health_HEALTHY, tgt_last_error_code := None,
                       tgt_last_success_at := Some now, tgt_consecutive_failures := 0\<rparr>)
      in t1\<lparr>tgt_last_attempt_at := Some now, tgt_next_retry_at := None,
            tgt_next_due_at := now + seconds (tgt_cadence_seconds t), tgt_updated_at := now\<rparr>)"

definition at_position :: "CursorPosition option \<Rightarrow> CollectionCursor \<Rightarrow> CollectionCursor" where
  "at_position pos c =
     (case pos of
        None \<Rightarrow> c
      | Some q \<Rightarrow> c\<lparr>cur_last_published_at := Some (published_at q), cur_watermark_at := Some (published_at q)\<rparr>)"

text \<open>The new columns of the target's cursor; \<open>decide_cursor\<close> raises unless the proposed value is a successor.\<close>

definition advanced_cursor ::
  "pylib \<Rightarrow> bool \<Rightarrow> ProviderFetchResult \<Rightarrow> uuid \<Rightarrow> CollectionTarget \<Rightarrow> CollectionCursor \<Rightarrow> CollectionCursor res" where
  "advanced_cursor lib page_mode result run t c =
     (if page_mode then
        bindR (decide_cursor lib (strategy_value (tgt_cursor_strategy t)) (cur_cursor_value c) (pres_next_cursor result)) (\<lambda>dec.
          let k = (if pres_continuation result = Some [] then None else pres_continuation result) in
          Inr (at_position (candidate dec)
                 (c\<lparr>cur_cursor_value := pres_next_cursor result, cur_continuation := k,
                    cur_continuation_run_id := (if k = None then None else Some run)\<rparr>)))
      else if pres_has_more result then
        Inr (c\<lparr>cur_continuation := Some [(''coverage_incomplete'', JBool True), (''continuation_unsupported'', JBool True)]\<rparr>)
      else if pres_next_cursor result \<noteq> None then
        bindR (decide_cursor lib (strategy_value (tgt_cursor_strategy t)) (cur_cursor_value c) (pres_next_cursor result)) (\<lambda>dec.
          Inr (at_position (candidate dec)
                 (c\<lparr>cur_cursor_value := pres_next_cursor result, cur_continuation := None\<rparr>)))
      else Inr c)"

definition find_legacy_cursor :: "db \<Rightarrow> uuid \<Rightarrow> string \<Rightarrow> CollectionCursor option" where
  "find_legacy_cursor d account typ =
     List.find (\<lambda>c. cur_source_account_id c = account \<and> cur_cursor_type c = typ) (collection_cursors d)"

definition save_legacy_cursor ::
  "(db \<Rightarrow> uuid) \<Rightarrow> time \<Rightarrow> ProviderFetchResult \<Rightarrow> CollectionTarget \<Rightarrow> db \<Rightarrow> db" where
  "save_legacy_cursor gen now result t d =
     (case (tgt_legacy_cursor_type t, tgt_source_account_id t, pres_next_cursor result) of
        (Some typ, Some account, Some v) \<Rightarrow>
          (if pres_has_more result then d
           else let found = find_legacy_cursor d account typ;
                    c = (case found of Some c \<Rightarrow> c | None \<Rightarrow> new_cursor (gen d) now account None typ 1 NORMAL)
                in save_cursor now found (c\<lparr>cur_cursor_value := Some v\<rparr>) d)
      | _ \<Rightarrow> d)"

definition persist_cursor ::
  "pylib \<Rightarrow> (db \<Rightarrow> uuid) \<Rightarrow> time \<Rightarrow> bool \<Rightarrow> ProviderFetchResult \<Rightarrow> CollectionCursor option \<Rightarrow> uuid \<Rightarrow> CollectionTarget
     \<Rightarrow> CollectionRunMode \<Rightarrow> db \<Rightarrow> db res" where
  "persist_cursor lib gen now page_mode result snapshot run t mode d =
     (if \<not> (page_mode \<or> pres_next_cursor result \<noteq> None \<or> pres_has_more result) then Inr d
      else
        let found = find_cursor d t mode in
        bindR (case found of
                 None \<Rightarrow> (case tgt_source_account_id t of
                            None \<Rightarrow> Inl (ValueError ''target_cursor_requires_account_during_rollback'')
                          | Some account \<Rightarrow> Inr (target_cursor (gen d) now account t mode))
               | Some c \<Rightarrow>
                   (case snapshot of
                      Some s \<Rightarrow> (if cur_cursor_value c \<noteq> cur_cursor_value s
                                 then Inl (ValueError ''target_cursor_stale'') else Inr c)
                    | None \<Rightarrow> Inr c)) (\<lambda>c.
        bindR (advanced_cursor lib page_mode result run t c) (\<lambda>c'.
          Inr (save_legacy_cursor gen now result t (save_cursor now found c' d)))))"

record persist_mode =
  pm_page_mode :: bool
  pm_final :: bool
  pm_observation_key :: string

definition persist_result ::
  "pylib \<Rightarrow> (db \<Rightarrow> db \<Rightarrow> bool) \<Rightarrow> idgen \<Rightarrow> (db \<Rightarrow> uuid) \<Rightarrow> time \<Rightarrow> LoadedTarget \<Rightarrow> TargetDispatch \<Rightarrow> uuid
     \<Rightarrow> CollectionCursor option \<Rightarrow> ProviderFetchResult \<Rightarrow> CollectionRunMode \<Rightarrow> persist_mode \<Rightarrow> db \<Rightarrow> db res" where
  "persist_result lib guard ids gen now loaded p i snapshot result mode m d =
     (case (get_target d (tgt_id (lt_target loaded)), get_run d i) of
        (Some t, Some run) \<Rightarrow>
          (if tgt_config_revision t \<noteq> disp_config_revision p then repo_error ''stale_target_revision''
           else
             bindR (persist_fetch_result lib ids now
                      \<lparr>pa_run_id = i, pa_source_id = tgt_source_id t, pa_source_account_id = tgt_source_account_id t,
                       pa_provider = src_access_method (lt_source loaded), pa_target_id = Some (tgt_id t),
                       pa_operation_key = tgt_operation_key t, pa_config_revision = Some (tgt_config_revision t),
                       pa_provider_contract_version = tgt_provider_contract_version t,
                       pa_observation_key = pm_observation_key m\<rparr> result d) (\<lambda>(counts, d1).
             bindR (audit_rejected lib now (tgt_id t) (pres_rejected_row_hashes result) d1) (\<lambda>d2.
             let run' = finished_run now (pm_page_mode m) (pm_final m) result (counted_run (pm_page_mode m) counts run);
                 t' = attempted_target now (pm_final m) result t in
             bindR (persist_cursor lib gen now (pm_page_mode m) result snapshot i t mode (put_target t' (put_run run' d2))) (\<lambda>d3.
               commit guard d d3))))
      | _ \<Rightarrow> repo_error ''stale_target_revision'')"

subsection \<open>Ending a run with an error\<close>

text \<open>\<open>int(_)\<close> of a float truncates; \<open>retry_after or 30\<close> replaces \<open>None\<close> and zero.\<close>

definition py_int :: "rat \<Rightarrow> int" where
  "py_int r = (if r < 0 then \<lceil>r\<rceil> else \<lfloor>r\<rfloor>)"

definition retry_delay :: "rat option \<Rightarrow> int" where
  "retry_delay after =
     min (max (py_int (case after of None \<Rightarrow> 30 | Some r \<Rightarrow> if r = 0 then 30 else r)) 1) 900"

definition failed_run :: "time \<Rightarrow> string \<Rightarrow> CollectionRun \<Rightarrow> CollectionRun" where
  "failed_run now code r =
     r\<lparr>run_status := Run_FAILED, run_finished_at := Some now, run_error_code := Some code,
       run_error_message_redacted := Some code\<rparr>"

definition degraded_target :: "time \<Rightarrow> string \<Rightarrow> CollectionTarget \<Rightarrow> CollectionTarget" where
  "degraded_target now code t =
     t\<lparr>tgt_health_status := Health_DEGRADED, tgt_last_error_code := Some code, tgt_updated_at := now\<rparr>"

definition error_run :: "time \<Rightarrow> string \<Rightarrow> bool \<Rightarrow> CollectionRun \<Rightarrow> CollectionRun" where
  "error_run now code retry r =
     r\<lparr>run_status := (if retry then Run_RUNNING else Run_FAILED), run_finished_at := (if retry then None else Some now),
       run_error_count := run_error_count r + 1, run_error_code := Some code, run_error_message_redacted := Some code,
       run_retry_count := run_retry_count r + (if retry then 1 else 0)\<rparr>"

definition error_target :: "time \<Rightarrow> string \<Rightarrow> bool \<Rightarrow> rat option \<Rightarrow> CollectionTarget \<Rightarrow> CollectionTarget" where
  "error_target now code retry after t =
     (degraded_target now code t)\<lparr>tgt_last_attempt_at := Some now,
       tgt_consecutive_failures := tgt_consecutive_failures t + 1,
       tgt_next_retry_at := (if retry then Some (now + seconds (retry_delay after)) else None),
       tgt_next_due_at := (if retry then tgt_next_due_at t else now + seconds (tgt_cadence_seconds t))\<rparr>"

definition finish_error ::
  "(db \<Rightarrow> db \<Rightarrow> bool) \<Rightarrow> time \<Rightarrow> LoadedTarget \<Rightarrow> TargetDispatch \<Rightarrow> uuid \<Rightarrow> string \<Rightarrow> bool \<Rightarrow> rat option \<Rightarrow> db
     \<Rightarrow> (bool \<times> db) res" where
  "finish_error guard now loaded p i code retryable after d =
     (case (get_run d i, get_target d (tgt_id (lt_target loaded))) of
        (Some run, Some t) \<Rightarrow>
          (if tgt_config_revision t \<noteq> disp_config_revision p
           then bindR (commit guard d (put_run (failed_run now ''stale_target_revision'' run) d)) (\<lambda>d'. Inr (False, d'))
           else
             let retry = (retryable \<and> run_retry_count run < 3) in
             bindR (commit guard d (put_target (error_target now code retry after t) (put_run (error_run now code retry run) d)))
               (\<lambda>d'. Inr (retry, d')))
      | _ \<Rightarrow> Inr (False, d))"

definition finish_lock_lost ::
  "(db \<Rightarrow> db \<Rightarrow> bool) \<Rightarrow> time \<Rightarrow> LoadedTarget \<Rightarrow> TargetDispatch \<Rightarrow> uuid \<Rightarrow> db \<Rightarrow> db res" where
  "finish_lock_lost guard now loaded p i d =
     (case (get_run d i, get_target d (tgt_id (lt_target loaded))) of
        (Some run, Some t) \<Rightarrow>
          (let run' = (failed_run now ''target_lock_lost'' run)\<lparr>run_error_count := run_error_count run + 1\<rparr>;
               t' = (degraded_target now ''target_lock_lost'' t)\<lparr>tgt_last_attempt_at := Some now,
                      tgt_consecutive_failures := tgt_consecutive_failures t + 1,
                      tgt_next_retry_at := Some (now + seconds 30)\<rparr>
           in commit guard d
                (if tgt_config_revision t \<noteq> disp_config_revision p then put_run run' d
                 else put_target t' (put_run run' d)))
      | _ \<Rightarrow> Inr d)"

definition mark_credential_missing ::
  "(db \<Rightarrow> db \<Rightarrow> bool) \<Rightarrow> time \<Rightarrow> LoadedTarget \<Rightarrow> db \<Rightarrow> db res" where
  "mark_credential_missing guard now loaded d =
     (case get_target d (tgt_id (lt_target loaded)) of
        None \<Rightarrow> Inr d
      | Some t \<Rightarrow>
          (if tgt_config_revision t \<noteq> tgt_config_revision (lt_target loaded) then Inr d
           else commit guard d
             (put_target ((degraded_target now ''provider_runtime_credential_missing'' t)\<lparr>tgt_last_attempt_at := Some now,
                tgt_next_retry_at := None, tgt_next_due_at := now + seconds (tgt_cadence_seconds t)\<rparr>) d)))"

subsection \<open>Recovery of stale runs\<close>

text \<open>\<open>held key\<close> is \<open>redis.exists(key)\<close>.\<close>

definition target_lock_key :: "uuid \<Rightarrow> string \<Rightarrow> string" where
  "target_lock_key target_id mode = ''r1:target-lock:'' @ target_id @ '':'' @ mode"

definition dispatch_key :: "pylib \<Rightarrow> string \<Rightarrow> string" where
  "dispatch_key lib identity = ''r1:dispatch:'' @ dispatch_task_id lib identity"

definition stale_run :: "time \<Rightarrow> CollectionRun \<Rightarrow> bool" where
  "stale_run stale_before r =
     (run_target_id r \<noteq> None \<and> run_status r = Run_RUNNING \<and> run_started_at r < stale_before)"

definition abandoned_by_workers :: "pylib \<Rightarrow> (string \<Rightarrow> bool) \<Rightarrow> uuid \<Rightarrow> CollectionRun \<Rightarrow> bool" where
  "abandoned_by_workers lib held target_id r =
     (\<not> held (target_lock_key target_id (run_mode_value (run_run_mode r)))
      \<and> (case run_dispatch_identity r of
           None \<Rightarrow> True
         | Some identity \<Rightarrow> identity = [] \<or> \<not> held (dispatch_key lib identity)))"

definition recover_run :: "pylib \<Rightarrow> (string \<Rightarrow> bool) \<Rightarrow> time \<Rightarrow> int \<Rightarrow> CollectionRun \<Rightarrow> nat \<times> db \<Rightarrow> nat \<times> db" where
  "recover_run lib held now delay r = (\<lambda>(n, d).
     case run_target_id r of
       None \<Rightarrow> (n, d)
     | Some i \<Rightarrow>
         (if \<not> abandoned_by_workers lib held i r then (n, d)
          else case get_target d i of
            None \<Rightarrow> (n, d)
          | Some t \<Rightarrow>
              (n + 1, put_target ((degraded_target now ''stale_run'' t)\<lparr>
                        tgt_consecutive_failures := tgt_consecutive_failures t + 1,
                        tgt_next_retry_at := Some (now + seconds delay)\<rparr>)
                      (put_run (failed_run now ''stale_run'' r) d))))"

definition recover_stale_target_runs ::
  "pylib \<Rightarrow> (db \<Rightarrow> db \<Rightarrow> bool) \<Rightarrow> (string \<Rightarrow> bool) \<Rightarrow> time \<Rightarrow> time \<Rightarrow> int \<Rightarrow> db \<Rightarrow> (nat \<times> db) res" where
  "recover_stale_target_runs lib guard held now stale_before delay d =
     (let (n, d') = fold (recover_run lib held now delay) (filter (stale_run stale_before) (collection_runs d)) (0, d) in
      bindR (commit guard d d') (\<lambda>d'. Inr (n, d')))"

subsection \<open>How a transaction changes the runs\<close>

definition run_ok :: "CollectionRun \<Rightarrow> bool" where
  "run_ok r \<longleftrightarrow>
     (run_status r = Run_RUNNING) = (run_finished_at r = None)
     \<and> 0 \<le> run_retry_count r \<and> run_retry_count r \<le> 3 \<and> run_retry_count r \<le> run_error_count r
     \<and> 0 \<le> run_request_count r \<and> run_request_count r \<le> 20
     \<and> (run_resolved_window r = None) = (run_operation_config_hash r = None)"

text \<open>The next state of a run: its identity is fixed, window and hash are frozen once set, counters grow.\<close>

definition run_moved :: "CollectionRun \<Rightarrow> CollectionRun \<Rightarrow> bool" where
  "run_moved r r' \<longleftrightarrow>
     run_id r' = run_id r \<and> run_target_id r' = run_target_id r \<and> run_run_mode r' = run_run_mode r
     \<and> run_started_at r' = run_started_at r \<and> run_dispatch_identity r' = run_dispatch_identity r
     \<and> (run_resolved_window r = None \<or> run_resolved_window r' = run_resolved_window r)
     \<and> (run_operation_config_hash r = None \<or> run_operation_config_hash r' = run_operation_config_hash r)
     \<and> run_retry_count r \<le> run_retry_count r' \<and> run_request_count r \<le> run_request_count r'
     \<and> run_error_count r \<le> run_error_count r' \<and> (run_ok r \<longrightarrow> run_ok r')"

lemma run_moved_refl [simp]: "run_moved r r"
  by (simp add: run_moved_def)

lemma run_moved_finished: "run_moved r (finished_run now pm final result (counted_run pm c r))"
  by (auto simp: run_moved_def run_ok_def finished_run_def counted_run_def)

lemma run_moved_failed: "run_moved r (failed_run now code r)"
  by (auto simp: run_moved_def run_ok_def failed_run_def)

lemma run_moved_lost: "run_moved r ((failed_run now code r)\<lparr>run_error_count := run_error_count r + 1\<rparr>)"
  by (auto simp: run_moved_def run_ok_def failed_run_def)

lemma run_moved_error: "(retry \<longrightarrow> run_retry_count r < 3) \<Longrightarrow> run_moved r (error_run now code retry r)"
  by (auto simp: run_moved_def run_ok_def error_run_def)

text \<open>The runs of the next database: every old run moved, and at most one new run.\<close>

definition runs_evolve :: "CollectionRun list \<Rightarrow> CollectionRun list \<Rightarrow> bool" where
  "runs_evolve rs rs' \<longleftrightarrow>
     (\<exists>f new. rs' = map f rs @ new \<and> (\<forall>r\<in>set rs. run_moved r (f r))
        \<and> distinct (map run_id new) \<and> (\<forall>r\<in>set new. run_ok r \<and> run_id r \<notin> run_id ` set rs))"

lemma runs_evolve_map: "(\<And>r. r \<in> set rs \<Longrightarrow> run_moved r (f r)) \<Longrightarrow> runs_evolve rs (map f rs)"
  unfolding runs_evolve_def by (intro exI [of _ f] exI [of _ "[]"]) simp

lemma runs_evolve_refl [simp]: "runs_evolve rs rs"
  using runs_evolve_map [of rs id] by simp

lemma runs_evolve_put:
  assumes "distinct (map run_id (collection_runs d))" and "get_run d i = Some r" and "run_moved r r'"
  shows "runs_evolve (collection_runs d) (collection_runs (put_run r' d))"
proof -
  have r: "run_id r = i" "r \<in> set (collection_runs d)" "run_id r' = i"
    using assms(2,3) by (auto simp: run_moved_def dest: get_id)
  have "run_moved u (if run_id u = run_id r' then r' else u)" if "u \<in> set (collection_runs d)" for u
    using assms(1,3) that r by (auto simp: distinct_map dest: inj_onD)
  then show ?thesis unfolding put_run_def update_where_def by (auto intro: runs_evolve_map)
qed

lemma runs_evolve_add:
  assumes "run_ok r" and "run_id r \<notin> run_id ` set rs"
  shows "runs_evolve rs (rs @ [r])"
  unfolding runs_evolve_def using assms by (intro exI [of _ id] exI [of _ "[r]"]) simp

lemma runs_evolve_ids: "runs_evolve rs rs' \<Longrightarrow> distinct (map run_id rs) \<Longrightarrow> distinct (map run_id rs')"
proof -
  assume e: "runs_evolve rs rs'" and dist: "distinct (map run_id rs)"
  then obtain f new where f: "rs' = map f rs @ new" "\<forall>r\<in>set rs. run_moved r (f r)"
    "distinct (map run_id new)" "\<forall>r\<in>set new. run_id r \<notin> run_id ` set rs"
    unfolding runs_evolve_def by blast
  then have "map run_id rs' = map run_id rs @ map run_id new" by (simp add: run_moved_def)
  moreover have "set (map run_id rs) \<inter> set (map run_id new) = {}" using f(4) by (simp add: disjoint_iff) blast
  ultimately show ?thesis using dist f(3) by (simp only: distinct_append)
qed

lemma find_run_map:
  assumes "\<And>r. r \<in> set rs \<Longrightarrow> run_id (f r) = run_id r" and "List.find (\<lambda>r. run_id r = i) rs = Some r"
  shows "List.find (\<lambda>r. run_id r = i) (map f rs @ new) = Some (f r)"
  using assms by (induction rs) (auto split: if_splits)

lemma runs_evolve_get:
  assumes "runs_evolve (collection_runs d) (collection_runs d')" and "get_run d i = Some r"
  shows "\<exists>r'. get_run d' i = Some r' \<and> run_moved r r'"
proof -
  obtain f new where f: "collection_runs d' = map f (collection_runs d) @ new"
    "\<And>u. u \<in> set (collection_runs d) \<Longrightarrow> run_moved u (f u)"
    using assms(1) by (auto simp: runs_evolve_def)
  have "List.find (\<lambda>r. run_id r = i) (map f (collection_runs d) @ new) = Some (f r)"
    using f(2) assms(2) by (intro find_run_map) (auto simp: run_moved_def get_run_def)
  with f assms(2) show ?thesis by (auto simp: get_run_def dest: find_Some_in)
qed

lemma commit_Inr: "commit guard d d1 = Inr d' \<longleftrightarrow> d' = d1
    \<and> list_all ck_collection_runs (collection_runs d1) \<and> list_all ck_collection_targets (collection_targets d1)
    \<and> uq_running_target_mode (collection_runs d1) \<and> uq_cursor_slots (collection_cursors d1)
    \<and> run_triggers d d1 \<and> guard d d1"
  by (auto simp: commit_def)

lemma extends_frame:
  "extends d d' \<Longrightarrow> collection_runs d' = collection_runs d \<and> collection_targets d' = collection_targets d
     \<and> collection_cursors d' = collection_cursors d \<and> sources d' = sources d"
  by (auto simp: extends_def)

lemma persist_fetch_extends: "persist_fetch_result lib ids now a result d = Inr (c, d') \<Longrightarrow> extends d d'"
  unfolding persist_result_items by (auto dest: persist_items_spec)

lemma audit_rejected_frame:
  "audit_rejected lib now i hs d = Inr d' \<Longrightarrow>
     collection_runs d' = collection_runs d \<and> collection_targets d' = collection_targets d
     \<and> collection_cursors d' = collection_cursors d"
  by (induction hs arbitrary: d) (auto simp: Let_def split: if_splits)

lemma save_cursor_frame [simp]:
  "collection_runs (save_cursor now c0 c d) = collection_runs d"
  "collection_targets (save_cursor now c0 c d) = collection_targets d"
  by (auto simp: save_cursor_def put_cursor_def split: option.split)

lemma save_legacy_frame [simp]:
  "collection_runs (save_legacy_cursor gen now result t d) = collection_runs d"
  "collection_targets (save_legacy_cursor gen now result t d) = collection_targets d"
  by (auto simp: save_legacy_cursor_def Let_def split: option.split)

lemma persist_cursor_frame:
  "persist_cursor lib gen now pm result s i t mode d = Inr d' \<Longrightarrow>
     collection_runs d' = collection_runs d \<and> collection_targets d' = collection_targets d"
  by (auto simp: persist_cursor_def Let_def bindR_Inr_iff split: if_splits)

lemma put_run_frame [simp]:
  "collection_targets (put_run r d) = collection_targets d" "collection_cursors (put_run r d) = collection_cursors d"
  by (simp_all add: put_run_def)

text \<open>The row updates of \<open>persist_result\<close>.\<close>

lemma persist_result_Inr:
  assumes "persist_result lib guard ids gen now loaded p i snapshot result mode m d = Inr d'"
  shows "\<exists>t run counts d2. get_target d (tgt_id (lt_target loaded)) = Some t \<and> get_run d i = Some run
    \<and> tgt_config_revision t = disp_config_revision p
    \<and> collection_runs d2 = collection_runs d \<and> collection_targets d2 = collection_targets d
    \<and> collection_cursors d2 = collection_cursors d
    \<and> persist_cursor lib gen now (pm_page_mode m) result snapshot i t mode
         (put_target (attempted_target now (pm_final m) result t)
           (put_run (finished_run now (pm_page_mode m) (pm_final m) result (counted_run (pm_page_mode m) counts run)) d2)) = Inr d'
    \<and> commit guard d d' = Inr d'"
proof -
  obtain t run where t: "get_target d (tgt_id (lt_target loaded)) = Some t" "get_run d i = Some run"
    and rev: "tgt_config_revision t = disp_config_revision p"
    using assms by (auto simp: persist_result_def split: option.splits if_splits)
  obtain a counts d1 d2 where steps: "persist_fetch_result lib ids now a result d = Inr (counts, d1)"
    "audit_rejected lib now (tgt_id t) (pres_rejected_row_hashes result) d1 = Inr d2"
    "persist_cursor lib gen now (pm_page_mode m) result snapshot i t mode
         (put_target (attempted_target now (pm_final m) result t)
           (put_run (finished_run now (pm_page_mode m) (pm_final m) result (counted_run (pm_page_mode m) counts run)) d2)) = Inr d'"
    "commit guard d d' = Inr d'"
    using assms rev unfolding persist_result_def t by (auto simp: bindR_Inr_iff commit_Inr)
  have "collection_runs d2 = collection_runs d \<and> collection_targets d2 = collection_targets d
      \<and> collection_cursors d2 = collection_cursors d"
    using extends_frame [OF persist_fetch_extends [OF steps(1)]] audit_rejected_frame [OF steps(2)] by simp
  with t rev steps(3,4) show ?thesis
    by - (rule exI [of _ t], rule exI [of _ run], rule exI [of _ counts], rule exI [of _ d2], blast)
qed

text \<open>What every transaction keeps of the targets: identity, revision and status.\<close>

definition targets_kept :: "db \<Rightarrow> db \<Rightarrow> bool" where
  "targets_kept d d' \<longleftrightarrow>
     map (\<lambda>t. (target_identity t, tgt_config_revision t, tgt_status t)) (collection_targets d')
       = map (\<lambda>t. (target_identity t, tgt_config_revision t, tgt_status t)) (collection_targets d)"

lemma targets_kept_refl [simp]: "collection_targets d' = collection_targets d \<Longrightarrow> targets_kept d d'"
  by (simp add: targets_kept_def)

lemma targets_kept_put:
  assumes "targets_inv d" and "get_target d i = Some t" and "target_identity t' = target_identity t"
    and "tgt_config_revision t' = tgt_config_revision t" and "tgt_status t' = tgt_status t"
    and "collection_targets d' = collection_targets (put_target t' d)"
  shows "targets_kept d d'"
  unfolding targets_kept_def assms(6) put_target_moved [OF assms(1,2) identity_id [OF assms(3)]]
  using assms(3-5) by simp

lemma targets_kept_ids: "targets_kept d d' \<Longrightarrow> map tgt_id (collection_targets d') = map tgt_id (collection_targets d)"
  unfolding targets_kept_def target_identity_def by (drule arg_cong [of _ _ "map (\<lambda>x. fst (fst x))"]) (simp add: comp_def)

lemmas target_row_defs = attempted_target_def error_target_def degraded_target_def target_identity_def Let_def incomplete_def

lemma target_rows_kept [simp]:
  "target_identity (attempted_target now final result t) = target_identity t"
  "tgt_config_revision (attempted_target now final result t) = tgt_config_revision t"
  "tgt_status (attempted_target now final result t) = tgt_status t"
  "target_identity (error_target now code retry after t) = target_identity t"
  "tgt_config_revision (error_target now code retry after t) = tgt_config_revision t"
  "tgt_status (error_target now code retry after t) = tgt_status t"
  by (simp_all add: target_row_defs)

text \<open>One transaction: the runs evolve, the targets are kept and the result was committed.\<close>

definition run_tx :: "db \<Rightarrow> db \<Rightarrow> bool" where
  "run_tx d d' \<longleftrightarrow> runs_evolve (collection_runs d) (collection_runs d') \<and> targets_kept d d'
     \<and> (d' = d \<or> list_all ck_collection_targets (collection_targets d') \<and> uq_running_target_mode (collection_runs d'))"

definition runs_inv :: "db \<Rightarrow> bool" where
  "runs_inv d \<longleftrightarrow> targets_inv d \<and> distinct (map run_id (collection_runs d))
     \<and> uq_running_target_mode (collection_runs d)
     \<and> list_all (\<lambda>r. run_target_id r = None \<or> run_ok r) (collection_runs d)"

lemma run_tx_refl [simp]: "run_tx d d"
  by (simp add: run_tx_def)

lemma run_tx_commit:
  assumes "commit guard d d1 = Inr d'" and "runs_evolve (collection_runs d) (collection_runs d1)" and "targets_kept d d1"
  shows "run_tx d d'"
  using assms by (simp add: commit_Inr run_tx_def)

lemma run_tx_inv:
  assumes "runs_inv d" and "run_tx d d'"
  shows "runs_inv d'"
proof -
  obtain f new where f: "collection_runs d' = map f (collection_runs d) @ new"
    "\<forall>r\<in>set (collection_runs d). run_moved r (f r)" "\<forall>r\<in>set new. run_ok r"
    using assms(2) unfolding run_tx_def runs_evolve_def by blast
  then have "list_all (\<lambda>r. run_target_id r = None \<or> run_ok r) (collection_runs d')"
    using assms(1) by (auto simp: runs_inv_def list_all_iff run_moved_def)
  then show ?thesis
    using assms runs_evolve_ids [of "collection_runs d" "collection_runs d'"] targets_kept_ids [of d d']
    by (auto simp: runs_inv_def run_tx_def targets_inv_def)
qed

subsection \<open>Every transaction is a \<open>run_tx\<close>\<close>

lemma runs_inv_ids: "runs_inv d \<Longrightarrow> distinct (map run_id (collection_runs d))"
  and runs_inv_targets: "runs_inv d \<Longrightarrow> targets_inv d"
  by (simp_all add: runs_inv_def)

lemma runs_evolve_put_frame:
  assumes "runs_inv d" and "get_run d i = Some r" and "run_moved r r'" and "collection_runs d1 = collection_runs d"
  shows "runs_evolve (collection_runs d) (collection_runs (put_run r' d1))"
proof -
  have "collection_runs (put_run r' d1) = collection_runs (put_run r' d)" by (simp add: put_run_def assms(4))
  with runs_evolve_put [OF runs_inv_ids [OF assms(1)] assms(2,3)] show ?thesis by simp
qed

lemma targets_kept_update:
  assumes "runs_inv d" and "get_target d i = Some t" and "target_identity t' = target_identity t"
    and "tgt_config_revision t' = tgt_config_revision t" and "tgt_status t' = tgt_status t"
    and "collection_targets d1 = collection_targets d"
  shows "targets_kept d (put_target t' d1)"
  by (rule targets_kept_put [OF runs_inv_targets [OF assms(1)] assms(2-5)]) (simp add: put_target_def assms(6))

lemma new_run_ok: "run_ok (new_run i now t p mode)"
  by (simp add: run_ok_def new_run_def)

lemma start_run_tx:
  assumes "runs_inv d" and "gen d \<notin> run_id ` set (collection_runs d)"
    and "start_run guard gen now loaded p mode d = Inr (x, d')"
  shows "run_tx d d'"
proof (cases "d' = d")
  case False
  then obtain t where "commit guard d (add_run (new_run (gen d) now t p mode) d) = Inr d'"
    using assms(3) by (auto simp: start_run_def Let_def bindR_Inr_iff split: option.splits if_splits)
  moreover have "runs_evolve (collection_runs d) (collection_runs (add_run (new_run (gen d) now t p mode) d))"
    using assms(2) unfolding add_run_def by (auto simp: new_run_def intro!: runs_evolve_add new_run_ok [unfolded new_run_def])
  ultimately show ?thesis by (rule run_tx_commit) (simp add: add_run_def)
qed simp

lemma resolved_run_config_Inr:
  assumes "resolved_run_config lib guard gen now i loaded snapshot mode d = Inr ((config, k), d')"
  shows "\<exists>run c c0 window h. get_run d i = Some run \<and> pin_window lib loaded mode snapshot c0 run = Inr window
    \<and> config = resolved_config (lt_config loaded) window \<and> canonical_projection_hash lib config = Inr h
    \<and> run_operation_config_hash run \<in> {None, Some h}
    \<and> (find_cursor d (lt_target loaded) mode = None \<or> find_cursor d (lt_target loaded) mode = Some c0)
    \<and> c = c0\<lparr>cur_continuation := Some k, cur_continuation_run_id := Some (run_id run)\<rparr>
    \<and> commit guard d (save_cursor now (find_cursor d (lt_target loaded) mode) c
         (put_run (run\<lparr>run_resolved_window := Some window, run_operation_config_hash := Some h\<rparr>) d)) = Inr d'"
proof -
  obtain run where run: "get_run d i = Some run"
    using assms by (auto simp: resolved_run_config_def split: option.splits)
  let ?t = "lt_target loaded"
  obtain c0 where c0: "find_cursor d ?t mode = None \<or> find_cursor d ?t mode = Some c0"
    and rest: "bindR (pin_window lib loaded mode snapshot c0 run) (\<lambda>window.
           let config = resolved_config (lt_config loaded) window in
           bindR (canonical_projection_hash lib config) (\<lambda>h.
           if run_operation_config_hash run \<notin> {None, Some h} then repo_error ''run_operation_config_hash_mismatch''
           else
             bindR (case stored_continuation c0 of
                      Some k \<Rightarrow> bindR (decode_continuation lib k (src_access_method (lt_source loaded)) (tgt_operation_key ?t) config (lineage loaded mode)) (\<lambda>_. Inr k)
                    | None \<Rightarrow> encode_continuation lib (src_access_method (lt_source loaded)) (tgt_operation_key ?t) config (lineage loaded mode) []) (\<lambda>k.
             let run' = run\<lparr>run_resolved_window := Some window, run_operation_config_hash := Some h\<rparr>;
                 c' = c0\<lparr>cur_continuation := Some k, cur_continuation_run_id := Some (run_id run)\<rparr>
             in
             bindR (commit guard d (save_cursor now (find_cursor d ?t mode) c' (put_run run' d))) (\<lambda>d'.
               Inr ((config, k), d'))))) = Inr ((config, k), d')"
    using assms unfolding resolved_run_config_def run Let_def
    by (cases "find_cursor d ?t mode"; cases "tgt_source_account_id ?t") (auto simp: Let_def)
  from rest c0 run show ?thesis
    unfolding Let_def bindR_Inr_iff by (auto simp: bindR_Inr_iff split: if_splits)
qed

lemma pin_window_frozen: "pin_window lib loaded mode s c run = Inr w \<Longrightarrow> run_resolved_window run \<in> {None, Some w}"
  by (auto simp: pin_window_def split: option.splits)

lemma pin_tx:
  assumes "runs_inv d" and "resolved_run_config lib guard gen now i loaded snapshot mode d = Inr ((config, k), d')"
  shows "run_tx d d'"
proof -
  obtain run c c0 window h where run: "get_run d i = Some run" and w: "pin_window lib loaded mode snapshot c0 run = Inr window"
    and h: "run_operation_config_hash run \<in> {None, Some h}"
    and ok: "commit guard d (save_cursor now (find_cursor d (lt_target loaded) mode) c
         (put_run (run\<lparr>run_resolved_window := Some window, run_operation_config_hash := Some h\<rparr>) d)) = Inr d'"
    using resolved_run_config_Inr [OF assms(2)] by (elim exE conjE) (rule that; assumption)
  have "run_moved run (run\<lparr>run_resolved_window := Some window, run_operation_config_hash := Some h\<rparr>)"
    using h pin_window_frozen [OF w] by (auto simp: run_moved_def run_ok_def)
  then show ?thesis
    by (intro run_tx_commit [OF ok]) (simp_all add: runs_evolve_put_frame [OF assms(1) run])
qed

lemma claim_page_tx:
  assumes "runs_inv d" and "tgt_max_requests_per_run (lt_target loaded) \<le> 20"
    and "claim_page guard now loaded p i d = Inr (x, d')"
  shows "run_tx d d'"
proof -
  obtain run where run: "get_run d i = Some run" using assms(3) by (auto simp: claim_page_def split: option.splits)
  show ?thesis
  proof (cases "run_request_count run \<ge> tgt_max_requests_per_run (lt_target loaded) \<or> run_page_count run \<ge> tgt_max_pages_per_run (lt_target loaded)")
    case True
    let ?r = "run\<lparr>run_status := Run_PARTIAL, run_finished_at := Some now, run_error_code := Some ''coverage_incomplete''\<rparr>"
    obtain t where t: "get_target d (disp_target_id p) = Some t"
      and ok: "commit guard d (put_target (t\<lparr>tgt_next_retry_at := None, tgt_next_due_at := now + seconds (tgt_cadence_seconds t),
                  tgt_health_status := Health_DEGRADED, tgt_last_error_code := Some ''coverage_incomplete'',
                  tgt_updated_at := now\<rparr>) (put_run ?r d)) = Inr d'"
      using assms(3) run True by (auto simp: claim_page_def bindR_Inr_iff split: option.splits)
    have "run_moved run ?r" by (auto simp: run_moved_def run_ok_def)
    from runs_evolve_put_frame [OF assms(1) run this refl] show ?thesis
      by (intro run_tx_commit [OF ok] targets_kept_update [OF assms(1) t]) (simp_all add: target_identity_def)
  next
    case False
    let ?r = "run\<lparr>run_request_count := run_request_count run + 1\<rparr>"
    have ok: "commit guard d (put_run ?r d) = Inr d'"
      using assms(3) run False by (auto simp: claim_page_def bindR_Inr_iff)
    have "run_moved run ?r" using False assms(2) by (auto simp: run_moved_def run_ok_def)
    from runs_evolve_put_frame [OF assms(1) run this refl] show ?thesis by (intro run_tx_commit [OF ok]) simp_all
  qed
qed

lemma persist_result_tx:
  assumes "runs_inv d" and "persist_result lib guard ids gen now loaded p i snapshot result mode m d = Inr d'"
  shows "run_tx d d'"
proof -
  let ?t = "\<lambda>t. attempted_target now (pm_final m) result t"
  let ?r = "\<lambda>counts run. finished_run now (pm_page_mode m) (pm_final m) result (counted_run (pm_page_mode m) counts run)"
  obtain t run counts d2 where t: "get_target d (tgt_id (lt_target loaded)) = Some t" "get_run d i = Some run"
    and fr: "collection_runs d2 = collection_runs d" "collection_targets d2 = collection_targets d"
    and pc: "persist_cursor lib gen now (pm_page_mode m) result snapshot i t mode (put_target (?t t) (put_run (?r counts run) d2)) = Inr d'"
    and ok: "commit guard d d' = Inr d'"
    using persist_result_Inr [OF assms(2)] by (elim exE conjE) (rule that; assumption)
  have "runs_evolve (collection_runs d) (collection_runs d')"
    using persist_cursor_frame [OF pc] runs_evolve_put_frame [OF assms(1) t(2) run_moved_finished fr(1)] by simp
  moreover have "targets_kept d (put_target (?t t) (put_run (?r counts run) d2))"
    by (rule targets_kept_update [OF assms(1) t(1)]) (simp_all add: fr)
  then have "targets_kept d d'" using persist_cursor_frame [OF pc] by (simp add: targets_kept_def)
  ultimately show ?thesis by (rule run_tx_commit [OF ok])
qed

lemma finish_error_Inr:
  assumes "finish_error guard now loaded p i code retryable after d = Inr (retry, d')" and "d' \<noteq> d"
  shows "\<exists>run t. get_run d i = Some run \<and> get_target d (tgt_id (lt_target loaded)) = Some t
    \<and> (if tgt_config_revision t \<noteq> disp_config_revision p
       then \<not> retry \<and> commit guard d (put_run (failed_run now ''stale_target_revision'' run) d) = Inr d'
       else retry = (retryable \<and> run_retry_count run < 3)
         \<and> commit guard d (put_target (error_target now code retry after t) (put_run (error_run now code retry run) d)) = Inr d')"
  using assms by (auto simp: finish_error_def Let_def bindR_Inr_iff split: option.splits if_splits)

lemma finish_error_tx:
  assumes "runs_inv d" and "finish_error guard now loaded p i code retryable after d = Inr (retry, d')"
  shows "run_tx d d'"
proof (cases "d' = d")
  case False
  from finish_error_Inr [OF assms(2) False] obtain run t where run: "get_run d i = Some run"
    and t: "get_target d (tgt_id (lt_target loaded)) = Some t"
    and c: "if tgt_config_revision t \<noteq> disp_config_revision p
       then \<not> retry \<and> commit guard d (put_run (failed_run now ''stale_target_revision'' run) d) = Inr d'
       else retry = (retryable \<and> run_retry_count run < 3)
         \<and> commit guard d (put_target (error_target now code retry after t) (put_run (error_run now code retry run) d)) = Inr d'"
    by blast
  show ?thesis
  proof (cases "tgt_config_revision t = disp_config_revision p")
    case True
    with c have ok: "commit guard d (put_target (error_target now code retry after t) (put_run (error_run now code retry run) d)) = Inr d'"
      and "retry \<longrightarrow> run_retry_count run < 3" by auto
    from runs_evolve_put_frame [OF assms(1) run run_moved_error [OF this(2)] refl] show ?thesis
      by (intro run_tx_commit [OF ok] targets_kept_update [OF assms(1) t]) simp_all
  next
    case False
    with c have ok: "commit guard d (put_run (failed_run now ''stale_target_revision'' run) d) = Inr d'" by simp
    show ?thesis
      by (rule run_tx_commit [OF ok runs_evolve_put_frame [OF assms(1) run run_moved_failed refl]]) simp
  qed
qed simp

lemma finish_lock_lost_tx:
  assumes "runs_inv d" and "finish_lock_lost guard now loaded p i d = Inr d'"
  shows "run_tx d d'"
proof (cases "get_run d i = None \<or> get_target d (tgt_id (lt_target loaded)) = None")
  case False
  then obtain run t where run: "get_run d i = Some run" and t: "get_target d (tgt_id (lt_target loaded)) = Some t" by auto
  note evo = runs_evolve_put_frame [OF assms(1) run run_moved_lost refl]
  show ?thesis
    using assms(2) run t
    by (auto simp: finish_lock_lost_def Let_def split: if_splits
        intro!: run_tx_commit targets_kept_update [OF assms(1) t] evo simp: target_row_defs)
qed (use assms(2) in \<open>auto simp: finish_lock_lost_def split: option.splits\<close>)

lemma mark_credential_missing_tx:
  assumes "runs_inv d" and "mark_credential_missing guard now loaded d = Inr d'"
  shows "run_tx d d'"
  using assms
  by (auto simp: mark_credential_missing_def target_row_defs split: option.splits if_splits
      intro!: run_tx_commit targets_kept_update)

subsection \<open>Recovery\<close>

definition recoverable :: "pylib \<Rightarrow> (string \<Rightarrow> bool) \<Rightarrow> db \<Rightarrow> CollectionRun \<Rightarrow> bool" where
  "recoverable lib held d r =
     (case run_target_id r of
        None \<Rightarrow> False | Some i \<Rightarrow> abandoned_by_workers lib held i r \<and> get_target d i \<noteq> None)"

lemma get_target_ids: "get_target d i \<noteq> None \<longleftrightarrow> i \<in> set (map tgt_id (collection_targets d))"
  unfolding get_target_def by (rule find_key)

lemma recoverable_ids:
  "map tgt_id (collection_targets d') = map tgt_id (collection_targets d) \<Longrightarrow> recoverable lib held d' = recoverable lib held d"
  unfolding recoverable_def get_target_ids by (simp only:)

lemma recover_run_cases:
  "recover_run lib held now delay r (n, d) =
     (if recoverable lib held d r
      then (n + 1, put_target ((degraded_target now ''stale_run'' (the (get_target d (the (run_target_id r)))))\<lparr>
                        tgt_consecutive_failures := tgt_consecutive_failures (the (get_target d (the (run_target_id r)))) + 1,
                        tgt_next_retry_at := Some (now + seconds delay)\<rparr>)
                      (put_run (failed_run now ''stale_run'' r) d))
      else (n, d))"
  by (auto simp: recover_run_def recoverable_def split: option.splits)

lemma targets_kept_trans: "targets_kept d e \<Longrightarrow> targets_kept e f \<Longrightarrow> targets_kept d f"
  by (simp add: targets_kept_def)

lemma recover_run_kept:
  assumes "distinct (map tgt_id (collection_targets d))" and "recover_run lib held now delay r (n, d) = (n', d')"
  shows "targets_kept d d'"
proof (cases "recoverable lib held d r")
  case True
  then obtain i t where t: "run_target_id r = Some i" "get_target d i = Some t"
    by (auto simp: recoverable_def split: option.splits)
  let ?t' = "(degraded_target now ''stale_run'' t)\<lparr>tgt_consecutive_failures := tgt_consecutive_failures t + 1,
     tgt_next_retry_at := Some (now + seconds delay)\<rparr>"
  have "collection_targets d' = collection_targets (put_target ?t' d)"
    using assms(2) True t by (auto simp: recover_run_cases put_target_def)
  also have "\<dots> = map (\<lambda>u. if u = t then ?t' else u) (collection_targets d)"
    by (rule put_target_moved_ids [OF assms(1) t(2)]) (simp add: degraded_target_def)
  finally show ?thesis by (simp add: targets_kept_def target_row_defs)
qed (use assms(2) in \<open>simp add: recover_run_cases\<close>)

lemma recover_fold:
  assumes "distinct (map tgt_id (collection_targets d))" and "distinct (map run_id (collection_runs d))"
    and "distinct (map run_id rs)" and "set rs \<subseteq> set (collection_runs d)"
    and "fold (recover_run lib held now delay) rs (n, d) = (n', d')"
  shows "n' = n + length (filter (recoverable lib held d) rs) \<and> targets_kept d d'
    \<and> collection_runs d' = update_where (\<lambda>r. r \<in> set (filter (recoverable lib held d) rs)) (failed_run now ''stale_run'') (collection_runs d)"
  using assms
proof (induction rs arbitrary: n d)
  case Nil
  then show ?case by (simp add: update_where_def)
next
  case (Cons r rs)
  obtain n1 d1 where one: "recover_run lib held now delay r (n, d) = (n1, d1)" by (rule prod.exhaust)
  have kept: "targets_kept d d1" using recover_run_kept [OF Cons.prems(1) one] .
  then have ids: "map tgt_id (collection_targets d1) = map tgt_id (collection_targets d)" by (rule targets_kept_ids)
  note same = recoverable_ids [OF ids]
  have inj: "inj_on run_id (set (collection_runs d))" using Cons.prems(2) by (simp add: distinct_map)
  have runs: "collection_runs d1 = update_where (\<lambda>u. u = r \<and> recoverable lib held d r) (failed_run now ''stale_run'') (collection_runs d)"
    using one Cons.prems(4) inj
    by (auto simp: recover_run_cases put_run_def update_where_def failed_run_def split: if_splits dest: inj_onD)
  have sub: "set rs \<subseteq> set (collection_runs d1)"
    using Cons.prems(3,4) unfolding runs by (force simp: in_update_where)
  have rid: "map run_id (collection_runs d1) = map run_id (collection_runs d)"
    unfolding runs by (rule map_update_where) (simp add: failed_run_def)
  have ih: "n' = n1 + length (filter (recoverable lib held d1) rs) \<and> targets_kept d1 d'
    \<and> collection_runs d' = update_where (\<lambda>r. r \<in> set (filter (recoverable lib held d1) rs)) (failed_run now ''stale_run'') (collection_runs d1)"
    using Cons.prems ids rid sub one by (intro Cons.IH) simp_all
  have disj: "failed_run now ''stale_run'' r \<notin> set rs"
  proof
    assume "failed_run now ''stale_run'' r \<in> set rs"
    then have "run_id (failed_run now ''stale_run'' r) \<in> run_id ` set rs" by (rule imageI)
    then show False using Cons.prems(3) by (simp add: failed_run_def)
  qed
  have "collection_runs d' = update_where (\<lambda>u. u \<in> set (filter (recoverable lib held d) (r # rs))) (failed_run now ''stale_run'') (collection_runs d)"
    using ih disj Cons.prems(3) unfolding runs same by (auto simp: update_where_def)
  moreover have "n1 = n + (if recoverable lib held d r then 1 else 0)" using one by (auto simp: recover_run_cases split: if_splits)
  ultimately show ?case using ih targets_kept_trans [OF kept] by (auto simp: same)
qed

lemma recover_Inr:
  assumes "runs_inv d" and "recover_stale_target_runs lib guard held now stale_before delay d = Inr (n, d')"
  shows "n = length (filter (\<lambda>r. stale_run stale_before r \<and> recoverable lib held d r) (collection_runs d)) \<and> targets_kept d d'
    \<and> collection_runs d' = update_where (\<lambda>r. stale_run stale_before r \<and> recoverable lib held d r) (failed_run now ''stale_run'') (collection_runs d)
    \<and> commit guard d d' = Inr d'"
proof -
  obtain m d1 where f: "fold (recover_run lib held now delay) (filter (stale_run stale_before) (collection_runs d)) (0, d) = (m, d1)"
    by (rule prod.exhaust)
  then have ok: "commit guard d d1 = Inr d'" "n = m" using assms(2) by (auto simp: recover_stale_target_runs_def bindR_Inr_iff)
  then have "d1 = d'" by (simp add: commit_Inr)
  have ids: "distinct (map run_id (filter (stale_run stale_before) (collection_runs d)))"
    using runs_inv_ids [OF assms(1)] by (simp add: distinct_map_filter)
  let ?P = "\<lambda>r. stale_run stale_before r \<and> recoverable lib held d r"
  have "m = length (filter (recoverable lib held d) (filter (stale_run stale_before) (collection_runs d))) \<and> targets_kept d d1
    \<and> collection_runs d1 = update_where (\<lambda>r. r \<in> set (filter (recoverable lib held d) (filter (stale_run stale_before) (collection_runs d))))
        (failed_run now ''stale_run'') (collection_runs d)"
    using recover_fold [OF targets_inv_distinct [OF runs_inv_targets [OF assms(1)]] runs_inv_ids [OF assms(1)] ids _ f] by simp
  moreover have "update_where (\<lambda>r. r \<in> set (filter (recoverable lib held d) (filter (stale_run stale_before) (collection_runs d))))
        (failed_run now ''stale_run'') (collection_runs d) = update_where ?P (failed_run now ''stale_run'') (collection_runs d)"
    unfolding update_where_def by (rule map_cong) auto
  ultimately show ?thesis using ok \<open>d1 = d'\<close> by simp
qed

lemma recover_tx:
  assumes "runs_inv d" and "recover_stale_target_runs lib guard held now stale_before delay d = Inr (n, d')"
  shows "run_tx d d'"
proof -
  note r = recover_Inr [OF assms]
  have "runs_evolve (collection_runs d) (collection_runs d')"
    using r unfolding update_where_def by (auto intro!: runs_evolve_map run_moved_failed)
  with r show ?thesis by (intro run_tx_commit [of guard d d']) simp_all
qed

subsection \<open>The control plane as a state machine\<close>

text \<open>Any interleaving of the transactions of schedulers, workers, recovery and operators.\<close>

inductive control_step :: "pylib \<Rightarrow> OperationContract list \<Rightarrow> (db \<Rightarrow> db \<Rightarrow> bool) \<Rightarrow> db \<Rightarrow> db \<Rightarrow> bool"
  for lib :: pylib and registry :: "OperationContract list" and guard :: "db \<Rightarrow> db \<Rightarrow> bool" where
  cs_repo: "repo_step lib registry d d' \<Longrightarrow> control_step lib registry guard d d'"
| cs_start: "start_run guard gen now loaded p mode d = Inr (x, d') \<Longrightarrow> gen d \<notin> run_id ` set (collection_runs d)
    \<Longrightarrow> control_step lib registry guard d d'"
| cs_pin: "resolved_run_config lib guard gen now i loaded snapshot mode d = Inr ((config, k), d')
    \<Longrightarrow> control_step lib registry guard d d'"
| cs_claim: "claim_page guard now loaded p i d = Inr (y, d') \<Longrightarrow> tgt_max_requests_per_run (lt_target loaded) \<le> 20
    \<Longrightarrow> control_step lib registry guard d d'"
| cs_persist: "persist_result lib guard ids gen now loaded p i snapshot result mode m d = Inr d'
    \<Longrightarrow> control_step lib registry guard d d'"
| cs_error: "finish_error guard now loaded p i code retryable after d = Inr (z, d') \<Longrightarrow> control_step lib registry guard d d'"
| cs_lost: "finish_lock_lost guard now loaded p i d = Inr d' \<Longrightarrow> control_step lib registry guard d d'"
| cs_credential: "mark_credential_missing guard now loaded d = Inr d' \<Longrightarrow> control_step lib registry guard d d'"
| cs_recover: "recover_stale_target_runs lib guard held now stale_before delay d = Inr (n, d')
    \<Longrightarrow> control_step lib registry guard d d'"

lemma repo_step_runs: "repo_step lib registry d d' \<Longrightarrow> collection_runs d' = collection_runs d"
proof (induction rule: repo_step.induct)
  case (step_revise gen now i e vals d r d')
  then show ?case using revise_moves [OF step_revise] by auto
next
  case (step_pause gen now i e d d')
  then show ?case
    by (cases "d' = d") (auto dest!: pause_moves)
next
  case (step_abandon gen now i e toks reason d n d')
  then show ?case
    by (auto simp: abandon_pending_continuations_def bindR_Inr_iff Let_def split: if_splits dest!: abandon_rows_frame)
qed

lemmas tx_intros = start_run_tx pin_tx claim_page_tx persist_result_tx finish_error_tx finish_lock_lost_tx
  mark_credential_missing_tx recover_tx

lemma control_step_cases:
  assumes "control_step lib registry guard d d'" and "runs_inv d"
  shows "repo_step lib registry d d' \<or> run_tx d d'"
  using assms(1) by (cases rule: control_step.cases) (auto intro: tx_intros [OF assms(2)])

lemma control_step_evolve:
  assumes "runs_inv d" and "control_step lib registry guard d d'"
  shows "runs_evolve (collection_runs d) (collection_runs d')"
  using control_step_cases [OF assms(2,1)] by (auto simp: repo_step_runs run_tx_def)

lemma control_step_inv:
  assumes "runs_inv d" and "control_step lib registry guard d d'"
  shows "runs_inv d'"
  using control_step_cases [OF assms(2,1)]
proof
  assume r: "repo_step lib registry d d'"
  then show ?thesis
    using assms(1) repo_step_inv [OF _ r] repo_step_runs [OF r] by (simp add: runs_inv_def)
qed (rule run_tx_inv [OF assms(1)])

definition runs_init :: "db \<Rightarrow> bool" where
  "runs_init d \<longleftrightarrow> targets_inv d \<and> collection_runs d = []"

text \<open>Facts about a run that no transaction destroys: its window, its configuration hash, its retries so far.\<close>

definition run_fact :: "uuid \<times> dict \<times> string \<times> int \<Rightarrow> db \<Rightarrow> bool" where
  "run_fact = (\<lambda>(i, w, h, n) d.
     case get_run d i of None \<Rightarrow> False
     | Some r \<Rightarrow> run_resolved_window r = Some w \<and> run_operation_config_hash r = Some h \<and> n \<le> run_retry_count r)"

lemma run_fact_step:
  assumes "runs_inv d" and "control_step lib registry guard d d'" and "run_fact f d"
  shows "run_fact f d'"
proof -
  obtain i w h n where f: "f = (i, w, h, n)" by (metis prod_cases4)
  then obtain r where r: "get_run d i = Some r" "run_resolved_window r = Some w" "run_operation_config_hash r = Some h"
    "n \<le> run_retry_count r" using assms(3) by (auto simp: run_fact_def split: option.splits)
  from runs_evolve_get [OF control_step_evolve [OF assms(1,2)] r(1)] r show ?thesis
    by (auto simp: run_fact_def f run_moved_def)
qed

lemma runs_init_inv: "runs_init d \<Longrightarrow> runs_inv d"
  by (simp add: runs_init_def runs_inv_def uq_running_target_mode_def List.map_filter_simps)

interpretation control: invariant_system runs_init "control_step lib registry guard" runs_inv for lib registry guard
  by unfold_locales (auto intro: runs_init_inv control_step_inv)

interpretation control_stable: stable_system "control_step lib registry guard" runs_inv run_fact for lib registry guard
  by unfold_locales (auto intro: control_step_inv run_fact_step)

subsection \<open>Properties\<close>

text \<open>Property C2.  In every state reachable by any interleaving of schedulers, workers, recovery and operators
  there is at most one running run for a target and mode; a target's run is running exactly while it has no
  finish time, was retried at most three times and made at most twenty requests, and has a window exactly when
  it has a configuration hash; targets keep unique identities and satisfy their check constraint.\<close>

theorem runs_reachable_ok:
  assumes "reach runs_init (control_step lib registry guard) d"
  shows "uq_running_target_mode (collection_runs d)
    \<and> list_all (\<lambda>r. run_target_id r = None \<or> run_ok r) (collection_runs d) \<and> targets_inv d"
  using control.reach_inv [OF assms] by (simp add: runs_inv_def)

text \<open>Property C25.  A run resolves its window once: whatever happens after the configuration of a run was pinned,
  pinning it again (after a retry, with another clock and another cursor) yields the same configuration.\<close>

theorem window_resolved_once:
  assumes "runs_inv d" and "resolved_run_config lib guard gen now i loaded snapshot mode d = Inr ((config, k), d1)"
    and "(control_step lib registry guard)\<^sup>*\<^sup>* d1 d2"
    and "resolved_run_config lib guard gen2 now2 i loaded2 snapshot2 mode2 d2 = Inr ((config2, k2), d3)"
    and "lt_config loaded2 = lt_config loaded"
  shows "config2 = config"
proof -
  obtain run c c0 window h where run: "get_run d i = Some run" and cfg: "config = resolved_config (lt_config loaded) window"
    and ok: "commit guard d (save_cursor now (find_cursor d (lt_target loaded) mode) c
         (put_run (run\<lparr>run_resolved_window := Some window, run_operation_config_hash := Some h\<rparr>) d)) = Inr d1"
    using resolved_run_config_Inr [OF assms(2)] by (elim exE conjE) (rule that; assumption)
  have d1: "get_run d1 i = get_run (put_run (run\<lparr>run_resolved_window := Some window, run_operation_config_hash := Some h\<rparr>) d) i"
    using ok by (auto simp: commit_Inr get_run_def)
  moreover have "run_id run = i" using run by (auto dest: get_id)
  ultimately have "run_fact (i, window, h, run_retry_count run) d1" using run by (simp add: run_fact_def)
  moreover have "runs_inv d1" using run_tx_inv [OF assms(1) pin_tx [OF assms(1,2)]] .
  ultimately have "run_fact (i, window, h, run_retry_count run) d2" using control_stable.steps_fact [OF assms(3)] by blast
  then obtain run2 where run2: "get_run d2 i = Some run2" "run_resolved_window run2 = Some window"
    by (auto simp: run_fact_def split: option.splits)
  obtain c2 window2 run2' where "get_run d2 i = Some run2'" "pin_window lib loaded2 mode2 snapshot2 c2 run2' = Inr window2"
    "config2 = resolved_config (lt_config loaded2) window2"
    using resolved_run_config_Inr [OF assms(4)] by (elim exE conjE) (rule that; assumption)
  with run2 cfg assms(5) show ?thesis by (auto dest!: pin_window_frozen)
qed

text \<open>Starting a run is idempotent: a second worker that starts the same target and mode at the same
  revision resumes the run and its cursor, and changes nothing.\<close>

theorem start_run_resumes:
  assumes "start_run guard gen now loaded p mode d = Inr ((i, cursor), d')"
    and "tgt_id (lt_target loaded2) = tgt_id (lt_target loaded)" and "disp_config_revision p2 = disp_config_revision p"
  shows "start_run guard gen2 now2 loaded2 p2 mode d' = Inr ((i, cursor), d')"
proof -
  obtain t where t: "get_target d (tgt_id (lt_target loaded)) = Some t" "tgt_config_revision t = disp_config_revision p"
    using assms(1) by (auto simp: start_run_def split: option.splits if_splits)
  show ?thesis
  proof (cases "find_running d (tgt_id t) mode")
    case None
    let ?r = "new_run (gen d) now t p mode"
    have d': "d' = add_run ?r d" "i = run_id ?r" "cursor = find_cursor d' t mode"
      using assms(1) t None by (auto simp: start_run_def Let_def bindR_Inr_iff commit_Inr)
    have "find_running d' (tgt_id t) mode = Some ?r"
      using None by (simp add: d'(1) find_running_def add_run_def find_append new_run_def)
    moreover have "get_target d' (tgt_id (lt_target loaded)) = Some t" using t(1) by (simp add: d'(1) add_run_def get_target_def)
    ultimately show ?thesis using t d' assms(2,3) by (simp add: start_run_def)
  next
    case (Some r)
    then show ?thesis using assms t by (auto simp: start_run_def)
  qed
qed

text \<open>Errors are retried a bounded number of times with a bounded delay: at the dispatched revision
  a retryable error keeps the run running, counts the retry and schedules it between one second and fifteen
  minutes ahead; after three retries, or when the error is not retryable, the run fails, no retry is scheduled
  and the target is due again after its cadence.\<close>

theorem finish_error_bounded_retry:
  assumes "finish_error guard now loaded p i code retryable after d = Inr (retry, d')"
    and "get_run d i = Some run" and "get_target d (tgt_id (lt_target loaded)) = Some t"
    and "tgt_config_revision t = disp_config_revision p"
  shows "retry = (retryable \<and> run_retry_count run < 3)
    \<and> (\<exists>run' t'. get_run d' i = Some run' \<and> get_target d' (tgt_id t) = Some t'
        \<and> run_retry_count run' = run_retry_count run + (if retry then 1 else 0)
        \<and> run_status run' = (if retry then Run_RUNNING else Run_FAILED)
        \<and> (if retry then \<exists>delay. 1 \<le> delay \<and> delay \<le> 900 \<and> tgt_next_retry_at t' = Some (now + seconds delay)
           else tgt_next_retry_at t' = None \<and> tgt_next_due_at t' = now + seconds (tgt_cadence_seconds t)))"
proof -
  have ids: "run_id run = i" "tgt_id (lt_target loaded) = tgt_id t" using assms(2,3) by (auto dest: get_id)
  have retry: "retry = (retryable \<and> run_retry_count run < 3)"
    and ok: "commit guard d (put_target (error_target now code retry after t) (put_run (error_run now code retry run) d)) = Inr d'"
    using assms by (auto simp: finish_error_def Let_def bindR_Inr_iff)
  have d': "d' = put_target (error_target now code retry after t) (put_run (error_run now code retry run) d)"
    using ok by (simp add: commit_Inr)
  have "get_run d' i = Some (error_run now code retry run)" using assms(2) ids by (simp add: d' error_run_def)
  moreover have "get_target d' (tgt_id t) = Some (error_target now code retry after t)"
    using assms(3) ids by (simp add: d' error_target_def degraded_target_def)
  moreover have "1 \<le> retry_delay after \<and> retry_delay after \<le> 900" by (simp add: retry_delay_def)
  ultimately show ?thesis using retry
    by (intro conjI exI [of _ "error_run now code retry run"] exI [of _ "error_target now code retry after t"])
       (auto simp: error_run_def error_target_def)
qed

text \<open>Recovery ends exactly the runs nobody holds: every running run older than the threshold whose
  target exists and that has neither a target lock nor a dispatch marker becomes failed and is counted; all
  other runs are left as they are, and none is left to recover.\<close>

theorem recovery_is_complete:
  assumes "runs_inv d" and "recover_stale_target_runs lib guard held now stale_before delay d = Inr (n, d')"
  shows "n = length (filter (\<lambda>r. stale_run stale_before r \<and> recoverable lib held d r) (collection_runs d))
    \<and> collection_runs d' = update_where (\<lambda>r. stale_run stale_before r \<and> recoverable lib held d r)
         (failed_run now ''stale_run'') (collection_runs d)
    \<and> \<not> list_ex (\<lambda>r. stale_run stale_before r \<and> recoverable lib held d' r) (collection_runs d')"
proof -
  note r = recover_Inr [OF assms]
  have "recoverable lib held d' = recoverable lib held d" using r by (intro recoverable_ids targets_kept_ids) simp
  moreover have "\<not> stale_run stale_before (failed_run now ''stale_run'' r)" for r
    by (simp add: stale_run_def failed_run_def)
  moreover have "\<exists>r0. r = (if stale_run stale_before r0 \<and> recoverable lib held d r0 then failed_run now ''stale_run'' r0 else r0)"
    if "r \<in> set (collection_runs d')" for r using that r by (auto simp: in_update_where)
  ultimately have "\<not> list_ex (\<lambda>r. stale_run stale_before r \<and> recoverable lib held d' r) (collection_runs d')"
    unfolding list_ex_iff by metis
  with r show ?thesis by simp
qed

subsection \<open>Checkpoints\<close>

lemma find_update_pred:
  assumes "\<And>r. r \<in> set rows \<Longrightarrow> q r \<Longrightarrow> P (f r) = P r"
  shows "List.find P (update_where q f rows) = map_option (\<lambda>r. if q r then f r else r) (List.find P rows)"
  using assms by (induction rows) (auto simp: update_where_def)

definition same_slot :: "CollectionCursor \<Rightarrow> CollectionCursor \<Rightarrow> bool" where
  "same_slot c c' \<longleftrightarrow> cur_id c' = cur_id c \<and> cur_target_id c' = cur_target_id c \<and> cur_cursor_type c' = cur_cursor_type c
     \<and> cur_cursor_version c' = cur_cursor_version c \<and> cur_run_mode c' = cur_run_mode c"

lemma find_cursor_put:
  assumes "distinct (map cur_id (collection_cursors d))" and "c \<in> set (collection_cursors d)" and "same_slot c c'"
  shows "find_cursor (put_cursor c' d) t mode = map_option (\<lambda>u. if cur_id u = cur_id c then c' else u) (find_cursor d t mode)"
proof -
  have "r = c" if "r \<in> set (collection_cursors d)" "cur_id r = cur_id c'" for r
    using assms that by (auto simp: distinct_map same_slot_def dest: inj_onD)
  then have "List.find P (update_where (\<lambda>r. cur_id r = cur_id c') (\<lambda>_. c') (collection_cursors d))
      = map_option (\<lambda>u. if cur_id u = cur_id c' then c' else u) (List.find P (collection_cursors d))"
    if "P c' = P c" for P
    using that by (intro find_update_pred) blast
  then show ?thesis using assms(3) by (simp add: find_cursor_def put_cursor_def same_slot_def)
qed

lemma same_slot_ids: "same_slot c c' \<Longrightarrow> map cur_id (collection_cursors (put_cursor c' d)) = map cur_id (collection_cursors d)"
  by (auto simp: put_cursor_def update_where_def same_slot_def)

lemma advanced_cursor_Inr:
  assumes "advanced_cursor lib pm result run t c = Inr c'" and "pres_next_cursor result = Some v" and "pm \<or> \<not> pres_has_more result"
  shows "same_slot c c' \<and> cur_cursor_value c' = Some v
    \<and> (\<exists>dec. decide_cursor lib (strategy_value (tgt_cursor_strategy t)) (cur_cursor_value c) (Some v) = Inr dec)"
  using assms
  by (auto simp: advanced_cursor_def bindR_Inr_iff at_position_def same_slot_def Let_def split: if_splits option.splits)

text \<open>Where a cursor row ends up after its flush and the flush of the legacy mirror.\<close>

lemma save_cursor_found:
  assumes "distinct (map cur_id (collection_cursors d))" and "find_cursor d t mode = Some c" and "same_slot c c'"
  shows "\<exists>c2. find_cursor (save_cursor now (Some c) c' d) t mode = Some c2 \<and> cur_cursor_value c2 = cur_cursor_value c'
    \<and> distinct (map cur_id (collection_cursors (save_cursor now (Some c) c' d)))"
proof (cases "c' = c")
  case False
  let ?c = "c'\<lparr>cur_updated_at := now\<rparr>"
  have s: "same_slot c ?c" using assms(3) by (simp add: same_slot_def)
  have "c \<in> set (collection_cursors d)" using assms(2) unfolding find_cursor_def by (auto dest: find_Some_in)
  from find_cursor_put [OF assms(1) this s, of t mode] False assms same_slot_ids [OF s, of d] show ?thesis
    by (simp add: save_cursor_def)
qed (use assms in \<open>auto simp: save_cursor_def\<close>)

lemma save_legacy_found:
  assumes "distinct (map cur_id (collection_cursors d))" and "find_cursor d t mode = Some c"
    and "cur_cursor_value c = Some v" and "pres_next_cursor result = Some v"
  shows "\<exists>c2. find_cursor (save_legacy_cursor gen now result t' d) t mode = Some c2 \<and> cur_cursor_value c2 = Some v"
proof -
  consider "save_legacy_cursor gen now result t' d = d"
    | l where "save_legacy_cursor gen now result t' d = d\<lparr>collection_cursors := collection_cursors d @ [l]\<rparr>"
    | l l' where "l \<in> set (collection_cursors d)" "same_slot l l'" "cur_cursor_value l' = Some v"
        "save_legacy_cursor gen now result t' d = put_cursor l' d"
  proof (cases "tgt_legacy_cursor_type t' = None \<or> tgt_source_account_id t' = None \<or> pres_has_more result")
    case True
    then have "save_legacy_cursor gen now result t' d = d" by (auto simp: save_legacy_cursor_def split: option.split)
    then show ?thesis by (rule that(1))
  next
    case False
    then obtain kind account where s: "tgt_legacy_cursor_type t' = Some kind" "tgt_source_account_id t' = Some account"
      "\<not> pres_has_more result" by auto
    note eq = save_legacy_cursor_def [of gen now result t' d, unfolded s assms(4) option.case prod.case Let_def if_not_P [OF s(3)]]
    show ?thesis
    proof (cases "find_legacy_cursor d account kind")
      case None
      then show ?thesis using that(2) by (simp add: eq save_cursor_def)
    next
      case (Some l)
      then have "l \<in> set (collection_cursors d)" unfolding find_legacy_cursor_def by (auto dest: find_Some_in)
      with Some that(1) that(3) [of l "l\<lparr>cur_cursor_value := Some v, cur_updated_at := now\<rparr>"] show ?thesis
        by (cases "l\<lparr>cur_cursor_value := Some v\<rparr> = l") (simp_all add: eq save_cursor_def same_slot_def)
    qed
  qed
  then show ?thesis
  proof cases
    case 3
    from find_cursor_put [OF assms(1) 3(1,2), of t mode] 3 assms(2,3) show ?thesis by simp
  qed (use assms(2,3) in \<open>auto simp: find_cursor_def find_append\<close>)
qed

lemma persist_cursor_checkpoint:
  assumes "distinct (map cur_id (collection_cursors d))" and "find_cursor d t mode = Some c"
    and "persist_cursor lib gen now pm result snapshot run t mode d = Inr d'"
    and "pres_next_cursor result = Some v" and "pm \<or> \<not> pres_has_more result"
  shows "(\<exists>c'. find_cursor d' t mode = Some c' \<and> cur_cursor_value c' = Some v)
    \<and> (\<exists>dec. decide_cursor lib (strategy_value (tgt_cursor_strategy t)) (cur_cursor_value c) (Some v) = Inr dec)
    \<and> (case snapshot of None \<Rightarrow> True | Some s \<Rightarrow> cur_cursor_value s = cur_cursor_value c)"
proof -
  obtain c1 where adv: "advanced_cursor lib pm result run t c = Inr c1"
    and d': "d' = save_legacy_cursor gen now result t (save_cursor now (Some c) c1 d)"
    and snap: "case snapshot of None \<Rightarrow> True | Some s \<Rightarrow> cur_cursor_value s = cur_cursor_value c"
    using assms(2,3,4) by (auto simp: persist_cursor_def Let_def bindR_Inr_iff split: option.splits if_splits)
  note a = advanced_cursor_Inr [OF adv assms(4,5)]
  obtain c2 where c2: "find_cursor (save_cursor now (Some c) c1 d) t mode = Some c2" "cur_cursor_value c2 = cur_cursor_value c1"
    "distinct (map cur_id (collection_cursors (save_cursor now (Some c) c1 d)))"
    using save_cursor_found [OF assms(1,2)] a by blast
  with a have "cur_cursor_value c2 = Some v" by simp
  from save_legacy_found [OF c2(3,1) this assms(4)] a snap show ?thesis by (simp add: d')
qed

text \<open>Property C26.  Persisting a result never moves a checkpoint backward and never overwrites a checkpoint that
  changed since it was read: with a proposed cursor (and no unsupported continuation) the stored cursor becomes
  exactly the proposed one, its position is not before the old one, and the cursor the fetch started from is the
  cursor that was replaced.\<close>

theorem persist_keeps_checkpoint_order:
  assumes "persist_result lib guard ids gen now loaded p i snapshot result mode m d = Inr d'"
    and "distinct (map cur_id (collection_cursors d))" and "get_target d (tgt_id (lt_target loaded)) = Some t"
    and "find_cursor d t mode = Some c" and "cur_cursor_value c = Some b" and "position_of lib b = Some q"
    and "pres_next_cursor result = Some v" and "pm_page_mode m \<or> \<not> pres_has_more result"
  shows "(\<exists>c' q'. find_cursor d' t mode = Some c' \<and> cur_cursor_value c' = Some v \<and> position_of lib v = Some q' \<and> q \<le> q')
    \<and> (case snapshot of None \<Rightarrow> True | Some s \<Rightarrow> cur_cursor_value s = Some b)"
proof -
  obtain t1 run counts d2 where t1: "get_target d (tgt_id (lt_target loaded)) = Some t1"
    and fr: "collection_cursors d2 = collection_cursors d"
    and pc: "persist_cursor lib gen now (pm_page_mode m) result snapshot i t1 mode
         (put_target (attempted_target now (pm_final m) result t1)
           (put_run (finished_run now (pm_page_mode m) (pm_final m) result (counted_run (pm_page_mode m) counts run)) d2)) = Inr d'"
    using persist_result_Inr [OF assms(1)] by (elim exE conjE) (rule that; assumption)
  have t: "t1 = t" using t1 assms(3) by simp
  let ?D = "put_target (attempted_target now (pm_final m) result t)
     (put_run (finished_run now (pm_page_mode m) (pm_final m) result (counted_run (pm_page_mode m) counts run)) d2)"
  have ids: "distinct (map cur_id (collection_cursors ?D))" and fc: "find_cursor ?D t mode = Some c"
    using assms(2,4) by (simp_all add: fr find_cursor_def)
  obtain c' dec where c': "find_cursor d' t mode = Some c'" "cur_cursor_value c' = Some v"
    and dec: "decide_cursor lib (strategy_value (tgt_cursor_strategy t)) (Some b) (Some v) = Inr dec"
    and snap: "case snapshot of None \<Rightarrow> True | Some s \<Rightarrow> cur_cursor_value s = Some b"
    using persist_cursor_checkpoint [OF ids fc pc [unfolded t] assms(7,8)] unfolding assms(5) by blast
  obtain q' where "position_of lib v = Some q'" "action dec = ''advance'' \<or> action dec = ''no_new_items''"
    "(action dec = ''advance'' \<longrightarrow> q < q') \<and> (action dec = ''no_new_items'' \<longrightarrow> q = q')"
    using decide_cursor_acceptsD [OF dec] assms(6) by blast
  then have "q \<le> q'" by auto
  with c' \<open>position_of lib v = Some q'\<close> snap show ?thesis by blast
qed

subsection \<open>Closed instances\<close>

definition sample_loaded :: LoadedTarget where
  "sample_loaded = \<lparr>lt_target = sample_target, lt_source = sample_source, lt_account = Some sample_account,
     lt_contract = legacy_contract ''marketaux'' ''news_all'' COMPOUND Mode_INCREMENTAL 3 [''MARKETAUX_API_TOKEN'']
        ''provider_cursor_v1'' cfg_marketaux,
     lt_config = [(''query'', JStr ''energy'')]\<rparr>"

definition sample_dispatch :: TargetDispatch where
  "sample_dispatch = \<lparr>disp_target_id = ''t1'', disp_config_revision = 1, disp_scheduled_slot = 0,
     disp_run_mode = ''normal'', disp_dispatch_id = ''t1:1:0:normal''\<rparr>"

abbreviation accept_all :: "db \<Rightarrow> db \<Rightarrow> bool" where "accept_all \<equiv> \<lambda>_ _. True"

abbreviation sample_start :: "((uuid \<times> CollectionCursor option) \<times> db) res" where
  "sample_start \<equiv> start_run accept_all (\<lambda>_. ''run1'') 5 sample_loaded sample_dispatch NORMAL sample_db"

definition sample_started :: db where
  "sample_started = add_run (new_run ''run1'' 5 sample_target sample_dispatch NORMAL) sample_db"

lemma sample_starts: "sample_start = Inr ((''run1'', None), sample_started)"
proof -
  have t: "get_target sample_db (tgt_id (lt_target sample_loaded)) = Some sample_target"
    by (simp add: sample_db_def sample_loaded_def get_target_def empty_db_def)
  have n: "find_running sample_db (tgt_id sample_target) NORMAL = None" "find_cursor sample_started sample_target NORMAL = None"
    by (simp_all add: find_running_def find_cursor_def sample_started_def add_run_def sample_db_def empty_db_def)
  have "list_all ck_collection_runs (collection_runs sample_started)" "list_all ck_collection_targets (collection_targets sample_started)"
    "uq_running_target_mode (collection_runs sample_started)" "uq_cursor_slots (collection_cursors sample_started)"
    "run_triggers sample_db sample_started" by code_simp+
  then have "commit accept_all sample_db sample_started = Inr sample_started" by (simp add: commit_def)
  then show ?thesis using t n
    by (simp add: start_run_def sample_started_def Let_def sample_dispatch_def sample_target_def new_run_def)
qed

lemma sample_runs_inv: "runs_inv sample_db" "runs_inv sample_started"
  by code_simp+

theorem runs_reachable_ok_witness:
  "reach runs_init (control_step sample_lib operation_registry accept_all) sample_started
   \<and> has_running sample_started ''t1'' \<and> uq_running_target_mode (collection_runs sample_started)
   \<and> list_all (\<lambda>r. run_target_id r = None \<or> run_ok r) (collection_runs sample_started)"
proof -
  have init: "runs_init sample_db" by code_simp
  have fresh: "''run1'' \<notin> run_id ` set (collection_runs sample_db)" by code_simp
  have r: "reach runs_init (control_step sample_lib operation_registry accept_all) sample_started"
    by (rule reach_step [of _ _ sample_db], rule reach_init [of runs_init, OF init], rule cs_start [OF sample_starts fresh])
  have "has_running sample_started ''t1''" by code_simp
  with r runs_reachable_ok [OF r] show ?thesis by blast
qed

theorem start_run_resumes_witness:
  "start_run accept_all (\<lambda>_. ''run2'') 9 sample_loaded sample_dispatch NORMAL sample_started
     = Inr ((''run1'', None), sample_started)"
  by (rule start_run_resumes [OF sample_starts]) simp_all

abbreviation sample_failure :: "(bool \<times> db) res" where
  "sample_failure \<equiv> finish_error accept_all 9 sample_loaded sample_dispatch ''run1'' ''provider_rate_limited'' True (Some 5000) sample_started"

theorem finish_error_bounded_retry_witness:
  "\<exists>d' run' t'. sample_failure = Inr (True, d') \<and> get_run d' ''run1'' = Some run' \<and> get_target d' ''t1'' = Some t'
     \<and> run_retry_count run' = 1 \<and> run_status run' = Run_RUNNING"
proof -
  have "map_sum (\<lambda>_. ()) fst sample_failure = Inr True" by code_simp
  then obtain d' where d': "sample_failure = Inr (True, d')" by (cases sample_failure) auto
  have g: "get_run sample_started ''run1'' = Some (new_run ''run1'' 5 sample_target sample_dispatch NORMAL)"
    "get_target sample_started (tgt_id (lt_target sample_loaded)) = Some sample_target"
    "tgt_config_revision sample_target = disp_config_revision sample_dispatch" "tgt_id sample_target = ''t1''"
    "run_retry_count (new_run ''run1'' 5 sample_target sample_dispatch NORMAL) = 0"
    by (simp_all add: sample_started_def add_run_def get_run_def get_target_def sample_db_def empty_db_def new_run_def
        sample_loaded_def sample_target_def sample_dispatch_def)
  from finish_error_bounded_retry [OF d' g(1-3)] d' show ?thesis by (simp add: g(4,5)) blast
qed

abbreviation sample_recovery :: "(nat \<times> db) res" where
  "sample_recovery \<equiv> recover_stale_target_runs sample_lib accept_all (\<lambda>_. False) 9 8 30 sample_started"

theorem recovery_is_complete_witness:
  "\<exists>d'. sample_recovery = Inr (1, d') \<and> \<not> list_ex (\<lambda>r. stale_run 8 r \<and> recoverable sample_lib (\<lambda>_. False) d' r) (collection_runs d')"
proof -
  have "map_sum (\<lambda>_. ()) fst sample_recovery = Inr 1" by code_simp
  then obtain d' where d': "sample_recovery = Inr (1, d')" by (cases sample_recovery) auto
  from recovery_is_complete [OF sample_runs_inv(2) d'] d' show ?thesis by blast
qed

definition sample_bounded_target :: CollectionTarget where
  "sample_bounded_target = sample_target\<lparr>tgt_operation_config_version := 2, tgt_provider_contract_version := 2,
     tgt_legacy_cursor_type := None, tgt_operation_config := sample_pinned\<rparr>"

definition sample_bounded :: LoadedTarget where
  "sample_bounded = sample_loaded\<lparr>lt_target := sample_bounded_target, lt_config := sample_pinned,
     lt_contract := breadth_contract ''marketaux'' ''news_all'' [''MARKETAUX_API_TOKEN'']\<rparr>"

definition sample_bounded_db :: db where
  "sample_bounded_db = sample_db\<lparr>collection_targets := [sample_bounded_target],
     collection_runs := [(new_run ''run1'' 5 sample_bounded_target sample_dispatch NORMAL)\<lparr>
       run_resolved_window := Some [(''start'', JStr ''1970-01-09''), (''end'', JStr ''1970-01-11'')],
       run_operation_config_hash := Some sample_hash\<rparr>]\<rparr>"

abbreviation sample_pin :: "time \<Rightarrow> db \<Rightarrow> ((dict \<times> dict) \<times> db) res" where
  "sample_pin now d \<equiv> resolved_run_config sample_lib accept_all (\<lambda>_. ''k1'') now ''run1'' sample_bounded None NORMAL d"

theorem window_resolved_once_witness:
  "\<exists>config k d1 k2 d3. sample_pin 6 sample_bounded_db = Inr ((config, k), d1) \<and> sample_pin 900 d1 = Inr ((config, k2), d3)
     \<and> dget config ''start'' = JStr ''1970-01-09''"
proof -
  have "(case sample_pin 6 sample_bounded_db of Inl e \<Rightarrow> False
         | Inr ((config, k), d1) \<Rightarrow> dget config ''start'' = JStr ''1970-01-09'' \<and> \<not> isl (sample_pin 900 d1))" by code_simp
  then obtain config k d1 config2 k2 d3 where one: "sample_pin 6 sample_bounded_db = Inr ((config, k), d1)"
    and two: "sample_pin 900 d1 = Inr ((config2, k2), d3)" and st: "dget config ''start'' = JStr ''1970-01-09''"
    by (cases "sample_pin 6 sample_bounded_db"; cases "sample_pin 900 (snd (projr (sample_pin 6 sample_bounded_db)))") auto
  have inv: "runs_inv sample_bounded_db" by code_simp
  have "config2 = config" by (rule window_resolved_once [OF inv one rtranclp.rtrancl_refl two]) simp
  with one two st show ?thesis by blast
qed

definition sample_progress_db :: db where
  "sample_progress_db = sample_started\<lparr>collection_cursors :=
     [sample_cursor\<lparr>cur_cursor_value := Some epoch_cursor, cur_continuation := None, cur_continuation_run_id := None\<rparr>]\<rparr>"

definition sample_progress :: ProviderFetchResult where
  "sample_progress = \<lparr>pres_raw_items = [], pres_sanitized_metadata = [], pres_next_cursor = Some later_cursor,
     pres_has_more = False, pres_safe_errors = [], pres_provider = ''marketaux'', pres_contract_version = 1,
     pres_display_projections = [], pres_factual_projections = [], pres_continuation = None,
     pres_rejected_row_hashes = [], pres_coverage_incomplete = False\<rparr>"

abbreviation sample_persisted :: "db res" where
  "sample_persisted \<equiv> persist_result sample_lib accept_all sample_ids (\<lambda>_. ''k2'') 9 sample_loaded sample_dispatch ''run1'' None
     sample_progress NORMAL \<lparr>pm_page_mode = False, pm_final = True, pm_observation_key = ''run''\<rparr> sample_progress_db"

theorem persist_keeps_checkpoint_order_witness:
  "\<exists>d' c' q'. sample_persisted = Inr d' \<and> find_cursor d' sample_target NORMAL = Some c'
     \<and> cur_cursor_value c' = Some later_cursor \<and> position_of sample_lib later_cursor = Some q' \<and> CursorPosition 0 ''a'' \<le> q'"
proof -
  have "\<not> isl sample_persisted" by code_simp
  then obtain d' where d': "sample_persisted = Inr d'" by (cases sample_persisted) auto
  have ids: "distinct (map cur_id (collection_cursors sample_progress_db))" by code_simp
  have t: "get_target sample_progress_db (tgt_id (lt_target sample_loaded)) = Some sample_target"
    by (simp add: sample_progress_db_def sample_started_def add_run_def get_target_def sample_db_def sample_loaded_def empty_db_def)
  have c: "find_cursor sample_progress_db sample_target NORMAL =
      Some (sample_cursor\<lparr>cur_cursor_value := Some epoch_cursor, cur_continuation := None, cur_continuation_run_id := None\<rparr>)"
    by (simp add: find_cursor_def sample_progress_db_def sample_cursor_def sample_target_def)
  have q: "position_of sample_lib epoch_cursor = Some (CursorPosition 0 ''a'')" by code_simp
  from persist_keeps_checkpoint_order [OF d' ids t c _ q] d' show ?thesis by (auto simp: sample_progress_def)
qed

end
