(* ===== verification/Redis_Locks.thy ===== *)
theory Redis_Locks
  imports Prelude
begin

text \<open>
  The Redis commands the control plane uses and the lock protocol built on them
  (\<open>collection/control_plane.py\<close>).  The server is an argument: a record of the commands over an abstract
  server state, with the instant at which a command runs.  \<open>redis_laws\<close> states their documented behaviour
  (\<open>SET NX EX\<close>, \<open>GET\<close>, \<open>DEL\<close>, \<open>EXPIRE\<close>); the lock lemmas are proved from it once.  \<open>store_api\<close>, a
  store of values with expiry times, satisfies the laws.

  The two Lua scripts of the program run atomically: compare-and-delete and compare-and-expire.
\<close>

record 'r redis_api =
  redis_get :: "'r \<Rightarrow> time \<Rightarrow> string \<Rightarrow> string option"
  redis_set :: "'r \<Rightarrow> time \<Rightarrow> string \<Rightarrow> string \<Rightarrow> bool \<Rightarrow> int \<Rightarrow> bool \<times> 'r"
  redis_del :: "'r \<Rightarrow> string \<Rightarrow> 'r"
  redis_expire :: "'r \<Rightarrow> time \<Rightarrow> string \<Rightarrow> int \<Rightarrow> 'r"

text \<open>\<open>await redis.exists(key)\<close> and the scripts.\<close>

definition redis_exists :: "'r redis_api \<Rightarrow> 'r \<Rightarrow> time \<Rightarrow> string \<Rightarrow> bool" where
  "redis_exists api r now key = (redis_get api r now key \<noteq> None)"

definition compare_delete :: "'r redis_api \<Rightarrow> string \<Rightarrow> string \<Rightarrow> time \<Rightarrow> 'r \<Rightarrow> 'r" where
  "compare_delete api key v now r = (if redis_get api r now key = Some v then redis_del api r key else r)"

definition compare_expire :: "'r redis_api \<Rightarrow> string \<Rightarrow> string \<Rightarrow> int \<Rightarrow> time \<Rightarrow> 'r \<Rightarrow> bool \<times> 'r" where
  "compare_expire api key v ttl now r =
     (if redis_get api r now key = Some v then (True, redis_expire api r now key ttl) else (False, r))"

definition acquire :: "'r redis_api \<Rightarrow> string \<Rightarrow> string \<Rightarrow> int \<Rightarrow> time \<Rightarrow> 'r \<Rightarrow> bool \<times> 'r" where
  "acquire api key owner ttl now r = redis_set api r now key owner True ttl"

definition renew_interval :: "int \<Rightarrow> int" where
  "renew_interval ttl = max (min (ttl div 3) 30) 1"

definition us :: "int \<Rightarrow> time" where
  "us n = n * 1000000"

locale redis_laws =
  fixes api :: "'r redis_api"
  assumes set_nx: "redis_set api r t k v True ttl = (b, r') \<Longrightarrow> b = (redis_get api r t k = None) \<and> (b \<or> r' = r)"
    and set_plain: "fst (redis_set api r t k v False ttl)"
    and set_get: "redis_set api r t k v nx ttl = (True, r') \<Longrightarrow> 1 \<le> ttl \<Longrightarrow> t \<le> t' \<Longrightarrow>
       redis_get api r' t' k' = (if k' = k then if t' < t + us ttl then Some v else None else redis_get api r t' k')"
    and del_get: "redis_get api (redis_del api r k) t k' = (if k' = k then None else redis_get api r t k')"
    and expire_get: "redis_get api r t k = Some v \<Longrightarrow> 1 \<le> ttl \<Longrightarrow> t \<le> t' \<Longrightarrow>
       redis_get api (redis_expire api r t k ttl) t' k' =
         (if k' = k then if t' < t + us ttl then Some v else None else redis_get api r t' k')"
    and no_revival: "redis_get api r t' k = Some v \<Longrightarrow> t \<le> t' \<Longrightarrow> redis_get api r t k = Some v"
begin

text \<open>\<open>held r t e k v\<close>: from \<open>t\<close> until \<open>e\<close> the key reads as \<open>v\<close>.\<close>

definition held :: "'r \<Rightarrow> time \<Rightarrow> time \<Rightarrow> string \<Rightarrow> string \<Rightarrow> bool" where
  "held r t e k v \<longleftrightarrow> (\<forall>t'. t \<le> t' \<and> t' < e \<longrightarrow> redis_get api r t' k = Some v)"

lemma held_later: "held r t e k v \<Longrightarrow> t \<le> s \<Longrightarrow> held r s e k v"
  by (auto simp: held_def)

lemma acquired_is_held:
  assumes "acquire api k v ttl t r = (True, r')" and "1 \<le> ttl"
  shows "held r' t (t + us ttl) k v"
  using assms unfolding acquire_def held_def by (simp add: set_get)

lemma acquire_held_fails:
  assumes "held r t e k v" and "t < e"
  shows "acquire api k w ttl t r = (False, r)"
proof -
  obtain b r' where s: "acquire api k w ttl t r = (b, r')" by (rule prod.exhaust)
  then show ?thesis using set_nx [of r t k w ttl b r'] assms by (auto simp: acquire_def held_def)
qed

lemma released_not_held: "redis_get api (compare_delete api k v t r) t k \<noteq> Some v"
  by (simp add: compare_delete_def del_get)

lemma renew_extends:
  assumes "held r t e k v" and "t < e" and "1 \<le> ttl"
  shows "\<exists>r'. compare_expire api k v ttl t r = (True, r') \<and> held r' t (t + us ttl) k v"
proof -
  have g: "redis_get api r t k = Some v" using assms(1,2) by (simp add: held_def)
  have "held (redis_expire api r t k ttl) t (t + us ttl) k v"
    unfolding held_def using expire_get [OF g assms(3)] by simp
  with g show ?thesis by (simp add: compare_expire_def)
qed

end

text \<open>What another process may do to a lock: it acquires, renews or releases with its own token, or it works
  on another key.\<close>

datatype foreign_op =
    F_acquire string int
  | F_renew string int
  | F_release string
  | F_set string string bool int
  | F_delete string

fun foreign :: "'r redis_api \<Rightarrow> string \<Rightarrow> time \<Rightarrow> foreign_op \<Rightarrow> 'r \<Rightarrow> 'r" where
  "foreign api key t (F_acquire w ttl) r = snd (acquire api key w ttl t r)"
| "foreign api key t (F_renew w ttl) r = snd (compare_expire api key w ttl t r)"
| "foreign api key t (F_release w) r = compare_delete api key w t r"
| "foreign api key t (F_set k w nx ttl) r = snd (redis_set api r t k w nx ttl)"
| "foreign api key t (F_delete k) r = redis_del api r k"

fun is_foreign :: "string \<Rightarrow> string \<Rightarrow> foreign_op \<Rightarrow> bool" where
  "is_foreign key v (F_acquire w ttl) = (w \<noteq> v)"
| "is_foreign key v (F_renew w ttl) = (w \<noteq> v)"
| "is_foreign key v (F_release w) = (w \<noteq> v)"
| "is_foreign key v (F_set k w nx ttl) = (k \<noteq> key \<and> 1 \<le> ttl)"
| "is_foreign key v (F_delete k) = (k \<noteq> key)"

context redis_laws
begin

lemma set_other_key:
  assumes "k \<noteq> key" and "1 \<le> ttl" and "t \<le> t'"
  shows "redis_get api (snd (redis_set api r t k w nx ttl)) t' key = redis_get api r t' key"
proof -
  obtain b r' where s: "redis_set api r t k w nx ttl = (b, r')" by (rule prod.exhaust)
  show ?thesis
  proof (cases b)
    case True
    then show ?thesis using set_get [of r t k w nx ttl r' t' key] s assms by simp
  next
    case False
    then have "nx" using set_plain [of r t k w ttl] s by (cases nx) auto
    then show ?thesis using set_nx [of r t k w ttl b r'] s False by simp
  qed
qed

lemma foreign_keeps_held:
  assumes "held r t e key v" and "is_foreign key v f" and "t \<le> s" and "s < e"
  shows "held (foreign api key s f r) s e key v"
proof -
  have h: "held r s e key v" using held_later [OF assms(1,3)] .
  have g: "redis_get api r s key = Some v" using h assms(4) by (simp add: held_def)
  show ?thesis
  proof (cases f)
    case (F_acquire w ttl)
    then show ?thesis using acquire_held_fails [OF h assms(4)] h by simp
  next
    case (F_set k w nx ttl)
    then show ?thesis using assms(2) h set_other_key [of k key ttl s] by (auto simp: held_def)
  qed (use assms(2) h g in \<open>auto simp: compare_expire_def compare_delete_def held_def del_get\<close>)
qed

end

subsection \<open>A server that satisfies the laws\<close>

definition store_get :: "(string \<rightharpoonup> string \<times> time) \<Rightarrow> time \<Rightarrow> string \<Rightarrow> string option" where
  "store_get s now k = (case s k of None \<Rightarrow> None | Some (v, e) \<Rightarrow> if now < e then Some v else None)"

definition store_api :: "(string \<rightharpoonup> string \<times> time) redis_api" where
  "store_api =
     \<lparr>redis_get = store_get,
      redis_set = (\<lambda>s now k v nx ttl.
        if nx \<and> store_get s now k \<noteq> None then (False, s) else (True, s(k \<mapsto> (v, now + us ttl)))),
      redis_del = (\<lambda>s k. s(k := None)),
      redis_expire = (\<lambda>s now k ttl.
        case store_get s now k of None \<Rightarrow> s | Some v \<Rightarrow> s(k \<mapsto> (v, now + us ttl)))\<rparr>"

interpretation store: redis_laws store_api
  by unfold_locales
     (auto simp: store_api_def store_get_def us_def split: option.splits if_splits prod.splits)

subsection \<open>The renewal loop\<close>

text \<open>Each round waits \<open>renew_interval ttl\<close> seconds, wakes up late by some delay, and runs the compare-and-expire
  script; other processes act in between.  The loop ends with \<open>lock_lost\<close> when a renewal fails.\<close>

type_synonym round = "(time \<times> foreign_op) list \<times> time"

fun foreigns :: "'r redis_api \<Rightarrow> string \<Rightarrow> (time \<times> foreign_op) list \<Rightarrow> 'r \<Rightarrow> 'r" where
  "foreigns api key [] r = r"
| "foreigns api key ((t, f) # fs) r = foreigns api key fs (foreign api key t f r)"

fun renew_lock ::
  "'r redis_api \<Rightarrow> string \<Rightarrow> string \<Rightarrow> int \<Rightarrow> round list \<Rightarrow> time \<Rightarrow> 'r \<Rightarrow> bool \<times> time \<times> 'r" where
  "renew_lock api key owner ttl [] t r = (False, t, r)"
| "renew_lock api key owner ttl ((fs, late) # rounds) t r =
     (let tick = t + us (renew_interval ttl) + late;
          (renewed, r') = compare_expire api key owner ttl tick (foreigns api key fs r)
      in if renewed then renew_lock api key owner ttl rounds tick r' else (True, tick, r'))"

fun ops_between :: "string \<Rightarrow> string \<Rightarrow> time \<Rightarrow> time \<Rightarrow> (time \<times> foreign_op) list \<Rightarrow> bool" where
  "ops_between key owner t e [] = True"
| "ops_between key owner t e ((s, f) # fs) = (t \<le> s \<and> s \<le> e \<and> is_foreign key owner f \<and> ops_between key owner s e fs)"

fun on_schedule :: "string \<Rightarrow> string \<Rightarrow> int \<Rightarrow> time \<Rightarrow> round list \<Rightarrow> bool" where
  "on_schedule key owner ttl t [] = True"
| "on_schedule key owner ttl t ((fs, late) # rounds) =
     (let tick = t + us (renew_interval ttl) + late in
      0 \<le> late \<and> late < us (ttl - renew_interval ttl) \<and> ops_between key owner t tick fs
      \<and> on_schedule key owner ttl tick rounds)"

lemma renew_interval_slack: "2 \<le> ttl \<Longrightarrow> 1 \<le> renew_interval ttl \<and> renew_interval ttl < ttl"
  by (auto simp: renew_interval_def)

context redis_laws
begin

lemma foreigns_keep_held:
  "held r t e key v \<Longrightarrow> ops_between key v t u fs \<Longrightarrow> t \<le> u \<Longrightarrow> u < e \<Longrightarrow> held (foreigns api key fs r) u e key v"
proof (induction fs arbitrary: r t)
  case (Cons sf fs)
  obtain s f where sf: "sf = (s, f)" by (rule prod.exhaust)
  then have "held (foreign api key s f r) s e key v"
    using Cons.prems by (intro foreign_keeps_held [of r t]) auto
  then show ?case using Cons.prems sf by (auto intro: Cons.IH [of _ s])
qed (auto intro: held_later)

lemma renew_lock_held:
  "held r t (t + us ttl) key v \<Longrightarrow> on_schedule key v ttl t rounds \<Longrightarrow> 2 \<le> ttl \<Longrightarrow>
     \<exists>t' r'. renew_lock api key v ttl rounds t r = (False, t', r') \<and> held r' t' (t' + us ttl) key v"
proof (induction rounds arbitrary: t r)
  case (Cons round rounds)
  obtain fs late where round: "round = (fs, late)" by (rule prod.exhaust)
  let ?tick = "t + us (renew_interval ttl) + late"
  have ok: "0 \<le> late" "late < us (ttl - renew_interval ttl)" "ops_between key v t ?tick fs" "on_schedule key v ttl ?tick rounds"
    using Cons.prems(2) by (simp_all add: round Let_def)
  have before: "t \<le> ?tick" "?tick < t + us ttl"
    using ok renew_interval_slack [OF Cons.prems(3)] by (simp_all add: us_def algebra_simps)
  have "held (foreigns api key fs r) ?tick (t + us ttl) key v"
    by (rule foreigns_keep_held [OF Cons.prems(1) ok(3) before])
  from renew_extends [OF this before(2), of ttl] Cons.prems(3) obtain r' where
    r': "compare_expire api key v ttl ?tick (foreigns api key fs r) = (True, r')" "held r' ?tick (?tick + us ttl) key v" by auto
  from Cons.IH [OF r'(2) ok(4) Cons.prems(3)] r'(1) show ?case by (simp add: round Let_def)
qed simp

end

subsection \<open>Properties\<close>

text \<open>Property C22.  A worker whose renewal loop wakes up within the slack of the lock's lifetime never loses its
  lock, whatever other processes do with their own tokens: the loop never reports \<open>lock_lost\<close>, and at every wake-up
  the key reads as the owner's token, so that no other process can acquire it.\<close>

theorem renewed_lock_is_exclusive:
  assumes "redis_laws api" and "acquire api key owner ttl t r = (True, r1)" and "2 \<le> ttl"
    and "on_schedule key owner ttl t rounds" and "renew_lock api key owner ttl rounds t r1 = (lost, t', r')"
  shows "\<not> lost \<and> redis_get api r' t' key = Some owner \<and> acquire api key other ttl' t' r' = (False, r')"
proof -
  have h: "redis_laws.held api r1 t (t + us ttl) key owner"
    using redis_laws.acquired_is_held [OF assms(1,2)] assms(3) by simp
  from redis_laws.renew_lock_held [OF assms(1) h assms(4,3)] assms(5)
  have lost: "\<not> lost" and held: "redis_laws.held api r' t' (t' + us ttl) key owner" by auto
  have "t' < t' + us ttl" using assms(3) by (simp add: us_def)
  then have "redis_get api r' t' key = Some owner \<and> acquire api key other ttl' t' r' = (False, r')"
    using held redis_laws.acquire_held_fails [OF assms(1) held] by (simp add: redis_laws.held_def [OF assms(1)])
  with lost show ?thesis by blast
qed

theorem renewed_lock_is_exclusive_witness:
  "(\<exists>t' r'. renew_lock store_api ''lock'' ''a'' 90 [([(1, F_acquire ''b'' 90), (2, F_release ''b'')], 5), ([], 7)] 0
       (snd (acquire store_api ''lock'' ''a'' 90 0 Map.empty)) = (False, t', r')
     \<and> redis_get store_api r' t' ''lock'' = Some ''a'')"
proof -
  obtain r1 where r1: "acquire store_api ''lock'' ''a'' 90 0 Map.empty = (True, r1)"
    by (simp add: acquire_def store_api_def store_get_def)
  let ?rounds = "[([(1, F_acquire ''b'' 90), (2, F_release ''b'')], 5), ([], 7)] :: round list"
  obtain lost t' r' where e: "renew_lock store_api ''lock'' ''a'' 90 ?rounds 0 r1 = (lost, t', r')" by (metis prod_cases3)
  have "on_schedule ''lock'' ''a'' 90 0 ?rounds" by (simp add: us_def renew_interval_def)
  from renewed_lock_is_exclusive [OF store.redis_laws_axioms r1 _ this e] e r1 show ?thesis by simp
qed

end
