(* ===== verification/Target_Scheduler.thy ===== *)
theory Target_Scheduler
  imports Collection_Runs Redis_Locks
begin

text \<open>
  The scheduler of \<open>collection/control_plane.py\<close>: \<open>claim_due\<close> pages through the due targets, reloads each of
  them at its current revision and marks a dispatch in Redis; \<open>release\<close> removes the marker.  The database does
  not change; the pass reads one snapshot of it at one instant.
\<close>

definition scan_budget :: "nat \<Rightarrow> nat" where
  "scan_budget limit = min 500 (max 100 (limit * 8))"

text \<open>\<open>int(_.timestamp())\<close> truncates toward zero.\<close>

definition unix_seconds :: "time \<Rightarrow> int" where
  "unix_seconds t = (if t < 0 then - ((- t) div 1000000) else t div 1000000)"

definition dispatch_slot :: "time \<Rightarrow> DueTarget \<Rightarrow> CollectionTarget \<Rightarrow> int" where
  "dispatch_slot now due t =
     (if due_retry_due due then unix_seconds (due_effective_due_at due)
      else unix_seconds now div max (tgt_cadence_seconds t) 1)"

definition marker_lifetime :: "int \<Rightarrow> CollectionTarget \<Rightarrow> int" where
  "marker_lifetime marker_ttl t =
     max (max marker_ttl (max (tgt_cadence_seconds t) 1)) (tgt_max_runtime_seconds t + 900)"

definition target_revision :: "db \<Rightarrow> uuid \<Rightarrow> int res" where
  "target_revision d i =
     (case get_target d i of None \<Rightarrow> repo_error ''target_not_found'' | Some t \<Rightarrow> Inr (tgt_config_revision t))"

definition make_dispatch :: "time \<Rightarrow> DueTarget \<Rightarrow> CollectionTarget \<Rightarrow> TargetDispatch" where
  "make_dispatch now due t =
     \<lparr>disp_target_id = tgt_id t, disp_config_revision = tgt_config_revision t,
      disp_scheduled_slot = dispatch_slot now due t, disp_run_mode = ''normal'',
      disp_dispatch_id = dispatch_identity (tgt_id t) (tgt_config_revision t) (dispatch_slot now due t) ''normal''\<rparr>"

definition manual_only :: "LoadedTarget \<Rightarrow> bool" where
  "manual_only loaded =
     (tgt_provider_contract_version (lt_target loaded) = 2
      \<and> dget (lt_config loaded) ''window_mode'' = JStr ''fixed_window'')"

text \<open>One turn of the inner loop.  Only \<open>TargetRepositoryError\<close> skips a target; any other exception ends the pass.\<close>

definition claim_target ::
  "'r redis_api \<Rightarrow> pylib \<Rightarrow> OperationContract list \<Rightarrow> int \<Rightarrow> time \<Rightarrow> db \<Rightarrow> DueTarget \<Rightarrow> 'r \<Rightarrow> TargetDispatch option res \<times> 'r" where
  "claim_target api lib registry marker_ttl now d due r =
     (case bindR (target_revision d (due_target_id due)) (\<lambda>n. load_for_execution lib registry (due_target_id due) n d) of
        Inl (TargetRepositoryError _) \<Rightarrow> (Inr None, r)
      | Inl e \<Rightarrow> (Inl e, r)
      | Inr loaded \<Rightarrow>
          (if manual_only loaded then (Inr None, r)
           else
             let t = lt_target loaded; p = make_dispatch now due t;
                 (ok, r') = redis_set api r now (dispatch_key lib (disp_dispatch_id p)) (disp_dispatch_id p) True
                              (marker_lifetime marker_ttl t)
             in (Inr (if ok then Some p else None), r')))"

fun claim_targets ::
  "'r redis_api \<Rightarrow> pylib \<Rightarrow> OperationContract list \<Rightarrow> int \<Rightarrow> time \<Rightarrow> nat \<Rightarrow> db \<Rightarrow> DueTarget list \<Rightarrow> TargetDispatch list \<Rightarrow> 'r
     \<Rightarrow> TargetDispatch list res \<times> 'r" where
  "claim_targets api lib registry marker_ttl now limit d [] acc r = (Inr acc, r)"
| "claim_targets api lib registry marker_ttl now limit d (due # page) acc r =
     (if length acc \<ge> limit then (Inr acc, r)
      else case claim_target api lib registry marker_ttl now d due r of
        (Inl e, r') \<Rightarrow> (Inl e, r')
      | (Inr None, r') \<Rightarrow> claim_targets api lib registry marker_ttl now limit d page acc r'
      | (Inr (Some p), r') \<Rightarrow> claim_targets api lib registry marker_ttl now limit d page (acc @ [p]) r')"

definition due_page_key :: "DueTarget \<Rightarrow> time \<times> int \<times> uuid" where
  "due_page_key l = (due_effective_due_at l, due_priority l, due_target_id l)"

function claim_loop ::
  "'r redis_api \<Rightarrow> pylib \<Rightarrow> OperationContract list \<Rightarrow> int \<Rightarrow> time \<Rightarrow> nat \<Rightarrow> nat \<Rightarrow> db \<Rightarrow> nat \<Rightarrow> (time \<times> int \<times> uuid) option
     \<Rightarrow> TargetDispatch list \<Rightarrow> 'r \<Rightarrow> TargetDispatch list res \<times> 'r" where
  "claim_loop api lib registry marker_ttl now limit budget d scanned after acc r =
     (if length acc \<ge> limit \<or> scanned \<ge> budget then (Inr acc, r)
      else
        let page_limit = min 100 (budget - scanned); page = due_page now page_limit after d in
        if page = [] then (Inr acc, r)
        else case claim_targets api lib registry marker_ttl now limit d page acc r of
          (Inl e, r') \<Rightarrow> (Inl e, r')
        | (Inr acc', r') \<Rightarrow>
            (if length page < page_limit then (Inr acc', r')
             else claim_loop api lib registry marker_ttl now limit budget d (scanned + length page)
                    (Some (due_page_key (last page))) acc' r'))"
  by pat_completeness auto
termination
  by (relation "measure (\<lambda>(api, lib, registry, marker_ttl, now, limit, budget, d, scanned, after, acc, r). budget - scanned)")
     (simp_all add: diff_less_mono2)

declare claim_loop.simps [simp del]

definition claim_due ::
  "'r redis_api \<Rightarrow> pylib \<Rightarrow> OperationContract list \<Rightarrow> int \<Rightarrow> time \<Rightarrow> int \<Rightarrow> db \<Rightarrow> 'r \<Rightarrow> TargetDispatch list res \<times> 'r" where
  "claim_due api lib registry marker_ttl now limit d r =
     (if \<not> (1 \<le> limit \<and> limit \<le> 500) then (Inl (ValueError ''dispatch_budget_invalid''), r)
      else claim_loop api lib registry marker_ttl now (nat limit) (scan_budget (nat limit)) d 0 None [] r)"

definition release_dispatch :: "'r redis_api \<Rightarrow> pylib \<Rightarrow> TargetDispatch \<Rightarrow> time \<Rightarrow> 'r \<Rightarrow> 'r" where
  "release_dispatch api lib p now r = compare_delete api (dispatch_key lib (disp_dispatch_id p)) (disp_dispatch_id p) now r"

subsection \<open>Dispatch identities\<close>

text \<open>A UUID text contains no colon, so the fields of an identity can be read back.\<close>

lemma str_int_no_colon: "CHR '':'' \<notin> set (str_int n)"
  by (auto dest!: str_int_chars simp: is_digit_def less_eq_char_def)

lemma dispatch_identity_inject:
  assumes "CHR '':'' \<notin> set t" and "CHR '':'' \<notin> set t'"
    and "dispatch_identity t n slot mode = dispatch_identity t' n' slot' mode'"
  shows "t' = t \<and> n' = n \<and> slot' = slot \<and> mode' = mode"
proof -
  have one: "t = t' \<and> str_int n @ CHR '':'' # str_int slot @ CHR '':'' # mode
      = str_int n' @ CHR '':'' # str_int slot' @ CHR '':'' # mode'"
    using assms(3) unfolding dispatch_identity_def by (intro separator_unique [OF _ assms(1,2)]) simp
  then have two: "str_int n = str_int n' \<and> str_int slot @ CHR '':'' # mode = str_int slot' @ CHR '':'' # mode'"
    by (intro separator_unique [where c = "CHR '':''"]) (simp_all add: str_int_no_colon)
  then have "str_int slot = str_int slot' \<and> mode = mode'"
    by (intro separator_unique [where c = "CHR '':''"]) (simp_all add: str_int_no_colon)
  with one two show ?thesis by simp
qed

subsection \<open>The pass as one scan\<close>

lemma claim_targets_full: "length acc \<ge> limit \<Longrightarrow> claim_targets api lib registry m now limit d page acc r = (Inr acc, r)"
  by (cases page) simp_all

lemma claim_targets_append:
  "claim_targets api lib registry m now limit d (xs @ ys) acc r =
     (case claim_targets api lib registry m now limit d xs acc r of
        (Inl e, r') \<Rightarrow> (Inl e, r')
      | (Inr acc', r') \<Rightarrow> claim_targets api lib registry m now limit d ys acc' r')"
proof (induction xs arbitrary: acc r)
  case (Cons x xs)
  show ?case
  proof (cases "length acc \<ge> limit")
    case False
    then show ?thesis by (auto simp: Cons.IH split: prod.splits sum.splits option.splits)
  qed (simp add: claim_targets_full)
qed simp

lemma due_page_short:
  "length (due_page now n after d) < n \<Longrightarrow> due_page now (n + m) after d = due_page now n after d"
  unfolding due_page_rows by (simp add: min_def split: if_splits)

lemma due_page_length: "length (due_page now n after d) \<le> n"
  by (simp add: due_page_rows)

lemma claim_loop_scan:
  assumes "targets_inv d"
  shows "claim_loop api lib registry m now limit budget d scanned after acc r =
     claim_targets api lib registry m now limit d (due_page now (budget - scanned) after d) acc r"
proof (induction "budget - scanned" arbitrary: scanned after acc r rule: less_induct)
  case less
  let ?n = "min 100 (budget - scanned)"
  let ?page = "due_page now ?n after d"
  show ?case
  proof (cases "length acc \<ge> limit \<or> scanned \<ge> budget \<or> ?page = []")
    case True
    moreover have "due_page now (budget - scanned) after d = []" if "scanned < budget" "?page = []"
      using that by (auto simp: due_page_rows)
    moreover have "due_page now (budget - scanned) after d = []" if "scanned \<ge> budget"
      using that by (simp add: due_page_rows)
    ultimately show ?thesis
      by (subst claim_loop.simps) (auto simp: claim_targets_full Let_def)
  next
    case False
    then have pos: "scanned < budget" "?page \<noteq> []" by auto
    obtain m' where m': "budget - scanned = ?n + m'" by (metis le_add_diff_inverse min.cobounded2)
    show ?thesis
    proof (cases "length ?page < ?n")
      case True
      then have "due_page now (budget - scanned) after d = ?page" by (subst m') (rule due_page_short)
      with False True show ?thesis
        by (subst claim_loop.simps) (auto simp: Let_def split: prod.splits sum.splits)
    next
      case full: False
      then have len: "length ?page = ?n" using due_page_length [of now ?n after d] by (meson le_neq_implies_less)
      have step: "claim_loop api lib registry m now limit budget d (scanned + length ?page) (Some (due_page_key (last ?page))) acc' r'
        = claim_targets api lib registry m now limit d (due_page now m' (Some (due_page_key (last ?page))) d) acc' r'" for acc' r'
      proof -
        have "budget - (scanned + length ?page) = m'" unfolding len using m' by linarith
        moreover have "budget - (scanned + length ?page) < budget - scanned" using pos len by auto
        ultimately show ?thesis using less.hyps by simp
      qed
      have "due_page now (budget - scanned) after d = ?page @ due_page now m' (Some (due_page_key (last ?page))) d"
        using due_page_append [OF assms pos(2), of m'] unfolding due_page_key_def m' [symmetric] by (rule sym)
      with False full step show ?thesis
        by (subst claim_loop.simps)
           (auto simp: Let_def claim_targets_append split: prod.splits sum.splits)
    qed
  qed
qed

lemma claim_due_scan:
  assumes "targets_inv d" and "1 \<le> limit" and "limit \<le> 500"
  shows "claim_due api lib registry m now limit d r =
     claim_targets api lib registry m now (nat limit) d (due_page now (scan_budget (nat limit)) None d) [] r"
  using assms by (simp add: claim_due_def claim_loop_scan)

subsection \<open>Markers\<close>

lemma load_for_execution_Inr:
  assumes "load_for_execution lib registry i n d = Inr loaded"
  shows "get_target d i = Some (lt_target loaded) \<and> tgt_id (lt_target loaded) = i \<and> tgt_config_revision (lt_target loaded) = n
    \<and> eligible (lt_source loaded) (lt_account loaded) (lt_target loaded)"
  using assms
  by (auto simp: load_for_execution_def bindR_Inr_iff split: option.splits if_splits dest: get_id)

definition dispatch_ok :: "pylib \<Rightarrow> OperationContract list \<Rightarrow> db \<Rightarrow> TargetDispatch \<Rightarrow> bool" where
  "dispatch_ok lib registry d p =
     (disp_run_mode p = ''normal''
      \<and> disp_dispatch_id p = dispatch_identity (disp_target_id p) (disp_config_revision p) (disp_scheduled_slot p) (disp_run_mode p)
      \<and> \<not> isl (load_for_execution lib registry (disp_target_id p) (disp_config_revision p) d))"

abbreviation marker_key :: "pylib \<Rightarrow> TargetDispatch \<Rightarrow> string" where
  "marker_key lib p \<equiv> dispatch_key lib (disp_dispatch_id p)"

lemma claim_target_Some:
  assumes "claim_target api lib registry m now d due r = (Inr (Some p), r')"
  shows "dispatch_ok lib registry d p
    \<and> (\<exists>t. redis_set api r now (marker_key lib p) (disp_dispatch_id p) True (marker_lifetime m t) = (True, r'))"
proof -
  obtain loaded where l: "bindR (target_revision d (due_target_id due)) (\<lambda>n. load_for_execution lib registry (due_target_id due) n d) = Inr loaded"
    using assms by (auto simp: claim_target_def split: sum.splits exn.splits)
  then have ld: "load_for_execution lib registry (tgt_id (lt_target loaded)) (tgt_config_revision (lt_target loaded)) d = Inr loaded"
  proof -
    from l obtain n where "load_for_execution lib registry (due_target_id due) n d = Inr loaded" by (auto simp: bindR_Inr_iff)
    with load_for_execution_Inr [OF this] show ?thesis by simp
  qed
  have p: "p = make_dispatch now due (lt_target loaded)"
    "redis_set api r now (marker_key lib p) (disp_dispatch_id p) True (marker_lifetime m (lt_target loaded)) = (True, r')"
    using assms by (auto simp: claim_target_def l Let_def split: if_splits prod.splits)
  then have "dispatch_ok lib registry d p" using ld by (simp add: dispatch_ok_def make_dispatch_def)
  with p(2) show ?thesis by blast
qed

context redis_laws
begin

lemma claim_target_skips:
  assumes "claim_target api lib registry m now d due r = (x, r')" and "\<not> (\<exists>p. x = Inr (Some p))"
  shows "r' = r"
  using assms
  by (auto simp: claim_target_def Let_def split: sum.splits exn.splits if_splits prod.splits dest: set_nx)

lemma held_set_nx:
  assumes "redis_set api r t k v True ttl = (True, r')" and "1 \<le> ttl" and "held r t e k' v'" and "t < e"
  shows "held r' t e k' v' \<and> k' \<noteq> k"
proof -
  have "redis_get api r t k' = Some v'" using assms(3,4) by (simp add: held_def)
  then have "k' \<noteq> k" using set_nx [OF assms(1)] by auto
  with set_get [OF assms(1,2)] assms(3) show ?thesis by (auto simp: held_def)
qed

definition claims_good :: "pylib \<Rightarrow> OperationContract list \<Rightarrow> int \<Rightarrow> time \<Rightarrow> nat \<Rightarrow> db \<Rightarrow> TargetDispatch list \<Rightarrow> 'r \<Rightarrow> bool" where
  "claims_good lib registry m now limit d ps r \<longleftrightarrow>
     length ps \<le> limit \<and> distinct (map (marker_key lib) ps)
     \<and> (\<forall>p\<in>set ps. dispatch_ok lib registry d p \<and> held r now (now + us m) (marker_key lib p) (disp_dispatch_id p))"

lemma claim_targets_good:
  assumes "claim_targets api lib registry m now limit d page acc r = (Inr ps, r')" and "1 \<le> m"
    and "claims_good lib registry m now limit d acc r"
  shows "claims_good lib registry m now limit d ps r'
    \<and> (\<forall>k v e. now < e \<and> held r now e k v \<longrightarrow> held r' now e k v \<and> (\<forall>p\<in>set ps - set acc. marker_key lib p \<noteq> k))"
  using assms
proof (induction page arbitrary: acc r)
  case (Cons due page)
  show ?case
  proof (cases "length acc \<ge> limit")
    case True
    with Cons.prems show ?thesis by auto
  next
    case False
    obtain x r1 where x: "claim_target api lib registry m now d due r = (x, r1)" by (rule prod.exhaust)
    show ?thesis
    proof (cases "\<exists>p. x = Inr (Some p)")
      case True
      then obtain p where p: "x = Inr (Some p)" by blast
      obtain t where ok: "dispatch_ok lib registry d p"
        and s: "redis_set api r now (marker_key lib p) (disp_dispatch_id p) True (marker_lifetime m t) = (True, r1)"
        using claim_target_Some [OF x [unfolded p]] by blast
      have ttl: "1 \<le> marker_lifetime m t" "m \<le> marker_lifetime m t" using Cons.prems(2) by (auto simp: marker_lifetime_def)
      have "held r1 now (now + us m) (marker_key lib p) (disp_dispatch_id p)"
        using set_get [OF s ttl(1)] ttl(2) by (auto simp: held_def us_def)
      moreover have pos: "now < now + us m" using Cons.prems(2) by (simp add: us_def)
      note keep = held_set_nx [OF s ttl(1)]
      ultimately have good: "claims_good lib registry m now limit d (acc @ [p]) r1"
        using Cons.prems(3) ok False keep [OF _ pos] by (fastforce simp: claims_good_def)
      have rest: "claim_targets api lib registry m now limit d page (acc @ [p]) r1 = (Inr ps, r')"
        using Cons.prems(1) False by (simp add: x p)
      note ih = Cons.IH [OF rest Cons.prems(2) good]
      show ?thesis
      proof (intro conjI allI impI)
        show "claims_good lib registry m now limit d ps r'" using ih by blast
        fix k v e assume h: "now < e \<and> held r now e k v"
        then have h1: "held r1 now e k v \<and> k \<noteq> marker_key lib p" using keep by blast
        then have "held r' now e k v \<and> (\<forall>q\<in>set ps - set (acc @ [p]). marker_key lib q \<noteq> k)" using ih h by blast
        with h1 show "held r' now e k v" and "\<forall>q\<in>set ps - set acc. marker_key lib q \<noteq> k" by auto
      qed
    next
      case no: False
      then have r1: "r1 = r" using claim_target_skips [OF x] by blast
      then have "claim_targets api lib registry m now limit d page acc r = (Inr ps, r')"
        using Cons.prems(1) False no x by (auto split: sum.splits option.splits)
      then show ?thesis using Cons.IH Cons.prems(2,3) by blast
    qed
  qed
qed auto

lemma claim_targets_good_nil:
  assumes "claim_targets api lib registry m now limit d page [] r = (Inr ps, r')" and "1 \<le> m"
  shows "claims_good lib registry m now limit d ps r'
    \<and> (\<forall>k v e. now < e \<and> held r now e k v \<longrightarrow> (\<forall>p\<in>set ps. marker_key lib p \<noteq> k))"
proof -
  have "claims_good lib registry m now limit d [] r" by (simp add: claims_good_def)
  from claim_targets_good [OF assms this] show ?thesis by auto
qed

end

subsection \<open>Properties\<close>

text \<open>Property C24.  The paged loop of a scheduler pass is one scan over the due targets in due order, cut off after
  the scan budget: paging skips and repeats nothing, and stops exactly when the limit is reached.\<close>

theorem claim_due_is_one_scan:
  assumes "targets_inv d" and "1 \<le> limit" and "limit \<le> 500"
  shows "claim_due api lib registry marker_ttl now limit d r =
     claim_targets api lib registry marker_ttl now (nat limit) d (due_page now (scan_budget (nat limit)) None d) [] r"
  by (rule claim_due_scan [OF assms])

text \<open>Property C23.  A pass claims at most its limit, every claimed dispatch carries the identity its worker will
  check and can be loaded at its revision, and a claimed dispatch is claimed once: the markers within a pass are
  distinct, and a later pass that starts while the markers live claims none of them again.\<close>

theorem claims_are_exclusive:
  assumes "redis_laws api" and "1 \<le> marker_ttl" and "targets_inv d" and "targets_inv d2"
    and "claim_due api lib registry marker_ttl now limit d r = (Inr ps, r')"
    and "now \<le> now2" and "now2 < now + us marker_ttl"
    and "claim_due api lib registry marker_ttl now2 limit2 d2 r' = (Inr ps2, r2)"
  shows "int (length ps) \<le> limit \<and> distinct (map (marker_key lib) ps) \<and> list_all (dispatch_ok lib registry d) ps
    \<and> set (map (marker_key lib) ps) \<inter> set (map (marker_key lib) ps2) = {}"
proof -
  have lim: "1 \<le> limit" "limit \<le> 500" "1 \<le> limit2" "limit2 \<le> 500"
    using assms(5,8) by (auto simp: claim_due_def split: if_splits)
  have one: "claim_targets api lib registry marker_ttl now (nat limit) d (due_page now (scan_budget (nat limit)) None d) [] r = (Inr ps, r')"
    using assms(5) by (simp add: claim_due_scan [OF assms(3) lim(1,2)])
  have two: "claim_targets api lib registry marker_ttl now2 (nat limit2) d2 (due_page now2 (scan_budget (nat limit2)) None d2) [] r' = (Inr ps2, r2)"
    using assms(8) by (simp add: claim_due_scan [OF assms(4) lim(3,4)])
  note good = redis_laws.claim_targets_good_nil [OF assms(1) one assms(2), unfolded redis_laws.claims_good_def [OF assms(1)]]
  have "\<forall>p\<in>set ps. redis_laws.held api r' now2 (now + us marker_ttl) (marker_key lib p) (disp_dispatch_id p)"
    using good redis_laws.held_later [OF assms(1) _ assms(6)] by blast
  then have "\<forall>p\<in>set ps. \<forall>q\<in>set ps2. marker_key lib q \<noteq> marker_key lib p"
    using redis_laws.claim_targets_good_nil [OF assms(1) two assms(2)] assms(7) by blast
  then have "set (map (marker_key lib) ps) \<inter> set (map (marker_key lib) ps2) = {}" by (simp add: disjoint_iff) blast
  moreover have "int (length ps) \<le> limit" using good lim by linarith
  ultimately show ?thesis using good by (simp add: list_all_iff)
qed

text \<open>Only repository errors skip a target.  Any other exception while a target is reloaded, such as an
  unknown operation contract or an invalid configuration, ends the whole pass: nothing is dispatched, although the
  markers of the targets claimed before it stay in Redis.\<close>

theorem config_error_ends_pass:
  assumes "targets_inv d" and "1 \<le> limit" and "limit \<le> 500"
    and "due_page now (scan_budget (nat limit)) None d = before @ due # rest"
    and "claim_targets api lib registry marker_ttl now (nat limit) d before [] r = (Inr acc, r1)" and "length acc < nat limit"
    and "load_for_execution lib registry (due_target_id due) (tgt_config_revision t) d = Inl e"
    and "get_target d (due_target_id due) = Some t" and "\<nexists>m. e = TargetRepositoryError m"
  shows "claim_due api lib registry marker_ttl now limit d r = (Inl e, r1)"
proof -
  have "claim_target api lib registry marker_ttl now d due r1 = (Inl e, r1)"
    using assms(7,8,9) by (auto simp: claim_target_def target_revision_def split: exn.splits)
  then show ?thesis
    using assms(5,6) by (simp add: claim_due_scan [OF assms(1-3)] assms(4) claim_targets_append)
qed

subsection \<open>Closed instances\<close>

abbreviation sample_pass :: "time \<Rightarrow> db \<Rightarrow> (string \<rightharpoonup> string \<times> time) \<Rightarrow> TargetDispatch list res \<times> (string \<rightharpoonup> string \<times> time)" where
  "sample_pass now d r \<equiv> claim_due store_api sample_lib operation_registry 1800 now 10 d r"

theorem claim_due_is_one_scan_witness:
  "claim_due store_api sample_lib operation_registry 1800 9 10 sample_db Map.empty =
     claim_targets store_api sample_lib operation_registry 1800 9 10 sample_db (due_page 9 (scan_budget 10) None sample_db) [] Map.empty
   \<and> map due_target_id (due_page 9 100 None sample_db) = [''t1'']"
  using claim_due_is_one_scan [OF sample_targets_inv, of 10 store_api sample_lib operation_registry 1800 9 Map.empty]
  by (simp add: due_page_def is_due_def due_after_def sample_db_def sample_target_def effective_due_def due_target_def)

abbreviation sample_first :: TargetDispatch where
  "sample_first \<equiv> \<lparr>disp_target_id = ''t1'', disp_config_revision = 1, disp_scheduled_slot = 0,
     disp_run_mode = ''normal'', disp_dispatch_id = ''t1:1:0:normal''\<rparr>"

lemma sample_passes:
  "fst (sample_pass 9 sample_db Map.empty) = Inr [sample_first]"
  "fst (sample_pass 10 sample_db (snd (sample_pass 9 sample_db Map.empty))) = Inr []"
  by code_simp+

theorem claims_are_exclusive_witness:
  "fst (sample_pass 9 sample_db Map.empty) = Inr [sample_first]
   \<and> fst (sample_pass 10 sample_db (snd (sample_pass 9 sample_db Map.empty))) = Inr []
   \<and> list_all (dispatch_ok sample_lib operation_registry sample_db) [sample_first]"
proof -
  obtain r1 where one: "sample_pass 9 sample_db Map.empty = (Inr [sample_first], r1)"
    using sample_passes(1) by (metis prod.collapse)
  obtain r2 where two: "sample_pass 10 sample_db r1 = (Inr [], r2)"
    using sample_passes(2) unfolding one snd_conv by (metis prod.collapse)
  from claims_are_exclusive [OF store.redis_laws_axioms _ sample_targets_inv sample_targets_inv one _ _ two]
  have "list_all (dispatch_ok sample_lib operation_registry sample_db) [sample_first]" by (simp add: us_def)
  with sample_passes show ?thesis by blast
qed

definition sample_broken_db :: db where
  "sample_broken_db = sample_db\<lparr>collection_targets :=
     [sample_target, sample_target\<lparr>tgt_id := ''t2'', tgt_priority := 200, tgt_operation_config_version := 9\<rparr>]\<rparr>"

theorem config_error_ends_pass_witness:
  "fst (sample_pass 9 sample_broken_db Map.empty) = Inl (TargetConfigError ''operation_contract_unknown'')
   \<and> redis_get store_api (snd (sample_pass 9 sample_broken_db Map.empty)) 9 (dispatch_key sample_lib ''t1:1:0:normal'') = Some ''t1:1:0:normal''"
proof -
  let ?d = sample_broken_db
  have inv: "targets_inv ?d" by code_simp
  have page: "due_page 9 (scan_budget (nat 10)) None ?d =
     [\<lparr>due_target_id = ''t1'', due_effective_due_at = 0, due_priority = 100, due_retry_due = False\<rparr>]
     @ \<lparr>due_target_id = ''t2'', due_effective_due_at = 0, due_priority = 200, due_retry_due = False\<rparr> # []" by code_simp
  obtain r1 where before: "claim_targets store_api sample_lib operation_registry 1800 9 (nat 10) ?d
      [\<lparr>due_target_id = ''t1'', due_effective_due_at = 0, due_priority = 100, due_retry_due = False\<rparr>] [] Map.empty = (Inr [sample_first], r1)"
    and marker: "redis_get store_api r1 9 (dispatch_key sample_lib ''t1:1:0:normal'') = Some ''t1:1:0:normal''"
  proof -
    let ?c = "claim_targets store_api sample_lib operation_registry 1800 9 (nat 10) ?d
      [\<lparr>due_target_id = ''t1'', due_effective_due_at = 0, due_priority = 100, due_retry_due = False\<rparr>] [] Map.empty"
    have "fst ?c = Inr [sample_first]"
      "redis_get store_api (snd ?c) 9 (dispatch_key sample_lib ''t1:1:0:normal'') = Some ''t1:1:0:normal''" by code_simp+
    then show ?thesis using that by (cases ?c) simp
  qed
  have bad: "load_for_execution sample_lib operation_registry ''t2'' 1 ?d = Inl (TargetConfigError ''operation_contract_unknown'')"
  proof -
    have "map_sum id (\<lambda>_. ()) (load_for_execution sample_lib operation_registry ''t2'' 1 ?d) = Inl (TargetConfigError ''operation_contract_unknown'')"
      by code_simp
    then show ?thesis by (cases "load_for_execution sample_lib operation_registry ''t2'' 1 ?d") simp_all
  qed
  have t: "get_target ?d ''t2'' = Some (sample_target\<lparr>tgt_id := ''t2'', tgt_priority := 200, tgt_operation_config_version := 9\<rparr>)"
    by (simp add: get_target_def sample_broken_db_def sample_target_def)
  have "sample_pass 9 ?d Map.empty = (Inl (TargetConfigError ''operation_contract_unknown''), r1)"
    by (rule config_error_ends_pass [OF inv _ _ page before, of "sample_target\<lparr>tgt_id := ''t2'', tgt_priority := 200, tgt_operation_config_version := 9\<rparr>"])
       (simp_all add: t, simp add: bad sample_target_def)
  with marker show ?thesis by simp
qed

end
