(* ===== verification/Control_Plane.thy ===== *)
theory Control_Plane
  imports Target_Scheduler
begin

text \<open>
  The worker of \<open>collection/control_plane.py\<close>: \<open>execute\<close> with its page loop.  A worker acts on a \<open>world\<close>, the
  database, the Redis server and the clock.  Before each of its actions (a transaction, a Redis command, a reading
  of the clock, a provider call) other processes may act and time may pass: \<open>rt_env\<close> is what they do, an argument
  of the model like the network behind \<open>rt_fetch\<close>.  An action either returns a value or raises, and the world
  keeps what was done before the exception.

  \<open>rt_fetch\<close> stands for \<open>adapter.fetch(..)\<close>: what the adapter answers and when, if ever.  \<open>rt_lost\<close> is the instant at which
  the renewal task (\<open>Redis_Locks.renew_lock\<close>) signals the loss of the lock, if it does.  \<open>fetch_with_lock\<close> is their race
  against the deadline.
\<close>

record 'r world =
  w_db :: db
  w_redis :: 'r
  w_now :: time
  w_tick :: nat

datatype adapter_answer =
    Answer ProviderFetchResult
  | AnswerTimeout
  | AnswerRaised exn

datatype fetch_outcome =
    Fetched ProviderFetchResult
  | FetchLockLost
  | FetchTimeout
  | FetchRaised exn

record 'r runtime =
  rt_lib :: pylib
  rt_api :: "'r redis_api"
  rt_registry :: "OperationContract list"
  rt_guard :: "db \<Rightarrow> db \<Rightarrow> bool"
  rt_environ :: "string \<rightharpoonup> string"
  rt_ids :: idgen
  rt_gen :: "db \<Rightarrow> uuid"
  rt_owner :: "nat \<Rightarrow> string"
  rt_fetch :: "adapter_kind \<Rightarrow> RuntimeCredential \<Rightarrow> ProviderFetchRequest \<Rightarrow> int \<Rightarrow> 'r world \<Rightarrow> adapter_answer \<times> time option"
  rt_lost :: "nat \<Rightarrow> time option"
  rt_env :: "nat \<Rightarrow> 'r world \<Rightarrow> 'r world"

type_synonym ('r, 'a) act = "'r world \<Rightarrow> 'a res \<times> 'r world"

subsection \<open>Actions\<close>

definition ret :: "'a \<Rightarrow> ('r, 'a) act" where
  "ret x w = (Inr x, w)"

definition lift :: "'a res \<Rightarrow> ('r, 'a) act" where
  "lift x w = (x, w)"

definition bindA :: "('r, 'a) act \<Rightarrow> ('a \<Rightarrow> ('r, 'b) act) \<Rightarrow> ('r, 'b) act" where
  "bindA m f w = (case m w of (Inl e, w') \<Rightarrow> (Inl e, w') | (Inr x, w') \<Rightarrow> f x w')"

text \<open>The world an action finds: other processes acted first.\<close>

definition observe :: "'r runtime \<Rightarrow> 'r world \<Rightarrow> 'r world" where
  "observe rt w = (rt_env rt (w_tick w) w)\<lparr>w_tick := Suc (w_tick w)\<rparr>"

definition tx :: "'r runtime \<Rightarrow> (time \<Rightarrow> db \<Rightarrow> ('a \<times> db) res) \<Rightarrow> ('r, 'a) act" where
  "tx rt f w =
     (let w1 = observe rt w in
      case f (w_now w1) (w_db w1) of Inl e \<Rightarrow> (Inl e, w1) | Inr (x, d) \<Rightarrow> (Inr x, w1\<lparr>w_db := d\<rparr>))"

abbreviation unit_tx :: "(time \<Rightarrow> db \<Rightarrow> db res) \<Rightarrow> time \<Rightarrow> db \<Rightarrow> (unit \<times> db) res" where
  "unit_tx f \<equiv> (\<lambda>now d. bindR (f now d) (\<lambda>d'. Inr ((), d')))"

definition query :: "'r runtime \<Rightarrow> (db \<Rightarrow> 'a res) \<Rightarrow> ('r, 'a) act" where
  "query rt f w = (let w1 = observe rt w in (f (w_db w1), w1))"

definition redis :: "'r runtime \<Rightarrow> (time \<Rightarrow> 'r \<Rightarrow> 'a \<times> 'r) \<Rightarrow> ('r, 'a) act" where
  "redis rt f w = (let w1 = observe rt w; (x, r) = f (w_now w1) (w_redis w1) in (Inr x, w1\<lparr>w_redis := r\<rparr>))"

definition clock :: "'r runtime \<Rightarrow> ('r, time) act" where
  "clock rt w = (let w1 = observe rt w in (Inr (w_now w1), w1))"

text \<open>\<open>asyncio.wait(.., FIRST_COMPLETED)\<close> under \<open>asyncio.timeout\<close>: a lost lock wins over an answer of the same instant, except
  that awaiting the finished fetch raises its exception; whatever comes at the deadline or later is a timeout.\<close>

definition first_completed :: "adapter_answer \<Rightarrow> time option \<Rightarrow> time option \<Rightarrow> time \<Rightarrow> fetch_outcome" where
  "first_completed answer finished lost deadline =
     (let answered = (case answer of Answer result \<Rightarrow> Fetched result | AnswerTimeout \<Rightarrow> FetchTimeout | AnswerRaised e \<Rightarrow> FetchRaised e);
          in_time = (\<lambda>x. case x of None \<Rightarrow> False | Some t \<Rightarrow> t < deadline);
          lost_first = (in_time lost \<and> (case finished of None \<Rightarrow> True | Some t \<Rightarrow> the lost \<le> t)) in
      if lost_first
      then (case answer of Answer _ \<Rightarrow> FetchLockLost | _ \<Rightarrow> (if finished = lost then answered else FetchLockLost))
      else if in_time finished then answered else FetchTimeout)"

definition fetch_with_lock ::
  "'r runtime \<Rightarrow> adapter_kind \<Rightarrow> RuntimeCredential \<Rightarrow> ProviderFetchRequest \<Rightarrow> int \<Rightarrow> ('r, fetch_outcome) act" where
  "fetch_with_lock rt adapter cred request timeout w =
     (let w1 = observe rt w; (answer, finished) = rt_fetch rt adapter cred request timeout w1 in
      (Inr (first_completed answer finished (rt_lost rt (w_tick w1)) (w_now w1 + seconds timeout)), w1))"

definition load :: "'r runtime \<Rightarrow> TargetDispatch \<Rightarrow> ('r, LoadedTarget) act" where
  "load rt p = query rt (load_for_execution (rt_lib rt) (rt_registry rt) (disp_target_id p) (disp_config_revision p))"

definition get_lock :: "'r runtime \<Rightarrow> string \<Rightarrow> ('r, string option) act" where
  "get_lock rt key = redis rt (\<lambda>now r. (redis_get (rt_api rt) r now key, r))"

definition rate_limit_key :: "LoadedTarget \<Rightarrow> string" where
  "rate_limit_key loaded = ''r1:rate-limit:'' @ tgt_rate_limit_group (lt_target loaded)"

subsection \<open>Outcomes\<close>

definition outcome :: "TargetDispatch \<Rightarrow> string \<Rightarrow> uuid option \<Rightarrow> string option \<Rightarrow> TargetRunOutcome" where
  "outcome p status i err =
     \<lparr>out_target_id = disp_target_id p, out_status = status, out_run_id = i, out_safe_error = err\<rparr>"

definition end_lock_lost :: "'r runtime \<Rightarrow> TargetDispatch \<Rightarrow> LoadedTarget \<Rightarrow> uuid \<Rightarrow> ('r, TargetRunOutcome) act" where
  "end_lock_lost rt p loaded i =
     bindA (tx rt (unit_tx (\<lambda>now. finish_lock_lost (rt_guard rt) now loaded p i))) (\<lambda>_.
       ret (outcome p ''retry'' (Some i) (Some ''target_lock_lost'')))"

definition end_error ::
  "'r runtime \<Rightarrow> TargetDispatch \<Rightarrow> LoadedTarget \<Rightarrow> uuid \<Rightarrow> string \<Rightarrow> bool \<Rightarrow> rat option \<Rightarrow> ('r, TargetRunOutcome) act" where
  "end_error rt p loaded i code retryable after =
     bindA (tx rt (\<lambda>now. finish_error (rt_guard rt) now loaded p i code retryable after)) (\<lambda>retry.
       ret (outcome p (if retry then ''retry'' else ''failed'') (Some i) (Some code)))"

text \<open>The first safe error of a result: a rate limit puts the whole group on cooldown.\<close>

definition end_provider_error ::
  "'r runtime \<Rightarrow> TargetDispatch \<Rightarrow> LoadedTarget \<Rightarrow> uuid \<Rightarrow> ProviderAdapterError \<Rightarrow> ('r, TargetRunOutcome) act" where
  "end_provider_error rt p loaded i err =
     bindA (if pae_code err = RATE_LIMITED
            then redis rt (\<lambda>now r. ((), snd (redis_set (rt_api rt) r now (rate_limit_key loaded) ''cooldown'' False
                                               (retry_delay (pae_retry_after_seconds err)))))
            else ret ()) (\<lambda>_.
       end_error rt p loaded i (pae_safe_message err) (pae_retryable err) (pae_retry_after_seconds err))"

definition persist_tx ::
  "'r runtime \<Rightarrow> TargetDispatch \<Rightarrow> CollectionRunMode \<Rightarrow> LoadedTarget \<Rightarrow> uuid \<Rightarrow> CollectionCursor option \<Rightarrow> ProviderFetchResult
     \<Rightarrow> persist_mode \<Rightarrow> ('r, unit) act" where
  "persist_tx rt p mode loaded i cursor result m =
     tx rt (unit_tx (\<lambda>now. persist_result (rt_lib rt) (rt_guard rt) (rt_ids rt) (rt_gen rt) now loaded p i cursor result mode m))"

subsection \<open>One fetch\<close>

definition without_items :: "ProviderFetchResult \<Rightarrow> ProviderFetchResult" where
  "without_items result =
     result\<lparr>pres_raw_items := [], pres_sanitized_metadata := [], pres_display_projections := [],
            pres_next_cursor := None, pres_has_more := False\<rparr>"

definition finish_single ::
  "'r runtime \<Rightarrow> TargetDispatch \<Rightarrow> CollectionRunMode \<Rightarrow> LoadedTarget \<Rightarrow> uuid \<Rightarrow> CollectionCursor option \<Rightarrow> ProviderFetchResult
     \<Rightarrow> ('r, TargetRunOutcome) act" where
  "finish_single rt p mode loaded i cursor result =
     (case decide_cursor (rt_lib rt) (strategy_value (tgt_cursor_strategy (lt_target loaded)))
             (case cursor of None \<Rightarrow> None | Some c \<Rightarrow> cur_cursor_value c) (pres_next_cursor result) of
        Inl e \<Rightarrow>
          bindA (tx rt (\<lambda>now. finish_error (rt_guard rt) now loaded p i ''cursor_contract_invalid'' False None)) (\<lambda>_.
            ret (outcome p ''failed'' (Some i) (Some ''cursor_contract_invalid'')))
      | Inr decision \<Rightarrow>
          bindA (if action decision = ''no_new_items'' then lift (new_fetch_result (without_items result)) else ret result) (\<lambda>result.
          bindA (persist_tx rt p mode loaded i cursor result
                   \<lparr>pm_page_mode = False, pm_final = True, pm_observation_key = ''run''\<rparr>) (\<lambda>_.
            ret (outcome p
              (if pres_has_more result then ''partial''
               else if action decision = ''no_new_items'' then ''no_new_items'' else ''succeeded'')
              (Some i) (if pres_has_more result then Some ''coverage_incomplete'' else None)))))"

definition single_fetch ::
  "'r runtime \<Rightarrow> TargetDispatch \<Rightarrow> CollectionRunMode \<Rightarrow> LoadedTarget \<Rightarrow> uuid \<Rightarrow> CollectionCursor option \<Rightarrow> string \<Rightarrow> string
     \<Rightarrow> fetch_outcome \<Rightarrow> ('r, TargetRunOutcome) act" where
  "single_fetch rt p mode loaded i cursor key owner fetched =
     (case fetched of
        FetchLockLost \<Rightarrow> end_lock_lost rt p loaded i
      | FetchTimeout \<Rightarrow> end_error rt p loaded i ''provider_runtime_deadline_exceeded'' True None
      | FetchRaised e \<Rightarrow> lift (Inl e)
      | Fetched result \<Rightarrow>
          (case pres_safe_errors result of
             err # _ \<Rightarrow> end_provider_error rt p loaded i err
           | [] \<Rightarrow>
               bindA (get_lock rt key) (\<lambda>holder.
                 if holder \<noteq> Some owner then end_lock_lost rt p loaded i
                 else finish_single rt p mode loaded i cursor result)))"

subsection \<open>The page loop\<close>

text \<open>The cursor is read again by target, type and mode only.\<close>

definition find_cursor_any_version :: "TargetDispatch \<Rightarrow> LoadedTarget \<Rightarrow> CollectionRunMode \<Rightarrow> db \<Rightarrow> CollectionCursor option res" where
  "find_cursor_any_version p loaded mode d =
     Inr (List.find (\<lambda>c. cur_target_id c = Some (disp_target_id p) \<and> cur_cursor_type c = tgt_operation_key (lt_target loaded)
                         \<and> cur_run_mode c = mode) (collection_cursors d))"

definition page_check ::
  "'r runtime \<Rightarrow> LoadedTarget \<Rightarrow> CollectionRunMode \<Rightarrow> ProviderFetchRequest \<Rightarrow> ProviderFetchResult \<Rightarrow> unit res" where
  "page_check rt loaded mode request result =
     (let k = (if pres_continuation result = Some [] then None else pres_continuation result) in
      if pres_has_more result
         \<and> (case k of None \<Rightarrow> True
            | Some kd \<Rightarrow> (case pfr_continuation request of None \<Rightarrow> False | Some q \<Rightarrow> py_eq (JObj kd) (JObj q)))
      then value_error ''provider_continuation_invalid''
      else case k of
        None \<Rightarrow> Inr ()
      | Some kd \<Rightarrow>
          bindR (decode_continuation (rt_lib rt) kd (src_access_method (lt_source loaded)) (tgt_operation_key (lt_target loaded))
                   (pfr_config request) (lineage loaded mode)) (\<lambda>_. Inr ()))"

definition page_key :: "pylib \<Rightarrow> ProviderFetchRequest \<Rightarrow> string" where
  "page_key lib request =
     sha256_hex lib (plain_dumps lib (JObj (case pfr_continuation request of None \<Rightarrow> [] | Some k \<Rightarrow> k)))"

fun execute_pages ::
  "'r runtime \<Rightarrow> TargetDispatch \<Rightarrow> CollectionRunMode \<Rightarrow> LoadedTarget \<Rightarrow> RuntimeCredential \<Rightarrow> adapter_kind \<Rightarrow> uuid \<Rightarrow> string \<Rightarrow> string
     \<Rightarrow> nat \<Rightarrow> CollectionCursor option \<Rightarrow> ProviderFetchRequest \<Rightarrow> ('r, TargetRunOutcome) act" where
  "execute_pages rt p mode loaded cred adapter i key owner 0 cursor request = lift (value_error ''operation_budget_invalid'')"
| "execute_pages rt p mode loaded cred adapter i key owner (Suc n) cursor request =
     bindA (load rt p) (\<lambda>_.
     bindA (tx rt (\<lambda>now. claim_page (rt_guard rt) now loaded p i)) (\<lambda>claimed.
     case claimed of
       None \<Rightarrow> ret (outcome p ''partial'' (Some i) (Some ''coverage_incomplete''))
     | Some run_deadline \<Rightarrow>
         bindA (clock rt) (\<lambda>now.
         let remaining = min (pfr_deadline_at request) run_deadline - now in
         if remaining \<le> 0
         then bindA (tx rt (\<lambda>now. finish_error (rt_guard rt) now loaded p i ''provider_runtime_deadline_exceeded'' False None)) (\<lambda>_.
                ret (outcome p ''failed'' (Some i) (Some ''provider_runtime_deadline_exceeded'')))
         else
           bindA (fetch_with_lock rt adapter cred request (max 1 (remaining div 1000000))) (\<lambda>fetched.
           case fetched of
             FetchLockLost \<Rightarrow> end_lock_lost rt p loaded i
           | FetchTimeout \<Rightarrow>
               bindA (tx rt (\<lambda>now. finish_error (rt_guard rt) now loaded p i ''provider_runtime_deadline_exceeded'' False None)) (\<lambda>_.
                 ret (outcome p ''failed'' (Some i) (Some ''provider_runtime_deadline_exceeded'')))
           | FetchRaised e \<Rightarrow> lift (Inl e)
           | Fetched result \<Rightarrow>
               (case pres_safe_errors result of
                  err # _ \<Rightarrow> end_provider_error rt p loaded i err
                | [] \<Rightarrow>
                    if pres_contract_version result \<noteq> tgt_provider_contract_version (lt_target loaded)
                       \<or> pres_provider result \<noteq> src_access_method (lt_source loaded)
                    then lift (value_error ''provider_contract_mismatch'')
                    else
                      bindA (get_lock rt key) (\<lambda>holder.
                      if holder \<noteq> Some owner then lift (Inl (TargetLockLost ''target_lock_lost''))
                      else
                        bindA (lift (page_check rt loaded mode request result)) (\<lambda>_.
                        let final = (pres_coverage_incomplete result \<or> \<not> pres_has_more result \<or> n = 0) in
                        bindA (persist_tx rt p mode loaded i cursor result
                                 \<lparr>pm_page_mode = True, pm_final = final, pm_observation_key = page_key (rt_lib rt) request\<rparr>) (\<lambda>_.
                        if final
                        then ret (outcome p (if incomplete result then ''partial'' else ''succeeded'') (Some i)
                                    (if incomplete result then Some ''coverage_incomplete'' else None))
                        else
                          bindA (query rt (find_cursor_any_version p loaded mode)) (\<lambda>cursor.
                          bindA (lift (new_fetch_request (request\<lparr>pfr_cursor := pres_next_cursor result,
                                                                 pfr_continuation := pres_continuation result\<rparr>))) (\<lambda>request.
                            execute_pages rt p mode loaded cred adapter i key owner n cursor request))))))))))"

subsection \<open>The handler\<close>

definition fetch_request ::
  "TargetDispatch \<Rightarrow> CollectionRunMode \<Rightarrow> LoadedTarget \<Rightarrow> CollectionCursor option \<Rightarrow> dict \<Rightarrow> dict option \<Rightarrow> time \<Rightarrow> ProviderFetchRequest" where
  "fetch_request p mode loaded cursor config continuation now =
     (let t = lt_target loaded in
      \<lparr>pfr_source_id = tgt_source_id t, pfr_source_account_id = tgt_source_account_id t,
       pfr_cursor = (case cursor of None \<Rightarrow> None | Some c \<Rightarrow> cur_cursor_value c), pfr_config = config,
       pfr_limit = tgt_batch_limit t, pfr_deadline_at = now + seconds (tgt_max_runtime_seconds t),
       pfr_correlation_id = disp_dispatch_id p, pfr_max_response_bytes = tgt_max_response_bytes t,
       pfr_request_timeout_seconds = of_int (tgt_request_timeout_seconds t), pfr_continuation = continuation,
       pfr_target_id = Some (tgt_id t), pfr_config_revision = Some (tgt_config_revision t),
       pfr_operation_config_version = Some (tgt_operation_config_version t),
       pfr_provider_contract_version = Some (tgt_provider_contract_version t),
       pfr_cursor_version = Some (tgt_cursor_version t), pfr_run_mode = Some (run_mode_value mode)\<rparr>)"

definition bounded :: "LoadedTarget \<Rightarrow> bool" where
  "bounded loaded = (oc_pagination_capability (lt_contract loaded) = ''bounded_window_v1'')"

definition run_config ::
  "'r runtime \<Rightarrow> CollectionRunMode \<Rightarrow> LoadedTarget \<Rightarrow> uuid \<Rightarrow> CollectionCursor option \<Rightarrow> ('r, dict \<times> dict option) act" where
  "run_config rt mode loaded i cursor =
     (if bounded loaded
      then bindA (tx rt (\<lambda>now. resolved_run_config (rt_lib rt) (rt_guard rt) (rt_gen rt) now i loaded cursor mode))
             (\<lambda>(config, k). ret (config, Some k))
      else ret (lt_config loaded, case cursor of None \<Rightarrow> None | Some c \<Rightarrow> cur_continuation c))"

definition collect ::
  "'r runtime \<Rightarrow> TargetDispatch \<Rightarrow> CollectionRunMode \<Rightarrow> LoadedTarget \<Rightarrow> RuntimeCredential \<Rightarrow> uuid \<Rightarrow> CollectionCursor option \<Rightarrow> string
     \<Rightarrow> string \<Rightarrow> ('r, TargetRunOutcome) act" where
  "collect rt p mode loaded cred i cursor key owner =
     bindA (run_config rt mode loaded i cursor) (\<lambda>(config, continuation).
     bindA (lift (adapter_build (src_access_method (lt_source loaded)) (tgt_operation_key (lt_target loaded))
                    (tgt_provider_contract_version (lt_target loaded)))) (\<lambda>adapter.
     bindA (clock rt) (\<lambda>now.
     bindA (lift (new_fetch_request (fetch_request p mode loaded cursor config continuation now))) (\<lambda>request.
     if bounded loaded
     then execute_pages rt p mode loaded cred adapter i key owner
            (nat (min (tgt_max_pages_per_run (lt_target loaded)) (tgt_max_requests_per_run (lt_target loaded)))) cursor request
     else
       bindA (fetch_with_lock rt adapter cred request (tgt_max_runtime_seconds (lt_target loaded))) (\<lambda>fetched.
         single_fetch rt p mode loaded i cursor key owner fetched)))))"

text \<open>Everything before the run exists: an outcome that ends the dispatch, or what the collection needs.\<close>

definition prepare ::
  "'r runtime \<Rightarrow> TargetDispatch \<Rightarrow> CollectionRunMode
     \<Rightarrow> ('r, TargetRunOutcome + (LoadedTarget \<times> RuntimeCredential \<times> uuid \<times> CollectionCursor option)) act" where
  "prepare rt p mode =
     bindA (load rt p) (\<lambda>loaded.
     case resolve_runtime_credential (src_access_method (lt_source loaded)) (rt_environ rt) of
       Inl (CredentialResolutionError m) \<Rightarrow>
         bindA (tx rt (unit_tx (\<lambda>now. mark_credential_missing (rt_guard rt) now loaded))) (\<lambda>_.
           ret (Inl (outcome p ''blocked'' None (Some m))))
     | Inl e \<Rightarrow> lift (Inl e)
     | Inr cred \<Rightarrow>
         bindA (load rt p) (\<lambda>loaded.
         bindA (tx rt (\<lambda>now. start_run (rt_guard rt) (rt_gen rt) now loaded p mode)) (\<lambda>(i, cursor).
           ret (Inr (loaded, cred, i, cursor)))))"

definition is_TargetLockLost :: "exn \<Rightarrow> bool" where
  "is_TargetLockLost e = (case e of TargetLockLost _ \<Rightarrow> True | _ \<Rightarrow> False)"
definition is_SQLAlchemyError :: "exn \<Rightarrow> bool" where
  "is_SQLAlchemyError e = (case e of SQLAlchemyError _ \<Rightarrow> True | _ \<Rightarrow> False)"

text \<open>The exception handlers, before and after the run exists.\<close>

definition handle_before :: "TargetDispatch \<Rightarrow> exn \<Rightarrow> ('r, TargetRunOutcome) act" where
  "handle_before p e =
     (if is_TargetLockLost e then ret (outcome p ''retry'' None (Some ''target_lock_lost''))
      else if is_SQLAlchemyError e then ret (outcome p ''failed'' None (Some ''collection_database_failed''))
      else if is_ValueError e \<or> is_RuntimeError e
      then ret (outcome p ''failed'' None (Some ''collection_control_plane_failed''))
      else lift (Inl e))"

definition handle_after :: "'r runtime \<Rightarrow> TargetDispatch \<Rightarrow> LoadedTarget \<Rightarrow> uuid \<Rightarrow> exn \<Rightarrow> ('r, TargetRunOutcome) act" where
  "handle_after rt p loaded i e =
     (if is_TargetLockLost e then end_lock_lost rt p loaded i
      else if is_SQLAlchemyError e then end_error rt p loaded i ''collection_database_failed'' True None
      else if is_ValueError e \<or> is_RuntimeError e
      then bindA (tx rt (\<lambda>now. finish_error (rt_guard rt) now loaded p i ''collection_control_plane_failed'' False None)) (\<lambda>_.
             ret (outcome p ''failed'' (Some i) (Some ''collection_control_plane_failed'')))
      else lift (Inl e))"

definition catchA :: "('r, 'a) act \<Rightarrow> (exn \<Rightarrow> ('r, 'a) act) \<Rightarrow> ('r, 'a) act" where
  "catchA m h w = (case m w of (Inl e, w') \<Rightarrow> h e w' | (Inr x, w') \<Rightarrow> (Inr x, w'))"

definition locked_body ::
  "'r runtime \<Rightarrow> TargetDispatch \<Rightarrow> CollectionRunMode \<Rightarrow> string \<Rightarrow> string \<Rightarrow> ('r, TargetRunOutcome) act" where
  "locked_body rt p mode key owner w =
     (case prepare rt p mode w of
        (Inl e, w') \<Rightarrow> handle_before p e w'
      | (Inr (Inl out), w') \<Rightarrow> (Inr out, w')
      | (Inr (Inr (loaded, cred, i, cursor)), w') \<Rightarrow>
          catchA (collect rt p mode loaded cred i cursor key owner) (handle_after rt p loaded i) w')"

text \<open>\<open>finally\<close>: the lock is released by compare-and-delete, whatever happened.\<close>

definition finallyA :: "('r, 'a) act \<Rightarrow> ('r, unit) act \<Rightarrow> ('r, 'a) act" where
  "finallyA m f w = (case m w of (x, w') \<Rightarrow> (case f w' of (Inl e, w'') \<Rightarrow> (Inl e, w'') | (Inr _, w'') \<Rightarrow> (x, w'')))"

definition release_lock :: "'r runtime \<Rightarrow> string \<Rightarrow> string \<Rightarrow> ('r, unit) act" where
  "release_lock rt key owner = redis rt (\<lambda>now r. ((), compare_delete (rt_api rt) key owner now r))"

definition execute :: "'r runtime \<Rightarrow> TargetDispatch \<Rightarrow> ('r, TargetRunOutcome) act" where
  "execute rt p =
     (case run_mode_of (disp_run_mode p) of
        None \<Rightarrow> ret (outcome p ''blocked'' None (Some ''run_mode_invalid''))
      | Some mode \<Rightarrow>
          (if disp_dispatch_id p
                \<noteq> dispatch_identity (disp_target_id p) (disp_config_revision p) (disp_scheduled_slot p) (run_mode_value mode)
           then ret (outcome p ''blocked'' None (Some ''dispatch_identity_invalid''))
           else (\<lambda>w.
             case load rt p w of
               (Inl (TargetRepositoryError m), w') \<Rightarrow> (Inr (outcome p ''blocked'' None (Some m)), w')
             | (Inl e, w') \<Rightarrow> (Inl e, w')
             | (Inr loaded, w') \<Rightarrow>
                 bindA (redis rt (\<lambda>now r. (redis_exists (rt_api rt) r now (rate_limit_key loaded), r))) (\<lambda>cooling.
                 if cooling then ret (outcome p ''retry'' None (Some ''rate_limit_group_cooldown''))
                 else (\<lambda>w.
                   let owner = rt_owner rt (w_tick w); key = target_lock_key (disp_target_id p) (disp_run_mode p) in
                   bindA (redis rt (acquire (rt_api rt) key owner (tgt_max_runtime_seconds (lt_target loaded) + 30))) (\<lambda>got.
                     if \<not> got then ret (outcome p ''blocked'' None (Some ''target_lock_unavailable''))
                     else finallyA (locked_body rt p mode key owner) (release_lock rt key owner)) w)) w')))"

subsection \<open>Refinement of the state machine\<close>

text \<open>An action refines the machine of \<open>Collection_Runs\<close> when the database it leaves is reached by control steps.\<close>

abbreviation steps :: "'r runtime \<Rightarrow> db \<Rightarrow> db \<Rightarrow> bool" where
  "steps rt \<equiv> (control_step (rt_lib rt) (rt_registry rt) (rt_guard rt))\<^sup>*\<^sup>*"

definition env_ok :: "'r runtime \<Rightarrow> bool" where
  "env_ok rt \<longleftrightarrow> (\<forall>n w. runs_inv (w_db w) \<longrightarrow> steps rt (w_db w) (w_db (rt_env rt n w)))"

definition fresh_ids :: "'r runtime \<Rightarrow> bool" where
  "fresh_ids rt \<longleftrightarrow> (\<forall>d. rt_gen rt d \<notin> run_id ` set (collection_runs d))"

definition act_ok :: "'r runtime \<Rightarrow> ('r, 'a) act \<Rightarrow> bool" where
  "act_ok rt m \<longleftrightarrow> (\<forall>w. runs_inv (w_db w) \<longrightarrow> steps rt (w_db w) (w_db (snd (m w))))"

lemma act_okD: "act_ok rt m \<Longrightarrow> runs_inv (w_db w) \<Longrightarrow> m w = (x, w') \<Longrightarrow> steps rt (w_db w) (w_db w') \<and> runs_inv (w_db w')"
  unfolding act_ok_def by (metis control.steps_inv snd_conv)

lemma act_ok_ret [simp]: "act_ok rt (ret x)" and act_ok_lift [simp]: "act_ok rt (lift y)"
  by (simp_all add: act_ok_def ret_def lift_def)

lemma act_ok_bind:
  assumes "act_ok rt m" and "\<And>w x w'. runs_inv (w_db w) \<Longrightarrow> m w = (Inr x, w') \<Longrightarrow> act_ok rt (f x)"
  shows "act_ok rt (bindA m f)"
  unfolding act_ok_def
proof (intro allI impI)
  fix w :: "'a world" assume inv: "runs_inv (w_db w)"
  obtain y w1 where m: "m w = (y, w1)" by (rule prod.exhaust)
  note one = act_okD [OF assms(1) inv m]
  show "steps rt (w_db w) (w_db (snd (bindA m f w)))"
  proof (cases y)
    case (Inl e)
    then show ?thesis using m one by (simp add: bindA_def)
  next
    case (Inr x)
    have "steps rt (w_db w1) (w_db (snd (f x w1)))"
      using assms(2) [OF inv m [unfolded Inr]] one by (simp add: act_ok_def)
    then show ?thesis using m one Inr by (auto simp: bindA_def intro: rtranclp_trans)
  qed
qed

lemma act_ok_bind_all: "act_ok rt m \<Longrightarrow> (\<And>x. act_ok rt (f x)) \<Longrightarrow> act_ok rt (bindA m f)"
  by (rule act_ok_bind)

lemma observe_ok:
  assumes "env_ok rt" and "runs_inv (w_db w)"
  shows "steps rt (w_db w) (w_db (observe rt w)) \<and> runs_inv (w_db (observe rt w))"
proof -
  have "steps rt (w_db w) (w_db (observe rt w))" using assms by (simp add: env_ok_def observe_def)
  then show ?thesis using control.steps_inv assms(2) by blast
qed

lemma act_ok_tx:
  assumes "env_ok rt"
    and "\<And>now d x d'. runs_inv d \<Longrightarrow> f now d = Inr (x, d') \<Longrightarrow> control_step (rt_lib rt) (rt_registry rt) (rt_guard rt) d d'"
  shows "act_ok rt (tx rt f)"
  unfolding act_ok_def
proof (intro allI impI)
  fix w :: "'a world" assume "runs_inv (w_db w)"
  note w1 = observe_ok [OF assms(1) this]
  show "steps rt (w_db w) (w_db (snd (tx rt f w)))"
  proof (cases "f (w_now (observe rt w)) (w_db (observe rt w))")
    case (Inr y)
    then show ?thesis
      using w1 assms(2) [of "w_db (observe rt w)" "w_now (observe rt w)" "fst y" "snd y"]
      by (auto simp: tx_def Let_def split: prod.split intro: rtranclp.rtrancl_into_rtrancl)
  qed (use w1 in \<open>simp add: tx_def\<close>)
qed

lemma act_ok_reads:
  assumes "env_ok rt"
  shows "act_ok rt (query rt q)" "act_ok rt (redis rt g)" "act_ok rt (clock rt)"
    "act_ok rt (fetch_with_lock rt adapter cred request timeout)"
  using observe_ok [OF assms]
  by (auto simp: act_ok_def query_def redis_def clock_def fetch_with_lock_def Let_def split: prod.splits)

lemma act_ok_named_reads:
  assumes "env_ok rt"
  shows "act_ok rt (load rt p)" "act_ok rt (get_lock rt key)" "act_ok rt (release_lock rt key owner)"
  unfolding load_def get_lock_def release_lock_def by (rule act_ok_reads [OF assms])+

lemma act_ok_error: "env_ok rt \<Longrightarrow> act_ok rt (tx rt (\<lambda>now. finish_error (rt_guard rt) now loaded p i code retryable after))"
  by (rule act_ok_tx) (auto intro: cs_error)

lemma act_ok_lost: "env_ok rt \<Longrightarrow> act_ok rt (tx rt (unit_tx (\<lambda>now. finish_lock_lost (rt_guard rt) now loaded p i)))"
  by (rule act_ok_tx) (auto simp: bindR_Inr_iff intro: cs_lost)

lemma act_ok_persist: "env_ok rt \<Longrightarrow> act_ok rt (persist_tx rt p mode loaded i cursor result m)"
  unfolding persist_tx_def by (rule act_ok_tx) (auto simp: bindR_Inr_iff intro: cs_persist)

lemma act_ok_claim:
  "env_ok rt \<Longrightarrow> tgt_max_requests_per_run (lt_target loaded) \<le> 20 \<Longrightarrow> act_ok rt (tx rt (\<lambda>now. claim_page (rt_guard rt) now loaded p i))"
  by (rule act_ok_tx) (auto intro: cs_claim)

lemma act_ok_credential: "env_ok rt \<Longrightarrow> act_ok rt (tx rt (unit_tx (\<lambda>now. mark_credential_missing (rt_guard rt) now loaded)))"
  by (rule act_ok_tx) (auto simp: bindR_Inr_iff intro: cs_credential)

lemma act_ok_start: "env_ok rt \<Longrightarrow> fresh_ids rt \<Longrightarrow> act_ok rt (tx rt (\<lambda>now. start_run (rt_guard rt) (rt_gen rt) now loaded p mode))"
  by (rule act_ok_tx) (auto simp: fresh_ids_def intro: cs_start)

lemma act_ok_pin: "env_ok rt \<Longrightarrow> act_ok rt (tx rt (\<lambda>now. resolved_run_config (rt_lib rt) (rt_guard rt) (rt_gen rt) now i loaded cursor mode))"
  by (rule act_ok_tx) (auto intro: cs_pin)

lemmas act_ok_intros = act_ok_bind_all act_ok_reads act_ok_named_reads act_ok_error act_ok_lost act_ok_persist act_ok_credential
  act_ok_start act_ok_pin

lemma act_ok_ends:
  assumes "env_ok rt"
  shows "act_ok rt (end_lock_lost rt p loaded i)" "act_ok rt (end_error rt p loaded i code retryable after)"
    "act_ok rt (end_provider_error rt p loaded i err)"
  unfolding end_provider_error_def end_lock_lost_def end_error_def
  by (auto intro!: act_ok_intros assms)

lemma act_ok_single:
  assumes "env_ok rt"
  shows "act_ok rt (single_fetch rt p mode loaded i cursor key owner fetched)"
  unfolding single_fetch_def finish_single_def
  by (auto intro!: act_ok_intros act_ok_ends assms split: fetch_outcome.split list.split sum.split)

lemma loaded_budget:
  assumes "runs_inv (w_db w)" and "env_ok rt" and "load rt p w = (Inr loaded, w')"
  shows "tgt_max_requests_per_run (lt_target loaded) \<le> 20"
proof -
  have inv: "runs_inv (w_db (observe rt w))" using observe_ok [OF assms(2,1)] by blast
  have "load_for_execution (rt_lib rt) (rt_registry rt) (disp_target_id p) (disp_config_revision p) (w_db (observe rt w)) = Inr loaded"
    using assms(3) unfolding load_def query_def Let_def by blast
  then have "lt_target loaded \<in> set (collection_targets (w_db (observe rt w)))"
    by (auto dest!: load_for_execution_Inr dest: get_id)
  with inv show ?thesis by (simp add: runs_inv_def targets_inv_def list_all_iff ck_collection_targets_def)
qed

lemma act_ok_pages:
  assumes "env_ok rt" and "tgt_max_requests_per_run (lt_target loaded) \<le> 20"
  shows "act_ok rt (execute_pages rt p mode loaded cred adapter i key owner n cursor request)"
proof (induction n arbitrary: cursor request)
  case (Suc n)
  show ?case
    unfolding execute_pages.simps Let_def
    by (intro act_ok_bind_all act_ok_named_reads act_ok_claim assms)
       (auto intro!: act_ok_intros act_ok_ends Suc.IH assms split: option.split fetch_outcome.split list.split)
qed simp

lemma act_ok_collect:
  assumes "env_ok rt" and "tgt_max_requests_per_run (lt_target loaded) \<le> 20"
  shows "act_ok rt (collect rt p mode loaded cred i cursor key owner)"
  unfolding collect_def run_config_def
  by (auto intro!: act_ok_intros act_ok_single act_ok_pages assms split: prod.split)

lemma prepare_budget:
  assumes "env_ok rt" and "fresh_ids rt" and "runs_inv (w_db w)" and "prepare rt p mode w = (Inr (Inr (loaded, cred, i, cursor)), w')"
  shows "tgt_max_requests_per_run (lt_target loaded) \<le> 20"
proof -
  obtain l w1 where l: "load rt p w = (Inr l, w1)"
    using assms(4) by (auto simp: prepare_def bindA_def split: prod.splits sum.splits)
  obtain c where c: "resolve_runtime_credential (src_access_method (lt_source l)) (rt_environ rt) = Inr c"
    using assms(4) l by (auto simp: prepare_def bindA_def ret_def lift_def split: prod.splits sum.splits exn.splits)
  obtain w2 where l2: "load rt p w1 = (Inr loaded, w2)"
    using assms(4) l c by (auto simp: prepare_def bindA_def ret_def split: prod.splits sum.splits)
  have "runs_inv (w_db w1)" using act_okD [OF act_ok_named_reads(1) [OF assms(1)] assms(3) l] by blast
  then show ?thesis by (rule loaded_budget [OF _ assms(1) l2])
qed

lemma act_ok_prepare: "env_ok rt \<Longrightarrow> fresh_ids rt \<Longrightarrow> act_ok rt (prepare rt p mode)"
  unfolding prepare_def by (auto intro!: act_ok_intros split: sum.split exn.split prod.split)

lemma act_ok_catch: "act_ok rt m \<Longrightarrow> (\<And>e. act_ok rt (h e)) \<Longrightarrow> act_ok rt (catchA m h)"
  unfolding act_ok_def catchA_def
  by (auto split: prod.splits sum.splits) (metis control.steps_inv rtranclp_trans snd_conv)+

lemma act_ok_handle_after: "env_ok rt \<Longrightarrow> act_ok rt (handle_after rt p loaded i e)"
  unfolding handle_after_def by (auto intro!: act_ok_intros act_ok_ends)

lemma handle_before_ok: "act_ok rt (handle_before p e)"
  by (simp add: handle_before_def)

lemma act_ok_body:
  assumes "env_ok rt" and "fresh_ids rt"
  shows "act_ok rt (locked_body rt p mode key owner)"
  unfolding act_ok_def
proof (intro allI impI)
  fix w :: "'a world" assume inv: "runs_inv (w_db w)"
  obtain y w1 where y: "prepare rt p mode w = (y, w1)" by (rule prod.exhaust)
  note one = act_okD [OF act_ok_prepare [OF assms] inv y]
  consider e where "y = Inl e" | out where "y = Inr (Inl out)" | loaded cred i cursor where "y = Inr (Inr (loaded, cred, i, cursor))"
    by (metis obj_sumE prod.exhaust)
  then show "steps rt (w_db w) (w_db (snd (locked_body rt p mode key owner w)))"
  proof cases
    case (1 e)
    then show ?thesis
      using y one handle_before_ok [of rt p e] by (auto simp: locked_body_def act_ok_def intro: rtranclp_trans)
  next
    case 2
    then show ?thesis using y one by (simp add: locked_body_def)
  next
    case (3 loaded cred i cursor)
    have "act_ok rt (catchA (collect rt p mode loaded cred i cursor key owner) (handle_after rt p loaded i))"
      by (intro act_ok_catch act_ok_collect act_ok_handle_after assms prepare_budget [OF assms inv y [unfolded 3]])
    then show ?thesis using y one 3 by (auto simp: locked_body_def act_ok_def intro: rtranclp_trans)
  qed
qed

lemma act_ok_finally: "act_ok rt m \<Longrightarrow> act_ok rt f \<Longrightarrow> act_ok rt (finallyA m f)"
  unfolding act_ok_def finallyA_def
  by (auto split: prod.splits sum.splits) (metis control.steps_inv rtranclp_trans snd_conv)+

lemma act_ok_execute:
  assumes "env_ok rt" and "fresh_ids rt"
  shows "act_ok rt (execute rt p)"
proof -
  have inner: "act_ok rt (bindA (redis rt (\<lambda>now r. (redis_exists (rt_api rt) r now (rate_limit_key loaded), r))) (\<lambda>cooling.
      if cooling then ret (outcome p ''retry'' None (Some ''rate_limit_group_cooldown''))
      else (\<lambda>w. let owner = rt_owner rt (w_tick w); key = target_lock_key (disp_target_id p) (disp_run_mode p) in
        bindA (redis rt (acquire (rt_api rt) key owner (tgt_max_runtime_seconds (lt_target loaded) + 30))) (\<lambda>got.
          if \<not> got then ret (outcome p ''blocked'' None (Some ''target_lock_unavailable''))
          else finallyA (locked_body rt p mode key owner) (release_lock rt key owner)) w)))" for loaded mode
  proof (rule act_ok_bind_all)
    fix cooling
    have "act_ok rt (bindA (redis rt (acquire (rt_api rt) key owner (tgt_max_runtime_seconds (lt_target loaded) + 30))) (\<lambda>got.
          if \<not> got then ret (outcome p ''blocked'' None (Some ''target_lock_unavailable''))
          else finallyA (locked_body rt p mode key owner) (release_lock rt key owner)))" for key owner
      by (auto intro!: act_ok_intros act_ok_finally act_ok_body assms)
    then show "act_ok rt (if cooling then ret (outcome p ''retry'' None (Some ''rate_limit_group_cooldown''))
      else (\<lambda>w. let owner = rt_owner rt (w_tick w); key = target_lock_key (disp_target_id p) (disp_run_mode p) in
        bindA (redis rt (acquire (rt_api rt) key owner (tgt_max_runtime_seconds (lt_target loaded) + 30))) (\<lambda>got.
          if \<not> got then ret (outcome p ''blocked'' None (Some ''target_lock_unavailable''))
          else finallyA (locked_body rt p mode key owner) (release_lock rt key owner)) w))"
      by (cases cooling) (simp_all add: act_ok_def ret_def Let_def)
  qed (rule act_ok_reads [OF assms(1)])
  show ?thesis
    unfolding act_ok_def
  proof (intro allI impI)
    fix w :: "'a world" assume inv: "runs_inv (w_db w)"
    obtain y w1 where y: "load rt p w = (y, w1)" by (rule prod.exhaust)
    note one = act_okD [OF act_ok_named_reads(1) [OF assms(1)] inv y]
    show "steps rt (w_db w) (w_db (snd (execute rt p w)))"
    proof (cases y)
      case (Inl e)
      then show ?thesis using y one by (auto simp: execute_def ret_def split: option.split exn.split)
    next
      case (Inr loaded)
      then show ?thesis
        using y one inner [of loaded, unfolded act_ok_def]
        by (auto simp: execute_def ret_def split: option.split intro: rtranclp_trans)
    qed
  qed
qed

subsection \<open>What an outcome says about its run\<close>

definition status_agrees :: "string \<Rightarrow> CollectionRunStatus \<Rightarrow> bool" where
  "status_agrees s st =
     (if s \<in> {''succeeded'', ''no_new_items''} then st \<in> {Run_SUCCEEDED, Run_PARTIAL}
      else if s = ''partial'' then st = Run_PARTIAL
      else if s = ''failed'' then st = Run_FAILED
      else s = ''retry'' \<and> st \<in> {Run_RUNNING, Run_FAILED})"

definition alive :: "LoadedTarget \<Rightarrow> uuid \<Rightarrow> db \<Rightarrow> bool" where
  "alive loaded i d \<longleftrightarrow> runs_inv d \<and> get_run d i \<noteq> None \<and> get_target d (tgt_id (lt_target loaded)) \<noteq> None"

definition settled :: "uuid \<Rightarrow> TargetRunOutcome \<Rightarrow> db \<Rightarrow> bool" where
  "settled i out d \<longleftrightarrow> out_run_id out = Some i
     \<and> (\<exists>run. get_run d i = Some run \<and> status_agrees (out_status out) (run_status run))"

definition settles :: "LoadedTarget \<Rightarrow> uuid \<Rightarrow> ('r, TargetRunOutcome) act \<Rightarrow> bool" where
  "settles loaded i m \<longleftrightarrow> (\<forall>w. alive loaded i (w_db w) \<longrightarrow>
     (case m w of (Inl e, w') \<Rightarrow> alive loaded i (w_db w') | (Inr out, w') \<Rightarrow> settled i out (w_db w')))"

lemma repo_step_target_ids:
  assumes "repo_step lib registry d d'"
  shows "map tgt_id (collection_targets d') = map tgt_id (collection_targets d)"
  using repo_step_cases [OF assms]
proof (elim disjE exE conjE)
  fix j t t'
  assume "get_target d j = Some t" "target_moved t t'" "collection_targets d' = collection_targets (put_target t' d)"
  then show ?thesis by (simp add: put_target_def update_where_def)
qed simp

lemma control_step_alive:
  assumes "control_step lib registry guard d d'" and "alive loaded i d"
  shows "alive loaded i d'"
proof -
  have inv: "runs_inv d" using assms(2) by (simp add: alive_def)
  have "map tgt_id (collection_targets d') = map tgt_id (collection_targets d)"
    using control_step_cases [OF assms(1) inv] by (auto simp: run_tx_def dest: repo_step_target_ids targets_kept_ids)
  then have "get_target d' (tgt_id (lt_target loaded)) \<noteq> None" using assms(2) unfolding alive_def get_target_ids by simp
  moreover have "get_run d' i \<noteq> None"
    using assms(2) runs_evolve_get [OF control_step_evolve [OF inv assms(1)], of i] by (auto simp: alive_def)
  ultimately show ?thesis using control_step_inv [OF inv assms(1)] by (simp add: alive_def)
qed

lemma steps_alive: "steps rt d d' \<Longrightarrow> alive loaded i d \<Longrightarrow> alive loaded i d'"
  by (induction rule: rtranclp_induct) (auto intro: control_step_alive)

lemma act_ok_alive: "act_ok rt m \<Longrightarrow> alive loaded i (w_db w) \<Longrightarrow> m w = (x, w') \<Longrightarrow> alive loaded i (w_db w')"
  using act_okD [of rt m w x w'] steps_alive [of rt "w_db w" "w_db w'"] by (auto simp: alive_def)

lemma settles_lift_error [simp]: "settles loaded i (lift (Inl e))"
  by (simp add: settles_def lift_def)

lemma settles_if: "settles loaded i a \<Longrightarrow> settles loaded i b \<Longrightarrow> settles loaded i (if c then a else b)"
  by simp

lemma settles_bind:
  assumes "act_ok rt m" and "\<And>x. settles loaded i (f x)"
  shows "settles loaded i (bindA m f)"
  unfolding settles_def
proof (intro allI impI)
  fix w :: "'a world" assume a: "alive loaded i (w_db w)"
  obtain y w1 where m: "m w = (y, w1)" by (rule prod.exhaust)
  have "alive loaded i (w_db w1)" by (rule act_ok_alive [OF assms(1) a m])
  with assms(2) m show "case bindA m f w of (Inl e, w') \<Rightarrow> alive loaded i (w_db w') | (Inr out, w') \<Rightarrow> settled i out (w_db w')"
    by (cases y) (auto simp: bindA_def settles_def)
qed

text \<open>A body that ends with a transaction and a fixed outcome settles its run when the transaction does.\<close>

lemma settles_tx:
  assumes "env_ok rt" and "act_ok rt (tx rt f)"
    and "\<And>now d x d'. alive loaded i d \<Longrightarrow> f now d = Inr (x, d') \<Longrightarrow> settled i (g x) d'"
  shows "settles loaded i (bindA (tx rt f) (\<lambda>x. ret (g x)))"
  unfolding settles_def
proof (intro allI impI)
  fix w :: "'a world" assume a: "alive loaded i (w_db w)"
  have "steps rt (w_db w) (w_db (observe rt w))" using observe_ok [OF assms(1)] a by (simp add: alive_def)
  then have a1: "alive loaded i (w_db (observe rt w))" using a by (rule steps_alive)
  show "case bindA (tx rt f) (\<lambda>x. ret (g x)) w of (Inl e, w') \<Rightarrow> alive loaded i (w_db w') | (Inr out, w') \<Rightarrow> settled i out (w_db w')"
    using a1 assms(3) by (auto simp: bindA_def tx_def ret_def Let_def split: sum.splits prod.splits)
qed

lemma commit_eq: "commit guard d d1 = Inr d' \<Longrightarrow> d' = d1"
  by (simp add: commit_Inr)

lemma finish_error_status:
  assumes "alive loaded i d" and "finish_error guard now loaded p i code retryable after d = Inr (retry, d')"
  shows "\<exists>run. get_run d' i = Some run \<and> run_status run = (if retry then Run_RUNNING else Run_FAILED)"
proof -
  obtain run t where run: "get_run d i = Some run" "get_target d (tgt_id (lt_target loaded)) = Some t"
    using assms(1) by (auto simp: alive_def)
  moreover have "run_id run = i" using run(1) by (auto dest: get_id)
  ultimately show ?thesis
    using assms(2)
    by (auto simp: finish_error_def Let_def bindR_Inr_iff failed_run_def error_run_def dest!: commit_eq split: if_splits)
qed

lemma finish_lock_lost_status:
  assumes "alive loaded i d" and "finish_lock_lost guard now loaded p i d = Inr d'"
  shows "\<exists>run. get_run d' i = Some run \<and> run_status run = Run_FAILED"
proof -
  obtain run t where run: "get_run d i = Some run" "get_target d (tgt_id (lt_target loaded)) = Some t"
    using assms(1) by (auto simp: alive_def)
  moreover have "run_id run = i" using run(1) by (auto dest: get_id)
  ultimately show ?thesis
    using assms(2) by (auto simp: finish_lock_lost_def Let_def failed_run_def dest!: commit_eq)
qed

lemma persist_result_status:
  assumes "persist_result lib guard ids gen now loaded p i snapshot result mode m d = Inr d'" and "pm_final m"
  shows "\<exists>run. get_run d' i = Some run \<and> run_status run = (if incomplete result then Run_PARTIAL else Run_SUCCEEDED)"
proof -
  let ?r = "\<lambda>counts run. finished_run now (pm_page_mode m) (pm_final m) result (counted_run (pm_page_mode m) counts run)"
  obtain t run counts d2 where run: "get_run d i = Some run" and fr: "collection_runs d2 = collection_runs d"
    and pc: "persist_cursor lib gen now (pm_page_mode m) result snapshot i t mode
       (put_target (attempted_target now (pm_final m) result t) (put_run (?r counts run) d2)) = Inr d'"
    using persist_result_Inr [OF assms(1)] by (elim exE conjE) (rule that; assumption)
  have "run_id (?r counts run) = i" using run by (auto simp: finished_run_def counted_run_def dest: get_id)
  moreover have "get_run d' i = get_run (put_run (?r counts run) d2) i"
    using persist_cursor_frame [OF pc] by (simp add: get_run_def)
  moreover have "get_run d2 i = Some run" using run fr by (simp add: get_run_def)
  ultimately have "get_run d' i = Some (?r counts run)" by simp
  then show ?thesis using assms(2) by (simp add: finished_run_def)
qed

lemma claim_page_status:
  assumes "claim_page guard now loaded p i d = Inr (None, d')"
  shows "\<exists>run. get_run d' i = Some run \<and> run_status run = Run_PARTIAL"
proof -
  obtain run where run: "get_run d i = Some run" using assms by (auto simp: claim_page_def split: option.splits)
  moreover have "run_id run = i" using run by (auto dest: get_id)
  ultimately show ?thesis
    using assms by (auto simp: claim_page_def bindR_Inr_iff dest!: commit_eq split: if_splits option.splits)
qed

lemma settled_outcome [simp]:
  "settled i (outcome p s (Some i) err) d = (\<exists>run. get_run d i = Some run \<and> status_agrees s (run_status run))"
  by (simp add: settled_def outcome_def)

lemma settles_error:
  assumes "env_ok rt"
  shows "settles loaded i (bindA (tx rt (\<lambda>now. finish_error (rt_guard rt) now loaded p i code False after)) (\<lambda>_.
           ret (outcome p ''failed'' (Some i) (Some code))))"
proof (rule settles_tx [OF assms act_ok_error [OF assms]])
  fix now d x d'
  assume a: "alive loaded i d" and f: "finish_error (rt_guard rt) now loaded p i code False after d = Inr (x, d')"
  have "\<not> x" using f a by (auto simp: finish_error_def alive_def Let_def bindR_Inr_iff split: if_splits)
  with finish_error_status [OF a f] show "settled i (outcome p ''failed'' (Some i) (Some code)) d'"
    by (auto simp: status_agrees_def)
qed

lemma settles_ends:
  assumes "env_ok rt"
  shows "settles loaded i (end_lock_lost rt p loaded i)" "settles loaded i (end_error rt p loaded i code retryable after)"
    "settles loaded i (end_provider_error rt p loaded i err)"
proof -
  show "settles loaded i (end_lock_lost rt p loaded i)"
    unfolding end_lock_lost_def
    by (rule settles_tx [OF assms act_ok_lost [OF assms]])
       (auto simp: bindR_Inr_iff status_agrees_def dest: finish_lock_lost_status)
  show err: "settles loaded i (end_error rt p loaded i code retryable after)" for code retryable after
    unfolding end_error_def
    by (rule settles_tx [OF assms act_ok_error [OF assms]]) (auto simp: status_agrees_def dest: finish_error_status)
  show "settles loaded i (end_provider_error rt p loaded i err)"
    unfolding end_provider_error_def by (rule settles_bind [where rt = rt]) (auto intro: act_ok_reads assms err)
qed

lemma settles_persist:
  assumes "env_ok rt" and "pm_final m" and "incomplete result \<Longrightarrow> status_agrees s Run_PARTIAL"
    and "\<not> incomplete result \<Longrightarrow> status_agrees s Run_SUCCEEDED"
  shows "settles loaded i (bindA (persist_tx rt p mode loaded i cursor result m) (\<lambda>_. ret (outcome p s (Some i) err)))"
  unfolding persist_tx_def
proof (rule settles_tx [OF assms(1) act_ok_persist [OF assms(1), unfolded persist_tx_def]])
  fix now d x d'
  assume "unit_tx (\<lambda>now. persist_result (rt_lib rt) (rt_guard rt) (rt_ids rt) (rt_gen rt) now loaded p i cursor result mode m) now d = Inr (x, d')"
  then have "persist_result (rt_lib rt) (rt_guard rt) (rt_ids rt) (rt_gen rt) now loaded p i cursor result mode m d = Inr d'"
    by (auto simp: bindR_Inr_iff)
  from persist_result_status [OF this assms(2)] show "settled i (outcome p s (Some i) err) d'" using assms(3,4) by auto
qed

lemma settles_single:
  assumes "env_ok rt"
  shows "settles loaded i (single_fetch rt p mode loaded i cursor key owner fetched)"
proof -
  have fin: "settles loaded i (finish_single rt p mode loaded i cursor result)" for result
  proof (cases "decide_cursor (rt_lib rt) (strategy_value (tgt_cursor_strategy (lt_target loaded)))
             (case cursor of None \<Rightarrow> None | Some c \<Rightarrow> cur_cursor_value c) (pres_next_cursor result)")
    case (Inl e)
    then show ?thesis by (simp add: finish_single_def settles_error [OF assms])
  next
    case (Inr decision)
    show ?thesis
      unfolding finish_single_def Inr sum.case
      by (rule settles_bind [where rt = rt], simp, rule settles_persist [OF assms]) (auto simp: status_agrees_def incomplete_def)
  qed
  show ?thesis
    unfolding single_fetch_def
    by (auto intro!: settles_ends fin settles_bind [where rt = rt] act_ok_named_reads assms split: fetch_outcome.split list.split)
qed

lemma settles_pages:
  assumes "env_ok rt" and "tgt_max_requests_per_run (lt_target loaded) \<le> 20"
  shows "settles loaded i (execute_pages rt p mode loaded cred adapter i key owner n cursor request)"
proof (induction n arbitrary: cursor request)
  case 0
  show ?case by (simp only: execute_pages.simps settles_lift_error)
next
  case (Suc n)
  let ?m = "\<lambda>result. \<lparr>pm_page_mode = True, pm_final = (pres_coverage_incomplete result \<or> \<not> pres_has_more result \<or> n = 0),
     pm_observation_key = page_key (rt_lib rt) request\<rparr>"
  have page: "settles loaded i (bindA (persist_tx rt p mode loaded i cursor result (?m result)) (\<lambda>_.
      if pres_coverage_incomplete result \<or> \<not> pres_has_more result \<or> n = 0
      then ret (outcome p (if incomplete result then ''partial'' else ''succeeded'') (Some i)
                 (if incomplete result then Some ''coverage_incomplete'' else None))
      else bindA (query rt (find_cursor_any_version p loaded mode)) (\<lambda>cursor.
           bindA (lift (new_fetch_request (request\<lparr>pfr_cursor := pres_next_cursor result, pfr_continuation := pres_continuation result\<rparr>))) (\<lambda>request.
             execute_pages rt p mode loaded cred adapter i key owner n cursor request))))" for result
  proof (cases "pres_coverage_incomplete result \<or> \<not> pres_has_more result \<or> n = 0")
    case True
    then show ?thesis
      by (simp only: if_True) (rule settles_persist [OF assms(1)], auto simp: status_agrees_def)
  next
    case False
    then show ?thesis
      by (simp only: if_False)
         (intro settles_bind [where rt = rt] act_ok_persist act_ok_reads act_ok_lift Suc.IH assms(1))
  qed
  have claim: "settles loaded i (bindA (tx rt (\<lambda>now. claim_page (rt_guard rt) now loaded p i)) f)"
    if "\<And>t. settles loaded i (f (Some t))" and "f None = ret (outcome p ''partial'' (Some i) (Some ''coverage_incomplete''))" for f
    unfolding settles_def
  proof (intro allI impI)
    fix w :: "'a world" assume a: "alive loaded i (w_db w)"
    obtain y w1 where y: "tx rt (\<lambda>now. claim_page (rt_guard rt) now loaded p i) w = (y, w1)" by (rule prod.exhaust)
    have a1: "alive loaded i (w_db w1)" by (rule act_ok_alive [OF act_ok_claim [OF assms] a y])
    have none: "\<exists>run. get_run (w_db w1) i = Some run \<and> run_status run = Run_PARTIAL" if "y = Inr None"
      using y that by (auto simp: tx_def Let_def split: sum.splits prod.splits dest: claim_page_status)
    show "case bindA (tx rt (\<lambda>now. claim_page (rt_guard rt) now loaded p i)) f w of
        (Inl e, w') \<Rightarrow> alive loaded i (w_db w') | (Inr out, w') \<Rightarrow> settled i out (w_db w')"
    proof (cases y)
      case (Inr z)
      then show ?thesis
        using y a1 none that by (cases z) (auto simp: bindA_def settles_def ret_def status_agrees_def)
    qed (use y a1 in \<open>simp add: bindA_def\<close>)
  qed
  have fetched: "settles loaded i (case out of
             FetchLockLost \<Rightarrow> end_lock_lost rt p loaded i
           | FetchTimeout \<Rightarrow>
               bindA (tx rt (\<lambda>now. finish_error (rt_guard rt) now loaded p i ''provider_runtime_deadline_exceeded'' False None)) (\<lambda>_.
                 ret (outcome p ''failed'' (Some i) (Some ''provider_runtime_deadline_exceeded'')))
           | FetchRaised e \<Rightarrow> lift (Inl e)
           | Fetched result \<Rightarrow>
               (case pres_safe_errors result of
                  err # _ \<Rightarrow> end_provider_error rt p loaded i err
                | [] \<Rightarrow>
                    if pres_contract_version result \<noteq> tgt_provider_contract_version (lt_target loaded)
                       \<or> pres_provider result \<noteq> src_access_method (lt_source loaded)
                    then lift (value_error ''provider_contract_mismatch'')
                    else
                      bindA (get_lock rt key) (\<lambda>holder.
                      if holder \<noteq> Some owner then lift (Inl (TargetLockLost ''target_lock_lost''))
                      else
                        bindA (lift (page_check rt loaded mode request result)) (\<lambda>_.
                        bindA (persist_tx rt p mode loaded i cursor result (?m result)) (\<lambda>_.
      if pres_coverage_incomplete result \<or> \<not> pres_has_more result \<or> n = 0
      then ret (outcome p (if incomplete result then ''partial'' else ''succeeded'') (Some i)
                 (if incomplete result then Some ''coverage_incomplete'' else None))
      else bindA (query rt (find_cursor_any_version p loaded mode)) (\<lambda>cursor.
           bindA (lift (new_fetch_request (request\<lparr>pfr_cursor := pres_next_cursor result, pfr_continuation := pres_continuation result\<rparr>))) (\<lambda>request.
             execute_pages rt p mode loaded cred adapter i key owner n cursor request)))))))" for out
  proof (cases out)
    case (Fetched result)
    show ?thesis
    proof (cases "pres_safe_errors result")
      case Nil
      show ?thesis
        unfolding Fetched Nil fetch_outcome.case list.case
        by (rule settles_if [OF settles_lift_error], rule settles_bind [OF act_ok_named_reads(2) [OF assms(1)]],
            rule settles_if [OF settles_lift_error], rule settles_bind [OF act_ok_lift [of rt]], rule page)
    qed (simp add: Fetched settles_ends [OF assms(1)])
  qed (auto intro!: settles_ends settles_error assms(1))
  show ?case
    unfolding execute_pages.simps Let_def
    by (rule settles_bind [OF act_ok_named_reads(1) [OF assms(1)]], rule claim)
       (simp_all, intro settles_bind [where rt = rt] act_ok_reads assms(1), simp add: settles_error [OF assms(1)] fetched settles_bind [OF act_ok_reads(4) [OF assms(1)]])
qed

lemma settles_collect:
  assumes "env_ok rt" and "tgt_max_requests_per_run (lt_target loaded) \<le> 20"
  shows "settles loaded i (collect rt p mode loaded cred i cursor key owner)"
proof -
  have "act_ok rt (run_config rt mode loaded i cursor)"
    unfolding run_config_def by (auto intro!: act_ok_intros assms(1) split: prod.split)
  then show ?thesis
    unfolding collect_def
    by (auto intro!: settles_bind [where rt = rt] settles_single settles_pages act_ok_reads assms split: prod.split)
qed

lemma settles_catch: "settles loaded i m \<Longrightarrow> (\<And>e. settles loaded i (h e)) \<Longrightarrow> settles loaded i (catchA m h)"
  unfolding settles_def
proof (intro allI impI)
  fix w :: "'a world" assume m: "\<forall>w. alive loaded i (w_db w) \<longrightarrow>
     (case m w of (Inl e, w') \<Rightarrow> alive loaded i (w_db w') | (Inr out, w') \<Rightarrow> settled i out (w_db w'))"
    and h: "\<And>e. \<forall>w. alive loaded i (w_db w) \<longrightarrow>
     (case h e w of (Inl e, w') \<Rightarrow> alive loaded i (w_db w') | (Inr out, w') \<Rightarrow> settled i out (w_db w'))"
    and a: "alive loaded i (w_db w)"
  obtain y w1 where y: "m w = (y, w1)" by (rule prod.exhaust)
  show "case catchA m h w of (Inl e, w') \<Rightarrow> alive loaded i (w_db w') | (Inr out, w') \<Rightarrow> settled i out (w_db w')"
    using m [rule_format, OF a] h y by (cases y) (simp_all add: catchA_def)
qed

lemma settles_handle_after: "env_ok rt \<Longrightarrow> settles loaded i (handle_after rt p loaded i e)"
  unfolding handle_after_def by (auto intro!: settles_ends settles_error)

lemma get_run_ids: "get_run d i \<noteq> None \<longleftrightarrow> i \<in> run_id ` set (collection_runs d)"
  by (auto simp: get_run_def find_None_iff)

lemma start_run_alive:
  assumes "start_run guard gen now loaded p mode d = Inr ((i, cursor), d')" and "runs_inv d'"
  shows "alive loaded i d'"
proof -
  obtain t where t: "get_target d (tgt_id (lt_target loaded)) = Some t"
    using assms(1) by (auto simp: start_run_def split: option.splits)
  have "i \<in> run_id ` set (collection_runs d') \<and> collection_targets d' = collection_targets d"
    using assms(1) t
    by (auto simp: start_run_def Let_def bindR_Inr_iff add_run_def find_running_def find_Some_iff
        dest!: commit_eq split: if_splits option.splits)
  then show ?thesis using t assms(2) get_run_ids [of d' i] by (simp add: alive_def get_target_def)
qed

lemma prepare_alive:
  assumes "env_ok rt" and "fresh_ids rt" and "runs_inv (w_db w)" and "prepare rt p mode w = (Inr (Inr (loaded, cred, i, cursor)), w')"
  shows "alive loaded i (w_db w')"
proof -
  obtain now d where "start_run (rt_guard rt) (rt_gen rt) now loaded p mode d = Inr ((i, cursor), w_db w')"
    using assms(4)
    by (auto simp: prepare_def bindA_def ret_def lift_def tx_def Let_def split: prod.splits sum.splits exn.splits)
  moreover have "runs_inv (w_db w')" using act_okD [OF act_ok_prepare [OF assms(1,2)] assms(3,4)] by blast
  ultimately show ?thesis by (rule start_run_alive)
qed

lemma prepare_outcome:
  assumes "prepare rt p mode w = (Inr (Inl out), w')"
  shows "out_run_id out = None"
  using assms
  by (auto simp: prepare_def bindA_def ret_def lift_def outcome_def split: prod.splits sum.splits exn.splits)

lemma handle_before_outcome: "handle_before p e w = (Inr out, w') \<Longrightarrow> out_run_id out = None"
  by (auto simp: handle_before_def ret_def lift_def outcome_def split: if_splits)

text \<open>Property C6.  A worker that holds the lock and reports an outcome for a run leaves that run in the database in a
  status that agrees with the report: \<open>succeeded\<close> and \<open>no_new_items\<close> on a finished run, \<open>partial\<close> on a partial one,
  \<open>failed\<close> on a failed one, \<open>retry\<close> on a run that is still running or was failed for a lost lock.  This holds whatever
  the provider answers, whichever exception is raised and whatever other processes do between the worker's actions, as
  long as they act through the transactions of the control plane.\<close>

theorem worker_settles_run:
  assumes "env_ok rt" and "fresh_ids rt" and "runs_inv (w_db w)"
    and "locked_body rt p mode key owner w = (Inr out, w')" and "out_run_id out = Some i"
  shows "\<exists>run. get_run (w_db w') i = Some run \<and> status_agrees (out_status out) (run_status run)"
proof -
  obtain y w1 where y: "prepare rt p mode w = (y, w1)" by (rule prod.exhaust)
  consider e where "y = Inl e" | out' where "y = Inr (Inl out')" | loaded cred j cursor where "y = Inr (Inr (loaded, cred, j, cursor))"
    by (metis obj_sumE prod.exhaust)
  then show ?thesis
  proof cases
    case (1 e)
    then show ?thesis using y assms(4,5) by (auto simp: locked_body_def dest: handle_before_outcome)
  next
    case (2 out')
    then show ?thesis using y assms(4,5) by (auto simp: locked_body_def dest: prepare_outcome)
  next
    case (3 loaded cred j cursor)
    note y' = y [unfolded 3]
    have "settles loaded j (catchA (collect rt p mode loaded cred j cursor key owner) (handle_after rt p loaded j))"
      by (intro settles_catch settles_collect settles_handle_after assms(1) prepare_budget [OF assms(1-3) y'])
    moreover have "catchA (collect rt p mode loaded cred j cursor key owner) (handle_after rt p loaded j) w1 = (Inr out, w')"
      using assms(4) y' by (simp add: locked_body_def)
    ultimately have "settled j out (w_db w')" using prepare_alive [OF assms(1-3) y'] by (fastforce simp: settles_def)
    then show ?thesis using assms(5) by (simp add: settled_def)
  qed
qed

text \<open>Property C27.  When a single fetch brings nothing new and its result carries factual projections, the worker does
  not record \<open>no_new_items\<close>: \<open>replace\<close> empties the raw items and keeps the facts, so the result's own check refuses it,
  nothing is persisted, and the caller ends the run with \<open>collection_control_plane_failed\<close>.\<close>

theorem no_new_items_with_facts_fails:
  assumes "decide_cursor (rt_lib rt) (strategy_value (tgt_cursor_strategy (lt_target loaded)))
             (case cursor of None \<Rightarrow> None | Some c \<Rightarrow> cur_cursor_value c) (pres_next_cursor result) = Inr decision"
    and "action decision = ''no_new_items''" and "pres_factual_projections result \<noteq> []"
    and "env_ok rt" and "alive loaded i (w_db w)"
    and "catchA (finish_single rt p mode loaded i cursor result) (handle_after rt p loaded i) w = (Inr out, w')"
  shows "finish_single rt p mode loaded i cursor result w = (value_error ''provider_result_factual_count_mismatch'', w)
     \<and> out = outcome p ''failed'' (Some i) (Some ''collection_control_plane_failed'')
     \<and> (\<exists>run. get_run (w_db w') i = Some run \<and> run_status run = Run_FAILED)"
proof -
  have bad: "new_fetch_result (without_items result) = value_error ''provider_result_factual_count_mismatch''"
    using assms(3) by (simp add: new_fetch_result_def without_items_def)
  have one: "finish_single rt p mode loaded i cursor result w = (value_error ''provider_result_factual_count_mismatch'', w)"
    using assms(1,2) bad by (simp add: finish_single_def bindA_def lift_def)
  have h: "handle_after rt p loaded i (ValueError ''provider_result_factual_count_mismatch'') w = (Inr out, w')"
    using assms(6) one by (simp add: catchA_def)
  then have "out = outcome p ''failed'' (Some i) (Some ''collection_control_plane_failed'')"
    by (auto simp: handle_after_def is_TargetLockLost_def is_SQLAlchemyError_def bindA_def ret_def
        split: prod.splits sum.splits)
  moreover have "settled i out (w_db w')"
    using settles_handle_after [OF assms(4), of loaded i p "ValueError ''provider_result_factual_count_mismatch''"] h assms(5)
    by (fastforce simp: settles_def)
  ultimately show ?thesis using one by (auto simp: status_agrees_def)
qed

subsection \<open>Closed instances\<close>

definition fresh_run_id :: "db \<Rightarrow> uuid" where
  "fresh_run_id d = fresh_string (map run_id (collection_runs d))"

lemma fresh_run_id_new: "fresh_run_id d \<notin> run_id ` set (collection_runs d)"
  using fresh_string_new [of "map run_id (collection_runs d)"] by (simp add: fresh_run_id_def)

definition sample_runtime :: "adapter_answer \<Rightarrow> (string \<rightharpoonup> string \<times> time) runtime" where
  "sample_runtime answer =
     \<lparr>rt_lib = sample_lib, rt_api = store_api, rt_registry = operation_registry, rt_guard = accept_all,
      rt_environ = (\<lambda>_. Some ''token''), rt_ids = sample_ids, rt_gen = fresh_run_id, rt_owner = (\<lambda>_. ''owner''),
      rt_fetch = (\<lambda>_ _ _ _ w. (answer, Some (w_now w + 1))), rt_lost = (\<lambda>_. None), rt_env = (\<lambda>_ w. w\<lparr>w_now := w_now w + 1\<rparr>)\<rparr>"

lemma sample_runtime_ok: "env_ok (sample_runtime answer)" "fresh_ids (sample_runtime answer)"
  by (simp_all add: env_ok_def fresh_ids_def sample_runtime_def fresh_run_id_new)

definition sample_world :: "db \<Rightarrow> (string \<rightharpoonup> string \<times> time) world" where
  "sample_world d = \<lparr>w_db = d, w_redis = Map.empty, w_now = 5, w_tick = 0\<rparr>"

definition sample_locked :: "(string \<rightharpoonup> string \<times> time) world" where
  "sample_locked = (sample_world sample_db)\<lparr>w_redis := [''lock'' \<mapsto> (''owner'', 90000000)]\<rparr>"

theorem worker_settles_run_witness:
  "\<exists>out w'. locked_body (sample_runtime (Answer sample_progress)) sample_dispatch NORMAL ''lock'' ''owner'' sample_locked = (Inr out, w')
     \<and> out_status out = ''succeeded'' \<and> (\<exists>run. get_run (w_db w') ''x'' = Some run \<and> run_status run \<in> {Run_SUCCEEDED, Run_PARTIAL})"
proof -
  let ?b = "locked_body (sample_runtime (Answer sample_progress)) sample_dispatch NORMAL ''lock'' ''owner'' sample_locked"
  have "fst ?b = Inr (outcome sample_dispatch ''succeeded'' (Some ''x'') None)" by code_simp
  then obtain w' where b: "?b = (Inr (outcome sample_dispatch ''succeeded'' (Some ''x'') None), w')" by (metis prod.collapse)
  have inv: "runs_inv (w_db sample_locked)" by (simp add: sample_locked_def sample_world_def sample_runs_inv)
  from worker_settles_run [OF sample_runtime_ok inv b] b show ?thesis by (simp add: outcome_def status_agrees_def)
qed

definition sample_repeat :: ProviderFetchResult where
  "sample_repeat = sample_progress\<lparr>pres_raw_items := [sample_envelope], pres_sanitized_metadata := [[]],
     pres_factual_projections := [[(''title'', JStr ''Title'')]]\<rparr>"

definition seen_cursor :: CollectionCursor where
  "seen_cursor = sample_cursor\<lparr>cur_cursor_value := Some later_cursor, cur_continuation := None, cur_continuation_run_id := None\<rparr>"

theorem no_new_items_with_facts_fails_witness:
  "\<exists>w'. catchA (finish_single (sample_runtime AnswerTimeout) sample_dispatch NORMAL sample_loaded ''run1'' (Some seen_cursor) sample_repeat)
       (handle_after (sample_runtime AnswerTimeout) sample_dispatch sample_loaded ''run1'') (sample_world sample_started)
     = (Inr (outcome sample_dispatch ''failed'' (Some ''run1'') (Some ''collection_control_plane_failed'')), w')
   \<and> (\<exists>run. get_run (w_db w') ''run1'' = Some run \<and> run_status run = Run_FAILED)"
proof -
  let ?c = "catchA (finish_single (sample_runtime AnswerTimeout) sample_dispatch NORMAL sample_loaded ''run1'' (Some seen_cursor) sample_repeat)
       (handle_after (sample_runtime AnswerTimeout) sample_dispatch sample_loaded ''run1'') (sample_world sample_started)"
  have "\<not> isl (fst ?c)" by code_simp
  then obtain out w' where c: "?c = (Inr out, w')" by (metis isl_def prod.collapse sum.exhaust_sel)
  have d: "map_sum (\<lambda>_. ()) action (decide_cursor (rt_lib (sample_runtime AnswerTimeout)) (strategy_value (tgt_cursor_strategy (lt_target sample_loaded)))
      (case Some seen_cursor of None \<Rightarrow> None | Some c \<Rightarrow> cur_cursor_value c) (pres_next_cursor sample_repeat)) = Inr ''no_new_items''"
    by code_simp
  have facts: "pres_factual_projections sample_repeat \<noteq> []" by (simp add: sample_repeat_def)
  have live: "alive sample_loaded ''run1'' (w_db (sample_world sample_started))" by code_simp
  obtain decision where dd: "decide_cursor (rt_lib (sample_runtime AnswerTimeout)) (strategy_value (tgt_cursor_strategy (lt_target sample_loaded)))
      (case Some seen_cursor of None \<Rightarrow> None | Some c \<Rightarrow> cur_cursor_value c) (pres_next_cursor sample_repeat) = Inr decision"
    and a: "action decision = ''no_new_items''"
    using d by (auto simp: map_sum_def split: sum.splits)
  from no_new_items_with_facts_fails [OF dd a facts sample_runtime_ok(1) live c] c show ?thesis by blast
qed

end
