(* ===== verification/Worker_Protocol.thy ===== *)
theory Worker_Protocol
  imports Control_Plane
begin

text \<open>
  The protocol of one dispatch, as an abstract machine, and the refinement: \<open>execute\<close> of \<open>collection/control_plane.py\<close> only ever takes
  steps of this machine.  A phase says what the worker has established so far: that the target is loaded, that its token was set on the
  lock, that its run exists, what the provider answered, and that the lock still held its token after that answer.  A step is enabled only
  in its phase, acts on the target, the run and the token of that phase, and leaves the outcome that belongs to it.  What the machine
  forgets is how the code gets from one step to the next: the page loop, the exception handlers and the \<open>finally\<close>.
\<close>

subsection \<open>Phases\<close>

record run_context =
  rx_loaded :: LoadedTarget
  rx_cred :: RuntimeCredential
  rx_run :: uuid
  rx_owner :: string

text \<open>Why a run is given up.\<close>

datatype failure = Lock_Lost | Run_Error string bool "rat option"

datatype phase =
    Dispatched
  | Admitted LoadedTarget
  | Cleared LoadedTarget
  | Holding string
  | Unauthorised string LoadedTarget string
  | Trusted string RuntimeCredential
  | Reloaded string RuntimeCredential LoadedTarget
  | Opened run_context "CollectionCursor option"
  | Requesting run_context "CollectionCursor option"
  | Responded run_context "CollectionCursor option" ProviderFetchResult
  | Confirmed run_context "CollectionCursor option" ProviderFetchResult
  | Paged run_context
  | Refused run_context ProviderAdapterError
  | Failing run_context failure
  | Ending string "TargetRunOutcome res"
  | Finished "TargetRunOutcome res"

text \<open>The run of a phase, and the token of a phase before the run exists.\<close>

fun running :: "phase \<Rightarrow> run_context option" where
  "running (Opened c cursor) = Some c"
| "running (Requesting c cursor) = Some c"
| "running (Responded c cursor result) = Some c"
| "running (Confirmed c cursor result) = Some c"
| "running (Paged c) = Some c"
| "running (Refused c err) = Some c"
| "running (Failing c f) = Some c"
| "running ph = None"

fun preparing :: "phase \<Rightarrow> string option" where
  "preparing (Holding owner) = Some owner"
| "preparing (Unauthorised owner loaded m) = Some owner"
| "preparing (Trusted owner cred) = Some owner"
| "preparing (Reloaded owner cred loaded) = Some owner"
| "preparing ph = None"

subsection \<open>What the steps refer to\<close>

definition lock_key_of :: "TargetDispatch \<Rightarrow> string" where
  "lock_key_of p = target_lock_key (disp_target_id p) (disp_run_mode p)"

definition addressed :: "TargetDispatch \<Rightarrow> CollectionRunMode \<Rightarrow> bool" where
  "addressed p mode \<longleftrightarrow> run_mode_of (disp_run_mode p) = Some mode
     \<and> disp_dispatch_id p = dispatch_identity (disp_target_id p) (disp_config_revision p) (disp_scheduled_slot p) (run_mode_value mode)"

definition loads :: "'r runtime \<Rightarrow> TargetDispatch \<Rightarrow> 'r world \<Rightarrow> LoadedTarget res" where
  "loads rt p w = load_for_execution (rt_lib rt) (rt_registry rt) (disp_target_id p) (disp_config_revision p) (w_db w)"

definition fetches :: "'r runtime \<Rightarrow> adapter_kind \<Rightarrow> RuntimeCredential \<Rightarrow> ProviderFetchRequest \<Rightarrow> int \<Rightarrow> 'r world \<Rightarrow> fetch_outcome" where
  "fetches rt adapter cred request timeout w =
     (let (answer, finished) = rt_fetch rt adapter cred request timeout w in
      first_completed answer finished (rt_lost rt (w_tick w)) (w_now w + seconds timeout))"

text \<open>A request of the run: the adapter of its target, its credential, its target and limit, under the identity of the dispatch.\<close>

definition asks :: "TargetDispatch \<Rightarrow> run_context \<Rightarrow> adapter_kind \<Rightarrow> ProviderFetchRequest \<Rightarrow> bool" where
  "asks p c adapter request \<longleftrightarrow>
     (let loaded = rx_loaded c; t = lt_target loaded in
      adapter_build (src_access_method (lt_source loaded)) (tgt_operation_key t) (tgt_provider_contract_version t) = Inr adapter
      \<and> pfr_target_id request = Some (tgt_id t) \<and> pfr_config_revision request = Some (tgt_config_revision t)
      \<and> pfr_limit request = tgt_batch_limit t \<and> pfr_correlation_id request = disp_dispatch_id p)"

text \<open>The failure an exception of the run is turned into, if a handler takes it, and the result of an exception before the run.\<close>

definition failure_of :: "exn \<Rightarrow> failure option" where
  "failure_of e =
     (if is_TargetLockLost e then Some Lock_Lost
      else if is_SQLAlchemyError e then Some (Run_Error ''collection_database_failed'' True None)
      else if is_ValueError e \<or> is_RuntimeError e then Some (Run_Error ''collection_control_plane_failed'' False None)
      else None)"

definition early_result :: "TargetDispatch \<Rightarrow> exn \<Rightarrow> TargetRunOutcome res" where
  "early_result p e =
     (if is_TargetLockLost e then Inr (outcome p ''retry'' None (Some ''target_lock_lost''))
      else if is_SQLAlchemyError e then Inr (outcome p ''failed'' None (Some ''collection_database_failed''))
      else if is_ValueError e \<or> is_RuntimeError e then Inr (outcome p ''failed'' None (Some ''collection_control_plane_failed''))
      else Inl e)"

definition refused_dispatch :: "TargetDispatch \<Rightarrow> exn \<Rightarrow> TargetRunOutcome res" where
  "refused_dispatch p e = (case e of TargetRepositoryError m \<Rightarrow> Inr (outcome p ''blocked'' None (Some m)) | _ \<Rightarrow> Inl e)"

text \<open>What is persisted of the answer to a single request, and the outcome that is reported for it.\<close>

definition single_decision :: "'r runtime \<Rightarrow> run_context \<Rightarrow> CollectionCursor option \<Rightarrow> ProviderFetchResult \<Rightarrow> CursorDecision res" where
  "single_decision rt c cursor result =
     decide_cursor (rt_lib rt) (strategy_value (tgt_cursor_strategy (lt_target (rx_loaded c))))
       (case cursor of None \<Rightarrow> None | Some k \<Rightarrow> cur_cursor_value k) (pres_next_cursor result)"

definition single_result :: "CursorDecision \<Rightarrow> ProviderFetchResult \<Rightarrow> ProviderFetchResult" where
  "single_result decision result = (if action decision = ''no_new_items'' then without_items result else result)"

definition single_outcome :: "TargetDispatch \<Rightarrow> uuid \<Rightarrow> CursorDecision \<Rightarrow> ProviderFetchResult \<Rightarrow> TargetRunOutcome" where
  "single_outcome p i decision kept =
     (if pres_has_more kept then outcome p ''partial'' (Some i) (Some ''coverage_incomplete'')
      else outcome p (if action decision = ''no_new_items'' then ''no_new_items'' else ''succeeded'') (Some i) None)"

definition page_outcome :: "TargetDispatch \<Rightarrow> uuid \<Rightarrow> ProviderFetchResult \<Rightarrow> TargetRunOutcome" where
  "page_outcome p i result =
     (if incomplete result then outcome p ''partial'' (Some i) (Some ''coverage_incomplete'') else outcome p ''succeeded'' (Some i) None)"

definition persists ::
  "'r runtime \<Rightarrow> TargetDispatch \<Rightarrow> CollectionRunMode \<Rightarrow> run_context \<Rightarrow> CollectionCursor option \<Rightarrow> ProviderFetchResult \<Rightarrow> persist_mode
     \<Rightarrow> 'r world \<Rightarrow> db res" where
  "persists rt p mode c cursor result m w =
     persist_result (rt_lib rt) (rt_guard rt) (rt_ids rt) (rt_gen rt) (w_now w) (rx_loaded c) p (rx_run c) cursor result mode m (w_db w)"

subsection \<open>The machine\<close>

inductive dispatch_step :: "'r runtime \<Rightarrow> TargetDispatch \<Rightarrow> phase \<times> 'r world \<Rightarrow> phase \<times> 'r world \<Rightarrow> bool"
  for rt :: "'r runtime" and p :: TargetDispatch where
\<comment> \<open>other processes act, time passes\<close>
  ws_others: "dispatch_step rt p (ph, w) (ph, observe rt w)"
\<comment> \<open>before the lock: nothing is written\<close>
| ws_bad_mode: "run_mode_of (disp_run_mode p) = None \<Longrightarrow>
    dispatch_step rt p (Dispatched, w) (Finished (Inr (outcome p ''blocked'' None (Some ''run_mode_invalid''))), w)"
| ws_bad_identity: "run_mode_of (disp_run_mode p) = Some mode \<Longrightarrow> \<not> addressed p mode \<Longrightarrow>
    dispatch_step rt p (Dispatched, w) (Finished (Inr (outcome p ''blocked'' None (Some ''dispatch_identity_invalid''))), w)"
| ws_refuse: "addressed p mode \<Longrightarrow> loads rt p w = Inl e \<Longrightarrow> dispatch_step rt p (Dispatched, w) (Finished (refused_dispatch p e), w)"
| ws_admit: "addressed p mode \<Longrightarrow> loads rt p w = Inr loaded \<Longrightarrow> dispatch_step rt p (Dispatched, w) (Admitted loaded, w)"
| ws_cooling: "redis_exists (rt_api rt) (w_redis w) (w_now w) (rate_limit_key loaded) \<Longrightarrow>
    dispatch_step rt p (Admitted loaded, w) (Finished (Inr (outcome p ''retry'' None (Some ''rate_limit_group_cooldown''))), w)"
| ws_clear: "\<not> redis_exists (rt_api rt) (w_redis w) (w_now w) (rate_limit_key loaded) \<Longrightarrow>
    dispatch_step rt p (Admitted loaded, w) (Cleared loaded, w)"
| ws_taken: "acquire (rt_api rt) (lock_key_of p) (rt_owner rt n) (tgt_max_runtime_seconds (lt_target loaded) + 30) (w_now w) (w_redis w) = (False, r) \<Longrightarrow>
    dispatch_step rt p (Cleared loaded, w)
      (Finished (Inr (outcome p ''blocked'' None (Some ''target_lock_unavailable''))), w\<lparr>w_redis := r\<rparr>)"
| ws_lock: "acquire (rt_api rt) (lock_key_of p) (rt_owner rt n) (tgt_max_runtime_seconds (lt_target loaded) + 30) (w_now w) (w_redis w) = (True, r) \<Longrightarrow>
    dispatch_step rt p (Cleared loaded, w) (Holding (rt_owner rt n), w\<lparr>w_redis := r\<rparr>)"
\<comment> \<open>with the lock, before the run\<close>
| ws_unauthorised: "loads rt p w = Inr loaded \<Longrightarrow>
    resolve_runtime_credential (src_access_method (lt_source loaded)) (rt_environ rt) = Inl (CredentialResolutionError m) \<Longrightarrow>
    dispatch_step rt p (Holding owner, w) (Unauthorised owner loaded m, w)"
| ws_mark: "mark_credential_missing (rt_guard rt) (w_now w) loaded (w_db w) = Inr d \<Longrightarrow>
    dispatch_step rt p (Unauthorised owner loaded m, w) (Ending owner (Inr (outcome p ''blocked'' None (Some m))), w\<lparr>w_db := d\<rparr>)"
| ws_trust: "loads rt p w = Inr loaded \<Longrightarrow>
    resolve_runtime_credential (src_access_method (lt_source loaded)) (rt_environ rt) = Inr cred \<Longrightarrow>
    dispatch_step rt p (Holding owner, w) (Trusted owner cred, w)"
| ws_reload: "loads rt p w = Inr loaded \<Longrightarrow> dispatch_step rt p (Trusted owner cred, w) (Reloaded owner cred loaded, w)"
| ws_start: "addressed p mode \<Longrightarrow> start_run (rt_guard rt) (rt_gen rt) (w_now w) loaded p mode (w_db w) = Inr ((i, cursor), d) \<Longrightarrow>
    dispatch_step rt p (Reloaded owner cred loaded, w)
      (Opened \<lparr>rx_loaded = loaded, rx_cred = cred, rx_run = i, rx_owner = owner\<rparr> cursor, w\<lparr>w_db := d\<rparr>)"
| ws_give_up: "preparing ph = Some owner \<Longrightarrow> dispatch_step rt p (ph, w) (Ending owner (early_result p e), w)"
\<comment> \<open>the requests of the run\<close>
| ws_pin: "addressed p mode \<Longrightarrow> bounded (rx_loaded c) \<Longrightarrow>
    resolved_run_config (rt_lib rt) (rt_guard rt) (rt_gen rt) (w_now w) (rx_run c) (rx_loaded c) cursor mode (w_db w) = Inr (x, d) \<Longrightarrow>
    dispatch_step rt p (Opened c cursor, w) (Opened c cursor, w\<lparr>w_db := d\<rparr>)"
| ws_page_claimed: "bounded (rx_loaded c) \<Longrightarrow> claim_page (rt_guard rt) (w_now w) (rx_loaded c) p (rx_run c) (w_db w) = Inr (Some t, d) \<Longrightarrow>
    dispatch_step rt p (Opened c cursor, w) (Requesting c cursor, w\<lparr>w_db := d\<rparr>)"
| ws_exhausted: "bounded (rx_loaded c) \<Longrightarrow> claim_page (rt_guard rt) (w_now w) (rx_loaded c) p (rx_run c) (w_db w) = Inr (None, d) \<Longrightarrow>
    dispatch_step rt p (Opened c cursor, w)
      (Ending (rx_owner c) (Inr (outcome p ''partial'' (Some (rx_run c)) (Some ''coverage_incomplete''))), w\<lparr>w_db := d\<rparr>)"
| ws_single: "\<not> bounded (rx_loaded c) \<Longrightarrow> dispatch_step rt p (Opened c cursor, w) (Requesting c cursor, w)"
| ws_answer: "asks p c adapter request \<Longrightarrow> fetches rt adapter (rx_cred c) request timeout w = Fetched result \<Longrightarrow> pres_safe_errors result = [] \<Longrightarrow>
    dispatch_step rt p (Requesting c cursor, w) (Responded c cursor result, w)"
| ws_refusal: "asks p c adapter request \<Longrightarrow> fetches rt adapter (rx_cred c) request timeout w = Fetched result \<Longrightarrow>
    pres_safe_errors result = err # errs \<Longrightarrow> dispatch_step rt p (Requesting c cursor, w) (Refused c err, w)"
| ws_fetch_lost: "asks p c adapter request \<Longrightarrow> fetches rt adapter (rx_cred c) request timeout w = FetchLockLost \<Longrightarrow>
    dispatch_step rt p (Requesting c cursor, w) (Failing c Lock_Lost, w)"
| ws_fetch_late: "asks p c adapter request \<Longrightarrow> fetches rt adapter (rx_cred c) request timeout w = FetchTimeout \<Longrightarrow>
    dispatch_step rt p (Requesting c cursor, w)
      (Failing c (Run_Error ''provider_runtime_deadline_exceeded'' (\<not> bounded (rx_loaded c)) None), w)"
| ws_overdue: "bounded (rx_loaded c) \<Longrightarrow> dispatch_step rt p (Requesting c cursor, w)
      (Failing c (Run_Error ''provider_runtime_deadline_exceeded'' False None), w)"
\<comment> \<open>an answer is persisted only after the lock was seen to hold the token\<close>
| ws_confirm: "redis_get (rt_api rt) (w_redis w) (w_now w) (lock_key_of p) = Some (rx_owner c) \<Longrightarrow>
    dispatch_step rt p (Responded c cursor result, w) (Confirmed c cursor result, w)"
| ws_usurped: "redis_get (rt_api rt) (w_redis w) (w_now w) (lock_key_of p) \<noteq> Some (rx_owner c) \<Longrightarrow>
    dispatch_step rt p (Responded c cursor result, w) (Failing c Lock_Lost, w)"
| ws_persist_single: "addressed p mode \<Longrightarrow> \<not> bounded (rx_loaded c) \<Longrightarrow> single_decision rt c cursor result = Inr decision \<Longrightarrow>
    persists rt p mode c cursor (single_result decision result) \<lparr>pm_page_mode = False, pm_final = True, pm_observation_key = ''run''\<rparr> w = Inr d \<Longrightarrow>
    dispatch_step rt p (Confirmed c cursor result, w)
      (Ending (rx_owner c) (Inr (single_outcome p (rx_run c) decision (single_result decision result))), w\<lparr>w_db := d\<rparr>)"
| ws_bad_cursor: "\<not> bounded (rx_loaded c) \<Longrightarrow> single_decision rt c cursor result = Inl e \<Longrightarrow>
    dispatch_step rt p (Confirmed c cursor result, w) (Failing c (Run_Error ''cursor_contract_invalid'' False None), w)"
| ws_persist_page: "addressed p mode \<Longrightarrow> bounded (rx_loaded c) \<Longrightarrow> pres_has_more result \<Longrightarrow> \<not> pres_coverage_incomplete result \<Longrightarrow>
    persists rt p mode c cursor result \<lparr>pm_page_mode = True, pm_final = False, pm_observation_key = k\<rparr> w = Inr d \<Longrightarrow>
    dispatch_step rt p (Confirmed c cursor result, w) (Paged c, w\<lparr>w_db := d\<rparr>)"
| ws_reread: "addressed p mode \<Longrightarrow> find_cursor_any_version p (rx_loaded c) mode (w_db w) = Inr cursor \<Longrightarrow>
    dispatch_step rt p (Paged c, w) (Opened c cursor, w)"
| ws_persist_last: "addressed p mode \<Longrightarrow> bounded (rx_loaded c) \<Longrightarrow>
    persists rt p mode c cursor result \<lparr>pm_page_mode = True, pm_final = True, pm_observation_key = k\<rparr> w = Inr d \<Longrightarrow>
    dispatch_step rt p (Confirmed c cursor result, w) (Ending (rx_owner c) (Inr (page_outcome p (rx_run c) result)), w\<lparr>w_db := d\<rparr>)"
\<comment> \<open>a run that is given up\<close>
| ws_cool_down: "pae_code err = RATE_LIMITED \<Longrightarrow>
    redis_set (rt_api rt) (w_redis w) (w_now w) (rate_limit_key (rx_loaded c)) ''cooldown'' False (retry_delay (pae_retry_after_seconds err)) = (b, r) \<Longrightarrow>
    dispatch_step rt p (Refused c err, w)
      (Failing c (Run_Error (pae_safe_message err) (pae_retryable err) (pae_retry_after_seconds err)), w\<lparr>w_redis := r\<rparr>)"
| ws_provider_error: "pae_code err \<noteq> RATE_LIMITED \<Longrightarrow> dispatch_step rt p (Refused c err, w)
      (Failing c (Run_Error (pae_safe_message err) (pae_retryable err) (pae_retry_after_seconds err)), w)"
| ws_raised: "running ph = Some c \<Longrightarrow> failure_of e = Some f \<Longrightarrow> dispatch_step rt p (ph, w) (Failing c f, w)"
| ws_lock_lost: "finish_lock_lost (rt_guard rt) (w_now w) (rx_loaded c) p (rx_run c) (w_db w) = Inr d \<Longrightarrow>
    dispatch_step rt p (Failing c Lock_Lost, w)
      (Ending (rx_owner c) (Inr (outcome p ''retry'' (Some (rx_run c)) (Some ''target_lock_lost''))), w\<lparr>w_db := d\<rparr>)"
| ws_run_error: "finish_error (rt_guard rt) (w_now w) (rx_loaded c) p (rx_run c) code retryable after (w_db w) = Inr (retry, d) \<Longrightarrow>
    dispatch_step rt p (Failing c (Run_Error code retryable after), w)
      (Ending (rx_owner c) (Inr (outcome p (if retry then ''retry'' else ''failed'') (Some (rx_run c)) (Some code))), w\<lparr>w_db := d\<rparr>)"
| ws_unhandled: "running ph = Some c \<Longrightarrow> failure_of e = None \<Longrightarrow> dispatch_step rt p (ph, w) (Ending (rx_owner c) (Inl e), w)"
| ws_handler_raised: "dispatch_step rt p (Failing c f, w) (Ending (rx_owner c) (Inl e), w)"
\<comment> \<open>the lock is given back by compare-and-delete\<close>
| ws_release: "dispatch_step rt p (Ending owner res, w)
      (Finished res, w\<lparr>w_redis := compare_delete (rt_api rt) (lock_key_of p) owner (w_now w) (w_redis w)\<rparr>)"

abbreviation dispatch_steps :: "'r runtime \<Rightarrow> TargetDispatch \<Rightarrow> phase \<times> 'r world \<Rightarrow> phase \<times> 'r world \<Rightarrow> bool" where
  "dispatch_steps rt p \<equiv> (dispatch_step rt p)\<^sup>*\<^sup>*"

subsection \<open>Actions that follow the protocol\<close>

text \<open>From the phase \<open>ph\<close> the action takes the machine to a phase that \<open>Q\<close> allows for its result.\<close>

definition follows :: "'r runtime \<Rightarrow> TargetDispatch \<Rightarrow> phase \<Rightarrow> ('r, 'a) act \<Rightarrow> ('a res \<Rightarrow> phase \<Rightarrow> bool) \<Rightarrow> bool" where
  "follows rt p ph m Q \<longleftrightarrow> (\<forall>w. \<exists>ph'. Q (fst (m w)) ph' \<and> dispatch_steps rt p (ph, w) (ph', snd (m w)))"

lemma follows_at: "follows rt p ph m Q \<Longrightarrow> m w = (x, w') \<Longrightarrow> \<exists>ph'. Q x ph' \<and> dispatch_steps rt p (ph, w) (ph', w')"
  unfolding follows_def by (metis fst_conv snd_conv)

lemma follows_ret: "Q (Inr x) ph \<Longrightarrow> follows rt p ph (ret x) Q" and follows_lift: "Q y ph \<Longrightarrow> follows rt p ph (lift y) Q"
  by (auto simp: follows_def ret_def lift_def)

lemma follows_bind:
  assumes "follows rt p ph m Q" and "\<And>x ph'. Q (Inr x) ph' \<Longrightarrow> follows rt p ph' (f x) R" and "\<And>e ph'. Q (Inl e) ph' \<Longrightarrow> R (Inl e) ph'"
  shows "follows rt p ph (bindA m f) R"
  unfolding follows_def
proof
  fix w
  obtain y w1 where m: "m w = (y, w1)" by (rule prod.exhaust)
  from follows_at [OF assms(1) m] obtain ph1 where one: "Q y ph1" "dispatch_steps rt p (ph, w) (ph1, w1)" by blast
  show "\<exists>ph'. R (fst (bindA m f w)) ph' \<and> dispatch_steps rt p (ph, w) (ph', snd (bindA m f w))"
  proof (cases y)
    case (Inl e)
    with one m assms(3) show ?thesis by (auto simp: bindA_def)
  next
    case (Inr x)
    obtain z w2 where f: "f x w1 = (z, w2)" by (rule prod.exhaust)
    from follows_at [OF assms(2) [OF one(1) [unfolded Inr]] f] one(2) m f Inr show ?thesis
      by (auto simp: bindA_def intro: rtranclp_trans)
  qed
qed

lemma follows_if: "follows rt p ph a Q \<Longrightarrow> follows rt p ph b Q \<Longrightarrow> follows rt p ph (if g then a else b) Q"
  by simp

lemma follows_after: "(\<And>w. dispatch_step rt p (ph, w) (ph1, w)) \<Longrightarrow> follows rt p ph1 m Q \<Longrightarrow> follows rt p ph m Q"
  unfolding follows_def by (metis converse_rtranclp_into_rtranclp)

lemma observe_step: "dispatch_step rt p (ph, observe rt w) (ph', w') \<Longrightarrow> dispatch_steps rt p (ph, w) (ph', w')"
  by (rule converse_rtranclp_into_rtranclp, rule ws_others, rule r_into_rtranclp)

lemma observe_only: "dispatch_steps rt p (ph, w) (ph, observe rt w)"
  by (rule r_into_rtranclp, rule ws_others)

lemma follows_tx:
  assumes "\<And>w x d. f (w_now w) (w_db w) = Inr (x, d) \<Longrightarrow> \<exists>ph'. Q (Inr x) ph' \<and> dispatch_step rt p (ph, w) (ph', w\<lparr>w_db := d\<rparr>)"
    and "\<And>e. Q (Inl e) ph"
  shows "follows rt p ph (tx rt f) Q"
  unfolding follows_def
proof
  fix w
  show "\<exists>ph'. Q (fst (tx rt f w)) ph' \<and> dispatch_steps rt p (ph, w) (ph', snd (tx rt f w))"
  proof (cases "f (w_now (observe rt w)) (w_db (observe rt w))")
    case (Inl e)
    with assms(2) [of e] observe_only [of rt p ph w] show ?thesis by (auto simp: tx_def Let_def)
  next
    case (Inr y)
    then show ?thesis using assms(1) [of "observe rt w" "fst y" "snd y"] observe_step by (cases y) (fastforce simp: tx_def Let_def)
  qed
qed

lemma follows_query:
  assumes "\<And>w. \<exists>ph'. Q (f (w_db w)) ph' \<and> (ph' = ph \<or> dispatch_step rt p (ph, w) (ph', w))"
  shows "follows rt p ph (query rt f) Q"
  using assms observe_step observe_only unfolding follows_def query_def Let_def fst_conv snd_conv by metis

lemma follows_clock: "(\<And>t. Q (Inr t) ph) \<Longrightarrow> follows rt p ph (clock rt) Q"
  using observe_only unfolding follows_def clock_def Let_def fst_conv snd_conv by metis

lemma follows_redis:
  assumes "\<And>w x r. f (w_now w) (w_redis w) = (x, r) \<Longrightarrow> \<exists>ph'. Q (Inr x) ph' \<and> dispatch_step rt p (ph, w) (ph', w\<lparr>w_redis := r\<rparr>)"
  shows "follows rt p ph (redis rt f) Q"
  unfolding follows_def
proof
  fix w
  obtain x r where f: "f (w_now (observe rt w)) (w_redis (observe rt w)) = (x, r)" by (rule prod.exhaust)
  from assms [OF f] obtain ph' where "Q (Inr x) ph'" "dispatch_step rt p (ph, observe rt w) (ph', observe rt w\<lparr>w_redis := r\<rparr>)" by blast
  with f observe_step show "\<exists>ph'. Q (fst (redis rt f w)) ph' \<and> dispatch_steps rt p (ph, w) (ph', snd (redis rt f w))"
    by (fastforce simp: redis_def Let_def)
qed

subsection \<open>The exits of a run\<close>

text \<open>A part of the run either ends it with an outcome or raises while the run is still open.\<close>

definition closing :: "run_context \<Rightarrow> TargetRunOutcome res \<Rightarrow> phase \<Rightarrow> bool" where
  "closing c res ph = (case res of Inl e \<Rightarrow> running ph = Some c | Inr out \<Rightarrow> ph = Ending (rx_owner c) (Inr out))"

lemma closing_simps [simp]:
  "closing c (Inl e) ph = (running ph = Some c)" "closing c (Inr out) ph = (ph = Ending (rx_owner c) (Inr out))"
  by (simp_all add: closing_def)

text \<open>A transaction that ends the run with an outcome of its result.\<close>

lemma follows_last_tx:
  assumes "running ph = Some c"
    and "\<And>w x d. f (w_now w) (w_db w) = Inr (x, d) \<Longrightarrow> dispatch_step rt p (ph, w) (Ending (rx_owner c) (Inr (g x)), w\<lparr>w_db := d\<rparr>)"
  shows "follows rt p ph (bindA (tx rt f) (\<lambda>x. ret (g x))) (closing c)"
  by (rule follows_bind [where Q = "\<lambda>y ph'. case y of Inl e \<Rightarrow> ph' = ph | Inr x \<Rightarrow> ph' = Ending (rx_owner c) (Inr (g x))"])
     (auto intro!: follows_tx follows_ret assms)

lemma follows_lock_lost:
  "follows rt p (Failing c Lock_Lost) (end_lock_lost rt p (rx_loaded c) (rx_run c)) (closing c)"
  unfolding end_lock_lost_def by (rule follows_last_tx) (auto simp: bindR_Inr_iff intro: ws_lock_lost)

lemma follows_error:
  "follows rt p (Failing c (Run_Error code retryable after)) (end_error rt p (rx_loaded c) (rx_run c) code retryable after) (closing c)"
  unfolding end_error_def by (rule follows_last_tx, simp, rule ws_run_error)

lemma finish_error_final: "finish_error guard now loaded p i code False after d = Inr (x, d') \<Longrightarrow> \<not> x"
  by (auto simp: finish_error_def bindR_Inr_iff Let_def split: option.splits if_splits)

lemma run_error_final:
  assumes "finish_error (rt_guard rt) (w_now w) (rx_loaded c) p (rx_run c) code False after (w_db w) = Inr (x, d)"
  shows "dispatch_step rt p (Failing c (Run_Error code False after), w)
    (Ending (rx_owner c) (Inr (outcome p ''failed'' (Some (rx_run c)) (Some code))), w\<lparr>w_db := d\<rparr>)"
  using ws_run_error [OF assms] finish_error_final [OF assms] by simp

lemma follows_final_error:
  "follows rt p (Failing c (Run_Error code False after))
    (bindA (tx rt (\<lambda>now. finish_error (rt_guard rt) now (rx_loaded c) p (rx_run c) code False after))
       (\<lambda>_. ret (outcome p ''failed'' (Some (rx_run c)) (Some code)))) (closing c)"
  by (rule follows_last_tx, simp, rule run_error_final)

lemma follows_provider_error:
  "follows rt p (Refused c err) (end_provider_error rt p (rx_loaded c) (rx_run c) err) (closing c)"
proof -
  let ?f = "Failing c (Run_Error (pae_safe_message err) (pae_retryable err) (pae_retry_after_seconds err))"
  have "follows rt p (Refused c err)
      (if pae_code err = RATE_LIMITED
       then redis rt (\<lambda>now r. ((), snd (redis_set (rt_api rt) r now (rate_limit_key (rx_loaded c)) ''cooldown'' False
                                        (retry_delay (pae_retry_after_seconds err)))))
       else ret ()) (\<lambda>y ph. y = Inr () \<and> ph = ?f)"
  proof (cases "pae_code err = RATE_LIMITED")
    case True
    then show ?thesis by (auto intro!: follows_redis ws_cool_down [OF True] simp: prod_eq_iff)
  next
    case False
    then show ?thesis by (simp, intro follows_after [OF ws_provider_error] follows_ret) simp_all
  qed
  then show ?thesis unfolding end_provider_error_def by (rule follows_bind) (auto intro: follows_error)
qed

text \<open>A provider call from the phase of a claimed request.\<close>

fun fetched_phase :: "run_context \<Rightarrow> CollectionCursor option \<Rightarrow> fetch_outcome \<Rightarrow> phase" where
  "fetched_phase c cursor (Fetched result) = (case pres_safe_errors result of [] \<Rightarrow> Responded c cursor result | err # _ \<Rightarrow> Refused c err)"
| "fetched_phase c cursor FetchLockLost = Failing c Lock_Lost"
| "fetched_phase c cursor FetchTimeout = Failing c (Run_Error ''provider_runtime_deadline_exceeded'' (\<not> bounded (rx_loaded c)) None)"
| "fetched_phase c cursor (FetchRaised e) = Requesting c cursor"

lemma fetched_step:
  assumes "asks p c adapter request" and "fetches rt adapter (rx_cred c) request timeout w = x"
  shows "dispatch_steps rt p (Requesting c cursor, w) (fetched_phase c cursor x, w)"
proof (cases x)
  case (Fetched result)
  note f = assms(2) [unfolded Fetched]
  show ?thesis
    using ws_answer [OF assms(1) f] ws_refusal [OF assms(1) f] Fetched by (cases "pres_safe_errors result") (auto intro: r_into_rtranclp)
qed (use assms ws_fetch_lost ws_fetch_late in \<open>auto intro!: r_into_rtranclp\<close>)

lemma follows_fetch:
  assumes "asks p c adapter request"
  shows "follows rt p (Requesting c cursor) (fetch_with_lock rt adapter (rx_cred c) request timeout)
    (\<lambda>y ph. \<exists>x. y = Inr x \<and> ph = fetched_phase c cursor x)"
  unfolding follows_def
proof
  fix w
  let ?w = "observe rt w" and ?x = "fetches rt adapter (rx_cred c) request timeout (observe rt w)"
  have run: "fetch_with_lock rt adapter (rx_cred c) request timeout w = (Inr ?x, ?w)"
    by (simp add: fetch_with_lock_def fetches_def Let_def split: prod.split)
  have "dispatch_steps rt p (Requesting c cursor, w) (fetched_phase c cursor ?x, ?w)"
    by (rule rtranclp_trans, rule observe_only, rule fetched_step [OF assms], rule refl)
  with run show "\<exists>ph'. (\<exists>x. fst (fetch_with_lock rt adapter (rx_cred c) request timeout w) = Inr x \<and> ph' = fetched_phase c cursor x)
      \<and> dispatch_steps rt p (Requesting c cursor, w) (ph', snd (fetch_with_lock rt adapter (rx_cred c) request timeout w))"
    by auto
qed

lemma follows_holder:
  "follows rt p (Responded c cursor result) (get_lock rt (lock_key_of p))
    (\<lambda>y ph. \<exists>holder. y = Inr holder \<and> ph = (if holder = Some (rx_owner c) then Confirmed c cursor result else Failing c Lock_Lost))"
  unfolding get_lock_def by (rule follows_redis) (auto intro: ws_confirm ws_usurped)

subsection \<open>The refinement\<close>

lemma follows_finish_single:
  assumes "addressed p mode" and "\<not> bounded (rx_loaded c)"
  shows "follows rt p (Confirmed c cursor result) (finish_single rt p mode (rx_loaded c) (rx_run c) cursor result) (closing c)"
proof (cases "single_decision rt c cursor result")
  case (Inl e)
  have "follows rt p (Failing c (Run_Error ''cursor_contract_invalid'' False None))
      (finish_single rt p mode (rx_loaded c) (rx_run c) cursor result) (closing c)"
    using follows_final_error Inl by (simp add: finish_single_def single_decision_def)
  then show ?thesis by (rule follows_after [rotated]) (rule ws_bad_cursor [OF assms(2) Inl])
next
  case (Inr decision)
  let ?kept = "single_result decision result"
  let ?m = "\<lparr>pm_page_mode = False, pm_final = True, pm_observation_key = ''run''\<rparr>"
  have kept: "follows rt p (Confirmed c cursor result)
      (if action decision = ''no_new_items'' then lift (new_fetch_result (without_items result)) else ret result)
      (\<lambda>y ph. ph = Confirmed c cursor result \<and> (case y of Inl e \<Rightarrow> True | Inr r \<Rightarrow> r = ?kept))"
    by (auto simp: single_result_def new_fetch_result_def intro!: follows_lift follows_ret)
  have last: "follows rt p (Confirmed c cursor result)
      (bindA (persist_tx rt p mode (rx_loaded c) (rx_run c) cursor ?kept ?m) (\<lambda>_. ret (single_outcome p (rx_run c) decision ?kept))) (closing c)"
    unfolding persist_tx_def
    by (rule follows_last_tx) (use ws_persist_single [OF assms Inr] in \<open>auto simp: bindR_Inr_iff persists_def\<close>)
  have out: "single_outcome p i decision r = outcome p (if pres_has_more r then ''partial'' else if action decision = ''no_new_items'' then ''no_new_items'' else ''succeeded'')
      (Some i) (if pres_has_more r then Some ''coverage_incomplete'' else None)" for i r
    by (simp add: single_outcome_def)
  show ?thesis
    using Inr unfolding finish_single_def single_decision_def
    by (simp only: sum.case) (rule follows_bind [OF kept], auto simp: out [symmetric] last)
qed

lemma follows_single:
  assumes "addressed p mode" and "\<not> bounded (rx_loaded c)"
  shows "follows rt p (fetched_phase c cursor fetched)
    (single_fetch rt p mode (rx_loaded c) (rx_run c) cursor (lock_key_of p) (rx_owner c) fetched) (closing c)"
proof (cases fetched)
  case (Fetched result)
  show ?thesis
  proof (cases "pres_safe_errors result")
    case Nil
    have "follows rt p (Responded c cursor result) (bindA (get_lock rt (lock_key_of p)) (\<lambda>holder.
        if holder \<noteq> Some (rx_owner c) then end_lock_lost rt p (rx_loaded c) (rx_run c)
        else finish_single rt p mode (rx_loaded c) (rx_run c) cursor result)) (closing c)"
      by (rule follows_bind [OF follows_holder]) (auto intro!: follows_lock_lost follows_finish_single [OF assms] split: if_splits)
    with Fetched Nil show ?thesis by (simp add: single_fetch_def)
  next
    case (Cons err errs)
    with Fetched show ?thesis using follows_provider_error by (simp add: single_fetch_def)
  qed
qed (use assms(2) in \<open>auto simp: single_fetch_def intro: follows_lock_lost follows_error follows_lift\<close>)

text \<open>The page loop.\<close>

lemma follows_page:
  assumes "addressed p mode" and "bounded (rx_loaded c)"
    and "final = (pres_coverage_incomplete result \<or> \<not> pres_has_more result \<or> no_pages)"
    and "\<And>cursor. follows rt p (Opened c cursor) (next_page cursor) (closing c)"
  shows "follows rt p (Confirmed c cursor result)
    (bindA (persist_tx rt p mode (rx_loaded c) (rx_run c) cursor result \<lparr>pm_page_mode = True, pm_final = final, pm_observation_key = k\<rparr>) (\<lambda>_.
     if final
     then ret (outcome p (if incomplete result then ''partial'' else ''succeeded'') (Some (rx_run c))
                 (if incomplete result then Some ''coverage_incomplete'' else None))
     else bindA (query rt (find_cursor_any_version p (rx_loaded c) mode)) next_page)) (closing c)"
proof (cases final)
  case True
  have out: "outcome p (if incomplete result then ''partial'' else ''succeeded'') (Some (rx_run c))
      (if incomplete result then Some ''coverage_incomplete'' else None) = page_outcome p (rx_run c) result"
    by (simp add: page_outcome_def)
  show ?thesis
    unfolding persist_tx_def if_P [OF True] out
    by (rule follows_last_tx) (use True ws_persist_last [OF assms(1,2)] in \<open>auto simp: bindR_Inr_iff persists_def\<close>)
next
  case False
  then have more: "pres_has_more result" "\<not> pres_coverage_incomplete result" using assms(3) by auto
  have one: "follows rt p (Confirmed c cursor result)
      (persist_tx rt p mode (rx_loaded c) (rx_run c) cursor result \<lparr>pm_page_mode = True, pm_final = final, pm_observation_key = k\<rparr>)
      (\<lambda>y ph. ph = (case y of Inl e \<Rightarrow> Confirmed c cursor result | Inr _ \<Rightarrow> Paged c))"
    unfolding persist_tx_def
    by (rule follows_tx) (use False ws_persist_page [OF assms(1,2) more] in \<open>auto simp: bindR_Inr_iff persists_def\<close>)
  have two: "follows rt p (Paged c) (query rt (find_cursor_any_version p (rx_loaded c) mode))
      (\<lambda>y ph. \<exists>cursor. y = Inr cursor \<and> ph = Opened c cursor)"
    by (rule follows_query) (auto simp: find_cursor_any_version_def intro: ws_reread [OF assms(1)])
  show ?thesis
    unfolding if_not_P [OF False] by (rule follows_bind [OF one]) (auto intro!: follows_bind [OF two] assms(4))
qed

lemma asks_next:
  "asks p c adapter request \<Longrightarrow> asks p c adapter (request\<lparr>pfr_cursor := a, pfr_continuation := b\<rparr>)"
  by (simp add: asks_def Let_def)

lemma follows_load_to:
  assumes "\<And>w e. loads rt p w = Inl e \<Longrightarrow> Q (Inl e) ph"
    and "\<And>w loaded. loads rt p w = Inr loaded \<Longrightarrow> \<exists>ph'. Q (Inr loaded) ph' \<and> (ph' = ph \<or> dispatch_step rt p (ph, w) (ph', w))"
  shows "follows rt p ph (load rt p) Q"
  unfolding load_def
proof (rule follows_query)
  fix w
  show "\<exists>ph'. Q (load_for_execution (rt_lib rt) (rt_registry rt) (disp_target_id p) (disp_config_revision p) (w_db w)) ph'
      \<and> (ph' = ph \<or> dispatch_step rt p (ph, w) (ph', w))"
    using assms [of w] by (cases "loads rt p w") (auto simp: loads_def)
qed

lemma follows_load: "running ph = Some c \<Longrightarrow> follows rt p ph (load rt p) (\<lambda>y ph'. ph' = ph)"
  unfolding load_def by (rule follows_query) simp

lemma follows_pages:
  assumes "addressed p mode" and "bounded (rx_loaded c)" and "asks p c adapter request"
  shows "follows rt p (Opened c cursor)
    (execute_pages rt p mode (rx_loaded c) (rx_cred c) adapter (rx_run c) (lock_key_of p) (rx_owner c) n cursor request) (closing c)"
  using assms(3)
proof (induction n arbitrary: cursor request)
  case 0
  show ?case by (simp add: follows_lift)
next
  case (Suc n)
  let ?next = "\<lambda>result cursor. bindA (lift (new_fetch_request (request\<lparr>pfr_cursor := pres_next_cursor result, pfr_continuation := pres_continuation result\<rparr>)))
      (\<lambda>request. execute_pages rt p mode (rx_loaded c) (rx_cred c) adapter (rx_run c) (lock_key_of p) (rx_owner c) n cursor request)"
  have step: "follows rt p (Opened c cursor) (?next result cursor) (closing c)" for result cursor
    by (rule follows_bind [where Q = "\<lambda>y ph. ph = Opened c cursor \<and> (case y of Inl e \<Rightarrow> True | Inr q \<Rightarrow> asks p c adapter q)"])
       (auto intro!: follows_lift Suc.IH asks_next Suc.prems simp: new_fetch_request_def)
  have claim: "follows rt p (Opened c cursor) (tx rt (\<lambda>now. claim_page (rt_guard rt) now (rx_loaded c) p (rx_run c)))
      (\<lambda>y ph. ph = (case y of Inl e \<Rightarrow> Opened c cursor
        | Inr None \<Rightarrow> Ending (rx_owner c) (Inr (outcome p ''partial'' (Some (rx_run c)) (Some ''coverage_incomplete'')))
        | Inr (Some t) \<Rightarrow> Requesting c cursor))"
    by (rule follows_tx) (auto split: option.split intro: ws_page_claimed [OF assms(2)] ws_exhausted [OF assms(2)])
  have confirmed: "follows rt p (Responded c cursor result) (bindA (get_lock rt (lock_key_of p)) (\<lambda>holder.
        if holder \<noteq> Some (rx_owner c) then lift (Inl (TargetLockLost ''target_lock_lost'')) else f)) (closing c)"
    if "follows rt p (Confirmed c cursor result) f (closing c)" for f result
    by (rule follows_bind [OF follows_holder]) (auto intro: that follows_lift split: if_splits)
  have checked: "follows rt p (Confirmed c cursor result) (bindA (lift x) (\<lambda>_. f)) (closing c)"
    if "follows rt p (Confirmed c cursor result) f (closing c)" for f result and x :: "unit res"
    by (rule follows_bind [where Q = "\<lambda>_ ph. ph = Confirmed c cursor result"]) (auto intro: that follows_lift)
  have fetched: "follows rt p (fetched_phase c cursor out) (case out of
             FetchLockLost \<Rightarrow> end_lock_lost rt p (rx_loaded c) (rx_run c)
           | FetchTimeout \<Rightarrow>
               bindA (tx rt (\<lambda>now. finish_error (rt_guard rt) now (rx_loaded c) p (rx_run c) ''provider_runtime_deadline_exceeded'' False None)) (\<lambda>_.
                 ret (outcome p ''failed'' (Some (rx_run c)) (Some ''provider_runtime_deadline_exceeded'')))
           | FetchRaised e \<Rightarrow> lift (Inl e)
           | Fetched result \<Rightarrow>
               (case pres_safe_errors result of
                  err # _ \<Rightarrow> end_provider_error rt p (rx_loaded c) (rx_run c) err
                | [] \<Rightarrow> answered result)) (closing c)"
    if "\<And>result. follows rt p (Responded c cursor result) (answered result) (closing c)" for answered out
    using assms(2)
    by (cases out)
       (auto intro: that follows_lock_lost follows_final_error follows_provider_error follows_lift split: list.split)
  have overdue': "follows rt p (Requesting c cursor)
      (bindA (tx rt (\<lambda>now. finish_error (rt_guard rt) now (rx_loaded c) p (rx_run c) ''provider_runtime_deadline_exceeded'' False None)) (\<lambda>_.
         ret (outcome p ''failed'' (Some (rx_run c)) (Some ''provider_runtime_deadline_exceeded'')))) (closing c)"
    by (rule follows_after [rotated], rule follows_final_error, rule ws_overdue [OF assms(2)])
  have request: "follows rt p (Requesting c cursor)
      (bindA (fetch_with_lock rt adapter (rx_cred c) request timeout) f) (closing c)"
    if "\<And>out. follows rt p (fetched_phase c cursor out) (f out) (closing c)" for f timeout
    by (rule follows_bind [OF follows_fetch [OF Suc.prems]]) (auto intro: that)
  have claimed: "follows rt p (Opened c cursor) (bindA (load rt p) (\<lambda>_. bindA (tx rt (\<lambda>now. claim_page (rt_guard rt) now (rx_loaded c) p (rx_run c))) (\<lambda>t.
      case t of None \<Rightarrow> ret (outcome p ''partial'' (Some (rx_run c)) (Some ''coverage_incomplete'')) | Some t \<Rightarrow> bindA (clock rt) (f t)))) (closing c)"
    if "\<And>t now. follows rt p (Requesting c cursor) (f t now) (closing c)" for f
  proof (rule follows_bind [OF follows_load [where c = c]])
    fix x ph' assume "ph' = Opened c cursor"
    have "follows rt p (Requesting c cursor) (bindA (clock rt) (f t)) (closing c)" for t
      by (rule follows_bind [where Q = "\<lambda>y ph. ph = Requesting c cursor", OF follows_clock]) (auto intro: that)
    then show "follows rt p ph' (bindA (tx rt (\<lambda>now. claim_page (rt_guard rt) now (rx_loaded c) p (rx_run c))) (\<lambda>t.
        case t of None \<Rightarrow> ret (outcome p ''partial'' (Some (rx_run c)) (Some ''coverage_incomplete''))
        | Some t \<Rightarrow> bindA (clock rt) (f t))) (closing c)"
      unfolding \<open>ph' = Opened c cursor\<close> by (intro follows_bind [OF claim]) (auto intro!: follows_ret split: option.split)
  qed simp_all
  show ?case
    unfolding execute_pages.simps Let_def
    by (rule claimed, rule follows_if, rule overdue', rule request, rule fetched, rule follows_if [OF follows_lift], simp,
        rule confirmed, rule checked, rule follows_page [OF assms(1,2) refl step])
qed

text \<open>The run as a whole, with its handlers.\<close>

lemma follows_collect:
  assumes "addressed p mode"
  shows "follows rt p (Opened c cursor)
    (collect rt p mode (rx_loaded c) (rx_cred c) (rx_run c) cursor (lock_key_of p) (rx_owner c)) (closing c)"
proof -
  let ?open = "\<lambda>_ ph. ph = Opened c cursor"
  have config: "follows rt p (Opened c cursor) (run_config rt mode (rx_loaded c) (rx_run c) cursor) ?open"
    unfolding run_config_def
    by (auto intro!: follows_bind [where Q = ?open] follows_tx follows_ret ws_pin [OF assms] split: prod.split)
  have asked: "asks p c adapter request"
    if "adapter_build (src_access_method (lt_source (rx_loaded c))) (tgt_operation_key (lt_target (rx_loaded c)))
          (tgt_provider_contract_version (lt_target (rx_loaded c))) = Inr adapter"
      and "new_fetch_request (fetch_request p mode (rx_loaded c) cursor config k now) = Inr request" for adapter request config k now
    using that by (auto simp: asks_def fetch_request_def new_fetch_request_bounds Let_def)
  have body: "follows rt p (Opened c cursor) (if bounded (rx_loaded c)
      then execute_pages rt p mode (rx_loaded c) (rx_cred c) adapter (rx_run c) (lock_key_of p) (rx_owner c) n cursor request
      else bindA (fetch_with_lock rt adapter (rx_cred c) request timeout) (\<lambda>fetched.
        single_fetch rt p mode (rx_loaded c) (rx_run c) cursor (lock_key_of p) (rx_owner c) fetched)) (closing c)"
    if "asks p c adapter request" for adapter request n timeout
  proof (cases "bounded (rx_loaded c)")
    case True
    then show ?thesis using follows_pages [OF assms True that] by simp
  next
    case False
    have "follows rt p (Requesting c cursor) (bindA (fetch_with_lock rt adapter (rx_cred c) request timeout) (\<lambda>fetched.
        single_fetch rt p mode (rx_loaded c) (rx_run c) cursor (lock_key_of p) (rx_owner c) fetched)) (closing c)"
      by (rule follows_bind [OF follows_fetch [OF that]]) (auto intro: follows_single [OF assms False])
    then show ?thesis unfolding if_not_P [OF False] by (rule follows_after [rotated]) (rule ws_single [OF False])
  qed
  have lifted: "follows rt p (Opened c cursor) (bindA (lift x) f) (closing c)"
    if "\<And>y. x = Inr y \<Longrightarrow> follows rt p (Opened c cursor) (f y) (closing c)" for x :: "'b res" and f
    by (rule follows_bind [where Q = "\<lambda>y ph. y = x \<and> ph = Opened c cursor"]) (auto intro: that follows_lift)
  have timed: "follows rt p (Opened c cursor) (bindA (clock rt) f) (closing c)"
    if "\<And>now. follows rt p (Opened c cursor) (f now) (closing c)" for f
    by (rule follows_bind [where Q = ?open]) (auto intro: that follows_clock)
  show ?thesis
    unfolding collect_def
    by (rule follows_bind [OF config], clarsimp, intro lifted timed, rule body, erule (1) asked, simp)
qed

lemma escape_steps: "running ph = Some c \<Longrightarrow> dispatch_steps rt p (ph, w) (Ending (rx_owner c) (Inl e), w)"
proof (cases "failure_of e")
  case (Some f)
  assume "running ph = Some c"
  from ws_raised [OF this Some] ws_handler_raised show ?thesis by (rule converse_rtranclp_into_rtranclp [OF _ r_into_rtranclp])
qed (auto intro: ws_unhandled)

lemma follows_escape:
  assumes "follows rt p ph m (closing c)"
  shows "follows rt p ph m (\<lambda>res ph'. ph' = Ending (rx_owner c) res)"
  unfolding follows_def
proof
  fix w
  obtain res w' where m: "m w = (res, w')" by (rule prod.exhaust)
  from follows_at [OF assms m] obtain ph' where one: "closing c res ph'" "dispatch_steps rt p (ph, w) (ph', w')" by blast
  have "dispatch_steps rt p (ph', w') (Ending (rx_owner c) res, w')"
    using one(1) escape_steps by (cases res) auto
  with one(2) m show "\<exists>ph'. ph' = Ending (rx_owner c) (fst (m w)) \<and> dispatch_steps rt p (ph, w) (ph', snd (m w))"
    by (auto intro: rtranclp_trans)
qed

lemma follows_handle_after:
  assumes "running ph = Some c"
  shows "follows rt p ph (handle_after rt p (rx_loaded c) (rx_run c) e) (closing c)"
proof (cases "failure_of e")
  case None
  then show ?thesis using assms by (auto simp: handle_after_def failure_of_def intro!: follows_lift split: if_splits)
next
  case (Some f)
  have "follows rt p (Failing c f) (handle_after rt p (rx_loaded c) (rx_run c) e) (closing c)"
    using Some by (auto simp: handle_after_def failure_of_def intro!: follows_lock_lost follows_error follows_final_error split: if_splits)
  then show ?thesis by (rule follows_after [rotated]) (rule ws_raised [OF assms Some])
qed

lemma follows_catch:
  assumes "follows rt p ph m (closing c)" and "\<And>ph' e. running ph' = Some c \<Longrightarrow> follows rt p ph' (h e) (closing c)"
  shows "follows rt p ph (catchA m h) (closing c)"
  unfolding follows_def
proof
  fix w
  obtain y w1 where m: "m w = (y, w1)" by (rule prod.exhaust)
  from follows_at [OF assms(1) m] obtain ph1 where one: "closing c y ph1" "dispatch_steps rt p (ph, w) (ph1, w1)" by blast
  show "\<exists>ph'. closing c (fst (catchA m h w)) ph' \<and> dispatch_steps rt p (ph, w) (ph', snd (catchA m h w))"
  proof (cases y)
    case (Inl e)
    obtain z w2 where h: "h e w1 = (z, w2)" by (rule prod.exhaust)
    have "running ph1 = Some c" using one(1) Inl by simp
    from follows_at [OF assms(2) [OF this] h] one(2) m Inl h show ?thesis
      by (auto simp: catchA_def intro: rtranclp_trans)
  next
    case (Inr out)
    with one m show ?thesis by (auto simp: catchA_def)
  qed
qed

fun prepared :: "string \<Rightarrow> (TargetRunOutcome + (LoadedTarget \<times> RuntimeCredential \<times> uuid \<times> CollectionCursor option)) res \<Rightarrow> phase \<Rightarrow> bool" where
  "prepared owner (Inl e) ph = (preparing ph = Some owner)"
| "prepared owner (Inr (Inl out)) ph = (ph = Ending owner (Inr out))"
| "prepared owner (Inr (Inr (loaded, cred, i, cursor))) ph =
     (ph = Opened \<lparr>rx_loaded = loaded, rx_cred = cred, rx_run = i, rx_owner = owner\<rparr> cursor)"

lemma follows_prepare:
  assumes "addressed p mode"
  shows "follows rt p (Holding owner) (prepare rt p mode) (prepared owner)"
proof -
  have blocked: "follows rt p (Unauthorised owner loaded m)
      (bindA (tx rt (unit_tx (\<lambda>now. mark_credential_missing (rt_guard rt) now loaded))) (\<lambda>_. ret (Inl (outcome p ''blocked'' None (Some m))))) (prepared owner)"
    for loaded m
    by (rule follows_bind [where Q = "\<lambda>y ph. ph = (case y of Inl e \<Rightarrow> Unauthorised owner loaded m
          | Inr _ \<Rightarrow> Ending owner (Inr (outcome p ''blocked'' None (Some m))))"])
       (auto simp: bindR_Inr_iff intro!: follows_tx follows_ret ws_mark)
  have started: "follows rt p (Trusted owner cred) (bindA (load rt p) (\<lambda>loaded.
      bindA (tx rt (\<lambda>now. start_run (rt_guard rt) (rt_gen rt) now loaded p mode)) (\<lambda>(i, cursor). ret (Inr (loaded, cred, i, cursor))))) (prepared owner)" for cred
  proof (rule follows_bind [where Q = "\<lambda>y ph. case y of Inl e \<Rightarrow> ph = Trusted owner cred | Inr loaded \<Rightarrow> ph = Reloaded owner cred loaded"])
    show "follows rt p (Trusted owner cred) (load rt p) (\<lambda>y ph. case y of Inl e \<Rightarrow> ph = Trusted owner cred | Inr loaded \<Rightarrow> ph = Reloaded owner cred loaded)"
      by (rule follows_load_to) (auto intro: ws_reload)
    fix loaded ph assume "case Inr loaded of Inl e \<Rightarrow> ph = Trusted owner cred | Inr loaded \<Rightarrow> ph = Reloaded owner cred loaded"
    then have ph: "ph = Reloaded owner cred loaded" by simp
    show "follows rt p ph (bindA (tx rt (\<lambda>now. start_run (rt_guard rt) (rt_gen rt) now loaded p mode)) (\<lambda>(i, cursor). ret (Inr (loaded, cred, i, cursor)))) (prepared owner)"
      unfolding ph
      by (rule follows_bind [where Q = "\<lambda>y ph. case y of Inl e \<Rightarrow> ph = Reloaded owner cred loaded
            | Inr (i, cursor) \<Rightarrow> ph = Opened \<lparr>rx_loaded = loaded, rx_cred = cred, rx_run = i, rx_owner = owner\<rparr> cursor"])
         (auto intro!: follows_tx follows_ret ws_start [OF assms])
  qed simp
  let ?cred = "\<lambda>loaded. resolve_runtime_credential (src_access_method (lt_source loaded)) (rt_environ rt)"
  have first: "follows rt p (Holding owner) (load rt p) (\<lambda>y ph. case y of Inl e \<Rightarrow> ph = Holding owner
      | Inr loaded \<Rightarrow> (case ?cred loaded of Inr cred \<Rightarrow> ph = Trusted owner cred | Inl (CredentialResolutionError m) \<Rightarrow> ph = Unauthorised owner loaded m
         | Inl e \<Rightarrow> ph = Holding owner))"
  proof (rule follows_load_to)
    fix w loaded assume l: "loads rt p w = Inr loaded"
    show "\<exists>ph'. (case Inr loaded of Inl e \<Rightarrow> ph' = Holding owner
      | Inr loaded \<Rightarrow> (case ?cred loaded of Inr cred \<Rightarrow> ph' = Trusted owner cred | Inl (CredentialResolutionError m) \<Rightarrow> ph' = Unauthorised owner loaded m
         | Inl e \<Rightarrow> ph' = Holding owner)) \<and> (ph' = Holding owner \<or> dispatch_step rt p (Holding owner, w) (ph', w))"
    proof (cases "?cred loaded")
      case (Inl e)
      then show ?thesis using ws_unauthorised [OF l] by (cases e) auto
    qed (use ws_trust [OF l] in auto)
  qed simp
  show ?thesis
    unfolding prepare_def
    by (rule follows_bind [OF first])
       (auto intro!: blocked started follows_lift split: sum.splits exn.splits)
qed

lemma follows_body:
  assumes "addressed p mode"
  shows "follows rt p (Holding owner) (locked_body rt p mode (lock_key_of p) owner) (\<lambda>res ph. ph = Ending owner res)"
  unfolding follows_def
proof
  fix w
  obtain y w1 where y: "prepare rt p mode w = (y, w1)" by (rule prod.exhaust)
  from follows_at [OF follows_prepare [OF assms] y] obtain ph where one: "dispatch_steps rt p (Holding owner, w) (ph, w1)"
    and ph: "prepared owner y ph"
    by blast
  consider e where "y = Inl e" | out where "y = Inr (Inl out)" | loaded cred i cursor where "y = Inr (Inr (loaded, cred, i, cursor))"
    by (metis obj_sumE prod.exhaust)
  then show "\<exists>ph'. ph' = Ending owner (fst (locked_body rt p mode (lock_key_of p) owner w))
      \<and> dispatch_steps rt p (Holding owner, w) (ph', snd (locked_body rt p mode (lock_key_of p) owner w))"
  proof cases
    case (1 e)
    have "handle_before p e w1 = (early_result p e, w1)" by (simp add: handle_before_def early_result_def ret_def lift_def)
    moreover have "dispatch_step rt p (ph, w1) (Ending owner (early_result p e), w1)" using ws_give_up ph 1 by auto
    ultimately show ?thesis using one y 1 by (auto simp: locked_body_def intro: rtranclp.rtrancl_into_rtrancl)
  next
    case 2
    then show ?thesis using one y ph by (simp add: locked_body_def)
  next
    case (3 loaded cred i cursor)
    let ?c = "\<lparr>rx_loaded = loaded, rx_cred = cred, rx_run = i, rx_owner = owner\<rparr>"
    have "follows rt p (Opened ?c cursor)
        (catchA (collect rt p mode loaded cred i cursor (lock_key_of p) owner) (handle_after rt p loaded i)) (closing ?c)"
      using follows_collect [OF assms, of rt ?c cursor] follows_handle_after [of _ ?c rt p] by (intro follows_catch) simp_all
    note two = follows_escape [OF this]
    obtain z w2 where z: "catchA (collect rt p mode loaded cred i cursor (lock_key_of p) owner) (handle_after rt p loaded i) w1 = (z, w2)"
      by (rule prod.exhaust)
    from follows_at [OF two z] one ph 3 y z show ?thesis by (auto simp: locked_body_def intro: rtranclp_trans)
  qed
qed

lemma follows_finally:
  assumes "follows rt p ph m (\<lambda>res ph'. ph' = Ending owner res)"
  shows "follows rt p ph (finallyA m (release_lock rt (lock_key_of p) owner)) (\<lambda>res ph'. ph' = Finished res)"
  unfolding follows_def
proof
  fix w
  obtain res w1 where m: "m w = (res, w1)" by (rule prod.exhaust)
  let ?w = "observe rt w1"
  have "dispatch_steps rt p (Ending owner res, w1)
      (Finished res, ?w\<lparr>w_redis := compare_delete (rt_api rt) (lock_key_of p) owner (w_now ?w) (w_redis ?w)\<rparr>)"
    by (rule observe_step, rule ws_release)
  with follows_at [OF assms m] m show "\<exists>ph'. ph' = Finished (fst (finallyA m (release_lock rt (lock_key_of p) owner) w))
      \<and> dispatch_steps rt p (ph, w) (ph', snd (finallyA m (release_lock rt (lock_key_of p) owner) w))"
    by (auto simp: finallyA_def release_lock_def redis_def Let_def intro: rtranclp_trans)
qed

text \<open>From the admission to the end.\<close>

lemma follows_admitted:
  assumes "addressed p mode"
  shows "follows rt p (Admitted loaded)
    (bindA (redis rt (\<lambda>now r. (redis_exists (rt_api rt) r now (rate_limit_key loaded), r))) (\<lambda>cooling.
       if cooling then ret (outcome p ''retry'' None (Some ''rate_limit_group_cooldown''))
       else (\<lambda>w. let owner = rt_owner rt (w_tick w); key = target_lock_key (disp_target_id p) (disp_run_mode p) in
         bindA (redis rt (acquire (rt_api rt) key owner (tgt_max_runtime_seconds (lt_target loaded) + 30))) (\<lambda>got.
           if \<not> got then ret (outcome p ''blocked'' None (Some ''target_lock_unavailable''))
           else finallyA (locked_body rt p mode key owner) (release_lock rt key owner)) w))) (\<lambda>res ph. ph = Finished res)"
proof (rule follows_bind [where Q = "\<lambda>y ph. \<exists>b. y = Inr b \<and> ph = (if b
    then Finished (Inr (outcome p ''retry'' None (Some ''rate_limit_group_cooldown''))) else Cleared loaded)"])
  show "follows rt p (Admitted loaded) (redis rt (\<lambda>now r. (redis_exists (rt_api rt) r now (rate_limit_key loaded), r)))
      (\<lambda>y ph. \<exists>b. y = Inr b \<and> ph = (if b
         then Finished (Inr (outcome p ''retry'' None (Some ''rate_limit_group_cooldown''))) else Cleared loaded))"
    by (rule follows_redis) (auto intro: ws_cooling ws_clear)
next
  have locked: "follows rt p (Cleared loaded) (bindA (redis rt (acquire (rt_api rt) (lock_key_of p) (rt_owner rt n) (tgt_max_runtime_seconds (lt_target loaded) + 30)))
      (\<lambda>got. if \<not> got then ret (outcome p ''blocked'' None (Some ''target_lock_unavailable''))
         else finallyA (locked_body rt p mode (lock_key_of p) (rt_owner rt n)) (release_lock rt (lock_key_of p) (rt_owner rt n))))
      (\<lambda>res ph. ph = Finished res)" for n
  proof (rule follows_bind)
    let ?phase = "\<lambda>got. if got then Holding (rt_owner rt n) else Finished (Inr (outcome p ''blocked'' None (Some ''target_lock_unavailable'')))"
    show "follows rt p (Cleared loaded) (redis rt (acquire (rt_api rt) (lock_key_of p) (rt_owner rt n) (tgt_max_runtime_seconds (lt_target loaded) + 30)))
        (\<lambda>y ph. \<exists>got. y = Inr got \<and> ph = ?phase got)"
    proof (rule follows_redis)
      fix w :: "'a world" and got r
      assume "acquire (rt_api rt) (lock_key_of p) (rt_owner rt n) (tgt_max_runtime_seconds (lt_target loaded) + 30) (w_now w) (w_redis w) = (got, r)"
      then have "dispatch_step rt p (Cleared loaded, w) (?phase got, w\<lparr>w_redis := r\<rparr>)" by (cases got) (auto intro: ws_taken ws_lock)
      then show "\<exists>ph'. (\<exists>x. Inr got = Inr x \<and> ph' = ?phase x) \<and> dispatch_step rt p (Cleared loaded, w) (ph', w\<lparr>w_redis := r\<rparr>)" by blast
    qed
  qed (auto intro!: follows_ret follows_finally follows_body [OF assms] split: if_splits)
  fix cooling ph
  assume ph: "\<exists>b. Inr cooling = Inr b \<and> ph = (if b then Finished (Inr (outcome p ''retry'' None (Some ''rate_limit_group_cooldown''))) else Cleared loaded)"
  show "follows rt p ph (if cooling then ret (outcome p ''retry'' None (Some ''rate_limit_group_cooldown''))
       else (\<lambda>w. let owner = rt_owner rt (w_tick w); key = target_lock_key (disp_target_id p) (disp_run_mode p) in
         bindA (redis rt (acquire (rt_api rt) key owner (tgt_max_runtime_seconds (lt_target loaded) + 30))) (\<lambda>got.
           if \<not> got then ret (outcome p ''blocked'' None (Some ''target_lock_unavailable''))
           else finallyA (locked_body rt p mode key owner) (release_lock rt key owner)) w)) (\<lambda>res ph. ph = Finished res)"
  proof (cases cooling)
    case False
    have "ph = Cleared loaded" using ph False by auto
    then show ?thesis
      unfolding if_not_P [OF False] follows_def Let_def lock_key_of_def [symmetric]
      by (simp only:) (intro allI, rule locked [unfolded follows_def, rule_format])
  qed (use ph in \<open>auto intro: follows_ret\<close>)
qed auto

subsection \<open>Property\<close>

text \<open>Property C1.  The worker follows the protocol of a dispatch: whatever the provider answers, whatever other processes do between its
  actions and whichever exceptions are raised, \<open>execute\<close> is a run of the machine from the dispatched phase to the phase finished with its
  result.  So it writes nothing before its own token was set on the free lock and reports \<open>target_lock_unavailable\<close> when the lock is taken;
  it starts one run of the target that was loaded last; it claims every page before the request; it persists an answer only after the
  lock was seen to hold its token since the answer came; it ends the run by the transaction that belongs to the outcome it reports,
  with \<open>retry\<close> and \<open>failed\<close> as that transaction decided; and when it held the lock it gives it back, by compare-and-delete with its own
  token, before it returns or raises.\<close>

theorem execute_follows_protocol:
  "(dispatch_step rt p)\<^sup>*\<^sup>* (Dispatched, w) (Finished (fst (execute rt p w)), snd (execute rt p w))"
proof (cases "\<exists>mode. addressed p mode")
  case False
  then show ?thesis
    by (cases "run_mode_of (disp_run_mode p)")
       (auto simp: execute_def ret_def addressed_def intro!: r_into_rtranclp ws_bad_mode ws_bad_identity)
next
  case True
  then obtain mode where mode: "addressed p mode" by blast
  let ?w = "observe rt w"
  have load: "load rt p w = (loads rt p ?w, ?w)" by (simp add: load_def query_def loads_def Let_def)
  show ?thesis
  proof (cases "loads rt p ?w")
    case (Inl e)
    have "execute rt p w = (refused_dispatch p e, ?w)"
      using mode load Inl by (cases e) (auto simp: execute_def addressed_def refused_dispatch_def)
    then show ?thesis using observe_step [OF ws_refuse [OF mode Inl]] by simp
  next
    case (Inr loaded)
    have "\<exists>ph'. ph' = Finished (fst (execute rt p w)) \<and> dispatch_steps rt p (Admitted loaded, ?w) (ph', snd (execute rt p w))"
      using follows_admitted [OF mode, of rt loaded] mode load Inr by (simp add: execute_def addressed_def follows_def)
    then show ?thesis using observe_step [OF ws_admit [OF mode Inr]] by (auto intro: rtranclp_trans)
  qed
qed

end
