(* ===== verification/Event_Matching.thy ===== *)
theory Event_Matching
  imports Samples "HOL-Library.Multiset"
begin

text \<open>
  The pure part of \<open>event_intelligence\<close>: signatures, anchors and the matching of evidence with event
  candidates (\<open>matching.py\<close>), the importance score (\<open>scoring.py\<close>) and the contract of an impact analysis
  (\<open>analysis.py\<close>).  \<open>urllib\<close> adds to the library record the query parser and printer of \<open>urllib.parse\<close> and the
  printed form of a list of strings.  Scores are rational numbers; the sums of the score are exact in Python too.
\<close>

record urllib = pylib +
  parse_qsl :: "string \<Rightarrow> (string \<times> string) list"
  urlencode :: "(string \<times> string) list \<Rightarrow> string"
  repr_strings :: "string list \<Rightarrow> string"

definition RULE_VERSION :: int where "RULE_VERSION = 1"

definition TRACKING_QUERY_PARAMETERS :: "string list" where
  "TRACKING_QUERY_PARAMETERS =
     [''fbclid'', ''gclid'', ''utm_campaign'', ''utm_content'', ''utm_medium'', ''utm_source'', ''utm_term'']"

datatype MatchRule =
    EXISTING_ASSOCIATION | OFFICIAL_IDENTITY | CANONICAL_URL | PROVIDER_EXTERNAL_ID | ENTITY_TITLE_TIME
  | APPROVED_HASH | NEW_CANDIDATE | AMBIGUOUS_NEW_CANDIDATE | REVIEWED_REGROUP

fun match_rule_value :: "MatchRule \<Rightarrow> string" where
  "match_rule_value EXISTING_ASSOCIATION = ''existing_association''"
| "match_rule_value OFFICIAL_IDENTITY = ''official_identity''"
| "match_rule_value CANONICAL_URL = ''canonical_url''"
| "match_rule_value PROVIDER_EXTERNAL_ID = ''provider_external_id''"
| "match_rule_value ENTITY_TITLE_TIME = ''entity_title_time''"
| "match_rule_value APPROVED_HASH = ''approved_hash''"
| "match_rule_value NEW_CANDIDATE = ''new_candidate''"
| "match_rule_value AMBIGUOUS_NEW_CANDIDATE = ''ambiguous_new_candidate''"
| "match_rule_value REVIEWED_REGROUP = ''reviewed_regroup''"

definition all_match_rules :: "MatchRule list" where
  "all_match_rules = [EXISTING_ASSOCIATION, OFFICIAL_IDENTITY, CANONICAL_URL, PROVIDER_EXTERNAL_ID, ENTITY_TITLE_TIME,
     APPROVED_HASH, NEW_CANDIDATE, AMBIGUOUS_NEW_CANDIDATE, REVIEWED_REGROUP]"

text \<open>\<open>MatchRule(text)\<close>: a \<open>ValueError\<close> on any other text.\<close>

definition match_rule_of :: "string \<Rightarrow> MatchRule res" where
  "match_rule_of s =
     (case List.find (\<lambda>r. match_rule_value r = s) all_match_rules of
        None \<Rightarrow> Inl (ValueError ''match_rule'') | Some r \<Rightarrow> Inr r)"

record EvidenceProjection =
  ep_evidence_item_id :: uuid
  ep_provider :: string
  ep_provider_item_id :: "string option"
  ep_provider_item_hash :: string
  ep_official_source :: bool
  ep_canonical_url :: "string option"
  ep_title :: "string option"
  ep_event_time :: "time option"
  ep_observed_at :: time
  ep_entity_refs :: "string list"
  ep_asset_refs :: "string list"
  ep_topic_refs :: "string list"
  ep_source_priority :: "int option"

record CandidateProjection =
  cp_id :: uuid
  cp_cluster_key :: string
  cp_strong_identity_hash :: "string option"
  cp_identity_signatures :: "string list"
  cp_title_fingerprints :: "string list"
  cp_first_seen_at :: time
  cp_latest_seen_at :: time
  cp_entities :: "string list"

record StableAnchor =
  an_kind :: string
  an_value_hash :: string
  an_cluster_key :: string

record MatchDecision =
  md_candidate_id :: "uuid option"
  md_match_rule :: MatchRule
  md_rule_version :: int
  md_anchor :: StableAnchor
  md_signatures :: "string list"
  md_title_fingerprint :: "string option"
  md_strong_identity_hash :: "string option"

subsection \<open>Signatures\<close>

text \<open>\<open>urlsplit\<close> may raise \<open>ValueError\<close>, which the function does not catch.  The port of the parts is read under a
  handler.\<close>

definition rstrip_slash :: "string \<Rightarrow> string" where
  "rstrip_slash s = rev (dropWhile (\<lambda>c. c = CHR ''/'') (rev s))"

definition urlunsplit :: "string \<Rightarrow> string \<Rightarrow> string \<Rightarrow> string \<Rightarrow> string" where
  "urlunsplit scheme netloc path query =
     scheme @ ''://'' @ netloc @ path @ (if query = [] then [] else CHR ''?'' # query)"

definition canonical_query :: "urllib \<Rightarrow> string \<Rightarrow> (string \<times> string) list" where
  "canonical_query lib query =
     sort (filter (\<lambda>(key, item). lower key \<notin> set TRACKING_QUERY_PARAMETERS) (parse_qsl lib query))"

definition canonical_netloc :: "string \<Rightarrow> string \<Rightarrow> int option \<Rightarrow> string" where
  "canonical_netloc scheme host0 port =
     (let host = (if CHR '':'' \<in> set host0 then ''['' @ host0 @ '']'' else host0);
          default_port = (scheme = ''http'' \<and> port = Some 80) \<or> (scheme = ''https'' \<and> port = Some 443) in
      case port of None \<Rightarrow> host | Some n \<Rightarrow> if default_port then host else host @ '':'' @ str_int n)"

definition canonical_path :: "string \<Rightarrow> string" where
  "canonical_path path = (if rstrip_slash path = [] then ''/'' else rstrip_slash path)"

definition canonical_parts :: "urllib \<Rightarrow> urlparts \<Rightarrow> string option" where
  "canonical_parts lib parts =
     (let scheme = lower (url_scheme parts) in
      case url_hostname parts of
        None \<Rightarrow> None
      | Some hostname \<Rightarrow>
          (if scheme \<notin> {''http'', ''https''} then None
           else case url_port parts of
             Inl e \<Rightarrow> None
           | Inr port \<Rightarrow>
               Some (urlunsplit scheme (canonical_netloc scheme (lower hostname) port) (canonical_path (url_path parts))
                       (urlencode lib (canonical_query lib (url_query parts))))))"

definition canonicalize_url :: "urllib \<Rightarrow> string option \<Rightarrow> string option res" where
  "canonicalize_url lib v =
     (case v of
        None \<Rightarrow> Inr None
      | Some s \<Rightarrow>
          (case urlsplit lib (strip s) of
             None \<Rightarrow> Inl (ValueError ''urlsplit'')
           | Some parts \<Rightarrow> Inr (canonical_parts lib parts)))"

definition title_tokens :: "string \<Rightarrow> string list" where
  "title_tokens s = runs (\<lambda>c. \<not> (is_lower c \<or> is_digit c)) [] (lower s)"

definition title_fingerprint :: "urllib \<Rightarrow> string option \<Rightarrow> string option" where
  "title_fingerprint lib v =
     (let tokens = title_tokens (case v of None \<Rightarrow> [] | Some s \<Rightarrow> s) in
      if tokens = [] then None else Some (sha256_hex lib (join_with '' '' tokens)))"

definition signature :: "urllib \<Rightarrow> string \<Rightarrow> string \<Rightarrow> string" where
  "signature lib kind v = kind @ '':'' @ sha256_hex lib v"

definition provider_identity :: "EvidenceProjection \<Rightarrow> string option" where
  "provider_identity v =
     (case ep_provider_item_id v of
        None \<Rightarrow> None
      | Some i \<Rightarrow> (if i = [] then None else Some (ep_provider v @ '':'' @ i)))"

definition evidence_signatures :: "urllib \<Rightarrow> EvidenceProjection \<Rightarrow> string list res" where
  "evidence_signatures lib v =
     bindR (canonicalize_url lib (ep_canonical_url v)) (\<lambda>canonical.
       Inr ((case provider_identity v of
               Some i \<Rightarrow> (if ep_official_source v then [signature lib ''official'' i] else [])
             | None \<Rightarrow> [])
            @ (case canonical of Some u \<Rightarrow> [signature lib ''url'' u] | None \<Rightarrow> [])
            @ (case provider_identity v of Some i \<Rightarrow> [signature lib ''provider'' i] | None \<Rightarrow> [])
            @ [signature lib ''hash'' (ep_provider v @ '':'' @ ep_provider_item_hash v)]))"

text \<open>\<open>item.split(":", 1)\<close>.\<close>

definition sig_kind :: "string \<Rightarrow> string" where "sig_kind s = takeWhile (\<lambda>c. c \<noteq> CHR '':'') s"
definition sig_hash :: "string \<Rightarrow> string" where "sig_hash s = tl (dropWhile (\<lambda>c. c \<noteq> CHR '':'') s)"

definition seen_time :: "EvidenceProjection \<Rightarrow> time" where
  "seen_time v = (case ep_event_time v of None \<Rightarrow> ep_observed_at v | Some t \<Rightarrow> t)"

definition anchor_of :: "urllib \<Rightarrow> string \<Rightarrow> string \<Rightarrow> StableAnchor" where
  "anchor_of lib kind h = \<lparr>an_kind = kind, an_value_hash = h, an_cluster_key = sha256_hex lib (kind @ '':'' @ h)\<rparr>"

definition select_signature :: "string list \<Rightarrow> string option" where
  "select_signature signatures =
     List.find (\<lambda>_. True) (concat (map (\<lambda>p. filter (has_prefix (p @ '':'')) signatures)
       [''official'', ''url'', ''provider'', ''hash'']))"

definition derive_anchor :: "urllib \<Rightarrow> EvidenceProjection \<Rightarrow> bool \<Rightarrow> StableAnchor res" where
  "derive_anchor lib v ambiguous =
     bindR (evidence_signatures lib v) (\<lambda>signatures.
       if ambiguous then Inr (anchor_of lib ''ambiguous_evidence'' (sha256_hex lib (ep_evidence_item_id v)))
       else case select_signature signatures of
         None \<Rightarrow> Inl (RuntimeError ''StopIteration'')
       | Some selected \<Rightarrow>
           (case title_fingerprint lib (ep_title v) of
              Some fingerprint \<Rightarrow>
                (if sig_kind selected = ''hash'' \<and> ep_entity_refs v \<noteq> []
                 then Inr (anchor_of lib ''entity_title_time''
                        (sha256_hex lib (repr_strings lib (sort (ep_entity_refs v)) @ '':'' @ fingerprint @ '':''
                           @ str_int (seen_time v div (86400 * 1000000)))))
                 else Inr (anchor_of lib (sig_kind selected) (sig_hash selected)))
            | None \<Rightarrow> Inr (anchor_of lib (sig_kind selected) (sig_hash selected))))"

subsection \<open>Matching\<close>

definition shares :: "string \<Rightarrow> string list \<Rightarrow> CandidateProjection \<Rightarrow> bool" where
  "shares kind signatures c =
     list_ex (\<lambda>s. s \<in> set (cp_identity_signatures c) \<and> has_prefix (kind @ '':'') s) signatures"

definition same_story :: "EvidenceProjection \<Rightarrow> string option \<Rightarrow> time \<Rightarrow> CandidateProjection \<Rightarrow> bool" where
  "same_story v fingerprint window c =
     ((case fingerprint of None \<Rightarrow> False | Some f \<Rightarrow> f \<in> set (cp_title_fingerprints c))
      \<and> set (ep_entity_refs v) \<inter> set (cp_entities c) \<noteq> {}
      \<and> seen_time v \<ge> cp_first_seen_at c - window \<and> seen_time v \<le> cp_latest_seen_at c + window)"

definition rank ::
  "EvidenceProjection \<Rightarrow> string list \<Rightarrow> string option \<Rightarrow> time \<Rightarrow> CandidateProjection \<Rightarrow> (nat \<times> MatchRule \<times> CandidateProjection) option" where
  "rank v signatures fingerprint window c =
     (if shares ''official'' signatures c then Some (1, OFFICIAL_IDENTITY, c)
      else if shares ''url'' signatures c then Some (2, CANONICAL_URL, c)
      else if shares ''provider'' signatures c then Some (3, PROVIDER_EXTERNAL_ID, c)
      else if same_story v fingerprint window c then Some (4, ENTITY_TITLE_TIME, c)
      else if shares ''hash'' signatures c then Some (5, APPROVED_HASH, c)
      else None)"

definition strong_identity :: "string list \<Rightarrow> string option" where
  "strong_identity signatures = map_option sig_hash (List.find (has_prefix ''official:'') signatures)"

definition ranked ::
  "EvidenceProjection \<Rightarrow> string list \<Rightarrow> string option \<Rightarrow> time \<Rightarrow> CandidateProjection list \<Rightarrow> (nat \<times> MatchRule \<times> CandidateProjection) list" where
  "ranked v signatures fingerprint window candidates =
     List.map_filter (rank v signatures fingerprint window) candidates"

definition best_ranked :: "(nat \<times> 'a) list \<Rightarrow> (nat \<times> 'a) list" where
  "best_ranked items = filter (\<lambda>x. fst x = Min (fst ` set items)) items"

definition decision ::
  "urllib \<Rightarrow> EvidenceProjection \<Rightarrow> string list \<Rightarrow> uuid option \<Rightarrow> MatchRule \<Rightarrow> StableAnchor \<Rightarrow> MatchDecision" where
  "decision lib v signatures i rule anchor =
     \<lparr>md_candidate_id = i, md_match_rule = rule, md_rule_version = RULE_VERSION, md_anchor = anchor,
      md_signatures = signatures, md_title_fingerprint = title_fingerprint lib (ep_title v),
      md_strong_identity_hash = strong_identity signatures\<rparr>"

definition match_existing :: "urllib \<Rightarrow> EvidenceProjection \<Rightarrow> CandidateProjection list \<Rightarrow> time \<Rightarrow> MatchDecision res" where
  "match_existing lib v candidates window =
     bindR (evidence_signatures lib v) (\<lambda>signatures.
       let items = ranked v signatures (title_fingerprint lib (ep_title v)) window candidates in
       if items = []
       then bindR (derive_anchor lib v False) (\<lambda>anchor. Inr (decision lib v signatures None NEW_CANDIDATE anchor))
       else case best_ranked items of
         [x] \<Rightarrow> bindR (derive_anchor lib v False) (\<lambda>anchor.
                  Inr (decision lib v signatures (Some (cp_id (snd (snd x)))) (fst (snd x)) anchor))
       | _ \<Rightarrow> bindR (derive_anchor lib v True) (\<lambda>anchor. Inr (decision lib v signatures None AMBIGUOUS_NEW_CANDIDATE anchor)))"

subsection \<open>Importance\<close>

record ImportanceInput =
  ii_official_source :: bool
  ii_evidence_count :: int
  ii_source_count :: int
  ii_source_priority :: "int option"
  ii_entity_count :: int
  ii_corroborated :: bool

record ImportanceResult =
  ir_score :: rat
  ir_component_reasons :: "string list"
  ir_scoring_version :: int

definition diversity_points :: "ImportanceInput \<Rightarrow> int" where
  "diversity_points v = min 20 (max 0 (ii_source_count v - 1) * 10)"
definition corroboration_points :: "ImportanceInput \<Rightarrow> int" where
  "corroboration_points v = (if ii_corroborated v then 15 else 0)"
definition entity_points :: "ImportanceInput \<Rightarrow> int" where
  "entity_points v = min 15 (ii_entity_count v * 5)"
definition priority_points :: "ImportanceInput \<Rightarrow> int" where
  "priority_points v = min 10 (max 0 (case ii_source_priority v of None \<Rightarrow> 0 | Some p \<Rightarrow> p))"

definition score :: "ImportanceInput \<Rightarrow> ImportanceResult" where
  "score v =
     (if ii_evidence_count v = 0
      then \<lparr>ir_score = 0, ir_component_reasons = [''no_active_evidence:0''], ir_scoring_version = 1\<rparr>
      else
        \<lparr>ir_score = min 100 (of_int (10 + (if ii_official_source v then 30 else 0) + diversity_points v
                                 + corroboration_points v + entity_points v + priority_points v)),
         ir_component_reasons = [''base:10''] @ (if ii_official_source v then [''official_source:30''] else [])
           @ [''source_diversity:'' @ str_int (diversity_points v), ''corroboration:'' @ str_int (corroboration_points v),
              ''entity_relevance:'' @ str_int (entity_points v), ''source_priority:'' @ str_int (priority_points v)],
         ir_scoring_version = 1\<rparr>)"

subsection \<open>Impact analysis\<close>

datatype ImpactDirection = Impact_POSITIVE | Impact_NEGATIVE | Impact_MIXED | Impact_UNCERTAIN
datatype ImpactHorizon = Horizon_IMMEDIATE | Horizon_SHORT_TERM | Horizon_MEDIUM_TERM | Horizon_LONG_TERM

record ImpactRequest =
  irq_event_candidate_id :: uuid
  irq_fact_summary :: "string option"
  irq_evidence_count :: int
  irq_source_count :: int
  irq_official_evidence_present :: bool
  irq_affected_entity_refs :: "string list"
  irq_affected_asset_refs :: "string list"
  irq_affected_sector_refs :: "string list"
  irq_uncertainty :: "string list"

record ImpactAnalysis =
  ia_affected_companies :: "string list"
  ia_affected_assets :: "string list"
  ia_affected_sectors :: "string list"
  ia_impact_direction :: ImpactDirection
  ia_impact_horizon :: ImpactHorizon
  ia_impact_channels :: "string list"
  ia_confidence :: rat
  ia_rationale_summary :: string
  ia_uncertainty :: "string list"
  ia_required_market_validation :: bool
  ia_analysis_version :: int

definition mock_analyze :: "ImpactRequest \<Rightarrow> ImpactAnalysis" where
  "mock_analyze request =
     \<lparr>ia_affected_companies = irq_affected_entity_refs request, ia_affected_assets = irq_affected_asset_refs request,
      ia_affected_sectors = irq_affected_sector_refs request, ia_impact_direction = Impact_UNCERTAIN,
      ia_impact_horizon = Horizon_SHORT_TERM, ia_impact_channels = [''information''],
      ia_confidence = (if irq_source_count request > 1 then 1 / 2 else 1 / 4),
      ia_rationale_summary = ''Deterministic mock; human-reviewed impact analysis is required.'',
      ia_uncertainty = irq_uncertainty request, ia_required_market_validation = True, ia_analysis_version = 1\<rparr>"

definition trading_markers :: "string list" where
  "trading_markers = [''buy'', ''sell'', ''hold'', ''target price'', ''position sizing'', ''rebalance'']"

definition validate_impact_analysis :: "ImpactAnalysis \<Rightarrow> string list" where
  "validate_impact_analysis v =
     (if 0 \<le> ia_confidence v \<and> ia_confidence v \<le> 1 then [] else [''confidence_out_of_range''])
     @ (if ia_analysis_version v < 1 then [''analysis_version_invalid''] else [])
     @ (if strip (ia_rationale_summary v) = [] then [''rationale_summary_required''] else [])
     @ (if list_ex (\<lambda>m. contains m (lower (ia_rationale_summary v))) trading_markers
        then [''trading_action_language_forbidden''] else [])"

subsection \<open>Matching does not depend on the order of the candidates\<close>

lemma mset_map_filter: "mset xs = mset ys \<Longrightarrow> mset (List.map_filter f xs) = mset (List.map_filter f ys)"
  by (simp add: map_filter_def mset_filter flip: mset_map) (metis mset_filter mset_map)

lemma best_ranked_mset: "mset xs = mset ys \<Longrightarrow> mset (best_ranked xs) = mset (best_ranked ys)"
  unfolding best_ranked_def by (metis mset_filter set_mset_mset)

lemma mset_case_single:
  assumes "mset xs = mset ys"
  shows "(case xs of [x] \<Rightarrow> f x | _ \<Rightarrow> g) = (case ys of [y] \<Rightarrow> f y | _ \<Rightarrow> g)"
proof -
  have "length xs = length ys" by (metis assms size_mset)
  moreover have "xs = [x] \<longleftrightarrow> ys = [x]" for x by (metis assms mset_single_iff mset_single_iff_right)
  ultimately show ?thesis by (auto split: list.split)
qed

text \<open>Property C30.  The query that loads the candidates has no order, and the decision does not depend on one: two lists with the
  same candidates give the same decision, down to the anchor and the signatures.\<close>

theorem match_is_order_free:
  assumes "mset candidates = mset candidates'"
  shows "match_existing lib v candidates window = match_existing lib v candidates' window"
proof -
  have items: "mset (ranked v s f window candidates) = mset (ranked v s f window candidates')" for s f
    unfolding ranked_def by (rule mset_map_filter [OF assms])
  have empty: "ranked v s f window candidates = [] \<longleftrightarrow> ranked v s f window candidates' = []" for s f
    using items [of s f] by (metis mset_zero_iff mset_zero_iff_right)
  have best: "mset (best_ranked (ranked v s f window candidates)) = mset (best_ranked (ranked v s f window candidates'))" for s f
    by (rule best_ranked_mset [OF items])
  have "(let items = ranked v s f window candidates in if items = [] then A else case best_ranked items of [x] \<Rightarrow> F x | _ \<Rightarrow> B)
      = (let items = ranked v s f window candidates' in if items = [] then A else case best_ranked items of [x] \<Rightarrow> F x | _ \<Rightarrow> B)"
    for s f A B and F :: "nat \<times> MatchRule \<times> CandidateProjection \<Rightarrow> MatchDecision res"
    unfolding Let_def empty [of s f] mset_case_single [OF best [of s f], where f = F and g = B] by (rule refl)
  then show ?thesis unfolding match_existing_def by presburger
qed

lemma best_ranked_single:
  assumes "best_ranked items = [x]"
  shows "x \<in> set items \<and> (\<forall>y \<in> set items. fst x \<le> fst y) \<and> (\<forall>y \<in> set items. fst y = fst x \<longrightarrow> y = x)"
proof -
  have "x \<in> set (best_ranked items)" unfolding assms by simp
  then have x: "x \<in> set items" "fst x = Min (fst ` set items)" unfolding best_ranked_def by simp_all
  have "y = x" if "y \<in> set items" "fst y = fst x" for y
  proof -
    have "y \<in> set (best_ranked items)" unfolding best_ranked_def using that x(2) by simp
    then show ?thesis unfolding assms by simp
  qed
  moreover have "fst x \<le> fst y" if "y \<in> set items" for y unfolding x(2) using that by simp
  ultimately show ?thesis using x(1) by blast
qed

lemma in_ranked: "x \<in> set (ranked v s f window cs) \<longleftrightarrow> (\<exists>c \<in> set cs. rank v s f window c = Some x)"
  by (auto simp: ranked_def map_filter_def intro!: rev_image_eqI) (cases x, auto)

lemma rank_candidate: "rank v s f window c = Some (k, rule, c') \<Longrightarrow> c' = c"
  by (auto simp: rank_def split: if_splits)

text \<open>When the decision names a candidate, it is one of the loaded candidates, it matches the evidence by the rule of the
  decision, and every other candidate that matches does so by a weaker rule: equally strong rivals are never decided between.\<close>

theorem match_picks_strongest:
  assumes "match_existing lib v candidates window = Inr d" and "md_candidate_id d = Some i"
  shows "\<exists>c k. c \<in> set candidates \<and> cp_id c = i
     \<and> rank v (md_signatures d) (md_title_fingerprint d) window c = Some (k, md_match_rule d, c)
     \<and> list_all (\<lambda>c'. c' = c \<or> (case rank v (md_signatures d) (md_title_fingerprint d) window c' of None \<Rightarrow> True | Some (k', _, _) \<Rightarrow> k < k'))
         candidates"
proof -
  obtain s where s: "evidence_signatures lib v = Inr s" using assms(1) by (auto simp: match_existing_def bindR_Inr_iff)
  let ?f = "title_fingerprint lib (ep_title v)"
  let ?items = "ranked v s ?f window candidates"
  obtain x where x: "best_ranked ?items = [x]"
    using assms s by (auto simp: match_existing_def bindR_Inr_iff decision_def Let_def split: if_splits list.splits)
  obtain k rule c where best: "best_ranked ?items = [(k, rule, c)]" using x by (cases x) auto
  have d: "cp_id c = i" "md_match_rule d = rule"
      "md_signatures d = s" "md_title_fingerprint d = ?f"
    using assms s best by (auto simp: match_existing_def bindR_Inr_iff decision_def Let_def split: if_splits)
  note b = best_ranked_single [OF best]
  obtain c0 where c0: "c0 \<in> set candidates" "rank v s ?f window c0 = Some (k, rule, c)" using b by (auto simp: in_ranked)
  have c: "c = c0" using rank_candidate [OF c0(2)] .
  have "k < k'" if c': "c' \<in> set candidates" "c' \<noteq> c" "rank v s ?f window c' = Some (k', r', e)" for c' k' r' e
  proof -
    have "(k', r', e) \<in> set ?items" using c' by (auto simp: in_ranked)
    moreover have "e = c'" using rank_candidate [OF c'(3)] .
    ultimately show ?thesis using b c'(2) by (metis fst_conv le_neq_implies_less prod.inject)
  qed
  then show ?thesis using c0 c d by (intro exI [of _ c] exI [of _ k]) (auto simp: list_all_iff split: option.split)
qed

subsection \<open>Hashes\<close>

text \<open>What \<open>hashlib.sha256(..).hexdigest()\<close> returns: 64 lower-case hexadecimal digits.\<close>

definition digest_ok :: "urllib \<Rightarrow> bool" where
  "digest_ok lib \<longleftrightarrow> (\<forall>s. hex64 (sha256_hex lib s))"

lemma sig_hash_signature: "CHR '':'' \<notin> set kind \<Longrightarrow> sig_hash (signature lib kind v) = sha256_hex lib v"
  by (subgoal_tac "dropWhile (\<lambda>c. c \<noteq> CHR '':'') kind = []") (auto simp: signature_def sig_hash_def dropWhile_append3)

lemma signatures_hashed:
  assumes "digest_ok lib" and "evidence_signatures lib v = Inr ss" and "s \<in> set ss"
  shows "hex64 (sig_hash s)"
proof -
  obtain kind x where "s = signature lib kind x" "CHR '':'' \<notin> set kind"
    using assms(2,3) by (auto simp: evidence_signatures_def bindR_Inr_iff split: option.splits if_splits)
  then show ?thesis using assms(1) by (simp add: sig_hash_signature digest_ok_def)
qed

lemma strong_identity_hashed:
  assumes "digest_ok lib" and "evidence_signatures lib v = Inr ss" and "strong_identity ss = Some h"
  shows "hex64 h"
proof -
  obtain s where "s \<in> set ss" "h = sig_hash s"
    using assms(3) by (auto simp: strong_identity_def dest: find_Some_in)
  then show ?thesis using signatures_hashed [OF assms(1,2)] by simp
qed

subsection \<open>Canonical URLs\<close>

text \<open>The canonical form of a URL ignores the case of scheme and host, trailing slashes of the path, the order of the query
  parameters and the tracking parameters.\<close>

lemma canonical_url_ignores_noise:
  assumes "urlsplit lib (strip a) = Some p" and "urlsplit lib (strip b) = Some q"
    and "lower (url_scheme p) = lower (url_scheme q)" and "map_option lower (url_hostname p) = map_option lower (url_hostname q)"
    and "url_port p = url_port q" and "rstrip_slash (url_path p) = rstrip_slash (url_path q)"
    and "filter_mset (\<lambda>kv. lower (fst kv) \<notin> set TRACKING_QUERY_PARAMETERS) (mset (parse_qsl lib (url_query p)))
       = filter_mset (\<lambda>kv. lower (fst kv) \<notin> set TRACKING_QUERY_PARAMETERS) (mset (parse_qsl lib (url_query q)))"
  shows "canonicalize_url lib (Some a) = canonicalize_url lib (Some b)"
proof -
  have "canonical_query lib (url_query p) = canonical_query lib (url_query q)"
    unfolding canonical_query_def using assms(7)
    by (intro properties_for_sort) (simp_all add: case_prod_unfold mset_filter)
  then show ?thesis
    using assms(1-6) by (cases "url_hostname p"; cases "url_hostname q"; cases "url_port q") (simp_all add: canonicalize_url_def canonical_parts_def canonical_path_def Let_def)
qed

subsection \<open>Scores\<close>

lemma score_range: "0 \<le> ii_entity_count v \<Longrightarrow> 0 \<le> ir_score (score v) \<and> ir_score (score v) \<le> 100"
  by (auto simp: score_def diversity_points_def corroboration_points_def entity_points_def priority_points_def
      intro!: add_nonneg_nonneg simp flip: of_int_add)

text \<open>The points a reason claims: the number after its colon.\<close>

definition reason_points :: "string \<Rightarrow> int" where
  "reason_points s = int (read_digits 0 (sig_hash s))"

lemma reason_points_text [simp]:
  "CHR '':'' \<notin> set kind \<Longrightarrow> 0 \<le> n \<Longrightarrow> reason_points (kind @ CHR '':'' # str_int n) = n"
  by (subgoal_tac "dropWhile (\<lambda>c. c \<noteq> CHR '':'') kind = []") (auto simp: reason_points_def sig_hash_def dropWhile_append3 str_int_def)

text \<open>The importance score of an event with evidence lies between 10 and 100 and is fully explained: it is the sum of the
  points that its reasons state, so the cap at 100 never cuts anything off.  Without evidence it is 0.\<close>

theorem score_is_explained:
  assumes "0 \<le> ii_entity_count v"
  shows "ir_score (score v) = of_int (sum_list (map reason_points (ir_component_reasons (score v))))
     \<and> (if ii_evidence_count v = 0 then ir_score (score v) = 0 else 10 \<le> ir_score (score v) \<and> ir_score (score v) \<le> 100)"
proof -
  have pts: "0 \<le> diversity_points v" "diversity_points v \<le> 20" "0 \<le> corroboration_points v" "corroboration_points v \<le> 15"
    "0 \<le> entity_points v" "entity_points v \<le> 15" "0 \<le> priority_points v" "priority_points v \<le> 10"
    using assms by (simp_all add: diversity_points_def corroboration_points_def entity_points_def priority_points_def)
  let ?sum = "10 + (if ii_official_source v then 30 else 0) + diversity_points v + corroboration_points v + entity_points v + priority_points v"
  have "?sum \<le> 100" "10 \<le> ?sum" using pts by auto
  then have s: "min 100 (of_int ?sum) = (of_int ?sum :: rat)" "(10 :: rat) \<le> of_int ?sum" "of_int ?sum \<le> (100 :: rat)"
    by (simp_all only: min_def) (linarith | simp)+
  have fixed: "reason_points ''base:10'' = 10" "reason_points ''official_source:30'' = 30" "reason_points ''no_active_evidence:0'' = 0"
    by code_simp+
  have named: "reason_points (''source_diversity:'' @ str_int (diversity_points v)) = diversity_points v"
    "reason_points (''corroboration:'' @ str_int (corroboration_points v)) = corroboration_points v"
    "reason_points (''entity_relevance:'' @ str_int (entity_points v)) = entity_points v"
    "reason_points (''source_priority:'' @ str_int (priority_points v)) = priority_points v"
    using pts reason_points_text [of "''source_diversity''"] reason_points_text [of "''corroboration''"]
      reason_points_text [of "''entity_relevance''"] reason_points_text [of "''source_priority''"] by simp_all
  show ?thesis
    using s by (simp add: score_def fixed named del: append.simps)
qed

text \<open>The built-in analyzer meets the contract that an analysis is validated against.\<close>

lemma mock_analysis_is_valid: "validate_impact_analysis (mock_analyze request) = []"
proof -
  have "\<not> list_ex (\<lambda>m. contains m (lower ''Deterministic mock; human-reviewed impact analysis is required.'')) trading_markers"
    "strip ''Deterministic mock; human-reviewed impact analysis is required.'' \<noteq> []" by code_simp+
  then show ?thesis by (simp add: validate_impact_analysis_def mock_analyze_def)
qed

subsection \<open>Closed instances\<close>

definition sample_urllib :: urllib where
  "sample_urllib = pylib.extend sample_lib (urllib.fields (\<lambda>_. []) (\<lambda>_. []) (\<lambda>_. []))"

definition sample_news :: EvidenceProjection where
  "sample_news = \<lparr>ep_evidence_item_id = ''e1'', ep_provider = ''marketaux'', ep_provider_item_id = Some ''x1'', ep_provider_item_hash = sample_hash,
     ep_official_source = False, ep_canonical_url = None, ep_title = None, ep_event_time = Some 5, ep_observed_at = 6, ep_entity_refs = [],
     ep_asset_refs = [], ep_topic_refs = [], ep_source_priority = None\<rparr>"

definition sample_rival :: "uuid \<Rightarrow> string \<Rightarrow> CandidateProjection" where
  "sample_rival i kind = \<lparr>cp_id = i, cp_cluster_key = sample_hash, cp_strong_identity_hash = None,
     cp_identity_signatures = [kind @ '':'' @ sample_hash], cp_title_fingerprints = [], cp_first_seen_at = 5, cp_latest_seen_at = 5, cp_entities = []\<rparr>"

abbreviation sample_match :: "CandidateProjection list \<Rightarrow> MatchDecision res" where
  "sample_match cs \<equiv> match_existing sample_urllib sample_news cs 86400000000"

theorem match_is_order_free_witness:
  "sample_match [sample_rival ''k1'' ''hash'', sample_rival ''k2'' ''provider''] = sample_match [sample_rival ''k2'' ''provider'', sample_rival ''k1'' ''hash'']"
  by (rule match_is_order_free) simp

theorem match_picks_strongest_witness:
  "\<exists>m c k. sample_match [sample_rival ''k1'' ''hash'', sample_rival ''k2'' ''provider''] = Inr m \<and> md_candidate_id m = Some ''k2''
     \<and> rank sample_news (md_signatures m) (md_title_fingerprint m) 86400000000 c = Some (k, md_match_rule m, c) \<and> cp_id c = ''k2''"
proof -
  have "map_sum (\<lambda>_. ()) md_candidate_id (sample_match [sample_rival ''k1'' ''hash'', sample_rival ''k2'' ''provider'']) = Inr (Some ''k2'')" by code_simp
  then obtain m where m: "sample_match [sample_rival ''k1'' ''hash'', sample_rival ''k2'' ''provider''] = Inr m" "md_candidate_id m = Some ''k2''"
    by (cases "sample_match [sample_rival ''k1'' ''hash'', sample_rival ''k2'' ''provider'']") auto
  from match_picks_strongest [OF m] m show ?thesis by blast
qed

theorem score_is_explained_witness:
  "ir_score (score \<lparr>ii_official_source = True, ii_evidence_count = 9, ii_source_count = 9, ii_source_priority = Some 50,
     ii_entity_count = 7, ii_corroborated = True\<rparr>) \<le> 100"
  using score_is_explained [of "\<lparr>ii_official_source = True, ii_evidence_count = 9, ii_source_count = 9, ii_source_priority = Some 50,
     ii_entity_count = 7, ii_corroborated = True\<rparr>"] by simp

end
