(* ===== verification/Evidence_Schema.thy ===== *)
theory Evidence_Schema
  imports Schema
begin

text \<open>
  The evidence and event tables of \<open>db/models.py\<close>: rows, lookups, check constraints and unique indexes.
\<close>

datatype EvidenceProjectionLinkStatus = Link_PENDING | Link_PROCESSING | Link_LINKED | Link_RETRY | Link_BLOCKED

datatype EventCandidateStatus = Cand_CANDIDATE | Cand_CONFIRMED | Cand_REJECTED

record EvidenceItem =
  evi_id :: uuid
  evi_evidence_version :: int
  evi_provider :: string
  evi_provider_item_type :: string
  evi_evidence_kind :: string
  evi_source_type :: string
  evi_source_id :: uuid
  evi_source_account_id :: "uuid option"
  evi_raw_item_id :: uuid
  evi_content_item_id :: "uuid option"
  evi_provider_item_id :: "string option"
  evi_provider_item_hash :: string
  evi_event_time :: "time option"
  evi_observed_at :: time
  evi_access_level :: string
  evi_processing_status :: string
  evi_official_source_flag :: bool
  evi_market_data_flag :: bool
  evi_disclosure_flag :: bool
  evi_news_signal_flag :: bool
  evi_content_presence :: dict
  evi_numeric_presence :: dict
  evi_entity_refs :: "json list"
  evi_asset_refs :: "json list"
  evi_topic_refs :: "json list"
  evi_raw_payload_reference :: "string option"
  evi_errors :: "json list"
  evi_created_at :: time
  evi_updated_at :: time

record EventCandidate =
  cand_id :: uuid
  cand_cluster_key :: string
  cand_anchor_type :: string
  cand_anchor_value_hash :: string
  cand_strong_identity_hash :: "string option"
  cand_identity_signatures :: "string list"
  cand_title_fingerprints :: "string list"
  cand_event_type :: string
  cand_status :: EventCandidateStatus
  cand_canonical_title :: "string option"
  cand_fact_summary :: "string option"
  cand_first_seen_at :: time
  cand_latest_seen_at :: time
  cand_occurred_at :: "time option"
  cand_published_at :: "time option"
  cand_primary_entity :: "string option"
  cand_entities :: "string list"
  cand_companies :: "string list"
  cand_assets :: "string list"
  cand_sectors :: "string list"
  cand_topics :: "string list"
  cand_evidence_count :: int
  cand_source_count :: int
  cand_confidence :: rat
  cand_importance_score :: rat
  cand_importance_reasons :: "string list"
  cand_created_at :: time
  cand_updated_at :: time

record EventCandidateEvidence =
  ece_id :: uuid
  ece_event_candidate_id :: uuid
  ece_evidence_item_id :: uuid
  ece_match_rule :: string
  ece_rule_version :: int
  ece_official_source :: bool
  ece_active :: bool
  ece_added_at :: time
  ece_removed_at :: "time option"

record EvidenceProjectionLink =
  epl_id :: uuid
  epl_safe_fact_projection_id :: uuid
  epl_evidence_item_id :: "uuid option"
  epl_content_item_id :: "uuid option"
  epl_status :: EvidenceProjectionLinkStatus
  epl_attempt_count :: int
  epl_next_retry_at :: "time option"
  epl_safe_error_code :: "string option"
  epl_linked_at :: "time option"
  epl_canonical_evidence :: bool
  epl_canonical_content :: bool
  epl_created_at :: time
  epl_updated_at :: time

text \<open>The database of \<open>Schema\<close> with the evidence tables; \<open>base\<close> forgets them.\<close>

record event_db = db +
  evidence_items :: "EvidenceItem list"
  evidence_projection_links :: "EvidenceProjectionLink list"
  event_candidates :: "EventCandidate list"
  event_candidate_evidence :: "EventCandidateEvidence list"

abbreviation base :: "event_db \<Rightarrow> db" where "base \<equiv> db.truncate"

definition get_raw :: "event_db \<Rightarrow> uuid \<Rightarrow> RawItem option" where
  "get_raw d i = List.find (\<lambda>r. raw_id r = i) (raw_items d)"
definition get_observation :: "event_db \<Rightarrow> uuid \<Rightarrow> RawItemObservation option" where
  "get_observation d i = List.find (\<lambda>r. obs_id r = i) (raw_item_observations d)"
definition get_link :: "event_db \<Rightarrow> uuid \<Rightarrow> EvidenceProjectionLink option" where
  "get_link d i = List.find (\<lambda>r. epl_id r = i) (evidence_projection_links d)"
definition put_projection_link :: "EvidenceProjectionLink \<Rightarrow> event_db \<Rightarrow> event_db" where
  "put_projection_link l d = d\<lparr>evidence_projection_links :=
     update_where (\<lambda>r. epl_id r = epl_id l) (\<lambda>_. l) (evidence_projection_links d)\<rparr>"

subsection \<open>Check constraints, primary keys and unique indexes\<close>

definition evidence_flags_consistent :: "EvidenceItem \<Rightarrow> bool" where
  "evidence_flags_consistent e =
     (let t = evi_provider_item_type e; official = evi_official_source_flag e; market = evi_market_data_flag e;
          disclosure = evi_disclosure_flag e; news = evi_news_signal_flag e in
      (t \<in> {''marketaux_news'', ''finnhub_company_news''} \<and> news \<and> \<not> official \<and> \<not> market \<and> \<not> disclosure)
      \<or> (t = ''finnhub_quote'' \<and> market \<and> \<not> official \<and> \<not> disclosure \<and> \<not> news)
      \<or> (t = ''eia_energy_timeseries'' \<and> official \<and> \<not> market \<and> \<not> disclosure \<and> \<not> news)
      \<or> (t = ''sec_filing'' \<and> official \<and> disclosure \<and> \<not> market \<and> \<not> news))"

text \<open>\<open>LIKE '%p%'\<close> and \<open>LIKE 'p%'\<close>, where an underscore of \<open>p\<close> stands for any character.\<close>

fun like_prefix :: "string \<Rightarrow> string \<Rightarrow> bool" where
  "like_prefix [] s = True"
| "like_prefix (p # ps) [] = False"
| "like_prefix (p # ps) (c # cs) = ((p = CHR ''_'' \<or> p = c) \<and> like_prefix ps cs)"

fun like_contains :: "string \<Rightarrow> string \<Rightarrow> bool" where
  "like_contains p [] = like_prefix p []"
| "like_contains p (c # cs) = (like_prefix p (c # cs) \<or> like_contains p cs)"

definition raw_reference_ok :: "string option \<Rightarrow> bool" where
  "raw_reference_ok r =
     (case r of None \<Rightarrow> True
      | Some s \<Rightarrow>
          (like_prefix ''internal://'' s \<or> like_prefix ''capture://'' s \<or> like_prefix ''local-ref://'' s)
          \<and> \<not> like_prefix ''http://'' s \<and> \<not> like_prefix ''https://'' s
          \<and> \<not> list_ex (\<lambda>m. like_contains m (lower s)) [''api_key='', ''api_token='', ''token='', ''authorization'', ''x-finnhub-token''])"

definition ck_evidence_items :: "EvidenceItem \<Rightarrow> bool" where
  "ck_evidence_items e =
     (evi_evidence_version e > 0 \<and> hex64 (evi_provider_item_hash e)
      \<and> evi_provider e \<in> {''marketaux'', ''finnhub'', ''eia'', ''sec_edgar''}
      \<and> evi_provider_item_type e \<in> {''marketaux_news'', ''finnhub_quote'', ''finnhub_company_news'', ''eia_energy_timeseries'', ''sec_filing''}
      \<and> evi_evidence_kind e \<in> {''news'', ''market_data'', ''energy_official'', ''disclosure''}
      \<and> evi_source_type e \<in> {''news'', ''market_data'', ''official_energy'', ''disclosure''}
      \<and> evi_access_level e \<in> {''public_fulltext'', ''public_summary'', ''subscription_required'', ''licensed'', ''link_only'', ''blocked'', ''unknown''}
      \<and> evi_processing_status e \<in> {''pending'', ''validated'', ''blocked'', ''invalid''}
      \<and> evidence_flags_consistent e \<and> raw_reference_ok (evi_raw_payload_reference e))"

text \<open>The bounded columns that no check limits further: a longer text is refused by the driver before the checks.\<close>

definition evidence_widths :: "EvidenceItem \<Rightarrow> bool" where
  "evidence_widths e =
     ((case evi_provider_item_id e of None \<Rightarrow> True | Some i \<Rightarrow> length i \<le> 255)
      \<and> (case evi_raw_payload_reference e of None \<Rightarrow> True | Some r \<Rightarrow> length r \<le> 512))"

definition uq_evidence_items :: "EvidenceItem list \<Rightarrow> bool" where
  "uq_evidence_items es =
     (distinct (map evi_id es)
      \<and> distinct (map (\<lambda>e. (evi_provider e, evi_provider_item_hash e)) es)
      \<and> distinct (List.map_filter (\<lambda>e. map_option (\<lambda>i. (evi_provider e, i)) (evi_provider_item_id e)) es))"

definition uq_content_items :: "ContentItem list \<Rightarrow> bool" where
  "uq_content_items cs =
     (distinct (map cnt_id cs)
      \<and> distinct (List.map_filter (\<lambda>c. map_option (\<lambda>i. (cnt_source_id c, i)) (cnt_external_id c)) cs)
      \<and> distinct (List.map_filter cnt_canonical_url cs)
      \<and> distinct (List.map_filter (\<lambda>c. map_option (\<lambda>h. (cnt_source_id c, h)) (cnt_content_hash c)) cs)
      \<and> distinct (map cnt_raw_item_id cs))"

definition ck_evidence_projection_links :: "EvidenceProjectionLink \<Rightarrow> bool" where
  "ck_evidence_projection_links l =
     (0 \<le> epl_attempt_count l
      \<and> (if epl_status l = Link_LINKED then epl_evidence_item_id l \<noteq> None \<and> epl_linked_at l \<noteq> None
         else epl_evidence_item_id l = None \<and> epl_content_item_id l = None \<and> epl_linked_at l = None)
      \<and> (epl_canonical_evidence l \<longrightarrow> epl_status l = Link_LINKED)
      \<and> (epl_canonical_content l \<longrightarrow> epl_status l = Link_LINKED \<and> epl_content_item_id l \<noteq> None))"

definition uq_evidence_projection_links :: "EvidenceProjectionLink list \<Rightarrow> bool" where
  "uq_evidence_projection_links ls =
     (distinct (map epl_id ls) \<and> distinct (map epl_safe_fact_projection_id ls)
      \<and> distinct (map epl_evidence_item_id (filter epl_canonical_evidence ls))
      \<and> distinct (map epl_content_item_id (filter epl_canonical_content ls)))"

definition ck_event_candidates :: "EventCandidate \<Rightarrow> bool" where
  "ck_event_candidates c =
     (hex64 (cand_cluster_key c) \<and> hex64 (cand_anchor_value_hash c)
      \<and> (case cand_strong_identity_hash c of None \<Rightarrow> True | Some h \<Rightarrow> hex64 h)
      \<and> 0 \<le> cand_evidence_count c \<and> 0 \<le> cand_source_count c
      \<and> 0 \<le> cand_confidence c \<and> cand_confidence c \<le> 1
      \<and> 0 \<le> cand_importance_score c \<and> cand_importance_score c \<le> 100
      \<and> cand_first_seen_at c \<le> cand_latest_seen_at c)"

definition uq_cluster_key :: "EventCandidate list \<Rightarrow> bool" where
  "uq_cluster_key cs = distinct (map cand_cluster_key cs)"

definition ck_event_evidence :: "EventCandidateEvidence \<Rightarrow> bool" where
  "ck_event_evidence l =
     (strip (ece_match_rule l) \<noteq> [] \<and> ece_rule_version l > 0 \<and> (ece_active l = (ece_removed_at l = None)))"

definition uq_active_pair :: "EventCandidateEvidence list \<Rightarrow> bool" where
  "uq_active_pair ls = distinct (map (\<lambda>l. (ece_event_candidate_id l, ece_evidence_item_id l)) (filter ece_active ls))"

end
