(* ===== verification/Event_Candidates.thy ===== *)
theory Event_Candidates
  imports Event_Matching Evidence_Schema Transition_Systems
begin

text \<open>
  The transactional part of \<open>event_intelligence/service.py\<close>: the repository lookups and the service operations
  \<open>process\<close>, \<open>deactivate_association\<close> and \<open>regroup_association\<close>, over the tables \<open>evidence_items\<close>, \<open>event_candidates\<close> and
  \<open>event_candidate_evidence\<close> of \<open>db/models.py\<close>.  The caller's session is one transaction per operation: an exception leaves the
  database as it was.  The lists of a candidate hold the texts the service writes there; those of an evidence item hold JSON and are read through \<open>str\<close>.
  Confidence is a rational number, Python's rounding of it is not modelled.
\<close>

record EventCandidateOutcome =
  eco_event_candidate_id :: uuid
  eco_cluster_key :: string
  eco_status :: string
  eco_match_rule :: MatchRule
  eco_rule_version :: int
  eco_association_active :: bool

subsection \<open>The repository\<close>

definition get_evidence :: "event_db \<Rightarrow> uuid \<Rightarrow> EvidenceItem option" where
  "get_evidence d i = List.find (\<lambda>e. evi_id e = i) (evidence_items d)"

definition content_of :: "event_db \<Rightarrow> EvidenceItem \<Rightarrow> ContentItem option" where
  "content_of d e =
     (case evi_content_item_id e of None \<Rightarrow> None | Some i \<Rightarrow> List.find (\<lambda>c. cnt_id c = i) (content_items d))"

definition load_evidence_projection :: "urllib \<Rightarrow> uuid \<Rightarrow> event_db \<Rightarrow> EvidenceProjection option" where
  "load_evidence_projection lib i d =
     map_option (\<lambda>e.
       \<lparr>ep_evidence_item_id = evi_id e, ep_provider = evi_provider e, ep_provider_item_id = evi_provider_item_id e,
        ep_provider_item_hash = evi_provider_item_hash e, ep_official_source = evi_official_source_flag e,
        ep_canonical_url = Option.bind (content_of d e) cnt_canonical_url, ep_title = Option.bind (content_of d e) cnt_title,
        ep_event_time = evi_event_time e, ep_observed_at = evi_observed_at e,
        ep_entity_refs = map (py_str lib) (evi_entity_refs e), ep_asset_refs = map (py_str lib) (evi_asset_refs e),
        ep_topic_refs = map (py_str lib) (evi_topic_refs e), ep_source_priority = None\<rparr>) (get_evidence d i)"

definition load_candidates :: "event_db \<Rightarrow> CandidateProjection list" where
  "load_candidates d =
     map (\<lambda>c. \<lparr>cp_id = cand_id c, cp_cluster_key = cand_cluster_key c, cp_strong_identity_hash = cand_strong_identity_hash c,
               cp_identity_signatures = cand_identity_signatures c, cp_title_fingerprints = cand_title_fingerprints c,
               cp_first_seen_at = cand_first_seen_at c, cp_latest_seen_at = cand_latest_seen_at c, cp_entities = cand_entities c\<rparr>)
       (event_candidates d)"

definition active_associations :: "uuid \<Rightarrow> event_db \<Rightarrow> EventCandidateEvidence list" where
  "active_associations i d =
     sort_key (\<lambda>l. (ece_added_at l, ece_id l))
       (filter (\<lambda>l. ece_evidence_item_id l = i \<and> ece_active l) (event_candidate_evidence d))"

definition get_candidate :: "event_db \<Rightarrow> uuid \<Rightarrow> EventCandidate option" where
  "get_candidate d i = List.find (\<lambda>c. cand_id c = i) (event_candidates d)"

definition get_by_cluster_key :: "event_db \<Rightarrow> string \<Rightarrow> EventCandidate option" where
  "get_by_cluster_key d key = List.find (\<lambda>c. cand_cluster_key c = key) (event_candidates d)"

text \<open>The flush of a candidate: an \<open>UPDATE\<close> that touches \<open>updated_at\<close> when a column changed.\<close>

definition save_candidate :: "time \<Rightarrow> EventCandidate \<Rightarrow> EventCandidate \<Rightarrow> event_db \<Rightarrow> event_db" where
  "save_candidate now c0 c d =
     (if c = c0 then d
      else d\<lparr>event_candidates := update_where (\<lambda>r. cand_id r = cand_id c) (\<lambda>_. c\<lparr>cand_updated_at := now\<rparr>) (event_candidates d)\<rparr>)"

definition event_outcome :: "EventCandidate \<Rightarrow> EventCandidateEvidence \<Rightarrow> string \<Rightarrow> EventCandidateOutcome res" where
  "event_outcome c l status =
     bindR (match_rule_of (ece_match_rule l)) (\<lambda>rule.
       Inr \<lparr>eco_event_candidate_id = cand_id c, eco_cluster_key = cand_cluster_key c, eco_status = status,
            eco_match_rule = rule, eco_rule_version = ece_rule_version l, eco_association_active = ece_active l\<rparr>)"

subsection \<open>Aggregates\<close>

definition active_evidence :: "event_db \<Rightarrow> uuid \<Rightarrow> (EvidenceItem \<times> bool) list" where
  "active_evidence d i =
     List.map_filter (\<lambda>l.
       if ece_event_candidate_id l = i \<and> ece_active l
       then map_option (\<lambda>e. (e, ece_official_source l)) (get_evidence d (ece_evidence_item_id l)) else None)
       (event_candidate_evidence d)"

definition confidence_of :: "bool \<Rightarrow> int \<Rightarrow> int \<Rightarrow> rat" where
  "confidence_of official evidence n =
     (if evidence = 0 then 0
      else min 1 (45 / 100 + (if official then 2 / 10 else 0) + min (3 / 10) (of_int (max 0 (n - 1)) * (15 / 100))))"

definition recalculate_aggregates :: "urllib \<Rightarrow> int option \<Rightarrow> event_db \<Rightarrow> EventCandidate \<Rightarrow> EventCandidate" where
  "recalculate_aggregates lib source_priority d c =
     (let rows = active_evidence d (cand_id c);
          evidence = int (length rows);
          distinct_sources = int (length (remdups (map (evi_source_id \<circ> fst) rows)));
          official = list_ex snd rows;
          entities = remdups (concat (map (\<lambda>r. map (py_str lib) (evi_entity_refs (fst r))) rows));
          importance = score \<lparr>ii_official_source = official, ii_evidence_count = evidence, ii_source_count = distinct_sources,
            ii_source_priority = source_priority, ii_entity_count = int (length entities), ii_corroborated = distinct_sources > 1\<rparr>
      in c\<lparr>cand_evidence_count := evidence, cand_source_count := distinct_sources,
           cand_status := (if evidence = 0 then Cand_REJECTED
                           else if cand_status c = Cand_REJECTED then Cand_CANDIDATE else cand_status c),
           cand_importance_score := ir_score importance, cand_importance_reasons := ir_component_reasons importance,
           cand_confidence := confidence_of official evidence distinct_sources\<rparr>)"

text \<open>\<open>sorted(set(..) | set(..))\<close>.\<close>

definition merge :: "string list \<Rightarrow> string list \<Rightarrow> string list" where
  "merge xs ys = sort (remdups (xs @ ys))"

definition merged_candidate :: "EvidenceProjection \<Rightarrow> MatchDecision \<Rightarrow> EventCandidate \<Rightarrow> EventCandidate" where
  "merged_candidate v m c =
     c\<lparr>cand_identity_signatures := merge (cand_identity_signatures c) (md_signatures m),
       cand_title_fingerprints := (case md_title_fingerprint m of None \<Rightarrow> cand_title_fingerprints c
                                   | Some f \<Rightarrow> merge (cand_title_fingerprints c) [f]),
       cand_strong_identity_hash := (case cand_strong_identity_hash c of None \<Rightarrow> md_strong_identity_hash m | Some h \<Rightarrow> Some h),
       cand_entities := merge (cand_entities c) (ep_entity_refs v), cand_assets := merge (cand_assets c) (ep_asset_refs v),
       cand_topics := merge (cand_topics c) (ep_topic_refs v),
       cand_first_seen_at := min (cand_first_seen_at c) (seen_time v),
       cand_latest_seen_at := max (cand_latest_seen_at c) (seen_time v)\<rparr>"

definition refresh_candidate :: "urllib \<Rightarrow> time \<Rightarrow> EvidenceProjection \<Rightarrow> MatchDecision \<Rightarrow> EventCandidate \<Rightarrow> event_db \<Rightarrow> event_db" where
  "refresh_candidate lib now v m c d =
     save_candidate now c (recalculate_aggregates lib (ep_source_priority v) d (merged_candidate v m c)) d"

subsection \<open>The service\<close>

definition first_window :: time where "first_window = 24 * 3600 * 1000000"

definition new_candidate :: "uuid \<Rightarrow> time \<Rightarrow> EvidenceProjection \<Rightarrow> MatchDecision \<Rightarrow> EventCandidate" where
  "new_candidate i now v m =
     (let importance = score \<lparr>ii_official_source = ep_official_source v, ii_evidence_count = 1, ii_source_count = 1,
            ii_source_priority = ep_source_priority v, ii_entity_count = int (length (ep_entity_refs v)), ii_corroborated = False\<rparr> in
      \<lparr>cand_id = i, cand_cluster_key = an_cluster_key (md_anchor m), cand_anchor_type = an_kind (md_anchor m),
       cand_anchor_value_hash = an_value_hash (md_anchor m), cand_strong_identity_hash = md_strong_identity_hash m,
       cand_identity_signatures = md_signatures m,
       cand_title_fingerprints = (case md_title_fingerprint m of None \<Rightarrow> [] | Some f \<Rightarrow> [f]),
       cand_event_type = ''information_event'', cand_status = Cand_CANDIDATE, cand_canonical_title = None, cand_fact_summary = None,
       cand_first_seen_at = seen_time v, cand_latest_seen_at = seen_time v, cand_occurred_at = ep_event_time v,
       cand_published_at = ep_event_time v,
       cand_primary_entity = (case ep_entity_refs v of [] \<Rightarrow> None | x # _ \<Rightarrow> Some x),
       cand_entities = ep_entity_refs v, cand_companies = ep_entity_refs v, cand_assets = ep_asset_refs v, cand_sectors = [],
       cand_topics = ep_topic_refs v, cand_evidence_count = 1, cand_source_count = 1,
       cand_confidence = 45 / 100 + (if ep_official_source v then 2 / 10 else 0),
       cand_importance_score = ir_score importance, cand_importance_reasons = ir_component_reasons importance,
       cand_created_at = now, cand_updated_at = now\<rparr>)"

text \<open>The nested transaction: an \<open>IntegrityError\<close> is a violated check constraint or the unique cluster key.\<close>

definition create_or_get ::
  "(event_db \<Rightarrow> uuid) \<Rightarrow> time \<Rightarrow> EvidenceProjection \<Rightarrow> MatchDecision \<Rightarrow> event_db \<Rightarrow> ((EventCandidate \<times> string) \<times> event_db) res" where
  "create_or_get gen now v m d =
     (let c = new_candidate (gen d) now v m in
      if ck_event_candidates c \<and> cand_cluster_key c \<notin> cand_cluster_key ` set (event_candidates d)
      then Inr ((c, ''created''), d\<lparr>event_candidates := event_candidates d @ [c]\<rparr>)
      else case get_by_cluster_key d (an_cluster_key (md_anchor m)) of
        None \<Rightarrow> Inl (SQLAlchemyError ''IntegrityError'')
      | Some e \<Rightarrow> Inr ((e, ''concurrent_existing''), d))"

definition new_link :: "uuid \<Rightarrow> time \<Rightarrow> EventCandidate \<Rightarrow> EvidenceProjection \<Rightarrow> MatchDecision \<Rightarrow> EventCandidateEvidence" where
  "new_link i now c v m =
     \<lparr>ece_id = i, ece_event_candidate_id = cand_id c, ece_evidence_item_id = ep_evidence_item_id v,
      ece_match_rule = match_rule_value (md_match_rule m), ece_rule_version = md_rule_version m,
      ece_official_source = ep_official_source v, ece_active = True, ece_added_at = now, ece_removed_at = None\<rparr>"

definition associate ::
  "(event_db \<Rightarrow> uuid) \<Rightarrow> time \<Rightarrow> EventCandidate \<Rightarrow> EvidenceProjection \<Rightarrow> MatchDecision \<Rightarrow> event_db \<Rightarrow> (EventCandidateEvidence \<times> event_db) res" where
  "associate gen now c v m d =
     (let active = active_associations (ep_evidence_item_id v) d;
          same = filter (\<lambda>l. ece_event_candidate_id l = cand_id c) active in
      if length active > 1 \<or> (active \<noteq> [] \<and> same = []) then Inl (ValueError ''event_candidate_association_ambiguous'')
      else case same of
        l # _ \<Rightarrow> Inr (l, d)
      | [] \<Rightarrow>
          (let l = new_link (gen d) now c v m in
           Inr (l, d\<lparr>event_candidate_evidence := event_candidate_evidence d @ [l]\<rparr>)))"

definition process ::
  "urllib \<Rightarrow> (event_db \<Rightarrow> uuid) \<Rightarrow> time \<Rightarrow> uuid \<Rightarrow> event_db \<Rightarrow> (EventCandidateOutcome \<times> event_db) res" where
  "process lib gen now i d =
     (case load_evidence_projection lib i d of
        None \<Rightarrow> Inl (ValueError ''evidence_item_not_found'')
      | Some v \<Rightarrow>
          (case active_associations i d of
             l # rest \<Rightarrow>
               (if rest \<noteq> [] then Inl (ValueError ''event_candidate_association_ambiguous'')
                else case get_candidate d (ece_event_candidate_id l) of
                  None \<Rightarrow> Inl (ValueError ''event_candidate_not_found'')
                | Some c \<Rightarrow> bindR (event_outcome c l ''existing'') (\<lambda>out. Inr (out, d)))
           | [] \<Rightarrow>
               bindR (match_existing lib v (load_candidates d) first_window) (\<lambda>m.
               bindR (case md_candidate_id m of
                        Some j \<Rightarrow> (case get_candidate d j of
                            None \<Rightarrow> Inl (ValueError ''event_candidate_not_found'') | Some c \<Rightarrow> Inr ((c, ''matched''), d))
                      | None \<Rightarrow> create_or_get gen now v m d) (\<lambda>((c, status), d1).
               bindR (associate gen now c v m d1) (\<lambda>(l, d2).
               bindR (event_outcome c l status) (\<lambda>out.
                 Inr (out, refresh_candidate lib now v m c d2)))))))"

definition put_link :: "EventCandidateEvidence \<Rightarrow> event_db \<Rightarrow> event_db" where
  "put_link l d = d\<lparr>event_candidate_evidence := update_where (\<lambda>r. ece_id r = ece_id l) (\<lambda>_. l) (event_candidate_evidence d)\<rparr>"

definition deactivate_association :: "urllib \<Rightarrow> time \<Rightarrow> uuid \<Rightarrow> uuid \<Rightarrow> time option \<Rightarrow> event_db \<Rightarrow> (EventCandidateEvidence \<times> event_db) res" where
  "deactivate_association lib now candidate_id evidence_id removed_at d =
     (case filter (\<lambda>l. ece_event_candidate_id l = candidate_id \<and> ece_evidence_item_id l = evidence_id \<and> ece_active l)
             (event_candidate_evidence d) of
        [] \<Rightarrow> Inl (ValueError ''event_candidate_evidence_not_found'')
      | l0 # rest \<Rightarrow>
          (if rest \<noteq> [] then Inl (ValueError ''event_candidate_association_ambiguous'')
           else
             let l = l0\<lparr>ece_active := False, ece_removed_at := Some (case removed_at of None \<Rightarrow> now | Some t \<Rightarrow> t)\<rparr>;
                 d1 = put_link l d in
             case get_candidate d1 candidate_id of
               None \<Rightarrow> Inl (ValueError ''event_candidate_not_found'')
             | Some c \<Rightarrow> Inr (l, save_candidate now c (recalculate_aggregates lib None d1 c) d1)))"

definition regroup_association ::
  "urllib \<Rightarrow> (event_db \<Rightarrow> uuid) \<Rightarrow> time \<Rightarrow> uuid \<Rightarrow> uuid \<Rightarrow> uuid \<Rightarrow> event_db \<Rightarrow> (EventCandidateOutcome \<times> event_db) res" where
  "regroup_association lib gen now evidence_id from_id to_id d =
     (if from_id = to_id then Inl (ValueError ''event_candidate_regroup_target_unchanged'')
      else case load_evidence_projection lib evidence_id d of
        None \<Rightarrow> Inl (ValueError ''evidence_item_not_found'')
      | Some v \<Rightarrow>
          (if map ece_event_candidate_id (active_associations evidence_id d) \<noteq> [from_id]
           then Inl (ValueError ''event_candidate_association_ambiguous'')
           else case get_candidate d to_id of
             None \<Rightarrow> Inl (ValueError ''event_candidate_not_found'')
           | Some c \<Rightarrow>
               bindR (deactivate_association lib now from_id evidence_id None d) (\<lambda>(_, d1).
               bindR (evidence_signatures lib v) (\<lambda>signatures.
               bindR (derive_anchor lib v False) (\<lambda>anchor.
                 let m = decision lib v signatures (Some (cand_id c)) REVIEWED_REGROUP anchor in
                 bindR (associate gen now c v m d1) (\<lambda>(l, d2).
                 bindR (event_outcome c l ''regrouped'') (\<lambda>out.
                   Inr (out, refresh_candidate lib now v m c d2))))))))"

subsection \<open>Invariant\<close>

definition link_ok :: "event_db \<Rightarrow> EventCandidateEvidence \<Rightarrow> bool" where
  "link_ok d l \<longleftrightarrow> ck_event_evidence l \<and> ece_event_candidate_id l \<in> cand_id ` set (event_candidates d)
     \<and> ece_evidence_item_id l \<in> evi_id ` set (evidence_items d) \<and> \<not> isl (match_rule_of (ece_match_rule l))"

definition agg_ok :: "event_db \<Rightarrow> EventCandidate \<Rightarrow> bool" where
  "agg_ok d c \<longleftrightarrow>
     (let rows = active_evidence d (cand_id c) in
      cand_evidence_count c = int (length rows) \<and> cand_source_count c = int (card (evi_source_id ` fst ` set rows))
      \<and> (cand_status c = Cand_REJECTED \<longleftrightarrow> rows = []))"

text \<open>\<open>inv_except i\<close>: the invariant, with the aggregates of candidate \<open>i\<close> possibly out of date.\<close>

definition inv_except :: "uuid option \<Rightarrow> event_db \<Rightarrow> bool" where
  "inv_except i d \<longleftrightarrow>
     distinct (map cand_id (event_candidates d)) \<and> uq_cluster_key (event_candidates d)
     \<and> distinct (map ece_id (event_candidate_evidence d))
     \<and> list_all ck_event_candidates (event_candidates d) \<and> list_all (link_ok d) (event_candidate_evidence d)
     \<and> list_all (\<lambda>c. Some (cand_id c) = i \<or> agg_ok d c) (event_candidates d)
     \<and> distinct (map ece_evidence_item_id (filter ece_active (event_candidate_evidence d)))"

abbreviation events_inv :: "event_db \<Rightarrow> bool" where "events_inv \<equiv> inv_except None"

lemma inv_except_weaken: "events_inv d \<Longrightarrow> inv_except i d"
  by (auto simp: inv_except_def list_all_iff)

lemma get_candidate_in: "get_candidate d i = Some c \<Longrightarrow> c \<in> set (event_candidates d) \<and> cand_id c = i"
  by (auto simp: get_candidate_def dest: find_Some_in)

lemma map_filter_filter: "List.map_filter (\<lambda>x. if p x then f x else None) xs = List.map_filter f (filter p xs)"
  by (induction xs) (auto simp: map_filter_simps split: option.split)

lemma active_evidence_frame:
  assumes "evidence_items d' = evidence_items d"
    and "filter (\<lambda>l. ece_event_candidate_id l = i \<and> ece_active l) (event_candidate_evidence d')
       = filter (\<lambda>l. ece_event_candidate_id l = i \<and> ece_active l) (event_candidate_evidence d)"
  shows "active_evidence d' i = active_evidence d i"
proof -
  have split: "active_evidence e i = List.map_filter (\<lambda>l. map_option (\<lambda>x. (x, ece_official_source l)) (get_evidence e (ece_evidence_item_id l)))
      (filter (\<lambda>l. ece_event_candidate_id l = i \<and> ece_active l) (event_candidate_evidence e))" for e
    unfolding active_evidence_def by (rule map_filter_filter)
  show ?thesis unfolding split assms(2) using assms(1) by (simp add: get_evidence_def)
qed

lemma agg_ok_frame:
  "active_evidence d' (cand_id c) = active_evidence d (cand_id c) \<Longrightarrow> agg_ok d' c = agg_ok d c"
  by (simp add: agg_ok_def)

lemma recalculated_agg: "agg_ok d (recalculate_aggregates lib p d c)"
  by (simp add: agg_ok_def recalculate_aggregates_def Let_def length_remdups_card_conv image_comp)

lemma recalculated_keeps [simp]:
  "cand_id (recalculate_aggregates lib p d c) = cand_id c"
  "cand_cluster_key (recalculate_aggregates lib p d c) = cand_cluster_key c"
  by (simp_all add: recalculate_aggregates_def Let_def)

lemma confidence_range: "0 \<le> confidence_of a n k \<and> confidence_of a n k \<le> 1"
  by (auto simp: confidence_of_def)

lemma recalculated_ck: "ck_event_candidates c \<Longrightarrow> ck_event_candidates (recalculate_aggregates lib p d c)"
  by (simp add: ck_event_candidates_def recalculate_aggregates_def Let_def score_range confidence_range)

lemma merged_keeps [simp]:
  "cand_id (merged_candidate v m c) = cand_id c" "cand_cluster_key (merged_candidate v m c) = cand_cluster_key c"
  by (simp_all add: merged_candidate_def)

lemma merged_ck:
  assumes "ck_event_candidates c" and "case md_strong_identity_hash m of None \<Rightarrow> True | Some h \<Rightarrow> hex64 h"
  shows "ck_event_candidates (merged_candidate v m c)"
  using assms by (auto simp: ck_event_candidates_def merged_candidate_def split: option.splits)

text \<open>Saving a candidate whose aggregates were just computed restores the invariant.\<close>

lemma same_candidate:
  assumes "inv_except i d" and "get_candidate d (cand_id c) = Some c" and "r \<in> set (event_candidates d)" and "cand_id r = cand_id c"
  shows "r = c"
  using assms(3,4) get_candidate_in [OF assms(2)] assms(1) by (auto simp: inv_except_def distinct_map dest: inj_onD)

lemma row_restores:
  assumes inv: "inv_except (Some (cand_id c)) d" and c: "get_candidate d (cand_id c) = Some c"
    and same: "cand_id r = cand_id c" "cand_cluster_key r = cand_cluster_key c" and ck: "ck_event_candidates r" and agg: "agg_ok d r"
    and d': "d' = d\<lparr>event_candidates := update_where (\<lambda>x. cand_id x = cand_id r) (\<lambda>_. r) (event_candidates d)\<rparr>"
  shows "events_inv d'"
proof -
  have frame: "evidence_items d' = evidence_items d" "event_candidate_evidence d' = event_candidate_evidence d"
    by (simp_all add: d')
  have active: "active_evidence d' j = active_evidence d j" for j by (rule active_evidence_frame) (simp_all only: frame)
  have mem: "x = r \<or> (x \<in> set (event_candidates d) \<and> cand_id x \<noteq> cand_id c)" if "x \<in> set (event_candidates d')" for x
    using that by (auto simp: d' update_where_def same)
  have keys: "cand_cluster_key x = cand_cluster_key c" if "x \<in> set (event_candidates d)" "cand_id x = cand_id c" for x
    using same_candidate [OF inv c that] by simp
  have ids: "map cand_id (event_candidates d') = map cand_id (event_candidates d)"
    "map cand_cluster_key (event_candidates d') = map cand_cluster_key (event_candidates d)"
    by (simp_all add: d' update_where_def same keys)
  have links: "link_ok d' l = link_ok d l" for l
    unfolding link_ok_def frame using ids(1) by (metis list.set_map)
  have "list_all (\<lambda>x. agg_ok d' x) (event_candidates d')"
    using inv agg mem by (force simp: inv_except_def list_all_iff agg_ok_def active)
  moreover have "list_all ck_event_candidates (event_candidates d')"
    using inv ck mem by (auto simp: inv_except_def list_all_iff)
  ultimately show ?thesis
    using inv unfolding inv_except_def uq_cluster_key_def ids links frame by (simp add: list_all_iff)
qed

lemma save_restores:
  assumes inv: "inv_except (Some (cand_id c)) d" and c: "get_candidate d (cand_id c) = Some c"
    and same: "cand_id c' = cand_id c" "cand_cluster_key c' = cand_cluster_key c" and ck: "ck_event_candidates c'"
  shows "events_inv (save_candidate now c (recalculate_aggregates lib p d c') d)"
proof (cases "recalculate_aggregates lib p d c' = c")
  case True
  have "agg_ok d c" using recalculated_agg [of d lib p c'] True by simp
  then have "agg_ok d x" if "x \<in> set (event_candidates d)" for x
    using that inv same_candidate [OF inv c] by (force simp: inv_except_def list_all_iff)
  then show ?thesis using inv True by (auto simp: save_candidate_def inv_except_def list_all_iff)
next
  case False
  let ?r = "(recalculate_aggregates lib p d c')\<lparr>cand_updated_at := now\<rparr>"
  have "ck_event_candidates ?r" using recalculated_ck [OF ck, of lib p d] by (simp add: ck_event_candidates_def)
  moreover have "agg_ok d ?r" using recalculated_agg [of d lib p c'] by (simp add: agg_ok_def)
  ultimately show ?thesis
    by (intro row_restores [OF inv c, of ?r]) (simp_all add: same False save_candidate_def)
qed

lemma match_rule_roundtrip [simp]: "match_rule_of (match_rule_value r) = Inr r"
  by (cases r) (simp_all add: match_rule_of_def all_match_rules_def)

lemma match_rule_not_blank [simp]: "strip (match_rule_value r) \<noteq> []"
  by (cases r) (simp_all add: strip_def is_space_def)

lemma active_associations_set:
  "set (active_associations i d) = {l \<in> set (event_candidate_evidence d). ece_evidence_item_id l = i \<and> ece_active l}"
  by (simp add: active_associations_def)

lemma find_snoc: "List.find p xs = None \<Longrightarrow> List.find p (xs @ [y]) = (if p y then Some y else None)"
  by (induction xs) (auto split: if_splits)

lemma create_keeps:
  assumes inv: "events_inv d" and fresh: "gen d \<notin> cand_id ` set (event_candidates d)"
    and created: "create_or_get gen now v m d = Inr ((c, s), d1)"
  shows "inv_except (Some (cand_id c)) d1 \<and> get_candidate d1 (cand_id c) = Some c
     \<and> event_candidate_evidence d1 = event_candidate_evidence d \<and> evidence_items d1 = evidence_items d"
proof -
  let ?c = "new_candidate (gen d) now v m"
  have i: "cand_id ?c = gen d" by (simp add: new_candidate_def Let_def)
  show ?thesis
  proof (cases "ck_event_candidates ?c \<and> cand_cluster_key ?c \<notin> cand_cluster_key ` set (event_candidates d)")
    case True
    then have c: "c = ?c" and d1: "d1 = d\<lparr>event_candidates := event_candidates d @ [?c]\<rparr>"
      using created by (auto simp: create_or_get_def Let_def)
    have frame: "evidence_items d1 = evidence_items d" "event_candidate_evidence d1 = event_candidate_evidence d"
      by (simp_all add: d1)
    have active: "active_evidence d1 j = active_evidence d j" for j by (rule active_evidence_frame) (simp_all only: frame)
    have "List.find (\<lambda>x. cand_id x = gen d) (event_candidates d) = None" using fresh by (force simp: find_None_iff)
    then have "get_candidate d1 (cand_id c) = Some c"
      by (simp add: get_candidate_def d1 c i find_snoc)
    moreover have "inv_except (Some (cand_id c)) d1"
      using inv fresh True unfolding inv_except_def frame
      by (auto simp: d1 c i uq_cluster_key_def list_all_iff link_ok_def agg_ok_def active [unfolded d1])
    ultimately show ?thesis using frame by blast
  next
    case False
    then have "get_by_cluster_key d (an_cluster_key (md_anchor m)) = Some c" and d1: "d1 = d"
      using created by (auto simp: create_or_get_def Let_def split: option.splits)
    then have "c \<in> set (event_candidates d)" by (auto simp: get_by_cluster_key_def dest: find_Some_in)
    then obtain c2 where c2: "get_candidate d (cand_id c) = Some c2"
      by (cases "get_candidate d (cand_id c)") (auto simp: get_candidate_def find_None_iff)
    then have "c2 = c"
      using \<open>c \<in> set (event_candidates d)\<close> get_candidate_in [OF c2] inv by (auto simp: inv_except_def distinct_map dest: inj_onD)
    then show ?thesis using c2 d1 inv_except_weaken [OF inv] by simp
  qed
qed

lemma associate_keeps:
  assumes inv: "inv_except (Some (cand_id c)) d" and c: "get_candidate d (cand_id c) = Some c"
    and evi: "ep_evidence_item_id v \<in> evi_id ` set (evidence_items d)" and fresh: "gen d \<notin> ece_id ` set (event_candidate_evidence d)"
    and version: "md_rule_version m > 0" and ok: "associate gen now c v m d = Inr (l, d2)"
  shows "inv_except (Some (cand_id c)) d2 \<and> event_candidates d2 = event_candidates d \<and> evidence_items d2 = evidence_items d
     \<and> l \<in> set (event_candidate_evidence d2) \<and> ece_active l \<and> ece_event_candidate_id l = cand_id c
     \<and> ece_evidence_item_id l = ep_evidence_item_id v"
proof (cases "filter (\<lambda>l. ece_event_candidate_id l = cand_id c) (active_associations (ep_evidence_item_id v) d)")
  case Nil
  then have none: "active_associations (ep_evidence_item_id v) d = []" and l: "l = new_link (gen d) now c v m"
    and d2: "d2 = d\<lparr>event_candidate_evidence := event_candidate_evidence d @ [l]\<rparr>"
    using ok by (auto simp: associate_def Let_def split: if_splits)
  have free: "ep_evidence_item_id v \<notin> ece_evidence_item_id ` set (filter ece_active (event_candidate_evidence d))"
    using none active_associations_set [of "ep_evidence_item_id v" d] by auto
  have lf: "ece_id l = gen d" "ece_active l" "ece_event_candidate_id l = cand_id c" "ece_evidence_item_id l = ep_evidence_item_id v"
    by (simp_all add: l new_link_def)
  have active: "active_evidence d2 j = active_evidence d j" if "j \<noteq> cand_id c" for j
    by (rule active_evidence_frame) (use that in \<open>simp_all add: d2 lf\<close>)
  have "link_ok d2 l"
    using get_candidate_in [OF c] evi version
    by (auto simp: link_ok_def d2 ck_event_evidence_def l new_link_def)
  moreover have "link_ok d2 x = link_ok d x" for x by (simp add: link_ok_def d2)
  moreover have "Some (cand_id x) = Some (cand_id c) \<or> agg_ok d2 x" if "x \<in> set (event_candidates d)" for x
    using that inv agg_ok_frame [OF active [of "cand_id x"]] by (auto simp: inv_except_def list_all_iff)
  ultimately have "inv_except (Some (cand_id c)) d2"
    using inv free fresh unfolding inv_except_def by (auto simp: d2 lf list_all_iff)
  then show ?thesis using lf by (simp add: d2)
next
  case (Cons x xs)
  then have "l = x" "d2 = d" using ok by (auto simp: associate_def Let_def split: if_splits)
  moreover have "x \<in> set (active_associations (ep_evidence_item_id v) d)" "ece_event_candidate_id x = cand_id c"
    using Cons by (auto simp: filter_eq_Cons_iff)
  ultimately show ?thesis using inv by (simp add: active_associations_set)
qed

lemma deactivate_keeps:
  assumes inv: "events_inv d" and ok: "deactivate_association lib now j i removed d = Inr (l, d')"
  shows "events_inv d' \<and> evidence_items d' = evidence_items d \<and> map cand_id (event_candidates d') = map cand_id (event_candidates d)
     \<and> filter ece_active (event_candidate_evidence d')
        = filter (\<lambda>x. ece_active x \<and> \<not> (ece_event_candidate_id x = j \<and> ece_evidence_item_id x = i)) (event_candidate_evidence d)
     \<and> (\<forall>k. k \<noteq> j \<longrightarrow> get_candidate d' k = get_candidate d k)"
proof -
  let ?p = "\<lambda>l. ece_event_candidate_id l = j \<and> ece_evidence_item_id l = i \<and> ece_active l"
  obtain l0 c where l0: "filter ?p (event_candidate_evidence d) = [l0]"
    and l: "l = l0\<lparr>ece_active := False, ece_removed_at := Some (case removed of None \<Rightarrow> now | Some t \<Rightarrow> t)\<rparr>"
    and c: "get_candidate (put_link l d) j = Some c"
    and d': "d' = save_candidate now c (recalculate_aggregates lib None (put_link l d) c) (put_link l d)"
    using ok by (auto simp: deactivate_association_def Let_def split: list.splits if_splits option.splits)
  let ?d1 = "put_link l d"
  have l0in: "l0 \<in> set (event_candidate_evidence d)" "?p l0" using l0 by (auto simp: filter_eq_Cons_iff)
  have lid: "ece_id l = ece_id l0" "\<not> ece_active l" by (simp_all add: l)
  have uniq: "x = l0" if "x \<in> set (event_candidate_evidence d)" "ece_id x = ece_id l0" for x
    using that l0in inv by (auto simp: inv_except_def distinct_map dest: inj_onD)
  have links: "event_candidate_evidence ?d1 = map (\<lambda>x. if x = l0 then l else x) (event_candidate_evidence d)"
    unfolding put_link_def update_where_def using uniq lid by (auto intro!: map_cong)
  have pl0: "?p x \<longleftrightarrow> x = l0" if "x \<in> set (event_candidate_evidence d)" for x
  proof -
    have "x \<in> set (filter ?p (event_candidate_evidence d))" if "?p x" using that \<open>x \<in> set (event_candidate_evidence d)\<close> by simp
    then show ?thesis unfolding l0 using l0in(2) by auto
  qed
  have act: "filter ece_active (event_candidate_evidence ?d1) =
      filter (\<lambda>x. ece_active x \<and> \<not> (ece_event_candidate_id x = j \<and> ece_evidence_item_id x = i)) (event_candidate_evidence d)"
  proof -
    have "filter ece_active (map (\<lambda>x. if x = l0 then l else x) xs) = filter (\<lambda>x. ece_active x \<and> x \<noteq> l0) xs" for xs
      by (induction xs) (auto simp: lid)
    then show ?thesis unfolding links using pl0 by (auto intro!: filter_cong)
  qed
  have frame: "event_candidates ?d1 = event_candidates d" "evidence_items ?d1 = evidence_items d" by (simp_all add: put_link_def)
  have ids: "map ece_id (event_candidate_evidence ?d1) = map ece_id (event_candidate_evidence d)"
    unfolding links using lid by auto
  have active: "active_evidence ?d1 k = active_evidence d k" if "k \<noteq> j" for k
  proof (rule active_evidence_frame [OF frame(2)])
    have k: "filter (\<lambda>x. ece_event_candidate_id x = k \<and> ece_active x) xs = filter (\<lambda>x. ece_event_candidate_id x = k) (filter ece_active xs)" for xs
      by (simp add: conj_commute)
    show "filter (\<lambda>x. ece_event_candidate_id x = k \<and> ece_active x) (event_candidate_evidence ?d1)
        = filter (\<lambda>x. ece_event_candidate_id x = k \<and> ece_active x) (event_candidate_evidence d)"
      unfolding k act using that by (auto intro!: filter_cong)
  qed
  have cj: "cand_id c = j" using get_candidate_in [OF c] by simp
  have lok: "link_ok ?d1 x" if "x \<in> set (event_candidate_evidence ?d1)" for x
    using that inv l0in unfolding links
    by (auto simp: inv_except_def list_all_iff link_ok_def put_link_def l ck_event_evidence_def)
  have agg: "cand_id x = j \<or> agg_ok ?d1 x" if "x \<in> set (event_candidates d)" for x
    using that inv agg_ok_frame [OF active [of "cand_id x"]] by (auto simp: inv_except_def list_all_iff)
  have "inv_except (Some (cand_id c)) ?d1"
    using inv lok agg unfolding inv_except_def frame ids act cj
    by (auto simp: list_all_iff distinct_map_filter simp flip: filter_filter)
  moreover have "get_candidate ?d1 (cand_id c) = Some c" using c cj by simp
  moreover have "ck_event_candidates c" using inv get_candidate_in [OF c] by (auto simp: inv_except_def list_all_iff frame)
  ultimately have "events_inv d'" unfolding d' by (intro save_restores) simp_all
  moreover have "map cand_id (event_candidates d') = map cand_id (event_candidates d)" "evidence_items d' = evidence_items d"
    "event_candidate_evidence d' = event_candidate_evidence ?d1"
    by (simp_all add: d' save_candidate_def put_link_def update_where_def)
  moreover have "get_candidate d' k = get_candidate d k" if "k \<noteq> j" for k
    using that cj by (simp add: d' save_candidate_def put_link_def get_candidate_def find_update_const)
  ultimately show ?thesis using act by simp
qed

lemma filter_key: "distinct (map f xs) \<Longrightarrow> x \<in> set xs \<Longrightarrow> filter (\<lambda>y. f y = f x) xs = [x]"
  by (induction xs) (auto simp: filter_empty_conv, metis rev_image_eqI)

lemma active_single:
  assumes "inv_except k d" and "l \<in> set (event_candidate_evidence d)" and "ece_active l"
  shows "active_associations (ece_evidence_item_id l) d = [l]"
proof -
  have "filter (\<lambda>x. ece_evidence_item_id x = ece_evidence_item_id l) (filter ece_active (event_candidate_evidence d)) = [l]"
    using assms by (intro filter_key) (auto simp: inv_except_def)
  then show ?thesis by (simp add: active_associations_def conj_commute)
qed

lemma load_evidence_id: "load_evidence_projection lib i d = Some v \<Longrightarrow> ep_evidence_item_id v = i \<and> i \<in> evi_id ` set (evidence_items d)"
  by (auto simp: load_evidence_projection_def get_evidence_def dest!: find_Some_in)

lemma event_outcome_status: "event_outcome c l s = Inr out \<Longrightarrow> event_outcome c l t = Inr (out\<lparr>eco_status := t\<rparr>)"
  by (auto simp: event_outcome_def bindR_Inr_iff)

lemma refreshed:
  assumes "digest_ok lib" and "evidence_signatures lib v = Inr ss" and "md_strong_identity_hash m = strong_identity ss"
    and "inv_except (Some (cand_id c)) d" and "get_candidate d (cand_id c) = Some c"
  shows "events_inv (refresh_candidate lib now v m c d)
     \<and> evidence_items (refresh_candidate lib now v m c d) = evidence_items d
     \<and> event_candidate_evidence (refresh_candidate lib now v m c d) = event_candidate_evidence d
     \<and> (\<exists>c2. get_candidate (refresh_candidate lib now v m c d) (cand_id c) = Some c2
            \<and> cand_id c2 = cand_id c \<and> cand_cluster_key c2 = cand_cluster_key c)"
proof -
  have "ck_event_candidates c" using assms(4) get_candidate_in [OF assms(5)] by (auto simp: inv_except_def list_all_iff)
  then have ck: "ck_event_candidates (merged_candidate v m c)"
    using strong_identity_hashed [OF assms(1,2)] assms(3) by (intro merged_ck) (auto split: option.split)
  have "events_inv (refresh_candidate lib now v m c d)"
    unfolding refresh_candidate_def by (rule save_restores [OF assms(4,5) _ _ ck]) simp_all
  moreover have "\<exists>c2. get_candidate (refresh_candidate lib now v m c d) (cand_id c) = Some c2
      \<and> cand_id c2 = cand_id c \<and> cand_cluster_key c2 = cand_cluster_key c"
    using assms(5) by (auto simp: refresh_candidate_def save_candidate_def get_candidate_def find_update_const)
  ultimately show ?thesis by (simp add: refresh_candidate_def save_candidate_def)
qed

lemma match_existing_parts:
  assumes "match_existing lib v cs window = Inr m"
  shows "\<exists>ss. evidence_signatures lib v = Inr ss \<and> md_strong_identity_hash m = strong_identity ss \<and> md_rule_version m > 0"
  using assms by (auto simp: match_existing_def bindR_Inr_iff decision_def RULE_VERSION_def Let_def split: if_splits list.splits)

lemma process_Inr:
  assumes "process lib gen now i d = Inr (out, d')"
  obtains v l c where "load_evidence_projection lib i d = Some v" and "active_associations i d = [l]"
      and "get_candidate d (ece_event_candidate_id l) = Some c" and "event_outcome c l ''existing'' = Inr out" and "d' = d"
  | v m c status d1 l d2 where "load_evidence_projection lib i d = Some v" and "active_associations i d = []"
      and "match_existing lib v (load_candidates d) first_window = Inr m"
      and "(case md_candidate_id m of Some j \<Rightarrow> get_candidate d j = Some c \<and> d1 = d | None \<Rightarrow> create_or_get gen now v m d = Inr ((c, status), d1))"
      and "associate gen now c v m d1 = Inr (l, d2)" and "event_outcome c l status = Inr out"
      and "d' = refresh_candidate lib now v m c d2"
proof -
  obtain v where v: "load_evidence_projection lib i d = Some v" using assms by (auto simp: process_def split: option.splits)
  show ?thesis
  proof (cases "active_associations i d")
    case Nil
    then obtain m c status d1 l d2 where "match_existing lib v (load_candidates d) first_window = Inr m"
      "(case md_candidate_id m of Some j \<Rightarrow> (case get_candidate d j of
            None \<Rightarrow> Inl (ValueError ''event_candidate_not_found'') | Some c \<Rightarrow> Inr ((c, ''matched''), d))
        | None \<Rightarrow> create_or_get gen now v m d) = Inr ((c, status), d1)"
      "associate gen now c v m d1 = Inr (l, d2)" "event_outcome c l status = Inr out" "d' = refresh_candidate lib now v m c d2"
      using assms v by (auto simp: process_def bindR_Inr_iff)
    then show ?thesis using that(2) [OF v Nil] by (fastforce split: option.splits)
  next
    case (Cons l rest)
    then show ?thesis
      using assms v that(1) [OF v] by (auto simp: process_def bindR_Inr_iff split: if_splits option.splits)
  qed
qed

definition fresh_gen :: "(event_db \<Rightarrow> uuid) \<Rightarrow> bool" where
  "fresh_gen gen \<longleftrightarrow> (\<forall>d. gen d \<notin> cand_id ` set (event_candidates d) \<union> ece_id ` set (event_candidate_evidence d))"

lemma process_keeps:
  assumes lib: "digest_ok lib" and inv: "events_inv d" and fresh: "fresh_gen gen" and ok: "process lib gen now i d = Inr (out, d')"
  shows "events_inv d' \<and> (\<exists>v l c. load_evidence_projection lib i d = Some v \<and> evidence_items d' = evidence_items d
     \<and> content_items d' = content_items d \<and> active_associations i d' = [l]
     \<and> get_candidate d' (ece_event_candidate_id l) = Some c \<and> event_outcome c l (eco_status out) = Inr out)"
  using ok
proof (cases rule: process_Inr)
  case (1 v l c)
  then have "eco_status out = ''existing''" by (auto simp: event_outcome_def bindR_Inr_iff)
  then show ?thesis using 1 inv by auto
next
  case (2 v m c status d1 l d2)
  note v = load_evidence_id [OF 2(1)]
  obtain ss where ss: "evidence_signatures lib v = Inr ss" "md_strong_identity_hash m = strong_identity ss" "md_rule_version m > 0"
    using match_existing_parts [OF 2(3)] by blast
  have one: "inv_except (Some (cand_id c)) d1 \<and> get_candidate d1 (cand_id c) = Some c
     \<and> event_candidate_evidence d1 = event_candidate_evidence d \<and> evidence_items d1 = evidence_items d"
  proof (cases "md_candidate_id m")
    case None
    then show ?thesis using 2(4) fresh create_keeps [OF inv, of gen now v m c status d1] by (simp add: fresh_gen_def)
  next
    case (Some j)
    then show ?thesis using 2(4) inv_except_weaken [OF inv, of "Some j"] get_candidate_in [of d j c] by simp
  qed
  have two: "inv_except (Some (cand_id c)) d2 \<and> event_candidates d2 = event_candidates d1 \<and> evidence_items d2 = evidence_items d1
     \<and> l \<in> set (event_candidate_evidence d2) \<and> ece_active l \<and> ece_event_candidate_id l = cand_id c
     \<and> ece_evidence_item_id l = ep_evidence_item_id v"
    using associate_keeps [OF _ _ _ _ ss(3) 2(5)] one v fresh [unfolded fresh_gen_def, rule_format, of d1] by simp
  have c2: "get_candidate d2 (cand_id c) = Some c" using one two by (simp add: get_candidate_def)
  obtain c2 where three: "events_inv d'" "evidence_items d' = evidence_items d2" "event_candidate_evidence d' = event_candidate_evidence d2"
    "get_candidate d' (cand_id c) = Some c2" "cand_id c2 = cand_id c" "cand_cluster_key c2 = cand_cluster_key c"
    using refreshed [OF lib ss(1,2) _ c2] two 2(7) by blast
  have "active_associations i d' = [l]" using active_single [OF three(1), of l] two three(3) v by simp
  moreover have "event_outcome c2 l (eco_status out) = Inr out"
    using 2(6) three(5,6) by (auto simp: event_outcome_def bindR_Inr_iff)
  moreover have "content_items d' = content_items d"
    using 2(4,5,7) by (auto simp: refresh_candidate_def save_candidate_def associate_def create_or_get_def Let_def
        split: option.splits if_splits list.splits)
  ultimately show ?thesis using three one two 2(1) by auto
qed

lemma regroup_keeps:
  assumes lib: "digest_ok lib" and inv: "events_inv d" and fresh: "fresh_gen gen"
    and ok: "regroup_association lib gen now i j k d = Inr (out, d')"
  shows "events_inv d' \<and> evidence_items d' = evidence_items d \<and> eco_event_candidate_id out = k
     \<and> map ece_event_candidate_id (active_associations i d) = [j] \<and> map ece_event_candidate_id (active_associations i d') = [k]
     \<and> (\<forall>i'. i' \<noteq> i \<longrightarrow> active_associations i' d' = active_associations i' d)"
proof -
  obtain v c l1 d1 ss a l d2 where v: "load_evidence_projection lib i d = Some v"
    and jk: "map ece_event_candidate_id (active_associations i d) = [j]" and c: "get_candidate d k = Some c"
    and one: "deactivate_association lib now j i None d = Inr (l1, d1)" and ss: "evidence_signatures lib v = Inr ss"
    and two: "associate gen now c v (decision lib v ss (Some (cand_id c)) REVIEWED_REGROUP a) d1 = Inr (l, d2)"
    and out: "event_outcome c l ''regrouped'' = Inr out"
    and d': "d' = refresh_candidate lib now v (decision lib v ss (Some (cand_id c)) REVIEWED_REGROUP a) c d2" and neq: "j \<noteq> k"
    using ok by (auto simp: regroup_association_def bindR_Inr_iff Let_def split: if_splits option.splits)
  let ?m = "decision lib v ss (Some (cand_id c)) REVIEWED_REGROUP a"
  note vi = load_evidence_id [OF v]
  have ck: "cand_id c = k" using get_candidate_in [OF c] by simp
  note off = deactivate_keeps [OF inv one]
  have c1: "get_candidate d1 (cand_id c) = Some c" using off c neq ck by auto
  have m: "md_rule_version ?m > 0" "md_strong_identity_hash ?m = strong_identity ss" by (simp_all add: decision_def RULE_VERSION_def)
  have link: "inv_except (Some (cand_id c)) d2 \<and> event_candidates d2 = event_candidates d1 \<and> evidence_items d2 = evidence_items d1
     \<and> l \<in> set (event_candidate_evidence d2) \<and> ece_active l \<and> ece_event_candidate_id l = cand_id c
     \<and> ece_evidence_item_id l = ep_evidence_item_id v"
    using associate_keeps [OF _ c1 _ _ m(1) two] inv_except_weaken off vi fresh [unfolded fresh_gen_def, rule_format, of d1] by simp
  have c2: "get_candidate d2 (cand_id c) = Some c" using c1 link by (simp add: get_candidate_def)
  have fin: "events_inv d'" "evidence_items d' = evidence_items d2" "event_candidate_evidence d' = event_candidate_evidence d2"
    using refreshed [OF lib ss m(2) _ c2] link d' by blast+
  have added: "filter ece_active (event_candidate_evidence d2) = filter ece_active (event_candidate_evidence d1)
      \<or> filter ece_active (event_candidate_evidence d2) = filter ece_active (event_candidate_evidence d1) @ [l]"
    using two link by (auto simp: associate_def Let_def split: if_splits list.splits)
  have others: "active_associations i' d' = active_associations i' d" if "i' \<noteq> i" for i'
  proof -
    have split: "active_associations i' e = sort_key (\<lambda>l. (ece_added_at l, ece_id l))
        (filter (\<lambda>l. ece_evidence_item_id l = i') (filter ece_active (event_candidate_evidence e)))" for e
      by (simp add: active_associations_def conj_commute)
    have "filter (\<lambda>l. ece_evidence_item_id l = i') (filter ece_active (event_candidate_evidence d2))
        = filter (\<lambda>l. ece_evidence_item_id l = i') (filter ece_active (event_candidate_evidence d1))"
      using added link vi that by (auto simp del: filter_filter)
    also have "\<dots> = filter (\<lambda>l. ece_evidence_item_id l = i') (filter ece_active (event_candidate_evidence d))"
      using off that by (auto intro!: filter_cong)
    finally show ?thesis unfolding split fin(3) by simp
  qed
  have "active_associations i d' = [l]" using active_single [OF fin(1), of l] link fin(3) vi by simp
  then show ?thesis using fin link off jk out ck others by (auto simp: event_outcome_def bindR_Inr_iff)
qed

subsection \<open>The state machine\<close>

inductive event_step :: "urllib \<Rightarrow> event_db \<Rightarrow> event_db \<Rightarrow> bool" for lib :: urllib where
  es_process: "process lib gen now i d = Inr (out, d') \<Longrightarrow> fresh_gen gen \<Longrightarrow> event_step lib d d'"
| es_deactivate: "deactivate_association lib now j i removed d = Inr (l, d') \<Longrightarrow> event_step lib d d'"
| es_regroup: "regroup_association lib gen now i j k d = Inr (out, d') \<Longrightarrow> fresh_gen gen \<Longrightarrow> event_step lib d d'"

definition events_init :: "event_db \<Rightarrow> bool" where
  "events_init d \<longleftrightarrow> event_candidates d = [] \<and> event_candidate_evidence d = []"

lemma event_step_inv: "digest_ok lib \<Longrightarrow> events_inv d \<Longrightarrow> event_step lib d d' \<Longrightarrow> events_inv d'"
  by (erule event_step.cases) (auto dest: process_keeps deactivate_keeps regroup_keeps)

lemma reach_events_inv:
  assumes "digest_ok lib" and "reach events_init (event_step lib) d"
  shows "events_inv d"
  using assms(2)
proof induction
  case (reach_init d)
  then show ?case by (simp add: events_init_def inv_except_def uq_cluster_key_def)
next
  case (reach_step d d')
  then show ?case using event_step_inv [OF assms(1)] by blast
qed

text \<open>Property C5.  In every reachable state an evidence item has at most one active association, every candidate satisfies the check
  constraints of its table, cluster keys are unique, and the stored aggregates are those of the active associations: the evidence count, the
  number of distinct sources, and the status \<open>rejected\<close> exactly without evidence.  So the flushes of the service never violate a constraint.\<close>

theorem events_reachable_ok:
  assumes "digest_ok lib" and "reach events_init (event_step lib) d"
  shows "distinct (map ece_evidence_item_id (filter ece_active (event_candidate_evidence d)))
     \<and> list_all ck_event_candidates (event_candidates d) \<and> uq_cluster_key (event_candidates d)
     \<and> list_all ck_event_evidence (event_candidate_evidence d) \<and> list_all (agg_ok d) (event_candidates d)"
  using reach_events_inv [OF assms] by (auto simp: inv_except_def list_all_iff link_ok_def)

text \<open>Processing is idempotent: after an evidence item was processed, processing it again at any later time changes nothing and
  reports the same candidate, rule and version with status \<open>existing\<close>.\<close>

theorem process_is_idempotent:
  assumes "digest_ok lib" and "events_inv d" and "fresh_gen gen" and "process lib gen now i d = Inr (out, d')"
  shows "process lib gen' now' i d' = Inr (out\<lparr>eco_status := ''existing''\<rparr>, d')"
proof -
  obtain v l c where *: "load_evidence_projection lib i d = Some v" "evidence_items d' = evidence_items d" "content_items d' = content_items d"
    "active_associations i d' = [l]" "get_candidate d' (ece_event_candidate_id l) = Some c" "event_outcome c l (eco_status out) = Inr out"
    using process_keeps [OF assms] by blast
  have "content_of d' = content_of d" "get_evidence d' i = get_evidence d i"
    unfolding content_of_def get_evidence_def *(2,3) by (rule refl)+
  then have "load_evidence_projection lib i d' = Some v" using *(1) unfolding load_evidence_projection_def by simp
  then show ?thesis using *(4,5) event_outcome_status [OF *(6)] by (simp add: process_def)
qed

text \<open>A reviewed regroup moves exactly one association: the evidence item leaves the candidate it belonged to and belongs to the
  other one, every other association stays, and the aggregates of both candidates are right again.\<close>

theorem regroup_moves_evidence:
  assumes "digest_ok lib" and "events_inv d" and "fresh_gen gen" and "regroup_association lib gen now i j k d = Inr (out, d')"
  shows "map ece_event_candidate_id (active_associations i d) = [j] \<and> map ece_event_candidate_id (active_associations i d') = [k]
     \<and> (i' = i \<or> active_associations i' d' = active_associations i' d) \<and> list_all (agg_ok d') (event_candidates d')"
  using regroup_keeps [OF assms] by (auto simp: inv_except_def)

subsection \<open>Closed instances\<close>

lemma sample_digest_ok: "digest_ok sample_urllib"
  by (simp add: digest_ok_def sample_urllib_def pylib.defs urllib.defs sample_lib_def sample_hash_def hex64_def class_range_def
      is_hex_def is_digit_def less_eq_char_def list_all_iff)

definition sample_gen :: "event_db \<Rightarrow> uuid" where
  "sample_gen d = fresh_string (map cand_id (event_candidates d) @ map ece_id (event_candidate_evidence d))"

lemma sample_gen_fresh: "fresh_gen sample_gen"
  unfolding fresh_gen_def
proof (intro allI)
  fix d
  show "sample_gen d \<notin> cand_id ` set (event_candidates d) \<union> ece_id ` set (event_candidate_evidence d)"
    using fresh_string_new [of "map cand_id (event_candidates d) @ map ece_id (event_candidate_evidence d)"] by (simp add: sample_gen_def)
qed

definition sample_evidence :: EvidenceItem where
  "sample_evidence = \<lparr>evi_id = ''e1'', evi_evidence_version = 1, evi_provider = ''marketaux'', evi_provider_item_type = ''marketaux_news'',
     evi_evidence_kind = ''news'', evi_source_type = ''news'', evi_source_id = ''s1'', evi_source_account_id = Some ''a1'', evi_raw_item_id = ''r1'',
     evi_content_item_id = None, evi_provider_item_id = None, evi_provider_item_hash = sample_hash, evi_event_time = Some 5,
     evi_observed_at = 6, evi_access_level = ''link_only'', evi_processing_status = ''validated'', evi_official_source_flag = False,
     evi_market_data_flag = False, evi_disclosure_flag = False, evi_news_signal_flag = True, evi_content_presence = [], evi_numeric_presence = [],
     evi_entity_refs = [JStr ''AAPL''], evi_asset_refs = [], evi_topic_refs = [], evi_raw_payload_reference = None, evi_errors = [],
     evi_created_at = 7, evi_updated_at = 7\<rparr>"

definition sample_event_db :: event_db where
  "sample_event_db = db.extend (empty_db\<lparr>content_items := [sample_content]\<rparr>) (event_db.fields [sample_evidence] [] [] [])"

abbreviation sample_process :: "event_db \<Rightarrow> (EventCandidateOutcome \<times> event_db) res" where
  "sample_process \<equiv> process sample_urllib sample_gen 9 ''e1''"

definition first_outcome :: EventCandidateOutcome where
  "first_outcome = \<lparr>eco_event_candidate_id = ''x'', eco_cluster_key = sample_hash, eco_status = ''created'', eco_match_rule = NEW_CANDIDATE,
     eco_rule_version = 1, eco_association_active = True\<rparr>"

definition sample_view :: EvidenceProjection where
  "sample_view = the (load_evidence_projection sample_urllib ''e1'' sample_event_db)"

definition sample_decision :: MatchDecision where
  "sample_decision = projr (match_existing sample_urllib sample_view [] first_window)"

definition sample_created :: "((EventCandidate \<times> string) \<times> event_db) res" where
  "sample_created = create_or_get sample_gen 9 sample_view sample_decision sample_event_db"

definition sample_linked :: "(EventCandidateEvidence \<times> event_db) res" where
  "sample_linked = associate sample_gen 9 (fst (fst (projr sample_created))) sample_view sample_decision (snd (projr sample_created))"

lemma sample_process_obtain: obtains d' where "sample_process sample_event_db = Inr (first_outcome, d')"
proof -
  have "load_evidence_projection sample_urllib ''e1'' sample_event_db \<noteq> None"
    by (simp add: load_evidence_projection_def get_evidence_def sample_event_db_def db.defs event_db.defs sample_evidence_def)
  then have v: "load_evidence_projection sample_urllib ''e1'' sample_event_db = Some sample_view" by (auto simp: sample_view_def)
  have none: "active_associations ''e1'' sample_event_db = []" "load_candidates sample_event_db = []"
    by (simp_all add: active_associations_def load_candidates_def sample_event_db_def db.defs event_db.defs)
  have "\<not> isl (match_existing sample_urllib sample_view [] first_window)" by code_simp
  then have m: "match_existing sample_urllib sample_view [] first_window = Inr sample_decision"
    unfolding sample_decision_def by (cases "match_existing sample_urllib sample_view [] first_window") auto
  have nm: "md_candidate_id sample_decision = None" by code_simp
  have "\<not> isl sample_created" "\<not> isl sample_linked" by code_simp+
  then obtain c st d1 l d2 where c: "sample_created = Inr ((c, st), d1)" and l: "sample_linked = Inr (l, d2)"
    by (metis isl_def prod.exhaust sum.exhaust_sel)
  have "event_outcome (fst (fst (projr sample_created))) (fst (projr sample_linked)) (snd (fst (projr sample_created))) = Inr first_outcome" by code_simp
  then have "sample_process sample_event_db = Inr (first_outcome, refresh_candidate sample_urllib 9 sample_view sample_decision c d2)"
    using v none m nm c l by (simp add: process_def sample_created_def sample_linked_def)
  then show ?thesis by (rule that)
qed

lemma sample_events_inv: "events_inv sample_event_db" by code_simp

theorem events_reachable_ok_witness:
  "\<exists>d. reach events_init (event_step sample_urllib) d \<and> sample_process sample_event_db = Inr (first_outcome, d)
     \<and> list_all (agg_ok d) (event_candidates d) \<and> distinct (map ece_evidence_item_id (filter ece_active (event_candidate_evidence d)))"
proof -
  obtain d where d: "sample_process sample_event_db = Inr (first_outcome, d)" by (rule sample_process_obtain)
  have "events_init sample_event_db" by (simp add: events_init_def sample_event_db_def db.defs event_db.defs)
  then have r: "reach events_init (event_step sample_urllib) d"
    using d sample_gen_fresh by (blast intro: reach_step reach_init es_process)
  with events_reachable_ok [OF sample_digest_ok r] d show ?thesis by blast
qed

theorem process_is_idempotent_witness:
  "\<exists>d. sample_process sample_event_db = Inr (first_outcome, d)
     \<and> sample_process d = Inr (first_outcome\<lparr>eco_status := ''existing''\<rparr>, d)"
proof -
  obtain d where d: "sample_process sample_event_db = Inr (first_outcome, d)" by (rule sample_process_obtain)
  from process_is_idempotent [OF sample_digest_ok sample_events_inv sample_gen_fresh d] d show ?thesis by blast
qed

definition sample_candidate :: EventCandidate where
  "sample_candidate = \<lparr>cand_id = ''k1'', cand_cluster_key = sample_hash, cand_anchor_type = ''url'', cand_anchor_value_hash = sample_hash,
     cand_strong_identity_hash = None, cand_identity_signatures = [], cand_title_fingerprints = [], cand_event_type = ''information_event'',
     cand_status = Cand_CANDIDATE, cand_canonical_title = None, cand_fact_summary = None, cand_first_seen_at = 5, cand_latest_seen_at = 5,
     cand_occurred_at = Some 5, cand_published_at = Some 5, cand_primary_entity = None, cand_entities = [], cand_companies = [], cand_assets = [],
     cand_sectors = [], cand_topics = [], cand_evidence_count = 1, cand_source_count = 1, cand_confidence = 45 / 100, cand_importance_score = 15,
     cand_importance_reasons = [], cand_created_at = 7, cand_updated_at = 7\<rparr>"

definition sample_group_db :: event_db where
  "sample_group_db = sample_event_db\<lparr>
     event_candidates := [sample_candidate, sample_candidate\<lparr>cand_id := ''k2'', cand_cluster_key := replicate 64 (CHR ''1''),
       cand_status := Cand_REJECTED, cand_evidence_count := 0, cand_source_count := 0\<rparr>],
     event_candidate_evidence := [\<lparr>ece_id = ''l1'', ece_event_candidate_id = ''k1'', ece_evidence_item_id = ''e1'', ece_match_rule = ''new_candidate'',
       ece_rule_version = 1, ece_official_source = False, ece_active = True, ece_added_at = 7, ece_removed_at = None\<rparr>]\<rparr>"

theorem regroup_moves_evidence_witness:
  "\<exists>out d. regroup_association sample_urllib sample_gen 9 ''e1'' ''k1'' ''k2'' sample_group_db = Inr (out, d)
     \<and> map ece_event_candidate_id (active_associations ''e1'' d) = [''k2''] \<and> list_all (agg_ok d) (event_candidates d)"
proof -
  have "\<not> isl (regroup_association sample_urllib sample_gen 9 ''e1'' ''k1'' ''k2'' sample_group_db)" by code_simp
  then obtain out d where d: "regroup_association sample_urllib sample_gen 9 ''e1'' ''k1'' ''k2'' sample_group_db = Inr (out, d)"
    by (cases "regroup_association sample_urllib sample_gen 9 ''e1'' ''k1'' ''k2'' sample_group_db") auto
  have inv: "events_inv sample_group_db" by code_simp
  from regroup_moves_evidence [OF sample_digest_ok inv sample_gen_fresh d] d show ?thesis by (intro exI conjI) blast+
qed

end
