(* ===== verification/Link_Guards.thy ===== *)
theory Link_Guards
  imports Evidence_Schema
begin

text \<open>
  The database triggers that guard the evidence links, as the migrations \<open>alembic/versions/0009_m2a_provider_breadth.py\<close>
  (link and content policy) and \<open>0010_rich_evidence_projection_immutability.py\<close> (transition and immutability) leave them.
  A guard looks at the state before the statement, at the old row (none for an insert) and at the new row (none for a delete); it returns
  \<open>Inl\<close> with the message of \<open>RAISE EXCEPTION\<close>.  The row locks that the transition guard takes with \<open>NOWAIT\<close> are not guards of the values:
  a lock that is not granted is a database error of the caller.  \<open>IF\<close> and \<open>WHERE\<close> take an unknown condition as false.
\<close>

definition raise_exception :: "string \<Rightarrow> 'a res" where
  "raise_exception m = Inl (SQLAlchemyError m)"

definition unless_raise :: "bool \<Rightarrow> string \<Rightarrow> unit res" where
  "unless_raise ok m = (if ok then Inr () else raise_exception m)"

lemma unless_raise_simps [simp]: "unless_raise ok m = Inr u \<longleftrightarrow> ok" "unless_raise True m = Inr ()"
  by (auto simp: unless_raise_def raise_exception_def)

text \<open>The operator \<open>->>\<close>, the cast to \<open>timestamptz\<close> and \<open>concat\<close>, which skips \<open>NULL\<close>.\<close>

definition pg_text :: "pylib \<Rightarrow> dict \<Rightarrow> string \<Rightarrow> string option" where
  "pg_text lib payload k = (case dget payload k of JNull \<Rightarrow> None | JStr s \<Rightarrow> Some s | v \<Rightarrow> canonical_dumps lib v)"

definition pg_time :: "pylib \<Rightarrow> dict \<Rightarrow> string \<Rightarrow> time option res" where
  "pg_time lib payload k =
     (case pg_text lib payload k of
        None \<Rightarrow> Inr None
      | Some s \<Rightarrow> (case fromisoformat lib s of None \<Rightarrow> Inl (SQLAlchemyError ''22007'') | Some (t, _) \<Rightarrow> Inr (Some t)))"

definition text_or_empty :: "string option \<Rightarrow> string" where
  "text_or_empty s = (case s of None \<Rightarrow> [] | Some v \<Rightarrow> v)"

text \<open>Equality of the flat \<open>jsonb\<close> objects that the guards build.\<close>

definition jsonb_eq :: "dict \<Rightarrow> dict \<Rightarrow> bool" where
  "jsonb_eq a b = (keys_of a = keys_of b \<and> (\<forall>k\<in>keys_of a. dget a k = dget b k))"

definition pg_provider_id :: "string \<Rightarrow> bool" where
  "pg_provider_id = first_rest is_alnum (\<lambda>c. is_alnum c \<or> c \<in> set ''._:-'') 254"

definition opaque_provider_id :: "string option \<Rightarrow> bool" where
  "opaque_provider_id i =
     (case i of None \<Rightarrow> False | Some s \<Rightarrow> has_prefix ''provider-item:'' s \<and> hex64 (drop (length ''provider-item:'') s))"

definition linked_to_evidence :: "event_db \<Rightarrow> uuid option \<Rightarrow> bool" where
  "linked_to_evidence d e =
     list_ex (\<lambda>l. epl_evidence_item_id l = e \<and> e \<noteq> None \<and> epl_status l = Link_LINKED) (evidence_projection_links d)"

definition linked_to_content :: "event_db \<Rightarrow> uuid option \<Rightarrow> bool" where
  "linked_to_content d c =
     list_ex (\<lambda>l. epl_content_item_id l = c \<and> c \<noteq> None \<and> epl_status l = Link_LINKED) (evidence_projection_links d)"

definition evidence_row :: "event_db \<Rightarrow> uuid option \<Rightarrow> EvidenceItem option" where
  "evidence_row d i = Option.bind i (\<lambda>i. List.find (\<lambda>e. evi_id e = i) (evidence_items d))"
definition content_row :: "event_db \<Rightarrow> uuid option \<Rightarrow> ContentItem option" where
  "content_row d i = Option.bind i (\<lambda>i. List.find (\<lambda>c. cnt_id c = i) (content_items d))"

subsection \<open>The transition to linked\<close>

definition retention_allowed :: "SafeFactProjection \<Rightarrow> string \<Rightarrow> bool" where
  "retention_allowed p retention =
     ((sfp_provider p \<in> {''marketaux'', ''sec_edgar''} \<and> retention \<in> {''link_only'', ''metadata_only''})
      \<or> (sfp_provider p = ''eia'' \<and> retention = ''metadata_only'')
      \<or> (sfp_provider p = ''finnhub'' \<and> sfp_operation_key p = ''quote'' \<and> retention = ''metadata_only'')
      \<or> (sfp_provider p = ''finnhub'' \<and> sfp_operation_key p = ''company_news'' \<and> retention \<in> {''metadata_only'', ''link_only''}))"

definition evidence_of_raw :: "SafeFactProjection \<Rightarrow> RawItem \<Rightarrow> EvidenceItem \<Rightarrow> bool" where
  "evidence_of_raw p r e =
     (evi_raw_item_id e = raw_id r \<and> evi_source_id e = raw_source_id r \<and> evi_source_account_id e = raw_source_account_id r
      \<and> evi_provider e = sfp_provider p \<and> evi_processing_status e = ''validated'' \<and> evi_event_time e \<noteq> None
      \<and> evi_official_source_flag e = (sfp_provider p \<in> {''eia'', ''sec_edgar''})
      \<and> evi_market_data_flag e = (sfp_provider p = ''finnhub'' \<and> sfp_operation_key p = ''quote'')
      \<and> evi_disclosure_flag e = (sfp_provider p = ''sec_edgar'')
      \<and> evi_news_signal_flag e = (sfp_operation_key p \<in> {''news_all'', ''company_news''}))"

definition typed_as :: "EvidenceItem \<Rightarrow> string \<Rightarrow> string \<Rightarrow> string \<Rightarrow> bool" where
  "typed_as e item_type kind source_type =
     (evi_provider_item_type e = item_type \<and> evi_evidence_kind e = kind \<and> evi_source_type e = source_type)"

definition no_content :: "EvidenceItem \<Rightarrow> EvidenceProjectionLink \<Rightarrow> bool" where
  "no_content e new = (evi_content_item_id e = None \<and> epl_content_item_id new = None)"

definition operation_policy :: "pylib \<Rightarrow> SafeFactProjection \<Rightarrow> EvidenceItem \<Rightarrow> EvidenceProjectionLink \<Rightarrow> bool" where
  "operation_policy lib p e new =
     (let k = (sfp_provider p, sfp_operation_key p); access = evi_access_level e in
      (k = (''marketaux'', ''news_all'')
        \<and> (case pg_text lib (sfp_factual_payload p) ''provider_item_id'' of None \<Rightarrow> False | Some s \<Rightarrow> pg_provider_id s)
        \<and> typed_as e ''marketaux_news'' ''news'' ''news'' \<and> access = ''link_only'')
      \<or> (k = (''finnhub'', ''quote'') \<and> typed_as e ''finnhub_quote'' ''market_data'' ''market_data'' \<and> access = ''licensed'' \<and> no_content e new)
      \<or> (k = (''finnhub'', ''company_news'') \<and> typed_as e ''finnhub_company_news'' ''news'' ''news'' \<and> access = ''licensed'')
      \<or> (k \<in> {(''eia'', ''electricity_retail_sales''), (''eia'', ''electricity_rto_region_data'')}
        \<and> typed_as e ''eia_energy_timeseries'' ''energy_official'' ''official_energy'' \<and> access = ''public_summary'' \<and> no_content e new)
      \<or> (k = (''sec_edgar'', ''submissions_recent'') \<and> typed_as e ''sec_filing'' ''disclosure'' ''disclosure'' \<and> access = ''link_only'')
      \<or> (opaque_provider_id (evi_provider_item_id e) \<and> access = ''link_only''
        \<and> ((k = (''marketaux'', ''news_all'') \<and> typed_as e ''marketaux_news'' ''news'' ''news'')
          \<or> (k = (''finnhub'', ''quote'') \<and> typed_as e ''finnhub_quote'' ''market_data'' ''market_data'' \<and> no_content e new)
          \<or> (k = (''eia'', ''electricity_retail_sales'')
             \<and> typed_as e ''eia_energy_timeseries'' ''energy_official'' ''official_energy'' \<and> no_content e new)
          \<or> (k = (''sec_edgar'', ''submissions_recent'') \<and> typed_as e ''sec_filing'' ''disclosure'' ''disclosure''))))"

text \<open>The projection, raw item, observation and evidence item that the transition joins.\<close>

definition transition_rows ::
  "event_db \<Rightarrow> EvidenceProjectionLink \<Rightarrow> (SafeFactProjection \<times> RawItem \<times> RawItemObservation \<times> Source \<times> EvidenceItem) option" where
  "transition_rows d new =
     Option.bind (get_projection (base d) (epl_safe_fact_projection_id new)) (\<lambda>p.
     Option.bind (get_raw d (sfp_raw_item_id p)) (\<lambda>r.
     Option.bind (get_observation d (sfp_observation_id p)) (\<lambda>ob.
     Option.bind (get_source (base d) (raw_source_id r)) (\<lambda>s.
     Option.bind (evidence_row d (epl_evidence_item_id new)) (\<lambda>e. Some (p, r, ob, s, e))))))"

text \<open>The projection whose values the evidence (or content) row must hold: that of the new link when the new link is canonical,
  otherwise that of the canonical link.\<close>

definition canonical_evidence_origin ::
  "event_db \<Rightarrow> EvidenceProjectionLink \<Rightarrow> SafeFactProjection \<Rightarrow> RawItemObservation \<Rightarrow> (SafeFactProjection \<times> RawItemObservation) option" where
  "canonical_evidence_origin d new p ob =
     (if epl_canonical_evidence new then Some (p, ob)
      else case List.map_filter (\<lambda>l.
        if epl_evidence_item_id l = epl_evidence_item_id new \<and> epl_status l = Link_LINKED \<and> epl_canonical_evidence l
        then Option.bind (get_projection (base d) (epl_safe_fact_projection_id l))
               (\<lambda>q. map_option (\<lambda>qo. (q, qo)) (get_observation d (sfp_observation_id q)))
        else None) (evidence_projection_links d) of [] \<Rightarrow> None | x # _ \<Rightarrow> Some x)"

definition canonical_content_origin :: "event_db \<Rightarrow> EvidenceProjectionLink \<Rightarrow> SafeFactProjection \<Rightarrow> SafeFactProjection option" where
  "canonical_content_origin d new p =
     (if epl_canonical_content new then Some p
      else case List.map_filter (\<lambda>l.
        if epl_content_item_id l = epl_content_item_id new \<and> epl_status l = Link_LINKED \<and> epl_canonical_content l
        then get_projection (base d) (epl_safe_fact_projection_id l) else None) (evidence_projection_links d) of [] \<Rightarrow> None | x # _ \<Rightarrow> Some x)"

definition presence_object :: "pylib \<Rightarrow> dict \<Rightarrow> dict" where
  "presence_object lib payload =
     [(''has_title'', JBool (text_or_empty (pg_text lib payload ''title'') \<noteq> [])), (''has_body'', JBool False),
      (''has_url'', JBool (text_or_empty (pg_text lib payload ''canonical_url'') \<noteq> []
                           \<or> text_or_empty (pg_text lib payload ''official_url'') \<noteq> [])),
      (''has_snippet'', JBool False), (''has_description'', JBool False)]"

definition numeric_object :: "SafeFactProjection \<Rightarrow> dict" where
  "numeric_object p =
     [(''has_numeric_value'', JBool (sfp_operation_key p = ''quote'' \<or> sfp_provider p = ''eia'')),
      (''numeric_field_count'', JInt (if sfp_operation_key p = ''quote'' then 7 else if sfp_provider p = ''eia'' then 1 else 0)),
      (''nullable_allowed'', JBool (sfp_provider p = ''eia''))]"

definition opaque_id :: "pylib \<Rightarrow> string \<Rightarrow> string option" where
  "opaque_id lib s = Some (''provider-item:'' @ sha256_hex lib s)"

definition evidence_identity :: "pylib \<Rightarrow> SafeFactProjection \<Rightarrow> SafeFactProjection \<Rightarrow> EvidenceItem \<Rightarrow> bool" where
  "evidence_identity lib p q e =
     (let k = (sfp_provider p, sfp_operation_key p); payload = sfp_factual_payload q;
          t = (\<lambda>f. text_or_empty (pg_text lib payload f)); i = evi_provider_item_id e; link_only = (evi_access_level e = ''link_only'') in
      (i = pg_text lib payload ''provider_item_id'' \<and> evi_provider_item_hash e = sfp_projection_hash q)
      \<or> (k = (''marketaux'', ''news_all'')
         \<and> (case pg_text lib payload ''provider_item_id'' of None \<Rightarrow> False | Some s \<Rightarrow> pg_provider_id s)
         \<and> link_only \<and> i = opaque_id lib (''\"'' @ t ''provider_item_id'' @ ''\"''))
      \<or> (k = (''finnhub'', ''quote'') \<and> link_only \<and> i = opaque_id lib (''[\"'' @ t ''symbol'' @ ''\",'' @ t ''provider_timestamp'' @ '']''))
      \<or> (k = (''eia'', ''electricity_retail_sales'') \<and> link_only
         \<and> i = opaque_id lib (''[\"'' @ t ''period'' @ ''\",\"'' @ t ''geography'' @ ''\",\"'' @ t ''sector'' @ ''\"]''))
      \<or> (k = (''sec_edgar'', ''submissions_recent'') \<and> link_only \<and> i = opaque_id lib (''\"'' @ t ''accession_number'' @ ''\"'')))"

definition evidence_value_guard ::
  "pylib \<Rightarrow> SafeFactProjection \<Rightarrow> SafeFactProjection \<Rightarrow> RawItemObservation \<Rightarrow> EvidenceItem \<Rightarrow> unit res" where
  "evidence_value_guard lib p q qo e =
     bindR (pg_time lib (sfp_factual_payload q) ''published_at'') (\<lambda>published.
       unless_raise (evi_event_time e = published \<and> evi_observed_at e = obs_observed_at qo
         \<and> jsonb_eq (evi_content_presence e) (presence_object lib (sfp_factual_payload q))
         \<and> jsonb_eq (evi_numeric_presence e) (numeric_object p)
         \<and> evidence_identity lib p q e) ''linked_evidence_identity_policy_invalid'')"

definition content_policy :: "pylib \<Rightarrow> SafeFactProjection \<Rightarrow> RawItem \<Rightarrow> ContentItem \<Rightarrow> time option \<Rightarrow> bool" where
  "content_policy lib q r c published =
     (let payload = sfp_factual_payload q; t = pg_text lib payload; provider = sfp_provider q;
          url = (case t ''canonical_url'' of None \<Rightarrow> t ''official_url'' | Some u \<Rightarrow> Some u) in
      cnt_body c = None \<and> cnt_source_summary c = None \<and> cnt_author c = None \<and> cnt_content_hash c = None
      \<and> cnt_source_updated_at c = None \<and> cnt_reply_to_external_id c = None \<and> cnt_quote_external_id c = None
      \<and> cnt_repost_external_id c = None \<and> cnt_deleted_status c = Del_UNKNOWN
      \<and> keys_of (cnt_metadata c) \<subseteq> {''provider'', ''operation_key'', ''retention''}
      \<and> pg_text lib (cnt_metadata c) ''provider'' = Some provider
      \<and> pg_text lib (cnt_metadata c) ''operation_key'' = Some (sfp_operation_key q)
      \<and> pg_text lib (cnt_metadata c) ''retention'' = Some (raw_retention_class r)
      \<and> (provider = ''marketaux'' \<longrightarrow> cnt_language c = t ''language'')
      \<and> (provider \<in> {''finnhub'', ''sec_edgar''} \<longrightarrow> cnt_language c = None)
      \<and> cnt_body_availability c = Body_UNAVAILABLE \<and> cnt_source_published_at c = published
      \<and> cnt_original_url c = url \<and> cnt_canonical_url c = cnt_original_url c \<and> cnt_external_id c = t ''provider_item_id''
      \<and> (provider \<in> {''marketaux'', ''finnhub''} \<longrightarrow> cnt_content_kind c = Kind_ARTICLE \<and> cnt_title c = t ''title'')
      \<and> (provider = ''sec_edgar'' \<longrightarrow>
           cnt_content_kind c = Kind_OFFICIAL_RELEASE \<and> cnt_title c = Some (''SEC '' @ text_or_empty (t ''form'') @ '' filing'')))"

definition content_required :: "pylib \<Rightarrow> SafeFactProjection \<Rightarrow> bool" where
  "content_required lib p =
     (((sfp_provider p, sfp_operation_key p) \<in> {(''marketaux'', ''news_all''), (''finnhub'', ''company_news'')}
       \<and> list_all (\<lambda>k. pg_text lib (sfp_factual_payload p) k \<noteq> None) [''title'', ''canonical_url'', ''source_identity''])
      \<or> sfp_provider p = ''sec_edgar'')"

definition content_value_guard :: "pylib \<Rightarrow> event_db \<Rightarrow> EvidenceProjectionLink \<Rightarrow> SafeFactProjection \<Rightarrow> RawItem \<Rightarrow> unit res" where
  "content_value_guard lib d new p r =
     (if epl_content_item_id new = None then
        bindR (unless_raise (\<not> epl_canonical_content new) ''canonical_content_adoption_invalid'') (\<lambda>_.
          unless_raise (\<not> content_required lib p) ''linked_content_required'')
      else
        bindR (unless_raise (linked_to_content d (epl_content_item_id new) = (\<not> epl_canonical_content new)) ''canonical_content_adoption_invalid'') (\<lambda>_.
        case (canonical_content_origin d new p, content_row d (epl_content_item_id new)) of
          (Some q, Some c) \<Rightarrow>
            bindR (pg_time lib (sfp_factual_payload q) ''published_at'') (\<lambda>published.
              unless_raise (content_policy lib q r c published) ''linked_content_field_policy_invalid'')
        | _ \<Rightarrow> raise_exception ''linked_content_field_policy_invalid''))"

definition m2b_link_transition_lock_guard ::
  "pylib \<Rightarrow> event_db \<Rightarrow> EvidenceProjectionLink option \<Rightarrow> EvidenceProjectionLink \<Rightarrow> unit res" where
  "m2b_link_transition_lock_guard lib d old new =
     (if epl_status new = Link_LINKED \<and> (case old of None \<Rightarrow> True | Some l \<Rightarrow> epl_status l \<noteq> Link_LINKED) then
        case transition_rows d new of
          None \<Rightarrow> raise_exception ''linked_operation_policy_invalid''
        | Some (p, r, ob, s, e) \<Rightarrow>
            bindR (unless_raise (src_retention_class s = raw_retention_class r \<and> retention_allowed p (raw_retention_class r)
                     \<and> evidence_of_raw p r e \<and> operation_policy lib p e new) ''linked_operation_policy_invalid'') (\<lambda>_.
            bindR (unless_raise (linked_to_evidence d (epl_evidence_item_id new) = (\<not> epl_canonical_evidence new))
                     ''canonical_evidence_adoption_invalid'') (\<lambda>_.
            bindR (case canonical_evidence_origin d new p ob of
                     None \<Rightarrow> raise_exception ''linked_evidence_identity_policy_invalid''
                   | Some (q, qo) \<Rightarrow> evidence_value_guard lib p q qo e) (\<lambda>_.
              content_value_guard lib d new p r)))
      else Inr ())"

subsection \<open>Immutability of linked rows\<close>

definition m2b_linked_association_immutable_guard ::
  "EvidenceProjectionLink \<Rightarrow> EvidenceProjectionLink option \<Rightarrow> unit res" where
  "m2b_linked_association_immutable_guard old new =
     unless_raise (epl_status old \<noteq> Link_LINKED
       \<or> (case new of None \<Rightarrow> False | Some l \<Rightarrow> l\<lparr>epl_updated_at := epl_updated_at old\<rparr> = old)) ''linked_evidence_projection_association_immutable''"

definition linked_projection :: "event_db \<Rightarrow> uuid \<Rightarrow> bool" where
  "linked_projection d i =
     list_ex (\<lambda>l. epl_safe_fact_projection_id l = i \<and> epl_status l = Link_LINKED) (evidence_projection_links d)"

definition m2b_linked_projection_immutable_guard ::
  "event_db \<Rightarrow> SafeFactProjection \<Rightarrow> SafeFactProjection option \<Rightarrow> unit res" where
  "m2b_linked_projection_immutable_guard d old new =
     unless_raise (\<not> linked_projection d (sfp_id old)
       \<or> (case new of None \<Rightarrow> False
          | Some p \<Rightarrow> sfp_processing_status p = Proj_READY \<and> sfp_safe_error_code p = None \<and> sfp_next_retry_at p = None
              \<and> sfp_processed_at p \<noteq> None \<and> p\<lparr>sfp_updated_at := sfp_updated_at old\<rparr> = old)) ''linked_safe_fact_projection_immutable''"

definition m2b_linked_observation_immutable_guard ::
  "event_db \<Rightarrow> RawItemObservation \<Rightarrow> RawItemObservation option \<Rightarrow> unit res" where
  "m2b_linked_observation_immutable_guard d old new =
     unless_raise (\<not> list_ex (\<lambda>p. sfp_observation_id p = obs_id old \<and> linked_projection d (sfp_id p)) (safe_fact_projections d)
       \<or> new = Some old) ''linked_raw_item_observation_immutable''"

definition m2b_linked_raw_item_immutable_guard :: "event_db \<Rightarrow> RawItem \<Rightarrow> RawItem option \<Rightarrow> unit res" where
  "m2b_linked_raw_item_immutable_guard d old new =
     unless_raise (\<not> list_ex (\<lambda>p. sfp_raw_item_id p = raw_id old \<and> linked_projection d (sfp_id p)) (safe_fact_projections d)
       \<or> new = Some old) ''linked_raw_item_immutable''"

definition m2b_linked_source_retention_guard :: "event_db \<Rightarrow> Source \<Rightarrow> Source \<Rightarrow> unit res" where
  "m2b_linked_source_retention_guard d old new =
     unless_raise (src_retention_class new = src_retention_class old
       \<or> \<not> list_ex (\<lambda>r. raw_source_id r = src_id old
            \<and> list_ex (\<lambda>p. sfp_raw_item_id p = raw_id r \<and> linked_projection d (sfp_id p)) (safe_fact_projections d)) (raw_items d))
       ''linked_source_retention_immutable''"

definition m2b_linked_evidence_row_immutable_guard :: "event_db \<Rightarrow> EvidenceItem \<Rightarrow> EvidenceItem option \<Rightarrow> unit res" where
  "m2b_linked_evidence_row_immutable_guard d old new =
     unless_raise (\<not> linked_to_evidence d (Some (evi_id old)) \<or> new = Some old) ''linked_evidence_row_immutable''"

definition m2b_linked_content_row_immutable_guard :: "event_db \<Rightarrow> ContentItem \<Rightarrow> ContentItem option \<Rightarrow> unit res" where
  "m2b_linked_content_row_immutable_guard d old new =
     unless_raise (\<not> linked_to_content d (Some (cnt_id old))
       \<or> (case new of None \<Rightarrow> False | Some c \<Rightarrow> c\<lparr>cnt_updated_at := cnt_updated_at old\<rparr> = old)) ''linked_content_row_immutable''"

subsection \<open>The link and content policy\<close>

definition expected_type :: "SafeFactProjection \<Rightarrow> string option" where
  "expected_type p =
     map_of [(''marketaux:news_all'', ''marketaux_news''), (''finnhub:quote'', ''finnhub_quote''),
             (''eia:electricity_retail_sales'', ''eia_energy_timeseries''), (''sec_edgar:submissions_recent'', ''sec_filing''),
             (''finnhub:company_news'', ''finnhub_company_news''), (''eia:electricity_rto_region_data'', ''eia_energy_timeseries'')]
       (sfp_provider p @ '':'' @ sfp_operation_key p)"

definition sec_content_valid :: "pylib \<Rightarrow> event_db \<Rightarrow> SafeFactProjection \<Rightarrow> EvidenceProjectionLink \<Rightarrow> ContentItem \<Rightarrow> bool" where
  "sec_content_valid lib d p new c =
     (cnt_content_kind c = Kind_OFFICIAL_RELEASE \<and> cnt_body_availability c = Body_UNAVAILABLE
      \<and> cnt_canonical_url c \<noteq> None \<and> cnt_original_url c = cnt_canonical_url c
      \<and> (cnt_canonical_url c = pg_text lib (sfp_factual_payload p) ''official_url''
         \<or> list_ex (\<lambda>l. epl_status l = Link_LINKED \<and> epl_evidence_item_id l = epl_evidence_item_id new
              \<and> epl_content_item_id l = epl_content_item_id new
              \<and> (case get_projection (base d) (epl_safe_fact_projection_id l) of None \<Rightarrow> False
                 | Some q \<Rightarrow> pg_text lib (sfp_factual_payload q) ''official_url'' = cnt_canonical_url c)) (evidence_projection_links d)))"

definition link_evidence_guard ::
  "event_db \<Rightarrow> SafeFactProjection \<Rightarrow> RawItem option \<Rightarrow> EvidenceItem option \<Rightarrow> EvidenceProjectionLink \<Rightarrow> unit res" where
  "link_evidence_guard d p r e new =
     (if epl_evidence_item_id new = None then Inr ()
      else bindR (unless_raise (expected_type p \<noteq> None) ''evidence_projection_operation_unknown'') (\<lambda>_.
        unless_raise (case e of None \<Rightarrow> False
          | Some e \<Rightarrow> evi_raw_item_id e = sfp_raw_item_id p \<and> Some (evi_source_id e) = map_option raw_source_id r
              \<and> evi_source_account_id e = Option.bind r raw_source_account_id \<and> evi_provider e = sfp_provider p
              \<and> Some (evi_provider_item_type e) = expected_type p
              \<and> evi_content_item_id e \<in> {None, epl_content_item_id new}) ''evidence_projection_evidence_provenance_mismatch''))"

definition link_content_guard ::
  "pylib \<Rightarrow> event_db \<Rightarrow> SafeFactProjection \<Rightarrow> RawItem option \<Rightarrow> EvidenceProjectionLink \<Rightarrow> unit res" where
  "link_content_guard lib d p r new =
     (if epl_content_item_id new = None then Inr ()
      else case content_row d (epl_content_item_id new) of
        None \<Rightarrow> raise_exception ''evidence_projection_content_provenance_mismatch''
      | Some c \<Rightarrow>
          bindR (unless_raise (cnt_raw_item_id c = sfp_raw_item_id p \<and> Some (cnt_source_id c) = map_option raw_source_id r
                   \<and> cnt_source_account_id c = Option.bind r raw_source_account_id) ''evidence_projection_content_provenance_mismatch'') (\<lambda>_.
          bindR (unless_raise (expected_type p \<notin> {Some ''finnhub_quote'', Some ''eia_energy_timeseries''}) ''evidence_projection_content_forbidden'') (\<lambda>_.
          bindR (unless_raise (expected_type p \<in> {Some ''marketaux_news'', Some ''finnhub_company_news''} \<longrightarrow> cnt_content_kind c = Kind_ARTICLE)
                   ''evidence_projection_content_kind_mismatch'') (\<lambda>_.
            unless_raise (expected_type p = Some ''sec_filing'' \<longrightarrow> sec_content_valid lib d p new c) ''evidence_projection_sec_content_invalid''))))"

definition r8a_evidence_projection_link_guard ::
  "pylib \<Rightarrow> event_db \<Rightarrow> EvidenceProjectionLink option \<Rightarrow> EvidenceProjectionLink \<Rightarrow> unit res" where
  "r8a_evidence_projection_link_guard lib d old new =
     (case get_projection (base d) (epl_safe_fact_projection_id new) of
        None \<Rightarrow> raise_exception ''evidence_projection_not_ready''
      | Some p \<Rightarrow>
          if sfp_processing_status p \<noteq> Proj_READY then raise_exception ''evidence_projection_not_ready''
          else let r = get_raw d (sfp_raw_item_id p); e = evidence_row d (epl_evidence_item_id new) in
            bindR (link_evidence_guard d p r e new) (\<lambda>_.
            bindR (link_content_guard lib d p r new) (\<lambda>_.
            bindR (unless_raise (expected_type p \<in> {Some ''finnhub_quote'', Some ''eia_energy_timeseries''} \<longrightarrow> Option.bind e evi_content_item_id = None)
                     ''evidence_projection_content_forbidden'') (\<lambda>_.
              unless_raise (case old of None \<Rightarrow> True
                | Some l \<Rightarrow> epl_status l = Link_LINKED \<longrightarrow>
                    epl_safe_fact_projection_id new = epl_safe_fact_projection_id l \<and> epl_evidence_item_id new = epl_evidence_item_id l
                    \<and> epl_content_item_id new = epl_content_item_id l \<and> epl_status new = epl_status l
                    \<and> epl_linked_at new = epl_linked_at l) ''evidence_projection_link_immutable''))))"

definition r8a_evidence_content_policy_guard :: "EvidenceItem \<Rightarrow> unit res" where
  "r8a_evidence_content_policy_guard e =
     unless_raise (evi_content_item_id e = None
       \<or> \<not> (evi_provider e = ''eia'' \<or> (evi_provider e = ''finnhub'' \<and> evi_provider_item_type e \<noteq> ''finnhub_company_news'')))
       ''evidence_projection_content_forbidden''"

text \<open>The triggers of the link table, in the order of their names.\<close>

definition link_triggers :: "pylib \<Rightarrow> event_db \<Rightarrow> EvidenceProjectionLink option \<Rightarrow> EvidenceProjectionLink \<Rightarrow> unit res" where
  "link_triggers lib d old new =
     bindR (m2b_link_transition_lock_guard lib d old new) (\<lambda>_.
     bindR (case old of None \<Rightarrow> Inr () | Some l \<Rightarrow> m2b_linked_association_immutable_guard l (Some new)) (\<lambda>_.
       r8a_evidence_projection_link_guard lib d old new))"

subsection \<open>Inserting evidence\<close>

text \<open>The insert of an evidence row: the driver checks the widths, then the trigger, the constraints and the indexes decide.\<close>

abbreviation integrity_error :: exn where "integrity_error \<equiv> SQLAlchemyError ''IntegrityError''"

definition add_evidence :: "EvidenceItem \<Rightarrow> event_db \<Rightarrow> (EvidenceItem \<times> event_db) res" where
  "add_evidence e d =
     (if \<not> evidence_widths e then Inl (SQLAlchemyError ''DataError'')
      else bindR (r8a_evidence_content_policy_guard e) (\<lambda>_.
        let d' = d\<lparr>evidence_items := evidence_items d @ [e]\<rparr> in
        if ck_evidence_items e \<and> uq_evidence_items (evidence_items d') then Inr (e, d') else Inl integrity_error))"

end
