(* ===== verification/Evidence_Envelope.thy ===== *)
theory Evidence_Envelope
  imports Evidence_Schema Safe_Projection
begin

text \<open>
  The normalized evidence envelope (\<open>evidence/contracts.py\<close>) with its validation, and the mappers that build an envelope from the item
  of a provider (\<open>evidence/provider_mappings.py\<close>), which keep digests of the values and no content.

  A member of a \<open>StrEnum\<close> is its text, and so is the \<open>str\<close> that a field may hold instead.  An item is a JSON object.  The context of a mapper
  is a record with \<open>JNull\<close> for a key that is absent; its \<open>observed_at\<close> may be a \<open>datetime\<close> or a JSON value.
\<close>

subsection \<open>Contract\<close>

record ContentPresence =
  cp_has_title :: bool
  cp_has_body :: bool
  cp_has_url :: bool
  cp_has_snippet :: bool
  cp_has_description :: bool

record NumericPresence =
  np_has_numeric_value :: bool
  np_numeric_field_count :: int
  np_nullable_allowed :: bool

record EvidenceError =
  ee_code :: string
  ee_field :: "string option"
  ee_safe_message :: string

record EvidenceFlags =
  ef_official_source_flag :: bool
  ef_market_data_flag :: bool
  ef_disclosure_flag :: bool
  ef_news_signal_flag :: bool

record CommonEvidenceEnvelope =
  env_evidence_version :: int
  env_provider :: string
  env_provider_item_type :: string
  env_source_type :: string
  env_source_priority :: "int option"
  env_access_level :: string
  env_provider_item_id :: "string option"
  env_provider_item_hash :: "string option"
  env_canonical_source_reference :: "string option"
  env_observed_at :: time
  env_event_time :: "time option"
  env_entity_refs :: "string list"
  env_asset_refs :: "string list"
  env_topic_refs :: "string list"
  env_dedup_candidate_key :: "string option"
  env_evidence_kind :: string
  env_evidence_confidence :: "string option"
  env_content_presence :: ContentPresence
  env_numeric_presence :: NumericPresence
  env_official_source_flag :: bool
  env_market_data_flag :: bool
  env_disclosure_flag :: bool
  env_news_signal_flag :: bool
  env_raw_payload_reference :: "string option"
  env_processing_status :: string
  env_errors :: "EvidenceError list"

definition EVIDENCE_VERSION :: int where "EVIDENCE_VERSION = 1"

definition SECRET_MARKERS :: "string list" where
  "SECRET_MARKERS = [''api_key='', ''api_token='', ''token='', ''authorization'', ''x-finnhub-token'']"

definition SAFE_RAW_REFERENCE_PREFIXES :: "string list" where
  "SAFE_RAW_REFERENCE_PREFIXES = [''capture://'', ''internal://'', ''local-ref://'']"

definition SAFE_ERROR_MESSAGES :: "string list" where
  "SAFE_ERROR_MESSAGES =
     [''Access level must be explicitly classified.'', ''Event time is unavailable; no value was inferred.'',
      ''Evidence contract value is unknown.'', ''Evidence flags do not match the provider item type.'',
      ''Evidence kind does not match the provider item type.'', ''Evidence version is not supported.'',
      ''Numeric field count cannot be negative.'', ''Provider does not match the provider item type.'',
      ''Provider item hash is missing or invalid.'', ''Provider item ID is unavailable.'',
      ''Raw payload reference is unsafe.'', ''Source type does not match the provider item type.'',
      ''The embedded error is not content-safe.'', ''This evidence type must allow nullable numeric values.'']"

definition Provider_values :: "string list" where
  "Provider_values = [''marketaux'', ''finnhub'', ''eia'', ''sec_edgar'']"
definition ProviderItemType_values :: "string list" where
  "ProviderItemType_values = [''marketaux_news'', ''finnhub_quote'', ''finnhub_company_news'', ''eia_energy_timeseries'', ''sec_filing'']"
definition EvidenceKind_values :: "string list" where
  "EvidenceKind_values = [''news'', ''market_data'', ''energy_official'', ''disclosure'']"
definition SourceType_values :: "string list" where
  "SourceType_values = [''news'', ''market_data'', ''official_energy'', ''disclosure'']"
definition AccessLevel_values :: "string list" where
  "AccessLevel_values =
     [''public_fulltext'', ''public_summary'', ''subscription_required'', ''licensed'', ''link_only'', ''blocked'', ''unknown'']"
definition ProcessingStatus_values :: "string list" where
  "ProcessingStatus_values = [''pending'', ''validated'', ''blocked'', ''invalid'']"

lemmas enum_values = Provider_values_def ProviderItemType_values_def EvidenceKind_values_def SourceType_values_def AccessLevel_values_def
  ProcessingStatus_values_def

text \<open>The tables keyed by item type; \<open>None\<close> is the value that \<open>ProviderItemType(..)\<close> refuses.\<close>

definition KIND_BY_ITEM_TYPE :: "(string \<times> string) list" where
  "KIND_BY_ITEM_TYPE = [(''finnhub_company_news'', ''news''), (''marketaux_news'', ''news''), (''finnhub_quote'', ''market_data''),
     (''eia_energy_timeseries'', ''energy_official''), (''sec_filing'', ''disclosure'')]"
definition PROVIDER_BY_ITEM_TYPE :: "(string \<times> string) list" where
  "PROVIDER_BY_ITEM_TYPE = [(''finnhub_company_news'', ''finnhub''), (''marketaux_news'', ''marketaux''), (''finnhub_quote'', ''finnhub''),
     (''eia_energy_timeseries'', ''eia''), (''sec_filing'', ''sec_edgar'')]"
definition SOURCE_BY_ITEM_TYPE :: "(string \<times> string) list" where
  "SOURCE_BY_ITEM_TYPE = [(''finnhub_company_news'', ''news''), (''marketaux_news'', ''news''), (''finnhub_quote'', ''market_data''),
     (''eia_energy_timeseries'', ''official_energy''), (''sec_filing'', ''disclosure'')]"
definition FLAGS_BY_ITEM_TYPE :: "(string \<times> EvidenceFlags) list" where
  "FLAGS_BY_ITEM_TYPE =
     (let none = \<lparr>ef_official_source_flag = False, ef_market_data_flag = False, ef_disclosure_flag = False, ef_news_signal_flag = False\<rparr> in
      [(''finnhub_company_news'', none\<lparr>ef_news_signal_flag := True\<rparr>), (''marketaux_news'', none\<lparr>ef_news_signal_flag := True\<rparr>),
       (''finnhub_quote'', none\<lparr>ef_market_data_flag := True\<rparr>), (''eia_energy_timeseries'', none\<lparr>ef_official_source_flag := True\<rparr>),
       (''sec_filing'', none\<lparr>ef_official_source_flag := True, ef_disclosure_flag := True\<rparr>)])"

lemmas item_type_tables = KIND_BY_ITEM_TYPE_def PROVIDER_BY_ITEM_TYPE_def SOURCE_BY_ITEM_TYPE_def FLAGS_BY_ITEM_TYPE_def

definition evidence_error :: "string \<Rightarrow> string option \<Rightarrow> string \<Rightarrow> EvidenceError" where
  "evidence_error code field_name message = \<lparr>ee_code = code, ee_field = field_name, ee_safe_message = message\<rparr>"

definition coerce_item_type :: "string \<Rightarrow> string res" where
  "coerce_item_type v = (if v \<in> set ProviderItemType_values then Inr v else Inl (ValueError ''unknown_provider_item_type''))"

definition by_item_type :: "(string \<times> 'a) list \<Rightarrow> string \<Rightarrow> 'a res" where
  "by_item_type table v =
     bindR (coerce_item_type v) (\<lambda>t. case map_of table t of None \<Rightarrow> Inl (KeyError t) | Some x \<Rightarrow> Inr x)"

definition provider_item_type_to_evidence_kind :: "string \<Rightarrow> string res" where
  "provider_item_type_to_evidence_kind = by_item_type KIND_BY_ITEM_TYPE"
definition provider_item_type_to_flags :: "string \<Rightarrow> EvidenceFlags res" where
  "provider_item_type_to_flags = by_item_type FLAGS_BY_ITEM_TYPE"

definition unsafe_reference :: "string \<Rightarrow> bool" where
  "unsafe_reference reference =
     (let lowered = lower reference in
      list_ex (\<lambda>marker. contains marker lowered) SECRET_MARKERS
      \<or> has_prefix ''http://'' lowered \<or> has_prefix ''https://'' lowered
      \<or> \<not> list_ex (\<lambda>p. has_prefix p lowered) SAFE_RAW_REFERENCE_PREFIXES)"

definition validate_raw_payload_reference :: "string option \<Rightarrow> EvidenceError list" where
  "validate_raw_payload_reference reference =
     (case reference of
        None \<Rightarrow> []
      | Some r \<Rightarrow>
          if unsafe_reference r
          then [evidence_error ''unsafe_raw_payload_reference'' (Some ''raw_payload_reference'') ''Raw payload reference is unsafe.'']
          else [])"

text \<open>\<open>SAFE_CODE_PATTERN\<close> and \<open>SAFE_FIELD_PATTERN\<close> are the same expression \<open>[a-z][a-z0-9_]*\<close>.\<close>

definition safe_code :: "string \<Rightarrow> bool" where
  "safe_code s = (case s of [] \<Rightarrow> False | c # cs \<Rightarrow> is_lower c \<and> list_all (\<lambda>x. is_lower x \<or> is_digit x \<or> x = CHR ''_'') cs)"

definition validate_embedded_error :: "EvidenceError \<Rightarrow> bool" where
  "validate_embedded_error e =
     (safe_code (ee_code e) \<and> (case ee_field e of None \<Rightarrow> True | Some f \<Rightarrow> safe_code f) \<and> ee_safe_message e \<in> set SAFE_ERROR_MESSAGES)"

definition enum_error :: "string \<Rightarrow> string list \<Rightarrow> string \<Rightarrow> string \<Rightarrow> EvidenceError list" where
  "enum_error v allowed code field_name =
     (if v \<in> set allowed then [] else [evidence_error code (Some field_name) ''Evidence contract value is unknown.''])"

definition error_unless :: "bool \<Rightarrow> string \<Rightarrow> string option \<Rightarrow> string \<Rightarrow> EvidenceError list" where
  "error_unless ok code field_name message = (if ok then [] else [evidence_error code field_name message])"

definition env_flags :: "CommonEvidenceEnvelope \<Rightarrow> EvidenceFlags" where
  "env_flags e = \<lparr>ef_official_source_flag = env_official_source_flag e, ef_market_data_flag = env_market_data_flag e,
     ef_disclosure_flag = env_disclosure_flag e, ef_news_signal_flag = env_news_signal_flag e\<rparr>"

definition enum_checks :: "CommonEvidenceEnvelope \<Rightarrow> EvidenceError list" where
  "enum_checks e =
     enum_error (env_provider e) Provider_values ''unknown_provider'' ''provider''
     @ enum_error (env_provider_item_type e) ProviderItemType_values ''unknown_provider_item_type'' ''provider_item_type''
     @ enum_error (env_evidence_kind e) EvidenceKind_values ''unknown_evidence_kind'' ''evidence_kind''
     @ enum_error (env_source_type e) SourceType_values ''unknown_source_type'' ''source_type''
     @ enum_error (env_access_level e) AccessLevel_values ''unknown_access_level'' ''access_level''
     @ enum_error (env_processing_status e) ProcessingStatus_values ''unknown_processing_status'' ''processing_status''"

definition item_type_checks :: "CommonEvidenceEnvelope \<Rightarrow> EvidenceError list" where
  "item_type_checks e =
     (let t = env_provider_item_type e in
      if t \<notin> set ProviderItemType_values then []
      else error_unless (Some (env_provider e) = map_of PROVIDER_BY_ITEM_TYPE t) ''provider_item_type_mismatch'' (Some ''provider'')
             ''Provider does not match the provider item type.''
        @ error_unless (Some (env_evidence_kind e) = map_of KIND_BY_ITEM_TYPE t) ''evidence_kind_mismatch'' (Some ''evidence_kind'')
             ''Evidence kind does not match the provider item type.''
        @ error_unless (Some (env_source_type e) = map_of SOURCE_BY_ITEM_TYPE t) ''source_type_mismatch'' (Some ''source_type'')
             ''Source type does not match the provider item type.''
        @ error_unless (Some (env_flags e) = map_of FLAGS_BY_ITEM_TYPE t) ''evidence_flags_mismatch'' None
             ''Evidence flags do not match the provider item type.''
        @ error_unless (t \<noteq> ''eia_energy_timeseries'' \<or> np_nullable_allowed (env_numeric_presence e)) ''eia_numeric_nullable_required''
             (Some ''numeric_presence'') ''This evidence type must allow nullable numeric values.'')"

definition validate_evidence_envelope :: "CommonEvidenceEnvelope \<Rightarrow> EvidenceError list" where
  "validate_evidence_envelope e =
     error_unless (env_evidence_version e = EVIDENCE_VERSION) ''unsupported_evidence_version'' (Some ''evidence_version'')
       ''Evidence version is not supported.''
     @ enum_checks e @ item_type_checks e
     @ error_unless (env_access_level e \<noteq> ''unknown'') ''access_level_unknown'' (Some ''access_level'')
         ''Access level must be explicitly classified.''
     @ error_unless (case env_provider_item_hash e of None \<Rightarrow> False | Some h \<Rightarrow> hex64 h) ''provider_item_hash_invalid'' (Some ''provider_item_hash'')
         ''Provider item hash is missing or invalid.''
     @ error_unless (env_event_time e \<noteq> None) ''event_time_missing'' (Some ''event_time'')
         ''Event time is unavailable; no value was inferred.''
     @ error_unless (0 \<le> np_numeric_field_count (env_numeric_presence e)) ''numeric_field_count_invalid'' (Some ''numeric_presence'')
         ''Numeric field count cannot be negative.''
     @ validate_raw_payload_reference (env_raw_payload_reference e)
     @ error_unless (list_all validate_embedded_error (env_errors e)) ''unsafe_embedded_error'' (Some ''errors'')
         ''The embedded error is not content-safe.''"

subsection \<open>Mapping helpers\<close>

datatype pyobj = Instant time | Val json

record evidence_context =
  ctx_observed_at :: pyobj
  ctx_source_priority :: json
  ctx_symbol :: json
  ctx_ticker :: json

definition NUMERIC_QUOTE_FIELDS :: "string list" where
  "NUMERIC_QUOTE_FIELDS = [''c'', ''d'', ''dp'', ''h'', ''l'', ''o'', ''pc'']"

definition LEGACY_OPAQUE_IDENTITY_OPERATIONS :: "(string \<times> string) list" where
  "LEGACY_OPAQUE_IDENTITY_OPERATIONS =
     [(''marketaux'', ''news_all''), (''finnhub'', ''quote''), (''eia'', ''electricity_retail_sales''), (''sec_edgar'', ''submissions_recent'')]"

definition stable_hash :: "pylib \<Rightarrow> json \<Rightarrow> string" where
  "stable_hash lib v = sha256_hex lib (stable_dumps lib v)"

definition opaque_ref :: "pylib \<Rightarrow> string \<Rightarrow> json \<Rightarrow> string" where
  "opaque_ref lib namespace v = namespace @ '':'' @ stable_hash lib v"

definition present :: "json \<Rightarrow> bool" where
  "present v = (v \<noteq> JNull \<and> v \<noteq> JStr [])"

text \<open>\<open>datetime.fromtimestamp\<close> of an integer in UTC: the years 1 to 9999.\<close>

definition fromtimestamp :: "int \<Rightarrow> time option" where
  "fromtimestamp n = (if -62135596800 \<le> n \<and> n < 253402300800 then Some (n * 1000000) else None)"

definition parse_datetime :: "pylib \<Rightarrow> json \<Rightarrow> time option" where
  "parse_datetime lib v =
     (case v of
        JInt n \<Rightarrow> fromtimestamp n
      | JFloat f \<Rightarrow> float_timestamp lib f
      | JStr s \<Rightarrow>
          if strip s = [] then None
          else let text = replace_Z (strip s);
                   text = (if length text = 7 \<and> text ! 4 = CHR ''-'' then text @ ''-01'' else text) in
            map_option fst (fromisoformat lib text)
      | _ \<Rightarrow> None)"

definition observed_at_of_context :: "pylib \<Rightarrow> evidence_context \<Rightarrow> time res" where
  "observed_at_of_context lib ctx =
     (case (case ctx_observed_at ctx of Instant t \<Rightarrow> Some t | Val v \<Rightarrow> parse_datetime lib v) of
        None \<Rightarrow> Inl (ValueError ''observed_at_required'') | Some t \<Rightarrow> Inr t)"

definition safe_refs :: "pylib \<Rightarrow> string \<Rightarrow> json \<Rightarrow> string list" where
  "safe_refs lib namespace v =
     (let candidates = (case v of JObj d \<Rightarrow> map (JStr \<circ> fst) d | JList xs \<Rightarrow> xs | _ \<Rightarrow> if present v then [v] else []) in
      map (opaque_ref lib namespace) (filter present candidates))"

definition provider_id :: "pylib \<Rightarrow> json \<Rightarrow> string option \<times> EvidenceError list" where
  "provider_id lib v =
     (if present v then (Some (opaque_ref lib ''provider-item'' v), [])
      else (None, [evidence_error ''provider_item_id_missing'' (Some ''provider_item_id'') ''Provider item ID is unavailable.'']))"

definition legacy_provider_item_identity :: "pylib \<Rightarrow> string \<Rightarrow> string \<Rightarrow> dict \<Rightarrow> string res" where
  "legacy_provider_item_identity lib provider operation_key payload =
     (if (provider, operation_key) \<notin> set LEGACY_OPAQUE_IDENTITY_OPERATIONS then Inl (ValueError ''legacy_provider_identity_unsupported'')
      else
        bindR (if provider = ''marketaux'' then bindR (normalize_marketaux_provider_identity (dget payload ''provider_item_id'')) (\<lambda>s. Inr [JStr s])
               else if provider = ''finnhub'' then Inr [dget payload ''symbol'', dget payload ''provider_timestamp'']
               else if provider = ''eia'' then Inr [dget payload ''period'', dget payload ''geography'', dget payload ''sector'']
               else Inr [dget payload ''accession_number'']) (\<lambda>parts.
        if \<not> list_all present parts then Inl (ValueError ''legacy_provider_identity_missing'')
        else Inr (opaque_ref lib ''provider-item'' (case parts of [v] \<Rightarrow> v | _ \<Rightarrow> JList parts))))"

definition source_priority :: "evidence_context \<Rightarrow> int option" where
  "source_priority ctx = (case ctx_source_priority ctx of JInt n \<Rightarrow> Some n | _ \<Rightarrow> None)"

text \<open>\<open>isinstance(v, (int, float)) and not isinstance(v, bool)\<close>, summed over fields.\<close>

definition is_number :: "json \<Rightarrow> bool" where
  "is_number v = (case v of JInt _ \<Rightarrow> True | JFloat _ \<Rightarrow> True | _ \<Rightarrow> False)"

definition numeric_count :: "dict \<Rightarrow> string list \<Rightarrow> int" where
  "numeric_count item names = int (length (filter (\<lambda>k. is_number (dget item k)) names))"

definition first_truthy :: "json \<Rightarrow> json \<Rightarrow> json" where
  "first_truthy a b = (if truthy a then a else b)"

end
