(* ===== verification/Evidence_Handoff.thy ===== *)
theory Evidence_Handoff
  imports Link_Guards Evidence_Envelope Projection_Worker Operation_Config
begin

text \<open>
  The handoff of ready projections to canonical evidence (\<open>evidence/handoff.py\<close>).  A worker recovers stale claims, discovers ready projections, claims links and settles each claim in one
  transaction: it creates or adopts the content item and the evidence item of the raw record and links the projection to them.

  \<open>_link_one\<close> reads first without locks and repeats every check after it holds them: \<open>d0\<close> is the state of the first reads, \<open>d\<close> the state
  under the locks.  Every write of a link passes the triggers of \<open>Link_Guards\<close> and then the constraints; \<open>fault\<close> stands for a database error
  (its SQLSTATE) that aborts the transaction, such as a lock that is not granted.  \<open>SQLAlchemyError\<close> carries the class, the SQLSTATE or
  the message of a trigger: \<open>IntegrityError\<close> is a violated constraint or unique index, and \<open>MultipleResultsFound\<close> is the only one that is not a \<open>DBAPIError\<close>.
\<close>

abbreviation conflict :: "string \<Rightarrow> 'a res" where "conflict code \<equiv> Inl (HandoffConflict code)"

record EvidenceHandoffReport =
  ehr_claimed :: nat
  ehr_linked :: nat
  ehr_blocked :: nat
  ehr_retried :: nat
  ehr_recovered :: nat

subsection \<open>Content\<close>

definition iso_time :: "pylib \<Rightarrow> json \<Rightarrow> time res" where
  "iso_time lib v =
     (case fromisoformat lib (py_str lib v) of None \<Rightarrow> Inl (ValueError ''isoformat'') | Some (t, _) \<Rightarrow> Inr t)"

text \<open>A JSON value as the text of a column: a number or a list is refused by the driver.\<close>

definition text_column :: "json \<Rightarrow> string option res" where
  "text_column v = (case v of JNull \<Rightarrow> Inr None | JStr s \<Rightarrow> Inr (Some s) | _ \<Rightarrow> Inl (SQLAlchemyError ''DataError''))"

definition content_metadata :: "SafeFactProjection \<Rightarrow> RawItem \<Rightarrow> dict" where
  "content_metadata p raw = [(''provider'', JStr (sfp_provider p)), (''operation_key'', JStr (sfp_operation_key p)),
     (''retention'', JStr (raw_retention_class raw))]"

definition content_language :: "SafeFactProjection \<Rightarrow> json" where
  "content_language p = (if sfp_provider p = ''marketaux'' then dget (sfp_factual_payload p) ''language'' else JNull)"

definition origin_of_content :: "event_db \<Rightarrow> uuid \<Rightarrow> SafeFactProjection option" where
  "origin_of_content d content_id =
     Option.bind (List.find (\<lambda>l. epl_content_item_id l = Some content_id \<and> epl_status l = Link_LINKED \<and> epl_canonical_content l)
       (evidence_projection_links d)) (\<lambda>l. get_projection (base d) (epl_safe_fact_projection_id l))"

definition json_text :: "string option \<Rightarrow> json" where
  "json_text s = (case s of None \<Rightarrow> JNull | Some v \<Rightarrow> JStr v)"

definition validate_existing_content ::
  "pylib \<Rightarrow> event_db \<Rightarrow> ContentItem \<Rightarrow> SafeFactProjection \<Rightarrow> RawItem \<Rightarrow> ContentKind \<Rightarrow> unit res" where
  "validate_existing_content lib d c p raw kind =
     (let origin = (case origin_of_content d (cnt_id c) of None \<Rightarrow> p | Some q \<Rightarrow> q);
          payload = sfp_factual_payload origin;
          url = first_truthy (dget payload ''canonical_url'') (dget payload ''official_url'');
          title = (if sfp_provider origin \<noteq> ''sec_edgar'' then dget payload ''title''
                   else JStr (''SEC '' @ py_str lib (dget payload ''form'') @ '' filing'')) in
      if cnt_source_id c \<noteq> raw_source_id raw \<or> cnt_source_account_id c \<noteq> raw_source_account_id raw \<or> cnt_raw_item_id c \<noteq> raw_id raw
         \<or> cnt_content_kind c \<noteq> kind \<or> json_text (cnt_external_id c) \<noteq> dget payload ''provider_item_id''
         \<or> json_text (cnt_title c) \<noteq> title \<or> json_text (cnt_original_url c) \<noteq> url \<or> json_text (cnt_canonical_url c) \<noteq> url
      then conflict ''evidence_content_policy_invalid''
      else bindR (dindex payload ''published_at'') (\<lambda>stamp.
        bindR (iso_time lib stamp) (\<lambda>published.
        if cnt_source_published_at c \<noteq> Some published \<or> json_text (cnt_language c) \<noteq> content_language origin
           \<or> cnt_body_availability c \<noteq> Body_UNAVAILABLE \<or> cnt_body c \<noteq> None \<or> cnt_source_summary c \<noteq> None \<or> cnt_author c \<noteq> None
           \<or> cnt_content_hash c \<noteq> None \<or> cnt_source_updated_at c \<noteq> None \<or> cnt_reply_to_external_id c \<noteq> None
           \<or> cnt_quote_external_id c \<noteq> None \<or> cnt_repost_external_id c \<noteq> None \<or> cnt_deleted_status c \<noteq> Del_UNKNOWN
           \<or> \<not> py_eq (JObj (cnt_metadata c)) (JObj (content_metadata origin raw))
        then conflict ''evidence_content_policy_invalid'' else Inr ())))"

definition new_content ::
  "pylib \<Rightarrow> uuid \<Rightarrow> time \<Rightarrow> SafeFactProjection \<Rightarrow> RawItem \<Rightarrow> ContentKind \<Rightarrow> string option \<Rightarrow> string option \<Rightarrow> ContentItem res" where
  "new_content lib i now p raw kind title url =
     bindR (dindex (sfp_factual_payload p) ''provider_item_id'') (\<lambda>ext0.
     bindR (dindex (sfp_factual_payload p) ''published_at'') (\<lambda>stamp.
     bindR (iso_time lib stamp) (\<lambda>published.
     bindR (text_column ext0) (\<lambda>ext.
     bindR (text_column (content_language p)) (\<lambda>language.
       Inr \<lparr>cnt_id = i, cnt_raw_item_id = raw_id raw, cnt_source_id = raw_source_id raw, cnt_source_account_id = raw_source_account_id raw,
            cnt_content_kind = kind, cnt_external_id = ext, cnt_title = title, cnt_source_summary = None, cnt_body = None,
            cnt_body_availability = Body_UNAVAILABLE, cnt_author = None, cnt_language = language, cnt_original_url = url,
            cnt_canonical_url = url, cnt_source_published_at = Some published, cnt_source_updated_at = None,
            cnt_first_seen_at = raw_fetched_at raw, cnt_content_hash = None, cnt_reply_to_external_id = None,
            cnt_quote_external_id = None, cnt_repost_external_id = None, cnt_deleted_status = Del_UNKNOWN,
            cnt_metadata = content_metadata p raw, cnt_created_at = now, cnt_updated_at = now\<rparr>)))))"

definition add_content :: "ContentItem \<Rightarrow> event_db \<Rightarrow> (ContentItem option \<times> event_db) res" where
  "add_content c d =
     (let d' = d\<lparr>content_items := content_items d @ [c]\<rparr> in
      if uq_content_items (content_items d') then Inr (Some c, d') else Inl integrity_error)"

definition nonempty_text :: "json \<Rightarrow> bool" where
  "nonempty_text v = (case v of JStr s \<Rightarrow> s \<noteq> [] | _ \<Rightarrow> False)"

definition handoff_content ::
  "pylib \<Rightarrow> (event_db \<Rightarrow> uuid) \<Rightarrow> time \<Rightarrow> SafeFactProjection \<Rightarrow> RawItem \<Rightarrow> event_db \<Rightarrow> (ContentItem option \<times> event_db) res" where
  "handoff_content lib gen now p raw d =
     bindR (factual_operation_policy (sfp_provider p) (sfp_operation_key p) None) (\<lambda>policy.
       let payload = sfp_factual_payload p;
           existing = List.find (\<lambda>c. cnt_raw_item_id c = raw_id raw) (content_items d) in
       if fop_content policy = Some ''article'' then
         case existing of
           Some c \<Rightarrow> bindR (validate_existing_content lib d c p raw Kind_ARTICLE) (\<lambda>_. Inr (Some c, d))
         | None \<Rightarrow>
             (if \<not> list_all (\<lambda>k. nonempty_text (dget payload k)) [''title'', ''canonical_url'', ''source_identity''] then Inr (None, d)
              else bindR (text_column (dget payload ''title'')) (\<lambda>title.
                bindR (text_column (dget payload ''canonical_url'')) (\<lambda>url.
                bindR (new_content lib (gen d) now p raw Kind_ARTICLE title url) (\<lambda>c. add_content c d))))
       else if fop_content policy = Some ''official_release'' then
         case existing of
           Some c \<Rightarrow> bindR (validate_existing_content lib d c p raw Kind_OFFICIAL_RELEASE) (\<lambda>_. Inr (Some c, d))
         | None \<Rightarrow>
             bindR (dindex payload ''form'') (\<lambda>form.
             bindR (dindex payload ''official_url'') (\<lambda>u.
             bindR (text_column u) (\<lambda>url.
             bindR (new_content lib (gen d) now p raw Kind_OFFICIAL_RELEASE (Some (''SEC '' @ py_str lib form @ '' filing'')) url) (\<lambda>c.
               add_content c d))))
       else Inr (None, d))"

subsection \<open>Evidence\<close>

definition content_presence_of :: "dict \<Rightarrow> dict" where
  "content_presence_of payload =
     [(''has_title'', JBool (truthy (dget payload ''title''))), (''has_body'', JBool False),
      (''has_url'', JBool (truthy (first_truthy (dget payload ''canonical_url'') (dget payload ''official_url'')))),
      (''has_snippet'', JBool False), (''has_description'', JBool False)]"

definition numeric_presence_of :: "SafeFactProjection \<Rightarrow> dict" where
  "numeric_presence_of p =
     (let market = (sfp_operation_key p = ''quote''); eia = (sfp_provider p = ''eia'') in
      [(''has_numeric_value'', JBool (market \<or> eia)), (''numeric_field_count'', JInt (if market then 7 else if eia then 1 else 0)),
       (''nullable_allowed'', JBool eia)])"

definition origin_of_evidence :: "event_db \<Rightarrow> uuid \<Rightarrow> (SafeFactProjection \<times> RawItemObservation) option res" where
  "origin_of_evidence d evidence_id =
     (case List.map_filter (\<lambda>l.
        if epl_evidence_item_id l = Some evidence_id \<and> epl_status l = Link_LINKED \<and> epl_canonical_evidence l
        then Option.bind (get_projection (base d) (epl_safe_fact_projection_id l))
               (\<lambda>p. map_option (\<lambda>ob. (p, ob)) (get_observation d (sfp_observation_id p)))
        else None) (evidence_projection_links d) of
        [] \<Rightarrow> Inr None | [x] \<Rightarrow> Inr (Some x) | _ \<Rightarrow> Inl (SQLAlchemyError ''MultipleResultsFound''))"

definition adopt_evidence ::
  "pylib \<Rightarrow> event_db \<Rightarrow> FactualOperationPolicy \<Rightarrow> SafeFactProjection \<Rightarrow> RawItemObservation \<Rightarrow> RawItem \<Rightarrow> ContentItem option \<Rightarrow> EvidenceItem
     \<Rightarrow> unit res" where
  "adopt_evidence lib d policy p ob raw content item =
     bindR (origin_of_evidence d (evi_id item)) (\<lambda>canonical.
       let (q, qob) = (case canonical of None \<Rightarrow> (p, ob) | Some x \<Rightarrow> x); payload = sfp_factual_payload q in
       if sfp_provider q \<noteq> sfp_provider p \<or> sfp_operation_key q \<noteq> sfp_operation_key p
          \<or> \<not> py_eq (dget payload ''provider_item_id'') (dget (sfp_factual_payload p) ''provider_item_id'')
       then conflict ''evidence_canonical_identity_conflict''
       else bindR (dindex payload ''provider_item_id'') (\<lambda>pid.
         let plain = py_str lib pid in
         bindR (case legacy_provider_item_identity lib (sfp_provider p) (sfp_operation_key p) payload of
                  Inr s \<Rightarrow> Inr s | Inl e \<Rightarrow> (if is_ValueError e then Inr plain else Inl e)) (\<lambda>legacy.
         let access = (if evi_provider_item_id item = Some legacy \<and> legacy \<noteq> plain
                          \<and> (sfp_provider p, sfp_operation_key p) \<in> set LEGACY_OPAQUE_IDENTITY_OPERATIONS
                       then ''link_only'' else fop_access policy) in
         if evi_provider_item_type item \<noteq> fop_item_type policy \<or> evi_source_id item \<noteq> raw_source_id raw
            \<or> evi_source_account_id item \<noteq> raw_source_account_id raw \<or> evi_provider_item_id item \<notin> {Some plain, Some legacy}
            \<or> (case content of Some c \<Rightarrow> evi_content_item_id item \<notin> {None, Some (cnt_id c)} | None \<Rightarrow> evi_content_item_id item \<noteq> None)
            \<or> evi_evidence_kind item \<noteq> fop_evidence_kind policy \<or> evi_source_type item \<noteq> fop_source_type policy
            \<or> evi_access_level item \<noteq> access
         then conflict ''evidence_canonical_identity_conflict''
         else bindR (dindex payload ''published_at'') (\<lambda>stamp.
           bindR (iso_time lib stamp) (\<lambda>published.
           if evi_event_time item \<noteq> Some published \<or> evi_observed_at item \<noteq> obs_observed_at qob \<or> evi_processing_status item \<noteq> ''validated''
              \<or> evi_official_source_flag item \<noteq> (sfp_provider p \<in> {''eia'', ''sec_edgar''})
              \<or> evi_market_data_flag item \<noteq> (sfp_operation_key p = ''quote'')
              \<or> evi_disclosure_flag item \<noteq> (sfp_provider p = ''sec_edgar'')
              \<or> evi_news_signal_flag item \<noteq> (fop_evidence_kind policy = ''news'')
              \<or> \<not> py_eq (JObj (evi_content_presence item)) (JObj (content_presence_of payload))
              \<or> \<not> py_eq (JObj (evi_numeric_presence item)) (JObj (numeric_presence_of p))
           then conflict ''evidence_canonical_identity_conflict''
           else Inr ())))))"

definition new_evidence ::
  "uuid \<Rightarrow> time \<Rightarrow> FactualOperationPolicy \<Rightarrow> SafeFactProjection \<Rightarrow> RawItemObservation \<Rightarrow> RawItem \<Rightarrow> ContentItem option \<Rightarrow> string \<Rightarrow> time \<Rightarrow> EvidenceItem" where
  "new_evidence i now policy p ob raw content pid published =
     \<lparr>evi_id = i, evi_evidence_version = 1, evi_provider = sfp_provider p, evi_provider_item_type = fop_item_type policy,
      evi_evidence_kind = fop_evidence_kind policy, evi_source_type = fop_source_type policy, evi_source_id = raw_source_id raw,
      evi_source_account_id = raw_source_account_id raw, evi_raw_item_id = raw_id raw, evi_content_item_id = map_option cnt_id content,
      evi_provider_item_id = Some pid, evi_provider_item_hash = sfp_projection_hash p, evi_event_time = Some published,
      evi_observed_at = obs_observed_at ob, evi_access_level = fop_access policy, evi_processing_status = ''validated'',
      evi_official_source_flag = (sfp_provider p \<in> {''eia'', ''sec_edgar''}), evi_market_data_flag = (sfp_operation_key p = ''quote''),
      evi_disclosure_flag = (sfp_provider p = ''sec_edgar''), evi_news_signal_flag = (fop_evidence_kind policy = ''news''),
      evi_content_presence = content_presence_of (sfp_factual_payload p), evi_numeric_presence = numeric_presence_of p,
      evi_entity_refs = [], evi_asset_refs = [], evi_topic_refs = [],
      evi_raw_payload_reference = Some (''internal://safe-fact-projection/'' @ sfp_id p), evi_errors = [],
      evi_created_at = now, evi_updated_at = now\<rparr>"

definition handoff_evidence ::
  "pylib \<Rightarrow> (event_db \<Rightarrow> uuid) \<Rightarrow> time \<Rightarrow> SafeFactProjection \<Rightarrow> RawItemObservation \<Rightarrow> RawItem \<Rightarrow> ContentItem option \<Rightarrow> event_db
     \<Rightarrow> (EvidenceItem \<times> event_db) res" where
  "handoff_evidence lib gen now p ob raw content d =
     bindR (factual_operation_policy (sfp_provider p) (sfp_operation_key p) None) (\<lambda>policy.
     bindR (dindex (sfp_factual_payload p) ''provider_item_id'') (\<lambda>v.
       let pid = py_str lib v in
       case filter (\<lambda>e. evi_raw_item_id e = raw_id raw \<and> evi_provider e = sfp_provider p) (evidence_items d) of
         item # rest \<Rightarrow>
           (if rest \<noteq> [] then conflict ''evidence_canonical_not_unique''
            else bindR (adopt_evidence lib d policy p ob raw content item) (\<lambda>_. Inr (item, d)))
       | [] \<Rightarrow>
           (if list_ex (\<lambda>e. evi_provider e = sfp_provider p
                  \<and> (evi_provider_item_id e = Some pid \<or> evi_provider_item_hash e = sfp_projection_hash p)) (evidence_items d)
            then conflict ''evidence_canonical_identity_conflict''
            else bindR (dindex (sfp_factual_payload p) ''published_at'') (\<lambda>stamp.
              bindR (iso_time lib stamp) (\<lambda>published.
                add_evidence (new_evidence (gen d) now policy p ob raw content pid published) d)))))"

subsection \<open>Writing a link\<close>

definition links_ok :: "EvidenceProjectionLink list \<Rightarrow> bool" where
  "links_ok ls = (list_all ck_evidence_projection_links ls \<and> uq_evidence_projection_links ls)"

definition update_link :: "pylib \<Rightarrow> EvidenceProjectionLink \<Rightarrow> EvidenceProjectionLink \<Rightarrow> event_db \<Rightarrow> event_db res" where
  "update_link lib old new d =
     bindR (link_triggers lib d (Some old) new) (\<lambda>_.
       let d' = put_projection_link new d in
       if links_ok (evidence_projection_links d') then Inr d' else Inl integrity_error)"

fun update_links ::
  "pylib \<Rightarrow> (EvidenceProjectionLink \<Rightarrow> EvidenceProjectionLink) \<Rightarrow> EvidenceProjectionLink list \<Rightarrow> event_db \<Rightarrow> event_db res" where
  "update_links lib f [] d = Inr d"
| "update_links lib f (l # ls) d = bindR (update_link lib l (f l) d) (update_links lib f ls)"

subsection \<open>Discovery, recovery and claims\<close>

definition pending_link :: "uuid \<Rightarrow> time \<Rightarrow> SafeFactProjection \<Rightarrow> EvidenceProjectionLink" where
  "pending_link i now p =
     \<lparr>epl_id = i, epl_safe_fact_projection_id = sfp_id p, epl_evidence_item_id = None, epl_content_item_id = None,
      epl_status = Link_PENDING, epl_attempt_count = 0, epl_next_retry_at = None, epl_safe_error_code = None, epl_linked_at = None,
      epl_canonical_evidence = False, epl_canonical_content = False, epl_created_at = now, epl_updated_at = now\<rparr>"

definition observed_at_of :: "event_db \<Rightarrow> SafeFactProjection \<Rightarrow> time" where
  "observed_at_of d p = (case get_observation d (sfp_observation_id p) of None \<Rightarrow> 0 | Some ob \<Rightarrow> obs_observed_at ob)"

definition ready_unlinked :: "nat \<Rightarrow> event_db \<Rightarrow> SafeFactProjection list" where
  "ready_unlinked limit d =
     take limit (sort_key (\<lambda>p. (observed_at_of d p, sfp_id p))
       (filter (\<lambda>p. sfp_processing_status p = Proj_READY \<and> get_observation d (sfp_observation_id p) \<noteq> None
                   \<and> \<not> list_ex (\<lambda>l. epl_safe_fact_projection_id l = sfp_id p) (evidence_projection_links d)) (safe_fact_projections d)))"

fun insert_links :: "pylib \<Rightarrow> (event_db \<Rightarrow> uuid) \<Rightarrow> time \<Rightarrow> SafeFactProjection list \<Rightarrow> event_db \<Rightarrow> event_db res" where
  "insert_links lib gen now [] d = Inr d"
| "insert_links lib gen now (p # ps) d =
     (let l = pending_link (gen d) now p in
      bindR (link_triggers lib d None l) (\<lambda>_.
        if list_ex (\<lambda>l. epl_safe_fact_projection_id l = sfp_id p) (evidence_projection_links d) then insert_links lib gen now ps d
        else let d' = d\<lparr>evidence_projection_links := evidence_projection_links d @ [l]\<rparr> in
          if links_ok (evidence_projection_links d') then insert_links lib gen now ps d' else Inl integrity_error))"

definition discover_ready :: "pylib \<Rightarrow> (event_db \<Rightarrow> uuid) \<Rightarrow> time \<Rightarrow> nat \<Rightarrow> event_db \<Rightarrow> event_db res" where
  "discover_ready lib gen now limit d = insert_links lib gen now (ready_unlinked limit d) d"

definition recover_link :: "int \<Rightarrow> time \<Rightarrow> EvidenceProjectionLink \<Rightarrow> EvidenceProjectionLink" where
  "recover_link max_attempts now row =
     (if epl_attempt_count row \<ge> max_attempts
      then row\<lparr>epl_status := Link_BLOCKED, epl_safe_error_code := Some ''evidence_handoff_retry_exhausted'', epl_next_retry_at := None,
               epl_updated_at := now\<rparr>
      else row\<lparr>epl_status := Link_RETRY, epl_safe_error_code := Some ''evidence_handoff_stale'', epl_next_retry_at := Some now,
               epl_updated_at := now\<rparr>)"

definition stale_links :: "(uuid \<Rightarrow> bool) \<Rightarrow> time \<Rightarrow> time \<Rightarrow> nat \<Rightarrow> event_db \<Rightarrow> EvidenceProjectionLink list" where
  "stale_links locked stale_after now limit d =
     take limit (sort_key (\<lambda>l. (epl_updated_at l, epl_id l))
       (filter (\<lambda>l. epl_status l = Link_PROCESSING \<and> epl_updated_at l < now - stale_after \<and> \<not> locked (epl_id l))
         (evidence_projection_links d)))"

definition handoff_recover_stale ::
  "pylib \<Rightarrow> (uuid \<Rightarrow> bool) \<Rightarrow> int \<Rightarrow> time \<Rightarrow> time \<Rightarrow> nat \<Rightarrow> event_db \<Rightarrow> (nat \<times> event_db) res" where
  "handoff_recover_stale lib locked max_attempts stale_after now limit d =
     (let rows = stale_links locked stale_after now limit d in
      bindR (update_links lib (recover_link max_attempts now) rows d) (\<lambda>d'. Inr (length rows, d')))"

definition due_link :: "event_db \<Rightarrow> time \<Rightarrow> EvidenceProjectionLink \<Rightarrow> bool" where
  "due_link d now l =
     ((case get_projection (base d) (epl_safe_fact_projection_id l) of
         None \<Rightarrow> False
       | Some p \<Rightarrow> sfp_processing_status p = Proj_READY \<and> get_observation d (sfp_observation_id p) \<noteq> None)
      \<and> epl_status l \<in> {Link_PENDING, Link_RETRY} \<and> (case epl_next_retry_at l of None \<Rightarrow> True | Some t \<Rightarrow> t \<le> now))"

definition link_order :: "event_db \<Rightarrow> EvidenceProjectionLink \<Rightarrow> time \<times> uuid \<times> uuid" where
  "link_order d l =
     (case get_projection (base d) (epl_safe_fact_projection_id l) of
        None \<Rightarrow> (0, [], epl_id l) | Some p \<Rightarrow> (observed_at_of d p, sfp_id p, epl_id l))"

definition claim_link :: "time \<Rightarrow> EvidenceProjectionLink \<Rightarrow> EvidenceProjectionLink" where
  "claim_link now row =
     row\<lparr>epl_status := Link_PROCESSING, epl_attempt_count := epl_attempt_count row + 1, epl_safe_error_code := None,
         epl_next_retry_at := None, epl_updated_at := now\<rparr>"

definition links_to_claim :: "(uuid \<Rightarrow> bool) \<Rightarrow> nat \<Rightarrow> time \<Rightarrow> event_db \<Rightarrow> EvidenceProjectionLink list" where
  "links_to_claim locked limit now d =
     take limit (sort_key (link_order d) (filter (\<lambda>l. due_link d now l \<and> \<not> locked (epl_id l)) (evidence_projection_links d)))"

definition handoff_claim :: "pylib \<Rightarrow> (uuid \<Rightarrow> bool) \<Rightarrow> nat \<Rightarrow> time \<Rightarrow> event_db \<Rightarrow> (uuid list \<times> event_db) res" where
  "handoff_claim lib locked limit now d =
     (let rows = links_to_claim locked limit now d in
      bindR (update_links lib (claim_link now) rows d) (\<lambda>d'. Inr (map epl_id rows, d')))"

subsection \<open>Settling a claim\<close>

definition check_projection :: "pylib \<Rightarrow> SafeFactProjection \<Rightarrow> SafeProjectionQualityStatus res" where
  "check_projection lib p =
     bindR (normalize_and_classify lib (sfp_provider p) (sfp_operation_key p) (sfp_projection_schema_version p) (sfp_factual_payload p))
       (\<lambda>(normalized, quality).
       if \<not> py_eq (JObj normalized) (JObj (sfp_factual_payload p)) then contract_error ''projection_not_canonical''
       else bindR (canonical_projection_hash lib normalized) (\<lambda>h.
         if h \<noteq> sfp_projection_hash p then contract_error ''projection_hash_mismatch'' else Inr quality))"

definition contract_conflict :: "(exn \<Rightarrow> bool) \<Rightarrow> 'a res \<Rightarrow> 'a res" where
  "contract_conflict caught r =
     (case r of Inl e \<Rightarrow> (if caught e then conflict ''evidence_projection_contract_invalid'' else Inl e) | Inr x \<Rightarrow> Inr x)"

fun is_ProjectionContractError :: "exn \<Rightarrow> bool" where
  "is_ProjectionContractError (ProjectionContractError _) = True"
| "is_ProjectionContractError _ = False"

text \<open>The reads and checks before the locks; \<open>None\<close> when the link is gone or no longer claimed.\<close>

definition first_look :: "pylib \<Rightarrow> uuid \<Rightarrow> event_db \<Rightarrow> (SafeFactProjection \<times> RawItem \<times> RawItemObservation) option res" where
  "first_look lib identity d0 =
     (case get_link d0 identity of
        None \<Rightarrow> Inr None
      | Some link \<Rightarrow>
          if epl_status link \<noteq> Link_PROCESSING then Inr None
          else case get_projection (base d0) (epl_safe_fact_projection_id link) of
            None \<Rightarrow> conflict ''evidence_projection_not_ready''
          | Some p \<Rightarrow>
              if sfp_processing_status p \<noteq> Proj_READY then conflict ''evidence_projection_not_ready''
              else bindR (contract_conflict is_ProjectionContractError (check_projection lib p)) (\<lambda>_.
                case (get_raw d0 (sfp_raw_item_id p), get_observation d0 (sfp_observation_id p)) of
                  (Some raw, Some ob) \<Rightarrow> Inr (Some (p, raw, ob))
                | _ \<Rightarrow> conflict ''evidence_projection_provenance_missing''))"

definition locked_policy :: "pylib \<Rightarrow> SafeFactProjection \<Rightarrow> RawItemObservation \<Rightarrow> FactualOperationPolicy res" where
  "locked_policy lib p ob =
     contract_conflict is_ValueError (bindR (check_projection lib p) (\<lambda>quality.
       if quality \<noteq> sfp_quality_status p then contract_error ''projection_quality_mismatch''
       else factual_operation_policy (sfp_provider p) (sfp_operation_key p) (Some (obs_provider_contract_version ob))))"

definition provenance_ok ::
  "FactualOperationPolicy \<Rightarrow> SafeFactProjection \<Rightarrow> RawItem \<Rightarrow> RawItemObservation \<Rightarrow> Source option \<Rightarrow> CollectionRun option \<Rightarrow> SourceAccount option
     \<Rightarrow> CollectionTarget option \<Rightarrow> bool" where
  "provenance_ok policy p raw ob source run account target =
     ((case run of None \<Rightarrow> False
       | Some run \<Rightarrow> obs_collection_run_id ob = run_id run \<and> run_source_id run = raw_source_id raw
           \<and> run_source_account_id run = raw_source_account_id raw \<and> run_target_id run = obs_target_id ob)
      \<and> (case source of None \<Rightarrow> False
         | Some s \<Rightarrow> src_id s = raw_source_id raw \<and> src_access_method s = sfp_provider p \<and> src_retention_class s = raw_retention_class raw)
      \<and> sfp_raw_item_id p = raw_id raw \<and> obs_raw_item_id ob = raw_id raw \<and> obs_provider ob = sfp_provider p
      \<and> obs_operation_key ob = sfp_operation_key p \<and> obs_projection_hash ob = sfp_projection_hash p
      \<and> obs_source_id ob = raw_source_id raw \<and> obs_source_account_id ob = raw_source_account_id raw
      \<and> (raw_source_account_id raw \<noteq> None \<longrightarrow> account \<noteq> None)
      \<and> (case account of None \<Rightarrow> True | Some a \<Rightarrow> acc_source_id a = raw_source_id raw)
      \<and> (case target of None \<Rightarrow> obs_target_id ob = None
         | Some t \<Rightarrow> tgt_source_id t = raw_source_id raw \<and> tgt_source_account_id t = raw_source_account_id raw
             \<and> tgt_operation_key t = sfp_operation_key p)
      \<and> raw_retention_class raw \<in> fop_retention policy)"

definition linked_link :: "event_db \<Rightarrow> time \<Rightarrow> EvidenceItem \<Rightarrow> ContentItem option \<Rightarrow> EvidenceProjectionLink \<Rightarrow> EvidenceProjectionLink" where
  "linked_link d now evidence content link =
     link\<lparr>epl_evidence_item_id := Some (evi_id evidence), epl_content_item_id := map_option cnt_id content,
          epl_canonical_evidence := \<not> linked_to_evidence d (Some (evi_id evidence)),
          epl_canonical_content := (content \<noteq> None \<and> \<not> linked_to_content d (map_option cnt_id content)),
          epl_status := Link_LINKED, epl_linked_at := Some now, epl_safe_error_code := None, epl_next_retry_at := None,
          epl_updated_at := now\<rparr>"

definition complete_link ::
  "pylib \<Rightarrow> (event_db \<Rightarrow> uuid) \<Rightarrow> time \<Rightarrow> EvidenceProjectionLink \<Rightarrow> SafeFactProjection \<Rightarrow> RawItemObservation \<Rightarrow> RawItem \<Rightarrow> event_db \<Rightarrow> event_db res" where
  "complete_link lib gen now link p ob raw d =
     bindR (handoff_content lib gen now p raw d) (\<lambda>(content, d1).
     bindR (handoff_evidence lib gen now p ob raw content d1) (\<lambda>(evidence, d2).
       update_link lib link (linked_link d2 now evidence content link) d2))"

definition link_locked ::
  "pylib \<Rightarrow> (event_db \<Rightarrow> uuid) \<Rightarrow> time \<Rightarrow> uuid \<Rightarrow> SafeFactProjection \<times> RawItem \<times> RawItemObservation \<Rightarrow> event_db \<Rightarrow> event_db res" where
  "link_locked lib gen now identity seen d =
     (let (p0, raw0, ob0) = seen;
          source = get_source (base d) (raw_source_id raw0);
          run = get_run (base d) (obs_collection_run_id ob0);
          account = Option.bind (raw_source_account_id raw0) (get_account (base d));
          target = Option.bind (obs_target_id ob0) (get_target (base d)) in
      case (get_raw d (raw_id raw0), get_projection (base d) (sfp_id p0), get_observation d (obs_id ob0), get_link d identity) of
        (Some raw, Some p, Some ob, Some link) \<Rightarrow>
          if epl_status link \<noteq> Link_PROCESSING then conflict ''evidence_projection_concurrent_change''
          else bindR (locked_policy lib p ob) (\<lambda>policy.
            if \<not> provenance_ok policy p raw ob source run account target then conflict ''evidence_projection_provenance_invalid''
            else complete_link lib gen now link p ob raw d)
      | _ \<Rightarrow> conflict ''evidence_projection_concurrent_change'')"

definition link_transaction ::
  "pylib \<Rightarrow> (event_db \<Rightarrow> uuid) \<Rightarrow> time \<Rightarrow> uuid \<Rightarrow> event_db \<Rightarrow> event_db \<Rightarrow> event_db option res" where
  "link_transaction lib gen now identity d0 d =
     bindR (first_look lib identity d0) (\<lambda>seen.
       case seen of None \<Rightarrow> Inr None | Some s \<Rightarrow> bindR (link_locked lib gen now identity s d) (\<lambda>d'. Inr (Some d')))"

definition terminal :: "pylib \<Rightarrow> uuid \<Rightarrow> string \<Rightarrow> time \<Rightarrow> event_db \<Rightarrow> event_db res" where
  "terminal lib identity code now d =
     (case get_link d identity of
        None \<Rightarrow> Inr d
      | Some row \<Rightarrow>
          if epl_status row \<noteq> Link_PROCESSING then Inr d
          else update_link lib row (row\<lparr>epl_status := Link_BLOCKED, epl_safe_error_code := Some code, epl_next_retry_at := None,
                                        epl_updated_at := now\<rparr>) d)"

definition retry_link :: "int \<Rightarrow> time \<Rightarrow> string \<Rightarrow> time \<Rightarrow> EvidenceProjectionLink \<Rightarrow> EvidenceProjectionLink" where
  "retry_link max_attempts retry_delay code now row =
     (if epl_attempt_count row \<ge> max_attempts
      then row\<lparr>epl_status := Link_BLOCKED, epl_safe_error_code := Some ''evidence_handoff_retry_exhausted'', epl_next_retry_at := None,
               epl_updated_at := now\<rparr>
      else row\<lparr>epl_status := Link_RETRY, epl_safe_error_code := Some code, epl_next_retry_at := Some (now + retry_delay),
               epl_updated_at := now\<rparr>)"

definition handoff_retry :: "pylib \<Rightarrow> int \<Rightarrow> time \<Rightarrow> uuid \<Rightarrow> string \<Rightarrow> time \<Rightarrow> event_db \<Rightarrow> (string \<times> event_db) res" where
  "handoff_retry lib max_attempts retry_delay identity code now d =
     (case get_link d identity of
        None \<Rightarrow> Inr (''blocked'', d)
      | Some row \<Rightarrow>
          if epl_status row \<noteq> Link_PROCESSING then Inr (''blocked'', d)
          else bindR (update_link lib row (retry_link max_attempts retry_delay code now row) d) (\<lambda>d'.
            Inr (if epl_attempt_count row \<ge> max_attempts then ''blocked'' else ''retry'', d')))"

definition is_retryable_database_concurrency :: "string \<Rightarrow> bool" where
  "is_retryable_database_concurrency sqlstate = (sqlstate \<in> {''40P01'', ''40001'', ''55P03'', ''57014''})"

definition database_error_code :: "string \<Rightarrow> string" where
  "database_error_code s =
     (if s = ''IntegrityError'' then ''evidence_handoff_integrity_conflict''
      else if is_retryable_database_concurrency s then ''evidence_handoff_concurrent_write''
      else ''evidence_handoff_database_error'')"

definition link_one ::
  "pylib \<Rightarrow> int \<Rightarrow> time \<Rightarrow> (event_db \<Rightarrow> uuid) \<Rightarrow> string option \<Rightarrow> time \<Rightarrow> uuid \<Rightarrow> event_db \<Rightarrow> event_db \<Rightarrow> (string \<times> event_db) res" where
  "link_one lib max_attempts retry_delay gen fault now identity d0 d =
     (case (case fault of Some s \<Rightarrow> Inl (SQLAlchemyError s) | None \<Rightarrow> link_transaction lib gen now identity d0 d) of
        Inr None \<Rightarrow> Inr (''blocked'', d)
      | Inr (Some d') \<Rightarrow> Inr (''linked'', d')
      | Inl (HandoffConflict code) \<Rightarrow> bindR (terminal lib identity code now d) (\<lambda>d'. Inr (''blocked'', d'))
      | Inl (SQLAlchemyError s) \<Rightarrow>
          (if s = ''MultipleResultsFound'' then Inl (SQLAlchemyError s)
           else handoff_retry lib max_attempts retry_delay identity (database_error_code s) now d)
      | Inl e \<Rightarrow> Inl e)"

text \<open>One round of the loop of \<open>process_batch\<close>: any exception of \<open>_link_one\<close> is turned into a retry.\<close>

definition settle_one ::
  "pylib \<Rightarrow> int \<Rightarrow> time \<Rightarrow> (event_db \<Rightarrow> uuid) \<Rightarrow> (uuid \<Rightarrow> string option) \<Rightarrow> time \<Rightarrow> uuid \<Rightarrow> event_db \<Rightarrow> (string \<times> event_db) res" where
  "settle_one lib max_attempts retry_delay gen faults now identity d =
     (case link_one lib max_attempts retry_delay gen (faults identity) now identity d d of
        Inr r \<Rightarrow> Inr r
      | Inl _ \<Rightarrow> handoff_retry lib max_attempts retry_delay identity ''evidence_handoff_unexpected'' now d)"

fun settle_all ::
  "pylib \<Rightarrow> int \<Rightarrow> time \<Rightarrow> (event_db \<Rightarrow> uuid) \<Rightarrow> (uuid \<Rightarrow> string option) \<Rightarrow> time \<Rightarrow> uuid list \<Rightarrow> event_db \<Rightarrow> string list res \<times> event_db" where
  "settle_all lib m delay gen faults now [] d = (Inr [], d)"
| "settle_all lib m delay gen faults now (i # ids) d =
     (case settle_one lib m delay gen faults now i d of
        Inl e \<Rightarrow> (Inl e, d)
      | Inr (result, d1) \<Rightarrow>
          (let (rs, d2) = settle_all lib m delay gen faults now ids d1 in (bindR rs (\<lambda>rs. Inr (result # rs)), d2)))"

definition handoff_process_batch ::
  "pylib \<Rightarrow> (uuid \<Rightarrow> bool) \<Rightarrow> int \<Rightarrow> time \<Rightarrow> time \<Rightarrow> (event_db \<Rightarrow> uuid) \<Rightarrow> (uuid \<Rightarrow> string option) \<Rightarrow> time \<Rightarrow> int \<Rightarrow> event_db
     \<Rightarrow> EvidenceHandoffReport res \<times> event_db" where
  "handoff_process_batch lib locked max_attempts stale_after retry_delay gen faults now limit d =
     (if \<not> (1 \<le> limit \<and> limit \<le> 500) then (Inl (ValueError ''evidence_handoff_limit_invalid''), d)
      else case handoff_recover_stale lib locked max_attempts stale_after now (nat limit) d of
        Inl e \<Rightarrow> (Inl e, d)
      | Inr (recovered, d1) \<Rightarrow>
          (case discover_ready lib gen now (nat limit) d1 of
             Inl e \<Rightarrow> (Inl e, d1)
           | Inr d2 \<Rightarrow>
               (case handoff_claim lib locked (nat limit) now d2 of
                  Inl e \<Rightarrow> (Inl e, d2)
                | Inr (claimed, d3) \<Rightarrow>
                    let (results, d4) = settle_all lib max_attempts retry_delay gen faults now claimed d3 in
                    (bindR results (\<lambda>rs. Inr \<lparr>ehr_claimed = length claimed, ehr_linked = count_list rs ''linked'',
                       ehr_blocked = count_list rs ''blocked'', ehr_retried = count_list rs ''retry'', ehr_recovered = recovered\<rparr>), d4))))"

end
