(* ===== verification/Link_Lifecycle.thy ===== *)
theory Link_Lifecycle
  imports Evidence_Handoff
begin

text \<open>
  The evidence handoff as a state machine: every transaction of \<open>evidence/handoff.py\<close> is a step, interleaved with the writes of all other
  code, which the immutability triggers restrict.  The invariant of the link table and the permanence of a linked association follow,
  and the batch loop settles what it claims.
\<close>

subsection \<open>Steps\<close>

text \<open>A write of other code: it leaves the links alone, and each changed or deleted row has passed its trigger.\<close>

definition passes :: "(uuid \<Rightarrow> 'r option) \<Rightarrow> (uuid \<Rightarrow> 'r option) \<Rightarrow> ('r \<Rightarrow> 'r option \<Rightarrow> unit res) \<Rightarrow> bool" where
  "passes before after guard \<longleftrightarrow> (\<forall>i r. before i = Some r \<longrightarrow> after i \<noteq> Some r \<longrightarrow> guard r (after i) = Inr ())"

definition external_write :: "event_db \<Rightarrow> event_db \<Rightarrow> bool" where
  "external_write d d' \<longleftrightarrow>
     evidence_projection_links d' = evidence_projection_links d
     \<and> passes (get_projection (base d)) (get_projection (base d')) (m2b_linked_projection_immutable_guard d)
     \<and> passes (\<lambda>i. evidence_row d (Some i)) (\<lambda>i. evidence_row d' (Some i)) (m2b_linked_evidence_row_immutable_guard d)
     \<and> passes (\<lambda>i. content_row d (Some i)) (\<lambda>i. content_row d' (Some i)) (m2b_linked_content_row_immutable_guard d)
     \<and> passes (get_observation d) (get_observation d') (m2b_linked_observation_immutable_guard d)
     \<and> passes (get_raw d) (get_raw d') (m2b_linked_raw_item_immutable_guard d)
     \<and> passes (get_source (base d)) (get_source (base d'))
         (\<lambda>s s'. case s' of None \<Rightarrow> Inr () | Some s' \<Rightarrow> m2b_linked_source_retention_guard d s s')"

text \<open>Nothing writes the projection column of a link, so both reads of \<open>_link_one\<close> see the same association.\<close>

definition same_association :: "uuid \<Rightarrow> event_db \<Rightarrow> event_db \<Rightarrow> bool" where
  "same_association i d0 d \<longleftrightarrow>
     (\<forall>l0 l. get_link d0 i = Some l0 \<longrightarrow> get_link d i = Some l \<longrightarrow> epl_safe_fact_projection_id l = epl_safe_fact_projection_id l0)"

inductive handoff_step :: "pylib \<Rightarrow> int \<Rightarrow> event_db \<Rightarrow> event_db \<Rightarrow> bool" for lib :: pylib and m :: int where
  step_recover: "handoff_recover_stale lib locked m stale now limit d = Inr (n, d') \<Longrightarrow> handoff_step lib m d d'"
| step_discover: "discover_ready lib gen now limit d = Inr d' \<Longrightarrow> handoff_step lib m d d'"
| step_claim: "handoff_claim lib locked limit now d = Inr (ids, d') \<Longrightarrow> handoff_step lib m d d'"
| step_link: "same_association i d0 d \<Longrightarrow> link_transaction lib gen now i d0 d = Inr (Some d') \<Longrightarrow> handoff_step lib m d d'"
| step_terminal: "terminal lib i code now d = Inr d' \<Longrightarrow> handoff_step lib m d d'"
| step_retry: "handoff_retry lib m delay i code now d = Inr (r, d') \<Longrightarrow> handoff_step lib m d d'"
| step_external: "external_write d d' \<Longrightarrow> handoff_step lib m d d'"

subsection \<open>Invariant\<close>

fun link_attempts_ok :: "int \<Rightarrow> EvidenceProjectionLinkStatus \<Rightarrow> int \<Rightarrow> bool" where
  "link_attempts_ok m Link_PENDING n = (n = 0)"
| "link_attempts_ok m Link_RETRY n = (1 \<le> n \<and> n < m)"
| "link_attempts_ok m _ n = (1 \<le> n \<and> n \<le> m)"

text \<open>The evidence of a linked row is that of the raw record of its ready projection.\<close>

definition grounded :: "event_db \<Rightarrow> EvidenceProjectionLink \<Rightarrow> bool" where
  "grounded d l \<longleftrightarrow>
     (\<exists>p e. get_projection (base d) (epl_safe_fact_projection_id l) = Some p \<and> sfp_processing_status p = Proj_READY
        \<and> evidence_row d (epl_evidence_item_id l) = Some e
        \<and> evi_raw_item_id e = sfp_raw_item_id p \<and> evi_provider e = sfp_provider p)"

definition linked_links :: "event_db \<Rightarrow> EvidenceProjectionLink set" where
  "linked_links d = {l \<in> set (evidence_projection_links d). epl_status l = Link_LINKED}"

definition has_canonical :: "event_db \<Rightarrow> bool" where
  "has_canonical d \<longleftrightarrow>
     (\<forall>l\<in>linked_links d. \<exists>c\<in>linked_links d. epl_canonical_evidence c \<and> epl_evidence_item_id c = epl_evidence_item_id l)"

definition one_evidence :: "event_db \<Rightarrow> bool" where
  "one_evidence d \<longleftrightarrow>
     (\<forall>l\<in>linked_links d. \<forall>l'\<in>linked_links d. \<forall>p p'.
        get_projection (base d) (epl_safe_fact_projection_id l) = Some p \<longrightarrow>
        get_projection (base d) (epl_safe_fact_projection_id l') = Some p' \<longrightarrow>
        sfp_raw_item_id p = sfp_raw_item_id p' \<longrightarrow> sfp_provider p = sfp_provider p' \<longrightarrow>
        epl_evidence_item_id l = epl_evidence_item_id l')"

definition links_inv :: "int \<Rightarrow> event_db \<Rightarrow> bool" where
  "links_inv m d \<longleftrightarrow>
     links_ok (evidence_projection_links d)
     \<and> (\<forall>l\<in>set (evidence_projection_links d). link_attempts_ok m (epl_status l) (epl_attempt_count l))
     \<and> (\<forall>l\<in>linked_links d. grounded d l) \<and> has_canonical d \<and> one_evidence d"

definition links_init :: "event_db \<Rightarrow> bool" where
  "links_init d \<longleftrightarrow> evidence_projection_links d = []"

lemma base_projection [simp]: "safe_fact_projections (base d) = safe_fact_projections d"
  by (simp add: db.defs)

lemma get_link_in: "get_link d i = Some l \<Longrightarrow> l \<in> set (evidence_projection_links d) \<and> epl_id l = i"
  by (auto simp: get_link_def dest: find_Some_in)

lemma evidence_row_in: "evidence_row d i = Some e \<Longrightarrow> e \<in> set (evidence_items d) \<and> i = Some (evi_id e)"
  by (auto simp: evidence_row_def bind_eq_Some_conv dest: find_Some_in)

lemma projection_base: "safe_fact_projections d' = safe_fact_projections d \<Longrightarrow> get_projection (base d') i = get_projection (base d) i"
  by (simp add: get_projection_def)

text \<open>The state outside the links and the evidence only matters through the projections, and evidence may be added.\<close>

lemma grounded_mono:
  assumes "grounded d l" and "safe_fact_projections d' = safe_fact_projections d"
    and "\<And>e. evidence_row d (epl_evidence_item_id l) = Some e \<Longrightarrow> evidence_row d' (epl_evidence_item_id l) = Some e"
  shows "grounded d' l"
  using assms(1,3) unfolding grounded_def projection_base [OF assms(2)] by blast

lemma links_inv_frame:
  assumes "links_inv m d" and "evidence_projection_links d' = evidence_projection_links d"
    and "safe_fact_projections d' = safe_fact_projections d"
    and "\<And>i e. evidence_row d i = Some e \<Longrightarrow> evidence_row d' i = Some e"
  shows "links_inv m d'"
proof -
  have "linked_links d' = linked_links d" by (simp add: linked_links_def assms(2))
  moreover have "\<forall>l\<in>linked_links d. grounded d' l"
    using assms(1) grounded_mono [OF _ assms(3,4)] unfolding links_inv_def by blast
  moreover have "has_canonical d' = has_canonical d" and "one_evidence d' = one_evidence d"
    using calculation(1) by (simp_all add: has_canonical_def one_evidence_def projection_base [OF assms(3)])
  ultimately show ?thesis
    using assms(1) unfolding links_inv_def assms(2) by simp
qed

subsection \<open>Replacing a link that is not linked\<close>

lemma put_link_members:
  assumes "old \<in> set (evidence_projection_links d)" and "epl_id new = epl_id old"
  shows "l \<in> set (evidence_projection_links (put_projection_link new d)) \<longleftrightarrow>
     l = new \<or> (l \<in> set (evidence_projection_links d) \<and> epl_id l \<noteq> epl_id old)"
  using assms by (auto simp: put_projection_link_def in_update_where)

lemma links_ids: "links_inv m d \<Longrightarrow> distinct (map epl_id (evidence_projection_links d))"
  by (simp add: links_inv_def links_ok_def uq_evidence_projection_links_def)

lemma same_link:
  assumes "links_inv m d" and "l \<in> set (evidence_projection_links d)" and "l' \<in> set (evidence_projection_links d)" and "epl_id l = epl_id l'"
  shows "l = l'"
  using links_ids [OF assms(1)] assms(2-4) by (auto simp: distinct_map dest: inj_onD)

lemma linked_after_put:
  assumes "links_inv m d" and "old \<in> set (evidence_projection_links d)" and "epl_id new = epl_id old" and "epl_status old \<noteq> Link_LINKED"
  shows "linked_links (put_projection_link new d) = (if epl_status new = Link_LINKED then insert new (linked_links d) else linked_links d)"
  using assms same_link [OF assms(1) _ assms(2)] put_link_members [OF assms(2,3)] by (auto simp: linked_links_def)

lemma put_link_frame [simp]:
  "safe_fact_projections (put_projection_link l d) = safe_fact_projections d"
  "evidence_row (put_projection_link l d) = evidence_row d"
  "get_projection (base (put_projection_link l d)) = get_projection (base d)"
  by (simp_all add: put_projection_link_def evidence_row_def get_projection_def fun_eq_iff)

lemma grounded_put [simp]: "grounded (put_projection_link l d) = grounded d"
  by (simp add: grounded_def fun_eq_iff)

lemma attempts_after_put:
  assumes "links_inv m d" and "old \<in> set (evidence_projection_links d)" and "epl_id new = epl_id old"
    and "link_attempts_ok m (epl_status new) (epl_attempt_count new)"
  shows "\<forall>l\<in>set (evidence_projection_links (put_projection_link new d)). link_attempts_ok m (epl_status l) (epl_attempt_count l)"
  using assms put_link_members [OF assms(2,3)] by (auto simp: links_inv_def)

text \<open>A row rewrite as the worker does it: the row leaves and enters states other than linked.\<close>

definition open_rewrite :: "int \<Rightarrow> EvidenceProjectionLink \<Rightarrow> EvidenceProjectionLink \<Rightarrow> bool" where
  "open_rewrite m old new \<longleftrightarrow>
     epl_id new = epl_id old \<and> epl_status old \<noteq> Link_LINKED \<and> epl_status new \<noteq> Link_LINKED
     \<and> (link_attempts_ok m (epl_status old) (epl_attempt_count old) \<longrightarrow> link_attempts_ok m (epl_status new) (epl_attempt_count new))"

lemma update_link_Inr:
  "update_link lib old new d = Inr d' \<longleftrightarrow>
     link_triggers lib d (Some old) new = Inr () \<and> links_ok (evidence_projection_links (put_projection_link new d))
     \<and> d' = put_projection_link new d"
  by (auto simp: update_link_def bindR_Inr_iff Let_def split: if_splits)

lemma update_link_inv:
  assumes "links_inv m d" and "old \<in> set (evidence_projection_links d)" and "open_rewrite m old new" and "update_link lib old new d = Inr d'"
  shows "links_inv m d'"
proof -
  have d': "d' = put_projection_link new d" and ok: "links_ok (evidence_projection_links d')"
    using assms(4) by (auto simp: update_link_Inr)
  have id: "epl_id new = epl_id old" and "epl_status old \<noteq> Link_LINKED" "epl_status new \<noteq> Link_LINKED"
    using assms(3) by (auto simp: open_rewrite_def)
  then have "linked_links d' = linked_links d" using linked_after_put [OF assms(1,2) id] by (simp add: d')
  moreover have "link_attempts_ok m (epl_status new) (epl_attempt_count new)"
    using assms(1-3) by (auto simp: open_rewrite_def links_inv_def)
  from attempts_after_put [OF assms(1,2) id this]
  have "\<forall>l\<in>set (evidence_projection_links d'). link_attempts_ok m (epl_status l) (epl_attempt_count l)" by (simp add: d')
  moreover have "has_canonical d' = has_canonical d" and "one_evidence d' = one_evidence d"
    using calculation(1) by (simp_all add: has_canonical_def one_evidence_def d')
  moreover have "grounded d' = grounded d" by (simp add: d')
  ultimately show ?thesis using assms(1) ok unfolding links_inv_def by simp
qed

lemma row_rewrites:
  "epl_status l = Link_PROCESSING \<Longrightarrow> open_rewrite m l (recover_link m now l)"
  "epl_status l = Link_PROCESSING \<Longrightarrow> open_rewrite m l (retry_link m delay code now l)"
  "epl_status l = Link_PROCESSING \<Longrightarrow>
     open_rewrite m l (l\<lparr>epl_status := Link_BLOCKED, epl_safe_error_code := c, epl_next_retry_at := t, epl_updated_at := now\<rparr>)"
  "1 \<le> m \<Longrightarrow> epl_status l \<in> {Link_PENDING, Link_RETRY} \<Longrightarrow> open_rewrite m l (claim_link now l)"
  by (auto simp: open_rewrite_def recover_link_def retry_link_def claim_link_def)

text \<open>A batch of rewrites: the rows are distinct rows of the table.\<close>

lemma update_links_induct [consumes 4, case_names step]:
  assumes "update_links lib f rows d = Inr d'" and "set rows \<subseteq> set (evidence_projection_links d)" and "distinct (map epl_id rows)" and "P d"
    and "\<And>l d d1. l \<in> set rows \<Longrightarrow> l \<in> set (evidence_projection_links d) \<Longrightarrow> P d \<Longrightarrow> update_link lib l (f l) d = Inr d1 \<Longrightarrow> P d1"
    and ids: "\<And>l. epl_id (f l) = epl_id l"
  shows "P d'"
  using assms(1-5)
proof (induction rows arbitrary: d)
  case (Cons l rows)
  obtain d1 where d1: "update_link lib l (f l) d = Inr d1" "update_links lib f rows d1 = Inr d'"
    using Cons.prems(1) by (auto simp: bindR_Inr_iff)
  have l: "l \<in> set (evidence_projection_links d)" using Cons.prems(2) by simp
  have "set rows \<subseteq> set (evidence_projection_links d1)"
  proof
    fix x assume x: "x \<in> set rows"
    then have "x \<in> set (evidence_projection_links d)" "epl_id x \<noteq> epl_id l" using Cons.prems(2,3) by (auto simp: image_iff)
    then show "x \<in> set (evidence_projection_links d1)"
      using d1(1) put_link_members [OF l ids, of x] by (simp add: update_link_Inr)
  qed
  moreover have "P d1" using Cons.prems(4,5) l d1(1) by (meson list.set_intros(1))
  moreover have "distinct (map epl_id rows)" using Cons.prems(3) by simp
  ultimately show ?case
    using d1(2) Cons.prems(5) by (intro Cons.IH [of d1]) (meson list.set_intros(2))+
qed simp

lemma distinct_selected:
  "distinct (map epl_id xs) \<Longrightarrow> distinct (map epl_id (take n (sort_key k (filter q xs))))"
proof -
  assume "distinct (map epl_id xs)"
  then have "distinct xs" "inj_on epl_id (set xs)" by (simp_all add: distinct_map)
  then have "distinct (sort_key k (filter q xs))" "inj_on epl_id (set (sort_key k (filter q xs)))"
    by (auto intro: inj_on_subset)
  then have "distinct (map epl_id (sort_key k (filter q xs)))" by (simp add: distinct_map)
  then show ?thesis by (metis distinct_take take_map)
qed

subsection \<open>Every transaction keeps the invariant\<close>

lemma row_rewrite_ids [simp]:
  "epl_id (recover_link m now l) = epl_id l" "epl_id (retry_link m delay code now l) = epl_id l" "epl_id (claim_link now l) = epl_id l"
  "epl_id (linked_link d now e c l) = epl_id l"
  by (simp_all add: recover_link_def retry_link_def claim_link_def linked_link_def)

lemma stale_links_spec:
  "l \<in> set (stale_links locked stale now limit d) \<Longrightarrow> l \<in> set (evidence_projection_links d) \<and> epl_status l = Link_PROCESSING"
  by (auto simp: stale_links_def dest!: in_set_takeD)

lemma links_to_claim_spec:
  "l \<in> set (links_to_claim locked limit now d) \<Longrightarrow> l \<in> set (evidence_projection_links d) \<and> epl_status l \<in> {Link_PENDING, Link_RETRY}"
  by (auto simp: links_to_claim_def due_link_def dest!: in_set_takeD)

lemma update_links_inv:
  assumes "links_inv m d" and "update_links lib f rows d = Inr d'" and "set rows \<subseteq> set (evidence_projection_links d)"
    and "distinct (map epl_id rows)" and "\<And>l. epl_id (f l) = epl_id l" and "\<And>l. l \<in> set rows \<Longrightarrow> open_rewrite m l (f l)"
  shows "links_inv m d'"
  using assms(2-4,1)
proof (rule update_links_induct)
  fix l d d1 assume "l \<in> set rows" "l \<in> set (evidence_projection_links d)" "links_inv m d" "update_link lib l (f l) d = Inr d1"
  then show "links_inv m d1" using update_link_inv assms(6) by blast
qed (rule assms(5))

lemma recover_stale_inv:
  assumes "links_inv m d" and "handoff_recover_stale lib locked m stale now limit d = Inr (n, d')"
  shows "links_inv m d'"
proof -
  have "update_links lib (recover_link m now) (stale_links locked stale now limit d) d = Inr d'"
    using assms(2) by (auto simp: handoff_recover_stale_def Let_def bindR_Inr_iff)
  then show ?thesis
  proof (rule update_links_inv [OF assms(1)])
    show "distinct (map epl_id (stale_links locked stale now limit d))"
      unfolding stale_links_def by (rule distinct_selected) (rule links_ids [OF assms(1)])
  qed (use stale_links_spec in \<open>auto simp: row_rewrites\<close>)
qed

lemma claim_links_inv:
  assumes "1 \<le> m" and "links_inv m d" and "handoff_claim lib locked limit now d = Inr (ids, d')"
  shows "links_inv m d'"
proof -
  have "update_links lib (claim_link now) (links_to_claim locked limit now d) d = Inr d'"
    using assms(3) by (auto simp: handoff_claim_def Let_def bindR_Inr_iff)
  then show ?thesis
  proof (rule update_links_inv [OF assms(2)])
    show "distinct (map epl_id (links_to_claim locked limit now d))"
      unfolding links_to_claim_def by (rule distinct_selected) (rule links_ids [OF assms(2)])
  qed (use assms(1) links_to_claim_spec in \<open>auto simp: row_rewrites\<close>)
qed

lemma append_links_inv:
  assumes "links_inv m d" and "epl_status l = Link_PENDING" and "epl_attempt_count l = 0"
    and "links_ok (evidence_projection_links d @ [l])"
  shows "links_inv m (d\<lparr>evidence_projection_links := evidence_projection_links d @ [l]\<rparr>)" (is "links_inv m ?d")
proof -
  have eq: "linked_links ?d = linked_links d" using assms(2) by (auto simp: linked_links_def)
  have pr: "get_projection (base ?d) = get_projection (base d)" by (simp add: get_projection_def fun_eq_iff)
  have "grounded ?d = grounded d" by (simp add: grounded_def pr evidence_row_def fun_eq_iff)
  moreover have "has_canonical ?d = has_canonical d" "one_evidence ?d = one_evidence d"
    unfolding has_canonical_def one_evidence_def eq pr by (rule refl)+
  ultimately show ?thesis using assms unfolding links_inv_def eq by simp
qed

lemma insert_links_inv:
  "insert_links lib gen now ps d = Inr d' \<Longrightarrow> links_inv m d \<Longrightarrow> links_inv m d'"
proof (induction ps arbitrary: d)
  case (Cons p ps)
  have "links_inv m (d\<lparr>evidence_projection_links := evidence_projection_links d @ [pending_link (gen d) now p]\<rparr>)"
    if "links_ok (evidence_projection_links d @ [pending_link (gen d) now p])"
    by (rule append_links_inv [OF Cons.prems(2) _ _ that]) (simp_all add: pending_link_def)
  with Cons show ?case by (auto simp: bindR_Inr_iff Let_def split: if_splits)
qed simp

lemma terminal_inv:
  assumes "links_inv m d" and "terminal lib i code now d = Inr d'"
  shows "links_inv m d'"
proof (cases "get_link d i")
  case None
  with assms show ?thesis by (simp add: terminal_def)
next
  case (Some l)
  show ?thesis
  proof (cases "epl_status l = Link_PROCESSING")
    case True
    with assms(2) Some show ?thesis
      using update_link_inv [OF assms(1) conjunct1 [OF get_link_in [OF Some]] row_rewrites(3) [OF True]] by (simp add: terminal_def)
  qed (use assms Some in \<open>simp add: terminal_def\<close>)
qed

lemma retry_inv:
  assumes "links_inv m d" and "handoff_retry lib m delay i code now d = Inr (r, d')"
  shows "links_inv m d'"
proof (cases "get_link d i")
  case None
  with assms show ?thesis by (simp add: handoff_retry_def)
next
  case (Some l)
  show ?thesis
  proof (cases "epl_status l = Link_PROCESSING")
    case True
    then have "update_link lib l (retry_link m delay code now l) d = Inr d'"
      using assms(2) Some by (auto simp: handoff_retry_def bindR_Inr_iff)
    then show ?thesis
      by (rule update_link_inv [OF assms(1) conjunct1 [OF get_link_in [OF Some]] row_rewrites(2) [OF True]])
  qed (use assms Some in \<open>simp add: handoff_retry_def\<close>)
qed

subsection \<open>The link transaction\<close>

lemma handoff_content_frame:
  assumes "handoff_content lib gen now p raw d = Inr (c, d1)"
  shows "evidence_projection_links d1 = evidence_projection_links d \<and> safe_fact_projections d1 = safe_fact_projections d
    \<and> evidence_items d1 = evidence_items d"
  using assms
  by (auto simp: handoff_content_def bindR_Inr_iff Let_def add_content_def split: if_splits option.splits)

lemma handoff_evidence_cases:
  assumes "handoff_evidence lib gen now p ob raw c d = Inr (e, d1)"
  shows "(filter (\<lambda>x. evi_raw_item_id x = raw_id raw \<and> evi_provider x = sfp_provider p) (evidence_items d) = [e] \<and> d1 = d)
    \<or> (filter (\<lambda>x. evi_raw_item_id x = raw_id raw \<and> evi_provider x = sfp_provider p) (evidence_items d) = []
       \<and> evi_raw_item_id e = raw_id raw \<and> evi_provider e = sfp_provider p
       \<and> uq_evidence_items (evidence_items d @ [e]) \<and> d1 = d\<lparr>evidence_items := evidence_items d @ [e]\<rparr>)"
  using assms
  by (auto simp: handoff_evidence_def bindR_Inr_iff Let_def add_evidence_def new_evidence_def split: if_splits list.splits)

lemma complete_link_frame:
  assumes "complete_link lib gen now link p ob raw d = Inr d'"
  obtains c e d1 d2 where "safe_fact_projections d2 = safe_fact_projections d"
    "evidence_projection_links d2 = evidence_projection_links d" "\<And>i x. evidence_row d i = Some x \<Longrightarrow> evidence_row d2 i = Some x"
    "\<And>x. x \<in> set (evidence_items d2) \<Longrightarrow> evi_raw_item_id x = raw_id raw \<Longrightarrow> evi_provider x = sfp_provider p \<Longrightarrow> x = e"
    "update_link lib link (linked_link d2 now e c link) d2 = Inr d'"
proof -
  obtain c d1 e d2 where c: "handoff_content lib gen now p raw d = Inr (c, d1)"
    and e: "handoff_evidence lib gen now p ob raw c d1 = Inr (e, d2)"
    and u: "update_link lib link (linked_link d2 now e c link) d2 = Inr d'"
    using assms by (auto simp: complete_link_def bindR_Inr_iff)
  note f = handoff_content_frame [OF c]
  note cases = handoff_evidence_cases [OF e]
  have "evidence_row d2 i = Some x" if "evidence_row d i = Some x" for i x
    using cases f that by (auto simp: evidence_row_def bind_eq_Some_conv find_append)
  moreover have "x = e" if "x \<in> set (evidence_items d2)" "evi_raw_item_id x = raw_id raw" "evi_provider x = sfp_provider p" for x
  proof -
    have "filter (\<lambda>x. evi_raw_item_id x = raw_id raw \<and> evi_provider x = sfp_provider p) (evidence_items d2) = [e]" using cases by auto
    moreover have "x \<in> set (filter (\<lambda>x. evi_raw_item_id x = raw_id raw \<and> evi_provider x = sfp_provider p) (evidence_items d2))"
      using that by simp
    ultimately show ?thesis by simp
  qed
  moreover have "safe_fact_projections d2 = safe_fact_projections d" "evidence_projection_links d2 = evidence_projection_links d"
    using cases f by auto
  ultimately show ?thesis using that u by blast
qed

text \<open>What the link trigger has checked when it lets a linked row pass.\<close>

lemma trigger_grounded:
  assumes "link_triggers lib d old new = Inr ()" and "epl_evidence_item_id new \<noteq> None"
  shows "grounded d new"
  using assms
  by (auto simp: link_triggers_def bindR_Inr_iff r8a_evidence_projection_link_guard_def Let_def link_evidence_guard_def raise_exception_def
      grounded_def split: option.splits if_splits)

lemma linked_put_inv:
  assumes inv: "links_inv m d" and old: "old \<in> set (evidence_projection_links d)" and id: "epl_id new = epl_id old"
    and st: "epl_status old = Link_PROCESSING" "epl_status new = Link_LINKED" and n: "epl_attempt_count new = epl_attempt_count old"
    and canon: "epl_canonical_evidence new \<longleftrightarrow> \<not> linked_to_evidence d (epl_evidence_item_id new)"
    and u: "update_link lib old new d = Inr d'"
    and p: "get_projection (base d) (epl_safe_fact_projection_id new) = Some p"
    and e: "epl_evidence_item_id new = Some (evi_id e)"
      "\<And>x. x \<in> set (evidence_items d) \<Longrightarrow> evi_raw_item_id x = sfp_raw_item_id p \<Longrightarrow> evi_provider x = sfp_provider p \<Longrightarrow> x = e"
  shows "links_inv m d'"
proof -
  have d': "d' = put_projection_link new d" and ok: "links_ok (evidence_projection_links d')" and tr: "link_triggers lib d (Some old) new = Inr ()"
    using u by (auto simp: update_link_Inr)
  have L: "linked_links d' = insert new (linked_links d)" using linked_after_put [OF inv old id] st by (simp add: d')
  have "link_attempts_ok m (epl_status new) (epl_attempt_count new)" using inv old st n by (force simp: links_inv_def)
  then have att: "\<forall>l\<in>set (evidence_projection_links d'). link_attempts_ok m (epl_status l) (epl_attempt_count l)"
    using attempts_after_put [OF inv old id] by (simp add: d')
  have gr: "\<forall>l\<in>linked_links d'. grounded d' l"
    using inv trigger_grounded [OF tr] e(1) unfolding L by (simp add: d' links_inv_def)
  have can: "has_canonical d'"
  proof (cases "epl_canonical_evidence new")
    case False
    then obtain l where "l \<in> linked_links d" "epl_evidence_item_id l = epl_evidence_item_id new"
      using canon by (auto simp: linked_to_evidence_def list_ex_iff linked_links_def)
    with inv show ?thesis unfolding has_canonical_def links_inv_def L by (metis insert_iff)
  qed (use inv in \<open>auto simp: has_canonical_def links_inv_def L\<close>)
  have new: "epl_evidence_item_id l = epl_evidence_item_id new"
    if "l \<in> linked_links d" "get_projection (base d) (epl_safe_fact_projection_id l) = Some q" "sfp_raw_item_id q = sfp_raw_item_id p"
      "sfp_provider q = sfp_provider p" for l q
  proof -
    note l = that
    have "grounded d l" using inv l(1) by (simp add: links_inv_def)
    then obtain x where "evidence_row d (epl_evidence_item_id l) = Some x" "evi_raw_item_id x = sfp_raw_item_id p" "evi_provider x = sfp_provider p"
      using l(2-4) by (auto simp: grounded_def)
    then show ?thesis using e evidence_row_in by metis
  qed
  have "one_evidence d'"
    unfolding one_evidence_def L
  proof (intro ballI allI impI)
    fix l l' q q' assume *: "l \<in> insert new (linked_links d)" "l' \<in> insert new (linked_links d)"
      "get_projection (base d') (epl_safe_fact_projection_id l) = Some q" "get_projection (base d') (epl_safe_fact_projection_id l') = Some q'"
      "sfp_raw_item_id q = sfp_raw_item_id q'" "sfp_provider q = sfp_provider q'"
    have pr: "get_projection (base d') = get_projection (base d)" by (simp add: d')
    consider "l = new" "l' = new" | "l = new" "l' \<in> linked_links d" | "l \<in> linked_links d" "l' = new" | "l \<in> linked_links d" "l' \<in> linked_links d"
      using *(1,2) by blast
    then show "epl_evidence_item_id l = epl_evidence_item_id l'"
    proof cases
      case 2
      then show ?thesis using new [of l' q'] * p by (simp add: pr)
    next
      case 3
      then show ?thesis using new [of l q] * p by (simp add: pr)
    next
      case 4
      then show ?thesis using inv *(3-) unfolding pr links_inv_def one_evidence_def by blast
    qed simp
  qed
  then show ?thesis using ok att gr can by (simp add: links_inv_def)
qed

lemma link_transaction_cases:
  assumes "link_transaction lib gen now i d0 d = Inr (Some d')"
  obtains l0 p raw ob link where "get_link d0 i = Some l0"
    "get_projection (base d) (epl_safe_fact_projection_id l0) = Some p" "get_link d i = Some link" "epl_status link = Link_PROCESSING"
    "sfp_raw_item_id p = raw_id raw" "complete_link lib gen now link p ob raw d = Inr d'"
proof -
  obtain p0 raw0 ob0 where seen: "first_look lib i d0 = Inr (Some (p0, raw0, ob0))" and loc: "link_locked lib gen now i (p0, raw0, ob0) d = Inr d'"
    using assms by (auto simp: link_transaction_def bindR_Inr_iff split: option.splits)
  obtain l0 where l0: "get_link d0 i = Some l0" "epl_safe_fact_projection_id l0 = sfp_id p0"
    using seen by (auto simp: first_look_def bindR_Inr_iff split: option.splits if_splits dest: get_id)
  obtain p raw ob link where "get_projection (base d) (sfp_id p0) = Some p" "get_link d i = Some link" "epl_status link = Link_PROCESSING"
    "sfp_raw_item_id p = raw_id raw" "complete_link lib gen now link p ob raw d = Inr d'"
    using loc by (auto simp: link_locked_def Let_def bindR_Inr_iff provenance_ok_def split: option.splits if_splits)
  with l0 that show ?thesis by auto
qed

lemma link_transaction_inv:
  assumes inv: "links_inv m d" and sa: "same_association i d0 d" and tx: "link_transaction lib gen now i d0 d = Inr (Some d')"
  shows "links_inv m d'"
proof -
  obtain l0 p raw ob link where l0: "get_link d0 i = Some l0"
    and g: "get_projection (base d) (epl_safe_fact_projection_id l0) = Some p" "get_link d i = Some link" "epl_status link = Link_PROCESSING"
    "sfp_raw_item_id p = raw_id raw" "complete_link lib gen now link p ob raw d = Inr d'"
    by (rule link_transaction_cases [OF tx])
  have proj: "epl_safe_fact_projection_id link = epl_safe_fact_projection_id l0" using sa l0 g(2) by (auto simp: same_association_def)
  from complete_link_frame [OF g(5)] obtain c e d2 where f: "safe_fact_projections d2 = safe_fact_projections d"
    "evidence_projection_links d2 = evidence_projection_links d" "\<And>i x. evidence_row d i = Some x \<Longrightarrow> evidence_row d2 i = Some x"
    and uniq: "\<And>x. x \<in> set (evidence_items d2) \<Longrightarrow> evi_raw_item_id x = raw_id raw \<Longrightarrow> evi_provider x = sfp_provider p \<Longrightarrow> x = e"
    and u: "update_link lib link (linked_link d2 now e c link) d2 = Inr d'" by metis
  show ?thesis
  proof (rule linked_put_inv [OF _ _ _ _ _ _ _ u])
    show "links_inv m d2" by (rule links_inv_frame [OF inv f(2,1,3)])
    show "get_projection (base d2) (epl_safe_fact_projection_id (linked_link d2 now e c link)) = Some p"
      using g(1) proj by (simp add: linked_link_def projection_base [OF f(1)])
  qed (use get_link_in [OF g(2)] g(3,4) f(2) uniq in \<open>simp_all add: linked_link_def\<close>)
qed

subsection \<open>Writes of other code\<close>

definition same_facts :: "SafeFactProjection \<Rightarrow> SafeFactProjection \<Rightarrow> bool" where
  "same_facts p p' \<longleftrightarrow> p'\<lparr>sfp_updated_at := sfp_updated_at p\<rparr> = p"

lemma same_facts_fields:
  assumes "same_facts p p'"
  shows "sfp_id p' = sfp_id p" "sfp_raw_item_id p' = sfp_raw_item_id p" "sfp_provider p' = sfp_provider p"
    "sfp_processing_status p' = sfp_processing_status p" "sfp_factual_payload p' = sfp_factual_payload p"
    "sfp_projection_hash p' = sfp_projection_hash p" "sfp_observation_id p' = sfp_observation_id p"
proof -
  have p: "p = p'\<lparr>sfp_updated_at := sfp_updated_at p\<rparr>" using assms by (simp add: same_facts_def)
  show "sfp_id p' = sfp_id p" "sfp_raw_item_id p' = sfp_raw_item_id p" "sfp_provider p' = sfp_provider p"
    "sfp_processing_status p' = sfp_processing_status p" "sfp_factual_payload p' = sfp_factual_payload p"
    "sfp_projection_hash p' = sfp_projection_hash p" "sfp_observation_id p' = sfp_observation_id p"
    by (subst p, simp)+
qed

lemma same_facts_trans: "same_facts p q \<Longrightarrow> same_facts q r \<Longrightarrow> same_facts p r"
  by (cases p; cases q; cases r) (auto simp: same_facts_def)

lemma same_facts_refl: "same_facts p p"
  by (simp add: same_facts_def)

lemma external_projection:
  assumes "external_write d d'" and "get_projection (base d) i = Some p" and "l \<in> linked_links d" and "epl_safe_fact_projection_id l = i"
  obtains p' where "get_projection (base d') i = Some p'" and "same_facts p p'"
proof -
  have p: "p \<in> set (safe_fact_projections d)" "sfp_id p = i" using get_id(5) [OF assms(2)] by auto
  have "linked_projection d (sfp_id p)" using assms(3,4) p by (auto simp: linked_projection_def linked_links_def list_ex_iff)
  moreover have "get_projection (base d') (sfp_id p) \<noteq> Some p \<Longrightarrow>
      m2b_linked_projection_immutable_guard d p (get_projection (base d') (sfp_id p)) = Inr ()"
    using assms(1,2) p by (auto simp: external_write_def passes_def)
  ultimately show ?thesis
    using that p by (cases "get_projection (base d') (sfp_id p) = Some p")
      (auto simp: m2b_linked_projection_immutable_guard_def same_facts_def split: option.splits)
qed

lemma external_evidence:
  assumes "external_write d d'" and "evidence_row d (epl_evidence_item_id l) = Some e" and "l \<in> linked_links d"
  shows "evidence_row d' (epl_evidence_item_id l) = Some e"
proof -
  have e: "e \<in> set (evidence_items d)" "epl_evidence_item_id l = Some (evi_id e)" using evidence_row_in [OF assms(2)] by auto
  have "linked_to_evidence d (Some (evi_id e))" using assms(3) e by (auto simp: linked_to_evidence_def linked_links_def list_ex_iff)
  moreover have "evidence_row d' (Some (evi_id e)) \<noteq> Some e \<Longrightarrow>
      m2b_linked_evidence_row_immutable_guard d e (evidence_row d' (Some (evi_id e))) = Inr ()"
    using assms(1,2) e by (auto simp: external_write_def passes_def)
  ultimately show ?thesis using e by (auto simp: m2b_linked_evidence_row_immutable_guard_def)
qed

lemma external_inv:
  assumes inv: "links_inv m d" and ext: "external_write d d'"
  shows "links_inv m d'"
proof -
  have links: "evidence_projection_links d' = evidence_projection_links d" using ext by (simp add: external_write_def)
  then have L: "linked_links d' = linked_links d" by (simp add: linked_links_def)
  have origin: "\<exists>p. get_projection (base d) (epl_safe_fact_projection_id l) = Some p \<and> same_facts p p'"
    if l: "l \<in> linked_links d" and p': "get_projection (base d') (epl_safe_fact_projection_id l) = Some p'" for l p'
  proof -
    have "grounded d l" using inv l by (simp add: links_inv_def)
    then obtain p where p: "get_projection (base d) (epl_safe_fact_projection_id l) = Some p" by (auto simp: grounded_def)
    from external_projection [OF ext p l refl] p' p show ?thesis by auto
  qed
  have "grounded d' l" if l: "l \<in> linked_links d" for l
  proof -
    have "grounded d l" using inv l by (simp add: links_inv_def)
    then obtain p e where g: "get_projection (base d) (epl_safe_fact_projection_id l) = Some p" "sfp_processing_status p = Proj_READY"
      "evidence_row d (epl_evidence_item_id l) = Some e" "evi_raw_item_id e = sfp_raw_item_id p" "evi_provider e = sfp_provider p"
      unfolding grounded_def by blast
    obtain p' where p': "get_projection (base d') (epl_safe_fact_projection_id l) = Some p'" "same_facts p p'"
      by (rule external_projection [OF ext g(1) l refl])
    show ?thesis unfolding grounded_def
      by (intro exI [of _ p'] exI [of _ e]) (simp add: p'(1) same_facts_fields [OF p'(2)] g external_evidence [OF ext g(3) l])
  qed
  moreover have "has_canonical d'" using inv by (simp add: has_canonical_def L links_inv_def)
  moreover have "one_evidence d'"
    unfolding one_evidence_def L
  proof (intro ballI allI impI)
    fix l l' p p' assume *: "l \<in> linked_links d" "l' \<in> linked_links d"
      "get_projection (base d') (epl_safe_fact_projection_id l) = Some p" "get_projection (base d') (epl_safe_fact_projection_id l') = Some p'"
      "sfp_raw_item_id p = sfp_raw_item_id p'" "sfp_provider p = sfp_provider p'"
    obtain q q' where q: "get_projection (base d) (epl_safe_fact_projection_id l) = Some q" "same_facts q p"
      "get_projection (base d) (epl_safe_fact_projection_id l') = Some q'" "same_facts q' p'"
      using origin [OF *(1,3)] origin [OF *(2,4)] by blast
    have "sfp_raw_item_id q = sfp_raw_item_id q'" "sfp_provider q = sfp_provider q'"
      using *(5,6) by (simp_all add: same_facts_fields [OF q(2)] same_facts_fields [OF q(4)])
    moreover have "one_evidence d" using inv by (simp add: links_inv_def)
    ultimately show "epl_evidence_item_id l = epl_evidence_item_id l'"
      using *(1,2) q(1,3) unfolding one_evidence_def by blast
  qed
  ultimately show ?thesis using inv unfolding links_inv_def links L by simp
qed

lemma handoff_step_inv:
  assumes "1 \<le> m" and "links_inv m d" and "handoff_step lib m d d'"
  shows "links_inv m d'"
  using assms(3)
proof (cases rule: handoff_step.cases)
  case (step_discover gen now limit)
  then show ?thesis using insert_links_inv assms(2) by (simp add: discover_ready_def)
qed (use assms(1,2) in \<open>blast intro: recover_stale_inv claim_links_inv link_transaction_inv terminal_inv retry_inv external_inv\<close>)+

interpretation links: invariant_system
  "\<lambda>d. 1 \<le> m \<and> links_init d" "handoff_step lib m" "\<lambda>d. 1 \<le> m \<and> links_inv m d" for lib m
proof unfold_locales
  fix d :: event_db assume "1 \<le> m \<and> links_init d"
  then show "1 \<le> m \<and> links_inv m d"
    by (simp add: links_init_def links_inv_def links_ok_def linked_links_def has_canonical_def one_evidence_def uq_evidence_projection_links_def)
qed (blast intro: handoff_step_inv)

subsection \<open>Linked rows stay\<close>

definition grows :: "event_db \<Rightarrow> event_db \<Rightarrow> bool" where
  "grows d d' \<longleftrightarrow>
     safe_fact_projections d' = safe_fact_projections d \<and> (\<forall>i e. evidence_row d i = Some e \<longrightarrow> evidence_row d' i = Some e)
     \<and> linked_links d \<subseteq> linked_links d'"

lemma grows_refl: "grows d d" by (simp add: grows_def)

lemma grows_trans: "grows a b \<Longrightarrow> grows b c \<Longrightarrow> grows a c"
  by (auto simp: grows_def)

lemma update_link_grows:
  assumes "links_inv m d" and "old \<in> set (evidence_projection_links d)" and "epl_id new = epl_id old" and "epl_status old \<noteq> Link_LINKED"
    and "update_link lib old new d = Inr d'"
  shows "grows d d'"
  using assms(5) linked_after_put [OF assms(1-4)] by (auto simp: update_link_Inr grows_def)

lemma update_links_grows:
  assumes "links_inv m d" and "update_links lib f rows d = Inr d'" and "set rows \<subseteq> set (evidence_projection_links d)"
    and "distinct (map epl_id rows)" and "\<And>l. epl_id (f l) = epl_id l" and "\<And>l. l \<in> set rows \<Longrightarrow> open_rewrite m l (f l)"
  shows "grows d d'"
proof -
  have "links_inv m d \<and> grows d d" using assms(1) by (simp add: grows_refl)
  with assms(2-4) have "links_inv m d' \<and> grows d d'"
  proof (rule update_links_induct)
    fix l x y assume *: "l \<in> set rows" "l \<in> set (evidence_projection_links x)" "links_inv m x \<and> grows d x" "update_link lib l (f l) x = Inr y"
    then have "grows x y" using assms(5,6) update_link_grows by (metis open_rewrite_def)
    then show "links_inv m y \<and> grows d y" using * update_link_inv assms(6) grows_trans by blast
  qed (rule assms(5))
  then show ?thesis ..
qed

lemma insert_links_grows: "insert_links lib gen now ps d = Inr d' \<Longrightarrow> grows d d'"
proof (induction ps arbitrary: d)
  case (Cons p ps)
  have "grows d (d\<lparr>evidence_projection_links := evidence_projection_links d @ [pending_link (gen d) now p]\<rparr>)"
    by (auto simp: grows_def linked_links_def evidence_row_def)
  with Cons show ?case by (auto simp: bindR_Inr_iff Let_def split: if_splits intro: grows_trans)
qed (simp add: grows_refl)

lemma settle_row_grows:
  assumes "links_inv m d" and "get_link d i = Some l" and "epl_status l = Link_PROCESSING" and "epl_id new = epl_id l"
    and "update_link lib l new d = Inr d'"
  shows "grows d d'"
  using update_link_grows [OF assms(1) _ assms(4) _ assms(5)] get_link_in [OF assms(2)] assms(3) by simp

lemma link_transaction_grows:
  assumes inv: "links_inv m d" and tx: "link_transaction lib gen now i d0 d = Inr (Some d')"
  shows "grows d d'"
proof -
  obtain link p ob raw where g: "get_link d i = Some link" "epl_status link = Link_PROCESSING" "complete_link lib gen now link p ob raw d = Inr d'"
    by (rule link_transaction_cases [OF tx])
  from complete_link_frame [OF g(3)] obtain c e d2 where f: "safe_fact_projections d2 = safe_fact_projections d"
    "evidence_projection_links d2 = evidence_projection_links d" "\<And>i x. evidence_row d i = Some x \<Longrightarrow> evidence_row d2 i = Some x"
    and u: "update_link lib link (linked_link d2 now e c link) d2 = Inr d'" by metis
  have "grows d d2" using f by (simp add: grows_def linked_links_def)
  moreover have "links_inv m d2" by (rule links_inv_frame [OF inv f(2,1,3)])
  then have "grows d2 d'"
    using settle_row_grows [OF _ _ g(2) _ u] g(1) f(2) by (simp add: get_link_def)
  ultimately show ?thesis by (rule grows_trans)
qed

lemma handoff_step_grows:
  assumes "1 \<le> m" and "links_inv m d" and "handoff_step lib m d d'"
  shows "grows d d' \<or> external_write d d'"
  using assms(3)
proof (cases rule: handoff_step.cases)
  case (step_recover locked stale now limit n)
  then have u: "update_links lib (recover_link m now) (stale_links locked stale now limit d) d = Inr d'"
    by (auto simp: handoff_recover_stale_def Let_def bindR_Inr_iff)
  have "distinct (map epl_id (stale_links locked stale now limit d))"
    unfolding stale_links_def by (rule distinct_selected) (rule links_ids [OF assms(2)])
  then have "grows d d'"
    by (intro update_links_grows [OF assms(2) u]) (use stale_links_spec in \<open>auto simp: row_rewrites\<close>)
  then show ?thesis ..
next
  case (step_claim locked limit now ids)
  then have u: "update_links lib (claim_link now) (links_to_claim locked limit now d) d = Inr d'"
    by (auto simp: handoff_claim_def Let_def bindR_Inr_iff)
  have "distinct (map epl_id (links_to_claim locked limit now d))"
    unfolding links_to_claim_def by (rule distinct_selected) (rule links_ids [OF assms(2)])
  then have "grows d d'"
    by (intro update_links_grows [OF assms(2) u]) (use assms(1) links_to_claim_spec in \<open>auto simp: row_rewrites\<close>)
  then show ?thesis ..
next
  case (step_terminal i code now)
  then have "d' = d \<or> (\<exists>l new. get_link d i = Some l \<and> epl_status l = Link_PROCESSING \<and> epl_id new = epl_id l \<and> update_link lib l new d = Inr d')"
    by (force simp: terminal_def split: option.splits if_splits)
  then show ?thesis using settle_row_grows [OF assms(2)] grows_refl by blast
next
  case (step_retry delay i code now r)
  then have "d' = d \<or> (\<exists>l new. get_link d i = Some l \<and> epl_status l = Link_PROCESSING \<and> epl_id new = epl_id l \<and> update_link lib l new d = Inr d')"
    by (force simp: handoff_retry_def bindR_Inr_iff split: option.splits if_splits)
  then show ?thesis using settle_row_grows [OF assms(2)] grows_refl by blast
qed (use assms(2) in \<open>auto simp: discover_ready_def intro: insert_links_grows link_transaction_grows\<close>)

fun linked_fact :: "EvidenceProjectionLink \<times> SafeFactProjection \<times> EvidenceItem \<Rightarrow> event_db \<Rightarrow> bool" where
  "linked_fact (l, p, e) d =
     (l \<in> linked_links d \<and> (\<exists>p'. get_projection (base d) (epl_safe_fact_projection_id l) = Some p' \<and> same_facts p p')
      \<and> evidence_row d (epl_evidence_item_id l) = Some e)"

lemma linked_fact_step:
  assumes "1 \<le> m" and "links_inv m d" and "handoff_step lib m d d'" and "linked_fact a d"
  shows "linked_fact a d'"
proof -
  obtain l p e where a: "a = (l, p, e)" by (cases a)
  obtain p' where f: "l \<in> linked_links d" "get_projection (base d) (epl_safe_fact_projection_id l) = Some p'" "same_facts p p'"
    "evidence_row d (epl_evidence_item_id l) = Some e" using assms(4) by (auto simp: a)
  show ?thesis
    using handoff_step_grows [OF assms(1-3)]
  proof
    assume g: "grows d d'"
    then have "get_projection (base d') (epl_safe_fact_projection_id l) = Some p'"
      using f(2) projection_base [of d' d] by (simp add: grows_def)
    with g f show ?thesis unfolding a linked_fact.simps grows_def by blast
  next
    assume ext: "external_write d d'"
    obtain p'' where "get_projection (base d') (epl_safe_fact_projection_id l) = Some p''" "same_facts p' p''"
      by (rule external_projection [OF ext f(2,1) refl])
    moreover have "l \<in> linked_links d'" using ext f(1) by (simp add: external_write_def linked_links_def)
    ultimately show ?thesis using external_evidence [OF ext f(4,1)] same_facts_trans [OF f(3)] by (auto simp: a)
  qed
qed

interpretation links_stable: stable_system "handoff_step lib m" "\<lambda>d. 1 \<le> m \<and> links_inv m d" linked_fact for lib m
  by unfold_locales (blast intro: handoff_step_inv linked_fact_step)+

lemma get_put_link [simp]:
  "get_link (put_projection_link l d) i = (if i = epl_id l then map_option (\<lambda>_. l) (get_link d i) else get_link d i)"
  by (auto simp: get_link_def put_projection_link_def find_update_const)

text \<open>The projection column never changes, which is what \<open>same_association\<close> says of the states of the two reads.\<close>

definition keeps_associations :: "event_db \<Rightarrow> event_db \<Rightarrow> bool" where
  "keeps_associations d d' \<longleftrightarrow>
     (\<forall>i l. get_link d i = Some l \<longrightarrow> (\<exists>l'. get_link d' i = Some l' \<and> epl_safe_fact_projection_id l' = epl_safe_fact_projection_id l))"

lemma keeps_refl: "evidence_projection_links d' = evidence_projection_links d \<Longrightarrow> keeps_associations d d'"
  by (simp add: keeps_associations_def get_link_def)

lemma keeps_trans: "keeps_associations a b \<Longrightarrow> keeps_associations b c \<Longrightarrow> keeps_associations a c"
  unfolding keeps_associations_def by metis

lemma keeps_same: "keeps_associations d d' \<Longrightarrow> same_association i d d'"
  unfolding keeps_associations_def same_association_def by (metis option.inject)

lemma get_link_member:
  assumes "distinct (map epl_id (evidence_projection_links d))" and "l \<in> set (evidence_projection_links d)"
  shows "get_link d (epl_id l) = Some l"
proof -
  have "List.find (\<lambda>r. epl_id r = epl_id l) ls = Some l" if "distinct (map epl_id ls)" "l \<in> set ls" for ls
    using that by (induction ls) (auto simp: image_iff)
  with assms show ?thesis by (simp add: get_link_def)
qed

lemma update_link_keeps:
  assumes "links_inv m d" and "old \<in> set (evidence_projection_links d)" and "update_link lib old new d = Inr d'"
    and "epl_id new = epl_id old" and "epl_safe_fact_projection_id new = epl_safe_fact_projection_id old"
  shows "keeps_associations d d'"
  using assms(3-5) get_link_member [OF links_ids [OF assms(1)] assms(2)]
  by (auto simp: update_link_Inr keeps_associations_def)

lemma update_links_keeps:
  assumes "links_inv m d" and "update_links lib f rows d = Inr d'" and "set rows \<subseteq> set (evidence_projection_links d)"
    and "distinct (map epl_id rows)" and "\<And>l. epl_id (f l) = epl_id l" and "\<And>l. l \<in> set rows \<Longrightarrow> open_rewrite m l (f l)"
    and "\<And>l. epl_safe_fact_projection_id (f l) = epl_safe_fact_projection_id l"
  shows "keeps_associations d d'"
proof -
  have "links_inv m d \<and> keeps_associations d d" using assms(1) by (simp add: keeps_refl)
  with assms(2-4) have "links_inv m d' \<and> keeps_associations d d'"
  proof (rule update_links_induct)
    fix l x y assume *: "l \<in> set rows" "l \<in> set (evidence_projection_links x)" "links_inv m x \<and> keeps_associations d x" "update_link lib l (f l) x = Inr y"
    then have "keeps_associations x y" using assms(5,7) update_link_keeps by blast
    then show "links_inv m y \<and> keeps_associations d y" using * update_link_inv assms(6) keeps_trans by blast
  qed (rule assms(5))
  then show ?thesis ..
qed

lemma insert_links_keeps: "insert_links lib gen now ps d = Inr d' \<Longrightarrow> keeps_associations d d'"
proof (induction ps arbitrary: d)
  case (Cons p ps)
  have "keeps_associations d (d\<lparr>evidence_projection_links := evidence_projection_links d @ [pending_link (gen d) now p]\<rparr>)"
    by (auto simp: keeps_associations_def get_link_def find_append)
  with Cons show ?case by (auto simp: bindR_Inr_iff Let_def split: if_splits intro: keeps_trans)
qed (simp add: keeps_refl)

lemma link_transaction_keeps:
  assumes inv: "links_inv m d" and tx: "link_transaction lib gen now i d0 d = Inr (Some d')"
  shows "keeps_associations d d'"
proof -
  obtain link p ob raw where g: "get_link d i = Some link" "complete_link lib gen now link p ob raw d = Inr d'"
    by (rule link_transaction_cases [OF tx])
  from complete_link_frame [OF g(2)] obtain c e d2 where f: "safe_fact_projections d2 = safe_fact_projections d"
    "evidence_projection_links d2 = evidence_projection_links d" "\<And>i x. evidence_row d i = Some x \<Longrightarrow> evidence_row d2 i = Some x"
    and u: "update_link lib link (linked_link d2 now e c link) d2 = Inr d'" by metis
  have "keeps_associations d2 d'"
    by (rule update_link_keeps [OF links_inv_frame [OF inv f(2,1,3)] _ u]) (use get_link_in [OF g(1)] f(2) in \<open>simp_all add: linked_link_def\<close>)
  then show ?thesis using keeps_refl [OF f(2)] keeps_trans by blast
qed

lemma settle_row_keeps:
  assumes "links_inv m d" and "get_link d i = Some l" and "epl_id new = epl_id l"
    and "epl_safe_fact_projection_id new = epl_safe_fact_projection_id l" and "update_link lib l new d = Inr d'"
  shows "keeps_associations d d'"
  using update_link_keeps [OF assms(1) _ assms(5,3,4)] get_link_in [OF assms(2)] by simp

lemma row_associations:
  "epl_safe_fact_projection_id (recover_link m now l) = epl_safe_fact_projection_id l"
  "epl_safe_fact_projection_id (claim_link now l) = epl_safe_fact_projection_id l"
  "epl_safe_fact_projection_id (retry_link m delay code now l) = epl_safe_fact_projection_id l" "epl_id (retry_link m delay code now l) = epl_id l"
  by (simp_all add: recover_link_def claim_link_def retry_link_def)

lemma handoff_step_keeps:
  assumes "1 \<le> m" and "links_inv m d" and "handoff_step lib m d d'"
  shows "keeps_associations d d'"
  using assms(3)
proof (cases rule: handoff_step.cases)
  case (step_recover locked stale now limit n)
  then have u: "update_links lib (recover_link m now) (stale_links locked stale now limit d) d = Inr d'"
    by (auto simp: handoff_recover_stale_def Let_def bindR_Inr_iff)
  have "distinct (map epl_id (stale_links locked stale now limit d))"
    unfolding stale_links_def by (rule distinct_selected) (rule links_ids [OF assms(2)])
  then show ?thesis
    by (intro update_links_keeps [OF assms(2) u]) (use stale_links_spec in \<open>auto simp: row_rewrites row_associations\<close>)
next
  case (step_claim locked limit now ids)
  then have u: "update_links lib (claim_link now) (links_to_claim locked limit now d) d = Inr d'"
    by (auto simp: handoff_claim_def Let_def bindR_Inr_iff)
  have "distinct (map epl_id (links_to_claim locked limit now d))"
    unfolding links_to_claim_def by (rule distinct_selected) (rule links_ids [OF assms(2)])
  then show ?thesis
    by (intro update_links_keeps [OF assms(2) u]) (use assms(1) links_to_claim_spec in \<open>auto simp: row_rewrites row_associations\<close>)
next
  case (step_terminal i code now)
  then have "d' = d \<or> (\<exists>l new. get_link d i = Some l \<and> epl_id new = epl_id l
      \<and> epl_safe_fact_projection_id new = epl_safe_fact_projection_id l \<and> update_link lib l new d = Inr d')"
    by (force simp: terminal_def split: option.splits if_splits)
  then show ?thesis using settle_row_keeps [OF assms(2)] keeps_refl by blast
next
  case (step_retry delay i code now r)
  then have "d' = d \<or> (\<exists>l new. get_link d i = Some l \<and> epl_id new = epl_id l
      \<and> epl_safe_fact_projection_id new = epl_safe_fact_projection_id l \<and> update_link lib l new d = Inr d')"
    by (force simp: handoff_retry_def bindR_Inr_iff row_associations split: option.splits if_splits)
  then show ?thesis using settle_row_keeps [OF assms(2)] keeps_refl by blast
qed (use assms(2) in \<open>auto simp: discover_ready_def external_write_def intro: insert_links_keeps link_transaction_keeps keeps_refl\<close>)

subsection \<open>The projection worker\<close>

lemma unchanged_row:
  assumes "distinct (map sfp_id (safe_fact_projections d))" and "p \<in> set (safe_fact_projections d)"
  shows "get_projection d (sfp_id p) = Some p"
proof -
  have "List.find (\<lambda>r. sfp_id r = sfp_id p) ps = Some p" if "distinct (map sfp_id ps)" "p \<in> set ps" for ps
    using that by (induction ps) (auto simp: image_iff)
  with assms show ?thesis by (simp add: get_projection_def)
qed

lemma linked_projection_final:
  assumes "links_inv m d" and "get_projection (base d) i = Some p" and "linked_projection d i"
  shows "final_projection p (base d)"
proof -
  obtain l where l: "l \<in> linked_links d" "epl_safe_fact_projection_id l = i"
    using assms(3) by (auto simp: linked_projection_def list_ex_iff linked_links_def)
  then have "grounded d l" using assms(1) by (simp add: links_inv_def)
  then have "sfp_processing_status p = Proj_READY" using l(2) assms(2) by (auto simp: grounded_def)
  then show ?thesis using get_id(5) [OF assms(2)] by (simp add: final_projection_def)
qed

lemma passes_refl: "passes f f g"
  by (simp add: passes_def)

lemma projection_step_external:
  assumes "iso_laws lib" and "1 \<le> k" and "links_inv m d" and "projections_inv lib k (base d)" and "projection_step lib k (base d) D"
  shows "external_write d (d\<lparr>safe_fact_projections := safe_fact_projections D\<rparr>)" (is "external_write d ?d")
proof -
  have ids: "distinct (map sfp_id (safe_fact_projections D))"
    using projection_step_inv [OF assms(1,2,4,5)] by (simp add: projections_inv_def)
  have look: "get_projection (base ?d) = get_projection D" by (simp add: get_projection_def fun_eq_iff)
  have "passes (get_projection (base d)) (get_projection (base ?d)) (m2b_linked_projection_immutable_guard d)"
    unfolding passes_def
  proof (intro allI impI)
    fix i p assume p: "get_projection (base d) i = Some p" and ch: "get_projection (base ?d) i \<noteq> Some p"
    have id: "sfp_id p = i" using get_id(5) [OF p] by simp
    have "\<not> linked_projection d i"
    proof
      assume "linked_projection d i"
      then have "final_projection p D"
        using linked_projection_final [OF assms(3) p] final_step [OF assms(4,5)] by blast
      then have "get_projection D (sfp_id p) = Some p" using unchanged_row [OF ids] by (simp add: final_projection_def)
      with ch id show False by (simp add: look)
    qed
    then show "m2b_linked_projection_immutable_guard d p (get_projection (base ?d) i) = Inr ()"
      by (simp add: m2b_linked_projection_immutable_guard_def id)
  qed
  moreover have "evidence_row ?d = evidence_row d" "content_row ?d = content_row d" "get_observation ?d = get_observation d"
    "get_raw ?d = get_raw d" "get_source (base ?d) = get_source (base d)"
    by (simp_all add: evidence_row_def content_row_def get_observation_def get_raw_def get_source_def db.defs fun_eq_iff)
  ultimately show ?thesis unfolding external_write_def by (simp add: passes_refl)
qed

subsection \<open>The batch\<close>

definition processing :: "event_db \<Rightarrow> uuid \<Rightarrow> bool" where
  "processing d i = (case get_link d i of None \<Rightarrow> False | Some l \<Rightarrow> epl_status l = Link_PROCESSING)"

definition settles :: "uuid \<Rightarrow> event_db \<Rightarrow> event_db \<Rightarrow> bool" where
  "settles i d d' \<longleftrightarrow> \<not> processing d' i \<and> (\<forall>j. processing d' j \<longrightarrow> processing d j)"

lemma update_link_processing:
  assumes "update_link lib old new d = Inr d'" and "epl_id new = epl_id old"
  shows "processing d' i = (if i = epl_id old then get_link d i \<noteq> None \<and> epl_status new = Link_PROCESSING else processing d i)"
  using assms by (auto simp: update_link_Inr processing_def split: option.splits)

lemma update_link_settles:
  "update_link lib old new d = Inr d' \<Longrightarrow> epl_id new = epl_id old \<Longrightarrow> epl_status new \<noteq> Link_PROCESSING \<Longrightarrow> epl_id old = i \<Longrightarrow> settles i d d'"
  by (simp add: settles_def update_link_processing)

lemma update_links_processing:
  assumes "update_links lib f rows d = Inr d'" and "\<And>l. epl_id (f l) = epl_id l" and "processing d' i"
  shows "processing d i \<or> (i \<in> epl_id ` set rows \<and> (\<exists>l\<in>set rows. epl_status (f l) = Link_PROCESSING))"
  using assms(1,3)
proof (induction rows arbitrary: d)
  case (Cons l rows)
  obtain d1 where "update_link lib l (f l) d = Inr d1" "update_links lib f rows d1 = Inr d'"
    using Cons.prems(1) by (auto simp: bindR_Inr_iff)
  then show ?case using Cons.IH [of d1] Cons.prems(2) update_link_processing [of lib l "f l" d d1 i] assms(2)
    by (auto split: if_splits)
qed simp

lemma insert_links_processing: "insert_links lib gen now ps d = Inr d' \<Longrightarrow> processing d' i \<Longrightarrow> processing d i"
proof (induction ps arbitrary: d)
  case (Cons p ps)
  have "processing (d\<lparr>evidence_projection_links := evidence_projection_links d @ [pending_link (gen d) now p]\<rparr>) i = processing d i"
    by (auto simp: processing_def get_link_def find_append pending_link_def split: option.splits)
  with Cons show ?case by (auto simp: bindR_Inr_iff Let_def split: if_splits)
qed simp

lemma settles_refl: "\<not> processing d i \<Longrightarrow> settles i d d"
  by (simp add: settles_def)

lemma not_claimed:
  "get_link d i = None \<Longrightarrow> \<not> processing d i" "get_link d i = Some l \<Longrightarrow> epl_status l \<noteq> Link_PROCESSING \<Longrightarrow> \<not> processing d i"
  by (simp_all add: processing_def)

lemma terminal_settles:
  assumes "terminal lib i code now d = Inr d'"
  shows "settles i d d'"
proof (cases "get_link d i")
  case (Some l)
  show ?thesis
  proof (cases "epl_status l = Link_PROCESSING")
    case True
    then show ?thesis using assms Some get_link_in [OF Some] by (auto simp: terminal_def intro: update_link_settles)
  qed (use assms Some in \<open>simp add: terminal_def settles_refl not_claimed\<close>)
qed (use assms in \<open>simp add: terminal_def settles_refl not_claimed\<close>)

lemma retry_settles:
  assumes "handoff_retry lib m delay i code now d = Inr (r, d')"
  shows "settles i d d' \<and> r \<in> {''blocked'', ''retry''}"
proof (cases "get_link d i")
  case (Some l)
  have st: "epl_status (retry_link m delay code now l) \<noteq> Link_PROCESSING" by (simp add: retry_link_def)
  show ?thesis
  proof (cases "epl_status l = Link_PROCESSING")
    case True
    then show ?thesis using assms Some get_link_in [OF Some]
      by (auto simp: handoff_retry_def bindR_Inr_iff split: if_splits intro: update_link_settles [OF _ _ st])
  qed (use assms Some in \<open>simp add: handoff_retry_def settles_refl not_claimed\<close>)
qed (use assms in \<open>simp add: handoff_retry_def settles_refl not_claimed\<close>)

lemma link_transaction_settles:
  assumes "link_transaction lib gen now i d d = Inr r"
  shows "settles i d (case r of None \<Rightarrow> d | Some d' \<Rightarrow> d')"
proof (cases r)
  case None
  then have "first_look lib i d = Inr None"
    using assms by (cases "first_look lib i d") (auto simp: link_transaction_def bindR_Inr_iff split: option.splits)
  then have "\<not> processing d i"
    by (auto simp: first_look_def processing_def bindR_Inr_iff split: option.splits if_splits)
  then show ?thesis by (simp add: None settles_refl)
next
  case (Some d')
  obtain p raw ob link where g: "get_link d i = Some link" "complete_link lib gen now link p ob raw d = Inr d'"
    by (rule link_transaction_cases [OF assms [unfolded Some]])
  from complete_link_frame [OF g(2)] obtain c e d2 where f: "evidence_projection_links d2 = evidence_projection_links d"
    and u: "update_link lib link (linked_link d2 now e c link) d2 = Inr d'" by metis
  have "settles i d2 d'" using get_link_in [OF g(1)] by (intro update_link_settles [OF u]) (simp_all add: linked_link_def)
  moreover have "processing d2 = processing d" using f by (simp add: processing_def get_link_def fun_eq_iff)
  ultimately show ?thesis by (simp add: Some settles_def)
qed

lemma link_one_settles:
  assumes "link_one lib m delay gen fault now i d d = Inr (r, d')"
  shows "settles i d d' \<and> r \<in> {''linked'', ''blocked'', ''retry''}"
proof -
  let ?t = "case fault of Some s \<Rightarrow> Inl (SQLAlchemyError s) | None \<Rightarrow> link_transaction lib gen now i d d"
  show ?thesis
  proof (cases ?t)
    case (Inr x)
    then have "link_transaction lib gen now i d d = Inr x" by (auto split: option.splits)
    then have "settles i d (case x of None \<Rightarrow> d | Some d' \<Rightarrow> d')" by (rule link_transaction_settles)
    with Inr assms show ?thesis by (auto simp: link_one_def split: option.splits)
  next
    case (Inl e)
    with assms show ?thesis
      by (cases e) (auto simp: link_one_def bindR_Inr_iff split: if_splits dest: terminal_settles retry_settles)
  qed
qed

lemma settle_one_settles:
  "settle_one lib m delay gen faults now i d = Inr (r, d') \<Longrightarrow> settles i d d' \<and> r \<in> {''linked'', ''blocked'', ''retry''}"
  by (auto simp: settle_one_def split: sum.splits dest: link_one_settles retry_settles)

lemma settle_all_settles:
  assumes "settle_all lib m delay gen faults now ids d = (Inr rs, d')"
  shows "length rs = length ids \<and> set rs \<subseteq> {''linked'', ''blocked'', ''retry''}
    \<and> (\<forall>j. processing d' j \<longrightarrow> processing d j \<and> j \<notin> set ids)"
  using assms
proof (induction ids arbitrary: d rs)
  case (Cons i ids)
  obtain r d1 where one: "settle_one lib m delay gen faults now i d = Inr (r, d1)"
    using Cons.prems by (cases "settle_one lib m delay gen faults now i d") auto
  obtain rs1 where rest: "settle_all lib m delay gen faults now ids d1 = (Inr rs1, d')" "rs = r # rs1"
    using Cons.prems one by (auto simp: bindR_Inr_iff split: prod.splits)
  from settle_one_settles [OF one] Cons.IH [OF rest(1)] show ?case unfolding rest(2) settles_def by auto
qed simp

lemma count_results:
  "set rs \<subseteq> {''linked'', ''blocked'', ''retry''} \<Longrightarrow>
     count_list rs ''linked'' + count_list rs ''blocked'' + count_list rs ''retry'' = length rs"
  by (induction rs) auto

subsection \<open>A projection that is no longer ready\<close>

lemma trigger_not_ready:
  assumes "\<not> (\<exists>p. get_projection (base d) (epl_safe_fact_projection_id new) = Some p \<and> sfp_processing_status p = Proj_READY)"
  shows "\<exists>e. link_triggers lib d old new = Inl e"
proof (rule ccontr)
  assume "\<not> ?thesis"
  then obtain u where "link_triggers lib d old new = Inr u" by (cases "link_triggers lib d old new") auto
  then show False
    using assms by (auto simp: link_triggers_def bindR_Inr_iff r8a_evidence_projection_link_guard_def raise_exception_def
        split: option.splits if_splits)
qed

lemma update_link_not_ready:
  "\<not> (\<exists>p. get_projection (base d) (epl_safe_fact_projection_id new) = Some p \<and> sfp_processing_status p = Proj_READY) \<Longrightarrow>
     \<exists>e. update_link lib old new d = Inl e"
  using trigger_not_ready [of d new lib "Some old"] by (auto simp: update_link_def bindR_Inl_iff)

lemma update_links_not_ready:
  assumes "l \<in> set rows" and "epl_safe_fact_projection_id (f l) = epl_safe_fact_projection_id l"
    and "\<not> (\<exists>p. get_projection (base d) (epl_safe_fact_projection_id l) = Some p \<and> sfp_processing_status p = Proj_READY)"
  shows "\<exists>e. update_links lib f rows d = Inl e"
  using assms
proof (induction rows arbitrary: d)
  case (Cons x rows)
  show ?case
  proof (cases "update_link lib x (f x) d")
    case (Inr d1)
    then have d1: "d1 = put_projection_link (f x) d" by (simp add: update_link_Inr)
    have "x \<noteq> l" using update_link_not_ready [of d "f l" lib l] Cons.prems(2,3) Inr by auto
    then have "l \<in> set rows" using Cons.prems(1) by auto
    then show ?thesis using Cons.IH [of d1] Cons.prems(2,3) Inr by (simp add: d1)
  qed simp
qed simp

subsection \<open>Properties\<close>

text \<open>Property C3.  However handoff workers, their crashes and the writes of other code interleave, in every reachable state the link
  table satisfies its constraints and unique indexes, attempts never exceed the configured maximum and a retried link has attempts left,
  a linked row refers to evidence of the raw record and provider of its ready projection, every linked evidence item has a canonical link,
  and all linked projections of one raw record and provider share one evidence item.\<close>

theorem handoff_reachable_ok:
  assumes "1 \<le> max_attempts" and "reach links_init (handoff_step lib max_attempts) d"
  shows "links_inv max_attempts d"
proof -
  have "reach (\<lambda>d. 1 \<le> max_attempts \<and> links_init d) (handoff_step lib max_attempts) d"
    using assms(2) assms(1) by (induction rule: reach.induct) (auto intro: reach.intros)
  then show ?thesis using links.reach_inv by blast
qed

text \<open>Property C4.  A linked association is permanent: after any further handoff transactions and any writes that the immutability
  triggers let pass, the link is still there and linked, it refers to the same evidence row, and its projection has the same content
  (only its update time may differ).\<close>

theorem linked_association_forever:
  assumes "1 \<le> max_attempts" and "links_inv max_attempts d" and "(handoff_step lib max_attempts)\<^sup>*\<^sup>* d d'"
    and "linked_fact (l, p, e) d"
  shows "linked_fact (l, p, e) d'"
  using links_stable.steps_fact [OF assms(3)] assms by blast

text \<open>Property C28.  The projection worker and the handoff compose: no transaction of the projection worker and no insertion of a projection
  is refused by a trigger of the handoff, so each is one of the external writes under which linked associations persist.\<close>

theorem projection_worker_respects_links:
  assumes "iso_laws lib" and "1 \<le> projection_attempts" and "links_inv max_attempts d" and "projections_inv lib projection_attempts (base d)"
    and "projection_step lib projection_attempts (base d) after"
  shows "handoff_step lib max_attempts d (d\<lparr>safe_fact_projections := safe_fact_projections after\<rparr>)"
  using projection_step_external [OF assms] by (rule step_external)

text \<open>A batch that returns accounts for every claim as linked, blocked or retried, and leaves no claim of its own behind: a link
  that is still being processed afterwards was being processed before.\<close>

theorem handoff_batch_settles:
  assumes "handoff_process_batch lib locked max_attempts stale_after retry_delay gen faults now limit d = (Inr report, d')"
  shows "ehr_linked report + ehr_blocked report + ehr_retried report = ehr_claimed report
    \<and> {i. processing d' i} \<subseteq> {i. processing d i}"
proof -
  obtain n d1 d2 claimed d3 rs where rec: "handoff_recover_stale lib locked max_attempts stale_after now (nat limit) d = Inr (n, d1)"
    and dis: "discover_ready lib gen now (nat limit) d1 = Inr d2" and cl: "handoff_claim lib locked (nat limit) now d2 = Inr (claimed, d3)"
    and all: "settle_all lib max_attempts retry_delay gen faults now claimed d3 = (Inr rs, d')"
    and rep: "ehr_claimed report = length claimed" "ehr_linked report = count_list rs ''linked''"
      "ehr_blocked report = count_list rs ''blocked''" "ehr_retried report = count_list rs ''retry''"
    using assms by (auto simp: handoff_process_batch_def bindR_Inr_iff Let_def split: if_splits sum.splits prod.splits)
  note set = settle_all_settles [OF all]
  have "processing d i" if "processing d' i" for i
  proof -
    have i: "processing d3 i" "i \<notin> set claimed" using set that by blast+
    have "update_links lib (claim_link now) (links_to_claim locked (nat limit) now d2) d2 = Inr d3"
      and ids: "claimed = map epl_id (links_to_claim locked (nat limit) now d2)"
      using cl by (auto simp: handoff_claim_def Let_def bindR_Inr_iff)
    from update_links_processing [OF this(1) _ i(1)] i(2) have "processing d2 i" unfolding ids by auto
    then have "processing d1 i" using insert_links_processing dis by (simp add: discover_ready_def)
    moreover have "update_links lib (recover_link max_attempts now) (stale_links locked stale_after now (nat limit) d) d = Inr d1"
      using rec by (auto simp: handoff_recover_stale_def Let_def bindR_Inr_iff)
    moreover have "epl_status (recover_link max_attempts now l) \<noteq> Link_PROCESSING" for l by (simp add: recover_link_def)
    ultimately show ?thesis using update_links_processing by (metis row_rewrite_ids(1))
  qed
  then have "{i. processing d' i} \<subseteq> {i. processing d i}" by blast
  with set count_results [of rs] show ?thesis by (simp add: rep)
qed

text \<open>Property C29.  A claim that goes stale while its projection is not ready stops the worker: the trigger refuses the rewrite of that
  link, the recovery transaction is rolled back, and every batch raises before it claims anything.\<close>

theorem unready_claim_stops_batches:
  assumes "1 \<le> limit" and "limit \<le> 500" and "l \<in> set (stale_links locked stale_after now (nat limit) d)"
    and "\<not> (\<exists>p. get_projection (base d) (epl_safe_fact_projection_id l) = Some p \<and> sfp_processing_status p = Proj_READY)"
  shows "\<exists>e. handoff_process_batch lib locked max_attempts stale_after retry_delay gen faults now limit d = (Inl e, d)"
proof -
  have "\<exists>e. update_links lib (recover_link max_attempts now) (stale_links locked stale_after now (nat limit) d) d = Inl e"
    by (rule update_links_not_ready [OF assms(3) _ assms(4)]) (simp add: recover_link_def)
  then show ?thesis using assms(1,2) by (auto simp: handoff_process_batch_def handoff_recover_stale_def Let_def)
qed

subsection \<open>Closed instances\<close>

definition handoff_db :: event_db where
  "handoff_db = db.extend (empty_db\<lparr>
     sources := [sample_source\<lparr>src_access_method := ''finnhub'', src_retention_class := ''metadata_only''\<rparr>],
     source_accounts := [sample_account],
     collection_runs := [sample_run\<lparr>run_target_id := None\<rparr>],
     raw_items := [\<lparr>raw_id = ''r1'', raw_source_id = ''s1'', raw_source_account_id = Some ''a1'', raw_collection_run_id = ''run1'',
       raw_external_id = Some ''AAPL:1'', raw_fetched_at = 6, raw_http_status = None, raw_content_type = None, raw_payload_location = None,
       raw_payload_hash = None, raw_retention_class = ''metadata_only'', raw_parse_status = Parse_PENDING, raw_created_at = 6\<rparr>],
     raw_item_observations := [\<lparr>obs_id = ''o1'', obs_collection_run_id = ''run1'', obs_raw_item_id = ''r1'', obs_target_id = None,
       obs_source_id = ''s1'', obs_source_account_id = Some ''a1'', obs_provider = ''finnhub'', obs_operation_key = ''quote'',
       obs_config_revision = None, obs_provider_contract_version = 1, obs_observed_at = 6, obs_observation_key = ''k1'',
       obs_projection_hash = sample_hash, obs_observation_kind = FIRST_SEEN, obs_created_at = 6\<rparr>],
     safe_fact_projections := [sample_ready]\<rparr>) (event_db.fields [] [] [] [])"

abbreviation sample_discovery :: "event_db \<Rightarrow> event_db res" where
  "sample_discovery \<equiv> discover_ready sample_lib (\<lambda>_. ''x1'') 20 10"
abbreviation sample_link_claim :: "event_db \<Rightarrow> (uuid list \<times> event_db) res" where
  "sample_link_claim \<equiv> handoff_claim sample_lib (\<lambda>_. False) 10 20"
abbreviation sample_link_one :: "event_db \<Rightarrow> event_db option res" where
  "sample_link_one d \<equiv> link_transaction sample_lib (\<lambda>_. ''x1'') 20 ''x1'' d d"
abbreviation sample_handoff :: "event_db \<Rightarrow> EvidenceHandoffReport res \<times> event_db" where
  "sample_handoff \<equiv> handoff_process_batch sample_lib (\<lambda>_. False) 3 600000000 60000000 (\<lambda>_. ''x1'') (\<lambda>_. None) 20 10"

definition pending_row :: EvidenceProjectionLink where "pending_row = pending_link ''x1'' 20 sample_ready"
definition processing_row :: EvidenceProjectionLink where
  "processing_row = pending_row\<lparr>epl_status := Link_PROCESSING, epl_attempt_count := 1\<rparr>"
definition linked_row :: EvidenceProjectionLink where
  "linked_row = processing_row\<lparr>epl_evidence_item_id := Some ''x1'', epl_status := Link_LINKED, epl_linked_at := Some 20, epl_canonical_evidence := True\<rparr>"

definition quote_policy :: FactualOperationPolicy where "quote_policy = projr (factual_operation_policy ''finnhub'' ''quote'' None)"

definition quote_evidence :: EvidenceItem where
  "quote_evidence = new_evidence ''x1'' 20 quote_policy sample_ready (hd (raw_item_observations handoff_db)) (hd (raw_items handoff_db)) None ''AAPL:1'' 1000000"

definition discovered_db :: event_db where "discovered_db = handoff_db\<lparr>evidence_projection_links := [pending_row]\<rparr>"
definition claimed_db :: event_db where "claimed_db = handoff_db\<lparr>evidence_projection_links := [processing_row]\<rparr>"
definition evidenced_db :: event_db where "evidenced_db = claimed_db\<lparr>evidence_items := [quote_evidence]\<rparr>"
definition linked_db :: event_db where "linked_db = evidenced_db\<lparr>evidence_projection_links := [linked_row]\<rparr>"

lemma sample_tables [simp]:
  "evidence_projection_links handoff_db = []" "evidence_items handoff_db = []" "safe_fact_projections handoff_db = [sample_ready]"
  "evidence_projection_links discovered_db = [pending_row]"
  "evidence_projection_links claimed_db = [processing_row]" "evidence_items claimed_db = []" "content_items claimed_db = []"
  "evidence_projection_links evidenced_db = [processing_row]"
  "evidence_projection_links linked_db = [linked_row]" "evidence_items linked_db = [quote_evidence]" "safe_fact_projections linked_db = [sample_ready]"
  by (simp_all add: handoff_db_def discovered_db_def claimed_db_def evidenced_db_def linked_db_def db.defs event_db.defs empty_db_def)

lemma sample_rows [simp]:
  "epl_id pending_row = ''x1''" "epl_id processing_row = ''x1''" "epl_id linked_row = ''x1''" "claim_link 20 pending_row = processing_row"
  by (simp_all add: pending_row_def processing_row_def linked_row_def pending_link_def claim_link_def)

lemma sample_discovered: "sample_discovery handoff_db = Inr discovered_db"
proof -
  have "get_observation handoff_db (sfp_observation_id sample_ready) \<noteq> None" by code_simp
  then have "ready_unlinked 10 handoff_db = [sample_ready]" by (simp add: ready_unlinked_def)
  moreover have "link_triggers sample_lib handoff_db None pending_row = Inr ()" by code_simp
  moreover have "links_ok [pending_row]" by code_simp
  ultimately show ?thesis by (simp add: discover_ready_def discovered_db_def flip: pending_row_def)
qed

lemma sample_link_claimed: "sample_link_claim discovered_db = Inr ([''x1''], claimed_db)"
proof -
  have "due_link discovered_db 20 pending_row" by code_simp
  then have rows: "links_to_claim (\<lambda>_. False) 10 20 discovered_db = [pending_row]" by (simp add: links_to_claim_def)
  have "link_triggers sample_lib discovered_db (Some pending_row) processing_row = Inr ()" by code_simp
  moreover have "links_ok [processing_row]" by code_simp
  moreover have "put_projection_link processing_row discovered_db = claimed_db"
    by (simp add: put_projection_link_def update_where_def discovered_db_def claimed_db_def)
  ultimately have "update_link sample_lib pending_row processing_row discovered_db = Inr claimed_db" by (simp add: update_link_Inr)
  then show ?thesis by (simp add: handoff_claim_def rows)
qed

lemma sample_evidenced:
  "handoff_evidence sample_lib (\<lambda>_. ''x1'') 20 sample_ready (hd (raw_item_observations handoff_db)) (hd (raw_items handoff_db)) None claimed_db
     = Inr (quote_evidence, evidenced_db)"
proof -
  have pol: "factual_operation_policy (sfp_provider sample_ready) (sfp_operation_key sample_ready) None = Inr quote_policy" by code_simp
  have fld: "dindex (sfp_factual_payload sample_ready) ''provider_item_id'' = Inr (JStr ''AAPL:1'')"
    "dindex (sfp_factual_payload sample_ready) ''published_at'' = Inr (JStr later_text)" by code_simp+
  have str: "py_str sample_lib (JStr ''AAPL:1'') = ''AAPL:1''" "iso_time sample_lib (JStr later_text) = Inr 1000000" by code_simp+
  have "r8a_evidence_content_policy_guard quote_evidence = Inr ()" "ck_evidence_items quote_evidence" "uq_evidence_items [quote_evidence]"
    "evidence_widths quote_evidence" by code_simp+
  then have "add_evidence quote_evidence claimed_db = Inr (quote_evidence, evidenced_db)" by (simp add: add_evidence_def evidenced_db_def)
  then show ?thesis by (simp add: handoff_evidence_def pol fld str flip: quote_evidence_def)
qed

lemma sample_link_linked: "sample_link_one claimed_db = Inr (Some linked_db)"
proof -
  let ?raw = "hd (raw_items handoff_db)" and ?ob = "hd (raw_item_observations handoff_db)"
  have "first_look sample_lib ''x1'' claimed_db = Inr (Some (sample_ready, ?raw, ?ob))" by code_simp
  moreover have "link_locked sample_lib (\<lambda>_. ''x1'') 20 ''x1'' (sample_ready, ?raw, ?ob) claimed_db = Inr linked_db"
  proof -
    have rows: "get_raw claimed_db (raw_id ?raw) = Some ?raw" "get_projection (base claimed_db) ''p1'' = Some sample_ready"
      "get_observation claimed_db (obs_id ?ob) = Some ?ob" by code_simp+
    have link: "get_link claimed_db ''x1'' = Some processing_row" "epl_status processing_row = Link_PROCESSING"
      by (simp_all add: get_link_def) (simp add: processing_row_def)
    have pol: "locked_policy sample_lib sample_ready ?ob = Inr quote_policy" by code_simp
    have prov: "provenance_ok quote_policy sample_ready ?raw ?ob (get_source (base claimed_db) (raw_source_id ?raw))
       (get_run (base claimed_db) (obs_collection_run_id ?ob)) (Option.bind (raw_source_account_id ?raw) (get_account (base claimed_db)))
       (Option.bind (obs_target_id ?ob) (get_target (base claimed_db)))" by code_simp
    have content: "handoff_content sample_lib (\<lambda>_. ''x1'') 20 sample_ready ?raw claimed_db = Inr (None, claimed_db)"
    proof -
      have "factual_operation_policy (sfp_provider sample_ready) (sfp_operation_key sample_ready) None = Inr quote_policy"
        "fop_content quote_policy = None" by code_simp+
      then show ?thesis by (simp add: handoff_content_def)
    qed
    have new: "linked_link evidenced_db 20 quote_evidence None processing_row = linked_row" by code_simp
    have "link_triggers sample_lib evidenced_db (Some processing_row) linked_row = Inr ()" "links_ok [linked_row]" by code_simp+
    moreover have "put_projection_link linked_row evidenced_db = linked_db"
      by (simp add: put_projection_link_def update_where_def linked_db_def)
    ultimately have "update_link sample_lib processing_row linked_row evidenced_db = Inr linked_db" by (simp add: update_link_Inr)
    then have "complete_link sample_lib (\<lambda>_. ''x1'') 20 processing_row sample_ready ?ob ?raw claimed_db = Inr linked_db"
      by (simp add: complete_link_def content sample_evidenced new)
    then show ?thesis by (simp add: link_locked_def rows link pol prov)
  qed
  ultimately show ?thesis by (simp add: link_transaction_def)
qed

lemma linked_fields [simp]:
  "epl_status linked_row = Link_LINKED" "epl_safe_fact_projection_id linked_row = ''p1''" "epl_evidence_item_id linked_row = Some (evi_id quote_evidence)"
  by (simp_all add: linked_row_def processing_row_def pending_row_def pending_link_def quote_evidence_def new_evidence_def)

lemma sample_handoff_reach: "reach links_init (handoff_step sample_lib 3) linked_db"
proof -
  have "reach links_init (handoff_step sample_lib 3) handoff_db"
    by (rule reach_init) (simp add: links_init_def handoff_db_def db.defs event_db.defs)
  then have "reach links_init (handoff_step sample_lib 3) discovered_db" by (rule reach_step) (rule step_discover [OF sample_discovered])
  then have "reach links_init (handoff_step sample_lib 3) claimed_db" by (rule reach_step) (rule Link_Lifecycle.handoff_step.step_claim [OF sample_link_claimed])
  then show ?thesis by (rule reach_step) (rule step_link [OF _ sample_link_linked], simp add: same_association_def)
qed

lemma sample_links_inv: "links_inv 3 linked_db"
proof -
  have "reach (\<lambda>d. 1 \<le> (3 :: int) \<and> links_init d) (handoff_step sample_lib 3) linked_db"
    using sample_handoff_reach by (induction rule: reach.induct) (auto intro: reach.intros)
  then show ?thesis using links.reach_inv by blast
qed

theorem handoff_reachable_ok_witness:
  "map epl_status (evidence_projection_links linked_db) = [Link_LINKED] \<and> links_inv 3 linked_db"
proof
  show "map epl_status (evidence_projection_links linked_db) = [Link_LINKED]" by simp
  show "links_inv 3 linked_db" by (rule handoff_reachable_ok [OF _ sample_handoff_reach]) simp
qed

theorem linked_association_forever_witness: "\<exists>d. handoff_step sample_lib 3 linked_db d \<and> linked_fact (linked_row, sample_ready, quote_evidence) d"
proof -
  have "links_to_claim (\<lambda>_. False) 10 20 linked_db = []" by (simp add: links_to_claim_def due_link_def)
  then have step: "handoff_step sample_lib 3 linked_db linked_db"
    by (intro Link_Lifecycle.handoff_step.step_claim [of _ "\<lambda>_. False" 10 20 _ "[]"]) (simp add: handoff_claim_def)
  have f: "linked_fact (linked_row, sample_ready, quote_evidence) linked_db"
    by (simp add: linked_links_def evidence_row_def get_projection_def same_facts_refl)
  have "(handoff_step sample_lib 3)\<^sup>*\<^sup>* linked_db linked_db" using step by (rule r_into_rtranclp)
  from linked_association_forever [OF _ sample_links_inv this f] step show ?thesis by auto
qed

definition more_projections :: db where
  "more_projections = (base linked_db)\<lparr>safe_fact_projections := safe_fact_projections (base linked_db) @ [sample_projection\<lparr>sfp_id := ''p2''\<rparr>]\<rparr>"

theorem projection_worker_respects_links_witness:
  "handoff_step sample_lib 3 linked_db (linked_db\<lparr>safe_fact_projections := safe_fact_projections more_projections\<rparr>)"
proof (rule projection_worker_respects_links [OF sample_iso_laws _ sample_links_inv])
  have rows: "safe_fact_projections (base linked_db) = [sample_ready]" by simp
  show "projections_inv sample_lib 3 (base linked_db)" using sample_invariant unfolding projections_inv_def rows by simp
  have "projection_step sample_lib 3 (base linked_db) more_projections"
    unfolding more_projections_def
    by (rule step_insert) (simp_all add: rows [simplified] fresh_projection_def)
  then show "projection_step sample_lib 3 (base linked_db) more_projections" .
qed simp

abbreviation sample_report :: EvidenceHandoffReport where
  "sample_report \<equiv> \<lparr>ehr_claimed = 1, ehr_linked = 1, ehr_blocked = 0, ehr_retried = 0, ehr_recovered = 0\<rparr>"

lemma sample_handoff_batch: "sample_handoff handoff_db = (Inr sample_report, linked_db)"
proof -
  have "stale_links (\<lambda>_. False) 600000000 20 (nat 10) handoff_db = []" by (simp add: stale_links_def handoff_db_def db.defs event_db.defs)
  then have "handoff_recover_stale sample_lib (\<lambda>_. False) 3 600000000 20 (nat 10) handoff_db = Inr (0, handoff_db)"
    by (simp add: handoff_recover_stale_def)
  then show ?thesis
    using sample_discovered sample_link_claimed sample_link_linked
    by (simp add: handoff_process_batch_def settle_one_def link_one_def)
qed

theorem handoff_batch_settles_witness:
  "sample_handoff handoff_db = (Inr sample_report, linked_db) \<and> {i. processing linked_db i} \<subseteq> {i. processing handoff_db i}"
  using handoff_batch_settles [OF sample_handoff_batch] sample_handoff_batch by blast

definition unready_db :: event_db where
  "unready_db = handoff_db\<lparr>safe_fact_projections := [sample_claimed],
     evidence_projection_links := [processing_row]\<rparr>"

theorem unready_claim_stops_batches_witness:
  "\<exists>e. handoff_process_batch sample_lib (\<lambda>_. False) 3 600 60 (\<lambda>_. ''x1'') (\<lambda>_. None) 1000 10 unready_db = (Inl e, unready_db)"
proof (rule unready_claim_stops_batches)
  let ?l = "hd (evidence_projection_links unready_db)"
  have "list_ex (\<lambda>l. l = ?l) (stale_links (\<lambda>_. False) 600 1000 (nat 10) unready_db)" by code_simp
  then show "?l \<in> set (stale_links (\<lambda>_. False) 600 1000 (nat 10) unready_db)" by (simp add: list_ex_iff)
  have "get_projection (base unready_db) (epl_safe_fact_projection_id ?l) = Some sample_claimed" by code_simp
  then show "\<not> (\<exists>p. get_projection (base unready_db) (epl_safe_fact_projection_id ?l) = Some p \<and> sfp_processing_status p = Proj_READY)" by simp
qed simp_all

end
