(* ===== verification/Evidence_Mapping.thy ===== *)
theory Evidence_Mapping
  imports Evidence_Envelope Samples
begin

text \<open>
  The mappers of \<open>evidence/provider_mappings.py\<close>: an item of a provider becomes an envelope that holds digests and presence flags.  A mapped
  envelope fails its validation for one reason only, a missing event time, and its identity is the one that the handoff recomputes.
\<close>

text \<open>The optional arguments of \<open>_base\<close> with their defaults.\<close>

record base_options =
  bo_content_presence :: ContentPresence
  bo_numeric_presence :: NumericPresence
  bo_entity_refs :: "string list"
  bo_asset_refs :: "string list"
  bo_topic_refs :: "string list"
  bo_flags :: EvidenceFlags

definition no_content_presence :: ContentPresence where
  "no_content_presence = \<lparr>cp_has_title = False, cp_has_body = False, cp_has_url = False, cp_has_snippet = False, cp_has_description = False\<rparr>"
definition no_numeric_presence :: NumericPresence where
  "no_numeric_presence = \<lparr>np_has_numeric_value = False, np_numeric_field_count = 0, np_nullable_allowed = False\<rparr>"
definition no_flags :: EvidenceFlags where
  "no_flags = \<lparr>ef_official_source_flag = False, ef_market_data_flag = False, ef_disclosure_flag = False, ef_news_signal_flag = False\<rparr>"

definition base_defaults :: base_options where
  "base_defaults = \<lparr>bo_content_presence = no_content_presence, bo_numeric_presence = no_numeric_presence, bo_entity_refs = [],
     bo_asset_refs = [], bo_topic_refs = [], bo_flags = no_flags\<rparr>"

definition base_envelope ::
  "pylib \<Rightarrow> dict \<Rightarrow> evidence_context \<Rightarrow> string \<Rightarrow> string \<Rightarrow> string \<Rightarrow> string \<Rightarrow> json \<Rightarrow> time option \<Rightarrow> base_options \<Rightarrow> CommonEvidenceEnvelope res" where
  "base_envelope lib item ctx provider item_type source_type evidence_kind id_value event_time opts =
     (let h = stable_hash lib (JObj item); (identity, errors) = provider_id lib id_value; flags = bo_flags opts in
      bindR (observed_at_of_context lib ctx) (\<lambda>observed.
        Inr \<lparr>env_evidence_version = EVIDENCE_VERSION, env_provider = provider, env_provider_item_type = item_type,
             env_source_type = source_type, env_source_priority = source_priority ctx, env_access_level = ''link_only'',
             env_provider_item_id = identity, env_provider_item_hash = Some h, env_canonical_source_reference = None,
             env_observed_at = observed, env_event_time = event_time, env_entity_refs = bo_entity_refs opts,
             env_asset_refs = bo_asset_refs opts, env_topic_refs = bo_topic_refs opts,
             env_dedup_candidate_key = Some (''candidate:'' @ h), env_evidence_kind = evidence_kind, env_evidence_confidence = None,
             env_content_presence = bo_content_presence opts, env_numeric_presence = bo_numeric_presence opts,
             env_official_source_flag = ef_official_source_flag flags, env_market_data_flag = ef_market_data_flag flags,
             env_disclosure_flag = ef_disclosure_flag flags, env_news_signal_flag = ef_news_signal_flag flags,
             env_raw_payload_reference = Some (''internal://evidence/'' @ provider @ ''/'' @ h),
             env_processing_status = (if errors \<noteq> [] then ''blocked'' else ''validated''), env_errors = errors\<rparr>))"

definition map_marketaux_news_to_evidence :: "pylib \<Rightarrow> dict \<Rightarrow> evidence_context \<Rightarrow> CommonEvidenceEnvelope res" where
  "map_marketaux_news_to_evidence lib item ctx =
     base_envelope lib item ctx ''marketaux'' ''marketaux_news'' ''news'' ''news'' (dget item ''uuid'')
       (parse_datetime lib (dget item ''published_at''))
       (base_defaults\<lparr>bo_content_presence := no_content_presence\<lparr>cp_has_title := present (dget item ''title''),
            cp_has_url := present (dget item ''url''), cp_has_snippet := present (dget item ''snippet''),
            cp_has_description := present (dget item ''description'')\<rparr>,
          bo_entity_refs := safe_refs lib ''entity'' (dget item ''entities''),
          bo_topic_refs := safe_refs lib ''topic'' (dget item ''keywords''),
          bo_flags := no_flags\<lparr>ef_news_signal_flag := True\<rparr>\<rparr>)"

definition map_finnhub_quote_to_evidence :: "pylib \<Rightarrow> dict \<Rightarrow> evidence_context \<Rightarrow> CommonEvidenceEnvelope res" where
  "map_finnhub_quote_to_evidence lib item ctx =
     (let n = numeric_count item NUMERIC_QUOTE_FIELDS; symbol = ctx_symbol ctx; timestamp = dget item ''t'' in
      base_envelope lib item ctx ''finnhub'' ''finnhub_quote'' ''market_data'' ''market_data''
        (if present symbol \<and> present timestamp then JList [symbol, timestamp] else JNull) (parse_datetime lib timestamp)
        (base_defaults\<lparr>bo_numeric_presence := no_numeric_presence\<lparr>np_has_numeric_value := n > 0, np_numeric_field_count := n\<rparr>,
           bo_asset_refs := safe_refs lib ''asset'' symbol, bo_flags := no_flags\<lparr>ef_market_data_flag := True\<rparr>\<rparr>))"

definition map_eia_energy_row_to_evidence :: "pylib \<Rightarrow> dict \<Rightarrow> evidence_context \<Rightarrow> CommonEvidenceEnvelope res" where
  "map_eia_energy_row_to_evidence lib item ctx =
     (let n = numeric_count item [''price'', ''value'']; period = dget item ''period'';
          geography = first_truthy (dget item ''stateid'') (dget item ''stateDescription'');
          sector = first_truthy (dget item ''sectorid'') (dget item ''sectorName'') in
      base_envelope lib item ctx ''eia'' ''eia_energy_timeseries'' ''official_energy'' ''energy_official''
        (if present period \<and> present geography \<and> present sector then JList [period, geography, sector] else JNull)
        (parse_datetime lib period)
        (base_defaults\<lparr>bo_numeric_presence := \<lparr>np_has_numeric_value = (n > 0), np_numeric_field_count = n, np_nullable_allowed = True\<rparr>,
           bo_entity_refs := safe_refs lib ''entity'' (JList [dget item ''stateid'', dget item ''stateDescription'']),
           bo_topic_refs := safe_refs lib ''topic'' (JList [dget item ''sectorid'', dget item ''sectorName'']),
           bo_flags := no_flags\<lparr>ef_official_source_flag := True\<rparr>\<rparr>))"

definition first_time :: "pylib \<Rightarrow> json list \<Rightarrow> time option" where
  "first_time lib vs = (case List.map_filter (parse_datetime lib) vs of [] \<Rightarrow> None | t # _ \<Rightarrow> Some t)"

definition map_sec_filing_to_evidence :: "pylib \<Rightarrow> dict \<Rightarrow> evidence_context \<Rightarrow> CommonEvidenceEnvelope res" where
  "map_sec_filing_to_evidence lib item ctx =
     base_envelope lib item ctx ''sec_edgar'' ''sec_filing'' ''disclosure'' ''disclosure'' (dget item ''accessionNumber'')
       (first_time lib (map (dget item) [''acceptanceDateTime'', ''filingDate'', ''reportDate'']))
       (base_defaults\<lparr>bo_content_presence := no_content_presence\<lparr>cp_has_url := present (dget item ''primaryDocument'')\<rparr>,
          bo_asset_refs := safe_refs lib ''asset'' (ctx_ticker ctx), bo_topic_refs := safe_refs lib ''topic'' (dget item ''form''),
          bo_flags := no_flags\<lparr>ef_official_source_flag := True, ef_disclosure_flag := True\<rparr>\<rparr>)"

subsection \<open>Validity of mapped envelopes\<close>

lemmas mapper_defs = map_marketaux_news_to_evidence_def map_finnhub_quote_to_evidence_def map_eia_energy_row_to_evidence_def
  map_sec_filing_to_evidence_def

lemma numeric_count_nonneg [simp]: "0 \<le> numeric_count item names"
  by (simp add: numeric_count_def)

lemma contains_char: "contains m s \<Longrightarrow> c \<in> set m \<Longrightarrow> c \<in> set s"
  using set_mono_sublist by (fastforce simp: contains_iff)

lemma hex_lower: "is_hex c \<Longrightarrow> lower_char c = c"
  by (auto simp: is_hex_def lower_char_def is_digit_def is_upper_def less_eq_char_def)

lemma lower_hex: "hex64 h \<Longrightarrow> lower h = h"
  by (auto simp: hex64_def class_range_def list_all_iff lower_def hex_lower intro: map_idI)

lemma lower_append: "lower (s @ t) = lower s @ lower t"
  by (simp add: lower_def)

lemma has_prefix_append: "has_prefix p (p @ s)"
  by (simp add: has_prefix_iff)

text \<open>A reference that a mapper builds is in lower case and lacks a character of each secret marker.\<close>

lemma internal_reference_chars:
  assumes "hex64 h" and "provider \<in> set Provider_values"
  defines "r \<equiv> ''internal://evidence/'' @ provider @ ''/'' @ h"
  shows "lower r = r" and "CHR ''='' \<notin> set r" and "CHR ''z'' \<notin> set r" and "CHR ''-'' \<notin> set r"
proof -
  have hex: "\<not> is_hex (CHR ''='')" "\<not> is_hex (CHR ''z'')" "\<not> is_hex (CHR ''-'')" by (simp_all add: is_hex_def is_digit_def less_eq_char_def)
  have low: "lower ''internal://evidence/'' = ''internal://evidence/''" "lower ''/'' = ''/''" by code_simp+
  have prov: "lower provider = provider" "CHR ''='' \<notin> set provider" "CHR ''z'' \<notin> set provider" "CHR ''-'' \<notin> set provider"
    using assms(2) by (auto simp: Provider_values_def, code_simp+)
  show "lower r = r" unfolding r_def by (simp only: lower_append low prov(1) lower_hex [OF assms(1)])
  have "is_hex c" if "c \<in> set h" for c using assms(1) that by (auto simp: hex64_def class_range_def list_all_iff)
  then show "CHR ''='' \<notin> set r" and "CHR ''z'' \<notin> set r" and "CHR ''-'' \<notin> set r" unfolding r_def using hex prov by auto
qed

lemma safe_reference_chars:
  assumes "lower s = s" and "CHR ''='' \<notin> set s" and "CHR ''z'' \<notin> set s" and "CHR ''-'' \<notin> set s"
    and "has_prefix ''internal://'' s" and "\<not> has_prefix ''http://'' s" and "\<not> has_prefix ''https://'' s"
  shows "\<not> unsafe_reference s"
proof -
  have "\<not> contains m s" if "m \<in> set SECRET_MARKERS" for m
    using that assms(2-4) contains_char [of m s] by (auto simp: SECRET_MARKERS_def)
  then show ?thesis using assms(1,5-7) by (auto simp: unsafe_reference_def list_ex_iff SAFE_RAW_REFERENCE_PREFIXES_def)
qed

lemma internal_reference_safe:
  assumes "hex64 h" and "provider \<in> set Provider_values"
  shows "\<not> unsafe_reference (''internal://evidence/'' @ provider @ ''/'' @ h)"
  by (rule safe_reference_chars) (simp_all only: internal_reference_chars [OF assms], simp_all)

lemma base_envelope_validates:
  assumes "base_envelope lib item ctx provider t st k identity time opts = Inr env" and "hex64 (stable_hash lib (JObj item))"
    and "map_of PROVIDER_BY_ITEM_TYPE t = Some provider" and "map_of SOURCE_BY_ITEM_TYPE t = Some st"
    and "map_of KIND_BY_ITEM_TYPE t = Some k" and "map_of FLAGS_BY_ITEM_TYPE t = Some (bo_flags opts)"
    and "0 \<le> np_numeric_field_count (bo_numeric_presence opts)"
    and "t \<noteq> ''eia_energy_timeseries'' \<or> np_nullable_allowed (bo_numeric_presence opts)"
  shows "validate_evidence_envelope env = error_unless (time \<noteq> None) ''event_time_missing'' (Some ''event_time'')
      ''Event time is unavailable; no value was inferred.''"
    and "env_event_time env = time" and "env_provider_item_id env = fst (provider_id lib identity)"
proof -
  have t: "t \<in> set ProviderItemType_values" "provider \<in> set Provider_values" "k \<in> set EvidenceKind_values" "st \<in> set SourceType_values"
    using assms(3-5) by (auto simp: item_type_tables enum_values split: if_splits)
  have access: "''link_only'' \<in> set AccessLevel_values" "''validated'' \<in> set ProcessingStatus_values" "''blocked'' \<in> set ProcessingStatus_values"
    by (simp_all add: enum_values)
  let ?h = "stable_hash lib (JObj item)"
  obtain observed where env: "env_evidence_version env = EVIDENCE_VERSION" "env_provider env = provider" "env_provider_item_type env = t"
    "env_source_type env = st" "env_access_level env = ''link_only''" "env_provider_item_hash env = Some ?h" "env_event_time env = time"
    "env_evidence_kind env = k" "env_numeric_presence env = bo_numeric_presence opts" "env_flags env = bo_flags opts"
    "env_raw_payload_reference env = Some (''internal://evidence/'' @ provider @ ''/'' @ ?h)"
    "env_processing_status env \<in> {''blocked'', ''validated''}" "env_errors env = snd (provider_id lib identity)"
    "env_provider_item_id env = fst (provider_id lib identity)"
    using assms(1) by (auto simp: base_envelope_def bindR_Inr_iff Let_def env_flags_def split: prod.splits)
  have enums: "enum_checks env = []" using t access env by (auto simp: enum_checks_def enum_error_def)
  have items: "item_type_checks env = []" using t assms(3-8) env by (simp add: item_type_checks_def error_unless_def)
  have embedded: "list_all validate_embedded_error (env_errors env)"
    by (simp add: env(13) provider_id_def evidence_error_def validate_embedded_error_def safe_code_def SAFE_ERROR_MESSAGES_def
        is_lower_def is_digit_def less_eq_char_def)
  have ref: "validate_raw_payload_reference (env_raw_payload_reference env) = []"
    by (simp only: env(11) validate_raw_payload_reference_def option.case internal_reference_safe [OF assms(2) t(2)] if_False)
  show "validate_evidence_envelope env = error_unless (time \<noteq> None) ''event_time_missing'' (Some ''event_time'')
      ''Event time is unavailable; no value was inferred.''"
    unfolding validate_evidence_envelope_def enums items ref using embedded assms(2,7) env by (simp add: error_unless_def)
  show "env_event_time env = time" "env_provider_item_id env = fst (provider_id lib identity)" by (rule env)+
qed

text \<open>The mapper of a provider.\<close>

definition legacy_mapper :: "pylib \<Rightarrow> string \<Rightarrow> dict \<Rightarrow> evidence_context \<Rightarrow> CommonEvidenceEnvelope res" where
  "legacy_mapper lib provider item ctx =
     (if provider = ''marketaux'' then map_marketaux_news_to_evidence lib item ctx
      else if provider = ''finnhub'' then map_finnhub_quote_to_evidence lib item ctx
      else if provider = ''eia'' then map_eia_energy_row_to_evidence lib item ctx
      else map_sec_filing_to_evidence lib item ctx)"

lemma mapper_table_entries:
  "map_of PROVIDER_BY_ITEM_TYPE ''marketaux_news'' = Some ''marketaux''" "map_of PROVIDER_BY_ITEM_TYPE ''finnhub_quote'' = Some ''finnhub''"
  "map_of PROVIDER_BY_ITEM_TYPE ''eia_energy_timeseries'' = Some ''eia''" "map_of PROVIDER_BY_ITEM_TYPE ''sec_filing'' = Some ''sec_edgar''"
  "map_of SOURCE_BY_ITEM_TYPE ''marketaux_news'' = Some ''news''" "map_of SOURCE_BY_ITEM_TYPE ''finnhub_quote'' = Some ''market_data''"
  "map_of SOURCE_BY_ITEM_TYPE ''eia_energy_timeseries'' = Some ''official_energy''" "map_of SOURCE_BY_ITEM_TYPE ''sec_filing'' = Some ''disclosure''"
  "map_of KIND_BY_ITEM_TYPE ''marketaux_news'' = Some ''news''" "map_of KIND_BY_ITEM_TYPE ''finnhub_quote'' = Some ''market_data''"
  "map_of KIND_BY_ITEM_TYPE ''eia_energy_timeseries'' = Some ''energy_official''" "map_of KIND_BY_ITEM_TYPE ''sec_filing'' = Some ''disclosure''"
  "map_of FLAGS_BY_ITEM_TYPE ''marketaux_news'' = Some (no_flags\<lparr>ef_news_signal_flag := True\<rparr>)"
  "map_of FLAGS_BY_ITEM_TYPE ''finnhub_quote'' = Some (no_flags\<lparr>ef_market_data_flag := True\<rparr>)"
  "map_of FLAGS_BY_ITEM_TYPE ''eia_energy_timeseries'' = Some (no_flags\<lparr>ef_official_source_flag := True\<rparr>)"
  "map_of FLAGS_BY_ITEM_TYPE ''sec_filing'' = Some (no_flags\<lparr>ef_official_source_flag := True, ef_disclosure_flag := True\<rparr>)"
  by (simp_all add: item_type_tables no_flags_def)

lemma legacy_mapper_base:
  assumes "legacy_mapper lib provider item ctx = Inr env" and "hex64 (stable_hash lib (JObj item))"
  shows "validate_evidence_envelope env = error_unless (env_event_time env \<noteq> None) ''event_time_missing'' (Some ''event_time'')
      ''Event time is unavailable; no value was inferred.''"
  using assms
  by (auto simp: legacy_mapper_def mapper_defs Let_def base_defaults_def no_numeric_presence_def mapper_table_entries
      base_envelope_validates(1,2) split: if_splits)

definition mapped_by :: "pylib \<Rightarrow> dict \<Rightarrow> string \<Rightarrow> CommonEvidenceEnvelope \<Rightarrow> bool" where
  "mapped_by lib item p env \<longleftrightarrow>
     env_raw_payload_reference env = Some (''internal://evidence/'' @ p @ ''/'' @ stable_hash lib (JObj item))
     \<and> (\<exists>v. env_provider_item_id env = fst (provider_id lib v))"

lemma base_envelope_identity:
  "base_envelope lib item ctx p t st k identity time opts = Inr env \<Longrightarrow> env_provider_item_id env = fst (provider_id lib identity)"
  by (auto simp: base_envelope_def bindR_Inr_iff Let_def split: prod.splits)

lemma base_envelope_reference:
  assumes "base_envelope lib item ctx p t st k identity time opts = Inr env"
  shows "mapped_by lib item p env"
proof -
  have "env_raw_payload_reference env = Some (''internal://evidence/'' @ p @ ''/'' @ stable_hash lib (JObj item))"
    using assms by (auto simp: base_envelope_def bindR_Inr_iff Let_def split: prod.splits)
  with base_envelope_identity [OF assms] show ?thesis unfolding mapped_by_def by blast
qed

lemma mapper_references:
  "map_marketaux_news_to_evidence lib item ctx = Inr env \<Longrightarrow> mapped_by lib item ''marketaux'' env"
  "map_finnhub_quote_to_evidence lib item ctx = Inr env \<Longrightarrow> mapped_by lib item ''finnhub'' env"
  "map_eia_energy_row_to_evidence lib item ctx = Inr env \<Longrightarrow> mapped_by lib item ''eia'' env"
  "map_sec_filing_to_evidence lib item ctx = Inr env \<Longrightarrow> mapped_by lib item ''sec_edgar'' env"
  unfolding mapper_defs Let_def by (erule base_envelope_reference)+

lemma legacy_mapper_reference:
  assumes "legacy_mapper lib provider item ctx = Inr env"
  obtains p where "p \<in> set Provider_values" and "mapped_by lib item p env"
  using assms mapper_references unfolding legacy_mapper_def Provider_values_def by (metis list.set_intros)

text \<open>The item of a provider and the factual payload of its projection describe the same record: they agree on the identifying values.\<close>

definition same_provider_item :: "string \<Rightarrow> dict \<Rightarrow> dict \<Rightarrow> evidence_context \<Rightarrow> bool" where
  "same_provider_item provider payload item ctx =
     (if provider = ''marketaux''
      then (case normalize_marketaux_provider_identity (dget payload ''provider_item_id'') of Inl _ \<Rightarrow> False | Inr s \<Rightarrow> dget item ''uuid'' = JStr s)
      else if provider = ''finnhub''
      then ctx_symbol ctx = dget payload ''symbol'' \<and> dget item ''t'' = dget payload ''provider_timestamp''
      else if provider = ''eia''
      then dget item ''period'' = dget payload ''period''
        \<and> first_truthy (dget item ''stateid'') (dget item ''stateDescription'') = dget payload ''geography''
        \<and> first_truthy (dget item ''sectorid'') (dget item ''sectorName'') = dget payload ''sector''
      else dget item ''accessionNumber'' = dget payload ''accession_number'')"

subsection \<open>Properties\<close>

text \<open>Property C31.  A mapped envelope is valid unless its event time is missing: the validation of the envelope of any item reports exactly
  that error or nothing, since the flags, kinds, references and embedded errors of the mappers follow the tables of the contract.\<close>

theorem mapped_envelope_valid:
  assumes "legacy_mapper lib provider item ctx = Inr env" and "hex64 (stable_hash lib (JObj item))"
  shows "validate_evidence_envelope env =
    (if env_event_time env = None
     then [evidence_error ''event_time_missing'' (Some ''event_time'') ''Event time is unavailable; no value was inferred.''] else [])"
  using legacy_mapper_base [OF assms] by (simp add: error_unless_def)

text \<open>Property C32.  The identity that the handoff recomputes from a factual payload is the one that the mapper gave the envelope of the
  same record, for each of the four operations of the earlier mapper.\<close>

theorem mapper_identity_is_recomputed:
  assumes "legacy_mapper lib provider item ctx = Inr env" and "same_provider_item provider payload item ctx"
    and "legacy_provider_item_identity lib provider operation_key payload = Inr identity"
  shows "env_provider_item_id env = Some identity"
proof -
  have "provider \<in> {''marketaux'', ''finnhub'', ''eia'', ''sec_edgar''}"
    using assms(3) by (auto simp: legacy_provider_item_identity_def LEGACY_OPAQUE_IDENTITY_OPERATIONS_def split: if_splits)
  then show ?thesis
    using assms by (auto simp: legacy_mapper_def mapper_defs Let_def same_provider_item_def legacy_provider_item_identity_def
      bindR_Inr_iff provider_id_def base_envelope_identity present_def [of "JList _"] split: if_splits sum.splits)
qed

definition sample_item :: dict where
  "sample_item = [(''uuid'', JStr ''a''), (''published_at'', JStr epoch_text), (''title'', JStr ''Title'')]"

definition sample_context :: evidence_context where
  "sample_context = \<lparr>ctx_observed_at = Instant 7, ctx_source_priority = JNull, ctx_symbol = JNull, ctx_ticker = JNull\<rparr>"

definition sample_envelope :: CommonEvidenceEnvelope where
  "sample_envelope = (case legacy_mapper sample_lib ''marketaux'' sample_item sample_context of Inr env \<Rightarrow> env)"

lemma sample_maps:
  "legacy_mapper sample_lib ''marketaux'' sample_item sample_context = Inr sample_envelope" "env_event_time sample_envelope = Some 0"
  "hex64 (stable_hash sample_lib (JObj sample_item))"
  by code_simp+

theorem mapped_envelope_valid_witness: "validate_evidence_envelope sample_envelope = []"
  using mapped_envelope_valid [OF sample_maps(1,3)] sample_maps(2) by simp

theorem mapper_identity_is_recomputed_witness:
  "env_provider_item_id sample_envelope = Some (''provider-item:'' @ sample_hash)"
proof (rule mapper_identity_is_recomputed [OF sample_maps(1)])
  show "same_provider_item ''marketaux'' [(''provider_item_id'', JStr ''a'')] sample_item sample_context" by code_simp
  show "legacy_provider_item_identity sample_lib ''marketaux'' ''news_all'' [(''provider_item_id'', JStr ''a'')]
      = Inr (''provider-item:'' @ sample_hash)" by code_simp
qed

end
