(* ===== verification/Evidence_Write.thy ===== *)
theory Evidence_Write
  imports Evidence_Mapping Link_Guards
begin

text \<open>
  The safe persistence boundary of evidence envelopes (\<open>evidence/write_path.py\<close>): validation, provenance, classification of an existing
  row, and the insert in a nested transaction.

  Between the last read and the insert other sessions may commit: \<open>we_race\<close> is what they do to the database.  \<open>we_read_fault\<close> is an
  exception of the reads and \<open>we_fault\<close> one of the insert that no constraint explains.  The columns that the database fills are
  empty in the row of \<open>evidence_values\<close>.
\<close>

datatype EvidenceWriteStatus = Write_INSERTED | Write_EXISTING | Write_DUPLICATE | Write_BLOCKED | Write_INVALID | Write_FAILED

record EvidenceWriteError =
  ewe_code :: string
  ewe_field :: "string option"
  ewe_safe_message :: string
  ewe_opaque_reference :: "string option"

record EvidenceWriteRequest =
  ewr_envelope :: CommonEvidenceEnvelope
  ewr_source_id :: uuid
  ewr_raw_item_id :: uuid
  ewr_source_account_id :: "uuid option"
  ewr_content_item_id :: "uuid option"

record EvidenceWriteOutcome =
  ewo_status :: EvidenceWriteStatus
  ewo_evidence_item_id :: "uuid option"
  ewo_provider :: string
  ewo_provider_item_hash :: string
  ewo_provider_item_id :: "string option"
  ewo_raw_item_id :: uuid
  ewo_errors :: "EvidenceWriteError list"

record EvidenceWriteSummary =
  ews_input_count :: nat
  ews_inserted_count :: nat
  ews_duplicate_count :: nat
  ews_blocked_count :: nat
  ews_invalid_count :: nat
  ews_failed_count :: nat
  ews_outcomes :: "EvidenceWriteOutcome list"
  ews_safe_errors :: "EvidenceWriteError list"

record write_env =
  we_id :: uuid
  we_now :: time
  we_race :: "event_db \<Rightarrow> event_db"
  we_read_fault :: "exn option"
  we_fault :: "exn option"

subsection \<open>Reads\<close>

definition raw_provenance :: "event_db \<Rightarrow> uuid \<Rightarrow> (uuid \<times> uuid option) option" where
  "raw_provenance d i = map_option (\<lambda>r. (raw_source_id r, raw_source_account_id r)) (get_raw d i)"

definition account_source_id :: "event_db \<Rightarrow> uuid \<Rightarrow> uuid option" where
  "account_source_id d i = map_option acc_source_id (List.find (\<lambda>a. acc_id a = i) (source_accounts d))"

definition content_provenance :: "event_db \<Rightarrow> uuid \<Rightarrow> (uuid \<times> uuid option \<times> uuid) option" where
  "content_provenance d i =
     map_option (\<lambda>c. (cnt_source_id c, cnt_source_account_id c, cnt_raw_item_id c)) (content_row d (Some i))"

definition by_provider_hash :: "event_db \<Rightarrow> string \<Rightarrow> string \<Rightarrow> EvidenceItem option" where
  "by_provider_hash d provider h = List.find (\<lambda>e. evi_provider e = provider \<and> evi_provider_item_hash e = h) (evidence_items d)"

definition by_provider_item_id :: "event_db \<Rightarrow> string \<Rightarrow> string option \<Rightarrow> EvidenceItem option" where
  "by_provider_item_id d provider i =
     (case i of None \<Rightarrow> None
      | Some x \<Rightarrow> List.find (\<lambda>e. evi_provider e = provider \<and> evi_provider_item_id e = Some x) (evidence_items d))"

subsection \<open>Values and outcomes\<close>

definition safe_provider :: "string \<Rightarrow> string" where
  "safe_provider v = (if v \<in> set Provider_values then v else ''unknown'')"

definition request_outcome ::
  "EvidenceWriteRequest \<Rightarrow> EvidenceWriteStatus \<Rightarrow> uuid option \<Rightarrow> EvidenceWriteError list \<Rightarrow> EvidenceWriteOutcome" where
  "request_outcome req status item_id errors =
     \<lparr>ewo_status = status, ewo_evidence_item_id = item_id, ewo_provider = safe_provider (env_provider (ewr_envelope req)),
      ewo_provider_item_hash = text_or_empty (env_provider_item_hash (ewr_envelope req)),
      ewo_provider_item_id = env_provider_item_id (ewr_envelope req), ewo_raw_item_id = ewr_raw_item_id req, ewo_errors = errors\<rparr>"

definition write_error :: "string \<Rightarrow> string option \<Rightarrow> string \<Rightarrow> EvidenceWriteError" where
  "write_error code field_name message =
     \<lparr>ewe_code = code, ewe_field = field_name, ewe_safe_message = message, ewe_opaque_reference = None\<rparr>"

definition stored_error :: "EvidenceWriteError \<Rightarrow> json" where
  "stored_error e = JObj [(''code'', JStr (ewe_code e)),
     (''field'', case ewe_field e of None \<Rightarrow> JNull | Some f \<Rightarrow> JStr f), (''safe_message'', JStr (ewe_safe_message e))]"

definition embedded_error :: "EvidenceError \<Rightarrow> json" where
  "embedded_error e = JObj [(''code'', JStr (ee_code e)),
     (''field'', case ee_field e of None \<Rightarrow> JNull | Some f \<Rightarrow> JStr f), (''safe_message'', JStr (ee_safe_message e))]"

definition presence_values :: "ContentPresence \<Rightarrow> dict" where
  "presence_values p = [(''has_title'', JBool (cp_has_title p)), (''has_body'', JBool (cp_has_body p)), (''has_url'', JBool (cp_has_url p)),
     (''has_snippet'', JBool (cp_has_snippet p)), (''has_description'', JBool (cp_has_description p))]"

definition numeric_values :: "NumericPresence \<Rightarrow> dict" where
  "numeric_values p = [(''has_numeric_value'', JBool (np_has_numeric_value p)), (''numeric_field_count'', JInt (np_numeric_field_count p)),
     (''nullable_allowed'', JBool (np_nullable_allowed p))]"

definition evidence_values :: "EvidenceWriteRequest \<Rightarrow> string option \<Rightarrow> string \<Rightarrow> json list \<Rightarrow> EvidenceItem" where
  "evidence_values req raw_reference processing_status stored_errors =
     (let e = ewr_envelope req in
      \<lparr>evi_id = [], evi_evidence_version = env_evidence_version e, evi_provider = env_provider e,
       evi_provider_item_type = env_provider_item_type e, evi_evidence_kind = env_evidence_kind e, evi_source_type = env_source_type e,
       evi_source_id = ewr_source_id req, evi_source_account_id = ewr_source_account_id req, evi_raw_item_id = ewr_raw_item_id req,
       evi_content_item_id = ewr_content_item_id req, evi_provider_item_id = env_provider_item_id e,
       evi_provider_item_hash = text_or_empty (env_provider_item_hash e), evi_event_time = env_event_time e,
       evi_observed_at = env_observed_at e, evi_access_level = env_access_level e, evi_processing_status = processing_status,
       evi_official_source_flag = env_official_source_flag e, evi_market_data_flag = env_market_data_flag e,
       evi_disclosure_flag = env_disclosure_flag e, evi_news_signal_flag = env_news_signal_flag e,
       evi_content_presence = presence_values (env_content_presence e), evi_numeric_presence = numeric_values (env_numeric_presence e),
       evi_entity_refs = map JStr (env_entity_refs e), evi_asset_refs = map JStr (env_asset_refs e),
       evi_topic_refs = map JStr (env_topic_refs e), evi_raw_payload_reference = raw_reference, evi_errors = stored_errors,
       evi_created_at = 0, evi_updated_at = 0\<rparr>)"

definition equivalent :: "EvidenceItem \<Rightarrow> EvidenceItem \<Rightarrow> bool" where
  "equivalent item v =
     (evi_evidence_version item = evi_evidence_version v \<and> evi_provider item = evi_provider v
      \<and> evi_provider_item_type item = evi_provider_item_type v \<and> evi_evidence_kind item = evi_evidence_kind v
      \<and> evi_source_type item = evi_source_type v \<and> evi_source_id item = evi_source_id v
      \<and> evi_source_account_id item = evi_source_account_id v \<and> evi_raw_item_id item = evi_raw_item_id v
      \<and> evi_content_item_id item = evi_content_item_id v \<and> evi_provider_item_id item = evi_provider_item_id v
      \<and> evi_provider_item_hash item = evi_provider_item_hash v \<and> evi_event_time item = evi_event_time v
      \<and> evi_access_level item = evi_access_level v \<and> evi_processing_status item = evi_processing_status v
      \<and> evi_official_source_flag item = evi_official_source_flag v \<and> evi_market_data_flag item = evi_market_data_flag v
      \<and> evi_disclosure_flag item = evi_disclosure_flag v \<and> evi_news_signal_flag item = evi_news_signal_flag v
      \<and> py_eq (JObj (evi_content_presence item)) (JObj (evi_content_presence v))
      \<and> py_eq (JObj (evi_numeric_presence item)) (JObj (evi_numeric_presence v))
      \<and> py_eq_list (evi_entity_refs item) (evi_entity_refs v) \<and> py_eq_list (evi_asset_refs item) (evi_asset_refs v)
      \<and> py_eq_list (evi_topic_refs item) (evi_topic_refs v) \<and> evi_raw_payload_reference item = evi_raw_payload_reference v
      \<and> py_eq_list (evi_errors item) (evi_errors v))"

definition existing_outcome :: "EvidenceWriteRequest \<Rightarrow> EvidenceItem \<Rightarrow> EvidenceWriteOutcome" where
  "existing_outcome req item =
     \<lparr>ewo_status = Write_EXISTING, ewo_evidence_item_id = Some (evi_id item), ewo_provider = evi_provider item,
      ewo_provider_item_hash = evi_provider_item_hash item, ewo_provider_item_id = evi_provider_item_id item,
      ewo_raw_item_id = ewr_raw_item_id req, ewo_errors = []\<rparr>"

definition conflict_outcome :: "EvidenceWriteRequest \<Rightarrow> string \<Rightarrow> EvidenceWriteOutcome" where
  "conflict_outcome req code =
     request_outcome req Write_FAILED None
       [write_error code (Some (if code = ''provider_hash_conflict'' then ''provider_item_hash'' else ''provider_item_id''))
          ''provider_identity_conflict'']"

definition reference_error :: "string \<Rightarrow> string \<Rightarrow> string \<Rightarrow> uuid \<Rightarrow> EvidenceWriteError" where
  "reference_error code message field_name reference =
     \<lparr>ewe_code = code, ewe_field = Some field_name, ewe_safe_message = message, ewe_opaque_reference = Some reference\<rparr>"

definition not_found :: "string \<Rightarrow> uuid \<Rightarrow> EvidenceWriteError" where
  "not_found = reference_error ''reference_not_found'' ''reference_not_found''"
definition provenance_mismatch :: "string \<Rightarrow> uuid \<Rightarrow> EvidenceWriteError" where
  "provenance_mismatch = reference_error ''provenance_mismatch'' ''provenance_check_failed''"

subsection \<open>Checks\<close>

definition check_account :: "EvidenceWriteRequest \<Rightarrow> event_db \<Rightarrow> EvidenceWriteError option" where
  "check_account req d =
     (case ewr_source_account_id req of
        None \<Rightarrow> None
      | Some a \<Rightarrow>
          (case account_source_id d a of
             None \<Rightarrow> Some (not_found ''source_account_id'' a)
           | Some s \<Rightarrow> if s \<noteq> ewr_source_id req then Some (provenance_mismatch ''source_account_id'' a) else None))"

definition check_content :: "EvidenceWriteRequest \<Rightarrow> event_db \<Rightarrow> EvidenceWriteError option" where
  "check_content req d =
     (case ewr_content_item_id req of
        None \<Rightarrow> None
      | Some c \<Rightarrow>
          (case content_provenance d c of
             None \<Rightarrow> Some (not_found ''content_item_id'' c)
           | Some (s, a, r) \<Rightarrow>
               if s \<noteq> ewr_source_id req \<or> a \<noteq> ewr_source_account_id req \<or> r \<noteq> ewr_raw_item_id req
               then Some (provenance_mismatch ''content_item_id'' c) else None))"

definition validate_provenance :: "EvidenceWriteRequest \<Rightarrow> event_db \<Rightarrow> EvidenceWriteError option" where
  "validate_provenance req d =
     (case raw_provenance d (ewr_raw_item_id req) of
        None \<Rightarrow> Some (not_found ''raw_item_id'' (ewr_raw_item_id req))
      | Some (s, a) \<Rightarrow>
          if s \<noteq> ewr_source_id req \<or> a \<noteq> ewr_source_account_id req then Some (provenance_mismatch ''raw_item_id'' (ewr_raw_item_id req))
          else (case check_account req d of Some e \<Rightarrow> Some e | None \<Rightarrow> check_content req d))"

definition classify_existing :: "EvidenceWriteRequest \<Rightarrow> EvidenceItem \<Rightarrow> event_db \<Rightarrow> EvidenceWriteOutcome option" where
  "classify_existing req v d =
     (case by_provider_hash d (evi_provider v) (evi_provider_item_hash v) of
        Some item \<Rightarrow> Some (if equivalent item v then existing_outcome req item else conflict_outcome req ''provider_hash_conflict'')
      | None \<Rightarrow>
          (case by_provider_item_id d (evi_provider v) (evi_provider_item_id v) of
             None \<Rightarrow> None
           | Some item \<Rightarrow>
               Some (if evi_provider_item_hash item \<noteq> evi_provider_item_hash v then conflict_outcome req ''provider_item_id_conflict''
                     else if equivalent item v then existing_outcome req item
                     else conflict_outcome req ''provider_hash_conflict'')))"

subsection \<open>Writing\<close>

text \<open>The foreign keys of the table.\<close>

definition evidence_references :: "event_db \<Rightarrow> EvidenceItem \<Rightarrow> bool" where
  "evidence_references d e =
     (get_source (base d) (evi_source_id e) \<noteq> None
      \<and> (case get_raw d (evi_raw_item_id e) of None \<Rightarrow> False | Some r \<Rightarrow> raw_source_id r = evi_source_id e)
      \<and> (case evi_source_account_id e of None \<Rightarrow> True | Some a \<Rightarrow> account_source_id d a \<noteq> None)
      \<and> (evi_content_item_id e = None \<or> content_row d (evi_content_item_id e) \<noteq> None))"

definition new_row :: "write_env \<Rightarrow> EvidenceItem \<Rightarrow> EvidenceItem" where
  "new_row env v = v\<lparr>evi_id := we_id env, evi_created_at := we_now env, evi_updated_at := we_now env\<rparr>"

definition insert_item :: "write_env \<Rightarrow> EvidenceItem \<Rightarrow> event_db \<Rightarrow> (EvidenceItem \<times> event_db) res" where
  "insert_item env v d =
     (case we_fault env of
        Some e \<Rightarrow> Inl e
      | None \<Rightarrow>
          bindR (add_evidence (new_row env v) d) (\<lambda>(e, d').
            if evidence_references d e then Inr (e, d') else Inl integrity_error))"

text \<open>The reference that is stored, the processing status, the stored errors and the errors of the outcome.\<close>

definition unsafe_write_error :: EvidenceWriteError where
  "unsafe_write_error = write_error ''raw_payload_reference_unsafe'' (Some ''raw_payload_reference'') ''unsafe_reference_removed''"

definition reference_removed :: "EvidenceWriteRequest \<Rightarrow> bool" where
  "reference_removed req = (validate_raw_payload_reference (env_raw_payload_reference (ewr_envelope req)) \<noteq> [])"

definition stored_reference :: "EvidenceWriteRequest \<Rightarrow> string option" where
  "stored_reference req = (if reference_removed req then None else env_raw_payload_reference (ewr_envelope req))"

definition stored_status :: "EvidenceWriteRequest \<Rightarrow> string" where
  "stored_status req = (if reference_removed req then ''blocked'' else env_processing_status (ewr_envelope req))"

definition request_values :: "EvidenceWriteRequest \<Rightarrow> EvidenceItem" where
  "request_values req =
     evidence_values req (stored_reference req) (stored_status req)
       (map embedded_error (env_errors (ewr_envelope req)) @ (if reference_removed req then [stored_error unsafe_write_error] else []))"

definition validated_copy :: "CommonEvidenceEnvelope \<Rightarrow> string option \<Rightarrow> string \<Rightarrow> CommonEvidenceEnvelope" where
  "validated_copy e raw_reference processing_status =
     e\<lparr>env_raw_payload_reference := raw_reference, env_processing_status := processing_status\<rparr>"

definition write_one :: "write_env \<Rightarrow> EvidenceWriteRequest \<Rightarrow> event_db \<Rightarrow> EvidenceWriteOutcome res \<times> event_db" where
  "write_one env req d =
     (case validate_evidence_envelope (validated_copy (ewr_envelope req) (stored_reference req) (stored_status req)) of
        first # _ \<Rightarrow>
          (Inr (request_outcome req Write_INVALID None
                  [write_error ''envelope_invalid'' (ee_field first) ''envelope_validation_failed'']), d)
      | [] \<Rightarrow>
      (case we_read_fault env of Some e \<Rightarrow> (Inl e, d) | None \<Rightarrow>
      (case validate_provenance req d of
         Some e \<Rightarrow> (Inr (request_outcome req Write_INVALID None [e]), d)
       | None \<Rightarrow>
      (case classify_existing req (request_values req) d of
         Some outcome \<Rightarrow> (Inr outcome, d)
       | None \<Rightarrow>
           let d1 = we_race env d in
           (case insert_item env (request_values req) d1 of
              Inr (item, d2) \<Rightarrow>
                (Inr (request_outcome req (if stored_status req = ''blocked'' then Write_BLOCKED else Write_INSERTED) (Some (evi_id item))
                        (if reference_removed req then [unsafe_write_error] else [])), d2)
            | Inl (SQLAlchemyError m) \<Rightarrow>
                if SQLAlchemyError m = integrity_error
                then (case classify_existing req (request_values req) d1 of
                        Some outcome \<Rightarrow> (Inr outcome, d1)
                      | None \<Rightarrow> (Inr (request_outcome req Write_FAILED None
                                  [write_error ''constraint_rejected'' None ''database_constraint_rejected'']), d1))
                else (Inr (request_outcome req Write_FAILED None
                        [write_error ''database_write_failed'' None ''database_write_failed'']), d1)
            | Inl e \<Rightarrow> (Inl e, d1))))))"

definition failed_outcome :: "EvidenceWriteRequest \<Rightarrow> EvidenceWriteOutcome" where
  "failed_outcome req =
     request_outcome req Write_FAILED None [write_error ''database_write_failed'' None ''database_write_failed'']"

fun write_all :: "(write_env \<times> EvidenceWriteRequest) list \<Rightarrow> event_db \<Rightarrow> EvidenceWriteOutcome list \<times> event_db" where
  "write_all [] d = ([], d)"
| "write_all ((env, req) # items) d =
     (let (r, d1) = write_one env req d; (outcomes, d2) = write_all items d1 in
      ((case r of Inr outcome \<Rightarrow> outcome | Inl _ \<Rightarrow> failed_outcome req) # outcomes, d2))"

definition count_status :: "EvidenceWriteOutcome list \<Rightarrow> EvidenceWriteStatus list \<Rightarrow> nat" where
  "count_status outcomes statuses = length (filter (\<lambda>x. ewo_status x \<in> set statuses) outcomes)"

definition summarize :: "EvidenceWriteOutcome list \<Rightarrow> EvidenceWriteSummary res" where
  "summarize outcomes =
     (let n = count_status outcomes;
          s = \<lparr>ews_input_count = length outcomes, ews_inserted_count = n [Write_INSERTED],
               ews_duplicate_count = n [Write_EXISTING, Write_DUPLICATE], ews_blocked_count = n [Write_BLOCKED],
               ews_invalid_count = n [Write_INVALID], ews_failed_count = n [Write_FAILED], ews_outcomes = outcomes,
               ews_safe_errors = concat (map ewo_errors outcomes)\<rparr> in
      if ews_input_count s \<noteq> ews_inserted_count s + ews_duplicate_count s + ews_blocked_count s + ews_invalid_count s + ews_failed_count s
      then Inl (ValueError ''evidence_write_summary_count_mismatch'') else Inr s)"

definition write_many :: "(write_env \<times> EvidenceWriteRequest) list \<Rightarrow> event_db \<Rightarrow> EvidenceWriteSummary res \<times> event_db" where
  "write_many items d = (let (outcomes, d') = write_all items d in (summarize outcomes, d'))"

end
