(* ===== verification/Evidence_Pipeline.thy ===== *)
theory Evidence_Pipeline
  imports Evidence_Write
begin

text \<open>
  From a stored raw record and a content-free projection to an evidence row (\<open>evidence/orchestration.py\<close>, \<open>projection_store.py\<close>,
  \<open>pipeline_trigger.py\<close>): the projection is validated, mapped to an envelope, validated again and handed to the writer.

  A projection is a JSON object; a tuple of field names is a list.  The observation time carries whether it has a time zone.
\<close>

subsection \<open>Contract\<close>

definition SUPPORTED :: "string list" where
  "SUPPORTED = [''marketaux'', ''finnhub'', ''eia'', ''sec_edgar'']"

definition SAFE_PROJECTION_FIELDS :: "(string \<times> string list) list" where
  "SAFE_PROJECTION_FIELDS =
     [(''marketaux'', [''provider_item_id'', ''published_at'', ''field_names'', ''has_title'', ''has_description'', ''has_snippet'',
        ''has_source_url'', ''payload_hash'', ''payload_reference'']),
      (''finnhub'', [''provider_item_id'', ''published_at'', ''field_names'', ''symbol'', ''numeric_field_count'', ''payload_hash'',
        ''payload_reference'']),
      (''eia'', [''provider_item_id'', ''published_at'', ''field_names'', ''geography'', ''sector'', ''has_numeric_value'', ''payload_hash'',
        ''payload_reference'']),
      (''sec_edgar'', [''provider_item_id'', ''published_at'', ''field_names'', ''ticker'', ''form'', ''has_primary_document'', ''payload_hash'',
        ''payload_reference''])]"

datatype EvidencePipelineStatus = Pipe_WRITTEN | Pipe_DUPLICATE | Pipe_INVALID | Pipe_FAILED | Pipe_SKIPPED

record EvidencePipelineError =
  epe_code :: string
  epe_field :: "string option"
  epe_safe_message :: string

record EvidencePipelineRequest =
  epr_raw_item_id :: uuid
  epr_source_id :: uuid
  epr_source_account_id :: "uuid option"
  epr_provider :: string
  epr_sanitized_projection :: dict
  epr_observed_at :: "time \<times> bool"
  epr_correlation_id :: string

record EvidencePipelineOutcome =
  epo_status :: EvidencePipelineStatus
  epo_raw_item_id :: uuid
  epo_evidence_item_id :: "uuid option"
  epo_safe_errors :: "EvidencePipelineError list"
  epo_provider :: string
  epo_provider_item_hash :: "string option"

definition safe_text :: "json \<Rightarrow> bool" where
  "safe_text v = (case v of JStr s \<Rightarrow> s \<noteq> [] \<and> \<not> secret_search s | _ \<Rightarrow> False)"

definition is_bool :: "json \<Rightarrow> bool" where
  "is_bool v = (case v of JBool _ \<Rightarrow> True | _ \<Rightarrow> False)"

text \<open>\<open>isinstance(v, int)\<close>, which holds of a \<open>bool\<close> too, and the value of such an object as an integer.\<close>

definition int_of :: "json \<Rightarrow> int option" where
  "int_of v = (case v of JInt n \<Rightarrow> Some n | JBool b \<Rightarrow> Some (if b then 1 else 0) | _ \<Rightarrow> None)"

definition common_fields_ok :: "dict \<Rightarrow> bool" where
  "common_fields_ok p =
     (safe_text (dget p ''provider_item_id'') \<and> safe_text (dget p ''published_at'')
      \<and> (case dget p ''field_names'' of JList xs \<Rightarrow> list_all safe_text xs | _ \<Rightarrow> False)
      \<and> (case dget p ''payload_hash'' of JStr h \<Rightarrow> hex64 h | _ \<Rightarrow> False)
      \<and> (case dget p ''payload_reference'' of
           JStr r \<Rightarrow> (has_prefix ''internal://'' r \<or> has_prefix ''capture://'' r \<or> has_prefix ''local-ref://'' r) \<and> \<not> secret_search r
         | _ \<Rightarrow> False))"

definition provider_fields_ok :: "string \<Rightarrow> dict \<Rightarrow> bool" where
  "provider_fields_ok provider p =
     ((provider = ''marketaux'' \<longrightarrow> list_all (\<lambda>k. is_bool (dget p k)) [''has_title'', ''has_description'', ''has_snippet'', ''has_source_url''])
      \<and> (provider = ''finnhub'' \<longrightarrow> safe_text (dget p ''symbol'') \<and> int_of (dget p ''numeric_field_count'') \<noteq> None)
      \<and> (provider = ''eia'' \<longrightarrow> safe_text (dget p ''geography'') \<and> safe_text (dget p ''sector'') \<and> is_bool (dget p ''has_numeric_value''))
      \<and> (provider = ''sec_edgar'' \<longrightarrow> safe_text (dget p ''ticker'') \<and> safe_text (dget p ''form'') \<and> is_bool (dget p ''has_primary_document'')))"

definition validate_provider_projection :: "string \<Rightarrow> dict \<Rightarrow> dict option" where
  "validate_provider_projection provider p =
     (case map_of SAFE_PROJECTION_FIELDS provider of
        None \<Rightarrow> None
      | Some expected \<Rightarrow>
          if keys_of p = set expected \<and> common_fields_ok p \<and> provider_fields_ok provider p then Some p else None)"

definition validate_marketaux_projection :: "dict \<Rightarrow> dict option" where
  "validate_marketaux_projection = validate_provider_projection ''marketaux''"

subsection \<open>Mapping\<close>

definition flag_value :: "dict \<Rightarrow> string \<Rightarrow> json" where
  "flag_value p k = (if truthy (dget p k) then JBool True else JNull)"

text \<open>\<open>item[(..)[index]] = 0\<close> for \<open>index\<close> in \<open>range(n)\<close>; an index past the seven names raises \<open>IndexError\<close>.\<close>

definition quote_fields :: "int \<Rightarrow> dict \<Rightarrow> dict res" where
  "quote_fields n item =
     (if n > 7 then Inl (IndexError ''tuple index out of range'')
      else Inr (fold (\<lambda>k. dput k (JInt 0)) (take (nat n) NUMERIC_QUOTE_FIELDS) item))"

definition map_projection :: "pylib \<Rightarrow> string \<Rightarrow> dict \<Rightarrow> time \<Rightarrow> CommonEvidenceEnvelope res" where
  "map_projection lib provider p observed =
     bindR (dindex p ''published_at'') (\<lambda>published.
       let ctx = \<lparr>ctx_observed_at = Instant observed, ctx_source_priority = JNull, ctx_symbol = JNull, ctx_ticker = JNull\<rparr>;
           item = [(''published_at'', published)] in
       if provider = ''marketaux''
       then map_marketaux_news_to_evidence lib
              (item @ [(''uuid'', dget p ''provider_item_id''), (''title'', flag_value p ''has_title''),
                 (''description'', flag_value p ''has_description''), (''snippet'', flag_value p ''has_snippet''),
                 (''url'', flag_value p ''has_source_url'')]) ctx
       else if provider = ''finnhub''
       then (case int_of (dget p ''numeric_field_count'') of
               None \<Rightarrow> Inl AssertionError
             | Some n \<Rightarrow>
                 bindR (quote_fields n (item @ [(''t'', published)])) (\<lambda>item.
                   map_finnhub_quote_to_evidence lib item (ctx\<lparr>ctx_symbol := dget p ''symbol''\<rparr>)))
       else if provider = ''eia''
       then map_eia_energy_row_to_evidence lib
              (item @ [(''period'', published), (''stateid'', dget p ''geography''), (''sectorid'', dget p ''sector''),
                 (''price'', if truthy (dget p ''has_numeric_value'') then JInt 0 else JNull)]) ctx
       else map_sec_filing_to_evidence lib
              (item @ [(''accessionNumber'', dget p ''provider_item_id''), (''filingDate'', published), (''form'', dget p ''form''),
                 (''primaryDocument'', flag_value p ''has_primary_document'')]) (ctx\<lparr>ctx_ticker := dget p ''ticker''\<rparr>))"

subsection \<open>The pipeline\<close>

definition pipeline_failed :: "EvidencePipelineRequest \<Rightarrow> EvidencePipelineStatus \<Rightarrow> string \<Rightarrow> EvidencePipelineOutcome" where
  "pipeline_failed req status code =
     \<lparr>epo_status = status, epo_raw_item_id = epr_raw_item_id req, epo_evidence_item_id = None,
      epo_safe_errors = [\<lparr>epe_code = code, epe_field = None, epe_safe_message = code\<rparr>],
      epo_provider = (if epr_provider req \<in> set SUPPORTED then epr_provider req else ''unknown''), epo_provider_item_hash = None\<rparr>"

fun pipeline_status :: "EvidenceWriteStatus \<Rightarrow> EvidencePipelineStatus" where
  "pipeline_status Write_INSERTED = Pipe_WRITTEN"
| "pipeline_status Write_EXISTING = Pipe_DUPLICATE"
| "pipeline_status Write_DUPLICATE = Pipe_DUPLICATE"
| "pipeline_status Write_BLOCKED = Pipe_INVALID"
| "pipeline_status Write_INVALID = Pipe_INVALID"
| "pipeline_status Write_FAILED = Pipe_FAILED"

definition pipeline_write_outcome :: "EvidencePipelineRequest \<Rightarrow> EvidenceWriteOutcome \<Rightarrow> EvidencePipelineOutcome" where
  "pipeline_write_outcome req w =
     \<lparr>epo_status = pipeline_status (ewo_status w), epo_raw_item_id = epr_raw_item_id req, epo_evidence_item_id = ewo_evidence_item_id w,
      epo_safe_errors = map (\<lambda>e. \<lparr>epe_code = ewe_code e, epe_field = ewe_field e, epe_safe_message = ewe_safe_message e\<rparr>) (ewo_errors w),
      epo_provider = ewo_provider w, epo_provider_item_hash = Some (ewo_provider_item_hash w)\<rparr>"

definition write_request :: "EvidencePipelineRequest \<Rightarrow> CommonEvidenceEnvelope \<Rightarrow> EvidenceWriteRequest" where
  "write_request req envelope =
     \<lparr>ewr_envelope = envelope, ewr_source_id = epr_source_id req, ewr_raw_item_id = epr_raw_item_id req,
      ewr_source_account_id = epr_source_account_id req, ewr_content_item_id = None\<rparr>"

definition text_of :: "json \<Rightarrow> string" where
  "text_of v = (case v of JStr s \<Rightarrow> s | _ \<Rightarrow> [])"

text \<open>The envelope of a validated projection with the digest and the reference that the projection names; the handler turns \<open>TypeError\<close> and
  \<open>ValueError\<close> into an outcome.\<close>

definition projected_envelope :: "pylib \<Rightarrow> string \<Rightarrow> dict \<Rightarrow> time \<Rightarrow> CommonEvidenceEnvelope res" where
  "projected_envelope lib provider p observed =
     bindR (map_projection lib provider p observed) (\<lambda>e.
       Inr (e\<lparr>env_provider_item_hash := Some (text_of (dget p ''payload_hash'')),
              env_raw_payload_reference := Some (text_of (dget p ''payload_reference''))\<rparr>))"

definition is_type_or_value_error :: "exn \<Rightarrow> bool" where
  "is_type_or_value_error e = (is_ValueError e \<or> (case e of TypeError _ \<Rightarrow> True | _ \<Rightarrow> False))"

definition evidence_process :: "pylib \<Rightarrow> write_env \<Rightarrow> EvidencePipelineRequest \<Rightarrow> event_db \<Rightarrow> EvidencePipelineOutcome res \<times> event_db" where
  "evidence_process lib env req d =
     (if epr_provider req \<notin> set SUPPORTED then (Inr (pipeline_failed req Pipe_SKIPPED ''provider_unsupported''), d)
      else case validate_provider_projection (epr_provider req) (epr_sanitized_projection req) of
        None \<Rightarrow> (Inr (pipeline_failed req Pipe_INVALID ''projection_invalid''), d)
      | Some p \<Rightarrow>
          if \<not> snd (epr_observed_at req) \<or> \<not> safe_text (JStr (epr_correlation_id req))
          then (Inr (pipeline_failed req Pipe_INVALID ''request_invalid''), d)
          else case projected_envelope lib (epr_provider req) p (fst (epr_observed_at req)) of
            Inl e \<Rightarrow> (if is_type_or_value_error e then Inr (pipeline_failed req Pipe_INVALID ''mapping_failed'') else Inl e, d)
          | Inr envelope \<Rightarrow>
              if validate_evidence_envelope envelope \<noteq> [] then (Inr (pipeline_failed req Pipe_INVALID ''envelope_invalid''), d)
              else case write_one env (write_request req envelope) d of
                (Inl e, d') \<Rightarrow> (Inl e, d')
              | (Inr w, d') \<Rightarrow> (Inr (pipeline_write_outcome req w), d'))"

subsection \<open>The projection store and the trigger\<close>

record RawItemEvidenceProjection =
  rep_raw_item_id :: uuid
  rep_source_id :: uuid
  rep_source_account_id :: "uuid option"
  rep_provider :: string
  rep_sanitized_projection :: dict
  rep_observed_at :: "time \<times> bool"
  rep_correlation_id :: string

type_synonym projection_store = "(uuid \<times> RawItemEvidenceProjection) list"

definition store_save :: "RawItemEvidenceProjection \<Rightarrow> projection_store \<Rightarrow> projection_store res" where
  "store_save p items =
     (if validate_provider_projection (rep_provider p) (rep_sanitized_projection p) = None then Inl (ValueError ''projection_invalid'')
      else if \<not> snd (rep_observed_at p) then Inl (ValueError ''projection_observed_at_invalid'')
      else if rep_raw_item_id p \<in> fst ` set items then Inl (ValueError ''projection_already_exists'')
      else Inr (items @ [(rep_raw_item_id p, p)]))"

definition store_get :: "uuid \<Rightarrow> projection_store \<Rightarrow> RawItemEvidenceProjection option" where
  "store_get i items = map_of items i"

record SafeRawItemProjectionSource =
  srp_raw_item_id :: uuid
  srp_source_id :: uuid
  srp_source_account_id :: "uuid option"
  srp_external_id :: "string option"
  srp_fetched_at :: time
  srp_payload_hash :: "string option"
  srp_payload_location :: "string option"

definition read_raw_item :: "event_db \<Rightarrow> uuid \<Rightarrow> SafeRawItemProjectionSource option" where
  "read_raw_item d i =
     map_option (\<lambda>r. \<lparr>srp_raw_item_id = raw_id r, srp_source_id = raw_source_id r, srp_source_account_id = raw_source_account_id r,
       srp_external_id = raw_external_id r, srp_fetched_at = raw_fetched_at r, srp_payload_hash = raw_payload_hash r,
       srp_payload_location = raw_payload_location r\<rparr>) (get_raw d i)"

datatype EvidenceTriggerStatus = Trig_PROCESSED | Trig_INVALID | Trig_FAILED | Trig_SKIPPED

record EvidenceTriggerOutcome =
  eto_status :: EvidenceTriggerStatus
  eto_raw_item_id :: uuid
  eto_pipeline_outcome :: "EvidencePipelineOutcome option"
  eto_safe_errors :: "(string \<times> string) list"

definition trigger_failed :: "uuid \<Rightarrow> EvidenceTriggerStatus \<Rightarrow> string \<Rightarrow> EvidenceTriggerOutcome" where
  "trigger_failed i status code =
     \<lparr>eto_status = status, eto_raw_item_id = i, eto_pipeline_outcome = None, eto_safe_errors = [(code, code)]\<rparr>"

definition option_json :: "string option \<Rightarrow> json" where
  "option_json v = (case v of None \<Rightarrow> JNull | Some s \<Rightarrow> JStr s)"

definition projection_matches :: "SafeRawItemProjectionSource \<Rightarrow> RawItemEvidenceProjection \<Rightarrow> bool" where
  "projection_matches raw p =
     (let values = rep_sanitized_projection p in
      rep_raw_item_id p = srp_raw_item_id raw \<and> rep_source_id p = srp_source_id raw
      \<and> rep_source_account_id p = srp_source_account_id raw
      \<and> rep_provider p \<in> {''marketaux'', ''finnhub'', ''eia'', ''sec_edgar''}
      \<and> dget values ''provider_item_id'' = option_json (srp_external_id raw)
      \<and> dget values ''payload_hash'' = option_json (srp_payload_hash raw)
      \<and> dget values ''payload_reference'' = option_json (srp_payload_location raw))"

definition pipeline_request :: "SafeRawItemProjectionSource \<Rightarrow> RawItemEvidenceProjection \<Rightarrow> EvidencePipelineRequest" where
  "pipeline_request raw p =
     \<lparr>epr_raw_item_id = srp_raw_item_id raw, epr_source_id = srp_source_id raw, epr_source_account_id = srp_source_account_id raw,
      epr_provider = rep_provider p, epr_sanitized_projection = rep_sanitized_projection p, epr_observed_at = rep_observed_at p,
      epr_correlation_id = rep_correlation_id p\<rparr>"

definition evidence_trigger :: "pylib \<Rightarrow> write_env \<Rightarrow> projection_store \<Rightarrow> uuid \<Rightarrow> event_db \<Rightarrow> EvidenceTriggerOutcome \<times> event_db" where
  "evidence_trigger lib env store i d =
     (case read_raw_item d i of
        None \<Rightarrow> (trigger_failed i Trig_INVALID ''raw_item_not_found'', d)
      | Some raw \<Rightarrow>
          (case store_get i store of
             None \<Rightarrow> (trigger_failed i Trig_SKIPPED ''projection_not_found'', d)
           | Some p \<Rightarrow>
               if \<not> projection_matches raw p then (trigger_failed i Trig_INVALID ''projection_mismatch'', d)
               else case evidence_process lib env (pipeline_request raw p) d of
                 (Inl e, d') \<Rightarrow> (trigger_failed i Trig_FAILED ''pipeline_failed'', d')
               | (Inr outcome, d') \<Rightarrow>
                   (\<lparr>eto_status = Trig_PROCESSED, eto_raw_item_id = i, eto_pipeline_outcome = Some outcome, eto_safe_errors = []\<rparr>, d')))"

end
