(* ===== verification/Evidence_Intake.thy ===== *)
theory Evidence_Intake
  imports Evidence_Write
begin

text \<open>
  What the writer of \<open>evidence/write_path.py\<close> promises: a stored request is recognised when it comes again, a batch accounts for every
  request and only appends rows that satisfy the constraints of the table, and a mapped item with an event time is stored.  The secret
  patterns of the validation and of the table differ, which the last property shows.
\<close>

subsection \<open>Stored rows\<close>

lemma py_eq_texts: "py_eq_list (map JStr xs) (map JStr xs)"
  by (induction xs) simp_all

lemma py_eq_embedded: "py_eq_list (map embedded_error es @ xs) (map embedded_error es @ xs) = py_eq_list xs xs"
  by (induction es) (auto simp: embedded_error_def split: option.splits)

lemma equivalent_row: "equivalent (new_row env (request_values req)) (request_values req)"
  by (simp add: equivalent_def new_row_def request_values_def evidence_values_def presence_values_def numeric_values_def Let_def
      py_eq_texts py_eq_embedded stored_error_def unsafe_write_error_def write_error_def)

lemma add_evidence_Inr:
  "add_evidence e d = Inr (x, d') \<longleftrightarrow>
     x = e \<and> d' = d\<lparr>evidence_items := evidence_items d @ [e]\<rparr> \<and> evidence_widths e \<and> r8a_evidence_content_policy_guard e = Inr ()
     \<and> ck_evidence_items e \<and> uq_evidence_items (evidence_items d @ [e])"
  by (auto simp: add_evidence_def bindR_Inr_iff Let_def)

lemma insert_item_Inr:
  "insert_item env v d = Inr (x, d') \<longleftrightarrow>
     we_fault env = None \<and> add_evidence (new_row env v) d = Inr (x, d') \<and> evidence_references d x"
  by (auto simp: insert_item_def bindR_Inr_iff split: option.splits)

text \<open>The outcome of a write that inserts a row.\<close>

definition stores :: "EvidenceWriteOutcome \<Rightarrow> bool" where
  "stores outcome \<longleftrightarrow> ewo_status outcome \<in> {Write_INSERTED, Write_BLOCKED}"

lemma not_stored [simp]:
  "\<not> stores (request_outcome req Write_INVALID i es)" "\<not> stores (request_outcome req Write_FAILED i es)"
  "\<not> stores (existing_outcome req item)" "\<not> stores (conflict_outcome req code)" "\<not> stores (failed_outcome req)"
  by (simp_all add: stores_def request_outcome_def existing_outcome_def conflict_outcome_def failed_outcome_def)

lemma classified_not_stored: "classify_existing req v d = Some outcome \<Longrightarrow> \<not> stores outcome"
  by (auto simp: classify_existing_def split: option.splits if_splits)

lemma write_one_cases:
  assumes "write_one env req d = (r, d')"
  obtains (kept) "d' = d" "\<And>x. r = Inr x \<Longrightarrow> \<not> stores x"
  | (raced) "d' = we_race env d" "\<And>x. r = Inr x \<Longrightarrow> \<not> stores x"
  | (stored) x where "r = Inr x" "stores x" "validate_evidence_envelope (validated_copy (ewr_envelope req) (stored_reference req) (stored_status req)) = []"
      "validate_provenance req d = None" "classify_existing req (request_values req) d = None"
      "insert_item env (request_values req) (we_race env d) = Inr (new_row env (request_values req), d')"
      "ewo_evidence_item_id x = Some (we_id env)"
proof -
  show thesis
  proof (cases "validate_evidence_envelope (validated_copy (ewr_envelope req) (stored_reference req) (stored_status req)) = []
      \<and> we_read_fault env = None \<and> validate_provenance req d = None \<and> classify_existing req (request_values req) d = None")
    case False
    then show thesis
      using assms classified_not_stored by (intro kept) (auto simp: write_one_def split: list.splits option.splits)
  next
    case True
    show thesis
    proof (cases "insert_item env (request_values req) (we_race env d)")
      case (Inr y)
      then obtain item d2 where y: "insert_item env (request_values req) (we_race env d) = Inr (item, d2)" by (cases y) auto
      then have "item = new_row env (request_values req)" by (simp add: insert_item_Inr add_evidence_Inr)
      with True y assms stored show thesis
        by (auto simp: write_one_def stores_def request_outcome_def new_row_def split: if_splits)
    next
      case (Inl e)
      with True show thesis
        using assms classified_not_stored
        by (intro raced) (auto simp: write_one_def Let_def split: exn.splits if_splits option.splits)
    qed
  qed
qed

lemma write_one_stored:
  assumes "write_one env req d = (Inr x, d')" and "stores x"
  shows "validate_evidence_envelope (validated_copy (ewr_envelope req) (stored_reference req) (stored_status req)) = []"
    and "validate_provenance req d = None" and "classify_existing req (request_values req) d = None"
    and "insert_item env (request_values req) (we_race env d) = Inr (new_row env (request_values req), d')"
    and "ewo_evidence_item_id x = Some (we_id env)"
  using assms(2) by (rule_tac write_one_cases [OF assms(1)]; simp)+

lemma find_appended: "(\<And>x. x \<in> set xs \<Longrightarrow> \<not> p x) \<Longrightarrow> p y \<Longrightarrow> List.find p (xs @ [y]) = Some y"
  by (induction xs) auto

lemma stored_row_found:
  assumes "add_evidence e d = Inr (x, d')"
  shows "by_provider_hash d' (evi_provider e) (evi_provider_item_hash e) = Some e"
  unfolding by_provider_hash_def using assms
  by (auto simp: add_evidence_Inr uq_evidence_items_def image_iff intro!: find_appended)

subsection \<open>Other sessions\<close>

text \<open>Other sessions leave the records that a request refers to as they are.\<close>

definition keeps_records :: "event_db \<Rightarrow> event_db \<Rightarrow> bool" where
  "keeps_records d d' \<longleftrightarrow> raw_items d' = raw_items d \<and> source_accounts d' = source_accounts d \<and> content_items d' = content_items d"

lemma validate_provenance_frame:
  assumes "keeps_records d d'"
  shows "validate_provenance req d' = validate_provenance req d"
proof -
  have eq: "raw_provenance d' = raw_provenance d" "account_source_id d' = account_source_id d" "content_provenance d' = content_provenance d"
    using assms by (simp_all add: keeps_records_def fun_eq_iff raw_provenance_def get_raw_def account_source_id_def
      content_provenance_def content_row_def)
  show ?thesis unfolding validate_provenance_def check_account_def check_content_def eq ..
qed

subsection \<open>Acceptance by the table\<close>

lemma error_unless_Nil [simp]: "error_unless ok code f m = [] \<longleftrightarrow> ok"
  by (simp add: error_unless_def)

lemma enum_error_Nil [simp]: "enum_error v allowed code f = [] \<longleftrightarrow> v \<in> set allowed"
  by (simp add: enum_error_def)

lemma flags_of_type:
  assumes "Some (env_flags e) = map_of FLAGS_BY_ITEM_TYPE t" and "evi_provider_item_type x = t"
    and "evi_official_source_flag x = env_official_source_flag e" and "evi_market_data_flag x = env_market_data_flag e"
    and "evi_disclosure_flag x = env_disclosure_flag e" and "evi_news_signal_flag x = env_news_signal_flag e"
  shows "evidence_flags_consistent x"
  using assms by (auto simp: FLAGS_BY_ITEM_TYPE_def env_flags_def evidence_flags_consistent_def Let_def split: if_splits)

text \<open>The constraints of the table follow from the validation, up to the reference, on which the two disagree.\<close>

lemma valid_row_ck:
  assumes "validate_evidence_envelope (validated_copy (ewr_envelope req) (stored_reference req) (stored_status req)) = []"
  shows "ck_evidence_items (new_row env (request_values req)) \<longleftrightarrow> raw_reference_ok (stored_reference req)"
proof -
  let ?e = "ewr_envelope req"
  have v: "env_evidence_version ?e = EVIDENCE_VERSION" "env_provider ?e \<in> set Provider_values" "env_evidence_kind ?e \<in> set EvidenceKind_values"
    "env_provider_item_type ?e \<in> set ProviderItemType_values" "env_source_type ?e \<in> set SourceType_values"
    "env_access_level ?e \<in> set AccessLevel_values" "stored_status req \<in> set ProcessingStatus_values"
    and h: "hex64 (text_or_empty (env_provider_item_hash ?e))"
    and f: "Some (env_flags ?e) = map_of FLAGS_BY_ITEM_TYPE (env_provider_item_type ?e)"
    using assms by (auto simp: validate_evidence_envelope_def enum_checks_def item_type_checks_def validated_copy_def Let_def env_flags_def
      text_or_empty_def split: option.splits if_splits)
  have "evidence_flags_consistent (new_row env (request_values req))"
    by (rule flags_of_type [OF f]) (simp_all add: new_row_def request_values_def evidence_values_def Let_def)
  then show ?thesis
    using v h by (auto simp: ck_evidence_items_def new_row_def request_values_def evidence_values_def Let_def EVIDENCE_VERSION_def enum_values)
qed

lemma no_row_with_hash: "by_provider_hash d p h = None \<Longrightarrow> e \<in> set (evidence_items d) \<Longrightarrow> \<not> (evi_provider e = p \<and> evi_provider_item_hash e = h)"
  unfolding by_provider_hash_def by (rule find_None_all)

lemma no_row_with_id:
  "by_provider_item_id d p (Some i) = None \<Longrightarrow> e \<in> set (evidence_items d) \<Longrightarrow> \<not> (evi_provider e = p \<and> evi_provider_item_id e = Some i)"
  unfolding by_provider_item_id_def option.case by (rule find_None_all)

lemma map_filter_snoc: "List.map_filter f (xs @ [x]) = List.map_filter f xs @ (case f x of None \<Rightarrow> [] | Some y \<Rightarrow> [y])"
  by (simp add: List.map_filter_def split: option.splits)

lemma set_map_filter: "y \<in> set (List.map_filter f xs) \<longleftrightarrow> (\<exists>x\<in>set xs. f x = Some y)"
  by (auto simp: List.map_filter_def) force

lemma unclassified_is_unique:
  assumes "classify_existing req v d = None" and "uq_evidence_items (evidence_items d)" and "we_id env \<notin> evi_id ` set (evidence_items d)"
  shows "uq_evidence_items (evidence_items d @ [new_row env v])"
proof -
  have h: "by_provider_hash d (evi_provider v) (evi_provider_item_hash v) = None" and i: "by_provider_item_id d (evi_provider v) (evi_provider_item_id v) = None"
    using assms(1) by (auto simp: classify_existing_def split: option.splits if_splits)
  have "(evi_provider v, evi_provider_item_hash v) \<notin> (\<lambda>e. (evi_provider e, evi_provider_item_hash e)) ` set (evidence_items d)"
    using no_row_with_hash [OF h] by fastforce
  moreover have "evi_provider_item_id v = Some x \<Longrightarrow>
      (evi_provider v, x) \<notin> set (List.map_filter (\<lambda>e. map_option (\<lambda>i. (evi_provider e, i)) (evi_provider_item_id e)) (evidence_items d))" for x
    using no_row_with_id [of d "evi_provider v" x] i by (auto simp: set_map_filter)
  ultimately show ?thesis
    using assms(2,3) by (auto simp: uq_evidence_items_def new_row_def map_filter_snoc split: option.splits)
qed

lemma like_prefix_chars: "like_prefix m s \<Longrightarrow> c \<in> set m \<Longrightarrow> c \<noteq> CHR ''_'' \<Longrightarrow> c \<in> set s"
  by (induction m s rule: like_prefix.induct) auto

lemma like_contains_chars: "like_contains m s \<Longrightarrow> c \<in> set m \<Longrightarrow> c \<noteq> CHR ''_'' \<Longrightarrow> c \<in> set s"
  by (induction m s rule: like_contains.induct) (auto dest: like_prefix_chars)

lemma reference_ok_chars:
  assumes "like_prefix ''internal://'' s" and "\<not> like_prefix ''http://'' s" and "\<not> like_prefix ''https://'' s"
    and "CHR ''='' \<notin> set s" and "CHR ''z'' \<notin> set s" and "CHR ''-'' \<notin> set s" and "lower s = s"
  shows "raw_reference_ok (Some s)"
proof -
  have "\<not> like_contains m s" if "m \<in> {''api_key='', ''api_token='', ''token='', ''authorization'', ''x-finnhub-token''}" for m
    using that assms(4-6) like_contains_chars [of m s] by auto
  then show ?thesis using assms(1-3) by (simp add: raw_reference_ok_def assms(7))
qed

lemma internal_reference_ok:
  assumes "hex64 h" and "provider \<in> set Provider_values"
  shows "raw_reference_ok (Some (''internal://evidence/'' @ provider @ ''/'' @ h))"
  by (rule reference_ok_chars) (simp_all only: internal_reference_chars [OF assms], simp_all)

text \<open>A valid request with a fresh identity and an acceptable reference passes every check of the table.\<close>

lemma valid_request_inserts:
  assumes "validate_evidence_envelope (validated_copy (ewr_envelope req) (stored_reference req) (stored_status req)) = []"
    and "raw_reference_ok (stored_reference req)" and "evidence_widths (new_row env (request_values req))" and "ewr_content_item_id req = None"
    and "validate_provenance req d = None" and "get_source (base d) (ewr_source_id req) \<noteq> None"
    and "classify_existing req (request_values req) d = None" and "uq_evidence_items (evidence_items d)"
    and "we_id env \<notin> evi_id ` set (evidence_items d)" and "we_fault env = None"
  shows "insert_item env (request_values req) d =
    Inr (new_row env (request_values req), d\<lparr>evidence_items := evidence_items d @ [new_row env (request_values req)]\<rparr>)"
proof -
  let ?row = "new_row env (request_values req)"
  have content: "evi_content_item_id ?row = None"
    using assms(4) by (simp add: new_row_def request_values_def evidence_values_def Let_def)
  have "evidence_references d ?row"
    using assms(5,6) content
    by (auto simp: evidence_references_def validate_provenance_def check_account_def raw_provenance_def new_row_def request_values_def
      evidence_values_def Let_def account_source_id_def split: option.splits if_splits)
  moreover have "add_evidence ?row d = Inr (?row, d\<lparr>evidence_items := evidence_items d @ [?row]\<rparr>)"
    using assms(2,3) valid_row_ck [OF assms(1)] content unclassified_is_unique [OF assms(7-9)]
    by (simp add: add_evidence_Inr r8a_evidence_content_policy_guard_def)
  ultimately show ?thesis using assms(10) by (simp add: insert_item_Inr)
qed

subsection \<open>Batches\<close>

definition quiet :: "write_env \<times> EvidenceWriteRequest \<Rightarrow> bool" where
  "quiet item \<longleftrightarrow> we_race (fst item) = id"

lemma write_all_appends:
  assumes "write_all items d = (outcomes, d')" and "list_all quiet items" and "uq_evidence_items (evidence_items d)"
  shows "\<exists>new. d' = d\<lparr>evidence_items := evidence_items d @ new\<rparr> \<and> length new = length (filter stores outcomes)
    \<and> list_all ck_evidence_items new \<and> uq_evidence_items (evidence_items d @ new)"
  using assms
proof (induction items arbitrary: d outcomes)
  case Nil
  then show ?case by (intro exI [of _ "[]"]) simp
next
  case (Cons item items)
  obtain env req where item: "item = (env, req)" by (cases item)
  obtain r d1 where w: "write_one env req d = (r, d1)" by (cases "write_one env req d")
  let ?x = "case r of Inr outcome \<Rightarrow> outcome | Inl _ \<Rightarrow> failed_outcome req"
  obtain rest where rest: "write_all items d1 = (rest, d')" "outcomes = ?x # rest"
    using Cons.prems(1) by (auto simp: item w split: prod.splits)
  have q: "we_race env = id" using Cons.prems(2) by (simp add: item quiet_def)
  have "\<exists>new. d1 = d\<lparr>evidence_items := evidence_items d @ new\<rparr> \<and> length new = (if stores ?x then 1 else 0)
      \<and> list_all ck_evidence_items new \<and> uq_evidence_items (evidence_items d @ new)"
  proof (cases "stores ?x")
    case True
    then obtain x where x: "r = Inr x" "stores x" by (cases r) auto
    from write_one_stored(4) [OF w [unfolded x(1)] x(2)] x show ?thesis
      by (intro exI [of _ "[new_row env (request_values req)]"]) (simp add: insert_item_Inr add_evidence_Inr q)
  next
    case False
    then have "d1 = d" by (rule_tac write_one_cases [OF w]) (auto simp: q)
    with False Cons.prems(3) show ?thesis by (intro exI [of _ "[]"]) simp
  qed
  then obtain new where new: "d1 = d\<lparr>evidence_items := evidence_items d @ new\<rparr>" "length new = (if stores ?x then 1 else 0)"
    "list_all ck_evidence_items new" "uq_evidence_items (evidence_items d1)" by auto
  have "list_all quiet items" using Cons.prems(2) by simp
  from Cons.IH [OF rest(1) this new(4)] obtain more where
    "d' = d1\<lparr>evidence_items := evidence_items d1 @ more\<rparr>" "length more = length (filter stores rest)"
    "list_all ck_evidence_items more" "uq_evidence_items (evidence_items d1 @ more)" by blast
  with new rest(2) show ?case by (intro exI [of _ "new @ more"]) (auto simp del: split_paired_Ex)
qed

lemma count_statuses:
  "length outcomes = count_status outcomes [Write_INSERTED] + count_status outcomes [Write_EXISTING, Write_DUPLICATE]
     + count_status outcomes [Write_BLOCKED] + count_status outcomes [Write_INVALID] + count_status outcomes [Write_FAILED]"
proof (induction outcomes)
  case (Cons x xs)
  then show ?case by (cases "ewo_status x") (simp_all add: count_status_def)
qed (simp add: count_status_def)

lemma stores_count: "length (filter stores outcomes) = count_status outcomes [Write_INSERTED] + count_status outcomes [Write_BLOCKED]"
proof (induction outcomes)
  case (Cons x xs)
  then show ?case by (cases "ewo_status x") (simp_all add: count_status_def stores_def)
qed (simp add: count_status_def)

lemma write_all_length: "length (fst (write_all items d)) = length items"
  by (induction items d rule: write_all.induct) (auto split: prod.splits)

subsection \<open>Properties\<close>

text \<open>Property C12.  Writing is idempotent: when a request has been stored, the same request finds the row of the first write, reports its
  identifier as existing and leaves the database alone, whatever time or identifier the second attempt would have used.\<close>

theorem stored_request_is_existing:
  assumes "write_one env req d = (Inr outcome, d')" and "stores outcome" and "keeps_records d (we_race env d)"
    and "we_read_fault again = None"
  shows "\<exists>second. write_one again req d' = (Inr second, d') \<and> ewo_status second = Write_EXISTING
    \<and> ewo_evidence_item_id second = ewo_evidence_item_id outcome"
proof -
  let ?v = "request_values req"
  note stored = write_one_stored [OF assms(1,2)]
  then have add: "add_evidence (new_row env ?v) (we_race env d) = Inr (new_row env ?v, d')" by (simp add: insert_item_Inr)
  have "keeps_records d d'" using assms(3) add by (simp add: add_evidence_Inr keeps_records_def)
  then have "validate_provenance req d' = None" using stored(2) validate_provenance_frame by simp
  moreover have "classify_existing req ?v d' = Some (existing_outcome req (new_row env ?v))"
    using stored_row_found [OF add] equivalent_row by (simp add: classify_existing_def new_row_def)
  ultimately show ?thesis
    using stored(1,5) assms(4) by (simp add: write_one_def existing_outcome_def new_row_def)
qed

text \<open>Property C13.  A batch that no other session disturbs always returns a summary that accounts for every request; it changes nothing but the
  evidence table, to which it appends exactly as many rows as it reports inserted or blocked, each within the constraints of the table, and the
  unique indexes still hold.\<close>

theorem write_batch_accounts:
  assumes "write_many items d = (r, d')" and "list_all quiet items" and "uq_evidence_items (evidence_items d)"
  shows "\<exists>s new. r = Inr s \<and> ews_input_count s = length items \<and> d' = d\<lparr>evidence_items := evidence_items d @ new\<rparr>
    \<and> length new = ews_inserted_count s + ews_blocked_count s \<and> list_all ck_evidence_items new
    \<and> uq_evidence_items (evidence_items d')"
proof -
  obtain outcomes where w: "write_all items d = (outcomes, d')" "r = summarize outcomes"
    using assms(1) by (auto simp: write_many_def split: prod.splits)
  from write_all_appends [OF w(1) assms(2,3)] obtain new where new: "d' = d\<lparr>evidence_items := evidence_items d @ new\<rparr>"
    "length new = length (filter stores outcomes)" "list_all ck_evidence_items new" "uq_evidence_items (evidence_items d @ new)" by blast
  have "length outcomes = length items" using write_all_length [of items d] w(1) by simp
  then show ?thesis
    using w(2) new count_statuses [of outcomes] stores_count [of outcomes]
    by (intro exI [of _ "projr (summarize outcomes)"] exI [of _ new]) (simp add: summarize_def Let_def)
qed

text \<open>Property C14.  The mapped item reaches the table: when the item has an event time, its raw record is stored as the request says, and no row has
  its identity, then the writer stores it, whatever the item holds.  The digests are SHA-256 hex texts and the database draws a new identifier.\<close>

theorem mapped_item_is_stored:
  assumes "legacy_mapper lib provider item ctx = Inr (ewr_envelope req)" and "\<forall>s. hex64 (sha256_hex lib s)"
    and "env_event_time (ewr_envelope req) \<noteq> None" and "ewr_content_item_id req = None"
    and "validate_provenance req d = None" and "get_source (base d) (ewr_source_id req) \<noteq> None"
    and "classify_existing req (request_values req) d = None" and "uq_evidence_items (evidence_items d)"
    and "we_id env \<notin> evi_id ` set (evidence_items d)" and "we_race env = id" and "we_read_fault env = None" and "we_fault env = None"
  shows "\<exists>outcome d'. write_one env req d = (Inr outcome, d') \<and> ewo_status outcome \<in> {Write_INSERTED, Write_BLOCKED}
    \<and> evidence_items d' = evidence_items d @ [new_row env (request_values req)]"
proof -
  let ?e = "ewr_envelope req" and ?row = "new_row env (request_values req)"
  have digest: "hex64 (stable_hash lib v)" for v using assms(2) by (simp add: stable_hash_def)
  have valid: "validate_evidence_envelope ?e = []" using legacy_mapper_base [OF assms(1) digest] assms(3) by simp
  from legacy_mapper_reference [OF assms(1)] obtain p v where ref: "p \<in> set Provider_values"
    "env_raw_payload_reference ?e = Some (''internal://evidence/'' @ p @ ''/'' @ stable_hash lib (JObj item))"
    "env_provider_item_id ?e = fst (provider_id lib v)" unfolding mapped_by_def by blast
  have kept: "\<not> reference_removed req" using valid by (simp add: validate_evidence_envelope_def reference_removed_def)
  then have copy: "validated_copy ?e (stored_reference req) (stored_status req) = ?e"
    by (simp add: validated_copy_def stored_reference_def stored_status_def)
  have len: "length (stable_hash lib v) = 64" for v using digest [of v] by (simp add: hex64_def class_range_def)
  then have widths: "evidence_widths ?row"
    unfolding evidence_widths_def using ref kept
    by (auto simp: new_row_def request_values_def evidence_values_def Let_def stored_reference_def provider_id_def opaque_ref_def
        Provider_values_def split: if_splits)
  have ok: "raw_reference_ok (stored_reference req)"
    by (simp only: stored_reference_def kept if_False ref(2) internal_reference_ok [OF digest ref(1)])
  have "insert_item env (request_values req) d = Inr (?row, d\<lparr>evidence_items := evidence_items d @ [?row]\<rparr>)"
    using valid_request_inserts [OF _ ok widths assms(4-9,12)] valid copy by simp
  then show ?thesis
    using assms(5,7,10,11) valid copy by (simp add: write_one_def request_outcome_def)
qed

text \<open>Property C33.  The writer and the table disagree about references: the writer lowers a reference before it looks for an allowed scheme and searches the
  secret markers literally, while the table compares the scheme as written and its \<open>LIKE\<close> patterns take an underscore for any character.  A
  valid envelope whose reference only the table refuses is not stored with the reference removed, as an unsafe reference is: the whole
  request fails with \<open>constraint_rejected\<close>.\<close>

theorem reference_checks_disagree:
  assumes "validate_evidence_envelope (ewr_envelope req) = []" and "\<not> raw_reference_ok (env_raw_payload_reference (ewr_envelope req))"
    and "evidence_widths (new_row env (request_values req))" and "ewr_content_item_id req = None"
    and "validate_provenance req d = None" and "classify_existing req (request_values req) d = None"
    and "we_race env = id" and "we_read_fault env = None" and "we_fault env = None"
  shows "\<exists>outcome. write_one env req d = (Inr outcome, d) \<and> ewo_status outcome = Write_FAILED
    \<and> map ewe_code (ewo_errors outcome) = [''constraint_rejected'']"
proof -
  let ?e = "ewr_envelope req"
  have kept: "\<not> reference_removed req" using assms(1) by (simp add: validate_evidence_envelope_def reference_removed_def)
  then have copy: "validated_copy ?e (stored_reference req) (stored_status req) = ?e"
    by (simp add: validated_copy_def stored_reference_def stored_status_def)
  have "\<not> ck_evidence_items (new_row env (request_values req))"
    using valid_row_ck [of req env, unfolded copy, OF assms(1)] kept assms(2) by (simp add: stored_reference_def)
  moreover have "r8a_evidence_content_policy_guard (new_row env (request_values req)) = Inr ()"
    using assms(4) by (simp add: r8a_evidence_content_policy_guard_def new_row_def request_values_def evidence_values_def Let_def)
  ultimately have "insert_item env (request_values req) d = Inl integrity_error"
    using assms(3,9) by (simp add: insert_item_def add_evidence_def)
  then show ?thesis
    using assms(1,5-8) copy by (simp add: write_one_def request_outcome_def write_error_def)
qed

subsection \<open>Closed instances\<close>

definition intake_db :: event_db where
  "intake_db = db.extend (empty_db\<lparr>sources := [sample_source], source_accounts := [sample_account],
     raw_items := [\<lparr>raw_id = ''r1'', raw_source_id = ''s1'', raw_source_account_id = Some ''a1'', raw_collection_run_id = ''run1'',
       raw_external_id = Some ''a'', raw_fetched_at = 6, raw_http_status = None, raw_content_type = None, raw_payload_location = None,
       raw_payload_hash = None, raw_retention_class = ''link_only'', raw_parse_status = Parse_PENDING, raw_created_at = 6\<rparr>]\<rparr>)
     (event_db.fields [] [] [] [])"

definition intake_env :: write_env where
  "intake_env = \<lparr>we_id = ''e1'', we_now = 9, we_race = id, we_read_fault = None, we_fault = None\<rparr>"

definition intake_request :: "CommonEvidenceEnvelope \<Rightarrow> EvidenceWriteRequest" where
  "intake_request e = \<lparr>ewr_envelope = e, ewr_source_id = ''s1'', ewr_raw_item_id = ''r1'', ewr_source_account_id = Some ''a1'',
     ewr_content_item_id = None\<rparr>"

definition marked_envelope :: CommonEvidenceEnvelope where
  "marked_envelope = sample_envelope\<lparr>env_raw_payload_reference := Some ''internal://cache/api-key=1''\<rparr>"

lemma intake_provenance:
  "validate_provenance (intake_request e) intake_db = None" "classify_existing req v intake_db = None"
  "get_source (base intake_db) ''s1'' \<noteq> None" "evidence_items intake_db = []"
  by (simp_all add: validate_provenance_def check_account_def check_content_def raw_provenance_def account_source_id_def get_raw_def
      intake_db_def intake_request_def db.defs event_db.defs sample_defs classify_existing_def by_provider_hash_def by_provider_item_id_def
      get_source_def split: option.splits)

definition intake_row :: EvidenceItem where
  "intake_row = new_row intake_env (request_values (intake_request sample_envelope))"

lemma intake_write:
  "write_one intake_env (intake_request sample_envelope) intake_db =
     (Inr (request_outcome (intake_request sample_envelope) Write_INSERTED (Some ''e1'') []), intake_db\<lparr>evidence_items := [intake_row]\<rparr>)"
proof -
  let ?req = "intake_request sample_envelope"
  have valid: "validate_evidence_envelope (validated_copy (ewr_envelope ?req) (stored_reference ?req) (stored_status ?req)) = []"
    and ok: "raw_reference_ok (stored_reference ?req)" and widths: "evidence_widths (new_row intake_env (request_values ?req))"
    and st: "stored_status ?req = ''validated''" "\<not> reference_removed ?req"
    by code_simp+
  have "insert_item intake_env (request_values ?req) intake_db =
      Inr (new_row intake_env (request_values ?req), intake_db\<lparr>evidence_items := evidence_items intake_db @ [new_row intake_env (request_values ?req)]\<rparr>)"
    by (rule valid_request_inserts [OF valid ok widths _ _ _ intake_provenance(2)])
      (use intake_provenance in \<open>simp_all add: intake_request_def intake_env_def uq_evidence_items_def List.map_filter_def\<close>)
  then show ?thesis
    using valid st intake_provenance
    by (simp add: write_one_def intake_row_def) (simp add: intake_env_def new_row_def)
qed

theorem stored_request_is_existing_witness:
  "\<exists>second. write_one intake_env (intake_request sample_envelope) (intake_db\<lparr>evidence_items := [intake_row]\<rparr>)
       = (Inr second, intake_db\<lparr>evidence_items := [intake_row]\<rparr>)
     \<and> ewo_status second = Write_EXISTING \<and> ewo_evidence_item_id second = Some ''e1''"
  using stored_request_is_existing [OF intake_write, of intake_env]
  by (simp add: stores_def request_outcome_def keeps_records_def intake_env_def)

theorem write_batch_accounts_witness:
  "\<exists>s d' new. write_many [(intake_env, intake_request sample_envelope), (intake_env, intake_request sample_envelope)] intake_db = (Inr s, d')
     \<and> evidence_items d' = new \<and> length new = ews_inserted_count s + ews_blocked_count s"
proof -
  let ?items = "[(intake_env, intake_request sample_envelope), (intake_env, intake_request sample_envelope)]"
  obtain r d' where w: "write_many ?items intake_db = (r, d')" by (cases "write_many ?items intake_db")
  show ?thesis
    using write_batch_accounts [OF w] w intake_provenance(4) by (auto simp: quiet_def intake_env_def uq_evidence_items_def List.map_filter_def)
qed

theorem mapped_item_is_stored_witness:
  "\<exists>outcome d'. write_one intake_env (intake_request sample_envelope) intake_db = (Inr outcome, d')
     \<and> ewo_status outcome \<in> {Write_INSERTED, Write_BLOCKED}
     \<and> evidence_items d' = evidence_items intake_db @ [new_row intake_env (request_values (intake_request sample_envelope))]"
proof (rule mapped_item_is_stored)
  show "legacy_mapper sample_lib ''marketaux'' sample_item sample_context = Inr (ewr_envelope (intake_request sample_envelope))"
    by (simp add: sample_maps intake_request_def)
  show "\<forall>s. hex64 (sha256_hex sample_lib s)"
    by (simp add: sample_lib_def sample_hash_def hex64_def class_range_def is_hex_def is_digit_def less_eq_char_def
        list_all_iff)
qed (use intake_provenance sample_maps(2) in \<open>simp_all add: intake_request_def intake_env_def uq_evidence_items_def List.map_filter_def\<close>)

theorem reference_checks_disagree_witness:
  "\<exists>outcome. write_one intake_env (intake_request marked_envelope) intake_db = (Inr outcome, intake_db) \<and> ewo_status outcome = Write_FAILED
     \<and> map ewe_code (ewo_errors outcome) = [''constraint_rejected'']"
proof (rule reference_checks_disagree)
  show "validate_evidence_envelope (ewr_envelope (intake_request marked_envelope)) = []" by code_simp
  show "\<not> raw_reference_ok (env_raw_payload_reference (ewr_envelope (intake_request marked_envelope)))" by code_simp
  show "evidence_widths (new_row intake_env (request_values (intake_request marked_envelope)))" by code_simp
qed (simp_all add: intake_provenance, simp_all add: intake_request_def intake_env_def)

end
