(* ===== verification/Rich_Evidence.thy ===== *)
theory Rich_Evidence
  imports Link_Guards Evidence_Envelope Operation_Config
begin

text \<open>
  The read-only packets of \<open>rich_evidence/builder.py\<close> with the contracts of \<open>rich_evidence/contracts.py\<close>: an evidence item with all its
  linked revisions, checked against their provenance, sorted, truncated to budgets and signed with a digest.

  A build reads one repeatable-read snapshot, the state \<open>d\<close>.  Typed facts are the class of the dataclass with its fields as a dictionary in the
  order of the declaration.  Texts are ASCII, so the bytes of a packet are the characters of its JSON text, which \<open>canonical_dumps\<close> prints.
\<close>

subsection \<open>Contracts\<close>

datatype fact_class = MarketauxNewsFacts | FinnhubQuoteFacts | FinnhubCompanyNewsFacts | EiaRetailFacts | EiaRtoFacts | SecFilingFacts

record TypedFacts =
  tf_class :: fact_class
  tf_values :: dict

record SourceProvenance =
  spv_source_id :: uuid
  spv_source_account_id :: "uuid option"
  spv_collection_target_id :: "uuid option"
  spv_first_persistence_run_id :: uuid
  spv_config_revision :: "int option"
  spv_provider_contract_version :: int

record ContentReference =
  crf_content_item_id :: "uuid option"
  crf_kind :: "string option"
  crf_title_available :: bool
  crf_body_availability :: string
  crf_url_available :: bool

record EvidenceRevision =
  rev_link_id :: uuid
  rev_projection_id :: uuid
  rev_observation_id :: uuid
  rev_projection_hash :: string
  rev_projection_schema_version :: int
  rev_operation_key :: string
  rev_provider_contract_version :: int
  rev_collection_target_id :: "uuid option"
  rev_config_revision :: "int option"
  rev_linked_at :: "time option"
  rev_observed_at :: time
  rev_quality :: string
  rev_facts :: TypedFacts

record PacketTruncation =
  trn_truncated :: bool
  trn_total_revision_count :: nat
  trn_included_revision_count :: nat
  trn_reason :: string

record RichEvidencePacket =
  pkt_packet_version :: int
  pkt_packet_digest :: string
  pkt_evidence_id :: uuid
  pkt_raw_item_id :: uuid
  pkt_provider :: string
  pkt_operation_key :: string
  pkt_evidence_kind :: string
  pkt_provider_item_type :: string
  pkt_access_level :: string
  pkt_identity_mode :: string
  pkt_retention_class :: string
  pkt_canonical_event_time :: "time option"
  pkt_canonical_observed_at :: time
  pkt_current_published_at :: time
  pkt_current_observed_at :: time
  pkt_provenance :: SourceProvenance
  pkt_content :: ContentReference
  pkt_current :: EvidenceRevision
  pkt_revisions :: "EvidenceRevision list"
  pkt_quality :: string
  pkt_missing_fields :: "string list"
  pkt_blocked_fields :: "string list"
  pkt_truncation :: PacketTruncation

record PacketPage =
  pgp_packets :: "RichEvidencePacket list"
  pgp_next_evidence_id :: "uuid option"
  pgp_scanned_count :: nat
  pgp_returned_count :: nat
  pgp_scan_exhausted :: bool
  pgp_has_more :: bool

abbreviation rich_error :: "string \<Rightarrow> 'a res" where "rich_error code \<equiv> Inl (RichEvidenceError code)"

subsection \<open>Facts\<close>

definition fact_fields :: "fact_class \<Rightarrow> string list" where
  "fact_fields c = (case c of
     MarketauxNewsFacts \<Rightarrow> [''provider_item_id'', ''published_at'', ''title'', ''canonical_url'', ''source_identity'', ''query'', ''language'',
       ''symbols'', ''description_coverage'', ''snippet_coverage'']
   | FinnhubQuoteFacts \<Rightarrow> [''provider_item_id'', ''published_at'', ''symbol'', ''provider_timestamp'', ''c'', ''d'', ''dp'', ''h'', ''l'', ''o'',
       ''pc'', ''currency'', ''exchange'']
   | FinnhubCompanyNewsFacts \<Rightarrow> [''provider_item_id'', ''published_at'', ''title'', ''canonical_url'', ''source_identity'', ''symbol'',
       ''category'', ''summary_coverage'']
   | EiaRetailFacts \<Rightarrow> [''provider_item_id'', ''published_at'', ''period'', ''dataset'', ''series_identity'', ''geography'', ''sector'',
       ''metric'', ''value'', ''unit'']
   | EiaRtoFacts \<Rightarrow> [''provider_item_id'', ''published_at'', ''period'', ''dataset'', ''series_identity'', ''region'', ''metric'', ''value'',
       ''unit'']
   | SecFilingFacts \<Rightarrow> [''provider_item_id'', ''published_at'', ''cik'', ''ticker'', ''accession_number'', ''filing_date'', ''form'',
       ''primary_document'', ''official_url'', ''official_source'', ''submissions_file''])"

definition optional_fields :: "fact_class \<Rightarrow> string list" where
  "optional_fields c = (case c of SecFilingFacts \<Rightarrow> [''submissions_file''] | _ \<Rightarrow> [])"

text \<open>\<open>Class(**data)\<close>: an unknown or a missing argument raises \<open>TypeError\<close>.\<close>

definition construct_facts :: "fact_class \<Rightarrow> dict \<Rightarrow> TypedFacts res" where
  "construct_facts c data =
     (if keys_of data \<subseteq> set (fact_fields c) \<and> set (fact_fields c) - set (optional_fields c) \<subseteq> keys_of data
      then Inr \<lparr>tf_class = c, tf_values = map (\<lambda>k. (k, dget data k)) (fact_fields c)\<rparr>
      else Inl (TypeError ''facts''))"

definition typed_facts :: "string \<Rightarrow> string \<Rightarrow> dict \<Rightarrow> TypedFacts res" where
  "typed_facts provider operation payload =
     (let k = (provider, operation) in
      if k = (''marketaux'', ''news_all'')
      then bindR (dindex payload ''symbols'') (\<lambda>_. construct_facts MarketauxNewsFacts payload)
      else if k = (''finnhub'', ''quote'') then construct_facts FinnhubQuoteFacts payload
      else if k = (''finnhub'', ''company_news'') then construct_facts FinnhubCompanyNewsFacts payload
      else if k = (''eia'', ''electricity_retail_sales'') then construct_facts EiaRetailFacts payload
      else if k = (''eia'', ''electricity_rto_region_data'') then construct_facts EiaRtoFacts payload
      else if k = (''sec_edgar'', ''submissions_recent'') then construct_facts SecFilingFacts payload
      else rich_error ''rich_evidence_operation_unknown'')"

definition facts_published_at :: "pylib \<Rightarrow> TypedFacts \<Rightarrow> time res" where
  "facts_published_at lib f =
     (case fromisoformat lib (replace_Z (case dget (tf_values f) ''published_at'' of JStr s \<Rightarrow> s | _ \<Rightarrow> [])) of
        Some (t, True) \<Rightarrow> Inr t
      | _ \<Rightarrow> rich_error ''rich_evidence_time_provenance_invalid'')"

definition removesuffix_coverage :: "string \<Rightarrow> string" where
  "removesuffix_coverage s =
     (let n = length s - length ''_coverage'' in if length ''_coverage'' \<le> length s \<and> drop n s = ''_coverage'' then take n s else s)"

definition availability :: "TypedFacts \<Rightarrow> string list \<times> string list" where
  "availability f =
     (sort (map fst (filter (\<lambda>(k, v). v = JNull) (tf_values f))),
      sort (map (removesuffix_coverage \<circ> fst) (filter (\<lambda>(k, v). v = JStr ''blocked'') (tf_values f))))"

definition identity_mode :: "pylib \<Rightarrow> EvidenceItem \<Rightarrow> EvidenceRevision \<Rightarrow> string res" where
  "identity_mode lib e current =
     (if (evi_provider e, rev_operation_key current) \<notin> set LEGACY_OPAQUE_IDENTITY_OPERATIONS then Inr ''canonical''
      else bindR (legacy_provider_item_identity lib (evi_provider e) (rev_operation_key current) (tf_values (rev_facts current))) (\<lambda>expected.
        Inr (if evi_provider_item_id e = Some expected
                \<and> JStr expected \<noteq> dget (tf_values (rev_facts current)) ''provider_item_id''
             then ''adopted_legacy_opaque'' else ''canonical'')))"

subsection \<open>Serialization\<close>

definition text_json :: "string option \<Rightarrow> json" where
  "text_json s = (case s of None \<Rightarrow> JNull | Some v \<Rightarrow> JStr v)"
definition int_json :: "int option \<Rightarrow> json" where
  "int_json n = (case n of None \<Rightarrow> JNull | Some v \<Rightarrow> JInt v)"
definition time_json :: "pylib \<Rightarrow> time option \<Rightarrow> json" where
  "time_json lib t = (case t of None \<Rightarrow> JNull | Some v \<Rightarrow> JStr (isoformat_utc lib v))"

definition revision_json :: "pylib \<Rightarrow> EvidenceRevision \<Rightarrow> json" where
  "revision_json lib r = JObj
     [(''link_id'', JStr (rev_link_id r)), (''projection_id'', JStr (rev_projection_id r)), (''observation_id'', JStr (rev_observation_id r)),
      (''projection_hash'', JStr (rev_projection_hash r)), (''projection_schema_version'', JInt (rev_projection_schema_version r)),
      (''operation_key'', JStr (rev_operation_key r)), (''provider_contract_version'', JInt (rev_provider_contract_version r)),
      (''collection_target_id'', text_json (rev_collection_target_id r)), (''config_revision'', int_json (rev_config_revision r)),
      (''linked_at'', time_json lib (rev_linked_at r)), (''observed_at'', time_json lib (Some (rev_observed_at r))),
      (''quality'', JStr (rev_quality r)), (''facts'', JObj (tf_values (rev_facts r)))]"

definition provenance_json :: "SourceProvenance \<Rightarrow> json" where
  "provenance_json p = JObj
     [(''source_id'', JStr (spv_source_id p)), (''source_account_id'', text_json (spv_source_account_id p)),
      (''collection_target_id'', text_json (spv_collection_target_id p)), (''first_persistence_run_id'', JStr (spv_first_persistence_run_id p)),
      (''config_revision'', int_json (spv_config_revision p)), (''provider_contract_version'', JInt (spv_provider_contract_version p))]"

definition content_json :: "ContentReference \<Rightarrow> json" where
  "content_json c = JObj
     [(''content_item_id'', text_json (crf_content_item_id c)), (''kind'', text_json (crf_kind c)), (''title_available'', JBool (crf_title_available c)),
      (''body_availability'', JStr (crf_body_availability c)), (''url_available'', JBool (crf_url_available c))]"

definition truncation_json :: "PacketTruncation \<Rightarrow> json" where
  "truncation_json t = JObj
     [(''truncated'', JBool (trn_truncated t)), (''total_revision_count'', JInt (int (trn_total_revision_count t))),
      (''included_revision_count'', JInt (int (trn_included_revision_count t))), (''reason'', JStr (trn_reason t))]"

text \<open>\<open>_material\<close> leaves the digest out; the complete packet is \<open>_json_safe(asdict(packet))\<close>.\<close>

definition packet_material :: "pylib \<Rightarrow> RichEvidencePacket \<Rightarrow> dict" where
  "packet_material lib p =
     [(''packet_version'', JInt (pkt_packet_version p)), (''evidence_id'', JStr (pkt_evidence_id p)), (''raw_item_id'', JStr (pkt_raw_item_id p)),
      (''provider'', JStr (pkt_provider p)), (''operation_key'', JStr (pkt_operation_key p)), (''evidence_kind'', JStr (pkt_evidence_kind p)),
      (''provider_item_type'', JStr (pkt_provider_item_type p)), (''access_level'', JStr (pkt_access_level p)),
      (''identity_mode'', JStr (pkt_identity_mode p)), (''retention_class'', JStr (pkt_retention_class p)),
      (''canonical_event_time'', time_json lib (pkt_canonical_event_time p)),
      (''canonical_observed_at'', time_json lib (Some (pkt_canonical_observed_at p))),
      (''current_published_at'', time_json lib (Some (pkt_current_published_at p))),
      (''current_observed_at'', time_json lib (Some (pkt_current_observed_at p))),
      (''provenance'', provenance_json (pkt_provenance p)), (''content'', content_json (pkt_content p)),
      (''current'', revision_json lib (pkt_current p)), (''revisions'', JList (map (revision_json lib) (pkt_revisions p))),
      (''quality'', JStr (pkt_quality p)), (''missing_fields'', JList (map JStr (pkt_missing_fields p))),
      (''blocked_fields'', JList (map JStr (pkt_blocked_fields p))), (''truncation'', truncation_json (pkt_truncation p))]"

definition rich_canonical_json :: "pylib \<Rightarrow> dict \<Rightarrow> string res" where
  "rich_canonical_json lib v = (case canonical_dumps lib (JObj v) of None \<Rightarrow> Inl (ValueError ''json'') | Some s \<Rightarrow> Inr s)"

definition canonical_packet_bytes :: "pylib \<Rightarrow> RichEvidencePacket \<Rightarrow> string res" where
  "canonical_packet_bytes lib p =
     rich_canonical_json lib (packet_material lib p @ [(''packet_digest'', JStr (pkt_packet_digest p))])"

definition encoded_size :: "pylib \<Rightarrow> RichEvidencePacket \<Rightarrow> nat res" where
  "encoded_size lib p = bindR (canonical_packet_bytes lib p) (\<lambda>s. Inr (length s))"

subsection \<open>Inputs\<close>

record builder_config =
  bld_max_revisions :: nat
  bld_max_bytes :: nat
  bld_max_batch :: nat

definition new_builder :: "int \<Rightarrow> int \<Rightarrow> int \<Rightarrow> builder_config res" where
  "new_builder max_revisions max_serialized_bytes max_batch_size =
     (if \<not> (1 \<le> max_revisions \<and> max_revisions \<le> 500) then Inl (ValueError ''rich_evidence_revision_budget_invalid'')
      else if \<not> (1024 \<le> max_serialized_bytes \<and> max_serialized_bytes \<le> 2000000) then Inl (ValueError ''rich_evidence_size_budget_invalid'')
      else if \<not> (1 \<le> max_batch_size \<and> max_batch_size \<le> 500) then Inl (ValueError ''rich_evidence_batch_budget_invalid'')
      else Inr \<lparr>bld_max_revisions = nat max_revisions, bld_max_bytes = nat max_serialized_bytes, bld_max_batch = nat max_batch_size\<rparr>)"

definition packet_query_budget :: "int \<Rightarrow> int res" where
  "packet_query_budget scan_limit =
     (if \<not> (1 \<le> scan_limit \<and> scan_limit \<le> 500) then Inl (ValueError ''rich_evidence_scan_limit_invalid'')
      else Inr (1 + ((scan_limit + 99) div 100) * 7))"

type_synonym packet_row =
  "EvidenceProjectionLink \<times> SafeFactProjection \<times> RawItemObservation \<times> CollectionRun \<times> CollectionTarget option"

text \<open>The rows of an evidence item: linked, ready, with observation and run; the target is an outer join.\<close>

definition joined_row :: "event_db \<Rightarrow> uuid \<Rightarrow> EvidenceProjectionLink \<Rightarrow> packet_row option" where
  "joined_row d evidence_id l =
     (if epl_evidence_item_id l = Some evidence_id \<and> epl_status l = Link_LINKED
      then Option.bind (get_projection (base d) (epl_safe_fact_projection_id l)) (\<lambda>p.
           if sfp_processing_status p \<noteq> Proj_READY then None
           else Option.bind (get_observation d (sfp_observation_id p)) (\<lambda>ob.
             map_option (\<lambda>run. (l, p, ob, run, Option.bind (obs_target_id ob) (get_target (base d))))
               (get_run (base d) (obs_collection_run_id ob))))
      else None)"

definition joined_rows :: "event_db \<Rightarrow> uuid \<Rightarrow> packet_row list" where
  "joined_rows d evidence_id = List.map_filter (joined_row d evidence_id) (evidence_projection_links d)"

subsection \<open>Provenance\<close>

definition EXPECTED_TYPE :: "((string \<times> string) \<times> string) list" where
  "EXPECTED_TYPE =
     [((''marketaux'', ''news_all''), ''marketaux_news''), ((''finnhub'', ''quote''), ''finnhub_quote''),
      ((''finnhub'', ''company_news''), ''finnhub_company_news''), ((''eia'', ''electricity_retail_sales''), ''eia_energy_timeseries''),
      ((''eia'', ''electricity_rto_region_data''), ''eia_energy_timeseries''), ((''sec_edgar'', ''submissions_recent''), ''sec_filing'')]"

definition value_error_as :: "string \<Rightarrow> 'a res \<Rightarrow> 'a res" where
  "value_error_as code r = (case r of Inl e \<Rightarrow> (if is_ValueError e then rich_error code else Inl e) | Inr x \<Rightarrow> Inr x)"

definition expected_content :: "dict \<Rightarrow> dict" where
  "expected_content payload =
     [(''has_title'', JBool (truthy (dget payload ''title''))), (''has_body'', JBool False),
      (''has_url'', JBool (truthy (first_truthy (dget payload ''canonical_url'') (dget payload ''official_url'')))),
      (''has_snippet'', JBool False), (''has_description'', JBool False)]"

definition expected_numeric :: "SafeFactProjection \<Rightarrow> dict" where
  "expected_numeric p =
     (let market = (sfp_operation_key p = ''quote''); eia = (sfp_provider p = ''eia'') in
      [(''has_numeric_value'', JBool (market \<or> eia)), (''numeric_field_count'', JInt (if market then 7 else if eia then 1 else 0)),
       (''nullable_allowed'', JBool eia)])"

definition row_provenance_ok ::
  "EvidenceItem \<Rightarrow> RawItem \<Rightarrow> packet_row \<Rightarrow> FactualOperationPolicy \<Rightarrow> string \<Rightarrow> string \<Rightarrow> bool" where
  "row_provenance_ok e raw row policy plain legacy =
     (case row of (l, p, ob, run, target) \<Rightarrow>
      let legacy_allowed = (sfp_provider p, sfp_operation_key p) \<in> set LEGACY_OPAQUE_IDENTITY_OPERATIONS;
          adopted = (evi_provider_item_id e = Some legacy \<and> evi_provider_item_id e \<noteq> Some plain \<and> legacy_allowed);
          market = (sfp_operation_key p = ''quote'') in
      map_of EXPECTED_TYPE (sfp_provider p, sfp_operation_key p) = Some (evi_provider_item_type e)
      \<and> fop_item_type policy = evi_provider_item_type e \<and> fop_evidence_kind policy = evi_evidence_kind e
      \<and> fop_source_type policy = evi_source_type e
      \<and> (if adopted then ''link_only'' else fop_access policy) = evi_access_level e
      \<and> evi_provider_item_id e \<in> {Some plain, Some legacy}
      \<and> \<not> (legacy_allowed \<and> legacy \<noteq> plain \<and> evi_provider_item_id e = Some legacy \<and> \<not> adopted)
      \<and> evi_processing_status e = ''validated''
      \<and> evi_official_source_flag e = (sfp_provider p \<in> {''eia'', ''sec_edgar''}) \<and> evi_market_data_flag e = market
      \<and> evi_disclosure_flag e = (sfp_provider p = ''sec_edgar'')
      \<and> evi_news_signal_flag e = (sfp_operation_key p \<in> {''news_all'', ''company_news''})
      \<and> \<not> (epl_canonical_evidence l \<and> \<not> py_eq (JObj (evi_content_presence e)) (JObj (expected_content (sfp_factual_payload p))))
      \<and> \<not> (epl_canonical_evidence l \<and> \<not> py_eq (JObj (evi_numeric_presence e)) (JObj (expected_numeric p)))
      \<and> \<not> (epl_canonical_evidence l \<and> \<not> adopted \<and> evi_provider_item_hash e \<noteq> sfp_projection_hash p)
      \<and> sfp_provider p = evi_provider e \<and> sfp_raw_item_id p = raw_id raw \<and> obs_raw_item_id ob = raw_id raw
      \<and> obs_provider ob = sfp_provider p \<and> obs_operation_key ob = sfp_operation_key p \<and> obs_projection_hash ob = sfp_projection_hash p
      \<and> obs_collection_run_id ob = run_id run \<and> run_target_id run = obs_target_id ob
      \<and> obs_source_id ob = raw_source_id raw \<and> obs_source_account_id ob = raw_source_account_id raw
      \<and> run_source_id run = raw_source_id raw \<and> run_source_account_id run = raw_source_account_id raw
      \<and> epl_safe_fact_projection_id l = sfp_id p
      \<and> (case obs_target_id ob of None \<Rightarrow> True
         | Some i \<Rightarrow> (case target of None \<Rightarrow> False
             | Some t \<Rightarrow> tgt_id t = i \<and> tgt_source_id t = raw_source_id raw \<and> tgt_source_account_id t = raw_source_account_id raw
                 \<and> tgt_operation_key t = obs_operation_key ob)))"

definition validate_row_provenance :: "pylib \<Rightarrow> EvidenceItem \<Rightarrow> RawItem \<Rightarrow> packet_row \<Rightarrow> unit res" where
  "validate_row_provenance lib e raw row =
     (case row of (l, p, ob, run, target) \<Rightarrow>
      bindR (value_error_as ''rich_evidence_contract_version_invalid''
        (factual_operation_policy (sfp_provider p) (sfp_operation_key p) (Some (obs_provider_contract_version ob)))) (\<lambda>policy.
      let plain = py_str lib (dget (sfp_factual_payload p) ''provider_item_id'') in
      bindR (if (sfp_provider p, sfp_operation_key p) \<in> set LEGACY_OPAQUE_IDENTITY_OPERATIONS
             then legacy_provider_item_identity lib (sfp_provider p) (sfp_operation_key p) (sfp_factual_payload p)
             else Inr plain) (\<lambda>legacy.
      if row_provenance_ok e raw row policy plain legacy then Inr () else rich_error ''rich_evidence_provenance_invalid'')))"

definition raw_provenance_ok :: "EvidenceItem \<Rightarrow> RawItem \<Rightarrow> Source \<Rightarrow> CollectionRun \<Rightarrow> SourceAccount option \<Rightarrow> bool" where
  "raw_provenance_ok e raw source first_run account =
     (raw_source_id raw = evi_source_id e \<and> raw_source_account_id raw = evi_source_account_id e
      \<and> src_access_method source = evi_provider e \<and> run_source_id first_run = evi_source_id e
      \<and> run_source_account_id first_run = evi_source_account_id e
      \<and> \<not> (evi_source_account_id e \<noteq> None \<and> account = None)
      \<and> (case account of None \<Rightarrow> True | Some a \<Rightarrow> acc_source_id a = evi_source_id e)
      \<and> raw_retention_class raw = src_retention_class source)"

subsection \<open>Revisions\<close>

fun quality_value :: "SafeProjectionQualityStatus \<Rightarrow> string" where
  "quality_value Quality_COMPLETE = ''complete''"
| "quality_value Quality_PARTIAL = ''partial''"
| "quality_value Quality_BLOCKED = ''blocked''"

definition contract_error_as :: "string \<Rightarrow> 'a res \<Rightarrow> 'a res" where
  "contract_error_as code r =
     (case r of Inl (ProjectionContractError _) \<Rightarrow> rich_error code | Inl e \<Rightarrow> Inl e | Inr x \<Rightarrow> Inr x)"

definition row_revision :: "pylib \<Rightarrow> EvidenceItem \<Rightarrow> RawItem \<Rightarrow> packet_row \<Rightarrow> (EvidenceRevision \<times> CollectionTarget option) res" where
  "row_revision lib e raw row =
     bindR (validate_row_provenance lib e raw row) (\<lambda>_.
     (case row of (l, p, ob, run, target) \<Rightarrow>
      bindR (contract_error_as ''rich_evidence_projection_invalid''
        (normalize_and_classify lib (sfp_provider p) (sfp_operation_key p) (sfp_projection_schema_version p) (sfp_factual_payload p)))
        (\<lambda>(normalized, quality).
      if \<not> py_eq (JObj normalized) (JObj (sfp_factual_payload p)) then rich_error ''rich_evidence_projection_invalid''
      else bindR (canonical_projection_hash lib normalized) (\<lambda>h.
        if h \<noteq> sfp_projection_hash p \<or> quality \<noteq> sfp_quality_status p then rich_error ''rich_evidence_projection_invalid''
        else bindR (typed_facts (sfp_provider p) (sfp_operation_key p) normalized) (\<lambda>facts.
          Inr (\<lparr>rev_link_id = epl_id l, rev_projection_id = sfp_id p, rev_observation_id = obs_id ob,
                rev_projection_hash = sfp_projection_hash p, rev_projection_schema_version = sfp_projection_schema_version p,
                rev_operation_key = sfp_operation_key p, rev_provider_contract_version = obs_provider_contract_version ob,
                rev_collection_target_id = obs_target_id ob, rev_config_revision = obs_config_revision ob,
                rev_linked_at = epl_linked_at l, rev_observed_at = obs_observed_at ob, rev_quality = quality_value quality,
                rev_facts = facts\<rparr>, target))))))"

definition revision_key :: "EvidenceRevision \<Rightarrow> time \<times> uuid" where
  "revision_key r = (rev_observed_at r, rev_projection_id r)"

definition link_of :: "packet_row list \<Rightarrow> uuid \<Rightarrow> EvidenceProjectionLink option" where
  "link_of rows i = List.find (\<lambda>l. epl_id l = i) (map fst rows)"

definition canonical_revisions :: "packet_row list \<Rightarrow> EvidenceRevision list \<Rightarrow> EvidenceRevision list" where
  "canonical_revisions rows revisions =
     filter (\<lambda>r. case link_of rows (rev_link_id r) of None \<Rightarrow> False | Some l \<Rightarrow> epl_canonical_evidence l) revisions"

subsection \<open>Content\<close>

fun content_kind_value :: "ContentKind \<Rightarrow> string" where
  "content_kind_value Kind_ARTICLE = ''article''"
| "content_kind_value Kind_X_POST = ''x_post''"
| "content_kind_value Kind_OFFICIAL_RELEASE = ''official_release''"
| "content_kind_value Kind_FEED_ENTRY = ''feed_entry''"

definition content_item_ok :: "EvidenceItem \<Rightarrow> string \<Rightarrow> string \<Rightarrow> FactualOperationPolicy \<Rightarrow> ContentItem \<Rightarrow> bool" where
  "content_item_ok e retention operation policy c =
     (cnt_raw_item_id c = evi_raw_item_id e \<and> cnt_source_id c = evi_source_id e \<and> cnt_source_account_id c = evi_source_account_id e
      \<and> fop_content policy = Some (content_kind_value (cnt_content_kind c))
      \<and> cnt_body_availability c = Body_UNAVAILABLE \<and> cnt_body c = None \<and> cnt_source_summary c = None \<and> cnt_author c = None
      \<and> cnt_content_hash c = None \<and> cnt_source_updated_at c = None \<and> cnt_reply_to_external_id c = None
      \<and> cnt_quote_external_id c = None \<and> cnt_repost_external_id c = None \<and> cnt_deleted_status c = Del_UNKNOWN
      \<and> keys_of (cnt_metadata c) \<subseteq> {''provider'', ''operation_key'', ''retention''}
      \<and> dget (cnt_metadata c) ''provider'' = JStr (evi_provider e)
      \<and> dget (cnt_metadata c) ''operation_key'' = JStr operation
      \<and> dget (cnt_metadata c) ''retention'' = JStr retention)"

text \<open>The comparison of the content with the facts of its canonical revision; the publication time of the facts is read only when the content has one.\<close>

definition published_matches :: "pylib \<Rightarrow> ContentItem \<Rightarrow> TypedFacts \<Rightarrow> bool res" where
  "published_matches lib c f =
     (case cnt_source_published_at c of None \<Rightarrow> Inr False
      | Some t \<Rightarrow> bindR (facts_published_at lib f) (\<lambda>published. Inr (t = published)))"

definition news_content_matches :: "pylib \<Rightarrow> ContentItem \<Rightarrow> TypedFacts \<Rightarrow> bool res" where
  "news_content_matches lib c f =
     (let v = dget (tf_values f) in
      if tf_class f \<in> {MarketauxNewsFacts, FinnhubCompanyNewsFacts} \<and> v ''title'' = text_json (cnt_title c)
         \<and> v ''canonical_url'' = text_json (cnt_canonical_url c) \<and> text_json (cnt_original_url c) = v ''canonical_url''
      then bindR (published_matches lib c f) (\<lambda>ok.
        Inr (ok \<and> text_json (cnt_language c) = (if tf_class f = MarketauxNewsFacts then v ''language'' else JNull)))
      else Inr False)"

definition filing_content_matches :: "pylib \<Rightarrow> ContentItem \<Rightarrow> TypedFacts \<Rightarrow> bool res" where
  "filing_content_matches lib c f =
     (let v = dget (tf_values f) in
      if tf_class f = SecFilingFacts \<and> v ''official_url'' = text_json (cnt_canonical_url c) \<and> text_json (cnt_original_url c) = v ''official_url''
      then bindR (published_matches lib c f) (\<lambda>ok. Inr (ok \<and> cnt_language c = None))
      else Inr False)"

definition content_ids :: "EvidenceItem \<Rightarrow> packet_row list \<Rightarrow> uuid list" where
  "content_ids e rows =
     remdups (List.map_filter (epl_content_item_id \<circ> fst) rows @ (case evi_content_item_id e of None \<Rightarrow> [] | Some i \<Rightarrow> [i]))"

definition content_reference ::
  "pylib \<Rightarrow> event_db \<Rightarrow> EvidenceItem \<Rightarrow> string \<Rightarrow> packet_row list \<Rightarrow> EvidenceRevision list \<Rightarrow> string \<Rightarrow> int \<Rightarrow> ContentReference res" where
  "content_reference lib d e retention rows revisions operation version =
     (case content_ids e rows of
        [] \<Rightarrow> Inr \<lparr>crf_content_item_id = None, crf_kind = None, crf_title_available = False, crf_body_availability = ''unavailable'',
                crf_url_available = False\<rparr>
      | _ # _ # _ \<Rightarrow> rich_error ''rich_evidence_content_conflict''
      | [i] \<Rightarrow>
          (case filter epl_canonical_content (map fst rows) of
             [l] \<Rightarrow>
               (case List.find (\<lambda>r. rev_link_id r = epl_id l) revisions of
                  None \<Rightarrow> Inl (RuntimeError ''StopIteration'')
                | Some r \<Rightarrow>
                    bindR (value_error_as ''rich_evidence_contract_version_invalid'' (factual_operation_policy (evi_provider e) operation (Some version)))
                      (\<lambda>policy.
                    (case content_row d (Some i) of
                       None \<Rightarrow> rich_error ''rich_evidence_content_invalid''
                     | Some c \<Rightarrow>
                         if \<not> content_item_ok e retention operation policy c \<or> evi_provider e = ''eia''
                            \<or> (evi_provider e = ''finnhub'' \<and> operation = ''quote'')
                         then rich_error ''rich_evidence_content_invalid''
                         else
                           bindR (if evi_provider e \<in> {''marketaux'', ''finnhub''} then news_content_matches lib c (rev_facts r) else Inr True)
                             (\<lambda>news.
                           if \<not> news then rich_error ''rich_evidence_content_invalid''
                           else bindR (if evi_provider e = ''sec_edgar'' then filing_content_matches lib c (rev_facts r) else Inr True)
                             (\<lambda>filing.
                           if \<not> filing then rich_error ''rich_evidence_content_invalid''
                           else Inr \<lparr>crf_content_item_id = Some (cnt_id c), crf_kind = Some (content_kind_value (cnt_content_kind c)),
                                  crf_title_available = truthy (text_json (cnt_title c)), crf_body_availability = ''unavailable'',
                                  crf_url_available = truthy (text_json (cnt_canonical_url c))\<rparr>)))))
           | _ \<Rightarrow> rich_error ''rich_evidence_content_adoption_invalid''))"

end
