(* ===== verification/Rich_Builder.thy ===== *)
theory Rich_Builder
  imports Rich_Evidence Samples
begin

text \<open>
  The packet builder of \<open>rich_evidence/builder.py\<close>: the construction of one packet and the bounded scan over packets.  A packet stays within its
  budgets and keeps the newest revisions, it does not depend on the order in which the database returns the rows, and a page is one scan
  over the evidence items in the order of their identifiers.
\<close>

subsection \<open>Assembly\<close>

record packet_frame =
  frm_evidence :: EvidenceItem
  frm_raw :: RawItem
  frm_current :: EvidenceRevision
  frm_target :: "CollectionTarget option"
  frm_content :: ContentReference
  frm_total :: nat

definition assemble :: "pylib \<Rightarrow> packet_frame \<Rightarrow> EvidenceRevision list \<Rightarrow> string \<Rightarrow> RichEvidencePacket res" where
  "assemble lib f revisions reason =
     (let e = frm_evidence f; raw = frm_raw f; current = frm_current f; (missing, blocked) = availability (rev_facts current) in
      bindR (identity_mode lib e current) (\<lambda>mode.
      bindR (facts_published_at lib (rev_facts current)) (\<lambda>published.
        let p = \<lparr>pkt_packet_version = 1, pkt_packet_digest = [], pkt_evidence_id = evi_id e, pkt_raw_item_id = raw_id raw,
              pkt_provider = evi_provider e, pkt_operation_key = rev_operation_key current, pkt_evidence_kind = evi_evidence_kind e,
              pkt_provider_item_type = evi_provider_item_type e, pkt_access_level = evi_access_level e, pkt_identity_mode = mode,
              pkt_retention_class = raw_retention_class raw, pkt_canonical_event_time = evi_event_time e,
              pkt_canonical_observed_at = evi_observed_at e, pkt_current_published_at = published,
              pkt_current_observed_at = rev_observed_at current,
              pkt_provenance = \<lparr>spv_source_id = evi_source_id e, spv_source_account_id = evi_source_account_id e,
                spv_collection_target_id = map_option tgt_id (frm_target f), spv_first_persistence_run_id = raw_collection_run_id raw,
                spv_config_revision = rev_config_revision current, spv_provider_contract_version = rev_provider_contract_version current\<rparr>,
              pkt_content = frm_content f, pkt_current = current, pkt_revisions = revisions, pkt_quality = rev_quality current,
              pkt_missing_fields = missing, pkt_blocked_fields = blocked,
              pkt_truncation = \<lparr>trn_truncated = (length revisions < frm_total f), trn_total_revision_count = frm_total f,
                trn_included_revision_count = length revisions, trn_reason = reason\<rparr>\<rparr> in
        bindR (rich_canonical_json lib (packet_material lib p)) (\<lambda>s. Inr (p\<lparr>pkt_packet_digest := sha256_hex lib s\<rparr>)))))"

text \<open>The loop that drops the oldest revision while the packet is too large, and the check after it.\<close>

fun fit_packet :: "pylib \<Rightarrow> nat \<Rightarrow> packet_frame \<Rightarrow> string \<Rightarrow> EvidenceRevision list \<Rightarrow> RichEvidencePacket res" where
  "fit_packet lib max_bytes f reason revisions =
     bindR (assemble lib f revisions reason) (\<lambda>p.
     bindR (encoded_size lib p) (\<lambda>n.
       if n > max_bytes
       then (case revisions of
               _ # r # rest \<Rightarrow> fit_packet lib max_bytes f ''serialized_size_budget'' (r # rest)
             | _ \<Rightarrow> rich_error ''rich_evidence_packet_budget_exceeded'')
       else Inr p))"

declare fit_packet.simps [simp del]

definition newest :: "nat \<Rightarrow> 'a list \<Rightarrow> 'a list" where
  "newest n xs = drop (length xs - n) xs"

definition sorted_revisions :: "(EvidenceRevision \<times> CollectionTarget option) list \<Rightarrow> (EvidenceRevision \<times> CollectionTarget option) list" where
  "sorted_revisions = sort_key (revision_key \<circ> fst)"

definition check_canonical :: "pylib \<Rightarrow> EvidenceItem \<Rightarrow> packet_row list \<Rightarrow> EvidenceRevision list \<Rightarrow> unit res" where
  "check_canonical lib e rows revisions =
     (case canonical_revisions rows revisions of
        [canonical] \<Rightarrow>
          (case evi_event_time e of
             None \<Rightarrow> rich_error ''rich_evidence_time_provenance_invalid''
           | Some t \<Rightarrow>
               bindR (facts_published_at lib (rev_facts canonical)) (\<lambda>published.
                 if t \<noteq> published \<or> evi_observed_at e \<noteq> rev_observed_at canonical
                 then rich_error ''rich_evidence_time_provenance_invalid'' else Inr ()))
      | _ \<Rightarrow> rich_error ''rich_evidence_canonical_adoption_invalid'')"

text \<open>The part of \<open>_build\<close> that works on the loaded rows.\<close>

definition build_rows ::
  "pylib \<Rightarrow> builder_config \<Rightarrow> event_db \<Rightarrow> EvidenceItem \<Rightarrow> RawItem \<Rightarrow> packet_row list \<Rightarrow> RichEvidencePacket res" where
  "build_rows lib cfg d e raw rows =
     bindR (mapR (row_revision lib e raw) rows) (\<lambda>unsorted.
     if length (remdups (map (rev_operation_key \<circ> fst) unsorted)) \<noteq> 1 then rich_error ''rich_evidence_operation_conflict''
     else
       let sorted = sorted_revisions unsorted; revisions = map fst sorted; (current, current_target) = last sorted in
       bindR (factual_operation_policy (evi_provider e) (rev_operation_key current) (Some (rev_provider_contract_version current))) (\<lambda>policy.
       if raw_retention_class raw \<notin> fop_retention policy then rich_error ''rich_evidence_retention_policy_invalid''
       else
         bindR (check_canonical lib e rows revisions) (\<lambda>_.
         let selected = newest (bld_max_revisions cfg) revisions in
         bindR (content_reference lib d e (raw_retention_class raw) rows revisions (rev_operation_key current)
                  (rev_provider_contract_version current)) (\<lambda>content.
           fit_packet lib (bld_max_bytes cfg)
             \<lparr>frm_evidence = e, frm_raw = raw, frm_current = current, frm_target = current_target, frm_content = content,
              frm_total = length revisions\<rparr>
             (if length selected < length revisions then ''revision_budget'' else ''none'') selected))))"

definition build_packet :: "pylib \<Rightarrow> builder_config \<Rightarrow> event_db \<Rightarrow> EvidenceItem \<Rightarrow> RichEvidencePacket res" where
  "build_packet lib cfg d e =
     (let rows = joined_rows d (evi_id e);
          account = Option.bind (evi_source_account_id e) (\<lambda>a. List.find (\<lambda>x. acc_id x = a) (source_accounts d)) in
      if rows = [] then rich_error ''rich_evidence_linked_projection_missing''
      else (case get_raw d (evi_raw_item_id e) of
        None \<Rightarrow> rich_error ''rich_evidence_provenance_invalid''
      | Some raw \<Rightarrow>
          (case (get_source (base d) (evi_source_id e), get_run (base d) (raw_collection_run_id raw)) of
             (Some source, Some first_run) \<Rightarrow>
               if \<not> raw_provenance_ok e raw source first_run account then rich_error ''rich_evidence_provenance_invalid''
               else build_rows lib cfg d e raw rows
           | _ \<Rightarrow> rich_error ''rich_evidence_provenance_invalid'')))"

definition build_one :: "pylib \<Rightarrow> builder_config \<Rightarrow> uuid \<Rightarrow> event_db \<Rightarrow> RichEvidencePacket res" where
  "build_one lib cfg i d =
     (case evidence_row d (Some i) of None \<Rightarrow> rich_error ''rich_evidence_not_found'' | Some e \<Rightarrow> build_packet lib cfg d e)"

subsection \<open>Pages\<close>

definition scan_candidates :: "event_db \<Rightarrow> string option \<Rightarrow> uuid option \<Rightarrow> EvidenceItem list" where
  "scan_candidates d provider cursor =
     sort_key evi_id (filter (\<lambda>e. linked_to_evidence d (Some (evi_id e))
       \<and> (case cursor of None \<Rightarrow> True | Some i \<Rightarrow> i < evi_id e)
       \<and> (case provider of None \<Rightarrow> True | Some p \<Rightarrow> evi_provider e = p)) (evidence_items d))"

definition wanted :: "string option \<Rightarrow> RichEvidencePacket \<Rightarrow> bool" where
  "wanted quality p = (case quality of None \<Rightarrow> True | Some q \<Rightarrow> pkt_quality p = q)"

record scan_state =
  scn_packets :: "RichEvidencePacket list"
  scn_scanned :: nat
  scn_cursor :: "uuid option"

text \<open>The loop over the rows of one chunk; it returns the rows that follow the one that filled the page.\<close>

fun scan_chunk ::
  "pylib \<Rightarrow> builder_config \<Rightarrow> event_db \<Rightarrow> string option \<Rightarrow> nat \<Rightarrow> EvidenceItem list \<Rightarrow> scan_state \<Rightarrow> (scan_state \<times> EvidenceItem list) res" where
  "scan_chunk lib cfg d quality limit [] s = Inr (s, [])"
| "scan_chunk lib cfg d quality limit (e # es) s =
     bindR (build_packet lib cfg d e) (\<lambda>p.
       let s' = \<lparr>scn_packets = scn_packets s @ (if wanted quality p then [p] else []), scn_scanned = scn_scanned s + 1,
                 scn_cursor = Some (evi_id e)\<rparr> in
       if wanted quality p \<and> length (scn_packets s') = limit then Inr (s', es)
       else scan_chunk lib cfg d quality limit es s')"

lemma scan_chunk_progress:
  assumes "scan_chunk lib cfg d quality limit es s = Inr (s', rest)"
  shows "scn_scanned s \<le> scn_scanned s'" and "es \<noteq> [] \<Longrightarrow> scn_scanned s < scn_scanned s'"
proof -
  have le: "scn_scanned s \<le> scn_scanned s'" if "scan_chunk lib cfg d quality limit es s = Inr (s', rest)" for es s s' rest
    using that by (induction es arbitrary: s) (fastforce simp: bindR_Inr_iff Let_def split: if_splits)+
  show "scn_scanned s \<le> scn_scanned s'" using assms by (rule le)
  show "scn_scanned s < scn_scanned s'" if ne: "es \<noteq> []"
    using assms ne by (cases es) (auto simp: bindR_Inr_iff Let_def split: if_splits dest: le)
qed

function scan_loop ::
  "pylib \<Rightarrow> builder_config \<Rightarrow> event_db \<Rightarrow> string option \<Rightarrow> string option \<Rightarrow> nat \<Rightarrow> nat \<Rightarrow> scan_state \<Rightarrow> bool \<Rightarrow> (scan_state \<times> bool) res" where
  "scan_loop lib cfg d provider quality limit scan_limit s ahead =
     (if length (scn_packets s) \<ge> limit \<or> scn_scanned s \<ge> scan_limit then Inr (s, ahead)
      else
        let take_count = min 100 (scan_limit - scn_scanned s);
            rows = take (take_count + 1) (scan_candidates d provider (scn_cursor s)); chunk = take take_count rows in
        if chunk = [] then Inr (s, False)
        else bindR (scan_chunk lib cfg d quality limit chunk s) (\<lambda>(s', rest).
          let full = (length (scn_packets s') = limit); ahead' = (length rows > take_count \<or> (full \<and> rest \<noteq> [])) in
          if full \<or> \<not> ahead' then Inr (s', ahead')
          else scan_loop lib cfg d provider quality limit scan_limit s' ahead'))"
  by pat_completeness auto
termination
proof (relation "measure (\<lambda>(lib, cfg, d, provider, quality, limit, scan_limit, s, ahead). scan_limit - scn_scanned s)", goal_cases)
  case (2 lib cfg d provider quality limit scan_limit s ahead take_count rows chunk x s' rest full ahead')
  then have "scan_chunk lib cfg d quality limit chunk s = Inr (s', rest)" and "chunk \<noteq> []" by simp_all
  then have "scn_scanned s < scn_scanned s'" by (rule scan_chunk_progress(2))
  with 2(1) show ?case by (simp add: diff_less_mono2)
qed simp

declare scan_loop.simps [simp del]

definition list_packets ::
  "pylib \<Rightarrow> builder_config \<Rightarrow> event_db \<Rightarrow> uuid option \<Rightarrow> int \<Rightarrow> string option \<Rightarrow> string option \<Rightarrow> int option \<Rightarrow> PacketPage res" where
  "list_packets lib cfg d after limit provider quality scan_limit =
     (if \<not> (1 \<le> limit \<and> limit \<le> int (bld_max_batch cfg)) then rich_error ''rich_evidence_batch_limit_invalid''
      else if provider \<noteq> None \<and> provider \<notin> Some ` {''marketaux'', ''finnhub'', ''eia'', ''sec_edgar''} then rich_error ''rich_evidence_filter_invalid''
      else if quality \<noteq> None \<and> quality \<notin> Some ` {''complete'', ''partial''} then rich_error ''rich_evidence_filter_invalid''
      else let scan = (case scan_limit of None \<Rightarrow> min (limit * 10) 500 | Some n \<Rightarrow> n) in
      if \<not> (limit \<le> scan \<and> scan \<le> 500) then rich_error ''rich_evidence_scan_limit_invalid''
      else bindR (scan_loop lib cfg d provider quality (nat limit) (nat scan)
                    \<lparr>scn_packets = [], scn_scanned = 0, scn_cursor = after\<rparr> False) (\<lambda>(s, ahead).
        let exhausted = (scn_scanned s \<ge> nat scan \<and> ahead) in
        Inr \<lparr>pgp_packets = scn_packets s, pgp_next_evidence_id = (if ahead \<or> exhausted then scn_cursor s else None),
             pgp_scanned_count = scn_scanned s, pgp_returned_count = length (scn_packets s), pgp_scan_exhausted = exhausted,
             pgp_has_more = (ahead \<or> exhausted)\<rparr>))"

end
