(* ===== verification/Rich_Packets.thy ===== *)
theory Rich_Packets
  imports Rich_Builder Link_Lifecycle "HOL-Library.Multiset"
begin

text \<open>
  What the packet builder promises: budgets, independence of the order of the rows, and pages that are one scan.
\<close>

subsection \<open>Budgets\<close>

lemma assemble_fields:
  assumes "assemble lib f revisions reason = Inr p"
  shows "pkt_revisions p = revisions" and "pkt_current p = frm_current f"
    and "pkt_truncation p = \<lparr>trn_truncated = (length revisions < frm_total f), trn_total_revision_count = frm_total f,
      trn_included_revision_count = length revisions, trn_reason = reason\<rparr>"
  using assms by (auto simp: assemble_def Let_def bindR_Inr_iff split: prod.splits)

lemma fit_packet_spec:
  assumes "fit_packet lib max_bytes f reason revisions = Inr p" and "revisions \<noteq> []"
  shows "(\<exists>n. encoded_size lib p = Inr n \<and> n \<le> max_bytes) \<and> suffix (pkt_revisions p) revisions \<and> pkt_revisions p \<noteq> []
    \<and> pkt_current p = frm_current f \<and> trn_total_revision_count (pkt_truncation p) = frm_total f
    \<and> trn_truncated (pkt_truncation p) = (length (pkt_revisions p) < frm_total f)"
  using assms
proof (induction revisions arbitrary: reason)
  case (Cons a revisions)
  from Cons.prems(1) obtain q n where q: "assemble lib f (a # revisions) reason = Inr q" "encoded_size lib q = Inr n"
    by (subst (asm) fit_packet.simps) (auto simp: bindR_Inr_iff)
  show ?case
  proof (cases "n > max_bytes")
    case True
    then obtain r rest where r: "revisions = r # rest"
      using Cons.prems(1) q by (subst (asm) fit_packet.simps) (auto split: list.splits)
    then have "fit_packet lib max_bytes f ''serialized_size_budget'' revisions = Inr p"
      using Cons.prems(1) q True by (subst (asm) fit_packet.simps) simp
    from Cons.IH [OF this] r show ?thesis by (auto intro: suffix_ConsI)
  next
    case False
    then have "q = p" using Cons.prems(1) q by (subst (asm) fit_packet.simps) simp
    with q False assemble_fields [OF q(1)] show ?thesis by auto
  qed
qed simp

lemma newest_suffix: "suffix (newest n xs) xs" "length (newest n xs) \<le> n" "xs \<noteq> [] \<Longrightarrow> 1 \<le> n \<Longrightarrow> newest n xs \<noteq> []"
proof -
  show "suffix (newest n xs) xs" by (simp add: newest_def suffix_drop)
  show "length (newest n xs) \<le> n" by (simp add: newest_def)
  assume "xs \<noteq> []" and "1 \<le> n"
  then have "length xs - n < length xs" by (cases xs) auto
  then show "newest n xs \<noteq> []" by (simp add: newest_def)
qed

lemma suffix_last: "suffix xs ys \<Longrightarrow> xs \<noteq> [] \<Longrightarrow> last xs = last ys"
  by (auto simp: suffix_def)

lemma build_rows_spec:
  assumes "build_rows lib cfg d e raw rows = Inr p" and "rows \<noteq> []" and "1 \<le> bld_max_revisions cfg"
  obtains unsorted n where "mapR (row_revision lib e raw) rows = Inr unsorted" and "encoded_size lib p = Inr n" and "n \<le> bld_max_bytes cfg"
    and "suffix (pkt_revisions p) (map fst (sorted_revisions unsorted))" and "pkt_revisions p \<noteq> []"
    and "length (pkt_revisions p) \<le> bld_max_revisions cfg" and "pkt_current p = last (map fst (sorted_revisions unsorted))"
    and "trn_total_revision_count (pkt_truncation p) = length rows"
    and "trn_truncated (pkt_truncation p) = (length (pkt_revisions p) < length rows)"
proof -
  from assms(1) obtain unsorted where u: "mapR (row_revision lib e raw) rows = Inr unsorted" by (auto simp: build_rows_def bindR_Inr_iff)
  let ?s = "sorted_revisions unsorted"
  have len: "length ?s = length rows" using mapR_Inr_length [OF u] by (simp add: sorted_revisions_def)
  then have ne: "?s \<noteq> []" using assms(2) by auto
  obtain f reason where fit: "fit_packet lib (bld_max_bytes cfg) f reason (newest (bld_max_revisions cfg) (map fst ?s)) = Inr p"
    and f: "frm_current f = fst (last ?s)" "frm_total f = length ?s"
    using assms(1) u by (auto simp: build_rows_def bindR_Inr_iff Let_def split: if_splits prod.splits)
  have "newest (bld_max_revisions cfg) (map fst ?s) \<noteq> []" using newest_suffix(3) ne assms(3) by (metis map_is_Nil_conv)
  from fit_packet_spec [OF fit this] obtain n where n: "encoded_size lib p = Inr n" "n \<le> bld_max_bytes cfg"
    and p: "suffix (pkt_revisions p) (newest (bld_max_revisions cfg) (map fst ?s))" "pkt_revisions p \<noteq> []" "pkt_current p = frm_current f"
      "trn_total_revision_count (pkt_truncation p) = frm_total f" "trn_truncated (pkt_truncation p) = (length (pkt_revisions p) < frm_total f)"
    by blast
  have "suffix (pkt_revisions p) (map fst ?s)" using p(1) newest_suffix(1) suffix_order.trans by blast
  moreover have "length (pkt_revisions p) \<le> bld_max_revisions cfg"
    using p(1) newest_suffix(2) [of "bld_max_revisions cfg" "map fst ?s"] by (meson le_trans suffix_length_le)
  ultimately show thesis using that u n p f len ne by (simp add: last_map)
qed

subsection \<open>Order of the rows\<close>

lemma mapR_values: "mapR f xs = Inr ys \<Longrightarrow> ys = map (projr \<circ> f) xs \<and> (\<forall>x\<in>set xs. \<exists>y. f x = Inr y)"
  by (induction xs arbitrary: ys) (auto simp: bindR_Inr_iff)

lemma mapR_total: "(\<forall>x\<in>set xs. \<exists>y. f x = Inr y) \<Longrightarrow> mapR f xs = Inr (map (projr \<circ> f) xs)"
  by (induction xs) auto

lemma mapR_permuted:
  assumes "mapR f xs = Inr ys" and "mset xs = mset xs'"
  shows "\<exists>ys'. mapR f xs' = Inr ys' \<and> mset ys = mset ys'"
proof -
  from mapR_values [OF assms(1)] have ys: "ys = map (projr \<circ> f) xs" and ok: "\<forall>x\<in>set xs. \<exists>y. f x = Inr y" by auto
  have "set xs = set xs'" using assms(2) by (rule mset_eq_setD)
  with ok mapR_total [of xs' f] have "mapR f xs' = Inr (map (projr \<circ> f) xs')" by simp
  with ys assms(2) show ?thesis by (intro exI [of _ "map (projr \<circ> f) xs'"]) (simp add: mset_map)
qed

lemma find_unique:
  assumes "distinct (map f xs)" and "x \<in> set xs"
  shows "List.find (\<lambda>y. f y = f x) xs = Some x"
  using assms by (induction xs) (auto simp: image_iff)

lemma find_permuted:
  assumes "distinct (map f xs)" and "mset xs = mset ys"
  shows "List.find (\<lambda>y. f y = i) xs = List.find (\<lambda>y. f y = i) ys"
proof -
  have d: "distinct (map f ys)" and s: "set xs = set ys" using assms by (metis mset_eq_imp_distinct_iff mset_map, metis mset_eq_setD)
  show ?thesis
  proof (cases "List.find (\<lambda>y. f y = i) xs")
    case None
    then have "\<forall>y\<in>set ys. f y \<noteq> i" using s by (auto dest: find_None_all)
    then have "List.find (\<lambda>y. f y = i) ys = None" by (auto simp: find_None_iff)
    with None show ?thesis by simp
  next
    case (Some x)
    then have "x \<in> set ys" "f x = i" using s by (auto dest: find_Some_in)
    with Some find_unique [OF d] show ?thesis by metis
  qed
qed

lemma remdups_single: "set xs = set ys \<Longrightarrow> remdups xs = [i] \<Longrightarrow> remdups ys = [i]"
proof -
  assume "set xs = set ys" and x: "remdups xs = [i]"
  moreover have "set xs = {i}" using arg_cong [OF x, of set] by simp
  ultimately have y: "set (remdups ys) = {i}" "distinct (remdups ys)" by auto
  then have "length (remdups ys) = 1" using distinct_card by fastforce
  with y(1) show "remdups ys = [i]" by (cases "remdups ys") auto
qed

lemma remdups_nil: "set xs = set ys \<Longrightarrow> remdups xs = [] \<longleftrightarrow> remdups ys = []"
  by (metis remdups_eq_nil_iff set_empty)

lemma filter_single: "mset xs = mset ys \<Longrightarrow> filter P xs = [x] \<Longrightarrow> filter P ys = [x]"
  by (metis mset_filter mset_single_iff_right mset.simps(1) mset.simps(2) add_mset_eq_singleton_iff mset_zero_iff mset_eq_length length_Cons list.size(3)
      mset_single_iff)

lemma content_ids_set:
  "mset rows = mset rows' \<Longrightarrow> set (List.map_filter (epl_content_item_id \<circ> fst) rows @ xs) = set (List.map_filter (epl_content_item_id \<circ> fst) rows' @ xs)"
proof -
  assume "mset rows = mset rows'"
  then have "set rows = set rows'" by (rule mset_eq_setD)
  then show ?thesis by (auto simp: List.map_filter_def)
qed

lemma content_reference_permuted:
  assumes "content_reference lib d e retention rows revisions operation version = Inr c" and "mset rows = mset rows'"
  shows "content_reference lib d e retention rows' revisions operation version = Inr c"
proof -
  note ids = content_ids_set [OF assms(2), of "case evi_content_item_id e of None \<Rightarrow> [] | Some i \<Rightarrow> [i]"]
  consider "content_ids e rows = []" | i where "content_ids e rows = [i]"
    using assms(1) by (auto simp: content_reference_def split: list.splits)
  then show ?thesis
  proof cases
    case 1
    then have "content_ids e rows' = []" using remdups_nil [OF ids] by (simp add: content_ids_def)
    with 1 assms(1) show ?thesis by (simp add: content_reference_def)
  next
    case 2
    then have ids': "content_ids e rows' = [i]" using remdups_single [OF ids] by (simp add: content_ids_def)
    obtain l where l: "filter epl_canonical_content (map fst rows) = [l]"
      using assms(1) 2 by (auto simp: content_reference_def split: list.splits)
    then have "filter epl_canonical_content (map fst rows') = [l]"
      by (rule filter_single [rotated]) (simp add: assms(2) mset_map)
    with l 2 ids' assms(1) show ?thesis by (simp add: content_reference_def)
  qed
qed

lemma row_revision_ids:
  "row_revision lib e raw row = Inr r \<Longrightarrow> rev_projection_id (fst r) = sfp_id (fst (snd row)) \<and> rev_link_id (fst r) = epl_id (fst row)"
  by (auto simp: row_revision_def bindR_Inr_iff split: prod.splits if_splits)

lemma sorted_revisions_permuted:
  assumes "mset xs = mset ys" and "distinct (map (rev_projection_id \<circ> fst) xs)"
  shows "sorted_revisions xs = sorted_revisions ys"
proof -
  have "inj_on (revision_key \<circ> fst) (set xs)"
    using assms(2) by (auto simp: inj_on_def revision_key_def distinct_map)
  then show ?thesis unfolding sorted_revisions_def
    by (rule sort_key_inj_key_eq [rotated]) (simp_all add: assms(1))
qed

lemma build_rows_permuted:
  assumes "build_rows lib cfg d e raw rows = Inr p" and "mset rows = mset rows'"
    and "distinct (map (epl_id \<circ> fst) rows)" and "distinct (map (sfp_id \<circ> fst \<circ> snd) rows)"
  shows "build_rows lib cfg d e raw rows' = Inr p"
proof -
  from assms(1) obtain u where u: "mapR (row_revision lib e raw) rows = Inr u" by (auto simp: build_rows_def bindR_Inr_iff)
  from mapR_permuted [OF u assms(2)] obtain u' where u': "mapR (row_revision lib e raw) rows' = Inr u'" "mset u = mset u'" by blast
  have "list_all2 (\<lambda>x y. row_revision lib e raw x = Inr y) rows u" using u by (simp add: mapR_Inr_all2)
  then have "map (rev_projection_id \<circ> fst) u = map (sfp_id \<circ> fst \<circ> snd) rows"
    by (induction rule: list_all2_induct) (auto dest: row_revision_ids)
  with assms(4) have s: "sorted_revisions u = sorted_revisions u'" by (intro sorted_revisions_permuted [OF u'(2)]) simp
  have ops: "length (remdups (map (rev_operation_key \<circ> fst) u)) = length (remdups (map (rev_operation_key \<circ> fst) u'))"
    using mset_eq_setD [OF u'(2)] by (simp add: length_remdups_card_conv)
  have "distinct (map epl_id (map fst rows))" using assms(3) by simp
  moreover have "mset (map fst rows) = mset (map fst rows')" by (simp add: assms(2) mset_map)
  ultimately have "link_of rows = link_of rows'" unfolding link_of_def by (intro ext find_permuted)
  then have canon: "check_canonical lib e rows revs = check_canonical lib e rows' revs" for revs
    by (simp add: check_canonical_def canonical_revisions_def)
  show ?thesis
    using assms(1) content_reference_permuted [OF _ assms(2)]
    unfolding build_rows_def u u'(1) bindR_simps s ops canon Let_def
    by (auto simp: bindR_Inr_iff split: if_splits prod.splits)
qed

subsection \<open>Pages\<close>

lemma mapR_append: "mapR f (xs @ ys) = bindR (mapR f xs) (\<lambda>a. bindR (mapR f ys) (\<lambda>b. Inr (a @ b)))"
proof (induction xs)
  case Nil
  show ?case by (cases "mapR f ys") simp_all
next
  case (Cons x xs)
  then show ?case by (cases "f x"; cases "mapR f xs"; cases "mapR f ys") simp_all
qed

lemma candidates_filter:
  "scan_candidates d provider cursor =
     filter (\<lambda>e. case cursor of None \<Rightarrow> True | Some i \<Rightarrow> i < evi_id e) (scan_candidates d provider None)"
  unfolding scan_candidates_def by (simp add: filter_sort filter_filter conj_ac)

lemma candidates_strict:
  assumes "distinct (map evi_id (evidence_items d))"
  shows "sorted_wrt (\<lambda>x y. evi_id x < evi_id y) (scan_candidates d provider cursor)"
proof -
  let ?c = "scan_candidates d provider cursor"
  have "distinct (map evi_id ?c)"
    using assms unfolding scan_candidates_def by (simp add: distinct_map inj_on_def)
  then have "sorted_wrt (<) (map evi_id ?c)"
    unfolding strict_sorted_iff by (simp add: scan_candidates_def)
  then show ?thesis by (simp add: sorted_wrt_map)
qed

lemma candidates_after:
  assumes "distinct (map evi_id (evidence_items d))" and "0 < k" and "k \<le> length (scan_candidates d provider cursor)"
  shows "scan_candidates d provider (Some (evi_id (scan_candidates d provider cursor ! (k - 1)))) = drop k (scan_candidates d provider cursor)"
proof -
  let ?c = "scan_candidates d provider cursor"
  let ?x = "?c ! (k - 1)"
  have ne: "take k ?c \<noteq> []" using assms(2,3) by auto
  have x: "last (take k ?c) = ?x" using last_conv_nth [OF ne] assms(2,3) by (simp add: min_def)
  have "?x \<in> set ?c" using assms(2,3) by simp
  then have beyond: "case cursor of None \<Rightarrow> True | Some i \<Rightarrow> i < evi_id ?x" by (auto simp: scan_candidates_def split: option.splits)
  have "filter (\<lambda>e. y < evi_id e) (filter (\<lambda>e. case cursor of None \<Rightarrow> True | Some i \<Rightarrow> i < evi_id e) es) = filter (\<lambda>e. y < evi_id e) es"
    if "case cursor of None \<Rightarrow> True | Some i \<Rightarrow> i < y" for y es
    using that by (auto intro!: filter_cong split: option.splits)
  from this [OF beyond, of "scan_candidates d provider None"]
  have "scan_candidates d provider (Some (evi_id ?x)) = filter (\<lambda>e. evi_id ?x < evi_id e) ?c"
    using candidates_filter [of d provider "Some (evi_id ?x)"] candidates_filter [of d provider cursor] by simp
  also have "\<dots> = drop k ?c" using filter_beyond_last [OF candidates_strict [OF assms(1)] ne] unfolding x .
  finally show ?thesis .
qed

lemma scan_chunk_spec:
  assumes "scan_chunk lib cfg d quality limit es s = Inr (s', rest)" and "length (scn_packets s) < limit"
  shows "\<exists>visited ps. es = visited @ rest \<and> mapR (build_packet lib cfg d) visited = Inr ps
    \<and> scn_packets s' = scn_packets s @ filter (wanted quality) ps \<and> scn_scanned s' = scn_scanned s + length visited
    \<and> (visited \<noteq> [] \<longrightarrow> scn_cursor s' = Some (evi_id (last visited))) \<and> (rest \<noteq> [] \<longrightarrow> length (scn_packets s') = limit)
    \<and> length (scn_packets s') \<le> limit"
  using assms
proof (induction es arbitrary: s)
  case Nil
  then show ?case by (intro exI [of _ "[]"]) simp
next
  case (Cons e es)
  obtain p where p: "build_packet lib cfg d e = Inr p" using Cons.prems(1) by (auto simp: bindR_Inr_iff)
  let ?t = "\<lparr>scn_packets = scn_packets s @ (if wanted quality p then [p] else []), scn_scanned = scn_scanned s + 1, scn_cursor = Some (evi_id e)\<rparr>"
  show ?case
  proof (cases "wanted quality p \<and> length (scn_packets ?t) = limit")
    case True
    then have "s' = ?t" "rest = es" using Cons.prems(1) p by auto
    with True p Cons.prems(2) show ?thesis by (intro exI [of _ "[e]"] exI [of _ "[p]"]) (simp split: if_splits)
  next
    case False
    then have "scan_chunk lib cfg d quality limit es ?t = Inr (s', rest)" and "length (scn_packets ?t) < limit"
      using Cons.prems p by (auto split: if_splits)
    from Cons.IH [OF this] obtain visited ps where v: "es = visited @ rest" "mapR (build_packet lib cfg d) visited = Inr ps"
      "scn_packets s' = scn_packets ?t @ filter (wanted quality) ps" "scn_scanned s' = scn_scanned ?t + length visited"
      "visited \<noteq> [] \<longrightarrow> scn_cursor s' = Some (evi_id (last visited))" "rest \<noteq> [] \<longrightarrow> length (scn_packets s') = limit"
      "length (scn_packets s') \<le> limit" by blast
    have "visited = [] \<Longrightarrow> s' = ?t"
      using \<open>scan_chunk lib cfg d quality limit es ?t = Inr (s', rest)\<close> v(1,6) False \<open>length (scn_packets ?t) < limit\<close> v(3,2)
      by (cases es) auto
    with v p show ?thesis by (intro exI [of _ "e # visited"] exI [of _ "p # ps"]) auto
  qed
qed

text \<open>Where a scan over the list \<open>c\<close> stands after \<open>n\<close> items: the cursor is the identifier of the last of them.\<close>

definition cursor_at :: "uuid option \<Rightarrow> EvidenceItem list \<Rightarrow> nat \<Rightarrow> uuid option" where
  "cursor_at after c n = (if n = 0 then after else Some (evi_id (c ! (n - 1))))"

lemma candidates_at:
  assumes "distinct (map evi_id (evidence_items d))" and "n \<le> length (scan_candidates d provider after)"
  shows "scan_candidates d provider (cursor_at after (scan_candidates d provider after) n) = drop n (scan_candidates d provider after)"
  using candidates_after [OF assms(1) _ assms(2)] by (cases n) (simp_all add: cursor_at_def)

lemma scan_loop_spec:
  fixes after provider d
  defines "c \<equiv> scan_candidates d provider after"
  assumes "scan_loop lib cfg d provider quality limit scan_limit s ahead = Inr (s', ahead')"
    and "distinct (map evi_id (evidence_items d))" and "1 \<le> limit"
    and "scn_scanned s \<le> length c" and "scn_scanned s \<le> scan_limit" and "scn_cursor s = cursor_at after c (scn_scanned s)"
    and "length (scn_packets s) < limit" and "scn_scanned s \<ge> scan_limit \<Longrightarrow> ahead = (scn_scanned s < length c)"
    and "mapR (build_packet lib cfg d) (take (scn_scanned s) c) = Inr qs" and "scn_packets s = filter (wanted quality) qs"
  shows "\<exists>ps. mapR (build_packet lib cfg d) (take (scn_scanned s') c) = Inr ps \<and> scn_packets s' = filter (wanted quality) ps
    \<and> scn_scanned s' \<le> length c \<and> scn_scanned s' \<le> scan_limit \<and> scn_cursor s' = cursor_at after c (scn_scanned s')
    \<and> length (scn_packets s') \<le> limit \<and> ahead' = (scn_scanned s' < length c)"
  using assms(2-)
proof (induction "scan_limit - scn_scanned s" arbitrary: s ahead qs rule: less_induct)
  case less
  note prems = less.prems
  let ?k = "scn_scanned s" and ?f = "build_packet lib cfg d"
  show ?case
  proof (cases "scan_limit \<le> ?k")
    case True
    then have "s' = s" "ahead' = ahead" using prems(1) by (auto simp: scan_loop.simps)
    with True prems show ?thesis by auto
  next
    case False
    define t where "t = min 100 (scan_limit - ?k)"
    define rows where "rows = take (t + 1) (drop ?k c)"
    have pos: "1 \<le> t" "t \<le> scan_limit - ?k" using False by (auto simp: t_def)
    have cand: "scan_candidates d provider (scn_cursor s) = drop ?k c"
      using candidates_at [OF prems(2), of ?k provider after] prems(4,6) by (simp add: c_def)
    have chunk: "take t rows = take t (drop ?k c)" by (simp add: rows_def min_def)
    have step: "scan_loop lib cfg d provider quality limit scan_limit s ahead =
        (if take t rows = [] then Inr (s, False)
         else bindR (scan_chunk lib cfg d quality limit (take t rows) s) (\<lambda>(s', rest).
           let full = (length (scn_packets s') = limit); ahead' = (length rows > t \<or> (full \<and> rest \<noteq> [])) in
           if full \<or> \<not> ahead' then Inr (s', ahead') else scan_loop lib cfg d provider quality limit scan_limit s' ahead'))"
      using False prems(7) by (subst scan_loop.simps) (simp add: cand t_def rows_def Let_def)
    show ?thesis
    proof (cases "take t rows = []")
      case True
      then have "?k = length c" using pos prems(4) by (simp add: chunk)
      moreover have "s' = s" "ahead' = False" using prems(1) True by (simp_all add: step)
      ultimately show ?thesis using prems by auto
    next
      case ne: False
      obtain s1 rest where sc: "scan_chunk lib cfg d quality limit (take t rows) s = Inr (s1, rest)"
        using prems(1) ne by (auto simp: step bindR_Inr_iff)
      let ?full = "length (scn_packets s1) = limit"
      let ?more = "length rows > t \<or> (?full \<and> rest \<noteq> [])"
      from scan_chunk_spec [OF sc prems(7)] obtain visited ps where v: "take t rows = visited @ rest" "mapR ?f visited = Inr ps"
        "scn_packets s1 = scn_packets s @ filter (wanted quality) ps" "scn_scanned s1 = ?k + length visited"
        "visited \<noteq> [] \<Longrightarrow> scn_cursor s1 = Some (evi_id (last visited))" "rest \<noteq> [] \<Longrightarrow> ?full" "length (scn_packets s1) \<le> limit" by blast
      let ?m = "length visited"
      have vis: "visited \<noteq> []" using v(1-3,6) ne prems(7) by (cases visited) auto
      have len: "?m + length rest = min t (length c - ?k)" using arg_cong [OF v(1), of length] unfolding chunk by simp
      have rows: "length rows > t \<longleftrightarrow> length c - ?k > t" by (auto simp: rows_def)
      have "visited = take ?m (take t (drop ?k c))" unfolding chunk [symmetric] v(1) by simp
      moreover have "?m \<le> t" using len by linarith
      ultimately have take: "visited = take ?m (drop ?k c)" by (simp add: min_absorb1)
      have upto: "take (?k + ?m) c = take ?k c @ visited" by (subst take) (simp add: take_add)
      have kc: "?k + ?m \<le> length c" using len prems(4) by linarith
      have "last visited = c ! (?k + ?m - 1)"
      proof -
        have "visited ! (?m - 1) = c ! (?k + (?m - 1))" using vis prems(4) kc by (subst take) (simp add: nth_append)
        moreover have "?k + (?m - 1) = ?k + ?m - 1" using vis by (cases visited) simp_all
        ultimately show ?thesis using vis by (simp add: last_conv_nth)
      qed
      then have s1: "scn_cursor s1 = cursor_at after c (scn_scanned s1)" using v(4,5) vis by (simp add: cursor_at_def)
      have built: "mapR ?f (take (scn_scanned s1) c) = Inr (qs @ ps)" using prems(9) v(2) by (simp add: v(4) upto mapR_append)
      have packets: "scn_packets s1 = filter (wanted quality) (qs @ ps)" using v(3) prems(10) by simp
      have bounds: "scn_scanned s1 \<le> length c" "scn_scanned s1 \<le> scan_limit" using kc len pos False v(4) by linarith+
      have ahead: "?full \<or> \<not> ?more \<Longrightarrow> ?more = (scn_scanned s1 < length c)" using v(4,6) len rows by (cases rest) auto
      show ?thesis
      proof (cases "?full \<or> \<not> ?more")
        case True
        then have "s' = s1" "ahead' = ?more" using prems(1) ne sc by (auto simp: step)
        with ahead [OF True] s1 built packets bounds v(7) show ?thesis by auto
      next
        case False
        then have "scan_loop lib cfg d provider quality limit scan_limit s1 True = Inr (s', ahead')" using prems(1) ne sc by (auto simp: step Let_def)
        moreover have "scan_limit - scn_scanned s1 < scan_limit - ?k" using v(4) vis pos by (simp add: diff_less_mono2)
        moreover have "scn_scanned s1 < length c" using False v(4,6) len rows by auto
        ultimately show ?thesis
          using less.hyps [of s1 True "qs @ ps"] False prems(2,3) s1 built packets bounds v(7) by auto
      qed
    qed
  qed
qed

subsection \<open>Properties\<close>

text \<open>Property C34.  A packet keeps its budgets and the newest revisions: its serialized size is within the byte budget, its revisions are a nonempty
  suffix, within the revision budget, of all linked revisions in the order of their observation, the last of them is the current revision,
  and the truncation record tells how many there are and whether some are left out.\<close>

theorem packet_within_budgets:
  assumes "build_packet lib cfg d e = Inr p" and "1 \<le> bld_max_revisions cfg"
  shows "\<exists>n raw unsorted. encoded_size lib p = Inr n \<and> n \<le> bld_max_bytes cfg
    \<and> mapR (row_revision lib e raw) (joined_rows d (evi_id e)) = Inr unsorted
    \<and> suffix (pkt_revisions p) (map fst (sorted_revisions unsorted)) \<and> pkt_revisions p \<noteq> []
    \<and> length (pkt_revisions p) \<le> bld_max_revisions cfg \<and> pkt_current p = last (pkt_revisions p)
    \<and> trn_total_revision_count (pkt_truncation p) = length (joined_rows d (evi_id e))
    \<and> trn_truncated (pkt_truncation p) = (length (pkt_revisions p) < length (joined_rows d (evi_id e)))"
proof -
  obtain raw where raw: "build_rows lib cfg d e raw (joined_rows d (evi_id e)) = Inr p" and ne: "joined_rows d (evi_id e) \<noteq> []"
    using assms(1) by (auto simp: build_packet_def Let_def split: if_splits option.splits)
  from build_rows_spec [OF raw ne assms(2)] obtain unsorted n where s: "mapR (row_revision lib e raw) (joined_rows d (evi_id e)) = Inr unsorted"
    "encoded_size lib p = Inr n" "n \<le> bld_max_bytes cfg" "suffix (pkt_revisions p) (map fst (sorted_revisions unsorted))" "pkt_revisions p \<noteq> []"
    "length (pkt_revisions p) \<le> bld_max_revisions cfg" "pkt_current p = last (map fst (sorted_revisions unsorted))"
    "trn_total_revision_count (pkt_truncation p) = length (joined_rows d (evi_id e))"
    "trn_truncated (pkt_truncation p) = (length (pkt_revisions p) < length (joined_rows d (evi_id e)))" by blast
  with suffix_last [OF s(4,5)] show ?thesis by auto
qed

text \<open>Property C35.  A packet is a function of the set of its rows: for any other order in which the database returns the rows of the join the builder
  returns the same packet with the same digest.\<close>

theorem packet_is_order_free:
  assumes "build_rows lib cfg d e raw rows = Inr p" and "mset rows = mset rows'"
    and "distinct (map (epl_id \<circ> fst) rows)" and "distinct (map (sfp_id \<circ> fst \<circ> snd) rows)"
  shows "build_rows lib cfg d e raw rows' = Inr p"
  using assms by (rule build_rows_permuted)

text \<open>Property C36.  A page is one scan: it holds the packets, filtered by quality, of the first items after the cursor in the order of their
  identifiers; there is more exactly when the scan has not reached the end, and the scan of the next page starts right after the last item of
  this one, so a sequence of pages neither skips nor repeats an item.\<close>

theorem page_is_one_scan:
  assumes "list_packets lib cfg d after limit provider quality scan_limit = Inr page" and "distinct (map evi_id (evidence_items d))"
  shows "\<exists>ps. mapR (build_packet lib cfg d) (take (pgp_scanned_count page) (scan_candidates d provider after)) = Inr ps
    \<and> pgp_packets page = filter (wanted quality) ps \<and> pgp_returned_count page \<le> nat limit
    \<and> pgp_has_more page = (pgp_scanned_count page < length (scan_candidates d provider after))
    \<and> (pgp_next_evidence_id page = None
       \<or> scan_candidates d provider (pgp_next_evidence_id page) = drop (pgp_scanned_count page) (scan_candidates d provider after))"
proof -
  let ?c = "scan_candidates d provider after" and ?s = "\<lparr>scn_packets = [], scn_scanned = 0, scn_cursor = after\<rparr>"
  define scan where "scan = (case scan_limit of None \<Rightarrow> min (limit * 10) 500 | Some n \<Rightarrow> n)"
  obtain s ahead where l: "scan_loop lib cfg d provider quality (nat limit) (nat scan) ?s False = Inr (s, ahead)" and lim: "1 \<le> limit" "limit \<le> scan"
    and p: "pgp_packets page = scn_packets s" "pgp_scanned_count page = scn_scanned s" "pgp_returned_count page = length (scn_packets s)"
      "pgp_has_more page = ahead" "pgp_next_evidence_id page = (if ahead then scn_cursor s else None)"
    using assms(1) unfolding list_packets_def scan_def [symmetric] Let_def
    by (force simp: bindR_Inr_iff not_le split: if_split_asm simp del: nat_le_iff)
  have "\<exists>ps. mapR (build_packet lib cfg d) (take (scn_scanned s) ?c) = Inr ps \<and> scn_packets s = filter (wanted quality) ps
    \<and> scn_scanned s \<le> length ?c \<and> scn_scanned s \<le> nat scan \<and> scn_cursor s = cursor_at after ?c (scn_scanned s)
    \<and> length (scn_packets s) \<le> nat limit \<and> ahead = (scn_scanned s < length ?c)"
    by (rule scan_loop_spec [OF l assms(2)]) (use lim in \<open>auto simp: cursor_at_def\<close>)
  then obtain ps where "mapR (build_packet lib cfg d) (take (scn_scanned s) ?c) = Inr ps" "scn_packets s = filter (wanted quality) ps"
    "scn_scanned s \<le> length ?c" "scn_cursor s = cursor_at after ?c (scn_scanned s)" "length (scn_packets s) \<le> nat limit"
    "ahead = (scn_scanned s < length ?c)" by blast
  with candidates_at [OF assms(2), of "scn_scanned s" provider after] show ?thesis
    unfolding p by (intro exI [of _ ps]) auto
qed

subsection \<open>Closed instances\<close>

text \<open>The evidence item that the handoff of the samples creates, and a second revision of it that was observed later.\<close>

definition sample_budgets :: builder_config where "sample_budgets = \<lparr>bld_max_revisions = 5, bld_max_bytes = 2048, bld_max_batch = 10\<rparr>"

definition first_row :: packet_row where "first_row = hd (joined_rows linked_db ''x1'')"
definition second_row :: packet_row where
  "second_row = (case first_row of (l, p, ob, run, target) \<Rightarrow>
     (l\<lparr>epl_id := ''x2'', epl_safe_fact_projection_id := ''p2'', epl_canonical_evidence := False\<rparr>, p\<lparr>sfp_id := ''p2''\<rparr>,
      ob\<lparr>obs_id := ''o2'', obs_observed_at := 7\<rparr>, run, target))"

abbreviation sample_build :: "packet_row list \<Rightarrow> RichEvidencePacket res" where
  "sample_build \<equiv> build_rows sample_lib sample_budgets linked_db quote_evidence (hd (raw_items linked_db))"

theorem packet_within_budgets_witness:
  "\<exists>p n. build_packet sample_lib sample_budgets linked_db quote_evidence = Inr p \<and> encoded_size sample_lib p = Inr n \<and> n \<le> 2048
    \<and> pkt_current p = last (pkt_revisions p)"
proof -
  have "case build_packet sample_lib sample_budgets linked_db quote_evidence of Inl _ \<Rightarrow> False | Inr _ \<Rightarrow> True" by code_simp
  then obtain p where p: "build_packet sample_lib sample_budgets linked_db quote_evidence = Inr p" by (auto split: sum.splits)
  have "1 \<le> bld_max_revisions sample_budgets" and "bld_max_bytes sample_budgets = 2048" by (simp_all add: sample_budgets_def)
  with p packet_within_budgets [OF p] show ?thesis by (intro exI [of _ p]) auto
qed

theorem packet_is_order_free_witness:
  "\<exists>p. sample_build [first_row, second_row] = Inr p \<and> sample_build [second_row, first_row] = Inr p"
proof -
  have "case sample_build [first_row, second_row] of Inl _ \<Rightarrow> False | Inr _ \<Rightarrow> True" by code_simp
  then obtain p where p: "sample_build [first_row, second_row] = Inr p" by (auto split: sum.splits)
  have "distinct (map (epl_id \<circ> fst) [first_row, second_row])" and "distinct (map (sfp_id \<circ> fst \<circ> snd) [first_row, second_row])" by code_simp+
  from packet_is_order_free [OF p _ this, of "[second_row, first_row]"] p show ?thesis by auto
qed

theorem page_is_one_scan_witness:
  "\<exists>page. list_packets sample_lib sample_budgets linked_db None 1 None None None = Inr page
    \<and> pgp_has_more page = (pgp_scanned_count page < length (scan_candidates linked_db None None)) \<and> pgp_returned_count page \<le> 1"
proof -
  have "case list_packets sample_lib sample_budgets linked_db None 1 None None None of Inl _ \<Rightarrow> False | Inr _ \<Rightarrow> True" by code_simp
  then obtain page where p: "list_packets sample_lib sample_budgets linked_db None 1 None None None = Inr page" by (auto split: sum.splits)
  have "distinct (map evi_id (evidence_items linked_db))" by simp
  from page_is_one_scan [OF p this] p show ?thesis by auto
qed

end
