(* ===== verification/Adapter_Support.thy ===== *)
theory Adapter_Support
  imports Provider_Contracts Continuation
begin

text \<open>
  What the provider adapters share: the transport with its answers (\<open>providers/contracts.py\<close>), the helpers of
  \<open>providers/adapter_support.py\<close>, and the sanitizer and header parser of \<open>providers/marketaux.py\<close>.

  The transport is an argument of an adapter: a function from a transport request to an answer.  The runtime credential travels with the
  request and takes no part in its equality, so it is left out of the record; the body of a response is the decoded JSON value.
\<close>

subsection \<open>Transport\<close>

record ProviderTransportResponse =
  rsp_status_code :: int
  rsp_received_at :: time
  rsp_body :: json
  rsp_headers :: "(string \<times> string) list"

text \<open>The exceptions that an adapter tells apart: \<open>ProviderResponseTooLarge\<close>, \<open>ProviderTransportTimeout\<close> and any other.\<close>

datatype transport_answer = Answered ProviderTransportResponse | Too_Large | Timed_Out | Transport_Failed

type_synonym transport = "ProviderTransportRequest \<Rightarrow> transport_answer"

text \<open>The request is built inside the handler, so a request that its constructor refuses counts as a failed transport.\<close>

definition send_request :: "pylib \<Rightarrow> transport \<Rightarrow> ProviderTransportRequest \<Rightarrow> transport_answer" where
  "send_request lib send r = (case new_transport_request lib r of Inl _ \<Rightarrow> Transport_Failed | Inr q \<Rightarrow> send q)"

subsection \<open>Access to decoded JSON\<close>

text \<open>\<open>v[k]\<close> of a decoded value with a text key, \<open>d[k]\<close> of a text or list field whose use as such raises \<open>TypeError\<close> otherwise.\<close>

definition jindex :: "json \<Rightarrow> string \<Rightarrow> json res" where
  "jindex v k = (case v of JObj d \<Rightarrow> dindex d k | _ \<Rightarrow> Inl (TypeError k))"

definition sindex :: "dict \<Rightarrow> string \<Rightarrow> string res" where
  "sindex d k = bindR (dindex d k) (\<lambda>v. case v of JStr s \<Rightarrow> Inr s | _ \<Rightarrow> Inl (TypeError k))"

definition lindex :: "dict \<Rightarrow> string \<Rightarrow> json list res" where
  "lindex d k = bindR (dindex d k) (\<lambda>v. case v of JList xs \<Rightarrow> Inr xs | _ \<Rightarrow> Inl (TypeError k))"

definition text_at :: "dict \<Rightarrow> string \<Rightarrow> string" where
  "text_at d k = (case dget d k of JStr s \<Rightarrow> s | _ \<Rightarrow> [])"

definition opt_text :: "string option \<Rightarrow> json" where
  "opt_text s = (case s of None \<Rightarrow> JNull | Some v \<Rightarrow> JStr v)"

subsection \<open>Timestamps, envelopes, errors\<close>

definition adapter_hash :: "pylib \<Rightarrow> json \<Rightarrow> string" where
  "adapter_hash lib v = sha256_hex lib (stable_dumps lib v)"

definition month_first :: "string \<Rightarrow> string" where
  "month_first s = (if length s = 7 \<and> s ! 4 = CHR ''-'' then s @ ''-01'' else s)"

definition iso_timestamp :: "pylib \<Rightarrow> json \<Rightarrow> string option" where
  "iso_timestamp lib v =
     (case v of
        JInt n \<Rightarrow> (if in_datetime_range (n * 1000000) then Some (isoformat_utc lib (n * 1000000)) else None)
      | JFloat x \<Rightarrow> map_option (isoformat_utc lib) (float_timestamp lib x)
      | JStr s \<Rightarrow> (if s = [] then None else iso_normal lib (month_first (replace_Z s)))
      | _ \<Rightarrow> None)"

definition raw_envelope :: "pylib \<Rightarrow> string \<Rightarrow> string \<Rightarrow> dict \<Rightarrow> ProviderTransportResponse \<Rightarrow> string \<Rightarrow> RawItemEnvelope" where
  "raw_envelope lib provider item_id projection response retention_class =
     (let h = adapter_hash lib (JObj projection) in
      \<lparr>env_external_id = Some item_id, env_fetched_at = rsp_received_at response, env_http_status = Some (rsp_status_code response),
       env_content_type = Some ''application/json'', env_payload_location = Some (''internal://provider/'' @ provider @ ''/'' @ h),
       env_payload_hash = Some h, env_retention_class = retention_class\<rparr>)"

definition failed_with :: "string \<Rightarrow> int \<Rightarrow> ProviderAdapterError \<Rightarrow> ProviderFetchResult" where
  "failed_with provider version e =
     \<lparr>pres_raw_items = [], pres_sanitized_metadata = [], pres_next_cursor = None, pres_has_more = False, pres_safe_errors = [e],
      pres_provider = provider, pres_contract_version = version, pres_display_projections = [], pres_factual_projections = [],
      pres_continuation = None, pres_rejected_row_hashes = [], pres_coverage_incomplete = False\<rparr>"

definition adapter_error :: "ProviderAdapterErrorCode \<Rightarrow> string \<Rightarrow> bool \<Rightarrow> ProviderAdapterError" where
  "adapter_error code message retryable =
     \<lparr>pae_code = code, pae_safe_message = message, pae_retryable = retryable, pae_retry_after_seconds = None\<rparr>"

definition adapter_failed :: "string \<Rightarrow> ProviderAdapterErrorCode \<Rightarrow> string \<Rightarrow> bool \<Rightarrow> ProviderFetchResult" where
  "adapter_failed provider code message retryable = failed_with provider 1 (adapter_error code message retryable)"

definition response_error :: "string \<Rightarrow> int \<Rightarrow> ProviderFetchResult option" where
  "response_error provider status_code =
     (if status_code = 429 then Some (adapter_failed provider RATE_LIMITED ''provider_rate_limited'' True)
      else if status_code \<ge> 500 then Some (adapter_failed provider UPSTREAM_ERROR ''provider_upstream_failed'' True)
      else if \<not> (200 \<le> status_code \<and> status_code < 300)
      then Some (adapter_failed provider UPSTREAM_ERROR ''provider_request_rejected'' False)
      else None)"

definition safe_field_names :: "dict \<Rightarrow> string list" where
  "safe_field_names item = sort (filter (\<lambda>k. \<not> secret_search k) (map fst item))"

definition safe_identifier :: "nat \<Rightarrow> json \<Rightarrow> string option" where
  "safe_identifier max_length v =
     (case v of
        JStr s \<Rightarrow> (let t = strip s in if t = [] \<or> length t > max_length \<or> secret_search t then None else Some t)
      | _ \<Rightarrow> None)"

subsection \<open>Helpers of the Marketaux adapter\<close>

definition retry_after :: "pylib \<Rightarrow> (string \<times> string) list \<Rightarrow> rat option" where
  "retry_after lib headers =
     (case List.find (\<lambda>(name, _). lower name = ''retry-after'') headers of
        None \<Rightarrow> None
      | Some (_, v) \<Rightarrow>
          (case float_text lib v of
             Some (FFin r) \<Rightarrow> (if 0 \<le> r \<and> r \<le> 3600 then Some r else None)
           | _ \<Rightarrow> None))"

definition safe_title :: "json \<Rightarrow> string option" where
  "safe_title v =
     (case v of
        JStr s \<Rightarrow> (let t = collapse_ws s in if t = [] \<or> length t > 2000 \<or> secret_value_search t then None else Some t)
      | _ \<Rightarrow> None)"

definition safe_public_url :: "pylib \<Rightarrow> json \<Rightarrow> string option res" where
  "safe_public_url lib v =
     (case v of
        JStr s \<Rightarrow>
          (if length s > 4000 \<or> secret_value_search s then Inr None
           else case urlsplit lib s of
             None \<Rightarrow> Inl (ValueError ''Invalid URL'')
           | Some u \<Rightarrow>
               Inr (if url_scheme u \<notin> {''http'', ''https''} \<or> url_netloc u = [] \<or> url_username u \<noteq> None \<or> url_password u \<noteq> None
                    then None else Some s))
      | _ \<Rightarrow> Inr None)"

record SanitizedItem =
  sit_provider_item_id :: string
  sit_published_at :: string
  sit_field_names :: "string list"
  sit_source_identity :: "string option"
  sit_display_title :: "string option"
  sit_display_url :: "string option"

definition sanitize_item :: "pylib \<Rightarrow> dict \<Rightarrow> SanitizedItem option res" where
  "sanitize_item lib item =
     (case normalize_marketaux_provider_identity (dget item ''uuid'') of
        Inl _ \<Rightarrow> Inr None
      | Inr item_id \<Rightarrow>
          (case dget item ''published_at'' of
             JStr published_at \<Rightarrow>
               (if published_at = [] \<or> secret_search published_at then Inr None
                else bindR (safe_public_url lib (dget item ''url'')) (\<lambda>source_url.
                  let source = (case dget item ''source'' of
                                  JObj s \<Rightarrow> (if truthy (dget s ''name'') then dget s ''name'' else dget s ''domain'')
                                | v \<Rightarrow> v) in
                  Inr (Some \<lparr>sit_provider_item_id = item_id, sit_published_at = published_at, sit_field_names = safe_field_names item,
                    sit_source_identity = safe_title source, sit_display_title = safe_title (dget item ''title''),
                    sit_display_url = source_url\<rparr>)))
           | _ \<Rightarrow> Inr None))"

end
