(* ===== verification/Breadth.thy ===== *)
theory Breadth
  imports Adapter_Support
begin

text \<open>
  The bounded operation adapters of \<open>providers/breadth.py\<close>: one request per fetch, built from the resolved configuration and the stored
  continuation, and one parser per provider that turns the response into factual payloads, rejected rows and the state of the next page.

  A parser accumulates rejected rows while it goes; since an exception discards the whole page, it is modelled as a function from the
  rows to their outcomes.
\<close>

subsection \<open>Identity, hashes, keys\<close>

text \<open>The secret pattern of this module has no plain \<open>token\<close> alternative.\<close>

definition breadth_secret_search :: "string \<Rightarrow> bool" where
  "breadth_secret_search s = list_ex (\<lambda>m. contains m (lower s))
     [''apikey'', ''api_key'', ''api-key'', ''apitoken'', ''api_token'', ''api-token'', ''authorization'', ''secret'', ''password'']"

abbreviation untraceable :: "'a res" where "untraceable \<equiv> value_error ''breadth_item_untraceable''"
abbreviation response_invalid :: "'a res" where "response_invalid \<equiv> value_error ''breadth_response_invalid''"
abbreviation pagination_invalid :: "'a res" where "pagination_invalid \<equiv> value_error ''breadth_pagination_invalid''"

definition rejection_hash :: "pylib \<Rightarrow> string \<Rightarrow> string \<Rightarrow> string \<Rightarrow> string res" where
  "rejection_hash lib provider operation identity =
     (if identity = [] \<or> length identity > 512 \<or> breadth_secret_search identity then untraceable
      else Inr (sha256_hex lib (provider @ '':'' @ operation @ '':'' @ identity)))"

definition noise_parameter :: "string \<Rightarrow> bool" where
  "noise_parameter key = (has_prefix ''utm_'' (lower key) \<or> lower key \<in> {''fbclid'', ''gclid''})"

definition secret_parameter :: "string \<Rightarrow> bool" where
  "secret_parameter key = list_ex (\<lambda>m. contains m (lower key)) [''token'', ''key'', ''auth'', ''secret'', ''password'']"

text \<open>\<open>urlunsplit\<close> of a scheme, a nonempty network location, a path that starts with a slash, a query and no fragment.\<close>

definition url_text :: "string \<Rightarrow> string \<Rightarrow> string \<Rightarrow> string \<Rightarrow> string" where
  "url_text scheme netloc path query = scheme @ ''://'' @ netloc @ path @ (if query = [] then [] else ''?'' @ query)"

definition adapter_canonical_url :: "pylib \<Rightarrow> json \<Rightarrow> string option res" where
  "adapter_canonical_url lib v =
     (case v of
        JNull \<Rightarrow> Inr None
      | JStr s \<Rightarrow>
          (if length s > 2048 \<or> breadth_secret_search s then untraceable
           else case urlsplit lib s of
             None \<Rightarrow> value_error ''Invalid URL''
           | Some u \<Rightarrow>
               (if lower (url_scheme u) \<notin> {''http'', ''https''} \<or> url_hostname u \<in> {None, Some []}
                   \<or> url_username u \<notin> {None, Some []} \<or> url_password u \<notin> {None, Some []} then untraceable
                else let scheme = lower (url_scheme u); host = lower (case url_hostname u of None \<Rightarrow> [] | Some h \<Rightarrow> h) in
                  bindR (url_port u) (\<lambda>port.
                    let netloc = (case port of None \<Rightarrow> host
                                  | Some p \<Rightarrow> (if (scheme, p) \<in> {(''http'', 80), (''https'', 443)} then host else host @ '':'' @ str_int p));
                        kept = filter (\<lambda>(k, _). \<not> noise_parameter k) (parse_qsl lib (url_query u)) in
                    if list_ex (secret_parameter \<circ> fst) kept then untraceable
                    else Inr (Some (url_text scheme netloc (if url_path u = [] then ''/'' else url_path u) (urlencode lib (sort kept)))))))
      | _ \<Rightarrow> untraceable)"

definition last_key :: "dict \<Rightarrow> (string \<times> string) res" where
  "last_key state =
     (case dget_default state ''last_key'' (JList [JStr [], JStr []]) of
        JList [JStr a, JStr b] \<Rightarrow>
          (if length a > 200 \<or> length b > 200 then value_error ''breadth_continuation_invalid'' else Inr (a, b))
      | _ \<Rightarrow> value_error ''breadth_continuation_invalid'')"

fun deduplicate :: "pylib \<Rightarrow> (string \<times> string) list \<Rightarrow> dict list \<Rightarrow> dict list res" where
  "deduplicate lib seen [] = Inr []"
| "deduplicate lib seen (p # ps) =
     (case dget p ''provider_item_id'' of
        JStr identity \<Rightarrow>
          bindR (canonical_projection_hash lib p) (\<lambda>digest.
            case map_of seen identity of
              Some prior \<Rightarrow> (if prior \<noteq> digest then value_error ''breadth_duplicate_identity_conflict'' else deduplicate lib seen ps)
            | None \<Rightarrow> bindR (deduplicate lib ((identity, digest) # seen) ps) (\<lambda>qs. Inr (p # qs)))
      | _ \<Rightarrow> untraceable)"

definition deduplicate_payloads :: "pylib \<Rightarrow> dict list \<Rightarrow> dict list res" where
  "deduplicate_payloads lib = deduplicate lib []"

text \<open>What becomes of a row: a payload, a rejected row with its hash, or nothing.\<close>

datatype row_outcome = Emit dict | Reject string | Skip

fun emitted :: "row_outcome \<Rightarrow> dict option" where
  "emitted (Emit p) = Some p" | "emitted _ = None"
fun rejected :: "row_outcome \<Rightarrow> string option" where
  "rejected (Reject h) = Some h" | "rejected _ = None"

definition reject_row :: "pylib \<Rightarrow> string \<Rightarrow> string \<Rightarrow> string \<Rightarrow> row_outcome res" where
  "reject_row lib provider operation identity = bindR (rejection_hash lib provider operation identity) (\<lambda>h. Inr (Reject h))"

definition json_rows :: "json \<Rightarrow> (dict \<Rightarrow> row_outcome res) \<Rightarrow> row_outcome list res" where
  "json_rows rows f =
     (case rows of
        JList xs \<Rightarrow> mapR (\<lambda>x. case x of JObj row \<Rightarrow> f row | _ \<Rightarrow> response_invalid) xs
      | _ \<Rightarrow> response_invalid)"

definition opaque_identity :: "string \<Rightarrow> bool" where
  "opaque_identity = class_range (\<lambda>c. is_alnum c \<or> c \<in> set ''_-'') 1 160"

definition total_ok :: "json \<Rightarrow> bool" where
  "total_ok v = (case v of JInt n \<Rightarrow> 0 \<le> n \<and> n \<le> 10000000 | _ \<Rightarrow> False)"

definition total_value :: "json \<Rightarrow> int" where
  "total_value v = (case v of JInt n \<Rightarrow> n | _ \<Rightarrow> 0)"

text \<open>A parsed page: the payloads, whether there is more, the state of the next page, the hashes of the rejected rows.\<close>

record parsed_page =
  ppg_payloads :: "dict list"
  ppg_more :: bool
  ppg_progress :: dict
  ppg_rejected :: "string list"

subsection \<open>Marketaux\<close>

definition marketaux_row :: "pylib \<Rightarrow> dict \<Rightarrow> dict \<Rightarrow> row_outcome res" where
  "marketaux_row lib c row =
     bindR (sanitize_item lib row) (\<lambda>item.
       case item of
         None \<Rightarrow>
           (case dget row ''uuid'' of
              JStr identity \<Rightarrow> (if opaque_identity identity then reject_row lib ''marketaux'' ''news_all'' identity else untraceable)
            | _ \<Rightarrow> untraceable)
       | Some it \<Rightarrow>
           bindR (dindex c ''query'') (\<lambda>query.
             Inr (Emit [(''provider_item_id'', JStr (sit_provider_item_id it)), (''published_at'', JStr (sit_published_at it)),
               (''title'', opt_text (sit_display_title it)), (''canonical_url'', opt_text (sit_display_url it)),
               (''source_identity'', opt_text (sit_source_identity it)), (''query'', query), (''language'', dget c ''language''),
               (''symbols'', dget c ''symbols''), (''description_coverage'', JStr ''blocked''), (''snippet_coverage'', JStr ''blocked'')])))"

definition row_count :: "json \<Rightarrow> nat" where
  "row_count rows = (case rows of JList xs \<Rightarrow> length xs | _ \<Rightarrow> 0)"

definition at_most :: "int \<Rightarrow> json \<Rightarrow> unit res" where
  "at_most limit rows = (case rows of JList xs \<Rightarrow> (if int (length xs) > limit then response_invalid else Inr ()) | _ \<Rightarrow> response_invalid)"

definition marketaux_payloads :: "pylib \<Rightarrow> json \<Rightarrow> dict \<Rightarrow> int \<Rightarrow> int \<Rightarrow> parsed_page res" where
  "marketaux_payloads lib body c limit page =
     bindR (jindex body ''data'') (\<lambda>rows.
     bindR (at_most limit rows) (\<lambda>_.
     bindR (json_rows rows (marketaux_row lib c)) (\<lambda>outcomes.
       let meta = (case body of JObj b \<Rightarrow> dget b ''meta'' | _ \<Rightarrow> JNull);
           found_json = (case meta of JObj m \<Rightarrow> dget m ''found'' | _ \<Rightarrow> JNull);
           found = total_value found_json; n = int (row_count rows);
           confirmed_before = (page - 1) * limit; confirmed_after = confirmed_before + n in
       if \<not> total_ok found_json then pagination_invalid
       else if found < confirmed_after \<or> (n = 0 \<and> found > confirmed_before) then pagination_invalid
       else if confirmed_after < found \<and> n \<noteq> limit then pagination_invalid
       else Inr \<lparr>ppg_payloads = List.map_filter emitted outcomes, ppg_more = (confirmed_after < found),
                 ppg_progress = [(''page'', JInt (page + 1))], ppg_rejected = List.map_filter rejected outcomes\<rparr>)))"

subsection \<open>Finnhub\<close>

definition identity_text :: "json \<Rightarrow> string option" where
  "identity_text v =
     (case v of
        JInt n \<Rightarrow> (if opaque_identity (str_int n) then Some (str_int n) else None)
      | JStr s \<Rightarrow> (if opaque_identity s then Some s else None)
      | _ \<Rightarrow> None)"

definition url_identity :: "pylib \<Rightarrow> string \<Rightarrow> string" where
  "url_identity lib url = ''company-news:url:'' @ sha256_hex lib url"

definition news_identity :: "pylib \<Rightarrow> string option \<Rightarrow> string option \<Rightarrow> string option" where
  "news_identity lib identity url =
     (case identity of Some i \<Rightarrow> Some (''company-news:id:'' @ i) | None \<Rightarrow> map_option (url_identity lib) url)"

definition news_payload :: "dict \<Rightarrow> json \<Rightarrow> string \<Rightarrow> string \<Rightarrow> string option \<Rightarrow> dict" where
  "news_payload row symbol identity published url =
     [(''provider_item_id'', JStr identity), (''published_at'', JStr published), (''title'', dget row ''headline''),
      (''canonical_url'', opt_text url), (''source_identity'', dget row ''source''), (''symbol'', symbol),
      (''category'', dget row ''category''), (''summary_coverage'', JStr ''blocked'')]"

definition dated_news_row :: "pylib \<Rightarrow> string \<Rightarrow> dict \<Rightarrow> dict \<Rightarrow> string option \<Rightarrow> string \<Rightarrow> row_outcome res" where
  "dated_news_row lib operation c row url identity =
     (case iso_timestamp lib (dget row ''datetime'') of
        None \<Rightarrow> reject_row lib ''finnhub'' operation identity
      | Some published \<Rightarrow>
          bindR (sindex c ''start'') (\<lambda>start.
          bindR (if start \<le> take 10 published then sindex c ''end'' else Inr []) (\<lambda>end_date.
          if \<not> (start \<le> take 10 published \<and> take 10 published \<le> end_date) then Inr Skip
          else bindR (dindex c ''symbol'') (\<lambda>symbol. Inr (Emit (news_payload row symbol identity published url))))))"

definition company_news_row :: "pylib \<Rightarrow> string \<Rightarrow> dict \<Rightarrow> dict \<Rightarrow> row_outcome res" where
  "company_news_row lib operation c row =
     (let v = dget row ''id''; identity = identity_text v; invalid_identity = (v \<noteq> JNull \<and> identity = None) in
      case adapter_canonical_url lib (dget row ''url'') of
        Inl e \<Rightarrow>
          (case (is_ValueError e, identity) of
             (True, Some i) \<Rightarrow> reject_row lib ''finnhub'' operation (''company-news:id:'' @ i)
           | _ \<Rightarrow> Inl e)
      | Inr url \<Rightarrow>
          if invalid_identity
          then (case url of None \<Rightarrow> untraceable | Some u \<Rightarrow> reject_row lib ''finnhub'' operation (url_identity lib u))
          else case news_identity lib identity url of
            None \<Rightarrow> untraceable
          | Some g \<Rightarrow> dated_news_row lib operation c row url g)"

definition payload_key :: "dict \<Rightarrow> string \<times> string" where
  "payload_key p = (text_at p ''published_at'', text_at p ''provider_item_id'')"

definition key_json :: "string \<times> string \<Rightarrow> json" where
  "key_json k = JList [JStr (fst k), JStr (snd k)]"

text \<open>One page of the sorted payloads after the last key.\<close>

definition news_page :: "pylib \<Rightarrow> int \<Rightarrow> string \<times> string \<Rightarrow> dict list \<Rightarrow> (dict list \<times> bool) res" where
  "news_page lib limit key payloads =
     bindR (deduplicate_payloads lib (filter (\<lambda>p. key < payload_key p) (sort_key payload_key payloads))) (\<lambda>ps.
       Inr (take (nat limit) ps, length ps > nat limit))"

definition company_news_payloads :: "pylib \<Rightarrow> string \<Rightarrow> json \<Rightarrow> dict \<Rightarrow> int \<Rightarrow> dict \<Rightarrow> parsed_page res" where
  "company_news_payloads lib operation body c limit state =
     bindR (json_rows body (company_news_row lib operation c)) (\<lambda>outcomes.
     bindR (last_key state) (\<lambda>key.
     bindR (news_page lib limit key (List.map_filter emitted outcomes)) (\<lambda>(out, more_rows).
       Inr \<lparr>ppg_payloads = out, ppg_more = more_rows,
            ppg_progress = (if out = [] then [] else [(''last_key'', key_json (payload_key (last out)))]),
            ppg_rejected = List.map_filter rejected outcomes\<rparr>)))"

subsection \<open>EIA\<close>

text \<open>\<open>float(value)\<close> of a text, the text itself when it is no number.\<close>

definition number_of_text :: "pylib \<Rightarrow> json \<Rightarrow> json" where
  "number_of_text lib v = (case v of JStr s \<Rightarrow> (case float_text lib s of None \<Rightarrow> v | Some x \<Rightarrow> JFloat x) | _ \<Rightarrow> v)"

definition facet_text :: "(char \<Rightarrow> bool) \<Rightarrow> nat \<Rightarrow> json \<Rightarrow> string res" where
  "facet_text p n v = (case v of JStr s \<Rightarrow> (if class_range p 1 n s then Inr s else untraceable) | _ \<Rightarrow> untraceable)"

definition month_text_ok :: "string \<Rightarrow> bool" where
  "month_text_ok s = month_pattern (JStr s)"

definition retail_row :: "pylib \<Rightarrow> string \<Rightarrow> dict \<Rightarrow> dict \<Rightarrow> row_outcome res" where
  "retail_row lib operation c row =
     (let facet = facet_text (\<lambda>ch. is_alnum ch \<or> ch = CHR ''-'') 20 in
      bindR (facet (dget row ''stateid'')) (\<lambda>geography.
      bindR (facet (dget row ''sectorid'')) (\<lambda>sector.
      bindR (facet (dget row ''period'')) (\<lambda>period.
      bindR (lindex c ''geographies'') (\<lambda>geographies.
      if JStr geography \<notin> set geographies then Inr Skip
      else bindR (lindex c ''sectors'') (\<lambda>sectors.
      if JStr sector \<notin> set sectors then Inr Skip
      else if \<not> month_text_ok period
      then reject_row lib ''eia'' operation (''retail:'' @ period @ '':'' @ geography @ '':'' @ sector)
      else bindR (sindex c ''start'') (\<lambda>start.
      bindR (sindex c ''end'') (\<lambda>end_date.
      if \<not> (take 7 start \<le> period \<and> period \<le> take 7 end_date) then Inr Skip
      else bindR (eia_series_identity (JStr geography) (JStr sector) (JStr ''price'')) (\<lambda>series.
        Inr (Emit [(''provider_item_id'', JStr (period @ '':'' @ geography @ '':'' @ sector)),
          (''published_at'', opt_text (iso_timestamp lib (JStr period))), (''period'', JStr period), (''dataset'', JStr ''electricity''),
          (''series_identity'', JStr series), (''geography'', JStr geography), (''sector'', JStr sector), (''metric'', JStr ''price''),
          (''value'', number_of_text lib (dget row ''price'')),
          (''unit'', if truthy (dget row ''price-units'') then dget row ''price-units'' else JStr ''unknown'')]))))))))))"

definition rto_row :: "pylib \<Rightarrow> string \<Rightarrow> dict \<Rightarrow> dict \<Rightarrow> row_outcome res" where
  "rto_row lib operation c row =
     (let facet = facet_text (\<lambda>ch. is_upper ch \<or> is_digit ch \<or> ch \<in> set '':-'') 30 in
      bindR (facet (dget row ''respondent'')) (\<lambda>region.
      bindR (facet (dget row ''type'')) (\<lambda>metric.
      bindR (facet (dget row ''period'')) (\<lambda>period.
      bindR (lindex c ''regions'') (\<lambda>regions.
      if JStr region \<notin> set regions then Inr Skip
      else bindR (lindex c ''types'') (\<lambda>types.
      if JStr metric \<notin> set types then Inr Skip
      else if \<not> match_pat hour_pattern period
      then reject_row lib ''eia'' operation (''rto:'' @ region @ '':'' @ metric @ '':'' @ period)
      else bindR (sindex c ''start'') (\<lambda>start.
      bindR (sindex c ''end'') (\<lambda>end_date.
      if \<not> (start \<le> period \<and> period \<le> end_date) then Inr Skip
      else bindR (rto_series_identity region metric) (\<lambda>series.
        Inr (Emit [(''provider_item_id'', JStr (''rto:'' @ sha256_hex lib (series @ '':'' @ period))),
          (''published_at'', JStr (period @ '':00:00+00:00'')), (''period'', JStr period), (''dataset'', JStr operation),
          (''series_identity'', JStr series), (''region'', JStr region), (''metric'', JStr metric),
          (''value'', number_of_text lib (dget row ''value'')),
          (''unit'', if truthy (dget row ''value-units'') then dget row ''value-units'' else JStr ''unknown'')]))))))))))"

definition eia_payloads :: "pylib \<Rightarrow> string \<Rightarrow> json \<Rightarrow> dict \<Rightarrow> int \<Rightarrow> int \<Rightarrow> parsed_page res" where
  "eia_payloads lib operation body c limit offset =
     bindR (jindex body ''response'') (\<lambda>response.
     bindR (jindex response ''data'') (\<lambda>rows.
     bindR (at_most limit rows) (\<lambda>_.
     bindR (json_rows rows (if operation = ''electricity_retail_sales'' then retail_row lib operation c else rto_row lib operation c)) (\<lambda>outcomes.
       let total_json = (case response of JObj b \<Rightarrow> dget b ''total'' | _ \<Rightarrow> JNull);
           total = total_value total_json; n = int (row_count rows); confirmed = offset + n in
       if \<not> total_ok total_json then pagination_invalid
       else if total < confirmed \<or> (n = 0 \<and> total > offset) then pagination_invalid
       else if confirmed < total \<and> n = 0 then pagination_invalid
       else Inr \<lparr>ppg_payloads = List.map_filter emitted outcomes, ppg_more = (confirmed < total),
                 ppg_progress = [(''offset'', JInt confirmed)], ppg_rejected = List.map_filter rejected outcomes\<rparr>))))"

subsection \<open>SEC EDGAR\<close>

definition history_file :: "string \<Rightarrow> json \<Rightarrow> string res" where
  "history_file cik name =
     (case name of
        JStr s \<Rightarrow> (if match_pat (lit ''CIK'' @ lit cik @ lit ''-submissions-'' @ digits 3 @ lit ''.json'') s then Inr s
                  else value_error ''sec_history_reference_invalid'')
      | _ \<Rightarrow> value_error ''sec_history_reference_invalid'')"

text \<open>The columns \<open>accessionNumber\<close>, \<open>filingDate\<close>, \<open>form\<close> and \<open>primaryDocument\<close> as rows.\<close>

definition json_column :: "dict \<Rightarrow> string \<Rightarrow> json list res" where
  "json_column d name = (case dget d name of JList xs \<Rightarrow> Inr xs | _ \<Rightarrow> response_invalid)"

definition sec_columns :: "json \<Rightarrow> bool \<Rightarrow> dict res" where
  "sec_columns body history =
     (case body of
        JObj b \<Rightarrow>
          (if history then Inr b
           else case dget b ''filings'' of
             JObj filings \<Rightarrow>
               (case (dget filings ''recent'', dget filings ''files'') of
                  (JObj recent, JList _) \<Rightarrow> Inr recent
                | _ \<Rightarrow> response_invalid)
           | _ \<Rightarrow> response_invalid)
      | _ \<Rightarrow> response_invalid)"

type_synonym sec_columns_row = "json \<times> json \<times> json \<times> json"

definition sec_rows :: "json \<Rightarrow> bool \<Rightarrow> sec_columns_row list res" where
  "sec_rows body history =
     bindR (sec_columns body history) (\<lambda>d.
     bindR (mapR (json_column d) [''accessionNumber'', ''filingDate'', ''form'', ''primaryDocument'']) (\<lambda>arrays.
       case arrays of
         [a, b, c, e] \<Rightarrow>
           (if length a = length b \<and> length b = length c \<and> length c = length e
            then Inr (zip a (zip b (zip c e))) else response_invalid)
       | _ \<Rightarrow> response_invalid))"

text \<open>The references of the first response to history files that meet the window.\<close>

definition history_reference :: "pylib \<Rightarrow> dict \<Rightarrow> json \<Rightarrow> json option res" where
  "history_reference lib c reference =
     (case reference of
        JObj r \<Rightarrow>
          (if \<not> {''name'', ''filingFrom'', ''filingTo''} \<subseteq> keys_of r then value_error ''sec_history_reference_invalid''
           else bindR (sindex c ''cik'') (\<lambda>cik.
             bindR (history_file cik (dget r ''name'')) (\<lambda>name.
             case (dget r ''filingFrom'', dget r ''filingTo'') of
               (JStr filing_from, JStr filing_to) \<Rightarrow>
                 (case (date_ordinal lib filing_from, date_ordinal lib filing_to) of
                    (Some a, Some b) \<Rightarrow>
                      (if a > b then value_error ''sec_history_reference_invalid''
                       else bindR (sindex c ''start'') (\<lambda>start. bindR (sindex c ''end'') (\<lambda>end_date.
                         Inr (if filing_to \<ge> start \<and> filing_from \<le> end_date then Some (JStr name) else None))))
                  | _ \<Rightarrow> value_error ''sec_history_reference_invalid'')
             | _ \<Rightarrow> value_error ''sec_history_reference_invalid'')))
      | _ \<Rightarrow> value_error ''sec_history_reference_invalid'')"

definition history_budget :: "dict \<Rightarrow> json list \<Rightarrow> unit res" where
  "history_budget c files =
     bindR (dindex c ''max_history_files'') (\<lambda>v.
       case int_value v of
         None \<Rightarrow> Inl (TypeError ''max_history_files'')
       | Some n \<Rightarrow> (if int (length files) > n then value_error ''breadth_history_budget_exceeded'' else Inr ()))"

definition history_files :: "pylib \<Rightarrow> dict \<Rightarrow> json \<Rightarrow> dict \<Rightarrow> json list res" where
  "history_files lib c body state =
     bindR (case dget_default state ''files'' (JList []) of JList xs \<Rightarrow> Inr xs | _ \<Rightarrow> Inl (TypeError ''files'')) (\<lambda>files.
     bindR (history_budget c files) (\<lambda>_.
     bindR (mapR (\<lambda>name. bindR (sindex c ''cik'') (\<lambda>cik. history_file cik name)) files) (\<lambda>_.
     if state \<noteq> [] then Inr files
     else
       let references = (case body of JObj b \<Rightarrow> (case dget b ''filings'' of JObj f \<Rightarrow> dget f ''files'' | _ \<Rightarrow> JNull) | _ \<Rightarrow> JNull) in
       bindR (case references of JList xs \<Rightarrow> mapR (history_reference lib c) xs | _ \<Rightarrow> Inl (TypeError ''files'')) (\<lambda>found.
         let files' = files @ List.map_filter id found in
         bindR (history_budget c files') (\<lambda>_. Inr files')))))"

record SecRow =
  scr_accession :: string
  scr_filing_date :: string
  scr_form :: json
  scr_document :: json
  scr_permanent_invalid :: bool

definition form_text_ok :: "json \<Rightarrow> bool" where
  "form_text_ok v = (case v of JStr s \<Rightarrow> class_range (\<lambda>ch. is_upper ch \<or> is_digit ch \<or> ch = CHR ''-'') 1 20 s | _ \<Rightarrow> False)"

definition eligible_row :: "pylib \<Rightarrow> dict \<Rightarrow> sec_columns_row \<Rightarrow> SecRow option res" where
  "eligible_row lib c row =
     (case row of (accession, filing_date, form, document) \<Rightarrow>
      case accession of
        JStr a \<Rightarrow>
          (if \<not> accession_pattern a then untraceable
           else
             let parsed = (case filing_date of JStr d \<Rightarrow> (if date_ordinal lib d = None then None else Some d) | _ \<Rightarrow> None) in
             bindR (case parsed of
                      None \<Rightarrow> Inr True
                    | Some d \<Rightarrow> bindR (sindex c ''start'') (\<lambda>start. bindR (sindex c ''end'') (\<lambda>end_date. Inr (start \<le> d \<and> d \<le> end_date))))
               (\<lambda>in_window.
             if \<not> in_window then Inr None
             else
               let r = \<lparr>scr_accession = a, scr_filing_date = (case parsed of None \<Rightarrow> [] | Some d \<Rightarrow> d), scr_form = form, scr_document = document,
                        scr_permanent_invalid = (parsed = None \<or> \<not> form_text_ok form)\<rparr> in
               if \<not> form_text_ok form then Inr (Some r)
               else bindR (lindex c ''forms'') (\<lambda>forms. if form \<notin> set forms then Inr None else Inr (Some r))))
      | _ \<Rightarrow> untraceable)"

definition sec_key :: "SecRow \<Rightarrow> string \<times> string" where
  "sec_key r = (scr_filing_date r, scr_accession r)"

definition sec_row :: "pylib \<Rightarrow> string \<Rightarrow> dict \<Rightarrow> json \<Rightarrow> SecRow \<Rightarrow> row_outcome res" where
  "sec_row lib operation c filename r =
     (if scr_permanent_invalid r then reject_row lib ''sec_edgar'' operation (scr_accession r)
      else bindR (sindex c ''cik'') (\<lambda>cik. bindR (dindex c ''ticker'') (\<lambda>ticker.
        Inr (Emit [(''provider_item_id'', JStr (scr_accession r)),
          (''published_at'', opt_text (iso_timestamp lib (JStr (scr_filing_date r)))), (''cik'', JStr cik), (''ticker'', ticker),
          (''accession_number'', JStr (scr_accession r)), (''filing_date'', JStr (scr_filing_date r)), (''form'', scr_form r),
          (''primary_document'', scr_document r),
          (''official_url'', JStr (sec_official_url cik (scr_accession r) (str_of lib (scr_document r)))), (''official_source'', JBool True),
          (''submissions_file'', filename)]))))"

text \<open>The file name of the facts: a continuation state always carries the key \<open>file\<close>, possibly with \<open>None\<close>.\<close>

definition submissions_name :: "dict \<Rightarrow> dict \<Rightarrow> json res" where
  "submissions_name c state =
     bindR (sindex c ''cik'') (\<lambda>cik. Inr (dget_default state ''file'' (JStr (''CIK'' @ cik @ ''.json''))))"

definition sec_progress :: "dict \<Rightarrow> dict list \<Rightarrow> json list \<Rightarrow> dict" where
  "sec_progress state out files =
     [(''last_key'', key_json (text_at (last out) ''filing_date'', text_at (last out) ''provider_item_id'')),
      (''file'', dget state ''file''), (''files'', JList files)]"

definition sec_payloads :: "pylib \<Rightarrow> string \<Rightarrow> json \<Rightarrow> dict \<Rightarrow> int \<Rightarrow> dict \<Rightarrow> parsed_page res" where
  "sec_payloads lib operation body c limit state =
     bindR (sec_rows body (dget state ''file'' \<noteq> JNull)) (\<lambda>rows.
     bindR (history_files lib c body state) (\<lambda>files.
     bindR (mapR (eligible_row lib c) rows) (\<lambda>found.
     bindR (last_key state) (\<lambda>key.
     bindR (submissions_name c state) (\<lambda>filename.
     bindR (mapR (sec_row lib operation c filename) (filter (\<lambda>r. key < sec_key r) (sort_key sec_key (List.map_filter id found)))) (\<lambda>outcomes.
     bindR (deduplicate_payloads lib (List.map_filter emitted outcomes)) (\<lambda>payloads.
       let out = take (nat limit) payloads; refused = List.map_filter rejected outcomes in
       Inr (if nat limit < length payloads
            then \<lparr>ppg_payloads = out, ppg_more = True, ppg_progress = sec_progress state out files, ppg_rejected = refused\<rparr>
            else case files of
              f # fs \<Rightarrow> \<lparr>ppg_payloads = out, ppg_more = True, ppg_progress = [(''file'', f), (''files'', JList fs)], ppg_rejected = refused\<rparr>
            | [] \<Rightarrow> \<lparr>ppg_payloads = out, ppg_more = False, ppg_progress = [], ppg_rejected = refused\<rparr>))))))))"

end
