(* ===== verification/Breadth_Adapter.thy ===== *)
theory Breadth_Adapter
  imports Breadth
begin

text \<open>
  The operation of the bounded adapters, \<open>BreadthAdapter.fetch\<close> of \<open>providers/breadth.py\<close>: validation of the request, one transport call,
  and the assembly of the fetch result with its next cursor and continuation.
\<close>

subsection \<open>The request\<close>

definition breadth_credential :: "string \<Rightarrow> string option" where
  "breadth_credential provider = map_of
     [(''marketaux'', ''MARKETAUX_API_TOKEN''), (''finnhub'', ''FINNHUB_API_KEY''), (''eia'', ''EIA_API_KEY''),
      (''sec_edgar'', ''SEC_USER_AGENT'')] provider"

definition numbered :: "string \<Rightarrow> json list \<Rightarrow> dict" where
  "numbered name xs = map (\<lambda>(i, v). (name @ ''['' @ str_nat i @ '']'', v)) (zip [0..<length xs] xs)"

definition marketaux_params :: "dict \<Rightarrow> int \<Rightarrow> int \<Rightarrow> dict res" where
  "marketaux_params c limit page =
     bindR (dindex c ''query'') (\<lambda>query. bindR (dindex c ''start'') (\<lambda>start. bindR (dindex c ''end'') (\<lambda>end_date.
     bindR (if truthy (dget c ''symbols'')
            then bindR (lindex c ''symbols'') (\<lambda>xs.
              bindR (mapR (\<lambda>x. case x of JStr s \<Rightarrow> Inr s | _ \<Rightarrow> Inl (TypeError ''symbols'')) xs) (\<lambda>ss.
                Inr [(''symbols'', JStr (join_with '','' ss))]))
            else Inr []) (\<lambda>symbols.
       Inr ([(''search'', query), (''limit'', JInt limit), (''page'', JInt page), (''published_after'', start),
             (''published_before'', end_date), (''sort'', JStr ''published_asc'')]
            @ (if truthy (dget c ''language'') then [(''language'', dget c ''language'')] else []) @ symbols)))))"

definition company_news_params :: "dict \<Rightarrow> dict res" where
  "company_news_params c =
     bindR (dindex c ''symbol'') (\<lambda>symbol. bindR (dindex c ''start'') (\<lambda>start. bindR (dindex c ''end'') (\<lambda>end_date.
       Inr [(''symbol'', symbol), (''from'', start), (''to'', end_date)])))"

definition retail_params :: "dict \<Rightarrow> int \<Rightarrow> int \<Rightarrow> dict res" where
  "retail_params c limit offset =
     bindR (sindex c ''start'') (\<lambda>start. bindR (sindex c ''end'') (\<lambda>end_date.
     bindR (lindex c ''geographies'') (\<lambda>geographies. bindR (lindex c ''sectors'') (\<lambda>sectors.
       Inr ([(''frequency'', JStr ''monthly''), (''data[]'', JStr ''price''), (''offset'', JInt offset), (''length'', JInt limit),
             (''start'', JStr (take 7 start)), (''end'', JStr (take 7 end_date)), (''sort[0][column]'', JStr ''period''),
             (''sort[0][direction]'', JStr ''asc'')]
            @ numbered ''facets[stateid]'' geographies @ numbered ''facets[sectorid]'' sectors)))))"

definition rto_params :: "dict \<Rightarrow> int \<Rightarrow> int \<Rightarrow> dict res" where
  "rto_params c limit offset =
     bindR (dindex c ''start'') (\<lambda>start. bindR (dindex c ''end'') (\<lambda>end_date.
     bindR (lindex c ''regions'') (\<lambda>regions. bindR (lindex c ''types'') (\<lambda>types.
       Inr ([(''frequency'', JStr ''hourly''), (''data[0]'', JStr ''value''), (''start'', start), (''end'', end_date),
             (''offset'', JInt offset), (''length'', JInt limit), (''sort[0][column]'', JStr ''period''),
             (''sort[0][direction]'', JStr ''asc''), (''sort[1][column]'', JStr ''respondent''), (''sort[1][direction]'', JStr ''asc''),
             (''sort[2][column]'', JStr ''type''), (''sort[2][direction]'', JStr ''asc'')]
            @ numbered ''facets[respondent]'' regions @ numbered ''facets[type]'' types)))))"

definition sec_params :: "dict \<Rightarrow> dict \<Rightarrow> (string \<times> dict) res" where
  "sec_params c state =
     (if dget state ''file'' \<noteq> JNull
      then bindR (sindex c ''cik'') (\<lambda>cik. bindR (history_file cik (dget state ''file'')) (\<lambda>name.
        Inr (''submissions_history'', [(''file'', JStr name)])))
      else bindR (dindex c ''cik'') (\<lambda>cik. Inr (''submissions'', [(''cik'', cik)])))"

definition breadth_params :: "string \<Rightarrow> string \<Rightarrow> dict \<Rightarrow> int \<Rightarrow> int \<Rightarrow> int \<Rightarrow> dict \<Rightarrow> (string \<times> dict) res" where
  "breadth_params provider operation c limit page offset state =
     (let named = (\<lambda>name r. bindR r (\<lambda>params. Inr (name, params))) in
      if provider = ''marketaux'' then named ''news_all'' (marketaux_params c limit page)
      else if provider = ''finnhub'' then named ''company_news'' (company_news_params c)
      else if provider = ''eia'' then
        (if operation = ''electricity_retail_sales'' then named operation (retail_params c limit offset)
         else named ''electricity_rto_region_data'' (rto_params c limit offset))
      else sec_params c state)"

text \<open>\<open>isinstance(v, int)\<close> also holds of a \<open>bool\<close>.\<close>

fun int_instance :: "json \<Rightarrow> int option" where
  "int_instance (JInt n) = Some n"
| "int_instance (JBool b) = Some (if b then 1 else 0)"
| "int_instance _ = None"

record prepared_fetch =
  prf_config :: dict
  prf_lineage :: ContinuationLineage
  prf_state :: dict
  prf_page :: int
  prf_offset :: int
  prf_operation :: string
  prf_params :: dict

definition stored_state :: "pylib \<Rightarrow> string \<Rightarrow> string \<Rightarrow> dict \<Rightarrow> ContinuationLineage \<Rightarrow> ProviderFetchRequest \<Rightarrow> dict res" where
  "stored_state lib provider operation config lineage request =
     (case pfr_continuation request of
        Some (kv # kvs) \<Rightarrow> decode_continuation lib (kv # kvs) provider operation config lineage
      | _ \<Rightarrow> Inr [])"

definition prepare_fetch :: "pylib \<Rightarrow> string \<Rightarrow> string \<Rightarrow> RuntimeCredential option \<Rightarrow> ProviderFetchRequest \<Rightarrow> prepared_fetch res" where
  "prepare_fetch lib provider operation credential request =
     (if credential = None \<or> map_option rc_name credential \<noteq> breadth_credential provider
      then value_error ''breadth_credential_missing''
      else
        bindR (breadth_config provider operation lib (pfr_config request)) (\<lambda>config.
        bindR (dindex config ''window_mode'') (\<lambda>mode.
        if mode \<noteq> JStr ''fixed_window'' then value_error ''breadth_window_not_resolved''
        else if \<not> (1 \<le> pfr_limit request \<and> pfr_limit request \<le> 100) then value_error ''breadth_limit_invalid''
        else
          bindR (request_lineage request operation) (\<lambda>lineage.
          bindR (stored_state lib provider operation config lineage request) (\<lambda>state.
          case (int_instance (dget_default state ''page'' (JInt 1)), int_instance (dget_default state ''offset'' (JInt 0))) of
            (Some page, Some offset) \<Rightarrow>
              (if \<not> (1 \<le> page \<and> page \<le> 1000) \<or> \<not> (0 \<le> offset \<and> offset \<le> 10000000)
               then value_error ''breadth_continuation_invalid''
               else bindR (breadth_params provider operation config (pfr_limit request) page offset state) (\<lambda>(name, params).
                 Inr \<lparr>prf_config = config, prf_lineage = lineage, prf_state = state, prf_page = page, prf_offset = offset,
                      prf_operation = name, prf_params = params\<rparr>))
          | _ \<Rightarrow> value_error ''breadth_continuation_invalid'')))))"

subsection \<open>The response\<close>

definition breadth_payloads :: "pylib \<Rightarrow> string \<Rightarrow> string \<Rightarrow> json \<Rightarrow> int \<Rightarrow> prepared_fetch \<Rightarrow> parsed_page res" where
  "breadth_payloads lib provider operation body limit f =
     (if provider = ''marketaux'' then marketaux_payloads lib body (prf_config f) limit (prf_page f)
      else if provider = ''finnhub'' then company_news_payloads lib operation body (prf_config f) limit (prf_state f)
      else if provider = ''eia'' then eia_payloads lib operation body (prf_config f) limit (prf_offset f)
      else sec_payloads lib operation body (prf_config f) limit (prf_state f))"

text \<open>A payload that its contract refuses is rejected when it can be named.\<close>

definition validated_row :: "pylib \<Rightarrow> string \<Rightarrow> string \<Rightarrow> dict \<Rightarrow> row_outcome res" where
  "validated_row lib provider operation payload =
     (case validate_factual_payload lib provider operation 1 payload of
        Inr p \<Rightarrow> Inr (Emit p)
      | Inl e \<Rightarrow>
          (if \<not> is_ValueError e then Inl e
           else case dget payload ''provider_item_id'' of
             JStr identity \<Rightarrow> reject_row lib provider operation identity
           | _ \<Rightarrow> untraceable))"

definition item_metadata :: "dict \<Rightarrow> dict" where
  "item_metadata p =
     [(''provider_item_id'', dget p ''provider_item_id''), (''published_at'', dget p ''published_at'')]"

text \<open>\<open>a > b\<close> of two decoded values: texts compare, other values of unequal kinds raise.\<close>

definition json_greater :: "json \<Rightarrow> json \<Rightarrow> bool res" where
  "json_greater a b = (case (a, b) of (JStr s, JStr t) \<Rightarrow> Inr (s > t) | _ \<Rightarrow> Inl (TypeError ''unorderable''))"

definition pair_greater :: "json \<times> json \<Rightarrow> json \<times> json \<Rightarrow> bool res" where
  "pair_greater x y =
     (if fst x = fst y then (if snd x = snd y then Inr False else json_greater (snd x) (snd y)) else json_greater (fst x) (fst y))"

definition candidate_key :: "json \<Rightarrow> (json \<times> json) res" where
  "candidate_key c = bindR (jindex c ''published_at'') (\<lambda>a. bindR (jindex c ''provider_item_id'') (\<lambda>b. Inr (a, b)))"

fun latest :: "json \<Rightarrow> json \<times> json \<Rightarrow> json list \<Rightarrow> json res" where
  "latest best k [] = Inr best"
| "latest best k (c # cs) =
     bindR (candidate_key c) (\<lambda>k'. bindR (pair_greater k' k) (\<lambda>greater. if greater then latest c k' cs else latest best k cs))"

definition watermark :: "json list \<Rightarrow> json option res" where
  "watermark candidates =
     (case candidates of [] \<Rightarrow> Inr None | c # cs \<Rightarrow> bindR (candidate_key c) (\<lambda>k. bindR (latest c k cs) (\<lambda>w. Inr (Some w))))"

definition request_candidates :: "pylib \<Rightarrow> ProviderFetchRequest \<Rightarrow> json list res" where
  "request_candidates lib request =
     (case pfr_cursor request of
        Some (ch # cs) \<Rightarrow> (case json_loads lib (ch # cs) of None \<Rightarrow> value_error ''json'' | Some v \<Rightarrow> Inr [v])
      | _ \<Rightarrow> Inr [])"

definition breadth_retention :: "string \<Rightarrow> string" where
  "breadth_retention provider = (if provider \<in> {''marketaux'', ''sec_edgar''} then ''link_only'' else ''metadata_only'')"

definition fetched_page ::
  "pylib \<Rightarrow> string \<Rightarrow> string \<Rightarrow> prepared_fetch \<Rightarrow> ProviderFetchRequest \<Rightarrow> ProviderTransportResponse \<Rightarrow> ProviderFetchResult res" where
  "fetched_page lib provider operation f request response =
     bindR (breadth_payloads lib provider operation (rsp_body response) (pfr_limit request) f) (\<lambda>pg.
     let coverage_incomplete = (provider = ''marketaux'' \<and> prf_page f = 1000 \<and> ppg_more pg);
         has_more = (ppg_more pg \<and> \<not> coverage_incomplete) in
     bindR (mapR (validated_row lib provider operation) (ppg_payloads pg)) (\<lambda>outcomes.
     bindR (deduplicate_payloads lib (List.map_filter emitted outcomes)) (\<lambda>factuals.
     bindR (mapR (\<lambda>p. bindR (sindex p ''provider_item_id'') (\<lambda>i.
              Inr (raw_envelope lib provider i (item_metadata p) response (breadth_retention provider)))) factuals) (\<lambda>raws.
     bindR (request_candidates lib request) (\<lambda>candidates.
     bindR (watermark (candidates @ map (JObj \<circ> item_metadata) factuals)) (\<lambda>mark.
     bindR (if has_more then bindR (encode_continuation lib provider operation (prf_config f) (prf_lineage f) (ppg_progress pg)) (\<lambda>t. Inr (Some t))
            else Inr None) (\<lambda>token.
       new_fetch_result
         \<lparr>pres_raw_items = raws, pres_sanitized_metadata = map item_metadata factuals,
          pres_next_cursor = (case mark of None \<Rightarrow> pfr_cursor request | Some w \<Rightarrow> Some (plain_dumps lib w)),
          pres_has_more = has_more, pres_safe_errors = [], pres_provider = provider, pres_contract_version = 2,
          pres_display_projections = [], pres_factual_projections = factuals, pres_continuation = token,
          pres_rejected_row_hashes = ppg_rejected pg @ List.map_filter rejected outcomes,
          pres_coverage_incomplete = coverage_incomplete\<rparr>)))))))"

subsection \<open>The fetch\<close>

definition breadth_failed :: "string \<Rightarrow> ProviderAdapterErrorCode \<Rightarrow> string \<Rightarrow> bool \<Rightarrow> ProviderFetchResult" where
  "breadth_failed provider code message retryable = (adapter_failed provider code message retryable)\<lparr>pres_contract_version := 2\<rparr>"

fun is_config_error :: "exn \<Rightarrow> bool" where
  "is_config_error (TypeError _) = True" | "is_config_error (KeyError _) = True" | "is_config_error e = is_ValueError e"

fun is_response_error :: "exn \<Rightarrow> bool" where
  "is_response_error (IndexError _) = True" | "is_response_error (OverflowError _) = True" | "is_response_error e = is_config_error e"

definition refused_response :: "pylib \<Rightarrow> ProviderFetchResult \<Rightarrow> ProviderTransportResponse \<Rightarrow> ProviderFetchResult" where
  "refused_response lib error response =
     error\<lparr>pres_contract_version := 2,
       pres_safe_errors := [(hd (pres_safe_errors error))\<lparr>pae_retry_after_seconds := retry_after lib (rsp_headers response)\<rparr>]\<rparr>"

definition handle_response ::
  "pylib \<Rightarrow> string \<Rightarrow> string \<Rightarrow> prepared_fetch \<Rightarrow> ProviderFetchRequest \<Rightarrow> ProviderTransportResponse \<Rightarrow> ProviderFetchResult res" where
  "handle_response lib provider operation f request response =
     (case response_error provider (rsp_status_code response) of
        Some error \<Rightarrow> Inr (refused_response lib error response)
      | None \<Rightarrow>
          (case fetched_page lib provider operation f request response of
             Inr result \<Rightarrow> Inr result
           | Inl e \<Rightarrow>
               (if is_response_error e then Inr (breadth_failed provider CONTRACT_INVALID ''breadth_response_invalid'' False) else Inl e)))"

definition breadth_fetch ::
  "pylib \<Rightarrow> string \<Rightarrow> string \<Rightarrow> RuntimeCredential option \<Rightarrow> transport \<Rightarrow> ProviderFetchRequest \<Rightarrow> ProviderFetchResult res" where
  "breadth_fetch lib provider operation credential send request =
     (case prepare_fetch lib provider operation credential request of
        Inl e \<Rightarrow> (if is_config_error e then Inr (breadth_failed provider CONFIG_INVALID ''breadth_config_invalid'' False) else Inl e)
      | Inr f \<Rightarrow>
          (case send_request lib send \<lparr>ptr_provider = provider, ptr_operation = prf_operation f, ptr_params = prf_params f,
                  ptr_timeout_seconds = FFin (pfr_request_timeout_seconds request), ptr_max_response_bytes = pfr_max_response_bytes request\<rparr> of
             Too_Large \<Rightarrow> Inr (breadth_failed provider CONTRACT_INVALID ''provider_response_too_large'' False)
           | Timed_Out \<Rightarrow> Inr (breadth_failed provider TIMEOUT ''provider_request_timed_out'' True)
           | Transport_Failed \<Rightarrow> Inr (breadth_failed provider UPSTREAM_ERROR ''breadth_transport_failed'' True)
           | Answered response \<Rightarrow> handle_response lib provider operation f request response))"

end
