(* ===== verification/Breadth_Pages.thy ===== *)
theory Breadth_Pages
  imports Breadth_Adapter
begin

text \<open>
  What the pages of the bounded adapters promise: the pages of a company news response partition its payloads, the payloads of a page are
  validated and within the limit, a continuation is stored exactly when there is more and advances.
\<close>

subsection \<open>Deduplication\<close>

abbreviation payload_identity :: "dict \<Rightarrow> string" where "payload_identity p \<equiv> text_at p ''provider_item_id''"

lemma deduplicate_Cons:
  "deduplicate lib seen (p # ps) = Inr L \<longleftrightarrow>
     (\<exists>digest. dget p ''provider_item_id'' = JStr (payload_identity p) \<and> canonical_projection_hash lib p = Inr digest
       \<and> (case map_of seen (payload_identity p) of
            Some prior \<Rightarrow> prior = digest \<and> deduplicate lib seen ps = Inr L
          | None \<Rightarrow> (\<exists>qs. deduplicate lib ((payload_identity p, digest) # seen) ps = Inr qs \<and> L = p # qs)))"
  by (cases "dget p ''provider_item_id''"; cases "canonical_projection_hash lib p"; cases "map_of seen (payload_identity p)")
    (auto simp: text_at_def bindR_Inr_iff)

lemma deduplicate_spec:
  "deduplicate lib seen ps = Inr L \<Longrightarrow>
     subseq L ps \<and> distinct (map payload_identity L) \<and> payload_identity ` set L \<inter> fst ` set seen = {}
     \<and> (\<forall>p\<in>set ps. dget p ''provider_item_id'' = JStr (payload_identity p))"
proof (induction ps arbitrary: seen L)
  case (Cons p ps)
  from Cons.prems obtain digest where p: "dget p ''provider_item_id'' = JStr (payload_identity p)"
    and c: "case map_of seen (payload_identity p) of
            Some prior \<Rightarrow> prior = digest \<and> deduplicate lib seen ps = Inr L
          | None \<Rightarrow> (\<exists>qs. deduplicate lib ((payload_identity p, digest) # seen) ps = Inr qs \<and> L = p # qs)"
    unfolding deduplicate_Cons by blast
  show ?case
  proof (cases "map_of seen (payload_identity p)")
    case None
    with c obtain qs where qs: "deduplicate lib ((payload_identity p, digest) # seen) ps = Inr qs" "L = p # qs" by auto
    have "payload_identity p \<notin> fst ` set seen" using None by (simp add: map_of_eq_None_iff)
    with Cons.IH [OF qs(1)] p qs(2) show ?thesis by auto
  next
    case (Some prior)
    with c have "deduplicate lib seen ps = Inr L" by simp
    from Cons.IH [OF this] p show ?thesis by auto
  qed
qed simp

definition seen_of :: "pylib \<Rightarrow> dict list \<Rightarrow> (string \<times> string) list" where
  "seen_of lib qs = map (\<lambda>q. (payload_identity q, projr (canonical_projection_hash lib q))) qs"

lemma seen_of_Some:
  assumes "distinct (map payload_identity qs)" and "q \<in> set qs"
  shows "map_of (seen_of lib qs) (payload_identity q) = Some (projr (canonical_projection_hash lib q))"
  using assms by (intro map_of_is_SomeI) (auto simp: seen_of_def comp_def)

lemma seen_of_None: "map_of (seen_of lib qs) i = None \<longleftrightarrow> i \<notin> payload_identity ` set qs"
  by (simp add: seen_of_def map_of_eq_None_iff image_image)

text \<open>Deduplication commutes with a filter when equal hashes mean equal payloads.\<close>

lemma deduplicate_filter:
  assumes "inj_on (canonical_projection_hash lib) A" and "set ps \<subseteq> A"
    and "set qs \<subseteq> A" and "distinct (map payload_identity qs)" and "\<forall>q\<in>set qs. \<exists>h. canonical_projection_hash lib q = Inr h"
    and "deduplicate lib (seen_of lib qs) ps = Inr L"
  shows "deduplicate lib (seen_of lib (filter P qs)) (filter P ps) = Inr (filter P L)"
  using assms(2-)
proof (induction ps arbitrary: qs L)
  case (Cons p ps)
  let ?h = "canonical_projection_hash lib" and ?i = "payload_identity p"
  from Cons.prems(5) obtain digest where p: "dget p ''provider_item_id'' = JStr ?i" "?h p = Inr digest"
    and c: "case map_of (seen_of lib qs) ?i of
            Some prior \<Rightarrow> prior = digest \<and> deduplicate lib (seen_of lib qs) ps = Inr L
          | None \<Rightarrow> (\<exists>rs. deduplicate lib ((?i, digest) # seen_of lib qs) ps = Inr rs \<and> L = p # rs)"
    unfolding deduplicate_Cons by blast
  have dist: "distinct (map payload_identity (filter P qs))" using Cons.prems(3) by (rule distinct_map_filter)
  show ?case
  proof (cases "?i \<in> payload_identity ` set qs")
    case True
    then obtain q where q: "q \<in> set qs" "payload_identity q = ?i" by auto
    then have prior: "map_of (seen_of lib qs) ?i = Some (projr (?h q))" using seen_of_Some [OF Cons.prems(3) q(1)] by simp
    with c p(2) q(1) Cons.prems(4) have "?h q = ?h p" and rest: "deduplicate lib (seen_of lib qs) ps = Inr L" by (auto split: option.splits)
    with assms(1) q(1) Cons.prems(1,2) have "q = p" by (auto dest: inj_onD)
    have ih: "deduplicate lib (seen_of lib (filter P qs)) (filter P ps) = Inr (filter P L)"
      using Cons.prems(1-4) rest by (intro Cons.IH) auto
    show ?thesis
    proof (cases "P p")
      case True
      then have "map_of (seen_of lib (filter P qs)) ?i = Some digest"
        using seen_of_Some [OF dist, of p] q \<open>q = p\<close> p(2) by simp
      with True ih p show ?thesis by (simp add: deduplicate_Cons del: deduplicate.simps)
    next
      case False
      with ih show ?thesis by simp
    qed
  next
    case False
    then have "map_of (seen_of lib qs) ?i = None" by (simp add: seen_of_None)
    with c p(2) obtain rs where rs: "deduplicate lib (seen_of lib (p # qs)) ps = Inr rs" "L = p # rs" by (auto simp: seen_of_def)
    have ih: "deduplicate lib (seen_of lib (filter P (p # qs))) (filter P ps) = Inr (filter P rs)"
      by (rule Cons.IH [OF _ _ _ _ rs(1)]) (use Cons.prems False p(2) in auto)
    show ?thesis
    proof (cases "P p")
      case True
      have "map_of (seen_of lib (filter P qs)) ?i = None" using False by (auto simp: seen_of_None)
      with True ih p rs(2) show ?thesis by (simp add: deduplicate_Cons seen_of_def del: deduplicate.simps)
    next
      case False
      with ih rs(2) show ?thesis by simp
    qed
  qed
qed simp

subsection \<open>Pages of company news\<close>

lemma sorted_distinct_strict:
  assumes "subseq L (sort_key payload_key ps)" and "distinct (map payload_identity L)"
  shows "sorted_wrt (\<lambda>p q. payload_key p < payload_key q) L"
proof -
  obtain N where "L = nths (sort_key payload_key ps) N" using assms(1) by (auto simp: subseq_conv_nths)
  then have "sorted (map payload_key L)" by (simp add: nths_map [symmetric] sorted_nths)
  moreover have "distinct (map payload_key L)" using assms(2) by (auto simp: payload_key_def distinct_map inj_on_def)
  ultimately have "sorted_wrt (<) (map payload_key L)" by (simp add: strict_sorted_iff)
  then show ?thesis by (simp add: sorted_wrt_map)
qed

lemma emitted_members: "p \<in> set (List.map_filter emitted outcomes) \<longleftrightarrow> Emit p \<in> set outcomes"
proof -
  have "emitted x = Some q \<longleftrightarrow> x = Emit q" for x q by (cases x) auto
  then show ?thesis unfolding List.map_filter_def by force
qed

lemma reject_row_not_emitted [simp]: "reject_row lib provider operation identity \<noteq> Inr (Emit p)"
  by (simp add: reject_row_def bindR_Inr_iff)

lemma payload_identity_news [simp]: "payload_identity (news_payload row symbol identity published url) = identity"
  by (simp add: news_payload_def text_at_def dget_def)

lemma news_identity_named: "news_identity lib i url = Some g \<Longrightarrow> g \<noteq> []"
  by (cases i) (auto simp: news_identity_def url_identity_def)

lemma company_news_named:
  assumes "company_news_row lib operation c row = Inr (Emit p)"
  shows "payload_identity p \<noteq> []"
proof -
  obtain i url g where g: "news_identity lib i url = Some g" and d: "dated_news_row lib operation c row url g = Inr (Emit p)"
    using assms unfolding company_news_row_def Let_def by (auto split: sum.splits option.splits if_splits bool.splits prod.splits)
  have "payload_identity p = g"
    using d unfolding dated_news_row_def by (auto simp: bindR_Inr_iff split: option.splits if_splits)
  with news_identity_named [OF g] show ?thesis by simp
qed

lemma least_key: "snd k \<noteq> [] \<Longrightarrow> ([], []) < (k :: string \<times> string)"
  by (cases k; cases "snd k"; cases "fst k") (auto simp: less_prod_def')

lemma news_page_at:
  assumes "deduplicate_payloads lib (sort_key payload_key ps) = Inr L" and "inj_on (canonical_projection_hash lib) (set ps)"
    and "n \<le> length L" and "\<forall>p\<in>set ps. payload_identity p \<noteq> []"
    and "key = (if n = 0 then ([], []) else payload_key (L ! (n - 1)))"
  shows "news_page lib limit key ps = Inr (take (nat limit) (drop n L), length L - n > nat limit)"
proof -
  let ?S = "sort_key payload_key ps"
  note spec = deduplicate_spec [OF assms(1) [unfolded deduplicate_payloads_def]]
  note strict = sorted_distinct_strict [OF conjunct1 [OF spec] conjunct1 [OF conjunct2 [OF spec]]]
  have "deduplicate lib (seen_of lib (filter P [])) (filter P ?S) = Inr (filter P L)" for P
    by (rule deduplicate_filter [OF assms(2)]) (use assms(1) in \<open>auto simp: seen_of_def deduplicate_payloads_def\<close>)
  then have page: "deduplicate_payloads lib (filter (\<lambda>p. key < payload_key p) ?S) = Inr (filter (\<lambda>p. key < payload_key p) L)"
    by (simp add: seen_of_def deduplicate_payloads_def)
  have "filter (\<lambda>p. key < payload_key p) L = drop n L"
  proof (cases "n = 0")
    case True
    obtain N where "L = nths ?S N" using conjunct1 [OF spec] by (auto simp: subseq_conv_nths)
    then have "set L \<subseteq> set ps" using set_nths_subset [of ?S N] by simp
    then have "key < payload_key p" if "p \<in> set L" for p
    proof -
      have "snd (payload_key p) \<noteq> []" using that \<open>set L \<subseteq> set ps\<close> assms(4) by (auto simp: payload_key_def)
      with True assms(5) show ?thesis by (simp add: least_key)
    qed
    with True show ?thesis by simp
  next
    case False
    then have ne: "take n L \<noteq> []" using assms(3) by auto
    have "last (take n L) = L ! (n - 1)" using last_conv_nth [OF ne] assms(3) False by (simp add: min_def)
    with filter_beyond_last [OF strict ne] assms(5) False show ?thesis by simp
  qed
  with page show ?thesis by (simp add: news_page_def)
qed

text \<open>The continuation state after the first \<open>n\<close> payloads of the list \<open>L\<close>.\<close>

definition news_state :: "dict list \<Rightarrow> nat \<Rightarrow> dict" where
  "news_state L n = (if n = 0 then [] else [(''last_key'', key_json (payload_key (L ! (n - 1))))])"

definition short_key :: "dict \<Rightarrow> bool" where
  "short_key p = (length (fst (payload_key p)) \<le> 200 \<and> length (snd (payload_key p)) \<le> 200)"

lemma last_key_state:
  assumes "n = 0 \<or> short_key (L ! (n - 1))"
  shows "last_key (news_state L n) = Inr (if n = 0 then ([], []) else payload_key (L ! (n - 1)))"
  using assms by (auto simp: last_key_def news_state_def dget_default_def key_json_def short_key_def)

lemma progress_at:
  assumes "1 \<le> limit" and "n < length L"
  shows "[(''last_key'', key_json (payload_key (last (take limit (drop n L)))))] = news_state L (min (n + limit) (length L))"
proof -
  have ne: "take limit (drop n L) \<noteq> []" using assms by auto
  have "n + (min limit (length L - n) - 1) = min (n + limit) (length L) - 1" using assms by (auto simp: min_def)
  then have "last (take limit (drop n L)) = L ! (min (n + limit) (length L) - 1)"
    using last_conv_nth [OF ne] assms by (simp add: min_def split: if_splits)
  moreover have "min (n + limit) (length L) \<noteq> 0" using assms by (cases L) auto
  ultimately show ?thesis by (simp add: news_state_def)
qed

subsection \<open>The fetch result\<close>

lemma length_map_filter: "length (List.map_filter f xs) \<le> length xs"
  by (simp add: List.map_filter_def)

lemma json_rows_length: "json_rows rows f = Inr outcomes \<Longrightarrow> length outcomes = row_count rows"
  by (auto simp: json_rows_def row_count_def mapR_Inr_length split: json.splits)

lemma at_most_count: "at_most limit rows = Inr u \<Longrightarrow> int (row_count rows) \<le> limit"
  by (auto simp: at_most_def row_count_def split: json.splits if_splits)

lemma emitted_within:
  assumes "json_rows rows f = Inr outcomes" and "at_most limit rows = Inr u"
  shows "int (length (List.map_filter emitted outcomes)) \<le> limit"
  using length_map_filter [of emitted outcomes] json_rows_length [OF assms(1)] at_most_count [OF assms(2)] by linarith

lemma payloads_within:
  assumes "breadth_payloads lib provider operation body limit f = Inr pg" and "1 \<le> limit"
  shows "int (length (ppg_payloads pg)) \<le> limit"
proof -
  consider "marketaux_payloads lib body (prf_config f) limit (prf_page f) = Inr pg"
    | "company_news_payloads lib operation body (prf_config f) limit (prf_state f) = Inr pg"
    | "eia_payloads lib operation body (prf_config f) limit (prf_offset f) = Inr pg"
    | "sec_payloads lib operation body (prf_config f) limit (prf_state f) = Inr pg"
    using assms(1) unfolding breadth_payloads_def by (auto split: if_splits)
  then show ?thesis
  proof cases
    case 1
    then obtain rows outcomes where "at_most limit rows = Inr ()" "json_rows rows (marketaux_row lib (prf_config f)) = Inr outcomes"
      "ppg_payloads pg = List.map_filter emitted outcomes"
      unfolding marketaux_payloads_def Let_def by (auto simp: bindR_Inr_iff split: if_splits)
    then show ?thesis using emitted_within by metis
  next
    case 2
    then show ?thesis using assms(2) unfolding company_news_payloads_def news_page_def by (auto simp: bindR_Inr_iff)
  next
    case 3
    then obtain rows outcomes g where "at_most limit rows = Inr ()" "json_rows rows g = Inr outcomes"
      "ppg_payloads pg = List.map_filter emitted outcomes"
      unfolding eia_payloads_def Let_def by (auto simp: bindR_Inr_iff split: if_splits)
    then show ?thesis using emitted_within by metis
  next
    case 4
    then show ?thesis using assms(2) unfolding sec_payloads_def Let_def
      by (auto simp: bindR_Inr_iff split: if_splits list.splits)
  qed
qed

definition token_ok :: "pylib \<Rightarrow> string \<Rightarrow> string \<Rightarrow> prepared_fetch \<Rightarrow> bool \<Rightarrow> dict option \<Rightarrow> bool" where
  "token_ok lib provider operation f has_more token =
     (case token of
        None \<Rightarrow> \<not> has_more
      | Some t \<Rightarrow> has_more \<and> (\<exists>state. decode_continuation lib t provider operation (prf_config f) (prf_lineage f) = Inr state))"

lemma encoded_decodes:
  "encode_continuation lib provider operation config lineage state = Inr t \<Longrightarrow>
     \<exists>s. decode_continuation lib t provider operation config lineage = Inr s"
  by (auto simp: encode_continuation_def bindR_Inr_iff Let_def split: if_splits)

lemma validated_row_emitted:
  "validated_row lib provider operation payload = Inr (Emit p) \<Longrightarrow> validate_factual_payload lib provider operation 1 payload = Inr p"
  by (auto simp: validated_row_def split: sum.splits if_splits json.splits)

lemma new_fetch_result_Inr: "new_fetch_result r = Inr q \<Longrightarrow> q = r"
  by (auto simp: new_fetch_result_def split: if_splits)

lemma raw_names:
  assumes "mapR (\<lambda>p. bindR (sindex p ''provider_item_id'') (\<lambda>i. Inr (raw_envelope lib provider i (item_metadata p) response retention))) ps = Inr raws"
  shows "map env_external_id raws = map (Some \<circ> payload_identity) ps"
proof -
  have "env_external_id e = Some (payload_identity p)"
    if "bindR (sindex p ''provider_item_id'') (\<lambda>i. Inr (raw_envelope lib provider i (item_metadata p) response retention)) = Inr e" for p e
    using that by (auto simp: bindR_Inr_iff sindex_def dindex_def text_at_def dget_def raw_envelope_def Let_def split: option.splits json.splits)
  with assms show ?thesis unfolding mapR_Inr_all2 by (induction rule: list_all2_induct) simp_all
qed

lemma fetched_page_contract:
  assumes "iso_laws lib" and "fetched_page lib provider operation f request response = Inr r" and "1 \<le> pfr_limit request"
  shows "list_all (\<lambda>p. validate_factual_payload lib provider operation 1 p = Inr p) (pres_factual_projections r)
    \<and> distinct (map payload_identity (pres_factual_projections r))
    \<and> int (length (pres_factual_projections r)) \<le> pfr_limit request
    \<and> map env_external_id (pres_raw_items r) = map (Some \<circ> payload_identity) (pres_factual_projections r)
    \<and> pres_sanitized_metadata r = map item_metadata (pres_factual_projections r)
    \<and> token_ok lib provider operation f (pres_has_more r) (pres_continuation r)"
proof -
  obtain pg outcomes factuals raws token where pg: "breadth_payloads lib provider operation (rsp_body response) (pfr_limit request) f = Inr pg"
    and o: "mapR (validated_row lib provider operation) (ppg_payloads pg) = Inr outcomes"
    and d: "deduplicate_payloads lib (List.map_filter emitted outcomes) = Inr factuals"
    and raws: "mapR (\<lambda>p. bindR (sindex p ''provider_item_id'') (\<lambda>i.
              Inr (raw_envelope lib provider i (item_metadata p) response (breadth_retention provider)))) factuals = Inr raws"
    and token: "(if pres_has_more r then bindR (encode_continuation lib provider operation (prf_config f) (prf_lineage f) (ppg_progress pg)) (\<lambda>t. Inr (Some t))
            else Inr None) = Inr token"
    and r: "pres_factual_projections r = factuals" "pres_raw_items r = raws" "pres_sanitized_metadata r = map item_metadata factuals"
      "pres_continuation r = token"
    using assms(2) unfolding fetched_page_def Let_def by (auto simp: bindR_Inr_iff dest!: new_fetch_result_Inr)
  note spec = deduplicate_spec [OF d [unfolded deduplicate_payloads_def]]
  obtain N where N: "factuals = nths (List.map_filter emitted outcomes) N" using conjunct1 [OF spec] by (auto simp: subseq_conv_nths)
  have "validate_factual_payload lib provider operation 1 p = Inr p" if "p \<in> set factuals" for p
  proof -
    have "Emit p \<in> set outcomes" using that set_nths_subset [of "List.map_filter emitted outcomes" N] N by (auto simp: emitted_members)
    then obtain q where "validated_row lib provider operation q = Inr (Emit p)" using o by (elim mapR_range)
    then show ?thesis using validated_fix [OF assms(1)] validated_row_emitted by blast
  qed
  moreover have "length factuals \<le> length (ppg_payloads pg)"
    using list_emb_length [OF conjunct1 [OF spec]] length_map_filter [of emitted outcomes] mapR_Inr_length [OF o] by simp
  then have "int (length factuals) \<le> pfr_limit request" using payloads_within [OF pg assms(3)] by simp
  moreover have "token_ok lib provider operation f (pres_has_more r) token"
    using token by (auto simp: token_ok_def bindR_Inr_iff encoded_decodes split: if_splits)
  ultimately show ?thesis using spec raw_names [OF raws] r by (simp add: list_all_iff)
qed

lemma fetch_cases:
  assumes "breadth_fetch lib provider operation credential send request = Inr r" and "pres_safe_errors r = []"
  obtains f response where "prepare_fetch lib provider operation credential request = Inr f"
    and "fetched_page lib provider operation f request response = Inr r"
proof -
  have failed: "pres_safe_errors (breadth_failed provider code message retryable) \<noteq> []" for code message retryable
    by (simp add: breadth_failed_def adapter_failed_def failed_with_def)
  show thesis
    using assms that failed
    by (auto simp: breadth_fetch_def handle_response_def refused_response_def
      split: sum.splits if_splits transport_answer.splits option.splits)
qed

lemma prepared_limit: "prepare_fetch lib provider operation credential request = Inr f \<Longrightarrow> 1 \<le> pfr_limit request"
  unfolding prepare_fetch_def by (auto simp: bindR_Inr_iff split: if_splits)

subsection \<open>The file of a filing\<close>

lemma sec_row_file:
  "sec_row lib operation c filename r = Inr (Emit p) \<Longrightarrow> dget p ''submissions_file'' = filename"
  unfolding sec_row_def by (auto simp: bindR_Inr_iff dget_def split: if_splits)

lemma sec_payloads_file:
  assumes "sec_payloads lib operation body c limit state = Inr pg"
  shows "\<exists>filename. submissions_name c state = Inr filename \<and> list_all (\<lambda>p. dget p ''submissions_file'' = filename) (ppg_payloads pg)"
proof -
  obtain filename rows outcomes payloads where f: "submissions_name c state = Inr filename"
    and o: "mapR (sec_row lib operation c filename) rows = Inr outcomes"
    and d: "deduplicate_payloads lib (List.map_filter emitted outcomes) = Inr payloads" and pg: "ppg_payloads pg = take (nat limit) payloads"
    using assms unfolding sec_payloads_def Let_def by (auto simp: bindR_Inr_iff split: if_splits list.splits)
  obtain N where N: "payloads = nths (List.map_filter emitted outcomes) N"
    using deduplicate_spec [OF d [unfolded deduplicate_payloads_def]] by (auto simp: subseq_conv_nths)
  have "dget p ''submissions_file'' = filename" if "p \<in> set (ppg_payloads pg)" for p
  proof -
    have "p \<in> set payloads" using that set_take_subset [of "nat limit" payloads] pg by auto
    then have "Emit p \<in> set outcomes" using set_nths_subset [of "List.map_filter emitted outcomes" N] N by (auto simp: emitted_members)
    then obtain r where "sec_row lib operation c filename r = Inr (Emit p)" using o by (elim mapR_range)
    then show ?thesis by (rule sec_row_file)
  qed
  with f show ?thesis by (auto simp: list_all_iff)
qed

lemma first_page_progress:
  assumes "sec_payloads lib operation body c limit [] = Inr pg" and "has_key (ppg_progress pg) ''last_key''"
  shows "dget_default (ppg_progress pg) ''file'' v = JNull"
proof -
  obtain out files where "ppg_progress pg = sec_progress [] out files"
    using assms unfolding sec_payloads_def Let_def by (auto simp: bindR_Inr_iff has_key_def split: if_splits list.splits)
  then show ?thesis by (simp add: sec_progress_def dget_default_def dget_def)
qed

subsection \<open>Properties\<close>

text \<open>The pages of a company news response partition it: as long as the provider answers with the same rows, the page that is fetched
  with the continuation after \<open>n\<close> payloads holds the next payloads of the one sorted and deduplicated list, up to the limit, says that there is
  more exactly when the list goes on, and hands over the continuation after them.  So consecutive pages neither skip nor repeat a payload.
  This needs that different payloads of the response have different hashes and that their keys fit the continuation.\<close>

theorem company_news_pages_partition:
  assumes "json_rows body (company_news_row lib operation c) = Inr outcomes"
    and "deduplicate_payloads lib (sort_key payload_key (List.map_filter emitted outcomes)) = Inr L"
    and "inj_on (canonical_projection_hash lib) (set (List.map_filter emitted outcomes))"
    and "list_all short_key L" and "1 \<le> limit" and "n \<le> length L"
  shows "company_news_payloads lib operation body c limit (news_state L n) =
    Inr \<lparr>ppg_payloads = take (nat limit) (drop n L), ppg_more = (n + nat limit < length L),
         ppg_progress = (if n < length L then news_state L (min (n + nat limit) (length L)) else []),
         ppg_rejected = List.map_filter rejected outcomes\<rparr>"
proof -
  let ?ps = "List.map_filter emitted outcomes" and ?key = "if n = 0 then ([], []) else payload_key (L ! (n - 1))"
  have "payload_identity p \<noteq> []" if "p \<in> set ?ps" for p
  proof -
    have "Emit p \<in> set outcomes" using that by (simp add: emitted_members)
    moreover obtain xs where "mapR (\<lambda>x. case x of JObj row \<Rightarrow> company_news_row lib operation c row | _ \<Rightarrow> response_invalid) xs = Inr outcomes"
      using assms(1) unfolding json_rows_def by (cases body) simp_all
    ultimately obtain x where "(case x of JObj row \<Rightarrow> company_news_row lib operation c row | _ \<Rightarrow> response_invalid) = Inr (Emit p)"
      by (elim mapR_range)
    then show ?thesis by (auto split: json.splits dest: company_news_named)
  qed
  then have page: "news_page lib limit ?key ?ps = Inr (take (nat limit) (drop n L), length L - n > nat limit)"
    using assms(2,3,6) by (intro news_page_at) auto
  have key: "last_key (news_state L n) = Inr ?key"
    using assms(4,6) by (intro last_key_state) (cases n, auto simp: list_all_length)
  have "(length L - n > nat limit) = (n + nat limit < length L)" using assms(6) by auto
  moreover have "(if take (nat limit) (drop n L) = [] then [] else [(''last_key'', key_json (payload_key (last (take (nat limit) (drop n L)))))])
    = (if n < length L then news_state L (min (n + nat limit) (length L)) else [])"
    using progress_at [of "nat limit" n L] assms(5,6) by auto
  ultimately show ?thesis by (simp add: company_news_payloads_def assms(1) key page)
qed

text \<open>A fetch that reports no error keeps the contract of its result: every factual projection is a normal form of its contract, no two
  have the same identity, there are at most as many as the request allows, each has its raw item and its metadata, and a continuation is handed
  over exactly when there is more, one that the next fetch decodes under the same configuration and lineage.\<close>

theorem fetch_result_contract:
  assumes "iso_laws lib" and "breadth_fetch lib provider operation credential send request = Inr r" and "pres_safe_errors r = []"
  shows "\<exists>f. prepare_fetch lib provider operation credential request = Inr f
    \<and> list_all (\<lambda>p. validate_factual_payload lib provider operation 1 p = Inr p) (pres_factual_projections r)
    \<and> distinct (map payload_identity (pres_factual_projections r))
    \<and> int (length (pres_factual_projections r)) \<le> pfr_limit request
    \<and> map env_external_id (pres_raw_items r) = map (Some \<circ> payload_identity) (pres_factual_projections r)
    \<and> pres_sanitized_metadata r = map item_metadata (pres_factual_projections r)
    \<and> token_ok lib provider operation f (pres_has_more r) (pres_continuation r)"
proof -
  obtain f response where f: "prepare_fetch lib provider operation credential request = Inr f"
    and page: "fetched_page lib provider operation f request response = Inr r" using fetch_cases [OF assms(2,3)] .
  from fetched_page_contract [OF assms(1) page prepared_limit [OF f]] f show ?thesis by blast
qed

text \<open>The facts of a filing depend on the page that finds it: the payloads of the first page of a submissions response name the
  submissions file, those of every further page of the same response leave it out, because the stored state carries the key \<open>file\<close> with no
  value.  So a filing that moves between the pages of two runs gets another projection hash.\<close>

theorem later_page_forgets_file:
  assumes "sec_payloads lib operation body c limit [] = Inr pg" and "has_key (ppg_progress pg) ''last_key''"
    and "sec_payloads lib operation body' c limit' (ppg_progress pg) = Inr pg'"
  shows "\<exists>cik. sindex c ''cik'' = Inr cik
    \<and> list_all (\<lambda>p. dget p ''submissions_file'' = JStr (''CIK'' @ cik @ ''.json'')) (ppg_payloads pg)
    \<and> list_all (\<lambda>p. dget p ''submissions_file'' = JNull) (ppg_payloads pg')"
proof -
  have "submissions_name c [] = Inr filename \<Longrightarrow> \<exists>cik. sindex c ''cik'' = Inr cik \<and> filename = JStr (''CIK'' @ cik @ ''.json'')" for filename
    by (auto simp: submissions_name_def bindR_Inr_iff dget_default_def)
  moreover have "submissions_name c (ppg_progress pg) = Inr filename \<Longrightarrow> filename = JNull" for filename
    by (auto simp: submissions_name_def bindR_Inr_iff first_page_progress [OF assms(1,2)])
  ultimately show ?thesis using sec_payloads_file [OF assms(1)] sec_payloads_file [OF assms(3)] by blast
qed

subsection \<open>Closed instances\<close>

text \<open>A library whose hash of a payload is its identity, so that different payloads have different hashes.\<close>

definition paging_lib :: pylib where
  "paging_lib = sample_lib\<lparr>canonical_dumps := (\<lambda>v. case v of JObj d \<Rightarrow> Some (text_at d ''provider_item_id'') | _ \<Rightarrow> None), sha256_hex := (\<lambda>s. s)\<rparr>"

definition sample_news_row :: "int \<Rightarrow> int \<Rightarrow> json" where
  "sample_news_row i t = JObj [(''id'', JInt i), (''datetime'', JInt t), (''headline'', JStr ''News''), (''source'', JStr ''Agency''),
     (''category'', JStr ''company'')]"
definition sample_company_news :: json where "sample_company_news = JList [sample_news_row 8 1, sample_news_row 7 0, sample_news_row 8 1]"
definition sample_news_config :: dict where
  "sample_news_config = [(''symbol'', JStr ''AAPL''), (''start'', JStr ''1970-01-01''), (''end'', JStr ''1970-01-02''),
     (''window_mode'', JStr ''fixed_window'')]"

definition sample_news_payload :: "int \<Rightarrow> string \<Rightarrow> int \<Rightarrow> string \<Rightarrow> dict" where
  "sample_news_payload i identity t published =
     news_payload (case sample_news_row i t of JObj d \<Rightarrow> d | _ \<Rightarrow> []) (JStr ''AAPL'') identity published None"
definition newer_news :: dict where "newer_news = sample_news_payload 8 ''company-news:id:8'' 1 later_text"
definition older_news :: dict where "older_news = sample_news_payload 7 ''company-news:id:7'' 0 epoch_text"
definition sample_outcomes :: "row_outcome list" where "sample_outcomes = [Emit newer_news, Emit older_news, Emit newer_news]"

abbreviation sample_news_page :: "dict \<Rightarrow> parsed_page res" where
  "sample_news_page \<equiv> company_news_payloads paging_lib ''company_news'' sample_company_news sample_news_config 1"

theorem company_news_pages_partition_witness:
  "sample_news_page (news_state [older_news, newer_news] 1) =
     Inr \<lparr>ppg_payloads = [newer_news], ppg_more = False, ppg_progress = news_state [older_news, newer_news] 2, ppg_rejected = []\<rparr>"
proof -
  have rows: "json_rows sample_company_news (company_news_row paging_lib ''company_news'' sample_news_config) = Inr sample_outcomes" by code_simp
  have ps: "List.map_filter emitted sample_outcomes = [newer_news, older_news, newer_news]" "List.map_filter rejected sample_outcomes = []"
    by (simp_all add: sample_outcomes_def List.map_filter_simps)
  have full: "deduplicate_payloads paging_lib (sort_key payload_key (List.map_filter emitted sample_outcomes)) = Inr [older_news, newer_news]"
    by code_simp
  have "canonical_projection_hash paging_lib newer_news \<noteq> canonical_projection_hash paging_lib older_news" by code_simp
  then have inj: "inj_on (canonical_projection_hash paging_lib) (set (List.map_filter emitted sample_outcomes))" by (auto simp: ps)
  have fit: "list_all short_key [older_news, newer_news]" by code_simp
  show ?thesis using company_news_pages_partition [OF rows full inj fit, of 1 1] by (simp add: ps numeral_2_eq_2)
qed

definition sample_retail_config :: dict where
  "sample_retail_config = [(''geographies'', JList [JStr ''CA'']), (''sectors'', JList [JStr ''RES'']), (''frequency'', JStr ''monthly''),
     (''start'', JStr ''1970-01-01''), (''end'', JStr ''1970-01-01''), (''window_mode'', JStr ''fixed_window'')]"
definition sample_retail :: json where
  "sample_retail = JObj [(''response'', JObj [(''total'', JInt 2), (''data'', JList [JObj [(''stateid'', JStr ''CA''), (''sectorid'', JStr ''RES''),
     (''period'', JStr ''1970-01''), (''price'', JInt 5)]])])]"

definition sample_fetch_request :: ProviderFetchRequest where
  "sample_fetch_request =
     \<lparr>pfr_source_id = ''s1'', pfr_source_account_id = Some ''a1'', pfr_cursor = None, pfr_config = sample_retail_config, pfr_limit = 1,
      pfr_deadline_at = 100, pfr_correlation_id = ''c1'', pfr_max_response_bytes = 2048, pfr_request_timeout_seconds = 10,
      pfr_continuation = None, pfr_target_id = Some ''t1'', pfr_config_revision = Some 1, pfr_operation_config_version = Some 2,
      pfr_provider_contract_version = Some 2, pfr_cursor_version = Some 1, pfr_run_mode = Some ''normal''\<rparr>"

definition fetch_lib :: pylib where "fetch_lib = sample_lib\<lparr>iso_normal := (\<lambda>_. Some epoch_text)\<rparr>"

abbreviation sample_fetch :: "ProviderFetchResult res" where
  "sample_fetch \<equiv> breadth_fetch fetch_lib ''eia'' ''electricity_retail_sales'' (Some \<lparr>rc_name = ''EIA_API_KEY'', rc_value = ''k''\<rparr>)
     (\<lambda>_. Answered \<lparr>rsp_status_code = 200, rsp_received_at = 5, rsp_body = sample_retail, rsp_headers = []\<rparr>) sample_fetch_request"

lemma fetch_lib_laws: "iso_laws fetch_lib"
  using sample_iso_laws by (simp add: iso_laws_def fetch_lib_def)

theorem fetch_result_contract_witness:
  "\<exists>r. sample_fetch = Inr r \<and> pres_safe_errors r = [] \<and> pres_has_more r
    \<and> list_all (\<lambda>p. validate_factual_payload fetch_lib ''eia'' ''electricity_retail_sales'' 1 p = Inr p) (pres_factual_projections r)
    \<and> length (pres_factual_projections r) = 1"
proof -
  have "case sample_fetch of Inl _ \<Rightarrow> False | Inr r \<Rightarrow> pres_safe_errors r = [] \<and> pres_has_more r \<and> length (pres_factual_projections r) = 1"
    by code_simp
  then obtain r where r: "sample_fetch = Inr r" "pres_safe_errors r = []" "pres_has_more r" "length (pres_factual_projections r) = 1"
    by (auto split: sum.splits)
  with fetch_result_contract [OF fetch_lib_laws r(1,2)] show ?thesis by auto
qed

definition sample_filings :: json where
  "sample_filings = JObj [(''filings'', JObj [(''recent'', JObj
     [(''accessionNumber'', JList [JStr ''0000000001-24-000001'', JStr ''0000000001-24-000002'']),
      (''filingDate'', JList [JStr ''2024-01-05'', JStr ''2024-01-06'']), (''form'', JList [JStr ''10-K'', JStr ''10-K'']),
      (''primaryDocument'', JList [JStr ''a.htm'', JStr ''b.htm''])]), (''files'', JList [])])]"
definition sample_filing_config :: dict where
  "sample_filing_config = [(''cik'', JStr ''0000000001''), (''ticker'', JStr ''AAPL''), (''forms'', JList [JStr ''10-K'']),
     (''start'', JStr ''2024-01-01''), (''end'', JStr ''2024-02-01''), (''max_history_files'', JInt 2)]"

definition filing_lib :: pylib where
  "filing_lib = sample_lib\<lparr>date_ordinal := (\<lambda>s. map_option (\<lambda>(y, m, d). 372 * int y + 31 * int m + int d) (parse_date s))\<rparr>"

abbreviation sample_filing_page :: "dict \<Rightarrow> parsed_page res" where
  "sample_filing_page \<equiv> sec_payloads filing_lib ''submissions_recent'' sample_filings sample_filing_config 1"

theorem later_page_forgets_file_witness:
  "\<exists>pg pg'. sample_filing_page [] = Inr pg \<and> sample_filing_page (ppg_progress pg) = Inr pg'
    \<and> map (\<lambda>p. dget p ''provider_item_id'') (ppg_payloads pg') = [JStr ''0000000001-24-000002'']
    \<and> list_all (\<lambda>p. dget p ''submissions_file'' = JNull) (ppg_payloads pg')"
proof -
  have "case sample_filing_page [] of Inl _ \<Rightarrow> False | Inr pg \<Rightarrow> has_key (ppg_progress pg) ''last_key''
    \<and> (case sample_filing_page (ppg_progress pg) of Inl _ \<Rightarrow> False
       | Inr pg' \<Rightarrow> map (\<lambda>p. dget p ''provider_item_id'') (ppg_payloads pg') = [JStr ''0000000001-24-000002''])" by code_simp
  then obtain pg pg' where p: "sample_filing_page [] = Inr pg" "has_key (ppg_progress pg) ''last_key''"
    "sample_filing_page (ppg_progress pg) = Inr pg'"
    "map (\<lambda>p. dget p ''provider_item_id'') (ppg_payloads pg') = [JStr ''0000000001-24-000002'']"
    by (auto split: sum.splits)
  from later_page_forgets_file [OF p(1-3)] p show ?thesis by auto
qed

end
