(* ===== verification/Legacy_Adapters.thy ===== *)
theory Legacy_Adapters
  imports Breadth_Adapter
begin

text \<open>
  The version 1 adapters (\<open>providers/eia.py\<close>, \<open>finnhub.py\<close>, \<open>sec_edgar.py\<close>, \<open>marketaux.py\<close>, \<open>marketaux_real.py\<close>) and the run of an adapter
  that the factory built.  A version 1 adapter gives up on the first row it cannot use, so its loop over the rows ends with a message or with
  the items of all rows.  The dash of the display titles is the three bytes of its UTF-8 encoding.
\<close>

subsection \<open>Answers and results\<close>

definition legacy_refused :: "string \<Rightarrow> string \<Rightarrow> ProviderFetchResult" where
  "legacy_refused provider message = adapter_failed provider CONTRACT_INVALID message False"

definition legacy_config_invalid :: "string \<Rightarrow> string \<Rightarrow> ProviderFetchResult" where
  "legacy_config_invalid provider message = adapter_failed provider CONFIG_INVALID message False"

definition legacy_transport ::
  "string \<Rightarrow> transport_answer \<Rightarrow> (ProviderTransportResponse \<Rightarrow> ProviderFetchResult option) \<Rightarrow>
     (ProviderTransportResponse \<Rightarrow> ProviderFetchResult res) \<Rightarrow> ProviderFetchResult res" where
  "legacy_transport provider answer status_error parse =
     (case answer of
        Timed_Out \<Rightarrow> Inr (adapter_failed provider TIMEOUT ''provider_request_timed_out'' True)
      | Too_Large \<Rightarrow> Inr (adapter_failed provider CONTRACT_INVALID ''provider_response_too_large'' False)
      | Transport_Failed \<Rightarrow> Inr (adapter_failed provider UPSTREAM_ERROR ''provider_transport_failed'' True)
      | Answered response \<Rightarrow>
          (case status_error response of Some error \<Rightarrow> Inr error | None \<Rightarrow> parse response))"

definition status_error :: "string \<Rightarrow> ProviderTransportResponse \<Rightarrow> ProviderFetchResult option" where
  "status_error provider response = response_error provider (rsp_status_code response)"

record legacy_item =
  lit_id :: string
  lit_published_at :: string
  lit_metadata :: dict
  lit_factual :: dict
  lit_display :: dict

text \<open>The items of all rows, or the message of the first row that is refused.\<close>

fun legacy_rows :: "('r \<Rightarrow> (string + legacy_item) res) \<Rightarrow> 'r list \<Rightarrow> (string + legacy_item list) res" where
  "legacy_rows f [] = Inr (Inr [])"
| "legacy_rows f (row # rows) =
     bindR (f row) (\<lambda>x.
       case x of
         Inl message \<Rightarrow> Inr (Inl message)
       | Inr item \<Rightarrow> bindR (legacy_rows f rows) (\<lambda>y. Inr (case y of Inl message \<Rightarrow> Inl message | Inr items \<Rightarrow> Inr (item # items))))"

definition latest_key :: "legacy_item list \<Rightarrow> string \<times> string" where
  "latest_key items =
     (case map (\<lambda>i. (lit_published_at i, lit_id i)) items of [] \<Rightarrow> ([], []) | k # ks \<Rightarrow> fold max ks k)"

definition legacy_cursor :: "pylib \<Rightarrow> string \<times> string \<Rightarrow> string" where
  "legacy_cursor lib k = stable_dumps lib (JObj [(''provider_item_id'', JStr (snd k)), (''published_at'', JStr (fst k))])"

definition legacy_result ::
  "pylib \<Rightarrow> string \<Rightarrow> string \<Rightarrow> ProviderTransportResponse \<Rightarrow> bool \<Rightarrow> legacy_item list \<Rightarrow> ProviderFetchResult res" where
  "legacy_result lib provider retention response has_more items =
     new_fetch_result
       \<lparr>pres_raw_items = map (\<lambda>i. raw_envelope lib provider (lit_id i) (lit_metadata i) response retention) items,
        pres_sanitized_metadata = map lit_metadata items, pres_next_cursor = Some (legacy_cursor lib (latest_key items)),
        pres_has_more = has_more, pres_safe_errors = [], pres_provider = provider, pres_contract_version = 1,
        pres_display_projections = map lit_display items, pres_factual_projections = map lit_factual items,
        pres_continuation = None, pres_rejected_row_hashes = [], pres_coverage_incomplete = False\<rparr>"

definition legacy_page ::
  "pylib \<Rightarrow> string \<Rightarrow> string \<Rightarrow> ProviderTransportResponse \<Rightarrow> int \<Rightarrow> ('r \<Rightarrow> (string + legacy_item) res) \<Rightarrow> 'r list \<Rightarrow> ProviderFetchResult res" where
  "legacy_page lib provider retention response limit f rows =
     bindR (legacy_rows f (take (nat limit) rows)) (\<lambda>x.
       case x of
         Inl message \<Rightarrow> Inr (legacy_refused provider message)
       | Inr items \<Rightarrow> legacy_result lib provider retention response (int (length rows) > limit) items)"

text \<open>The factual payload of an item; only the contract error of its validation is handled.\<close>

definition legacy_factual :: "pylib \<Rightarrow> string \<Rightarrow> string \<Rightarrow> dict \<Rightarrow> (dict \<Rightarrow> legacy_item) \<Rightarrow> (string + legacy_item) res" where
  "legacy_factual lib provider operation payload item =
     (case validate_factual_payload lib provider operation 1 payload of
        Inr p \<Rightarrow> Inr (Inr (item p))
      | Inl (ProjectionContractError _) \<Rightarrow> Inr (Inl ''provider_factual_contract_invalid'')
      | Inl e \<Rightarrow> Inl e)"

definition dash :: string where "dash = [CHR '' '', CHR 0xE2, CHR 0x80, CHR 0x94, CHR '' '']"

definition display_of :: "string \<Rightarrow> string \<Rightarrow> string \<Rightarrow> dict" where
  "display_of item_id published_at title =
     [(''provider_item_id'', JStr item_id), (''published_at'', JStr published_at), (''display_title'', JStr title)]"

definition field_names_json :: "dict \<Rightarrow> json" where
  "field_names_json item = JList (map JStr (safe_field_names item))"

definition py_or :: "json \<Rightarrow> json \<Rightarrow> json" where
  "py_or a b = (if truthy a then a else b)"

subsection \<open>EIA\<close>

definition eia_legacy_row :: "pylib \<Rightarrow> json \<Rightarrow> (string + legacy_item) res" where
  "eia_legacy_row lib v =
     (case v of
        JObj row \<Rightarrow>
          (let value = dget row ''price''; number = (case value of JInt _ \<Rightarrow> True | JFloat _ \<Rightarrow> True | _ \<Rightarrow> False) in
           case (iso_timestamp lib (dget row ''period''), safe_identifier 255 (py_or (dget row ''stateid'') (dget row ''stateDescription'')),
                 safe_identifier 255 (py_or (dget row ''sectorid'') (dget row ''sectorName''))) of
             (Some published_at, Some geography, Some sector) \<Rightarrow>
               (if \<not> number then Inr (Inl ''provider_item_identity_invalid'')
                else
                  let period = str_of lib (dget row ''period''); item_id = period @ '':'' @ geography @ '':'' @ sector;
                      unit = (case safe_identifier 255 (py_or (dget row ''price-units'') (dget row ''unit'')) of None \<Rightarrow> ''unknown'' | Some u \<Rightarrow> u) in
                  bindR (eia_series_identity (JStr geography) (JStr sector) (JStr ''price'')) (\<lambda>series.
                  legacy_factual lib ''eia'' ''electricity_retail_sales''
                    [(''provider_item_id'', JStr item_id), (''published_at'', JStr published_at), (''dataset'', JStr ''electricity''),
                     (''series_identity'', JStr series), (''period'', JStr period), (''geography'', JStr geography), (''sector'', JStr sector),
                     (''metric'', JStr ''price''), (''value'', value), (''unit'', JStr unit)]
                    (\<lambda>p. \<lparr>lit_id = item_id, lit_published_at = published_at,
                       lit_metadata = [(''provider_item_id'', JStr item_id), (''published_at'', JStr published_at),
                         (''field_names'', field_names_json row), (''geography'', JStr geography), (''sector'', JStr sector),
                         (''has_numeric_value'', JBool True)],
                       lit_factual = p, lit_display = display_of item_id published_at (''EIA electricity update'' @ dash @ period)\<rparr>)))
           | _ \<Rightarrow> Inr (Inl ''provider_item_identity_invalid''))
      | _ \<Rightarrow> Inr (Inl ''provider_response_shape_invalid''))"

definition eia_rows :: "json \<Rightarrow> json list" where
  "eia_rows body =
     (case body of
        JObj b \<Rightarrow> (case dget b ''response'' of JObj r \<Rightarrow> (case dget r ''data'' of JList xs \<Rightarrow> xs | _ \<Rightarrow> []) | _ \<Rightarrow> [])
      | _ \<Rightarrow> [])"

definition has_credential :: "string \<Rightarrow> RuntimeCredential option \<Rightarrow> bool" where
  "has_credential name credential = (map_option rc_name credential = Some name)"

definition legacy_send :: "pylib \<Rightarrow> transport \<Rightarrow> ProviderFetchRequest \<Rightarrow> string \<Rightarrow> string \<Rightarrow> dict \<Rightarrow> transport_answer" where
  "legacy_send lib send request provider operation params =
     send_request lib send \<lparr>ptr_provider = provider, ptr_operation = operation, ptr_params = params,
       ptr_timeout_seconds = FFin (pfr_request_timeout_seconds request), ptr_max_response_bytes = pfr_max_response_bytes request\<rparr>"

definition eia_response :: "pylib \<Rightarrow> ProviderFetchRequest \<Rightarrow> ProviderTransportResponse \<Rightarrow> ProviderFetchResult res" where
  "eia_response lib request response =
     (let rows = eia_rows (rsp_body response) in
      if rows = [] then Inr (legacy_refused ''eia'' ''provider_response_shape_invalid'')
      else legacy_page lib ''eia'' ''metadata_only'' response (pfr_limit request) (eia_legacy_row lib) rows)"

definition eia_fetch :: "pylib \<Rightarrow> RuntimeCredential option \<Rightarrow> transport \<Rightarrow> ProviderFetchRequest \<Rightarrow> ProviderFetchResult res" where
  "eia_fetch lib credential send request =
     (if \<not> has_credential ''EIA_API_KEY'' credential then Inr (legacy_config_invalid ''eia'' ''provider_runtime_credential_missing'')
      else if \<not> (1 \<le> pfr_limit request \<and> pfr_limit request \<le> 5) \<or> dget (pfr_config request) ''dataset'' \<noteq> JStr ''electricity''
      then Inr (legacy_config_invalid ''eia'' ''provider_config_invalid'')
      else
        legacy_transport ''eia''
          (legacy_send lib send request ''eia'' ''electricity_retail_sales''
            [(''data[]'', JStr ''price''), (''frequency'', JStr ''monthly''), (''length'', JInt (pfr_limit request)),
             (''sort[0][column]'', JStr ''period''), (''sort[0][direction]'', JStr ''desc'')])
          (status_error ''eia'')
          (eia_response lib request))"

subsection \<open>Finnhub quotes\<close>

definition QUOTE_FIELDS :: "string list" where
  "QUOTE_FIELDS = [''c'', ''d'', ''dp'', ''h'', ''l'', ''o'', ''pc'']"

text \<open>Whether a field is a finite number; \<open>float\<close> of a large integer raises.\<close>

definition quote_number :: "json \<Rightarrow> bool res" where
  "quote_number v =
     (case v of
        JInt n \<Rightarrow> (if float_overflow n then Inl (OverflowError ''int too large to convert to float'') else Inr True)
      | JFloat (FFin r) \<Rightarrow> Inr True
      | _ \<Rightarrow> Inr False)"

definition published_year :: "string \<Rightarrow> int res" where
  "published_year s =
     (if take 4 s \<noteq> [] \<and> list_all is_digit (take 4 s) then Inr (int (read_digits 0 (take 4 s))) else Inl (ValueError ''int''))"

definition quote_page ::
  "pylib \<Rightarrow> string \<Rightarrow> ProviderTransportResponse \<Rightarrow> dict \<Rightarrow> int \<Rightarrow> string \<Rightarrow> ProviderFetchResult res" where
  "quote_page lib symbol response body timestamp published_at =
     bindR (mapR (\<lambda>k. quote_number (dget body k)) QUOTE_FIELDS) (\<lambda>finite.
     if False \<in> set finite then Inr (legacy_refused ''finnhub'' ''provider_response_shape_invalid'')
     else if list_all (\<lambda>k. num_of (dget body k) = Some 0) QUOTE_FIELDS then Inr (legacy_refused ''finnhub'' ''provider_quote_no_data'')
     else
       let item_id = upper symbol @ '':'' @ str_int timestamp in
       bindR (legacy_factual lib ''finnhub'' ''quote''
                ([(''provider_item_id'', JStr item_id), (''published_at'', JStr published_at), (''symbol'', JStr (upper symbol)),
                  (''provider_timestamp'', JInt timestamp)] @ map (\<lambda>k. (k, dget body k)) QUOTE_FIELDS
                 @ [(''currency'', JStr ''unknown''), (''exchange'', JStr ''unknown'')])
                (\<lambda>p. \<lparr>lit_id = item_id, lit_published_at = published_at,
                   lit_metadata = [(''provider_item_id'', JStr item_id), (''published_at'', JStr published_at),
                     (''field_names'', field_names_json body), (''symbol'', JStr (upper symbol)),
                     (''numeric_field_count'', JInt (int (length QUOTE_FIELDS)))],
                   lit_factual = p, lit_display = display_of item_id published_at (''Finnhub quote update'' @ dash @ upper symbol)\<rparr>)) (\<lambda>x.
         case x of
           Inl message \<Rightarrow> Inr (legacy_refused ''finnhub'' message)
         | Inr item \<Rightarrow> legacy_result lib ''finnhub'' ''metadata_only'' response False [item]))"

definition quote_response :: "pylib \<Rightarrow> string \<Rightarrow> ProviderTransportResponse \<Rightarrow> ProviderFetchResult res" where
  "quote_response lib symbol response =
     (case rsp_body response of
        JObj body \<Rightarrow>
          (case dget body ''t'' of
             JInt timestamp \<Rightarrow>
               (case (timestamp \<le> 0, iso_timestamp lib (JInt timestamp)) of
                  (False, Some published_at) \<Rightarrow>
                    bindR (published_year published_at) (\<lambda>year.
                      if year \<le> 1970 then Inr (legacy_refused ''finnhub'' ''provider_quote_no_data'')
                      else quote_page lib symbol response body timestamp published_at)
                | _ \<Rightarrow> Inr (legacy_refused ''finnhub'' ''provider_quote_no_data''))
           | _ \<Rightarrow> Inr (legacy_refused ''finnhub'' ''provider_response_shape_invalid''))
      | _ \<Rightarrow> Inr (legacy_refused ''finnhub'' ''provider_response_shape_invalid''))"

definition quote_fetch :: "pylib \<Rightarrow> RuntimeCredential option \<Rightarrow> transport \<Rightarrow> ProviderFetchRequest \<Rightarrow> ProviderFetchResult res" where
  "quote_fetch lib credential send request =
     (if \<not> has_credential ''FINNHUB_API_KEY'' credential then Inr (legacy_config_invalid ''finnhub'' ''provider_runtime_credential_missing'')
      else case safe_identifier 20 (dget (pfr_config request) ''symbol'') of
        None \<Rightarrow> Inr (legacy_config_invalid ''finnhub'' ''provider_config_invalid'')
      | Some symbol \<Rightarrow>
          if pfr_limit request \<noteq> 1 then Inr (legacy_config_invalid ''finnhub'' ''provider_config_invalid'')
          else
            legacy_transport ''finnhub'' (legacy_send lib send request ''finnhub'' ''quote'' [(''symbol'', JStr (upper symbol))])
              (status_error ''finnhub'') (quote_response lib symbol))"

subsection \<open>SEC EDGAR\<close>

definition recent_rows :: "json \<Rightarrow> dict list" where
  "recent_rows body =
     (case body of
        JObj b \<Rightarrow>
          (case dget b ''filings'' of
             JObj filings \<Rightarrow>
               (case dget filings ''recent'' of
                  JObj recent \<Rightarrow>
                    (let columns = List.map_filter (\<lambda>(k, v). case v of JList xs \<Rightarrow> Some (k, xs) | _ \<Rightarrow> None) recent in
                     case map (length \<circ> snd) columns of
                       [] \<Rightarrow> []
                     | n # ns \<Rightarrow> map (\<lambda>i. map (\<lambda>(k, xs). (k, xs ! i)) columns) [0..<fold min ns n])
                | _ \<Rightarrow> [])
           | _ \<Rightarrow> [])
      | _ \<Rightarrow> [])"

definition sec_legacy_row :: "pylib \<Rightarrow> string \<Rightarrow> string \<Rightarrow> dict \<Rightarrow> (string + legacy_item) res" where
  "sec_legacy_row lib ticker cik row =
     (case (safe_identifier 255 (dget row ''accessionNumber''), safe_identifier 50 (dget row ''form''), iso_timestamp lib (dget row ''filingDate'')) of
        (Some accession, Some form, Some published_at) \<Rightarrow>
          (case safe_identifier 255 (dget row ''primaryDocument'') of
             None \<Rightarrow> Inr (Inl ''provider_item_reference_invalid'')
           | Some document \<Rightarrow>
               legacy_factual lib ''sec_edgar'' ''submissions_recent''
                 [(''provider_item_id'', JStr accession), (''published_at'', JStr published_at), (''ticker'', JStr (upper ticker)),
                  (''cik'', JStr (zfill10 cik)), (''accession_number'', JStr accession), (''form'', JStr form),
                  (''filing_date'', JStr (str_of lib (dget row ''filingDate''))), (''primary_document'', JStr document),
                  (''official_url'', JStr (sec_official_url (zfill10 cik) accession document)), (''official_source'', JBool True)]
                 (\<lambda>p. \<lparr>lit_id = accession, lit_published_at = published_at,
                    lit_metadata = [(''provider_item_id'', JStr accession), (''published_at'', JStr published_at),
                      (''field_names'', field_names_json row), (''ticker'', JStr (upper ticker)), (''form'', JStr form),
                      (''has_primary_document'', JBool True)],
                    lit_factual = p,
                    lit_display = display_of accession published_at (''SEC '' @ form @ '' filing'' @ dash @ upper ticker)\<rparr>))
      | _ \<Rightarrow> Inr (Inl ''provider_item_identity_invalid''))"

definition sec_response :: "pylib \<Rightarrow> ProviderFetchRequest \<Rightarrow> string \<Rightarrow> string \<Rightarrow> ProviderTransportResponse \<Rightarrow> ProviderFetchResult res" where
  "sec_response lib request ticker cik response =
     (let rows = recent_rows (rsp_body response) in
      if rows = [] then Inr (legacy_refused ''sec_edgar'' ''provider_response_shape_invalid'')
      else legacy_page lib ''sec_edgar'' ''link_only'' response (pfr_limit request) (sec_legacy_row lib ticker cik) rows)"

definition sec_fetch :: "pylib \<Rightarrow> RuntimeCredential option \<Rightarrow> transport \<Rightarrow> ProviderFetchRequest \<Rightarrow> ProviderFetchResult res" where
  "sec_fetch lib credential send request =
     (if \<not> has_credential ''SEC_USER_AGENT'' credential then Inr (legacy_config_invalid ''sec_edgar'' ''provider_runtime_credential_missing'')
      else case (safe_identifier 12 (dget (pfr_config request) ''ticker''), safe_identifier 10 (dget (pfr_config request) ''cik'')) of
        (Some ticker, Some cik) \<Rightarrow>
          (if \<not> (1 \<le> pfr_limit request \<and> pfr_limit request \<le> 10) \<or> \<not> list_all is_digit cik
           then Inr (legacy_config_invalid ''sec_edgar'' ''provider_config_invalid'')
           else
             legacy_transport ''sec_edgar'' (legacy_send lib send request ''sec_edgar'' ''submissions'' [(''cik'', JStr (zfill10 cik))])
               (status_error ''sec_edgar'')
               (sec_response lib request ticker cik))
      | _ \<Rightarrow> Inr (legacy_config_invalid ''sec_edgar'' ''provider_config_invalid''))"

subsection \<open>Marketaux\<close>

text \<open>\<open>float(timeout)\<close> and its minimum with the timeout of the request.\<close>

definition marketaux_timeout :: "json \<Rightarrow> rat \<Rightarrow> pyfloat res" where
  "marketaux_timeout v limit =
     (case v of
        JInt n \<Rightarrow> (if float_overflow n then Inl (OverflowError ''int too large to convert to float'') else Inr (FFin (min (of_int n) limit)))
      | JFloat (FFin r) \<Rightarrow> Inr (FFin (min r limit))
      | JFloat (FInf True) \<Rightarrow> Inr (FFin limit)
      | JFloat x \<Rightarrow> Inr x
      | _ \<Rightarrow> Inl (TypeError ''timeout_seconds''))"

definition timeout_invalid :: "json \<Rightarrow> bool" where
  "timeout_invalid v =
     (case v of
        JInt n \<Rightarrow> n \<le> 0
      | JFloat (FFin r) \<Rightarrow> r \<le> 0
      | JFloat (FInf upward) \<Rightarrow> \<not> upward
      | JFloat FNan \<Rightarrow> False
      | _ \<Rightarrow> True)"

definition symbols_invalid :: "json \<Rightarrow> bool" where
  "symbols_invalid v =
     (case v of
        JNull \<Rightarrow> False
      | JList xs \<Rightarrow> xs = [] \<or> length xs > 10 \<or> \<not> list_all (\<lambda>x. req_str x (\<lambda>s. s \<noteq> [] \<and> \<not> secret_search s)) xs
      | _ \<Rightarrow> True)"

definition marketaux_request_error :: "pylib \<Rightarrow> time \<Rightarrow> ProviderFetchRequest \<Rightarrow> string option" where
  "marketaux_request_error lib now request =
     (let config = pfr_config request in
      if pfr_limit request < 1 \<or> pfr_limit request > 3 then Some ''provider_record_limit_invalid''
      else if pfr_deadline_at request \<le> now then Some ''provider_deadline_invalid''
      else if \<not> keys_of config \<subseteq> {''query'', ''language'', ''symbols'', ''timeout_seconds''} then Some ''provider_config_fields_invalid''
      else if list_ex (\<lambda>(k, v). secret_search k \<or> secret_search (str_of lib v)) config then Some ''provider_config_unsafe''
      else if timeout_invalid (dget_default config ''timeout_seconds'' (JFloat (FFin 10))) then Some ''provider_timeout_invalid''
      else if \<not> opt_str (dget config ''language'') (\<lambda>s. s \<noteq> [] \<and> \<not> secret_search s) then Some ''provider_language_invalid''
      else if symbols_invalid (dget config ''symbols'') then Some ''provider_symbols_invalid''
      else None)"

definition decode_legacy_cursor :: "pylib \<Rightarrow> string \<Rightarrow> (string \<times> string) option" where
  "decode_legacy_cursor lib cursor =
     (case json_loads lib cursor of
        Some (JObj d) \<Rightarrow>
          (case (dget d ''published_at'', dget d ''provider_item_id'') of
             (JStr published_at, JStr item_id) \<Rightarrow>
               (if secret_search published_at \<or> secret_search item_id then None else Some (published_at, item_id))
           | _ \<Rightarrow> None)
      | _ \<Rightarrow> None)"

text \<open>The instant printed by \<open>strftime\<close> to the second.\<close>

definition published_after :: "pylib \<Rightarrow> string \<Rightarrow> string option res" where
  "published_after lib s =
     (case fromisoformat lib (replace_Z s) of
        Some (t, True) \<Rightarrow>
          (if \<not> in_datetime_range t then Inl (OverflowError ''date value out of range'')
           else Inr (Some (strftime_date t @ ''T'' @ dec 2 (hour_of t) @ '':'' @ dec 2 (nat (t mod us_hour div 60000000)) @ '':''
             @ dec 2 (nat (t mod 60000000 div 1000000)))))
      | _ \<Rightarrow> Inr None)"

definition cursor_params :: "pylib \<Rightarrow> ProviderFetchRequest \<Rightarrow> dict option res" where
  "cursor_params lib request =
     (case pfr_cursor request of
        None \<Rightarrow> Inr (Some [])
      | Some c \<Rightarrow>
          (case decode_legacy_cursor lib c of
             None \<Rightarrow> Inr None
           | Some k \<Rightarrow> bindR (published_after lib (fst k)) (\<lambda>p. Inr (map_option (\<lambda>s. [(''published_after'', JStr s)]) p))))"

definition marketaux_legacy_params :: "pylib \<Rightarrow> ProviderFetchRequest \<Rightarrow> dict" where
  "marketaux_legacy_params lib request =
     (let config = pfr_config request in
      [(''search'', JStr (str_of lib (dget_default config ''query'' (JStr [])))), (''limit'', JInt (pfr_limit request)), (''page'', JInt 1)]
      @ (case dget config ''language'' of JStr s \<Rightarrow> (if s = [] then [] else [(''language'', JStr s)]) | _ \<Rightarrow> [])
      @ (case dget config ''symbols'' of
           JList xs \<Rightarrow> (if xs = [] then [] else [(''symbols'', JStr (join_with '','' (map (str_of lib) xs)))])
         | _ \<Rightarrow> []))"

definition marketaux_status_error :: "pylib \<Rightarrow> ProviderTransportResponse \<Rightarrow> ProviderFetchResult option" where
  "marketaux_status_error lib response =
     (if rsp_status_code response = 429
      then Some (failed_with ''marketaux'' 1 ((adapter_error RATE_LIMITED ''provider_rate_limited'' True)
             \<lparr>pae_retry_after_seconds := retry_after lib (rsp_headers response)\<rparr>))
      else status_error ''marketaux'' response)"

definition marketaux_legacy_row :: "pylib \<Rightarrow> dict \<Rightarrow> json \<Rightarrow> (string + legacy_item) res" where
  "marketaux_legacy_row lib config v =
     bindR (sanitize_item lib (case v of JObj row \<Rightarrow> row | _ \<Rightarrow> [])) (\<lambda>x.
       case x of
         None \<Rightarrow> Inr (Inl ''provider_item_identity_invalid'')
       | Some it \<Rightarrow>
           let item_id = sit_provider_item_id it; published_at = sit_published_at it;
               named = [(''provider_item_id'', JStr item_id), (''published_at'', JStr published_at)] in
           legacy_factual lib ''marketaux'' ''news_all''
             (named @ [(''title'', opt_text (sit_display_title it)), (''canonical_url'', opt_text (sit_display_url it)),
               (''source_identity'', opt_text (sit_source_identity it)), (''query'', dget config ''query''),
               (''language'', dget config ''language''), (''symbols'', dget config ''symbols''),
               (''description_coverage'', JStr ''blocked''), (''snippet_coverage'', JStr ''blocked'')])
             (\<lambda>p. \<lparr>lit_id = item_id, lit_published_at = published_at,
                lit_metadata = named @ [(''field_names'', JList (map JStr (sit_field_names it))),
                  (''has_title'', JBool (sit_display_title it \<noteq> None)), (''has_description'', JBool False), (''has_snippet'', JBool False),
                  (''has_source_url'', JBool (sit_display_url it \<noteq> None))],
                lit_factual = p,
                lit_display = named @ (case sit_display_title it of None \<Rightarrow> [] | Some t \<Rightarrow> [(''display_title'', JStr t)])
                  @ (case sit_display_url it of None \<Rightarrow> [] | Some u \<Rightarrow> [(''display_url'', JStr u)])\<rparr>))"

definition response_items :: "json \<Rightarrow> json list option" where
  "response_items body =
     (case body of
        JObj b \<Rightarrow>
          (case dget b ''data'' of
             JList xs \<Rightarrow> (if list_all (\<lambda>x. case x of JObj _ \<Rightarrow> True | _ \<Rightarrow> False) xs then Some xs else None)
           | _ \<Rightarrow> None)
      | _ \<Rightarrow> None)"

definition marketaux_response :: "pylib \<Rightarrow> ProviderFetchRequest \<Rightarrow> ProviderTransportResponse \<Rightarrow> ProviderFetchResult res" where
  "marketaux_response lib request response =
     (case response_items (rsp_body response) of
        None \<Rightarrow> Inr (legacy_refused ''marketaux'' ''provider_response_shape_invalid'')
      | Some [] \<Rightarrow> Inr (legacy_refused ''marketaux'' ''provider_response_empty'')
      | Some items \<Rightarrow>
          legacy_page lib ''marketaux'' ''metadata_only'' response (pfr_limit request) (marketaux_legacy_row lib (pfr_config request)) items)"

definition marketaux_fetch :: "pylib \<Rightarrow> time \<Rightarrow> transport \<Rightarrow> ProviderFetchRequest \<Rightarrow> ProviderFetchResult res" where
  "marketaux_fetch lib now send request =
     (case marketaux_request_error lib now request of
        Some message \<Rightarrow> Inr (legacy_config_invalid ''marketaux'' message)
      | None \<Rightarrow>
          bindR (marketaux_timeout (dget_default (pfr_config request) ''timeout_seconds'' (JFloat (FFin 10))) (pfr_request_timeout_seconds request))
            (\<lambda>timeout.
          bindR (cursor_params lib request) (\<lambda>cursor.
            case cursor of
              None \<Rightarrow> Inr (legacy_config_invalid ''marketaux'' ''provider_cursor_invalid'')
            | Some after \<Rightarrow>
                bindR (new_transport_request lib
                         \<lparr>ptr_provider = ''marketaux'', ptr_operation = ''news_all'', ptr_params = marketaux_legacy_params lib request @ after,
                          ptr_timeout_seconds = timeout, ptr_max_response_bytes = pfr_max_response_bytes request\<rparr>) (\<lambda>q.
                  legacy_transport ''marketaux'' (send q) (marketaux_status_error lib) (marketaux_response lib request)))))"

definition marketaux_real_fetch :: "pylib \<Rightarrow> time \<Rightarrow> RuntimeCredential option \<Rightarrow> transport \<Rightarrow> ProviderFetchRequest \<Rightarrow> ProviderFetchResult res" where
  "marketaux_real_fetch lib now credential send request =
     (if \<not> has_credential ''MARKETAUX_API_TOKEN'' credential
      then Inr (legacy_config_invalid ''marketaux'' ''provider_runtime_credential_missing'')
      else marketaux_fetch lib now send request)"

subsection \<open>The adapter of an operation\<close>

fun adapter_fetch :: "pylib \<Rightarrow> time \<Rightarrow> RuntimeCredential option \<Rightarrow> transport \<Rightarrow> adapter_kind \<Rightarrow> ProviderFetchRequest \<Rightarrow> ProviderFetchResult res" where
  "adapter_fetch lib now credential send (BreadthAdapter provider operation) request = breadth_fetch lib provider operation credential send request"
| "adapter_fetch lib now credential send MarketauxRealAdapter request = marketaux_real_fetch lib now credential send request"
| "adapter_fetch lib now credential send FinnhubAdapter request = quote_fetch lib credential send request"
| "adapter_fetch lib now credential send EiaAdapter request = eia_fetch lib credential send request"
| "adapter_fetch lib now credential send SecEdgarAdapter request = sec_fetch lib credential send request"

end
