(* ===== verification/Adapter_Contracts.thy ===== *)
theory Adapter_Contracts
  imports Breadth_Pages Legacy_Adapters
begin

text \<open>
  The contract that every adapter of the factory keeps with the worker, whichever operation it serves: a result either reports one error and
  carries nothing, or carries normal facts with their raw items within the limit of the request.
\<close>

definition empty_failure :: "ProviderFetchResult \<Rightarrow> bool" where
  "empty_failure r = (length (pres_safe_errors r) = 1 \<and> pres_raw_items r = [] \<and> pres_sanitized_metadata r = []
     \<and> pres_factual_projections r = [] \<and> pres_next_cursor r = None \<and> \<not> pres_has_more r \<and> pres_continuation r = None)"

definition normal_facts :: "pylib \<Rightarrow> string \<Rightarrow> string \<Rightarrow> int \<Rightarrow> ProviderFetchResult \<Rightarrow> bool" where
  "normal_facts lib provider operation limit r = (pres_safe_errors r = []
     \<and> list_all (\<lambda>p. validate_factual_payload lib provider operation 1 p = Inr p) (pres_factual_projections r)
     \<and> length (pres_raw_items r) = length (pres_factual_projections r)
     \<and> length (pres_sanitized_metadata r) = length (pres_factual_projections r)
     \<and> int (length (pres_factual_projections r)) \<le> limit)"

definition result_ok :: "pylib \<Rightarrow> string \<Rightarrow> string \<Rightarrow> int \<Rightarrow> int \<Rightarrow> ProviderFetchResult \<Rightarrow> bool" where
  "result_ok lib provider operation version limit r = (pres_provider r = provider \<and> pres_contract_version r = version
     \<and> (empty_failure r \<or> normal_facts lib provider operation limit r))"

lemma failed_ok [simp]:
  "result_ok lib provider operation 1 limit (failed_with provider 1 e)"
  "result_ok lib provider operation 1 limit (adapter_failed provider code message retryable)"
  "result_ok lib provider operation 1 limit (legacy_refused provider message)"
  "result_ok lib provider operation 1 limit (legacy_config_invalid provider message)"
  "result_ok lib provider operation 2 limit (breadth_failed provider code message retryable)"
  by (simp_all add: result_ok_def empty_failure_def failed_with_def adapter_failed_def legacy_refused_def legacy_config_invalid_def
      breadth_failed_def)

lemma response_error_ok: "response_error provider status = Some r \<Longrightarrow> result_ok lib provider operation 1 limit r"
  by (auto simp: response_error_def split: if_splits)

lemma legacy_transport_ok:
  assumes "legacy_transport provider answer status parse = Inr r"
    and "\<And>response e. status response = Some e \<Longrightarrow> result_ok lib provider operation 1 limit e"
    and "\<And>response q. parse response = Inr q \<Longrightarrow> result_ok lib provider operation 1 limit q"
  shows "result_ok lib provider operation 1 limit r"
  using assms(1) by (auto simp: legacy_transport_def intro: assms(2,3) split: transport_answer.splits option.splits)

lemma legacy_rows_Cons:
  "legacy_rows f (row # rows) = Inr (Inr L) \<longleftrightarrow> (\<exists>item rest. f row = Inr (Inr item) \<and> legacy_rows f rows = Inr (Inr rest) \<and> L = item # rest)"
  by (cases "f row"; cases "projr (f row)"; cases "legacy_rows f rows"; cases "projr (legacy_rows f rows)") auto

lemma legacy_rows_items:
  "legacy_rows f rows = Inr (Inr items) \<Longrightarrow> length items = length rows \<and> (\<forall>i\<in>set items. \<exists>row. f row = Inr (Inr i))"
proof (induction rows arbitrary: items)
  case (Cons row rows)
  from Cons.prems obtain item rest where "f row = Inr (Inr item)" "legacy_rows f rows = Inr (Inr rest)" "items = item # rest"
    unfolding legacy_rows_Cons by blast
  with Cons.IH [OF this(2)] show ?case by auto
qed simp

definition normal_item :: "pylib \<Rightarrow> string \<Rightarrow> string \<Rightarrow> legacy_item \<Rightarrow> bool" where
  "normal_item lib provider operation i = (validate_factual_payload lib provider operation 1 (lit_factual i) = Inr (lit_factual i))"

lemma legacy_factual_normal:
  assumes "iso_laws lib" and "legacy_factual lib provider operation payload item = Inr (Inr i)" and "\<And>p. lit_factual (item p) = p"
  shows "normal_item lib provider operation i"
proof -
  obtain q where "validate_factual_payload lib provider operation 1 payload = Inr q" "i = item q"
    using assms(2) by (auto simp: legacy_factual_def split: sum.splits exn.splits)
  with validated_fix [OF assms(1)] show ?thesis by (auto simp: normal_item_def assms(3))
qed

lemma legacy_result_ok:
  assumes "legacy_result lib provider retention response has_more items = Inr r"
    and "\<And>i. i \<in> set items \<Longrightarrow> normal_item lib provider operation i" and "int (length items) \<le> limit"
  shows "result_ok lib provider operation 1 limit r"
proof -
  have "pres_factual_projections r = map lit_factual items" "length (pres_raw_items r) = length items"
    "pres_sanitized_metadata r = map lit_metadata items" "pres_safe_errors r = []" "pres_provider r = provider" "pres_contract_version r = 1"
    using assms(1) unfolding legacy_result_def by (auto dest!: new_fetch_result_Inr)
  with assms(2,3) show ?thesis by (simp add: result_ok_def normal_facts_def normal_item_def list_all_iff)
qed

lemma legacy_page_ok:
  assumes "legacy_page lib provider retention response limit f rows = Inr r" and "0 \<le> limit"
    and "\<And>row i. f row = Inr (Inr i) \<Longrightarrow> normal_item lib provider operation i"
  shows "result_ok lib provider operation 1 limit r"
proof -
  obtain x where x: "legacy_rows f (take (nat limit) rows) = Inr x"
    and r: "(case x of Inl message \<Rightarrow> Inr (legacy_refused provider message)
       | Inr items \<Rightarrow> legacy_result lib provider retention response (int (length rows) > limit) items) = Inr r"
    using assms(1) unfolding legacy_page_def bindR_Inr_iff by blast
  show ?thesis
  proof (cases x)
    case (Inr items)
    from legacy_rows_items [OF x [unfolded Inr]] have n: "length items = length (take (nat limit) rows)"
      and some: "i \<in> set items \<Longrightarrow> \<exists>row. f row = Inr (Inr i)" for i by auto
    have result: "legacy_result lib provider retention response (int (length rows) > limit) items = Inr r" using r Inr by simp
    have "int (length items) \<le> limit" using n assms(2) by simp
    with some assms(3) show ?thesis by (intro legacy_result_ok [OF result]) blast+
  qed (use r in auto)
qed

text \<open>Each version 1 adapter.\<close>

lemma eia_row_normal:
  assumes "iso_laws lib" and "eia_legacy_row lib v = Inr (Inr i)"
  shows "normal_item lib ''eia'' ''electricity_retail_sales'' i"
  using assms(2) unfolding eia_legacy_row_def Let_def
  by (auto simp: bindR_Inr_iff split: json.splits option.splits if_splits elim!: legacy_factual_normal [OF assms(1)])

lemma sec_row_normal:
  assumes "iso_laws lib" and "sec_legacy_row lib ticker cik v = Inr (Inr i)"
  shows "normal_item lib ''sec_edgar'' ''submissions_recent'' i"
  using assms(2) unfolding sec_legacy_row_def
  by (auto split: option.splits elim!: legacy_factual_normal [OF assms(1)])

lemma marketaux_row_normal:
  assumes "iso_laws lib" and "marketaux_legacy_row lib c v = Inr (Inr i)"
  shows "normal_item lib ''marketaux'' ''news_all'' i"
proof -
  obtain x where "sanitize_item lib (case v of JObj row \<Rightarrow> row | _ \<Rightarrow> []) = Inr x"
    using assms(2) unfolding marketaux_legacy_row_def bindR_Inr_iff by blast
  with assms(2) show ?thesis
    by (cases x) (auto simp: marketaux_legacy_row_def Let_def elim: legacy_factual_normal [OF assms(1)])
qed

lemma legacy_fetch_ok:
  assumes "legacy_transport provider answer (status_error provider) parse = Inr r"
    and "\<And>response q. parse response = Inr q \<Longrightarrow> result_ok lib provider operation 1 limit q"
  shows "result_ok lib provider operation 1 limit r"
  using assms(1)
  by (rule legacy_transport_ok) (auto simp: status_error_def intro: response_error_ok assms(2))

lemma eia_fetch_ok:
  assumes "iso_laws lib" and "eia_fetch lib credential send request = Inr r"
  shows "result_ok lib ''eia'' ''electricity_retail_sales'' 1 (pfr_limit request) r"
proof (cases "0 \<le> pfr_limit request")
  case True
  have "result_ok lib ''eia'' ''electricity_retail_sales'' 1 (pfr_limit request) q" if "eia_response lib request response = Inr q" for response q
    using that legacy_page_ok [OF _ True eia_row_normal [OF assms(1)]] by (auto simp: eia_response_def Let_def split: if_splits)
  with assms(2) show ?thesis unfolding eia_fetch_def by (auto split: if_splits elim: legacy_fetch_ok)
qed (use assms(2) in \<open>auto simp: eia_fetch_def split: if_splits\<close>)

lemma sec_fetch_ok:
  assumes "iso_laws lib" and "sec_fetch lib credential send request = Inr r"
  shows "result_ok lib ''sec_edgar'' ''submissions_recent'' 1 (pfr_limit request) r"
proof (cases "0 \<le> pfr_limit request")
  case True
  have "result_ok lib ''sec_edgar'' ''submissions_recent'' 1 (pfr_limit request) q" if "sec_response lib request t c response = Inr q" for response t c q
    using that legacy_page_ok [OF _ True sec_row_normal [OF assms(1)]] by (auto simp: sec_response_def Let_def split: if_splits)
  with assms(2) show ?thesis unfolding sec_fetch_def by (auto split: if_splits option.splits elim: legacy_fetch_ok)
qed (use assms(2) in \<open>auto simp: sec_fetch_def split: if_splits option.splits\<close>)

lemma quote_page_ok:
  assumes "iso_laws lib" and "quote_page lib symbol response body timestamp published_at = Inr r" and "1 \<le> limit"
  shows "result_ok lib ''finnhub'' ''quote'' 1 limit r"
proof -
  obtain finite where finite: "mapR (\<lambda>k. quote_number (dget body k)) QUOTE_FIELDS = Inr finite"
    using assms(2) unfolding quote_page_def bindR_Inr_iff by blast
  show ?thesis
  proof (cases "False \<in> set finite \<or> list_all (\<lambda>k. num_of (dget body k) = Some 0) QUOTE_FIELDS")
    case True
    with assms(2) finite show ?thesis unfolding quote_page_def by (auto split: if_splits)
  next
    case False
    have "\<exists>payload item x. legacy_factual lib ''finnhub'' ''quote'' payload item = Inr x \<and> (\<forall>p. lit_factual (item p) = p)
      \<and> (case x of Inl message \<Rightarrow> Inr (legacy_refused ''finnhub'' message)
         | Inr item \<Rightarrow> legacy_result lib ''finnhub'' ''metadata_only'' response False [item]) = Inr r"
    proof -
      have "False \<notin> set finite" "\<not> list_all (\<lambda>k. num_of (dget body k) = Some 0) QUOTE_FIELDS" using False by auto
      from assms(2) [unfolded quote_page_def finite bindR_simps Let_def if_not_P [OF this(1)] if_not_P [OF this(2)] bindR_Inr_iff]
      show ?thesis by (elim exE conjE) (intro exI conjI, assumption, simp, assumption)
    qed
    then obtain payload item x where x: "legacy_factual lib ''finnhub'' ''quote'' payload item = Inr x" "\<And>p. lit_factual (item p) = p"
      and r: "(case x of Inl message \<Rightarrow> Inr (legacy_refused ''finnhub'' message)
         | Inr item \<Rightarrow> legacy_result lib ''finnhub'' ''metadata_only'' response False [item]) = Inr r" by blast
    show ?thesis
    proof (cases x)
      case (Inr i)
      from legacy_factual_normal [OF assms(1) x(1) [unfolded Inr] x(2)] show ?thesis
        using r Inr assms(3) by (intro legacy_result_ok [of lib "''finnhub''" _ response False "[i]"]) auto
    qed (use r in auto)
  qed
qed

lemma marketaux_response_ok:
  assumes "iso_laws lib" and "marketaux_response lib request response = Inr r" and "0 \<le> pfr_limit request"
  shows "result_ok lib ''marketaux'' ''news_all'' 1 (pfr_limit request) r"
  using assms(2) legacy_page_ok [OF _ assms(3) marketaux_row_normal [OF assms(1)]]
  by (auto simp: marketaux_response_def split: option.splits list.splits)

lemma marketaux_status_ok:
  "marketaux_status_error lib response = Some r \<Longrightarrow> result_ok lib ''marketaux'' ''news_all'' 1 limit r"
  by (auto simp: marketaux_status_error_def status_error_def intro: response_error_ok split: if_splits)

lemma marketaux_fetch_ok:
  assumes "iso_laws lib" and "marketaux_fetch lib now send request = Inr r"
  shows "result_ok lib ''marketaux'' ''news_all'' 1 (pfr_limit request) r"
proof (cases "marketaux_request_error lib now request")
  case None
  then have limit: "0 \<le> pfr_limit request" by (auto simp: marketaux_request_error_def Let_def split: if_splits)
  obtain timeout cursor where t: "marketaux_timeout (dget_default (pfr_config request) ''timeout_seconds'' (JFloat (FFin 10)))
      (pfr_request_timeout_seconds request) = Inr timeout" and c: "cursor_params lib request = Inr cursor"
    using assms(2) None unfolding marketaux_fetch_def by (auto simp: bindR_Inr_iff)
  show ?thesis
  proof (cases cursor)
    case (Some after)
    then obtain q where "legacy_transport ''marketaux'' (send q) (marketaux_status_error lib) (marketaux_response lib request) = Inr r"
      using assms(2) None t c unfolding marketaux_fetch_def by (auto simp: bindR_Inr_iff)
    then show ?thesis by (rule legacy_transport_ok) (auto intro: marketaux_status_ok marketaux_response_ok assms(1) limit)
  qed (use assms(2) None t c in \<open>auto simp: marketaux_fetch_def\<close>)
qed (use assms(2) in \<open>auto simp: marketaux_fetch_def\<close>)

lemma quote_fetch_ok:
  assumes "iso_laws lib" and "quote_fetch lib credential send request = Inr r"
  shows "result_ok lib ''finnhub'' ''quote'' 1 (pfr_limit request) r"
proof -
  have "result_ok lib ''finnhub'' ''quote'' 1 1 q" if "quote_response lib symbol response = Inr q" for symbol response q
    using that unfolding quote_response_def
    by (auto simp: bindR_Inr_iff split: json.splits bool.splits option.splits if_splits elim!: quote_page_ok [OF assms(1)])
  with assms(2) show ?thesis unfolding quote_fetch_def by (auto split: if_splits option.splits elim!: legacy_fetch_ok)
qed

text \<open>The bounded adapters.\<close>

lemma fetched_page_shape:
  "fetched_page lib provider operation f request response = Inr r \<Longrightarrow>
     pres_safe_errors r = [] \<and> pres_provider r = provider \<and> pres_contract_version r = 2
     \<and> length (pres_raw_items r) = length (pres_sanitized_metadata r)"
  unfolding fetched_page_def Let_def by (auto simp: bindR_Inr_iff dest!: new_fetch_result_Inr mapR_Inr_length)

lemma refused_response_ok:
  "response_error provider status = Some e \<Longrightarrow> result_ok lib provider operation 2 limit (refused_response lib e response)"
  by (auto simp: response_error_def refused_response_def result_ok_def empty_failure_def adapter_failed_def failed_with_def split: if_splits)

lemma breadth_fetch_ok:
  assumes "iso_laws lib" and "breadth_fetch lib provider operation credential send request = Inr r"
  shows "result_ok lib provider operation 2 (pfr_limit request) r"
proof (cases "prepare_fetch lib provider operation credential request")
  case (Inr f)
  have page: "result_ok lib provider operation 2 (pfr_limit request) q" if "fetched_page lib provider operation f request response = Inr q" for response q
  proof -
    note contract = fetched_page_contract [OF assms(1) that prepared_limit [OF Inr]]
    then have "length (map env_external_id (pres_raw_items q)) = length (map (Some \<circ> payload_identity) (pres_factual_projections q))" by metis
    with contract fetched_page_shape [OF that] show ?thesis by (simp add: result_ok_def normal_facts_def)
  qed
  have handled: "result_ok lib provider operation 2 (pfr_limit request) q" if "handle_response lib provider operation f request response = Inr q" for response q
    using that unfolding handle_response_def
    by (auto intro: page refused_response_ok split: option.splits sum.splits if_splits)
  from assms(2) Inr show ?thesis unfolding breadth_fetch_def by (auto intro: handled split: transport_answer.splits)
qed (use assms(2) in \<open>auto simp: breadth_fetch_def split: if_splits\<close>)

subsection \<open>Properties\<close>

text \<open>Property C39.  Whatever adapter the factory builds for a provider, an operation and a contract version, a result it returns names that
  provider and that version, and is either one safe error with nothing else, or facts that are normal forms of the contract of that provider
  and operation, each with its raw item and its metadata, at most as many as the request allows.\<close>

theorem built_adapter_keeps_contract:
  assumes "iso_laws lib" and "adapter_build provider operation version = Inr kind"
    and "adapter_fetch lib now credential send kind request = Inr r"
  shows "result_ok lib provider operation version (pfr_limit request) r"
proof -
  consider "kind = BreadthAdapter provider operation" "version = 2"
    | "kind = MarketauxRealAdapter" "version = 1" "provider = ''marketaux''" "operation = ''news_all''"
    | "kind = FinnhubAdapter" "version = 1" "provider = ''finnhub''" "operation = ''quote''"
    | "kind = EiaAdapter" "version = 1" "provider = ''eia''" "operation = ''electricity_retail_sales''"
    | "kind = SecEdgarAdapter" "version = 1" "provider = ''sec_edgar''" "operation = ''submissions_recent''"
    using assms(2) unfolding adapter_build_def by (auto split: if_splits)
  then show ?thesis
    by cases (use assms(3) in \<open>auto simp: marketaux_real_fetch_def breadth_fetch_ok [OF assms(1)] quote_fetch_ok [OF assms(1)]
      eia_fetch_ok [OF assms(1)] sec_fetch_ok [OF assms(1)] marketaux_fetch_ok [OF assms(1)] split: if_splits\<close>)
qed

theorem built_adapter_keeps_contract_witness:
  "\<exists>kind r. adapter_build ''eia'' ''electricity_retail_sales'' 2 = Inr kind
    \<and> adapter_fetch fetch_lib 0 (Some \<lparr>rc_name = ''EIA_API_KEY'', rc_value = ''k''\<rparr>)
        (\<lambda>_. Answered \<lparr>rsp_status_code = 200, rsp_received_at = 5, rsp_body = sample_retail, rsp_headers = []\<rparr>) kind sample_fetch_request = Inr r
    \<and> pres_safe_errors r = [] \<and> length (pres_factual_projections r) = 1 \<and> result_ok fetch_lib ''eia'' ''electricity_retail_sales'' 2 1 r"
proof -
  have "case sample_fetch of Inl _ \<Rightarrow> False | Inr r \<Rightarrow> pres_safe_errors r = [] \<and> length (pres_factual_projections r) = 1" by code_simp
  then obtain r where r: "sample_fetch = Inr r" "pres_safe_errors r = []" "length (pres_factual_projections r) = 1" by (auto split: sum.splits)
  have kind: "adapter_build ''eia'' ''electricity_retail_sales'' 2 = Inr (BreadthAdapter ''eia'' ''electricity_retail_sales'')" by code_simp
  have fetch: "adapter_fetch fetch_lib 0 (Some \<lparr>rc_name = ''EIA_API_KEY'', rc_value = ''k''\<rparr>)
      (\<lambda>_. Answered \<lparr>rsp_status_code = 200, rsp_received_at = 5, rsp_body = sample_retail, rsp_headers = []\<rparr>)
      (BreadthAdapter ''eia'' ''electricity_retail_sales'') sample_fetch_request = Inr r" using r(1) by simp
  have "pfr_limit sample_fetch_request = 1" by (simp add: sample_fetch_request_def)
  with built_adapter_keeps_contract [OF fetch_lib_laws kind fetch] kind fetch r show ?thesis by metis
qed

end
