(* ===== verification/Spec2Isabelle.thy ===== *)
theory Spec2Isabelle
  imports Delivery Worker_Protocol Event_Candidates Link_Lifecycle Evidence_Pipeline Evidence_Intake Rich_Packets Breadth_Pages Adapter_Contracts
begin

text \<open>
  \<^bold>\<open>Verification of the market intelligence collector\<close>

  The program (\<open>src/src/market_intelligence\<close>) collects records from news and energy data providers, keeps a
  checked factual projection of each record, and notifies about new content.  Its parts share one relational
  database and one Redis server and run as independent processes: a scheduler that claims due collection targets, workers
  that execute the claims, a projection worker that validates what was stored, and an outbox that delivers
  notifications.  Every interaction between them goes through a database transaction or an atomic Redis command, so a
  part is modelled as a function from a state to a result and the composition as interleaved steps.

  \<^bold>\<open>Conventions.\<close>  A row of \<open>db/models.py\<close> is a record with the columns of its table, a table is a list of rows, and
  \<^typ>\<open>db\<close> is the record of the tables.  Integers are \<^typ>\<open>int\<close> as in Python; an instant is a number of microseconds.
  Exceptions are values of \<open>exn\<close> in the sum type \<open>'a res\<close>, with the subclass relation that the handlers rely on.  A transaction
  is a function that returns \<open>Inl e\<close> when it raises; the database is then unchanged, as after a rollback.  What the program takes from outside
  is an argument: \<open>pylib\<close> (JSON, SHA-256, ISO dates, UUID and URL parsing), \<open>redis_api\<close> (the Redis commands, with their
  documented laws as the locale \<open>redis_laws\<close>), the identifiers that the database generates, the guard trigger on
  continuations, the answers of a provider adapter and the actions of other processes.

  \<^bold>\<open>Theories.\<close>
    \<^item> \<open>Prelude\<close>: exceptions, JSON values, Python dictionaries and strings, lists, decimal text; \<open>Transition_Systems\<close>: the locale of
      a step relation with an invariant, instantiated by every state machine; \<open>Calendar\<close>: the proleptic Gregorian calendar.
    \<^item> \<open>Schema\<close> (\<open>db/models.py\<close>): enums, rows, check constraints, unique indexes; \<open>Samples\<close>: rows and a library for the
      closed instances.
    \<^item> \<open>Cursors\<close> (\<open>collection/cursors.py\<close>): decoding and the cursor decision; accepted checkpoints never move backward.
    \<^item> \<open>Intent\<close>, \<open>Delivery\<close> (\<open>notifications\<close>): candidates, deduplicated intents, reconciliation, claim, retry with backoff and
      settlement.  The outbox is a state machine: bounded attempts, unique keys, settled rows never change, a pass settles
      exactly its claims.
    \<^item> \<open>Safe_Projection\<close>, \<open>Projection_Worker\<close> (\<open>safe_projection\<close>): the field normalisers, six payload contracts, the quality
      classes and the worker.  Validated payloads are fixed points free of secrets; ready rows carry the hash of their
      payload; the worker terminates.
    \<^item> \<open>Provider_Contracts\<close>, \<open>Downstream\<close> (\<open>providers/contracts.py\<close>, \<open>collection/downstream.py\<close>): requests, results and the
      idempotent persistence of a fetch result, which the projection worker then accepts.
    \<^item> \<open>Windows\<close> (\<open>providers/windows.py\<close>): validation and resolution of collection windows; a resolved window validates and
      resolves to itself, consecutive rolling windows leave no gap.
    \<^item> \<open>Operation_Config\<close> (\<open>collection/target_configs.py\<close>, \<open>providers/breadth_config.py\<close>, \<open>operation_policy.py\<close>,
      \<open>credential_resolver.py\<close>, \<open>collection/adapter_factory.py\<close>): the operation registry with its validators, budgets, credentials
      and adapters.
    \<^item> \<open>Continuation\<close> (\<open>providers/continuation.py\<close>): the stored continuation, a codec bound to lineage, window and configuration.
    \<^item> \<open>Target_Repository\<close> (\<open>collection/target_repository.py\<close>): exact reload, compare-and-swap revision, pausing and abandoning
      continuations, keyset pages of due targets.
    \<^item> \<open>Collection_Runs\<close> (\<open>collection/control_plane.py\<close>): the transactions on runs, targets and cursors with the triggers of
      \<open>alembic/versions/0009\<close>, composed to the state machine \<open>control_step\<close>; its invariant bounds retries and requests and
      allows one running run per target and mode.
    \<^item> \<open>Redis_Locks\<close>, \<open>Target_Scheduler\<close>, \<open>Control_Plane\<close> (\<open>collection/control_plane.py\<close>): the lock protocol and its renewal
      loop, the scheduler's pass, and the worker \<open>execute\<close> with its page loop, every handler and the release of the lock.
      The worker keeps the invariant of the state machine whatever the adapters answer and the other processes do in between, and its
      outcome agrees with the run it leaves.
    \<^item> \<open>Worker_Protocol\<close>: the protocol of one dispatch as an abstract machine whose phases record what the worker has established, and the
      refinement by \<open>execute\<close>: it takes the lock before it writes, claims a page before it requests it, persists an answer only after the
      lock was seen to hold its token, reports the outcome of the transaction that ended the run, and gives the lock back.
    \<^item> \<open>Event_Matching\<close>, \<open>Event_Candidates\<close> (\<open>event_intelligence\<close>): the features of a linked projection, the weighted match score, the
      bounded retrieval of candidates, and the transactions that attach evidence to an event and recompute its aggregates.  The aggregates
      of every reachable event are those of its members.
    \<^item> \<open>Evidence_Schema\<close>, \<open>Link_Guards\<close> (\<open>db/models.py\<close>, \<open>alembic/versions/0009\<close>, \<open>0010\<close>): the evidence tables and the immutability triggers.
    \<^item> \<open>Evidence_Handoff\<close>, \<open>Link_Lifecycle\<close> (\<open>evidence/handoff.py\<close>): discovery, claim, linking, retry and recovery of the projection links,
      each transaction as a step of a state machine interleaved with the writes that the triggers allow.  A linked association never
      changes and the projection worker respects it.
    \<^item> \<open>Evidence_Envelope\<close>, \<open>Evidence_Mapping\<close> (\<open>evidence/contracts.py\<close>, \<open>provider_mappings.py\<close>): the evidence envelope with its validation and
      the four mappers; a mapped envelope is valid unless its event time is missing.
    \<^item> \<open>Evidence_Write\<close>, \<open>Evidence_Intake\<close> (\<open>evidence/write_path.py\<close>): the writer with its races and errors; a stored request is recognised when it
      comes again, a batch accounts for every request.
    \<^item> \<open>Evidence_Pipeline\<close> (\<open>evidence/orchestration.py\<close>, \<open>projection_store.py\<close>, \<open>pipeline_trigger.py\<close>): from a content-free projection to a write.
    \<^item> \<open>Rich_Evidence\<close>, \<open>Rich_Builder\<close>, \<open>Rich_Packets\<close> (\<open>rich_evidence/contracts.py\<close>, \<open>builder.py\<close>): the read-only packets of an evidence
      item with its linked revisions.  A packet keeps its budgets and the newest revisions, it does not depend on the order of the rows, and
      a page is one scan that the next page continues.
    \<^item> \<open>Adapter_Support\<close>, \<open>Breadth\<close>, \<open>Breadth_Adapter\<close>, \<open>Breadth_Pages\<close> (\<open>providers/adapter_support.py\<close>, \<open>breadth.py\<close>, helpers of
      \<open>marketaux.py\<close>): the bounded adapters with their request parameters, the parser of each provider and the fetch over a transport that is
      an argument.  Pages of company news partition the response; a fetch without error keeps the contract of its result.
    \<^item> \<open>Legacy_Adapters\<close>, \<open>Adapter_Contracts\<close> (\<open>providers/eia.py\<close>, \<open>finnhub.py\<close>, \<open>sec_edgar.py\<close>, \<open>marketaux.py\<close>,
      \<open>marketaux_real.py\<close>): the version 1 adapters and the adapter that the factory builds.  Every result of every adapter is one safe error
      or facts in normal form within the limit of the request.

  \<^bold>\<open>Loops and bounds.\<close>  No definition uses fuel that could run out.  The page loop recurses on the pages left of the budget
  \<open>range(pages)\<close>, at most 20 by a check constraint; the scan of the scheduler terminates by the measure of the scan budget left
  (at most 500 targets); the loops over rows are structural, and the scan over packets terminates by the scan limit left (at most 500 items).  The renewal loop is a function of the rounds it runs until it is stopped.

  \<^bold>\<open>Findings.\<close>  \<open>Control_Plane.no_new_items_with_facts_fails\<close>, \<open>Target_Scheduler.config_error_ends_pass\<close> and
  \<open>Link_Lifecycle.unready_claim_stops_batches\<close> prove behaviours of the code that its own comments and outcome names contradict: a repeated
  fetch with facts fails its run, one invalid target ends the pass of the scheduler with the markers already set, and one link whose projection is
  no longer ready makes every batch of the handoff raise.  \<open>Evidence_Intake.reference_checks_disagree\<close> shows that the writer and the table
  accept different references, \<open>Breadth_Pages.later_page_forgets_file\<close> that the facts of a filing depend on the page that finds it.

  \<^bold>\<open>Not modelled yet.\<close>  The migration gate of \<open>rich_evidence\<close>, the feeds, and the
  earlier runner and schedulers (\<open>collection/runner.py\<close>, \<open>scheduler\<close>, \<open>pipeline\<close>).  HTTP transport, Celery tasks, Telegram,
  logging, configuration, scripts and the table definitions in the migrations are input, output and wiring.
  Cancellation of a worker by its event loop, and a Redis command that fails, are not modelled.
\<close>

end
